(* ===== verification/Prelude.thy ===== *)
theory Prelude
  imports Complex_Main "HOL-Library.AList" "HOL-Library.Monad_Syntax" "HOL-Library.Multiset"
begin

text \<open>
  Shared vocabulary of the development: the collections of facts the component proofs hand
  to the simplifier, dictionaries as association lists, and generic lemmas on lists and
  dictionaries.
\<close>

named_theorems octstr_simps \<open>rewriting of byte strings and their renderings\<close>
named_theorems dict_simps \<open>lookup, size and keys of dictionaries after an update\<close>
named_theorems frame_simps \<open>what a state operation leaves unchanged\<close>
named_theorems handler_defs \<open>the definitions of the state-changing handlers\<close>

type_synonym timestamp = int

section \<open>Dictionaries\<close>

text \<open>
  A dictionary is an association list with distinct keys. Its order stands for the iteration
  order of the hash table and no theorem depends on it.
\<close>

type_synonym ('k, 'v) dict = "('k \<times> 'v) list"

definition dict_get :: "('k, 'v) dict \<Rightarrow> 'k \<Rightarrow> 'v option" where
  "dict_get d k = map_of d k"

definition dict_put :: "('k, 'v) dict \<Rightarrow> 'k \<Rightarrow> 'v \<Rightarrow> ('k, 'v) dict" where
  "dict_put d k v = AList.update k v d"

definition dict_remove :: "('k, 'v) dict \<Rightarrow> 'k \<Rightarrow> ('k, 'v) dict" where
  "dict_remove d k = AList.delete k d"

definition dict_keys :: "('k, 'v) dict \<Rightarrow> 'k list" where
  "dict_keys d = map fst d"

definition dict_key_count :: "('k, 'v) dict \<Rightarrow> nat" where
  "dict_key_count d = length d"

definition dict_wf :: "('k, 'v) dict \<Rightarrow> bool" where
  "dict_wf d \<longleftrightarrow> distinct (map fst d)"

lemma dict_get_put [dict_simps, simp]:
  "dict_get (dict_put d k v) k' = (if k' = k then Some v else dict_get d k')"
  by (simp add: dict_get_def dict_put_def update_conv')

lemma dict_get_remove [dict_simps, simp]:
  "dict_get (dict_remove d k) k' = (if k' = k then None else dict_get d k')"
  by (simp add: dict_get_def dict_remove_def delete_conv')

lemma dict_get_Nil [dict_simps, simp]: "dict_get [] k = None"
  by (simp add: dict_get_def)

lemma dict_get_Cons [dict_simps]:
  "dict_get ((k, v) # d) k' = (if k' = k then Some v else dict_get d k')"
  by (simp add: dict_get_def)

lemma dict_wf_Nil [simp]: "dict_wf []"
  by (simp add: dict_wf_def)

lemma dict_wf_put [simp, intro]: "dict_wf d \<Longrightarrow> dict_wf (dict_put d k v)"
  by (simp add: dict_wf_def dict_put_def distinct_update)

lemma dict_wf_remove [simp, intro]: "dict_wf d \<Longrightarrow> dict_wf (dict_remove d k)"
  by (simp add: dict_wf_def dict_remove_def distinct_delete)

lemma set_dict_keys [simp]: "set (dict_keys d) = dom (dict_get d)"
  by (simp add: dict_keys_def dict_get_def[abs_def] dom_map_of_conv_image_fst)

lemma dict_key_count_card:
  assumes "dict_wf d"
  shows "dict_key_count d = card (dom (dict_get d))"
  using distinct_card [of "map fst d"] assms
  by (simp add: dict_wf_def dict_key_count_def dict_get_def[abs_def] dom_map_of_conv_image_fst)

lemma finite_dom_dict_get [simp]: "finite (dom (dict_get d))"
  using finite_set [of "dict_keys d"] by simp

lemma dict_key_count_put:
  assumes "dict_wf d"
  shows "dict_key_count (dict_put d k v) =
           (if dict_get d k = None then Suc (dict_key_count d) else dict_key_count d)"
proof -
  have dom: "dom (dict_get (dict_put d k v)) = insert k (dom (dict_get d))"
    by (auto simp: dom_def)
  show ?thesis
    using assms by (simp add: dict_key_count_card dom card_insert_if domIff)
qed

lemma dict_key_count_remove:
  assumes "dict_wf d"
  shows "dict_key_count (dict_remove d k) =
           (if dict_get d k = None then dict_key_count d else dict_key_count d - 1)"
proof -
  have dom: "dom (dict_get (dict_remove d k)) = dom (dict_get d) - {k}"
    by (auto simp: dom_def split: if_splits)
  show ?thesis
    using assms by (auto simp: dict_key_count_card dom domIff card_Diff_singleton)
qed

lemma dict_remove_missing: "dict_get d k = None \<Longrightarrow> dict_remove d k = d"
  by (induction d) (auto simp: dict_get_def dict_remove_def AList.delete_eq split: if_splits)

end
