(* ===== verification/Octstr.thy ===== *)
theory Octstr
  imports Prelude "HOL-Library.Word"
begin

text \<open>
  Byte strings and the C library functions the program applies to them: an Octstr is a list
  of bytes (\<^typ>\<open>char\<close>), a nullable \<open>Octstr *\<close> is an option; character tests,
  decimal and hexadecimal rendering as printf does it (\<open>%ld\<close>, \<open>%02d\<close>,
  \<open>%02X\<close>, \<open>%03x\<close>) and number parsing as atol and strtol do it.
\<close>

type_synonym octstr = string

section \<open>Length, access and search\<close>

text \<open>The length of a null string is 0, an access out of range gives -1, a search that fails gives no position.\<close>

definition octstr_len :: "octstr option \<Rightarrow> nat" where
  "octstr_len os = (case os of None \<Rightarrow> 0 | Some s \<Rightarrow> length s)"

definition octstr_get_char :: "octstr \<Rightarrow> nat \<Rightarrow> int" where
  "octstr_get_char s i = (if i < length s then of_char (s ! i) else -1)"

fun octstr_search_char :: "octstr \<Rightarrow> char \<Rightarrow> nat option" where
  "octstr_search_char [] c = None"
| "octstr_search_char (x # xs) c =
     (if x = c then Some 0 else map_option Suc (octstr_search_char xs c))"

fun octstr_search :: "octstr \<Rightarrow> octstr \<Rightarrow> nat option" where
  "octstr_search [] p = (if p = [] then Some 0 else None)"
| "octstr_search (x # xs) p =
     (if take (length p) (x # xs) = p then Some 0 else map_option Suc (octstr_search xs p))"

definition octstr_copy :: "octstr \<Rightarrow> nat \<Rightarrow> nat \<Rightarrow> octstr" where
  "octstr_copy s from len = take len (drop from s)"

definition gw_isdigit :: "char \<Rightarrow> bool" where
  "gw_isdigit c \<longleftrightarrow> 48 \<le> (of_char c :: nat) \<and> (of_char c :: nat) \<le> 57"

definition octstr_check_range :: "octstr \<Rightarrow> nat \<Rightarrow> nat \<Rightarrow> (char \<Rightarrow> bool) \<Rightarrow> bool" where
  "octstr_check_range s from len p \<longleftrightarrow> list_all p (octstr_copy s from len)"

definition tolower :: "char \<Rightarrow> char" where
  "tolower c = (if 65 \<le> (of_char c :: nat) \<and> (of_char c :: nat) \<le> 90
                then char_of ((of_char c :: nat) + 32) else c)"

definition octstr_lower :: "octstr \<Rightarrow> octstr" where
  "octstr_lower s = map tolower s"

definition octstr_case_compare :: "octstr option \<Rightarrow> octstr option \<Rightarrow> bool" where
  "octstr_case_compare a b \<longleftrightarrow> octstr_lower (case_option [] id a) = octstr_lower (case_option [] id b)"

lemma octstr_len_simps [octstr_simps, simp]:
  "octstr_len None = 0" "octstr_len (Some s) = length s"
  by (simp_all add: octstr_len_def)

lemma octstr_len_pos: "0 < octstr_len os \<longleftrightarrow> (\<exists>s. os = Some s \<and> s \<noteq> [])"
  by (cases os) auto

lemma octstr_search_char_None: "octstr_search_char s c = None \<longleftrightarrow> c \<notin> set s"
  by (induction s) auto

lemma octstr_search_char_append:
  "c \<notin> set a \<Longrightarrow> octstr_search_char (a @ c # b) c = Some (length a)"
  by (induction a) auto

lemma of_char_less_256 [simp]: "(of_char c :: nat) < 256"
  by (metis nat_of_char_less_256)

lemma of_char_int: "(of_char c :: int) = int (of_char c)"
  by (simp add: of_nat_of_char)

lemma tolower_idem [simp]: "tolower (tolower c) = tolower c"
  by (auto simp: tolower_def)

lemma octstr_lower_idem [simp]: "octstr_lower (octstr_lower s) = octstr_lower s"
  by (simp add: octstr_lower_def)

section \<open>Rendering of numbers\<close>

definition digit_char :: "nat \<Rightarrow> char" where
  "digit_char d = char_of (48 + d)"

definition hex_upper :: "nat \<Rightarrow> char" where
  "hex_upper d = (if d < 10 then char_of (48 + d) else char_of (55 + d))"

definition hex_lower :: "nat \<Rightarrow> char" where
  "hex_lower d = (if d < 10 then char_of (48 + d) else char_of (87 + d))"

fun show_nat :: "nat \<Rightarrow> octstr" where
  "show_nat n = (if n < 10 then [digit_char n] else show_nat (n div 10) @ [digit_char (n mod 10)])"

declare show_nat.simps [simp del]

definition show_int :: "int \<Rightarrow> octstr" where
  "show_int i = (if i < 0 then CHR ''-'' # show_nat (nat (- i)) else show_nat (nat i))"

text \<open>\<open>%02d\<close> of a number below 100, \<open>%02X\<close> of a byte and \<open>%03x\<close> of an unsigned int.\<close>

definition pad2 :: "nat \<Rightarrow> octstr" where
  "pad2 n = [digit_char (n div 10 mod 10), digit_char (n mod 10)]"

definition hex02 :: "nat \<Rightarrow> octstr" where
  "hex02 b = [hex_upper (b div 16 mod 16), hex_upper (b mod 16)]"

fun show_hex :: "nat \<Rightarrow> octstr" where
  "show_hex n = (if n < 16 then [hex_lower n] else show_hex (n div 16) @ [hex_lower (n mod 16)])"

declare show_hex.simps [simp del]

definition hex03 :: "nat \<Rightarrow> octstr" where
  "hex03 n = replicate (3 - length (show_hex n)) (CHR ''0'') @ show_hex n"

section \<open>Parsing of numbers\<close>

text \<open>atol: leading white space, an optional sign, then the longest run of decimal digits; 0 when there is none.\<close>

definition c_isspace :: "char \<Rightarrow> bool" where
  "c_isspace c \<longleftrightarrow> (of_char c :: nat) = 32 \<or> (9 \<le> (of_char c :: nat) \<and> (of_char c :: nat) \<le> 13)"

definition digit_val :: "char \<Rightarrow> nat" where
  "digit_val c = of_char c - 48"

definition digits_val :: "octstr \<Rightarrow> nat" where
  "digits_val s = foldl (\<lambda>a c. a * 10 + digit_val c) 0 s"

definition atol :: "octstr \<Rightarrow> int" where
  "atol s = (case dropWhile c_isspace s of
       [] \<Rightarrow> 0
     | c # r \<Rightarrow>
         (if c = CHR ''-'' then - int (digits_val (takeWhile gw_isdigit r))
          else if c = CHR ''+'' then int (digits_val (takeWhile gw_isdigit r))
          else int (digits_val (takeWhile gw_isdigit (c # r)))))"

definition hex_nibble :: "char \<Rightarrow> nat option" where
  "hex_nibble c =
     (let n = of_char c in
      if 48 \<le> n \<and> n \<le> 57 then Some (n - 48)
      else if 65 \<le> n \<and> n \<le> 70 then Some (n - 55)
      else if 97 \<le> n \<and> n \<le> 102 then Some (n - 87)
      else None)"

text \<open>strtol with base 16: white space, a sign, the prefix \<open>0x\<close> and the longest run of hexadecimal digits.\<close>

definition hex_val :: "octstr \<Rightarrow> nat" where
  "hex_val s = foldl (\<lambda>a c. a * 16 + the (hex_nibble c)) 0 s"

definition strtol16 :: "octstr \<Rightarrow> int" where
  "strtol16 s =
     (let s1 = dropWhile c_isspace s;
          neg = (take 1 s1 = ''-'');
          s2 = (if neg \<or> take 1 s1 = ''+'' then tl s1 else s1);
          s3 = (if take 2 s2 \<in> {''0x'', ''0X''} \<and> 2 < length s2 \<and> hex_nibble (s2 ! 2) \<noteq> None
                then drop 2 s2 else s2);
          v = int (hex_val (takeWhile (\<lambda>c. hex_nibble c \<noteq> None) s3))
      in if neg then - v else v)"

lemma of_char_digit_char [simp]: "d < 10 \<Longrightarrow> (of_char (digit_char d) :: nat) = 48 + d"
  by (simp add: digit_char_def)

lemma digit_char_inj: "d < 10 \<Longrightarrow> e < 10 \<Longrightarrow> digit_char d = digit_char e \<longleftrightarrow> d = e"
  by (metis add_left_cancel of_char_digit_char)

lemma gw_isdigit_digit_char [simp]: "d < 10 \<Longrightarrow> gw_isdigit (digit_char d)"
  by (simp add: gw_isdigit_def)

lemma digit_val_digit_char [simp]: "d < 10 \<Longrightarrow> digit_val (digit_char d) = d"
  by (simp add: digit_val_def)

lemma show_nat_not_Nil [simp]: "show_nat n \<noteq> []"
  by (subst show_nat.simps) simp

lemma show_nat_digits: "list_all gw_isdigit (show_nat n)"
  by (induction n rule: show_nat.induct) (subst show_nat.simps, auto)

lemma digits_val_snoc [simp]: "digits_val (s @ [c]) = digits_val s * 10 + digit_val c"
  by (simp add: digits_val_def)

lemma digits_val_show_nat [octstr_simps, simp]: "digits_val (show_nat n) = n"
proof (induction n rule: show_nat.induct)
  case (1 n)
  show ?case
  proof (cases "n < 10")
    case True
    then show ?thesis
      by (subst show_nat.simps) (simp add: digits_val_def)
  next
    case False
    with 1 show ?thesis
      by (subst show_nat.simps) simp
  qed
qed

lemma show_nat_inj: "show_nat m = show_nat n \<longleftrightarrow> m = n"
  by (metis digits_val_show_nat)

lemma set_show_nat: "c \<in> set (show_nat n) \<Longrightarrow> gw_isdigit c"
  using show_nat_digits by (metis list.pred_set)

lemma minus_not_digit [simp]: "\<not> gw_isdigit (CHR ''-'')" "\<not> gw_isdigit (CHR ''|'')"
  "\<not> gw_isdigit (CHR '' '')" "\<not> gw_isdigit (CHR '':'')" "\<not> gw_isdigit (CHR '';'')" "\<not> gw_isdigit (CHR ''+'')"
  by (simp_all add: gw_isdigit_def)

lemma show_nat_hd_not_minus: "show_nat n \<noteq> CHR ''-'' # s"
  by (metis list.set_intros(1) minus_not_digit(1) set_show_nat)

lemma show_int_inj: "show_int i = show_int j \<longleftrightarrow> i = j"
proof (cases "i < 0"; cases "j < 0")
  assume "\<not> i < 0" "\<not> j < 0"
  then show ?thesis by (auto simp: show_int_def show_nat_inj)
qed (auto simp: show_int_def show_nat_inj show_nat_hd_not_minus show_nat_hd_not_minus [symmetric])

lemma show_int_nat [octstr_simps]: "show_int (int n) = show_nat n"
  by (simp add: show_int_def)

lemma takeWhile_digits [simp]: "takeWhile gw_isdigit (show_nat n) = show_nat n"
  by (simp add: takeWhile_eq_all_conv set_show_nat)

lemma digit_not_space: "gw_isdigit c \<Longrightarrow> \<not> c_isspace c"
  by (auto simp: gw_isdigit_def c_isspace_def)

lemma atol_show_nat [octstr_simps, simp]: "atol (show_nat n) = int n"
proof -
  obtain c r where s: "show_nat n = c # r" by (cases "show_nat n") auto
  then have "gw_isdigit c" using set_show_nat [of c n] by simp
  then have "\<not> c_isspace c" "c \<noteq> CHR ''-''" "c \<noteq> CHR ''+''"
    using digit_not_space by auto
  then have "atol (show_nat n) = int (digits_val (takeWhile gw_isdigit (show_nat n)))"
    by (simp add: atol_def s)
  then show ?thesis by simp
qed

lemma atol_show_int: "atol (show_int v) = v"
proof (cases "v < 0")
  case True
  have "dropWhile c_isspace (CHR ''-'' # s) = CHR ''-'' # s" for s by (simp add: c_isspace_def)
  then have "atol (CHR ''-'' # show_nat (nat (- v))) = - int (nat (- v))" by (simp add: atol_def)
  with True show ?thesis by (simp add: show_int_def)
qed (simp add: show_int_def)

text \<open>atof of a decimal number: sign, digits with an optional point, optional exponent; 0 when there is none.\<close>

definition atof :: "octstr \<Rightarrow> real" where
  "atof s =
     (let t = dropWhile c_isspace s;
          u = (if take 1 t = ''-'' \<or> take 1 t = ''+'' then tl t else t);
          whole = takeWhile gw_isdigit u;
          r = dropWhile gw_isdigit u;
          fraction = (if take 1 r = ''.'' then takeWhile gw_isdigit (tl r) else []);
          r = (if take 1 r = ''.'' then dropWhile gw_isdigit (tl r) else r);
          e = (if take 1 r = ''e'' \<or> take 1 r = ''E'' then atol (tl r) else 0);
          v = of_nat (digits_val (whole @ fraction)) / 10 ^ length fraction * (if 0 \<le> e then 10 ^ nat e else 1 / 10 ^ nat (- e))
      in if take 1 t = ''-'' then - v else v)"

end
