(* ===== verification/Gwlib.thy ===== *)
theory Gwlib
  imports Octstr
begin

text \<open>
  What the program takes from Kannel: the Msg union and its SMS record, the SMPP protocol
  data units, the protocol's status codes, counters and loads, and the functions of gwlib and
  gw whose code is not part of this repository. Those functions are the fields of the record
  \<open>gwlib\<close>: every operation that calls one of them takes the record as an argument, and a
  theorem that relies on the behaviour of one of them says so in a hypothesis.
\<close>

section \<open>Counters, loads and calendar time\<close>

text \<open>counter_increase returns the value before the increase; a load is the list of its increases' times.\<close>

type_synonym counter = nat

type_synonym load = "timestamp list"

record tm =
  tm_year :: int
  tm_mon :: int
  tm_mday :: int
  tm_hour :: int
  tm_min :: int
  tm_sec :: int

text \<open>strftime with the format \<open>%y%m%d%H%M%S\<close>.\<close>

definition strftime12 :: "tm \<Rightarrow> octstr" where
  "strftime12 t = pad2 (nat (tm_year t mod 100)) @ pad2 (nat (tm_mon t + 1)) @ pad2 (nat (tm_mday t)) @
                  pad2 (nat (tm_hour t)) @ pad2 (nat (tm_min t)) @ pad2 (nat (tm_sec t))"

section \<open>Messages\<close>

type_synonym uuid = nat

record sms =
  sender :: "octstr option"
  receiver :: "octstr option"
  udhdata :: "octstr option"
  msgdata :: "octstr option"
  sms_time :: int
  smsc_id :: "octstr option"
  smsc_number :: "octstr option"
  foreign_id :: "octstr option"
  service :: "octstr option"
  account :: "octstr option"
  sms_id :: uuid
  sms_type :: int
  mclass :: int
  mwi :: int
  coding :: int
  compress :: int
  validity :: int
  deferred :: int
  dlr_mask :: int
  dlr_url :: "octstr option"
  pid :: int
  alt_dcs :: int
  rpi :: int
  charset :: "octstr option"
  boxc_id :: "octstr option"
  binfo :: "octstr option"
  msg_left :: int
  priority :: int
  resend_try :: int
  resend_time :: int
  meta_data :: "octstr option"

text \<open>msg_create: every string is null, every number undefined (-1), the identifier new.\<close>

definition sms_create :: "uuid \<Rightarrow> sms" where
  "sms_create u = \<lparr>sender = None, receiver = None, udhdata = None, msgdata = None, sms_time = -1,
     smsc_id = None, smsc_number = None, foreign_id = None, service = None, account = None, sms_id = u, sms_type = -1,
     mclass = -1, mwi = -1, coding = -1, compress = -1, validity = -1, deferred = -1, dlr_mask = -1,
     dlr_url = None, pid = -1, alt_dcs = -1, rpi = -1, charset = None, boxc_id = None, binfo = None,
     msg_left = -1, priority = -1, resend_try = -1, resend_time = -1, meta_data = None\<rparr>"

datatype msg = Msg_sms sms | Msg_ack uuid int | Msg_admin int | Msg_heartbeat | Msg_unknown

abbreviation (input) "mo \<equiv> (0 :: int)"
abbreviation (input) "mt_reply \<equiv> (1 :: int)"
abbreviation (input) "mt_push \<equiv> (2 :: int)"
abbreviation (input) "report_mo \<equiv> (3 :: int)"
abbreviation (input) "report_mt \<equiv> (4 :: int)"

abbreviation (input) "ack_success \<equiv> (0 :: int)"
abbreviation (input) "ack_failed \<equiv> (1 :: int)"
abbreviation (input) "ack_failed_tmp \<equiv> (2 :: int)"
abbreviation (input) "ack_buffered \<equiv> (3 :: int)"

abbreviation (input) "cmd_shutdown \<equiv> (0 :: int)"
abbreviation (input) "cmd_suspend \<equiv> (1 :: int)"
abbreviation (input) "cmd_resume \<equiv> (2 :: int)"
abbreviation (input) "cmd_identify \<equiv> (3 :: int)"
abbreviation (input) "cmd_restart \<equiv> (4 :: int)"

abbreviation (input) "DLR_UNDEFINED \<equiv> (-1 :: int)"
abbreviation (input) "DLR_NOTHING \<equiv> (0 :: int)"
abbreviation (input) "DLR_SUCCESS \<equiv> (1 :: int)"
abbreviation (input) "DLR_FAIL \<equiv> (2 :: int)"
abbreviation (input) "DLR_BUFFERED \<equiv> (4 :: int)"
abbreviation (input) "DLR_SMSC_SUCCESS \<equiv> (8 :: int)"
abbreviation (input) "DLR_SMSC_FAIL \<equiv> (16 :: int)"

abbreviation (input) "DC_UNDEF \<equiv> (-1 :: int)"
abbreviation (input) "DC_7BIT \<equiv> (0 :: int)"
abbreviation (input) "DC_8BIT \<equiv> (1 :: int)"
abbreviation (input) "DC_UCS2 \<equiv> (2 :: int)"
abbreviation (input) "MC_UNDEF \<equiv> (-1 :: int)"
abbreviation (input) "MWI_UNDEF \<equiv> (-1 :: int)"
abbreviation (input) "SMS_PARAM_UNDEFINED \<equiv> (-1 :: int)"
abbreviation (input) "MAX_SMS_OCTETS \<equiv> (140 :: int)"

section \<open>Protocol data units\<close>

type_synonym command_status = int

abbreviation (input) "SMPP_ESME_ROK \<equiv> (0 :: command_status)"
abbreviation (input) "SMPP_ESME_RINVBNDSTS \<equiv> (0x04 :: command_status)"
abbreviation (input) "SMPP_ESME_RSYSERR \<equiv> (0x08 :: command_status)"
abbreviation (input) "SMPP_ESME_RINVSRCADR \<equiv> (0x0A :: command_status)"
abbreviation (input) "SMPP_ESME_RINVDSTADR \<equiv> (0x0B :: command_status)"
abbreviation (input) "SMPP_ESME_RBINDFAIL \<equiv> (0x0D :: command_status)"
abbreviation (input) "SMPP_ESME_RMSGQFUL \<equiv> (0x14 :: command_status)"
abbreviation (input) "SMPP_ESME_RINVESMCLASS \<equiv> (0x43 :: command_status)"
abbreviation (input) "SMPP_ESME_RSUBMITFAIL \<equiv> (0x45 :: command_status)"
abbreviation (input) "SMPP_ESME_RTHROTTLED \<equiv> (0x58 :: command_status)"
abbreviation (input) "SMPP_ESME_RINVTLVVAL \<equiv> (0xC4 :: command_status)"
abbreviation (input) "SMPP_ESME_RDELIVERYFAILURE \<equiv> (0xFE :: command_status)"

abbreviation (input) "GSM_ADDR_TON_INTERNATIONAL \<equiv> (1 :: int)"
abbreviation (input) "GSM_ADDR_TON_NATIONAL \<equiv> (2 :: int)"
abbreviation (input) "GSM_ADDR_TON_ALPHANUMERIC \<equiv> (5 :: int)"
abbreviation (input) "GSM_ADDR_NPI_UNKNOWN \<equiv> (0 :: int)"
abbreviation (input) "GSM_ADDR_NPI_E164 \<equiv> (1 :: int)"
abbreviation (input) "ESM_CLASS_SUBMIT_UDH_INDICATOR \<equiv> (0x40 :: int)"
abbreviation (input) "ESM_CLASS_SUBMIT_RPI \<equiv> (0x80 :: int)"
abbreviation (input) "ESM_CLASS_DELIVER_UDH_INDICATOR \<equiv> (0x40 :: int)"
abbreviation (input) "ESM_CLASS_DELIVER_SMSC_DELIVER_ACK \<equiv> (0x04 :: int)"

type_synonym tlv = "(octstr, octstr) dict"

record bind_body =
  b_system_id :: "octstr option"
  b_password :: "octstr option"
  b_interface_version :: int

record submit_sm_body =
  ss_service_type :: "octstr option"
  ss_source_addr_ton :: int
  ss_source_addr_npi :: int
  ss_source_addr :: "octstr option"
  ss_dest_addr_ton :: int
  ss_dest_addr_npi :: int
  ss_destination_addr :: "octstr option"
  ss_esm_class :: int
  ss_protocol_id :: int
  ss_priority_flag :: int
  ss_validity_period :: "octstr option"
  ss_registered_delivery :: int
  ss_data_coding :: int
  ss_sm_length :: int
  ss_short_message :: "octstr option"
  ss_message_payload :: "octstr option"
  ss_sar_msg_ref_num :: int
  ss_sar_segment_seqnum :: int
  ss_sar_total_segments :: int
  ss_tlv :: "tlv option"

record data_sm_body =
  ds_service_type :: "octstr option"
  ds_source_addr_ton :: int
  ds_source_addr_npi :: int
  ds_source_addr :: "octstr option"
  ds_dest_addr_ton :: int
  ds_dest_addr_npi :: int
  ds_destination_addr :: "octstr option"
  ds_esm_class :: int
  ds_registered_delivery :: int
  ds_data_coding :: int
  ds_message_payload :: "octstr option"
  ds_sar_msg_ref_num :: int
  ds_sar_segment_seqnum :: int
  ds_sar_total_segments :: int
  ds_tlv :: "tlv option"

record deliver_sm_body =
  d_service_type :: "octstr option"
  d_source_addr_ton :: int
  d_source_addr_npi :: int
  d_source_addr :: "octstr option"
  d_dest_addr_ton :: int
  d_dest_addr_npi :: int
  d_destination_addr :: "octstr option"
  d_esm_class :: int
  d_protocol_id :: int
  d_priority_flag :: int
  d_data_coding :: int
  d_sm_length :: int
  d_short_message :: "octstr option"
  d_receipted_message_id :: "octstr option"
  d_message_state :: int
  d_network_error_code :: "octstr option"
  d_tlv :: "tlv option"

text \<open>smpp_pdu_create: numbers 0, strings null, optional parameters absent (-1 or null).\<close>

definition deliver_sm_create :: deliver_sm_body where
  "deliver_sm_create = \<lparr>d_service_type = None, d_source_addr_ton = 0, d_source_addr_npi = 0,
     d_source_addr = None, d_dest_addr_ton = 0, d_dest_addr_npi = 0, d_destination_addr = None,
     d_esm_class = 0, d_protocol_id = 0, d_priority_flag = 0, d_data_coding = 0, d_sm_length = 0,
     d_short_message = None, d_receipted_message_id = None, d_message_state = -1,
     d_network_error_code = None, d_tlv = None\<rparr>"

text \<open>
  The PDUs of the program. The first argument is the sequence number; a response carries its
  status and, where the protocol has one, the system or message identifier.
\<close>

datatype pdu =
    Bind_transmitter int bind_body
  | Bind_transmitter_resp int command_status "octstr option"
  | Bind_receiver int bind_body
  | Bind_receiver_resp int command_status "octstr option"
  | Bind_transceiver int bind_body
  | Bind_transceiver_resp int command_status "octstr option"
  | Enquire_link int
  | Enquire_link_resp int
  | Unbind int
  | Unbind_resp int
  | Submit_sm int submit_sm_body
  | Submit_sm_resp int command_status "octstr option"
  | Data_sm int data_sm_body
  | Data_sm_resp int command_status "octstr option"
  | Deliver_sm int deliver_sm_body
  | Deliver_sm_resp int command_status
  | Other_pdu int octstr

definition is_deliver_sm :: "pdu \<Rightarrow> bool" where
  "is_deliver_sm p = (case p of Deliver_sm _ _ \<Rightarrow> True | _ \<Rightarrow> False)"

fun is_response :: "pdu \<Rightarrow> bool" where
  "is_response (Bind_transmitter_resp _ _ _) = True"
| "is_response (Bind_receiver_resp _ _ _) = True"
| "is_response (Bind_transceiver_resp _ _ _) = True"
| "is_response (Enquire_link_resp _) = True"
| "is_response (Unbind_resp _) = True"
| "is_response (Submit_sm_resp _ _ _) = True"
| "is_response (Data_sm_resp _ _ _) = True"
| "is_response (Deliver_sm_resp _ _) = True"
| "is_response _ = False"

definition set_deliver_seq :: "int \<Rightarrow> pdu \<Rightarrow> pdu" where
  "set_deliver_seq n p = (case p of Deliver_sm _ b \<Rightarrow> Deliver_sm n b | _ \<Rightarrow> p)"

lemma is_deliver_sm_iff: "is_deliver_sm p \<longleftrightarrow> (\<exists>n b. p = Deliver_sm n b)"
  by (cases p) (auto simp: is_deliver_sm_def)

section \<open>The functions of gwlib and gw\<close>

text \<open>
  gw_uuid_valid and gw_is_double say whether uuid_parse and octstr_parse_double succeed; when
  they do not, the destination keeps its value.
\<close>

record gwlib =
  gw_octstr_split :: "octstr \<Rightarrow> octstr \<Rightarrow> octstr list"
  gw_charset_convert :: "octstr \<Rightarrow> octstr \<Rightarrow> octstr \<Rightarrow> octstr option"
  gw_gsm_to_utf8 :: "octstr \<Rightarrow> octstr"
  gw_utf8_to_gsm :: "octstr \<Rightarrow> octstr"
  gw_fields_to_dcs :: "sms \<Rightarrow> int \<Rightarrow> int"
  gw_dcs_to_fields :: "sms \<Rightarrow> int \<Rightarrow> sms"
  gw_sms_split :: "sms \<Rightarrow> nat \<Rightarrow> sms list"
  gw_prepend_catenation_udh :: "sms \<Rightarrow> int \<Rightarrow> int \<Rightarrow> int \<Rightarrow> sms"
  gw_meta_data_get_values :: "octstr option \<Rightarrow> octstr \<Rightarrow> tlv option"
  gw_meta_data_set_values :: "octstr \<Rightarrow> tlv option \<Rightarrow> octstr \<Rightarrow> octstr"
  gw_connect_denied :: "octstr option \<Rightarrow> octstr option \<Rightarrow> bool"
  gw_load_get :: "load \<Rightarrow> nat \<Rightarrow> timestamp \<Rightarrow> real"
  gw_uuid_unparse :: "uuid \<Rightarrow> octstr"
  gw_uuid_parse :: "octstr \<Rightarrow> uuid"
  gw_uuid_valid :: "octstr \<Rightarrow> bool"
  gw_mktime :: "tm \<Rightarrow> int"
  gw_localtime :: "int \<Rightarrow> tm"
  gw_gmtime :: "int \<Rightarrow> tm"
  gw_pdu_pack :: "octstr option \<Rightarrow> pdu \<Rightarrow> octstr option"
  gw_pdu_unpack :: "octstr option \<Rightarrow> octstr \<Rightarrow> pdu option"
  gw_pdu_read_len :: "octstr \<Rightarrow> int \<times> octstr"
  gw_pdu_read_data :: "octstr \<Rightarrow> int \<Rightarrow> (octstr \<times> octstr) option"
  gw_octstr_parse_double :: "octstr \<Rightarrow> real"
  gw_is_double :: "octstr \<Rightarrow> bool"
  gw_regex_comp :: "octstr \<Rightarrow> bool"
  gw_regex_match :: "octstr \<Rightarrow> octstr \<Rightarrow> bool"

text \<open>
  A concrete instance of the record, for the evaluation of examples: text is one-to-one, time
  is split in fixed units, an identifier is printed as its number padded to 36 characters, a
  PDU on the wire is a length byte and that many bytes less one.
\<close>

fun split_at_char :: "char \<Rightarrow> octstr \<Rightarrow> octstr list" where
  "split_at_char c [] = [[]]"
| "split_at_char c (x # xs) =
     (if x = c then [] # split_at_char c xs
      else (case split_at_char c xs of [] \<Rightarrow> [[x]] | p # ps \<Rightarrow> (x # p) # ps))"

definition tm_of_secs :: "int \<Rightarrow> tm" where
  "tm_of_secs t = \<lparr>tm_year = 70 + t div 32140800, tm_mon = t div 2678400 mod 12, tm_mday = t div 86400 mod 31 + 1,
     tm_hour = t div 3600 mod 24, tm_min = t div 60 mod 60, tm_sec = t mod 60\<rparr>"

definition secs_of_tm :: "tm \<Rightarrow> int" where
  "secs_of_tm t = (tm_year t - 70) * 32140800 + tm_mon t * 2678400 + (tm_mday t - 1) * 86400 +
                  tm_hour t * 3600 + tm_min t * 60 + tm_sec t"

definition example_gwlib :: gwlib where
  "example_gwlib = \<lparr>
     gw_octstr_split = (\<lambda>s sep. case sep of [c] \<Rightarrow> split_at_char c s | _ \<Rightarrow> [s]),
     gw_charset_convert = (\<lambda>s f t. Some s),
     gw_gsm_to_utf8 = id,
     gw_utf8_to_gsm = id,
     gw_fields_to_dcs = (\<lambda>m alt. if coding m = DC_UCS2 then 8 else if coding m = DC_8BIT then 4 else 0),
     gw_dcs_to_fields = (\<lambda>m dcs. m\<lparr>coding := (if dcs = 8 then DC_UCS2 else if dcs = 4 then DC_8BIT else DC_UNDEF)\<rparr>),
     gw_sms_split = (\<lambda>m n. [m]),
     gw_prepend_catenation_udh = (\<lambda>m seq tot r. m\<lparr>udhdata := Some [char_of (5 :: nat)]\<rparr>),
     gw_meta_data_get_values = (\<lambda>m g. None),
     gw_meta_data_set_values = (\<lambda>m t g. m),
     gw_connect_denied = (\<lambda>allow ip. allow \<noteq> ip),
     gw_load_get = (\<lambda>l i now. of_nat (length (filter (\<lambda>t. now - 1 \<le> t) l))),
     gw_uuid_unparse = (\<lambda>u. replicate (36 - length (show_nat u)) (CHR ''0'') @ show_nat u),
     gw_uuid_parse = (\<lambda>s. digits_val s),
     gw_uuid_valid = (\<lambda>s. list_all gw_isdigit s),
     gw_mktime = secs_of_tm,
     gw_localtime = tm_of_secs,
     gw_gmtime = tm_of_secs,
     gw_pdu_pack = (\<lambda>i p. Some ''pdu''),
     gw_pdu_unpack = (\<lambda>i s. if s = [] then None else Some (Enquire_link (of_char (hd s)))),
     gw_pdu_read_len = (\<lambda>s. case s of [] \<Rightarrow> (0, []) | c # r \<Rightarrow> (if c = CHR ''!'' then -1 else of_char c, r)),
     gw_pdu_read_data = (\<lambda>s n. if nat n - 1 \<le> length s then Some (take (nat n - 1) s, drop (nat n - 1) s) else None),
     gw_octstr_parse_double = (\<lambda>s. of_int (atol s)),
     gw_is_double = (\<lambda>s. takeWhile gw_isdigit s \<noteq> []),
     gw_regex_comp = (\<lambda>r. r \<noteq> []),
     gw_regex_match = (\<lambda>r s. take (length r) s = r)\<rparr>"

lemma split_at_char_not_Nil [simp]: "split_at_char c s \<noteq> []"
  by (induction s) (auto split: list.splits)

lemma split_at_char_no_sep: "c \<notin> set s \<Longrightarrow> split_at_char c s = [s]"
  by (induction s) auto

lemma split_at_char_append:
  "c \<notin> set a \<Longrightarrow> split_at_char c (a @ c # b) = a # split_at_char c b"
  by (induction a) auto

end
