(* ===== verification/DbUtil.thy ===== *)
theory DbUtil
  imports Octstr
begin

text \<open>
  smpp_database_util.c: SQL text for the two dialects (literals, column names, conditions and
  insert values, with the values bound to placeholders or written as literals) and the
  percent-encoding of binary columns. The locale \<open>byte_codec\<close> is the contract the store
  back ends rely on; it is interpreted on the program's own encoder and decoder.
\<close>

section \<open>SQL text\<close>

datatype db_type = DBPOOL_MYSQL | DBPOOL_PGSQL

definition smpp_db_sql_is_pgsql :: "db_type option \<Rightarrow> bool" where
  "smpp_db_sql_is_pgsql db \<longleftrightarrow> db = Some DBPOOL_PGSQL"

fun sql_escape :: "octstr \<Rightarrow> octstr" where
  "sql_escape [] = []"
| "sql_escape (c # cs) = (if c = CHR 0x27 then CHR 0x27 # CHR 0x27 # sql_escape cs else c # sql_escape cs)"

definition smpp_db_sql_string_literal :: "octstr option \<Rightarrow> octstr" where
  "smpp_db_sql_string_literal v =
     (case v of None \<Rightarrow> ''NULL'' | Some s \<Rightarrow> CHR 0x27 # sql_escape s @ [CHR 0x27])"

type_synonym sql_text = "octstr \<times> octstr option list"

definition smpp_db_sql_append_column :: "octstr \<Rightarrow> db_type option \<Rightarrow> octstr \<Rightarrow> octstr" where
  "smpp_db_sql_append_column sql db name =
     (if smpp_db_sql_is_pgsql db then sql @ name else sql @ CHR 0x60 # name @ [CHR 0x60])"

definition smpp_db_sql_append_where_eq ::
  "sql_text \<Rightarrow> db_type option \<Rightarrow> octstr \<Rightarrow> octstr option \<Rightarrow> sql_text" where
  "smpp_db_sql_append_where_eq t db col v =
     (let sql = smpp_db_sql_append_column (fst t) db col in
      if smpp_db_sql_is_pgsql db then (sql @ '' = '' @ smpp_db_sql_string_literal v, snd t)
      else (sql @ '' = ?'', snd t @ [v]))"

definition smpp_db_sql_append_insert_value :: "sql_text \<Rightarrow> db_type option \<Rightarrow> octstr option \<Rightarrow> sql_text" where
  "smpp_db_sql_append_insert_value t db v =
     (if smpp_db_sql_is_pgsql db then (fst t @ smpp_db_sql_string_literal v @ '','', snd t)
      else (fst t @ ''?,'', snd t @ [v]))"

definition smpp_db_sql_append_insert_long :: "sql_text \<Rightarrow> db_type option \<Rightarrow> int \<Rightarrow> sql_text" where
  "smpp_db_sql_append_insert_long t db v =
     (if smpp_db_sql_is_pgsql db then (fst t @ show_int v @ '','', snd t)
      else (fst t @ ''?,'', snd t @ [Some (show_int v)]))"

definition smpp_db_sql_append_password_check :: "sql_text \<Rightarrow> db_type option \<Rightarrow> octstr option \<Rightarrow> sql_text" where
  "smpp_db_sql_append_password_check t db password =
     (if smpp_db_sql_is_pgsql db
      then (fst t @ '' AND password = encode(digest('' @ smpp_db_sql_string_literal password @
              '', '' @ [CHR 0x27] @ ''sha256'' @ [CHR 0x27] @ ''), '' @ [CHR 0x27] @ ''hex'' @ [CHR 0x27] @ '')'', snd t)
      else (fst t @ '' AND '' @ [CHR 0x60] @ ''password'' @ [CHR 0x60] @ '' = SHA2(?, 256)'', snd t @ [password]))"

definition smpp_db_sql_union_keyword :: "db_type option \<Rightarrow> octstr" where
  "smpp_db_sql_union_keyword db = (if smpp_db_sql_is_pgsql db then ''UNION'' else ''UNION DISTINCT'')"

section \<open>Percent-encoding\<close>

definition smpp_db_hex_nibble :: "int \<Rightarrow> int" where
  "smpp_db_hex_nibble c =
     (if 48 \<le> c \<and> c \<le> 57 then c - 48
      else if 65 \<le> c \<and> c \<le> 70 then c - 65 + 10
      else if 97 \<le> c \<and> c \<le> 102 then c - 97 + 10
      else -1)"

definition smpp_db_url_encode_octstr :: "octstr option \<Rightarrow> octstr" where
  "smpp_db_url_encode_octstr s =
     (case s of None \<Rightarrow> [] | Some bs \<Rightarrow> concat (map (\<lambda>b. CHR ''%'' # hex02 (of_char b)) bs))"

text \<open>The decoding loop on the bytes from position i on; None is the branch that gives up and copies the input.\<close>

fun url_decode_loop :: "octstr \<Rightarrow> octstr option" where
  "url_decode_loop [] = Some []"
| "url_decode_loop (p # a # b # rest) =
     (if p = CHR ''%'' then
        (let hi = smpp_db_hex_nibble (of_char a); lo = smpp_db_hex_nibble (of_char b) in
         if hi < 0 \<or> lo < 0 then None
         else map_option (Cons (char_of (hi * 16 + lo))) (url_decode_loop rest))
      else None)"
| "url_decode_loop _ = None"

definition smpp_db_url_decode_octstr :: "octstr option \<Rightarrow> octstr" where
  "smpp_db_url_decode_octstr v =
     (case v of
        None \<Rightarrow> []
      | Some s \<Rightarrow>
          (if s = [] then []
           else if octstr_search_char s (CHR ''%'') = None then s
           else (case url_decode_loop s of None \<Rightarrow> s | Some r \<Rightarrow> r)))"

section \<open>The reader's side of a literal\<close>

text \<open>
  How a server with standard-conforming strings reads a literal whose opening quote has been
  consumed: two quotes are one, a single quote ends it.
\<close>

fun sql_read_quoted :: "octstr \<Rightarrow> (octstr \<times> octstr) option" where
  "sql_read_quoted [] = None"
| "sql_read_quoted (c # cs) =
     (if c = CHR 0x27 then
        (case cs of
           d # ds \<Rightarrow>
             (if d = CHR 0x27 then map_option (\<lambda>(v, r). (CHR 0x27 # v, r)) (sql_read_quoted ds)
              else Some ([], cs))
         | [] \<Rightarrow> Some ([], []))
      else map_option (\<lambda>(v, r). (c # v, r)) (sql_read_quoted cs))"

definition sql_read_value :: "octstr \<Rightarrow> (octstr option \<times> octstr) option" where
  "sql_read_value s =
     (case s of
        [] \<Rightarrow> None
      | c # cs \<Rightarrow>
          (if c = CHR 0x27 then map_option (\<lambda>(v, r). (Some v, r)) (sql_read_quoted cs)
           else if take 4 s = ''NULL'' then Some (None, drop 4 s)
           else None))"

text \<open>Reading a list of values, each followed by a comma, with fuel for the number of values.\<close>

fun sql_read_values :: "nat \<Rightarrow> octstr \<Rightarrow> octstr option list option" where
  "sql_read_values 0 s = (if s = [] then Some [] else None)"
| "sql_read_values (Suc n) s =
     (case sql_read_value s of
        Some (v, CHR '','' # r) \<Rightarrow> map_option (Cons v) (sql_read_values n r)
      | _ \<Rightarrow> None)"

section \<open>Lemmas\<close>

lemma sql_read_quoted_escape:
  assumes "rest = [] \<or> hd rest \<noteq> CHR 0x27"
  shows "sql_read_quoted (sql_escape v @ CHR 0x27 # rest) = Some (v, rest)"
  using assms by (induction v) (auto split: list.splits)

lemma sql_read_value_literal:
  assumes "rest = [] \<or> hd rest \<noteq> CHR 0x27"
  shows "sql_read_value (smpp_db_sql_string_literal v @ rest) = Some (v, rest)"
  using sql_read_quoted_escape [OF assms]
  by (cases v) (simp_all add: sql_read_value_def smpp_db_sql_string_literal_def)

lemma insert_values_fold_pgsql:
  "foldl (\<lambda>t v. smpp_db_sql_append_insert_value t (Some DBPOOL_PGSQL) v) (sql, bs) vs =
     (sql @ concat (map (\<lambda>v. smpp_db_sql_string_literal v @ '','') vs), bs)"
  by (induction vs arbitrary: sql)
     (simp_all add: smpp_db_sql_append_insert_value_def smpp_db_sql_is_pgsql_def)

lemma sql_read_values_literals:
  "sql_read_values (length vs) (concat (map (\<lambda>v. smpp_db_sql_string_literal v @ '','') vs)) = Some vs"
  by (induction vs) (simp_all add: sql_read_value_literal)

lemma hex_nibble_hex_upper: "d < 16 \<Longrightarrow> smpp_db_hex_nibble (of_char (hex_upper d)) = int d"
  by (auto simp: hex_upper_def smpp_db_hex_nibble_def of_char_int)

lemma url_decode_loop_encode:
  "url_decode_loop (concat (map (\<lambda>b. CHR ''%'' # hex02 (of_char b)) bs)) = Some bs"
proof (induction bs)
  case (Cons b bs)
  define n where "n = (of_char b :: nat)"
  have n: "n < 256" by (simp add: n_def)
  have "int (n div 16 mod 16) * 16 + int (n mod 16) = int n"
    using n by (simp add: of_nat_mod of_nat_div)
  then have "char_of (int (n div 16 mod 16) * 16 + int (n mod 16)) = b"
    by (simp only:) (simp add: n_def)
  with Cons show ?case
    by (simp add: hex02_def hex_nibble_hex_upper n_def Let_def)
qed simp

text \<open>The encoder writes percent signs, digits and upper-case letters only.\<close>

definition url_safe :: "char \<Rightarrow> bool" where
  "url_safe c \<longleftrightarrow> c = CHR ''%'' \<or> gw_isdigit c \<or> (65 \<le> (of_char c :: nat) \<and> (of_char c :: nat) \<le> 70)"

lemma url_safe_hex_upper: "d < 16 \<Longrightarrow> url_safe (hex_upper d)"
  by (auto simp: url_safe_def hex_upper_def gw_isdigit_def)

section \<open>The codec contract\<close>

locale byte_codec =
  fixes enc :: "octstr option \<Rightarrow> octstr"
    and dec :: "octstr option \<Rightarrow> octstr"
    and safe :: "char \<Rightarrow> bool"
  assumes dec_enc: "dec (Some (enc (Some s))) = s"
    and enc_safe: "c \<in> set (enc v) \<Longrightarrow> safe c"
    and enc_null: "enc None = []"
begin

lemma enc_inj: "enc (Some s) = enc (Some t) \<longleftrightarrow> s = t"
  by (metis dec_enc)

lemma enc_empty: "enc (Some []) = [] \<Longrightarrow> enc (Some s) = [] \<longleftrightarrow> s = []"
  by (metis enc_inj)

lemma enc_avoids: "\<not> safe c \<Longrightarrow> c \<notin> set (enc v)"
  using enc_safe by blast

lemma stored_column: "map (\<lambda>v. dec (Some (enc (Some v)))) vs = vs"
  by (induction vs) (simp_all add: dec_enc)

end

lemma smpp_db_url_roundtrip:
  "smpp_db_url_decode_octstr (Some (smpp_db_url_encode_octstr (Some s))) = s"
  using url_decode_loop_encode [of s]
  by (cases s) (simp_all add: smpp_db_url_decode_octstr_def smpp_db_url_encode_octstr_def)

interpretation url_codec: byte_codec smpp_db_url_encode_octstr smpp_db_url_decode_octstr url_safe
proof unfold_locales
  show "smpp_db_url_decode_octstr (Some (smpp_db_url_encode_octstr (Some s))) = s" for s
    by (rule smpp_db_url_roundtrip)
  show "c \<in> set (smpp_db_url_encode_octstr v) \<Longrightarrow> url_safe c" for c v
    by (auto simp: smpp_db_url_encode_octstr_def hex02_def url_safe_def [of "CHR ''%''"]
        url_safe_hex_upper split: option.splits if_splits)
  show "smpp_db_url_encode_octstr None = []"
    by (simp add: smpp_db_url_encode_octstr_def)
qed

lemma url_encode_avoids_quote: "CHR 0x27 \<notin> set (smpp_db_url_encode_octstr v)"
  by (rule url_codec.enc_avoids) (simp add: url_safe_def gw_isdigit_def)

section \<open>Properties\<close>

text \<open>
  Decoding what smpp_db_url_encode_octstr wrote gives back the bytes, for every byte
  string; the encoding is injective, never contains a quote, a pipe or a space, and a text
  without percent signs is left alone by the decoder, so both old plain rows and encoded rows
  are read correctly.
\<close>

theorem url_codec_roundtrip:
  "smpp_db_url_decode_octstr (Some (smpp_db_url_encode_octstr (Some s))) = s
   \<and> (smpp_db_url_encode_octstr (Some s) = smpp_db_url_encode_octstr (Some t) \<longleftrightarrow> s = t)
   \<and> set (smpp_db_url_encode_octstr (Some s)) \<inter> {CHR 0x27, CHR ''|'', CHR '' ''} = {}
   \<and> smpp_db_url_decode_octstr (Some (filter (\<lambda>c. c \<noteq> CHR ''%'') s)) = filter (\<lambda>c. c \<noteq> CHR ''%'') s"
proof (intro conjI)
  show "smpp_db_url_decode_octstr (Some (smpp_db_url_encode_octstr (Some s))) = s"
    by (rule url_codec.dec_enc)
  show "smpp_db_url_encode_octstr (Some s) = smpp_db_url_encode_octstr (Some t) \<longleftrightarrow> s = t"
    by (rule url_codec.enc_inj)
  show "set (smpp_db_url_encode_octstr (Some s)) \<inter> {CHR 0x27, CHR ''|'', CHR '' ''} = {}"
    using url_codec.enc_safe [of _ "Some s"]
    by (auto simp: url_safe_def gw_isdigit_def dest!: url_codec.enc_safe)
  show "smpp_db_url_decode_octstr (Some (filter (\<lambda>c. c \<noteq> CHR ''%'') s)) = filter (\<lambda>c. c \<noteq> CHR ''%'') s"
    by (simp add: smpp_db_url_decode_octstr_def octstr_search_char_None)
qed

text \<open>
  C31: No value can break out of its SQL literal. However many values are appended to a
  PostgreSQL insert, and whatever bytes they hold (quotes included), a reader of the text
  recovers exactly the values, NULL for the null pointer; the MySQL dialect writes one
  placeholder per value and binds the values in order.
\<close>

theorem sql_insert_values_no_injection:
  "sql_read_values (length vs)
     (fst (foldl (\<lambda>t v. smpp_db_sql_append_insert_value t (Some DBPOOL_PGSQL) v) ([], []) vs)) = Some vs
   \<and> foldl (\<lambda>t v. smpp_db_sql_append_insert_value t (Some DBPOOL_MYSQL) v) (sql, bs) vs =
     (sql @ concat (replicate (length vs) ''?,''), bs @ vs)"
proof
  show "sql_read_values (length vs)
     (fst (foldl (\<lambda>t v. smpp_db_sql_append_insert_value t (Some DBPOOL_PGSQL) v) ([], []) vs)) = Some vs"
    by (simp add: insert_values_fold_pgsql sql_read_values_literals)
  show "foldl (\<lambda>t v. smpp_db_sql_append_insert_value t (Some DBPOOL_MYSQL) v) (sql, bs) vs =
     (sql @ concat (replicate (length vs) ''?,''), bs @ vs)"
    by (induction vs arbitrary: sql bs)
       (simp_all add: smpp_db_sql_append_insert_value_def smpp_db_sql_is_pgsql_def)
qed

end
