(* ===== verification/ServerState.thy ===== *)
theory ServerState
  imports Gwlib DbUtil
begin

text \<open>
  The data of the program, one record per struct of smpp_esme.h, smpp_queued_pdu.h,
  smpp_bearerbox.h, smpp_database.h, smpp_route.h and smpp_server.h. ESMEs and queued PDUs are
  objects that several queues and tables refer to, so they live in two heaps (dictionaries from
  addresses) and the queues hold addresses; an address that is not in its heap has been freed.
  Callbacks are constructors of a datatype per callback type. Locks are not data: an operation
  that holds one is one step. A null or dangling pointer that the code dereferences makes the
  operation return None.
\<close>

section \<open>ESMEs\<close>

text \<open>The settings of the simulator and the four traffic counters occur in several structs.\<close>

record simulation =
  sim_on :: bool
  sim_dlr_fail :: bool
  sim_deliver_every :: nat
  sim_mo_every :: nat
  sim_permanent_failure_every :: nat
  sim_temporary_failure_every :: nat

definition simulation_off :: simulation where
  "simulation_off = \<lparr>sim_on = False, sim_dlr_fail = False, sim_deliver_every = 0, sim_mo_every = 0,
     sim_permanent_failure_every = 0, sim_temporary_failure_every = 0\<rparr>"

record traffic =
  mt_counter :: counter
  mo_counter :: counter
  dlr_counter :: counter
  error_counter :: counter

definition traffic_zero :: traffic where
  "traffic_zero = \<lparr>mt_counter = 0, mo_counter = 0, dlr_counter = 0, error_counter = 0\<rparr>"

record auth_result =
  a_throughput :: real
  a_default_smsc :: "octstr option"
  a_default_cost :: real
  a_max_binds :: int
  a_callback_url :: "octstr option"
  a_simulation :: simulation
  a_enable_prepaid_billing :: bool
  a_database_store_primary :: int
  a_allowed_ips :: "octstr option"
  a_alt_charset :: "octstr option"

abbreviation (input) "SMPP_AUTH_DATABASE_STORE_PRIMARY_INHERIT \<equiv> (-1 :: int)"

abbreviation (input) "SMPP_ESME_UNDEFINED \<equiv> (0 :: nat)"
abbreviation (input) "SMPP_ESME_TRANSMIT \<equiv> (1 :: nat)"
abbreviation (input) "SMPP_ESME_RECEIVE \<equiv> (2 :: nat)"

definition can_transmit :: "nat \<Rightarrow> bool" where
  "can_transmit bt \<longleftrightarrow> odd bt"

definition can_receive :: "nat \<Rightarrow> bool" where
  "can_receive bt \<longleftrightarrow> odd (bt div 2)"

record esme_global =
  g_system_id :: "octstr option"
  g_throughput :: real
  g_inbound_load :: load
  g_outbound_load :: load
  g_binds :: "nat list"
  g_max_binds :: int
  g_enable_prepaid_billing :: bool
  g_traffic :: traffic
  g_database_store_primary :: bool

text \<open>
  The pointer smpp_esme_global is not set by smpp_esme_create: \<open>e_global = None\<close> is that
  uninitialised pointer, and after a bind it names the entry of the table of ESMEs.
  \<open>e_inbuf\<close> are the bytes the connection has received and not yet handed out. The fields
  system_type, time_disconnected, alt_addr_charset and wait_ack_action are never read.
\<close>

record esme =
  e_system_id :: "octstr option"
  e_conn :: bool
  e_authenticated :: bool
  e_connected :: bool
  e_pending_disconnect :: bool
  e_event_container :: bool
  e_time_connected :: timestamp
  e_time_last_pdu :: timestamp
  e_time_last_queue_process :: timestamp
  e_enquire_link_interval :: int
  e_bind_type :: nat
  e_version :: int
  e_inbound_load :: load
  e_outbound_load :: load
  e_inbound_queued :: counter
  e_outbound_queued :: counter
  e_pending_routing :: counter
  e_sequence_number :: counter
  e_errors :: counter
  e_inbound_processed :: counter
  e_outbound_processed :: counter
  e_simulation :: simulation
  e_alt_charset :: "octstr option"
  e_default_smsc :: "octstr option"
  e_default_cost :: real
  e_open_acks :: "(octstr, nat) dict"
  e_catenated_sms_counter :: counter
  e_wait_ack_time :: int
  e_max_open_acks :: int
  e_global :: "octstr option"
  e_ip :: "octstr option"
  e_pending_len :: int
  e_inbuf :: octstr
  e_traffic :: traffic

section \<open>Queued PDUs\<close>

text \<open>
  The message of a queued PDU: smpp_queued_pdu_create leaves the pointer uninitialised;
  \<open>Msg_lent\<close> is a pointer to a message that was handed to the bearerbox queue, which frees it.
\<close>

datatype msg_ptr = Msg_uninit | Msg_null | Msg_own sms | Msg_lent

datatype pdu_callback = Cb_deliver_sm_resp | Cb_db_queue | Cb_queued_pdu_handler

record queued_pdu =
  q_pdu :: "pdu option"
  q_esme :: "nat option"
  q_priority :: int
  q_disconnect :: bool
  q_id :: "octstr option"
  q_system_id :: "octstr option"
  q_callback :: "pdu_callback option"
  q_bearerbox :: "nat option"
  q_bearerbox_id :: "octstr option"
  q_server :: bool
  q_time_sent :: timestamp
  q_sequence :: int
  q_global_id :: nat
  q_msg :: msg_ptr
  q_from_dlr_table :: bool

abbreviation (input) "SMPP_QUEUED_PDU_DESTROYED \<equiv> (0x04FE :: command_status)"
abbreviation (input) "SMPP_ESME_COMMAND_STATUS_WAIT_ACK_TIMEOUT \<equiv> (0x0400 :: command_status)"
abbreviation (input) "SMPP_ESME_COMMAND_STATUS_QUEUED \<equiv> (0x0401 :: command_status)"
abbreviation (input) "SMPP_ESME_COMMAND_STATUS_QUEUE_ERROR \<equiv> (0x0402 :: command_status)"

section \<open>The store\<close>

abbreviation (input) "SMPP_DATABASE_BATCH_LIMIT \<equiv> (1000 :: int)"
abbreviation (input) "SMPP_DATABASE_STORE_PRIMARY \<equiv> (0 :: int)"
abbreviation (input) "SMPP_DATABASE_STORE_BEARERBOX_QUEUE \<equiv> (1 :: int)"
abbreviation (input) "SMPP_DATABASE_STORE_BEARERBOX_MT_DRAIN \<equiv> (2 :: int)"
abbreviation (input) "SMPP_DATABASE_STORE_AUTO \<equiv> (-1 :: int)"

record database_msg =
  dm_msg :: "sms option"
  dm_global_id :: nat
  dm_wakeup_thread_id :: int
  dm_store_table :: "octstr option"

abbreviation (input) "SMPP_ROUTE_DIRECTION_UNKNOWN \<equiv> (0 :: int)"
abbreviation (input) "SMPP_ROUTE_DIRECTION_OUTBOUND \<equiv> (1 :: int)"
abbreviation (input) "SMPP_ROUTE_DIRECTION_INBOUND \<equiv> (2 :: int)"

record route =
  rt_regex :: octstr
  rt_system_id :: "octstr option"
  rt_smsc_id :: "octstr option"
  rt_cost :: real
  rt_direction :: int
  rt_source_regex :: "octstr option"

record route_status =
  rs_parts :: nat
  rs_cost :: real
  rs_status :: command_status

text \<open>
  The table of function pointers of SMPPDatabase over a store of type \<open>'d\<close>; an entry that is
  None is a null pointer. \<open>db_queued_pdu_handler\<close> is the callback that get_stored_pdu puts in
  the PDUs it returns.
\<close>

record 'd smpp_database =
  db_authenticate :: "('d \<Rightarrow> octstr option \<Rightarrow> octstr option \<Rightarrow> auth_result option) option"
  db_add_message :: "(timestamp \<Rightarrow> 'd \<Rightarrow> sms \<Rightarrow> int \<Rightarrow> bool \<times> 'd) option"
  db_add_pdu :: "(timestamp \<Rightarrow> 'd \<Rightarrow> queued_pdu \<Rightarrow> bool \<times> 'd) option"
  db_get_stored :: "('d \<Rightarrow> int \<Rightarrow> octstr option \<Rightarrow> int \<Rightarrow> int \<Rightarrow> database_msg list \<times> 'd) option"
  db_get_dlrs :: "(timestamp \<Rightarrow> 'd \<Rightarrow> octstr option \<Rightarrow> int \<Rightarrow> database_msg list \<times> 'd) option"
  db_get_stored_pdu :: "('d \<Rightarrow> octstr option \<Rightarrow> int \<Rightarrow> queued_pdu list \<times> 'd) option"
  db_get_routes :: "('d \<Rightarrow> int \<Rightarrow> octstr option \<Rightarrow> route list) option"
  db_deduct_credit :: "('d \<Rightarrow> octstr option \<Rightarrow> real \<Rightarrow> bool \<times> 'd) option"
  db_delete :: "('d \<Rightarrow> nat \<Rightarrow> bool \<Rightarrow> bool \<times> 'd) option"
  db_delete_dlr :: "('d \<Rightarrow> nat \<Rightarrow> bool \<times> 'd) option"
  db_get_esmes_with_queued :: "('d \<Rightarrow> octstr list \<times> 'd) option"
  db_queued_pdu_handler :: "timestamp \<Rightarrow> 'd \<Rightarrow> queued_pdu \<Rightarrow> command_status \<Rightarrow> 'd"

section \<open>Bearerboxes\<close>

datatype bb_callback =
    BCb_submit_sm nat
  | BCb_data_sm nat
  | BCb_requeue_result database_msg

record bearerbox_msg =
  bm_msg :: sms
  bm_callback :: bb_callback
  bm_id :: octstr

record bearerbox =
  bb_id :: "octstr option"
  bb_host :: "octstr option"
  bb_port :: int
  bb_ssl :: bool
  bb_connection :: bool
  bb_last_msg :: timestamp
  bb_alive :: bool
  bb_writer_alive :: bool
  bb_open_acks :: "(octstr, bearerbox_msg) dict option"

text \<open>
  The four users of the router; the context of each is part of the constructor. The second
  argument of the first two is the ESME of the response, a ghost that no operation reads.
\<close>

datatype route_callback =
    RCb_submit_sm nat nat
  | RCb_data_sm nat nat
  | RCb_bearerbox nat sms
  | RCb_requeue database_msg

datatype routing_method = Route_none | Route_database | Route_http | Route_plugin

section \<open>The server\<close>

record blocked_ip =
  ip_time_blocked :: timestamp
  ip_attempts :: int

record server_cfg =
  c_server_id :: "octstr option"
  c_authentication_method :: int
  c_auth_url :: "octstr option"
  c_database_enable_queue :: bool
  c_database_store_primary :: bool
  c_database_store_table :: "octstr option"
  c_database_queue_store_table :: "octstr option"
  c_database_dlr_table :: "octstr option"
  c_database_pdu_table :: "octstr option"
  c_database_route_table :: "octstr option"
  c_database_user_table :: "octstr option"
  c_database_version_table :: "octstr option"
  c_database_queue_type :: "octstr option"
  c_database_dlr_delete_processed :: bool
  c_ip_blocklist_time :: int
  c_ip_blocklist_attempts :: int
  c_ip_blocklist_exempt_ips :: "octstr option"
  c_default_max_open_acks :: int
  c_wait_ack_action :: int

abbreviation (input) "SMPP_SERVER_AUTH_METHOD_DATABASE \<equiv> (1 :: int)"
abbreviation (input) "SMPP_SERVER_AUTH_METHOD_HTTP \<equiv> (2 :: int)"
abbreviation (input) "SMPP_SERVER_AUTH_METHOD_PLUGIN \<equiv> (4 :: int)"
abbreviation (input) "SMPP_WAITACK_DISCONNECT \<equiv> (0 :: int)"
abbreviation (input) "SMPP_WAITACK_DROP \<equiv> (1 :: int)"
abbreviation (input) "SMPP_ESME_CLEANUP_QUEUE_DELAY \<equiv> (10 :: int)"
abbreviation (input) "SMPP_ESME_MAX_CONSECUTIVE_ERRORS \<equiv> (10 :: nat)"

text \<open>
  A log line of the writer of submit_sm_resp is either its text or the bad pointer it read.
\<close>

datatype log_entry = Log_line octstr | Log_bad_pointer msg_ptr

text \<open>
  An entry of the inbound or outbound queue is the address of a queued PDU together with the
  ESME it was queued for: the second component is a ghost that no operation reads.
  \<open>s_written\<close> are the PDUs written to ESME connections, \<open>s_bb_sent\<close> the messages
  written to bearerbox connections.
\<close>

record 'd server =
  s_cfg :: server_cfg
  s_esme_heap :: "(nat, esme) dict"
  s_pdu_heap :: "(nat, queued_pdu) dict"
  s_next_pdu :: nat
  s_next_uuid :: uuid
  s_esme_counter :: counter
  s_esmes :: "(octstr, esme_global) dict"
  s_cleanup_queue :: "nat list"
  s_inbound_load :: load
  s_outbound_load :: load
  s_inbound_processed :: counter
  s_outbound_processed :: counter
  s_inbound_queue :: "(nat \<times> nat) list"
  s_outbound_queue :: "(nat \<times> nat) list"
  s_simulation_queue :: "nat list"
  s_bearerboxes :: "bearerbox list"
  s_bb_queue :: "bearerbox_msg list"
  s_routing_method :: routing_method
  s_outbound_routes :: "(octstr, route list) dict"
  s_inbound_routes :: "route list"
  s_pending_routes :: "(route_callback \<times> sms) list"
  s_ip_blocklist :: "(octstr, blocked_ip) dict"
  s_db :: "'d"
  s_written :: "(nat \<times> pdu) list"
  s_bb_sent :: "(nat \<times> msg) list"
  s_log :: "log_entry list"

text \<open>
  What an operation takes from its surroundings: the Kannel functions, the store's functions,
  the clock, the authentication plugin, the answer of the authentication URL (status and
  headers) and whether a write to a bearerbox connection succeeds.
\<close>

record 'd env =
  ev_gw :: gwlib
  ev_db :: "'d smpp_database"
  ev_now :: timestamp
  ev_plugin_auth :: "(octstr option \<Rightarrow> octstr option \<Rightarrow> auth_result option) option"
  ev_http_reply :: "octstr option \<Rightarrow> octstr option \<Rightarrow> octstr option \<Rightarrow> int \<times> (octstr, octstr) dict"
  ev_bb_write :: "nat \<Rightarrow> bool"

section \<open>Heap access\<close>

definition get_esme :: "'d server \<Rightarrow> nat \<Rightarrow> esme option" where
  "get_esme s i = dict_get (s_esme_heap s) i"

definition put_esme :: "nat \<Rightarrow> esme \<Rightarrow> 'd server \<Rightarrow> 'd server" where
  "put_esme i e s = s\<lparr>s_esme_heap := dict_put (s_esme_heap s) i e\<rparr>"

definition upd_esme :: "nat \<Rightarrow> (esme \<Rightarrow> esme) \<Rightarrow> 'd server \<Rightarrow> 'd server option" where
  "upd_esme i f s = do { e \<leftarrow> get_esme s i; Some (put_esme i (f e) s) }"

definition get_pdu :: "'d server \<Rightarrow> nat \<Rightarrow> queued_pdu option" where
  "get_pdu s p = dict_get (s_pdu_heap s) p"

definition put_pdu :: "nat \<Rightarrow> queued_pdu \<Rightarrow> 'd server \<Rightarrow> 'd server" where
  "put_pdu p q s = s\<lparr>s_pdu_heap := dict_put (s_pdu_heap s) p q\<rparr>"

text \<open>gw_malloc and gw_free of a queued PDU; freeing a pointer that is not allocated is an error.\<close>

definition alloc_pdu :: "queued_pdu \<Rightarrow> 'd server \<Rightarrow> nat \<times> 'd server" where
  "alloc_pdu q s = (s_next_pdu s, put_pdu (s_next_pdu s) q (s\<lparr>s_next_pdu := s_next_pdu s + 1\<rparr>))"

definition free_pdu :: "nat \<Rightarrow> 'd server \<Rightarrow> 'd server option" where
  "free_pdu p s = do { q \<leftarrow> get_pdu s p; Some (s\<lparr>s_pdu_heap := dict_remove (s_pdu_heap s) p\<rparr>) }"

definition get_global :: "'d server \<Rightarrow> nat \<Rightarrow> esme_global option" where
  "get_global s i = do { e \<leftarrow> get_esme s i; k \<leftarrow> e_global e; dict_get (s_esmes s) k }"

definition upd_global :: "nat \<Rightarrow> (esme_global \<Rightarrow> esme_global) \<Rightarrow> 'd server \<Rightarrow> 'd server option" where
  "upd_global i f s = do {
     e \<leftarrow> get_esme s i;
     k \<leftarrow> e_global e;
     g \<leftarrow> dict_get (s_esmes s) k;
     Some (s\<lparr>s_esmes := dict_put (s_esmes s) k (f g)\<rparr>) }"

lemmas heap_defs =
  get_esme_def put_esme_def upd_esme_def get_pdu_def put_pdu_def alloc_pdu_def free_pdu_def
  get_global_def upd_global_def

lemma get_esme_put [simp]: "get_esme (put_esme i e s) j = (if j = i then Some e else get_esme s j)"
  by (simp add: get_esme_def put_esme_def)

lemma get_pdu_put [simp]: "get_pdu (put_pdu p q s) r = (if r = p then Some q else get_pdu s r)"
  by (simp add: get_pdu_def put_pdu_def)

section \<open>The initial state and a small instance\<close>

text \<open>The server after the initialisation of its parts: no connection, empty queues.\<close>

definition initial_server :: "server_cfg \<Rightarrow> bearerbox list \<Rightarrow> routing_method \<Rightarrow> 'd \<Rightarrow> 'd server" where
  "initial_server c boxes method d = \<lparr>s_cfg = c, s_esme_heap = [], s_pdu_heap = [], s_next_pdu = 0,
     s_next_uuid = 0, s_esme_counter = 0, s_esmes = [], s_cleanup_queue = [], s_inbound_load = [],
     s_outbound_load = [], s_inbound_processed = 0, s_outbound_processed = 0, s_inbound_queue = [],
     s_outbound_queue = [], s_simulation_queue = [], s_bearerboxes = boxes, s_bb_queue = [],
     s_routing_method = method, s_outbound_routes = [], s_inbound_routes = [], s_pending_routes = [],
     s_ip_blocklist = [], s_db = d, s_written = [], s_bb_sent = [], s_log = []\<rparr>"

definition example_cfg :: server_cfg where
  "example_cfg = \<lparr>c_server_id = Some ''ksmppd'', c_authentication_method = SMPP_SERVER_AUTH_METHOD_PLUGIN,
     c_auth_url = None, c_database_enable_queue = False, c_database_store_primary = False,
     c_database_store_table = Some ''store'', c_database_queue_store_table = Some ''queue'',
     c_database_dlr_table = Some ''dlr'', c_database_pdu_table = Some ''pdus'',
     c_database_route_table = Some ''routes'', c_database_user_table = Some ''users'', c_database_version_table = Some ''version'',
     c_database_queue_type = None, c_database_dlr_delete_processed = False, c_ip_blocklist_time = 300, c_ip_blocklist_attempts = 3,
     c_ip_blocklist_exempt_ips = Some ''10.0.*.*'', c_default_max_open_acks = 10, c_wait_ack_action = 0\<rparr>"

definition null_database :: "'d smpp_database" where
  "null_database = \<lparr>db_authenticate = None, db_add_message = None, db_add_pdu = None, db_get_stored = None,
     db_get_dlrs = None, db_get_stored_pdu = None, db_get_routes = None, db_deduct_credit = None,
     db_delete = None, db_delete_dlr = None, db_get_esmes_with_queued = None,
     db_queued_pdu_handler = (\<lambda>_ d _ _. d)\<rparr>"

definition example_env :: "unit env" where
  "example_env = \<lparr>ev_gw = example_gwlib, ev_db = null_database, ev_now = 1000, ev_plugin_auth = None,
     ev_http_reply = (\<lambda>_ _ _. (0, [])), ev_bb_write = (\<lambda>_. True)\<rparr>"

definition example_server :: "unit server" where
  "example_server = initial_server example_cfg [] Route_database ()"

end
