(* ===== verification/QueuedPdu.thy ===== *)
theory QueuedPdu
  imports ServerState
begin

text \<open>
  smpp_queued_pdu.c (creation and destruction of queued PDUs) and smpp_database.c (the calls
  through the table of function pointers, with their defaults when a back end lacks the
  operation, and the choice of the store table).
\<close>

section \<open>Queued PDUs\<close>

definition smpp_queued_pdu_create :: queued_pdu where
  "smpp_queued_pdu_create = \<lparr>q_pdu = None, q_esme = None, q_priority = 0, q_disconnect = False,
     q_id = None, q_system_id = None, q_callback = None, q_bearerbox = None, q_bearerbox_id = None,
     q_server = False, q_time_sent = 0, q_sequence = 0, q_global_id = 0, q_msg = Msg_uninit,
     q_from_dlr_table = False\<rparr>"

definition smpp_queued_pdu_create_quick :: "nat \<Rightarrow> esme \<Rightarrow> pdu \<Rightarrow> queued_pdu" where
  "smpp_queued_pdu_create_quick i e p = smpp_queued_pdu_create
     \<lparr>q_esme := Some i, q_pdu := Some p, q_system_id := e_system_id e, q_server := True\<rparr>"

definition smpp_queued_pdu_destroy :: "nat \<Rightarrow> 'd server \<Rightarrow> 'd server option" where
  "smpp_queued_pdu_destroy p s = free_pdu p s"

section \<open>The store's entry points\<close>

definition smpp_database_msg_create :: database_msg where
  "smpp_database_msg_create =
     \<lparr>dm_msg = None, dm_global_id = 0, dm_wakeup_thread_id = 0, dm_store_table = None\<rparr>"

definition smpp_database_store_table_name :: "server_cfg \<Rightarrow> int \<Rightarrow> octstr option" where
  "smpp_database_store_table_name c k =
     (if k = SMPP_DATABASE_STORE_BEARERBOX_QUEUE \<and> 0 < octstr_len (c_database_queue_store_table c)
      then c_database_queue_store_table c else c_database_store_table c)"

definition smpp_database_get_stored_table_name :: "server_cfg \<Rightarrow> int \<Rightarrow> octstr option" where
  "smpp_database_get_stored_table_name c ty =
     (if ty = mt_push \<and> \<not> c_database_store_primary c
      then smpp_database_store_table_name c SMPP_DATABASE_STORE_BEARERBOX_QUEUE
      else smpp_database_store_table_name c SMPP_DATABASE_STORE_PRIMARY)"

text \<open>authenticate is called without a check for a null pointer.\<close>

definition smpp_database_auth ::
  "'d env \<Rightarrow> 'd server \<Rightarrow> octstr option \<Rightarrow> octstr option \<Rightarrow> auth_result option option" where
  "smpp_database_auth E s user password = do {
     f \<leftarrow> db_authenticate (ev_db E);
     Some (f (s_db s) user password) }"

definition db_call :: "'d server \<Rightarrow> 'r \<Rightarrow> ('d \<Rightarrow> 'r \<times> 'd) option \<Rightarrow> 'r \<times> 'd server" where
  "db_call s dflt f =
     (case f of None \<Rightarrow> (dflt, s) | Some g \<Rightarrow> (let (r, d) = g (s_db s) in (r, s\<lparr>s_db := d\<rparr>)))"

definition smpp_database_add_message :: "'d env \<Rightarrow> 'd server \<Rightarrow> sms \<Rightarrow> bool \<times> 'd server" where
  "smpp_database_add_message E s m =
     db_call s False (map_option (\<lambda>f d. f (ev_now E) d m SMPP_DATABASE_STORE_PRIMARY) (db_add_message (ev_db E)))"

definition smpp_database_add_queue_message :: "'d env \<Rightarrow> 'd server \<Rightarrow> sms \<Rightarrow> bool \<times> 'd server" where
  "smpp_database_add_queue_message E s m =
     db_call s False (map_option (\<lambda>f d. f (ev_now E) d m SMPP_DATABASE_STORE_BEARERBOX_QUEUE) (db_add_message (ev_db E)))"

definition smpp_database_add_pdu :: "'d env \<Rightarrow> 'd server \<Rightarrow> queued_pdu \<Rightarrow> bool \<times> 'd server" where
  "smpp_database_add_pdu E s q = db_call s False (map_option (\<lambda>f d. f (ev_now E) d q) (db_add_pdu (ev_db E)))"

definition smpp_database_get_routes :: "'d env \<Rightarrow> 'd server \<Rightarrow> int \<Rightarrow> octstr option \<Rightarrow> route list" where
  "smpp_database_get_routes E s direction svc =
     (case db_get_routes (ev_db E) of None \<Rightarrow> [] | Some f \<Rightarrow> f (s_db s) direction svc)"

definition smpp_database_get_stored ::
  "'d env \<Rightarrow> 'd server \<Rightarrow> int \<Rightarrow> octstr option \<Rightarrow> int \<Rightarrow> database_msg list \<times> 'd server" where
  "smpp_database_get_stored E s ty svc lmt =
     db_call s [] (map_option (\<lambda>f d. f d ty svc lmt SMPP_DATABASE_STORE_AUTO) (db_get_stored (ev_db E)))"

definition smpp_database_get_queue_stored ::
  "'d env \<Rightarrow> 'd server \<Rightarrow> int \<Rightarrow> octstr option \<Rightarrow> int \<Rightarrow> database_msg list \<times> 'd server" where
  "smpp_database_get_queue_stored E s ty svc lmt =
     db_call s [] (map_option (\<lambda>f d. f d ty svc lmt SMPP_DATABASE_STORE_BEARERBOX_QUEUE) (db_get_stored (ev_db E)))"

definition smpp_database_get_bearerbox_mt_stored ::
  "'d env \<Rightarrow> 'd server \<Rightarrow> int \<Rightarrow> octstr option \<Rightarrow> int \<Rightarrow> database_msg list \<times> 'd server" where
  "smpp_database_get_bearerbox_mt_stored E s ty svc lmt =
     db_call s [] (map_option (\<lambda>f d. f d ty svc lmt SMPP_DATABASE_STORE_BEARERBOX_MT_DRAIN) (db_get_stored (ev_db E)))"

definition smpp_database_get_dlrs ::
  "'d env \<Rightarrow> 'd server \<Rightarrow> octstr option \<Rightarrow> int \<Rightarrow> database_msg list \<times> 'd server" where
  "smpp_database_get_dlrs E s svc lmt =
     db_call s [] (map_option (\<lambda>f d. f (ev_now E) d svc lmt) (db_get_dlrs (ev_db E)))"

definition smpp_database_get_stored_pdu ::
  "'d env \<Rightarrow> 'd server \<Rightarrow> octstr option \<Rightarrow> int \<Rightarrow> queued_pdu list \<times> 'd server" where
  "smpp_database_get_stored_pdu E s svc lmt =
     db_call s [] (map_option (\<lambda>f d. f d svc lmt) (db_get_stored_pdu (ev_db E)))"

definition smpp_database_remove :: "'d env \<Rightarrow> 'd server \<Rightarrow> nat \<Rightarrow> bool \<Rightarrow> bool \<times> 'd server" where
  "smpp_database_remove E s gid temporary =
     db_call s False (map_option (\<lambda>f d. f d gid temporary) (db_delete (ev_db E)))"

definition smpp_database_remove_dlr :: "'d env \<Rightarrow> 'd server \<Rightarrow> nat \<Rightarrow> bool \<times> 'd server" where
  "smpp_database_remove_dlr E s gid = db_call s False (map_option (\<lambda>f d. f d gid) (db_delete_dlr (ev_db E)))"

definition smpp_database_deduct_credit :: "'d env \<Rightarrow> 'd server \<Rightarrow> octstr option \<Rightarrow> real \<Rightarrow> bool \<times> 'd server" where
  "smpp_database_deduct_credit E s svc cost =
     db_call s False (map_option (\<lambda>f d. f d svc cost) (db_deduct_credit (ev_db E)))"

definition smpp_database_get_esmes_with_queued :: "'d env \<Rightarrow> 'd server \<Rightarrow> octstr list \<times> 'd server" where
  "smpp_database_get_esmes_with_queued E s =
     db_call s [] (db_get_esmes_with_queued (ev_db E))"

text \<open>Which back end smpp_database_init starts; None for an unknown type.\<close>

datatype database_backend = Backend_mysql | Backend_pgsql

definition smpp_database_init :: "octstr option \<Rightarrow> database_backend option" where
  "smpp_database_init ty =
     (if octstr_case_compare ty (Some ''mysql'') then Some Backend_mysql
      else if octstr_case_compare ty (Some ''postgres'') \<or> octstr_case_compare ty (Some ''postgresql'')
              \<or> octstr_case_compare ty (Some ''pgsql'') then Some Backend_pgsql
      else None)"

section \<open>What a call to the store leaves alone\<close>

text \<open>A call to the store changes nothing but the store.\<close>

definition same_but_db :: "'d server \<Rightarrow> 'd server \<Rightarrow> bool" where
  "same_but_db s s' \<longleftrightarrow> (\<exists>d. s' = s\<lparr>s_db := d\<rparr>)"

lemma same_but_db_refl [simp, intro]: "same_but_db s s"
  unfolding same_but_db_def by (rule exI [of _ "s_db s"]) simp

lemma same_but_db_upd [simp, intro]: "same_but_db s (s\<lparr>s_db := d\<rparr>)"
  unfolding same_but_db_def by blast

lemma same_but_db_trans: "same_but_db s t \<Longrightarrow> same_but_db t u \<Longrightarrow> same_but_db s u"
  by (auto simp: same_but_db_def)

lemma db_call_frame [simp]: "same_but_db s (snd (db_call s r f))"
  by (auto simp: db_call_def split: option.splits prod.splits)

lemmas database_defs =
  smpp_database_add_message_def smpp_database_add_queue_message_def smpp_database_add_pdu_def
  smpp_database_get_stored_def smpp_database_get_queue_stored_def smpp_database_get_bearerbox_mt_stored_def
  smpp_database_get_dlrs_def smpp_database_get_stored_pdu_def smpp_database_remove_def
  smpp_database_remove_dlr_def smpp_database_deduct_credit_def smpp_database_get_esmes_with_queued_def

lemma database_frames [simp]:
  "same_but_db s (snd (smpp_database_add_message E s m))"
  "same_but_db s (snd (smpp_database_add_queue_message E s m))"
  "same_but_db s (snd (smpp_database_add_pdu E s q))"
  "same_but_db s (snd (smpp_database_get_stored E s ty svc lmt))"
  "same_but_db s (snd (smpp_database_get_queue_stored E s ty svc lmt))"
  "same_but_db s (snd (smpp_database_get_bearerbox_mt_stored E s ty svc lmt))"
  "same_but_db s (snd (smpp_database_get_dlrs E s svc lmt))"
  "same_but_db s (snd (smpp_database_get_stored_pdu E s svc lmt))"
  "same_but_db s (snd (smpp_database_remove E s gid tmp))"
  "same_but_db s (snd (smpp_database_remove_dlr E s gid))"
  "same_but_db s (snd (smpp_database_deduct_credit E s svc cost))"
  "same_but_db s (snd (smpp_database_get_esmes_with_queued E s))"
  by (simp_all add: database_defs)

end
