(* ===== verification/Esme.thy ===== *)
theory Esme
  imports QueuedPdu
begin

text \<open>
  smpp_esme.c, the part that works on ESMEs alone: creation, load accounting, disconnection,
  the table of bound ESMEs, and the choice of the receiver of a message.
\<close>

section \<open>Creation and disconnection\<close>

definition smpp_esme_auth_result_create :: auth_result where
  "smpp_esme_auth_result_create = \<lparr>a_throughput = 0, a_default_smsc = None, a_default_cost = 0,
     a_max_binds = 0, a_callback_url = None, a_simulation = simulation_off,
     a_enable_prepaid_billing = False,
     a_database_store_primary = SMPP_AUTH_DATABASE_STORE_PRIMARY_INHERIT,
     a_allowed_ips = None, a_alt_charset = None\<rparr>"

definition smpp_esme_create :: esme where
  "smpp_esme_create = \<lparr>e_system_id = None, e_conn = False, e_authenticated = False,
     e_connected = False, e_pending_disconnect = False, e_event_container = False,
     e_time_connected = 0, e_time_last_pdu = 0, e_time_last_queue_process = 0,
     e_enquire_link_interval = 120, e_bind_type = SMPP_ESME_UNDEFINED, e_version = 0,
     e_inbound_load = [], e_outbound_load = [], e_inbound_queued = 0, e_outbound_queued = 0,
     e_pending_routing = 0, e_sequence_number = 1, e_errors = 0, e_inbound_processed = 0,
     e_outbound_processed = 0, e_simulation = simulation_off, e_alt_charset = None,
     e_default_smsc = None, e_default_cost = 0, e_open_acks = [], e_catenated_sms_counter = 0,
     e_wait_ack_time = 60, e_max_open_acks = 500, e_global = None, e_ip = None,
     e_pending_len = 0, e_inbuf = [], e_traffic = traffic_zero\<rparr>"

definition smpp_esme_log_label :: "esme option \<Rightarrow> octstr" where
  "smpp_esme_log_label eo =
     (case eo of
        None \<Rightarrow> ''?''
      | Some e \<Rightarrow>
          (if 0 < octstr_len (e_system_id e) then the (e_system_id e)
           else if 0 < octstr_len (e_ip e) then the (e_ip e)
           else ''unbound''))"

definition smpp_esme_stop_listening :: "nat \<Rightarrow> 'd server \<Rightarrow> 'd server option" where
  "smpp_esme_stop_listening i s = upd_esme i (\<lambda>e. e\<lparr>e_connected := False, e_event_container := False\<rparr>) s"

definition smpp_esme_disconnect :: "nat \<Rightarrow> 'd server \<Rightarrow> 'd server option" where
  "smpp_esme_disconnect i s = do {
     s \<leftarrow> smpp_esme_stop_listening i s;
     upd_esme i (\<lambda>e. e\<lparr>e_conn := False\<rparr>) s }"

definition append_unique :: "'a list \<Rightarrow> 'a \<Rightarrow> 'a list" where
  "append_unique xs x = (if x \<in> set xs then xs else xs @ [x])"

definition smpp_esme_cleanup :: "nat \<Rightarrow> 'd server \<Rightarrow> 'd server option" where
  "smpp_esme_cleanup i s = do {
     s \<leftarrow> smpp_esme_stop_listening i s;
     s \<leftarrow> upd_esme i (\<lambda>e. e\<lparr>e_connected := False\<rparr>) s;
     Some (s\<lparr>s_cleanup_queue := append_unique (s_cleanup_queue s) i\<rparr>) }"

section \<open>Load accounting\<close>

definition smpp_esme_inbound_load_increase :: "'d env \<Rightarrow> nat \<Rightarrow> 'd server \<Rightarrow> 'd server option" where
  "smpp_esme_inbound_load_increase E i s = do {
     let s = s\<lparr>s_inbound_processed := s_inbound_processed s + 1,
               s_inbound_load := s_inbound_load s @ [ev_now E]\<rparr>;
     s \<leftarrow> upd_esme i (\<lambda>e. e\<lparr>e_inbound_load := e_inbound_load e @ [ev_now E]\<rparr>) s;
     upd_global i (\<lambda>g. g\<lparr>g_inbound_load := g_inbound_load g @ [ev_now E]\<rparr>) s }"

definition smpp_esme_outbound_load_increase :: "'d env \<Rightarrow> nat \<Rightarrow> 'd server \<Rightarrow> 'd server option" where
  "smpp_esme_outbound_load_increase E i s = do {
     let s = s\<lparr>s_outbound_processed := s_outbound_processed s + 1,
               s_outbound_load := s_outbound_load s @ [ev_now E]\<rparr>;
     s \<leftarrow> upd_esme i (\<lambda>e. e\<lparr>e_outbound_load := e_outbound_load e @ [ev_now E]\<rparr>) s;
     upd_global i (\<lambda>g. g\<lparr>g_outbound_load := g_outbound_load g @ [ev_now E]\<rparr>) s }"

section \<open>The table of bound ESMEs\<close>

definition smpp_esme_global_create :: esme_global where
  "smpp_esme_global_create = \<lparr>g_system_id = None, g_throughput = 0, g_inbound_load = [],
     g_outbound_load = [], g_binds = [], g_max_binds = 0, g_enable_prepaid_billing = False,
     g_traffic = traffic_zero, g_database_store_primary = False\<rparr>"

text \<open>The key is the system id as the ESME sent it; a null system id is the empty string of the model.\<close>

definition smpp_esme_global_add :: "nat \<Rightarrow> 'd server \<Rightarrow> 'd server option" where
  "smpp_esme_global_add i s = do {
     e \<leftarrow> get_esme s i;
     let key = case_option [] id (e_system_id e);
     let g = (case dict_get (s_esmes s) key of
                Some g \<Rightarrow> g
              | None \<Rightarrow> smpp_esme_global_create
                  \<lparr>g_system_id := Some key, g_database_store_primary := c_database_store_primary (s_cfg s)\<rparr>);
     let s = s\<lparr>s_esmes := dict_put (s_esmes s) key (g\<lparr>g_binds := g_binds g @ [i]\<rparr>)\<rparr>;
     upd_esme i (\<lambda>e. e\<lparr>e_global := Some key\<rparr>) s }"

definition smpp_esme_effective_database_store_primary :: "server_cfg \<Rightarrow> auth_result option \<Rightarrow> bool" where
  "smpp_esme_effective_database_store_primary c ar =
     (case ar of
        Some a \<Rightarrow>
          (if a_database_store_primary a \<noteq> SMPP_AUTH_DATABASE_STORE_PRIMARY_INHERIT
           then a_database_store_primary a \<noteq> 0 else c_database_store_primary c)
      | None \<Rightarrow> c_database_store_primary c)"

section \<open>Readers and receivers\<close>

text \<open>The ESMEs a list of binds points to; None when one of the pointers dangles.\<close>

definition live_binds :: "'d server \<Rightarrow> nat list \<Rightarrow> (nat \<times> esme) list option" where
  "live_binds s is = those (map (\<lambda>i. map_option (Pair i) (get_esme s i)) is)"

definition open_ack_space :: "esme \<Rightarrow> int" where
  "open_ack_space e = e_max_open_acks e - int (dict_key_count (e_open_acks e))"

definition outbound_space :: "esme \<Rightarrow> int" where
  "outbound_space e = e_max_open_acks e - int (e_outbound_queued e)"

definition capable_reader :: "esme \<Rightarrow> bool" where
  "capable_reader e \<longleftrightarrow> e_connected e \<and> can_receive (e_bind_type e) \<and> 0 < open_ack_space e"

text \<open>The first loop of get_readers: the system ids with stored messages that have a reader with space.\<close>

fun keys_with_reader :: "'d server \<Rightarrow> octstr list \<Rightarrow> octstr list option" where
  "keys_with_reader s [] = Some []"
| "keys_with_reader s (k # ks) = do {
     found \<leftarrow> (case dict_get (s_esmes s) k of
                 None \<Rightarrow> Some False
               | Some g \<Rightarrow> map_option (list_ex (capable_reader \<circ> snd)) (live_binds s (g_binds g)));
     rest \<leftarrow> keys_with_reader s ks;
     Some (if found then k # rest else rest) }"

definition readers_of :: "bool \<Rightarrow> (nat \<times> esme) list \<Rightarrow> nat list" where
  "readers_of best_only bs =
     (let rs = map fst (filter (capable_reader \<circ> snd) bs) in if best_only then take 1 rs else rs)"

fun collect_readers :: "bool \<Rightarrow> 'd server \<Rightarrow> octstr list \<Rightarrow> nat list option" where
  "collect_readers best_only s [] = Some []"
| "collect_readers best_only s (k # ks) = do {
     g \<leftarrow> dict_get (s_esmes s) k;
     bs \<leftarrow> live_binds s (g_binds g);
     rest \<leftarrow> collect_readers best_only s ks;
     Some (readers_of best_only bs @ rest) }"

definition smpp_esme_global_get_readers :: "'d env \<Rightarrow> bool \<Rightarrow> 'd server \<Rightarrow> (nat list \<times> 'd server) option" where
  "smpp_esme_global_get_readers E best_only s =
     (if c_database_enable_queue (s_cfg s) then do {
        let (queued, s) = smpp_database_get_esmes_with_queued E s;
        ks \<leftarrow> keys_with_reader s queued;
        rs \<leftarrow> collect_readers best_only s ks;
        Some (rs, s) }
      else do {
        rs \<leftarrow> collect_readers best_only s (dict_keys (s_esmes s));
        Some (rs, s) })"

definition eligible :: "esme \<Rightarrow> bool" where
  "eligible e \<longleftrightarrow> e_connected e \<and> can_receive (e_bind_type e) \<and> 0 < outbound_space e \<and> 0 < open_ack_space e"

fun pick_best :: "(nat \<times> esme) option \<Rightarrow> (nat \<times> esme) list \<Rightarrow> (nat \<times> esme) option" where
  "pick_best best [] = best"
| "pick_best None (x # xs) = pick_best (Some x) xs"
| "pick_best (Some b) (x # xs) =
     (if dict_key_count (e_open_acks (snd x)) < dict_key_count (e_open_acks (snd b)) then pick_best (Some x) xs
      else if e_outbound_queued (snd x) < e_outbound_queued (snd b) then pick_best (Some x) xs
      else pick_best (Some b) xs)"

definition smpp_esme_find_best_receiver :: "'d server \<Rightarrow> octstr option \<Rightarrow> nat option option" where
  "smpp_esme_find_best_receiver s sid =
     (case sid of
        None \<Rightarrow> Some None
      | Some k \<Rightarrow>
          (if k = [] then Some None
           else (case dict_get (s_esmes s) (octstr_lower k) of
                   None \<Rightarrow> Some None
                 | Some g \<Rightarrow> do {
                     bs \<leftarrow> live_binds s (g_binds g);
                     Some (map_option fst (pick_best None (filter (eligible \<circ> snd) bs))) })))"

section \<open>Lemmas\<close>

lemma live_binds_Nil [simp]: "live_binds s [] = Some []"
  by (simp add: live_binds_def)

lemma live_binds_Cons [simp]:
  "live_binds s (i # is) = do { e \<leftarrow> get_esme s i; r \<leftarrow> live_binds s is; Some ((i, e) # r) }"
  by (cases "those (map (\<lambda>i. map_option (Pair i) (get_esme s i)) is)")
     (auto simp: live_binds_def split: option.splits)

lemma live_binds_member:
  "live_binds s is = Some bs \<Longrightarrow> (i, e) \<in> set bs \<longleftrightarrow> i \<in> set is \<and> get_esme s i = Some e"
  by (induction "is" arbitrary: bs) (auto split: Option.bind_splits)

lemma live_binds_fst: "live_binds s is = Some bs \<Longrightarrow> map fst bs = is"
  by (induction "is" arbitrary: bs) (auto split: Option.bind_splits)

lemma live_binds_total: "(\<forall>i \<in> set is. get_esme s i \<noteq> None) \<Longrightarrow> \<exists>bs. live_binds s is = Some bs"
  by (induction "is") auto

lemma pick_best_in:
  "pick_best best xs = Some x \<Longrightarrow> x \<in> set xs \<or> best = Some x"
  by (induction best xs rule: pick_best.induct) (auto split: if_splits)

lemma pick_best_Some [simp]: "pick_best (Some b) xs \<noteq> None"
  by (induction xs arbitrary: b) auto

lemma pick_best_None: "pick_best None xs = None \<longleftrightarrow> xs = []"
  by (cases xs) auto

lemma find_best_receiver_cases:
  assumes "smpp_esme_find_best_receiver s sid = Some (Some i)"
  obtains k g e where "sid = Some k" "k \<noteq> []" "dict_get (s_esmes s) (octstr_lower k) = Some g"
    "i \<in> set (g_binds g)" "get_esme s i = Some e" "eligible e"
proof -
  from assms obtain k g bs e where *: "sid = Some k" "k \<noteq> []" "dict_get (s_esmes s) (octstr_lower k) = Some g"
    "live_binds s (g_binds g) = Some bs" "pick_best None (filter (eligible \<circ> snd) bs) = Some (i, e)"
    by (auto simp: smpp_esme_find_best_receiver_def split: option.splits if_splits Option.bind_splits)
  from pick_best_in [OF *(5)] have "(i, e) \<in> set bs" "eligible e" by auto
  with * live_binds_member [OF *(4)] show ?thesis by (auto intro: that)
qed

lemma collect_readers_member:
  assumes "collect_readers b s ks = Some rs" and "i \<in> set rs"
  shows "\<exists>k g e. k \<in> set ks \<and> dict_get (s_esmes s) k = Some g \<and> i \<in> set (g_binds g) \<and>
           get_esme s i = Some e \<and> capable_reader e"
  using assms
proof (induction ks arbitrary: rs)
  case (Cons k ks)
  from Cons.prems obtain g bs rest where *: "dict_get (s_esmes s) k = Some g"
    "live_binds s (g_binds g) = Some bs" "collect_readers b s ks = Some rest" "rs = readers_of b bs @ rest"
    by (auto split: Option.bind_splits)
  show ?case
  proof (cases "i \<in> set (readers_of b bs)")
    case True
    then have "i \<in> set (map fst (filter (capable_reader \<circ> snd) bs))"
      by (auto simp: readers_of_def Let_def dest: in_set_takeD split: if_splits)
    with * live_binds_member [OF *(2)] show ?thesis by fastforce
  next
    case False
    with Cons * show ?thesis by fastforce
  qed
qed simp

lemma collect_readers_total:
  assumes "\<And>k. k \<in> set ks \<Longrightarrow> \<exists>g. dict_get (s_esmes s) k = Some g \<and> (\<forall>i \<in> set (g_binds g). get_esme s i \<noteq> None)"
  shows "\<exists>rs. collect_readers b s ks = Some rs"
  using assms
proof (induction ks)
  case (Cons k ks)
  from Cons.prems [of k] obtain g where g: "dict_get (s_esmes s) k = Some g"
    "\<forall>i \<in> set (g_binds g). get_esme s i \<noteq> None" by auto
  from live_binds_total [OF g(2)] obtain bs where "live_binds s (g_binds g) = Some bs" ..
  moreover from Cons obtain rest where "collect_readers b s ks = Some rest" by fastforce
  ultimately show ?case using g by simp
qed simp

lemma collect_readers_complete:
  assumes "collect_readers False s ks = Some rs" and "k \<in> set ks" and "dict_get (s_esmes s) k = Some g"
    and "i \<in> set (g_binds g)" and "get_esme s i = Some e" and "capable_reader e"
  shows "i \<in> set rs"
  using assms
proof (induction ks arbitrary: rs)
  case (Cons k' ks)
  from Cons.prems(1) obtain g' bs rest where *: "dict_get (s_esmes s) k' = Some g'"
    "live_binds s (g_binds g') = Some bs" "collect_readers False s ks = Some rest" "rs = readers_of False bs @ rest"
    by (auto split: Option.bind_splits)
  show ?case
  proof (cases "k = k'")
    case True
    with * Cons.prems live_binds_member [OF *(2), of i e] show ?thesis
      by (force simp: readers_of_def)
  next
    case False
    with Cons * show ?thesis by simp
  qed
qed simp

section \<open>Properties\<close>

text \<open>
  C35: The receiver chosen for a system id is a bind of that system id (in lower case) that is
  connected, was bound as receiver or transceiver, and has room both in its outbound queue and
  in its table of open acknowledgements; no receiver is chosen only when no bind qualifies. With
  live binds the choice never dereferences a dangling pointer.
\<close>

theorem best_receiver_spec:
  assumes "k \<noteq> []" and "dict_get (s_esmes s) (octstr_lower k) = Some g"
    and "\<forall>i \<in> set (g_binds g). get_esme s i \<noteq> None"
  shows "\<exists>r. smpp_esme_find_best_receiver s (Some k) = Some r
    \<and> (r = None \<longleftrightarrow> (\<forall>i e. i \<in> set (g_binds g) \<and> get_esme s i = Some e \<longrightarrow> \<not> eligible e))
    \<and> (\<forall>i. r = Some i \<longrightarrow> i \<in> set (g_binds g) \<and>
         (\<exists>e. get_esme s i = Some e \<and> e_connected e \<and> can_receive (e_bind_type e) \<and>
              int (e_outbound_queued e) < e_max_open_acks e \<and>
              int (dict_key_count (e_open_acks e)) < e_max_open_acks e))"
proof -
  from live_binds_total [OF assms(3)] obtain bs where bs: "live_binds s (g_binds g) = Some bs" ..
  let ?r = "map_option fst (pick_best None (filter (eligible \<circ> snd) bs))"
  have find: "smpp_esme_find_best_receiver s (Some k) = Some ?r"
    using assms(1,2) bs by (simp add: smpp_esme_find_best_receiver_def)
  have none: "?r = None \<longleftrightarrow> (\<forall>i e. i \<in> set (g_binds g) \<and> get_esme s i = Some e \<longrightarrow> \<not> eligible e)"
    using live_binds_member [OF bs] by (fastforce simp: pick_best_None filter_empty_conv)
  have some: "i \<in> set (g_binds g) \<and> (\<exists>e. get_esme s i = Some e \<and> e_connected e \<and> can_receive (e_bind_type e) \<and>
      int (e_outbound_queued e) < e_max_open_acks e \<and> int (dict_key_count (e_open_acks e)) < e_max_open_acks e)"
    if "?r = Some i" for i
  proof -
    from find that have "smpp_esme_find_best_receiver s (Some k) = Some (Some i)" by simp
    then obtain e where "i \<in> set (g_binds g)" "get_esme s i = Some e" "eligible e"
      using assms(2) by (elim find_best_receiver_cases) simp
    then show ?thesis by (simp add: eligible_def outbound_space_def open_ack_space_def)
  qed
  show ?thesis
    using find none some by (intro exI [of _ ?r] conjI [OF find] conjI [OF none] allI impI) (rule some)
qed

text \<open>A table with one system id, bound by the given ESMEs at the addresses 0, 1 and so on.\<close>

definition bound_server :: "octstr \<Rightarrow> esme list \<Rightarrow> unit server" where
  "bound_server k es = example_server
     \<lparr>s_esme_heap := zip [0..<length es] (map (\<lambda>e. e\<lparr>e_system_id := Some k, e_global := Some k\<rparr>) es),
      s_esme_counter := length es,
      s_esmes := [(k, smpp_esme_global_create\<lparr>g_system_id := Some k, g_binds := [0..<length es]\<rparr>)]\<rparr>"

definition example_esme :: "nat \<Rightarrow> nat \<Rightarrow> esme" where
  "example_esme acks queued = smpp_esme_create
     \<lparr>e_conn := True, e_connected := True, e_authenticated := True, e_bind_type := 3,
      e_open_acks := map (\<lambda>n. (show_nat n, n)) [0..<acks], e_outbound_queued := queued\<rparr>"

lemma example_esme_simps [simp]:
  "dict_key_count (e_open_acks (example_esme a q)) = a" "e_outbound_queued (example_esme a q) = q"
  by (simp_all add: example_esme_def dict_key_count_def)

theorem best_receiver_spec_witness:
  "\<exists>r. smpp_esme_find_best_receiver (bound_server ''abc'' [example_esme 1 0]) (Some ''ABC'') = Some (Some r)"
proof -
  let ?s = "bound_server ''abc'' [example_esme 1 0]"
  let ?g = "smpp_esme_global_create\<lparr>g_system_id := Some ''abc'', g_binds := [0]\<rparr>"
  let ?e = "example_esme 1 0\<lparr>e_system_id := Some ''abc'', e_global := Some ''abc''\<rparr>"
  have low: "octstr_lower ''ABC'' = ''abc''" by code_simp
  have g: "dict_get (s_esmes ?s) (octstr_lower ''ABC'') = Some ?g"
    by (simp add: low bound_server_def dict_get_Cons)
  have e: "get_esme ?s 0 = Some ?e"
    by (simp add: bound_server_def get_esme_def dict_get_def)
  have el: "eligible ?e"
    by (simp add: example_esme_def smpp_esme_create_def eligible_def outbound_space_def open_ack_space_def
        can_receive_def dict_key_count_def)
  have "\<forall>i \<in> set (g_binds ?g). get_esme ?s i \<noteq> None" using e by simp
  from best_receiver_spec [OF _ g this] e el show ?thesis by auto
qed

text \<open>
  The pairwise rule of the choice (fewer open acknowledgements or fewer queued PDUs than the
  best so far) is not an order: there is a server on which the chosen bind has strictly more
  open acknowledgements and strictly more queued PDUs than another qualified bind.
\<close>

theorem best_receiver_can_be_dominated:
  "\<exists>s i j e e'. smpp_esme_find_best_receiver (s :: unit server) (Some ''abc'') = Some (Some i)
     \<and> get_esme s i = Some e \<and> get_esme s j = Some e' \<and> eligible e'
     \<and> dict_key_count (e_open_acks e') < dict_key_count (e_open_acks e)
     \<and> e_outbound_queued e' < e_outbound_queued e"
proof -
  let ?es = "[example_esme 3 2, example_esme 2 10, example_esme 5 9]"
  let ?s = "bound_server ''abc'' ?es"
  let ?e = "\<lambda>a q. example_esme a q\<lparr>e_system_id := Some ''abc'', e_global := Some ''abc''\<rparr>"
  have low: "octstr_lower ''abc'' = ''abc''" by code_simp
  have h: "get_esme ?s 0 = Some (?e 3 2)" "get_esme ?s (Suc 0) = Some (?e 2 10)" "get_esme ?s 2 = Some (?e 5 9)"
    by (simp_all add: bound_server_def get_esme_def dict_get_def upt_rec)
  have el: "eligible (?e a q)" "dict_key_count (e_open_acks (?e a q)) = a" "e_outbound_queued (?e a q) = q"
    if "a < 400" "q < 400" for a q
    using that by (simp_all add: example_esme_def smpp_esme_create_def eligible_def outbound_space_def
        open_ack_space_def can_receive_def dict_key_count_def)
  have "dict_get (s_esmes ?s) ''abc'' =
      Some (smpp_esme_global_create\<lparr>g_system_id := Some ''abc'', g_binds := [0, 1, 2]\<rparr>)"
    by (simp add: bound_server_def dict_get_Cons upt_rec)
  then have "smpp_esme_find_best_receiver ?s (Some ''abc'') = Some (Some 2)"
    by (simp add: smpp_esme_find_best_receiver_def low h el)
  with h el show ?thesis
    by (intro exI [of _ ?s] exI [of _ 2] exI [of _ 0] exI [of _ "?e 5 9"] exI [of _ "?e 3 2"]) simp
qed

text \<open>
  The table of bound ESMEs is keyed by the system id as it was sent, while deliveries look it
  up in lower case: an ESME that binds with an upper-case letter in its system id, when no
  lower-case entry exists, is never found as a receiver, although its bind is registered.
\<close>

theorem mixed_case_bind_never_receives:
  assumes "get_esme s i = Some e" and "e_system_id e = Some k" and "octstr_lower k \<noteq> k"
    and "dict_get (s_esmes s) (octstr_lower k) = None"
  shows "\<exists>s' g. smpp_esme_global_add i s = Some s' \<and> dict_get (s_esmes s') k = Some g \<and> i \<in> set (g_binds g)
    \<and> smpp_esme_find_best_receiver s' (Some k) = Some None"
  using assms
  by (auto simp: smpp_esme_global_add_def heap_defs smpp_esme_find_best_receiver_def Let_def
      split: option.splits)

theorem mixed_case_bind_never_receives_witness:
  "\<exists>s'. smpp_esme_global_add 0 (put_esme 0 (smpp_esme_create\<lparr>e_system_id := Some ''Acme''\<rparr>) example_server) = Some s'
     \<and> smpp_esme_find_best_receiver s' (Some ''Acme'') = Some None"
proof -
  let ?e = "smpp_esme_create\<lparr>e_system_id := Some ''Acme''\<rparr>"
  let ?s = "put_esme 0 ?e example_server"
  have "octstr_lower ''Acme'' \<noteq> ''Acme''" by code_simp
  moreover have "dict_get (s_esmes ?s) (octstr_lower ''Acme'') = None"
    by (simp add: put_esme_def example_server_def initial_server_def)
  moreover have "get_esme ?s 0 = Some ?e" "e_system_id ?e = Some ''Acme''" by simp_all
  ultimately show ?thesis using mixed_case_bind_never_receives [of ?s 0 ?e "''Acme''"] by blast
qed

end
