(* ===== verification/Listener.thy ===== *)
theory Listener
  imports Esme
begin

text \<open>
  smpp_listener.c: the list of blocked addresses with its exemptions, reading PDUs from a
  connection, the read event and the accept callback.
\<close>

section \<open>The block list\<close>

definition smpp_blocked_ip_create :: blocked_ip where
  "smpp_blocked_ip_create = \<lparr>ip_time_blocked = 0, ip_attempts = 0\<rparr>"

fun octets_match :: "octstr list \<Rightarrow> octstr list \<Rightarrow> bool" where
  "octets_match (p # ps) (q # qs) = ((p = ''*'' \<or> p = q) \<and> octets_match ps qs)"
| "octets_match _ _ = True"

definition smpp_listener_ipv4_wildcard_match :: "gwlib \<Rightarrow> octstr \<Rightarrow> octstr \<Rightarrow> bool" where
  "smpp_listener_ipv4_wildcard_match G pattern ip =
     (let pp = gw_octstr_split G pattern ''.''; ipp = gw_octstr_split G ip ''.'' in
      if length pp \<noteq> 4 \<or> length ipp \<noteq> 4 then False else octets_match pp ipp)"

definition smpp_listener_ip_blocklist_exempt :: "gwlib \<Rightarrow> server_cfg \<Rightarrow> octstr option \<Rightarrow> bool" where
  "smpp_listener_ip_blocklist_exempt G c ipo =
     (case (c_ip_blocklist_exempt_ips c, ipo) of
        (Some ex, Some ip) \<Rightarrow>
          (if ex = [] \<or> ip = [] then False
           else if octstr_case_compare (Some ex) (Some ''*'') then True
           else if octstr_case_compare (Some ex) (Some ''*.*.*.*'') then True
           else if octstr_search ex ip \<noteq> None then True
           else if octstr_search ex ''*'' = None then False
           else list_ex (\<lambda>tok. tok \<noteq> [] \<and> octstr_search tok ''*'' \<noteq> None \<and>
                                smpp_listener_ipv4_wildcard_match G tok ip)
                  (gw_octstr_split G ex '' ''))
      | _ \<Rightarrow> False)"

text \<open>The key of a null address is the empty string.\<close>

definition smpp_listener_auth_failed :: "'d env \<Rightarrow> octstr option \<Rightarrow> 'd server \<Rightarrow> 'd server" where
  "smpp_listener_auth_failed E ipo s =
     (if smpp_listener_ip_blocklist_exempt (ev_gw E) (s_cfg s) ipo then s
      else
        let key = case_option [] id ipo;
            b = (case dict_get (s_ip_blocklist s) key of None \<Rightarrow> smpp_blocked_ip_create | Some b \<Rightarrow> b)
        in s\<lparr>s_ip_blocklist := dict_put (s_ip_blocklist s) key
               (b\<lparr>ip_attempts := ip_attempts b + 1, ip_time_blocked := ev_now E\<rparr>)\<rparr>)"

definition smpp_listener_ip_is_blocked :: "'d env \<Rightarrow> octstr option \<Rightarrow> 'd server \<Rightarrow> bool \<times> 'd server" where
  "smpp_listener_ip_is_blocked E ipo s =
     (if smpp_listener_ip_blocklist_exempt (ev_gw E) (s_cfg s) ipo then (False, s)
      else
        let key = case_option [] id ipo in
        (case dict_get (s_ip_blocklist s) key of
           None \<Rightarrow> (False, s)
         | Some b \<Rightarrow>
             (if c_ip_blocklist_time (s_cfg s) < ev_now E - ip_time_blocked b
              then (False, s\<lparr>s_ip_blocklist := dict_put (s_ip_blocklist s) key
                              (b\<lparr>ip_time_blocked := 0, ip_attempts := 0\<rparr>)\<rparr>)
              else (c_ip_blocklist_attempts (s_cfg s) \<le> ip_attempts b, s))))"

section \<open>Reading PDUs\<close>

datatype read_result = Read_pdu pdu | Read_none | Read_closed | Read_invalid

text \<open>
  One call on the connection of an ESME: the result, the bytes left in the buffer and the
  pending length. \<open>eof\<close> says that the peer closed the connection or that it failed.
\<close>

definition read_pdu_conn :: "gwlib \<Rightarrow> bool \<Rightarrow> octstr option \<Rightarrow> int \<Rightarrow> octstr \<Rightarrow> read_result \<times> octstr \<times> int" where
  "read_pdu_conn G eof sid pending inbuf =
     (let (len, buf) = (if pending = 0 then gw_pdu_read_len G inbuf else (pending, inbuf)) in
      if pending = 0 \<and> len = -1 then (Read_invalid, buf, 0)
      else if pending = 0 \<and> len = 0 then (if eof then Read_closed else Read_none, buf, 0)
      else (case gw_pdu_read_data G buf len of
              None \<Rightarrow> (if eof then Read_closed else Read_none, buf, len)
            | Some (os, buf') \<Rightarrow>
                (case gw_pdu_unpack G sid os of
                   None \<Rightarrow> (Read_invalid, buf', 0)
                 | Some p \<Rightarrow> (Read_pdu p, buf', 0))))"

definition smpp_listener_read_pdu :: "gwlib \<Rightarrow> bool \<Rightarrow> esme \<Rightarrow> read_result \<times> esme" where
  "smpp_listener_read_pdu G eof e =
     (if \<not> e_conn e then (Read_closed, e)
      else let (r, buf, len) = read_pdu_conn G eof (e_system_id e) (e_pending_len e) (e_inbuf e)
           in (r, e\<lparr>e_inbuf := buf, e_pending_len := len\<rparr>))"

definition smpp_queues_add_inbound :: "nat \<Rightarrow> 'd server \<Rightarrow> 'd server option" where
  "smpp_queues_add_inbound p s = do {
     q \<leftarrow> get_pdu s p;
     i \<leftarrow> q_esme q;
     s \<leftarrow> upd_esme i (\<lambda>e. e\<lparr>e_inbound_queued := e_inbound_queued e + 1\<rparr>) s;
     Some (s\<lparr>s_inbound_queue := s_inbound_queue s @ [(p, i)]\<rparr>) }"

text \<open>The body of the read loop for one PDU: the error counter is reset and the PDU queued.\<close>

definition listener_queue_pdu :: "nat \<Rightarrow> pdu \<Rightarrow> 'd server \<Rightarrow> 'd server option" where
  "listener_queue_pdu i p s = do {
     s \<leftarrow> upd_esme i (\<lambda>e. e\<lparr>e_errors := 0\<rparr>) s;
     let (a, s) = alloc_pdu (smpp_queued_pdu_create\<lparr>q_pdu := Some p, q_esme := Some i\<rparr>) s;
     smpp_queues_add_inbound a s }"

text \<open>The read loop; its fuel is the number of PDUs it may read, None also when the fuel is used up.\<close>

fun listener_read_loop :: "gwlib \<Rightarrow> bool \<Rightarrow> nat \<Rightarrow> nat \<Rightarrow> 'd server \<Rightarrow> (read_result \<times> 'd server) option" where
  "listener_read_loop G eof 0 i s = None"
| "listener_read_loop G eof (Suc n) i s = do {
     e \<leftarrow> get_esme s i;
     let (r, e') = smpp_listener_read_pdu G eof e;
     let s = put_esme i e' s;
     (case r of
        Read_pdu p \<Rightarrow> do { s \<leftarrow> listener_queue_pdu i p s; listener_read_loop G eof n i s }
      | _ \<Rightarrow> Some (r, s)) }"

definition listener_drop :: "'d env \<Rightarrow> nat \<Rightarrow> 'd server \<Rightarrow> 'd server option" where
  "listener_drop E i s = do {
     s \<leftarrow> smpp_esme_stop_listening i s;
     e \<leftarrow> get_esme s i;
     (if \<not> e_authenticated e then smpp_esme_cleanup i (smpp_listener_auth_failed E (e_ip e) s)
      else Some s) }"

definition smpp_listener_event :: "'d env \<Rightarrow> nat \<Rightarrow> octstr \<Rightarrow> bool \<Rightarrow> nat \<Rightarrow> 'd server \<Rightarrow> 'd server option" where
  "smpp_listener_event E i bytes eof fuel s = do {
     s \<leftarrow> upd_esme i (\<lambda>e. e\<lparr>e_inbuf := e_inbuf e @ bytes\<rparr>) s;
     (r, s) \<leftarrow> listener_read_loop (ev_gw E) eof fuel i s;
     (case r of
        Read_closed \<Rightarrow> listener_drop E i s
      | Read_invalid \<Rightarrow> do {
          s \<leftarrow> upd_esme i (\<lambda>e. e\<lparr>e_errors := e_errors e + 1\<rparr>) s;
          e \<leftarrow> get_esme s i;
          (if SMPP_ESME_MAX_CONSECUTIVE_ERRORS \<le> e_errors e then listener_drop E i s else Some s) }
      | _ \<Rightarrow> Some s) }"

definition smpp_listener_connection_callback :: "'d env \<Rightarrow> octstr option \<Rightarrow> 'd server \<Rightarrow> nat option \<times> 'd server" where
  "smpp_listener_connection_callback E ipo s =
     (let (blocked, s) = (if 0 < octstr_len ipo then smpp_listener_ip_is_blocked E ipo s else (False, s)) in
      if blocked then (None, s)
      else
        let i = s_esme_counter s;
            e = smpp_esme_create\<lparr>e_conn := True, e_connected := True, e_time_connected := ev_now E, e_ip := ipo,
                  e_max_open_acks := c_default_max_open_acks (s_cfg s), e_event_container := True\<rparr>
        in (Some i, put_esme i e (s\<lparr>s_esme_counter := s_esme_counter s + 1\<rparr>)))"

section \<open>Lemmas on the block list\<close>

lemma auth_failed_exempt:
  "smpp_listener_ip_blocklist_exempt (ev_gw E) (s_cfg s) ip \<Longrightarrow> smpp_listener_auth_failed E ip s = s"
  by (simp add: smpp_listener_auth_failed_def)

lemma auth_failed_cfg [simp]: "s_cfg (smpp_listener_auth_failed E ip s) = s_cfg s"
  by (simp add: smpp_listener_auth_failed_def Let_def)

lemma auth_failed_entry:
  assumes "\<not> smpp_listener_ip_blocklist_exempt (ev_gw E) (s_cfg s) (Some ip)"
  shows "dict_get (s_ip_blocklist (smpp_listener_auth_failed E (Some ip) s)) k =
    (if k = ip then Some \<lparr>ip_time_blocked = ev_now E,
        ip_attempts = (case dict_get (s_ip_blocklist s) ip of None \<Rightarrow> 0 | Some b \<Rightarrow> ip_attempts b) + 1\<rparr>
     else dict_get (s_ip_blocklist s) k)"
  using assms by (auto simp: smpp_listener_auth_failed_def Let_def smpp_blocked_ip_create_def split: option.splits)

lemma exempt_star:
  assumes "ip \<noteq> []" and "c_ip_blocklist_exempt_ips c \<in> {Some ''*'', Some ''*.*.*.*''}"
  shows "smpp_listener_ip_blocklist_exempt G c (Some ip)"
proof -
  from assms(2) consider "c_ip_blocklist_exempt_ips c = Some ''*''" | "c_ip_blocklist_exempt_ips c = Some ''*.*.*.*''"
    by auto
  then show ?thesis
    by cases (use assms(1) in \<open>simp_all add: smpp_listener_ip_blocklist_exempt_def octstr_case_compare_def\<close>)
qed

text \<open>A run of failed authentications from one address, at the given times.\<close>

definition fail_run :: "'d env \<Rightarrow> octstr \<Rightarrow> timestamp list \<Rightarrow> 'd server \<Rightarrow> 'd server" where
  "fail_run E ip ts s = foldl (\<lambda>s t. smpp_listener_auth_failed (E\<lparr>ev_now := t\<rparr>) (Some ip) s) s ts"

lemma fail_run_cfg [simp]: "s_cfg (fail_run E ip ts s) = s_cfg s"
  by (induction ts rule: rev_induct) (simp_all add: fail_run_def)

lemma fail_run_entry:
  assumes "\<not> smpp_listener_ip_blocklist_exempt (ev_gw E) (s_cfg s) (Some ip)"
    and "ts \<noteq> []"
  shows "dict_get (s_ip_blocklist (fail_run E ip ts s)) k =
    (if k = ip then Some \<lparr>ip_time_blocked = last ts,
        ip_attempts = (case dict_get (s_ip_blocklist s) ip of None \<Rightarrow> 0 | Some b \<Rightarrow> ip_attempts b) + int (length ts)\<rparr>
     else dict_get (s_ip_blocklist s) k)"
  using assms(2)
proof (induction ts arbitrary: k rule: rev_induct)
  case (snoc t ts)
  have step: "fail_run E ip (ts @ [t]) s = smpp_listener_auth_failed (E\<lparr>ev_now := t\<rparr>) (Some ip) (fail_run E ip ts s)"
    by (simp add: fail_run_def)
  show ?case
  proof (cases "ts = []")
    case True
    then show ?thesis using assms(1) by (simp add: fail_run_def auth_failed_entry)
  next
    case False
    with snoc assms(1) show ?thesis by (simp add: step auth_failed_entry)
  qed
qed simp

section \<open>Lemmas on reading\<close>

text \<open>The PDUs one event reads from a connection, as a function of the ESME alone.\<close>

fun stream_pdus :: "gwlib \<Rightarrow> bool \<Rightarrow> nat \<Rightarrow> esme \<Rightarrow> (pdu list \<times> read_result \<times> esme) option" where
  "stream_pdus G eof 0 e = None"
| "stream_pdus G eof (Suc n) e =
     (let (r, e') = smpp_listener_read_pdu G eof e in
      (case r of
         Read_pdu p \<Rightarrow> map_option (\<lambda>(ps, r, e''). (p # ps, r, e'')) (stream_pdus G eof n (e'\<lparr>e_errors := 0\<rparr>))
       | _ \<Rightarrow> Some ([], r, e')))"

text \<open>The reader consumes input: a length takes at least a byte, data never grows the buffer.\<close>

definition reader_consumes :: "gwlib \<Rightarrow> bool" where
  "reader_consumes G \<longleftrightarrow>
     (\<forall>buf n rest. gw_pdu_read_len G buf = (n, rest) \<longrightarrow> n \<noteq> 0 \<longrightarrow> length rest < length buf) \<and>
     (\<forall>buf n os rest. gw_pdu_read_data G buf n = Some (os, rest) \<longrightarrow> length rest \<le> length buf)"

definition unread :: "esme \<Rightarrow> nat" where
  "unread e = length (e_inbuf e) + (if e_pending_len e = 0 then 0 else 1)"

lemma read_pdu_consumes:
  assumes "reader_consumes G" and "smpp_listener_read_pdu G eof e = (Read_pdu p, e')"
  shows "unread e' < unread e"
proof -
  have len: "\<And>buf n rest. gw_pdu_read_len G buf = (n, rest) \<Longrightarrow> n \<noteq> 0 \<Longrightarrow> length rest < length buf"
    and data: "\<And>buf n os rest. gw_pdu_read_data G buf n = Some (os, rest) \<Longrightarrow> length rest \<le> length buf"
    using assms(1) by (auto simp: reader_consumes_def)
  show ?thesis
    using assms(2)
    by (auto simp: smpp_listener_read_pdu_def read_pdu_conn_def unread_def
        split: if_splits option.splits prod.splits dest!: data len)
qed

lemma unread_errors [simp]: "unread (e\<lparr>e_errors := n\<rparr>) = unread e"
  by (simp add: unread_def)

lemma stream_pdus_total:
  assumes "reader_consumes G" and "unread e < n"
  shows "\<exists>r. stream_pdus G eof n e = Some r"
  using assms(2)
proof (induction n arbitrary: e)
  case (Suc n)
  obtain r e' where r: "smpp_listener_read_pdu G eof e = (r, e')" by fastforce
  show ?case
  proof (cases r)
    case (Read_pdu p)
    then have "unread e' < unread e" using read_pdu_consumes assms(1) r by blast
    with Suc.prems have "unread (e'\<lparr>e_errors := 0\<rparr>) < n" by simp
    from Suc.IH [OF this] show ?thesis using r Read_pdu by auto
  qed (use r in auto)
qed simp

lemma stream_pdus_result: "stream_pdus G eof n e \<noteq> Some (ps, Read_pdu p, e')"
  by (induction G eof n e arbitrary: ps rule: stream_pdus.induct)
     (auto split: prod.splits read_result.splits)

lemma get_esme_queue_pdu:
  assumes "get_esme s i = Some e"
  shows "\<exists>s'. listener_queue_pdu i p s = Some s' \<and>
    get_esme s' i = Some (e\<lparr>e_errors := 0, e_inbound_queued := e_inbound_queued e + 1\<rparr>) \<and>
    (\<forall>j. j \<noteq> i \<longrightarrow> get_esme s' j = get_esme s j) \<and>
    s_inbound_queue s' = s_inbound_queue s @ [(s_next_pdu s, i)] \<and>
    s_next_pdu s' = s_next_pdu s + 1 \<and>
    get_pdu s' (s_next_pdu s) = Some (smpp_queued_pdu_create\<lparr>q_pdu := Some p, q_esme := Some i\<rparr>) \<and>
    (\<forall>a. a \<noteq> s_next_pdu s \<longrightarrow> get_pdu s' a = get_pdu s a) \<and>
    s_cleanup_queue s' = s_cleanup_queue s \<and> s_ip_blocklist s' = s_ip_blocklist s \<and> s_cfg s' = s_cfg s"
  using assms by (auto simp: listener_queue_pdu_def smpp_queues_add_inbound_def heap_defs)

text \<open>Entries of the queue for a list of PDUs read by ESME i, at consecutive addresses from a on.\<close>

definition queue_entries :: "nat \<Rightarrow> nat \<Rightarrow> 'a list \<Rightarrow> (nat \<times> nat) list" where
  "queue_entries a i ps = map (\<lambda>k. (a + k, i)) [0..<length ps]"

lemma queue_entries_Cons: "queue_entries a i (p # ps) = (a, i) # queue_entries (Suc a) i ps"
  by (simp add: queue_entries_def upt_conv_Cons map_Suc_upt [symmetric] del: upt_Suc)

lemma read_pdu_queued:
  "smpp_listener_read_pdu G eof (e\<lparr>e_inbound_queued := c\<rparr>) =
     (let (r, e') = smpp_listener_read_pdu G eof e in (r, e'\<lparr>e_inbound_queued := c\<rparr>))"
  by (simp add: smpp_listener_read_pdu_def Let_def case_prod_beta)

lemma read_loop_spec:
  assumes "stream_pdus G eof n e = Some (ps, r, e')" and "get_esme s i = Some (e\<lparr>e_inbound_queued := c\<rparr>)"
  shows "\<exists>s'. listener_read_loop G eof n i s = Some (r, s') \<and>
    get_esme s' i = Some (e'\<lparr>e_inbound_queued := c + length ps\<rparr>) \<and>
    s_inbound_queue s' = s_inbound_queue s @ queue_entries (s_next_pdu s) i ps \<and>
    (\<forall>k < length ps. get_pdu s' (s_next_pdu s + k) =
        Some (smpp_queued_pdu_create\<lparr>q_pdu := Some (ps ! k), q_esme := Some i\<rparr>)) \<and>
    (\<forall>a < s_next_pdu s. get_pdu s' a = get_pdu s a) \<and>
    s_cleanup_queue s' = s_cleanup_queue s \<and> s_ip_blocklist s' = s_ip_blocklist s \<and> s_cfg s' = s_cfg s"
  using assms
proof (induction n arbitrary: e ps s c)
  case (Suc n)
  obtain r1 e1 where r1: "smpp_listener_read_pdu G eof e = (r1, e1)" by fastforce
  have r1': "smpp_listener_read_pdu G eof (e\<lparr>e_inbound_queued := c\<rparr>) = (r1, e1\<lparr>e_inbound_queued := c\<rparr>)"
    by (simp add: read_pdu_queued r1)
  show ?case
  proof (cases "\<exists>p. r1 = Read_pdu p")
    case False
    with Suc.prems r1 r1' show ?thesis
      by (cases r1) (auto simp: queue_entries_def get_esme_def get_pdu_def put_esme_def)
  next
    case True
    then obtain p where p: "r1 = Read_pdu p" ..
    from Suc.prems r1 p obtain ps1 where ps: "ps = p # ps1"
      and rest: "stream_pdus G eof n (e1\<lparr>e_errors := 0\<rparr>) = Some (ps1, r, e')" by auto
    let ?s1 = "put_esme i (e1\<lparr>e_inbound_queued := c\<rparr>) s"
    from get_esme_queue_pdu [of ?s1 i _ p] obtain s2 where s2: "listener_queue_pdu i p ?s1 = Some s2"
      "get_esme s2 i = Some (e1\<lparr>e_errors := 0\<rparr>\<lparr>e_inbound_queued := c + 1\<rparr>)"
      "s_inbound_queue s2 = s_inbound_queue s @ [(s_next_pdu s, i)]"
      "s_next_pdu s2 = s_next_pdu s + 1"
      "get_pdu s2 (s_next_pdu s) = Some (smpp_queued_pdu_create\<lparr>q_pdu := Some p, q_esme := Some i\<rparr>)"
      "\<forall>a. a \<noteq> s_next_pdu s \<longrightarrow> get_pdu s2 a = get_pdu s a"
      "s_cleanup_queue s2 = s_cleanup_queue s" "s_ip_blocklist s2 = s_ip_blocklist s" "s_cfg s2 = s_cfg s"
      by (auto simp: get_pdu_def put_esme_def get_esme_def)
    from Suc.IH [OF rest s2(2)] obtain s' where "listener_read_loop G eof n i s2 = Some (r, s')"
      and IH: "get_esme s' i = Some (e'\<lparr>e_inbound_queued := c + 1 + length ps1\<rparr>)"
      "s_inbound_queue s' = s_inbound_queue s2 @ queue_entries (s_next_pdu s2) i ps1"
      "\<forall>k < length ps1. get_pdu s' (s_next_pdu s2 + k) =
        Some (smpp_queued_pdu_create\<lparr>q_pdu := Some (ps1 ! k), q_esme := Some i\<rparr>)"
      "\<forall>a < s_next_pdu s2. get_pdu s' a = get_pdu s2 a"
      "s_cleanup_queue s' = s_cleanup_queue s2" "s_ip_blocklist s' = s_ip_blocklist s2" "s_cfg s' = s_cfg s2"
      by blast
    moreover have "\<forall>k < length ps. get_pdu s' (s_next_pdu s + k) =
        Some (smpp_queued_pdu_create\<lparr>q_pdu := Some (ps ! k), q_esme := Some i\<rparr>)"
    proof (intro allI impI)
      fix k assume "k < length ps"
      then show "get_pdu s' (s_next_pdu s + k) =
        Some (smpp_queued_pdu_create\<lparr>q_pdu := Some (ps ! k), q_esme := Some i\<rparr>)"
        using IH(3,4) s2(4,5) by (cases k) (simp_all add: ps)
    qed
    ultimately show ?thesis
      using Suc.prems(2) r1' p s2 by (auto simp: ps queue_entries_Cons)
  qed
qed simp

lemma auth_failed_local:
  assumes "s_ip_blocklist s1 = s_ip_blocklist s" and "s_cfg s1 = s_cfg s"
  shows "s_ip_blocklist (smpp_listener_auth_failed E ip s1) = s_ip_blocklist (smpp_listener_auth_failed E ip s)"
  using assms by (simp add: smpp_listener_auth_failed_def Let_def split: option.splits)

lemma listener_event_unfold:
  fixes s :: "'d server"
  assumes "get_esme s i = Some e"
    and "stream_pdus (ev_gw E) eof fuel (e\<lparr>e_inbuf := e_inbuf e @ bytes\<rparr>) = Some (ps, r, e')"
  obtains s1 :: "'d server" where "get_esme s1 i = Some (e'\<lparr>e_inbound_queued := e_inbound_queued e + length ps\<rparr>)"
    and "s_inbound_queue s1 = s_inbound_queue s @ queue_entries (s_next_pdu s) i ps"
    and "\<forall>k < length ps. get_pdu s1 (s_next_pdu s + k) =
        Some (smpp_queued_pdu_create\<lparr>q_pdu := Some (ps ! k), q_esme := Some i\<rparr>)"
    and "s_cleanup_queue s1 = s_cleanup_queue s" "s_ip_blocklist s1 = s_ip_blocklist s" "s_cfg s1 = s_cfg s"
    and "smpp_listener_event E i bytes eof fuel s =
      (let e1 = e'\<lparr>e_inbound_queued := e_inbound_queued e + length ps, e_errors := e_errors e' + 1\<rparr>
       in case r of Read_closed \<Rightarrow> listener_drop E i s1
        | Read_invalid \<Rightarrow> (if 9 \<le> e_errors e' then listener_drop E i (put_esme i e1 s1) else Some (put_esme i e1 s1))
        | _ \<Rightarrow> Some s1)"
proof -
  let ?e = "e\<lparr>e_inbuf := e_inbuf e @ bytes\<rparr>"
  have "get_esme (put_esme i ?e s) i = Some (?e\<lparr>e_inbound_queued := e_inbound_queued e\<rparr>)" by simp
  from read_loop_spec [OF assms(2) this] obtain s1 where
    loop: "listener_read_loop (ev_gw E) eof fuel i (put_esme i ?e s) = Some (r, s1)"
    and s1: "get_esme s1 i = Some (e'\<lparr>e_inbound_queued := e_inbound_queued e + length ps\<rparr>)"
      "s_inbound_queue s1 = s_inbound_queue s @ queue_entries (s_next_pdu s) i ps"
      "\<forall>k < length ps. get_pdu s1 (s_next_pdu s + k) =
        Some (smpp_queued_pdu_create\<lparr>q_pdu := Some (ps ! k), q_esme := Some i\<rparr>)"
      "s_cleanup_queue s1 = s_cleanup_queue s" "s_ip_blocklist s1 = s_ip_blocklist s" "s_cfg s1 = s_cfg s"
    by (auto simp: put_esme_def)
  show ?thesis
    by (rule that [OF s1])
       (use assms(1) loop s1(1) in \<open>simp add: smpp_listener_event_def upd_esme_def Let_def split: read_result.split\<close>)
qed

lemma listener_drop_spec:
  assumes "get_esme s i = Some e"
  shows "\<exists>s'. listener_drop E i s = Some s' \<and>
    get_esme s' i = Some (e\<lparr>e_connected := False, e_event_container := False\<rparr>) \<and>
    s_inbound_queue s' = s_inbound_queue s \<and> s_pdu_heap s' = s_pdu_heap s \<and>
    s_cleanup_queue s' = (if e_authenticated e then s_cleanup_queue s else append_unique (s_cleanup_queue s) i) \<and>
    s_ip_blocklist s' = (if e_authenticated e then s_ip_blocklist s
                         else s_ip_blocklist (smpp_listener_auth_failed E (e_ip e) s))"
  using assms
  by (auto simp: listener_drop_def smpp_esme_stop_listening_def smpp_esme_cleanup_def heap_defs
      smpp_listener_auth_failed_def Let_def)

section \<open>Properties\<close>

text \<open>
  C32: A peer address that is not exempt and has failed to authenticate at the times ts is
  refused at time t exactly when the number of failures has reached the configured number of
  attempts and the last failure is not older than the configured time; otherwise the
  connection is accepted as a new ESME, and when the time has elapsed the failures are forgotten.
  The failures of one address never block another one.
\<close>

theorem blocklist_blocks_after_failures:
  assumes "\<not> smpp_listener_ip_blocklist_exempt (ev_gw E) (s_cfg s) (Some ip)"
    and "ip \<noteq> []" and "dict_get (s_ip_blocklist s) ip = None" and "ts \<noteq> []"
    and "smpp_listener_connection_callback (E\<lparr>ev_now := t\<rparr>) (Some ip) (fail_run E ip ts s) = (r, s')"
  shows "(r = None \<longleftrightarrow>
           c_ip_blocklist_attempts (s_cfg s) \<le> int (length ts) \<and> t - last ts \<le> c_ip_blocklist_time (s_cfg s))
    \<and> (c_ip_blocklist_time (s_cfg s) < t - last ts \<longrightarrow>
           dict_get (s_ip_blocklist s') ip = Some \<lparr>ip_time_blocked = 0, ip_attempts = 0\<rparr>)
    \<and> (\<forall>ip'. ip' \<noteq> ip \<longrightarrow> dict_get (s_ip_blocklist s') ip' = dict_get (s_ip_blocklist s) ip')"
  using assms(1-3,5) fail_run_entry [OF assms(1,4)]
  by (auto simp: smpp_listener_connection_callback_def smpp_listener_ip_is_blocked_def Let_def
      put_esme_def split: prod.splits if_splits)

theorem blocklist_blocks_after_failures_witness:
  "fst (smpp_listener_connection_callback (example_env\<lparr>ev_now := 1100\<rparr>) (Some ''1.2.3.4'')
          (fail_run example_env ''1.2.3.4'' [1000, 1010, 1020] example_server)) = None"
proof -
  have "\<not> smpp_listener_ip_blocklist_exempt (ev_gw example_env) (s_cfg example_server) (Some ''1.2.3.4'')"
    by code_simp
  moreover have "dict_get (s_ip_blocklist example_server) ''1.2.3.4'' = None"
    by code_simp
  moreover have "c_ip_blocklist_attempts (s_cfg example_server) = 3" "c_ip_blocklist_time (s_cfg example_server) = 300"
    by (simp_all add: example_server_def initial_server_def example_cfg_def)
  ultimately show ?thesis
    using blocklist_blocks_after_failures [of example_env example_server "''1.2.3.4''" "[1000, 1010, 1020]" 1100,
        OF _ _ _ _ surjective_pairing]
    by simp
qed

text \<open>
  An exempt address is never counted and never blocked: its failures leave the server as it
  is and its connections are accepted whatever the block list holds. The exemption list of one
  star, or of four starred octets, exempts every address that is not empty.
\<close>

theorem blocklist_exempt_never_blocked:
  assumes "smpp_listener_ip_blocklist_exempt (ev_gw E) (s_cfg s) (Some ip)
           \<or> (ip \<noteq> [] \<and> c_ip_blocklist_exempt_ips (s_cfg s) \<in> {Some ''*'', Some ''*.*.*.*''})"
  shows "smpp_listener_auth_failed E (Some ip) s = s
    \<and> fst (smpp_listener_connection_callback E (Some ip) (s\<lparr>s_ip_blocklist := bl\<rparr>)) = Some (s_esme_counter s)"
proof -
  have "smpp_listener_ip_blocklist_exempt (ev_gw E) (s_cfg s) (Some ip)"
    using assms exempt_star [of ip "s_cfg s" "ev_gw E"] by auto
  then show ?thesis
    by (simp add: auth_failed_exempt smpp_listener_connection_callback_def smpp_listener_ip_is_blocked_def Let_def)
qed

theorem blocklist_exempt_never_blocked_witness:
  "smpp_listener_auth_failed example_env (Some ''10.0.7.9'') example_server = example_server"
proof -
  have "smpp_listener_ip_blocklist_exempt (ev_gw example_env) (s_cfg example_server) (Some ''10.0.7.9'')"
    by code_simp
  then show ?thesis using blocklist_exempt_never_blocked [of example_env example_server "''10.0.7.9''"] by blast
qed

text \<open>
  C29: A read event on a live ESME always ends, whatever bytes arrive, provided the PDU reader
  consumes input; and every PDU that the received bytes encode is queued exactly once, in the
  order of arrival, as a new queued PDU of this ESME, with the ESME's counter of queued PDUs
  increased by their number. A closed connection or the tenth consecutive invalid PDU
  disconnects the ESME, and if it was not authenticated hands it to the cleanup thread and
  counts a failure against its address.
\<close>

theorem listener_event_queues_each_pdu:
  assumes "get_esme s i = Some e" and "reader_consumes (ev_gw E)"
    and "length (e_inbuf e) + length bytes + 1 < fuel"
  shows "\<exists>ps r e' s'. stream_pdus (ev_gw E) eof fuel (e\<lparr>e_inbuf := e_inbuf e @ bytes\<rparr>) = Some (ps, r, e')
    \<and> smpp_listener_event E i bytes eof fuel s = Some s'
    \<and> s_inbound_queue s' = s_inbound_queue s @ queue_entries (s_next_pdu s) i ps
    \<and> (\<forall>k < length ps. get_pdu s' (s_next_pdu s + k) =
          Some (smpp_queued_pdu_create\<lparr>q_pdu := Some (ps ! k), q_esme := Some i\<rparr>))
    \<and> (\<exists>e2. get_esme s' i = Some e2 \<and> e_inbound_queued e2 = e_inbound_queued e + length ps
          \<and> (r = Read_closed \<or> r = Read_invalid \<and> 9 \<le> e_errors e' \<longrightarrow>
               \<not> e_connected e2 \<and> (\<not> e_authenticated e' \<longrightarrow> i \<in> set (s_cleanup_queue s')
                 \<and> s_ip_blocklist s' = s_ip_blocklist (smpp_listener_auth_failed E (e_ip e') s)))
          \<and> (r = Read_none \<or> r = Read_invalid \<and> e_errors e' < 9 \<longrightarrow>
               e_connected e2 = e_connected e' \<and> s_cleanup_queue s' = s_cleanup_queue s
               \<and> s_ip_blocklist s' = s_ip_blocklist s))"
proof -
  let ?e = "e\<lparr>e_inbuf := e_inbuf e @ bytes\<rparr>"
  have "unread ?e < fuel" using assms(3) by (simp add: unread_def)
  from stream_pdus_total [OF assms(2) this] obtain ps r e' where
    st: "stream_pdus (ev_gw E) eof fuel ?e = Some (ps, r, e')" by (metis prod_cases3)
  from listener_event_unfold [OF assms(1) st] obtain s1 where s1:
      "get_esme s1 i = Some (e'\<lparr>e_inbound_queued := e_inbound_queued e + length ps\<rparr>)"
      "s_inbound_queue s1 = s_inbound_queue s @ queue_entries (s_next_pdu s) i ps"
      "\<forall>k < length ps. get_pdu s1 (s_next_pdu s + k) =
        Some (smpp_queued_pdu_create\<lparr>q_pdu := Some (ps ! k), q_esme := Some i\<rparr>)"
      "s_cleanup_queue s1 = s_cleanup_queue s" "s_ip_blocklist s1 = s_ip_blocklist s" "s_cfg s1 = s_cfg s"
    and ev: "smpp_listener_event E i bytes eof fuel s =
      (let e1 = e'\<lparr>e_inbound_queued := e_inbound_queued e + length ps, e_errors := e_errors e' + 1\<rparr>
       in case r of Read_closed \<Rightarrow> listener_drop E i s1
        | Read_invalid \<Rightarrow> (if 9 \<le> e_errors e' then listener_drop E i (put_esme i e1 s1) else Some (put_esme i e1 s1))
        | _ \<Rightarrow> Some s1)" by metis
  let ?e2 = "e'\<lparr>e_inbound_queued := e_inbound_queued e + length ps, e_errors := e_errors e' + 1\<rparr>"
  have e2: "get_esme (put_esme i ?e2 s1) i = Some ?e2" by simp
  have "s_ip_blocklist (put_esme i ?e2 s1) = s_ip_blocklist s" "s_cfg (put_esme i ?e2 s1) = s_cfg s"
    using s1(5,6) by (simp_all add: put_esme_def)
  note auth_failed_local [OF this, unfolded put_esme_def, simplified, simp] auth_failed_local [OF s1(5,6), simp]
  have np: "r \<noteq> Read_pdu p" for p using st stream_pdus_result by blast
  consider "r = Read_none" | "r = Read_closed" | "r = Read_invalid" "9 \<le> e_errors e'" | "r = Read_invalid" "e_errors e' < 9"
    using np by (metis read_result.exhaust not_le_imp_less)
  then show ?thesis
  proof cases
    case 2
    with listener_drop_spec [OF s1(1), of E] st ev s1 show ?thesis by (auto simp: get_pdu_def append_unique_def)
  next
    case 3
    with listener_drop_spec [OF e2, of E] st ev s1 show ?thesis
      by (auto simp: get_pdu_def append_unique_def put_esme_def Let_def)
  qed (use st ev s1 in \<open>auto simp: get_pdu_def get_esme_def put_esme_def Let_def\<close>)
qed

theorem listener_event_queues_each_pdu_witness:
  "\<exists>s'. smpp_listener_event example_env 0 [CHR 0x02, CHR ''a'', CHR 0x02, CHR ''b''] False 10
          (put_esme 0 (smpp_esme_create\<lparr>e_conn := True, e_connected := True\<rparr>) example_server) = Some s'
        \<and> length (s_inbound_queue s') = 2"
proof -
  let ?e = "smpp_esme_create\<lparr>e_conn := True, e_connected := True\<rparr>"
  let ?s = "put_esme 0 ?e example_server"
  let ?b = "[CHR 0x02, CHR ''a'', CHR 0x02, CHR ''b'']"
  have "reader_consumes (ev_gw example_env)"
    by (auto simp: reader_consumes_def example_env_def example_gwlib_def split: list.splits if_splits)
  moreover have "length (e_inbuf ?e) + length ?b + 1 < 10" by (simp add: smpp_esme_create_def)
  moreover have "get_esme ?s 0 = Some ?e" by simp
  ultimately obtain ps r e' s' where
    "stream_pdus (ev_gw example_env) False 10 (?e\<lparr>e_inbuf := e_inbuf ?e @ ?b\<rparr>) = Some (ps, r, e')"
    "smpp_listener_event example_env 0 ?b False 10 ?s = Some s'"
    "s_inbound_queue s' = s_inbound_queue ?s @ queue_entries (s_next_pdu ?s) 0 ps"
    using listener_event_queues_each_pdu [of ?s 0 ?e example_env ?b 10 False] by blast
  moreover have "map_option fst (stream_pdus (ev_gw example_env) False 10 (?e\<lparr>e_inbuf := e_inbuf ?e @ ?b\<rparr>)) =
      Some [Enquire_link 97, Enquire_link 98]"
    by (simp add: example_env_def example_gwlib_def smpp_esme_create_def smpp_listener_read_pdu_def
        read_pdu_conn_def numeral_eq_Suc)
  ultimately show ?thesis
    by (auto simp: queue_entries_def example_server_def initial_server_def put_esme_def)
qed

end
