(* ===== verification/PduUtil.thy ===== *)
theory PduUtil
  imports Esme
begin

unbundle bit_operations_syntax

text \<open>
  smpp_pdu_util.c: conversion between PDUs and messages. Time stamps and addresses, the data
  coding of submitted text, the construction of deliver_sm PDUs (message parts and delivery
  receipts), submit_sm and data_sm to messages, and the parser of delivery receipts. All
  functions are pure; those that draw numbers from the ESME's counters return the ESME.
\<close>

section \<open>Scanning as sscanf does it\<close>

definition cstr :: "octstr \<Rightarrow> octstr" where
  "cstr s = takeWhile (\<lambda>c. c \<noteq> CHR 0x00) s"

lemma cstr_append: "CHR 0x00 \<notin> set a \<Longrightarrow> cstr (a @ b) = a @ cstr b"
  unfolding cstr_def by (subst takeWhile_append2) auto

lemma cstr_Cons: "cstr (c # s) = (if c = CHR 0x00 then [] else c # cstr s)"
  by (simp add: cstr_def)

lemma cstr_word: "CHR 0x00 \<notin> set w \<Longrightarrow> cstr w = w"
  using cstr_append [of w "[]"] by (simp add: cstr_def)

text \<open>\<open>%wd\<close>: white space, an optional sign and digits, at most w characters.\<close>

definition scan_int :: "nat \<Rightarrow> octstr \<Rightarrow> (int \<times> octstr) option" where
  "scan_int w s =
     (let s1 = dropWhile c_isspace s;
          sgn = (s1 \<noteq> [] \<and> (hd s1 = CHR ''-'' \<or> hd s1 = CHR ''+''));
          s2 = (if sgn then tl s1 else s1);
          ds = takeWhile gw_isdigit (take (if sgn then w - 1 else w) s2)
      in if ds = [] then None
         else Some (if sgn \<and> hd s1 = CHR ''-'' then - int (digits_val ds) else int (digits_val ds),
                    drop (length ds) s2))"

text \<open>\<open>%ws\<close>: white space, then at most w other characters.\<close>

definition scan_word :: "nat \<Rightarrow> octstr \<Rightarrow> (octstr \<times> octstr) option" where
  "scan_word w s =
     (let s1 = dropWhile c_isspace s; v = takeWhile (\<lambda>c. \<not> c_isspace c) (take w s1)
      in if v = [] then None else Some (v, drop (length v) s1))"

text \<open>A format of literal text, white space and character classes with a maximal width.\<close>

datatype scan_item = Lit octstr | Blank | Class nat "char \<Rightarrow> bool"

fun scan_items :: "scan_item list \<Rightarrow> octstr \<Rightarrow> octstr list" where
  "scan_items [] s = []"
| "scan_items (Lit l # fs) s = (if take (length l) s = l then scan_items fs (drop (length l) s) else [])"
| "scan_items (Blank # fs) s = scan_items fs (dropWhile c_isspace s)"
| "scan_items (Class w P # fs) s =
     (let v = takeWhile P (take w s) in if v = [] then [] else v # scan_items fs (drop (length v) s))"

fun scan_words :: "nat \<Rightarrow> octstr \<Rightarrow> octstr list" where
  "scan_words 0 s = []"
| "scan_words (Suc n) s = (case scan_word 2 s of None \<Rightarrow> [] | Some (v, r) \<Rightarrow> v # scan_words n r)"

section \<open>Time stamps\<close>

fun scan_ints :: "nat list \<Rightarrow> octstr \<Rightarrow> (int list \<times> octstr) option" where
  "scan_ints [] s = Some ([], s)"
| "scan_ints (w # ws) s = do {
     (v, r) \<leftarrow> scan_int w s;
     (vs, r') \<leftarrow> scan_ints ws r;
     Some (v # vs, r') }"

definition ceil_minutes :: "int \<Rightarrow> int" where
  "ceil_minutes d = - ((- d) div 60)"

definition timestamp_to_minutes :: "gwlib \<Rightarrow> timestamp \<Rightarrow> octstr option \<Rightarrow> int" where
  "timestamp_to_minutes G now ts =
     (case ts of
        None \<Rightarrow> 0
      | Some s \<Rightarrow>
          (if s = [] then 0
           else if length s \<noteq> 16 then -1
           else (case scan_ints [2, 2, 2, 2, 2, 2, 1, 2] (cstr s) of
                   Some ([yy, mon, dd, hh, mi, se, tenths, diff], relation # _) \<Rightarrow>
                     (if now = -1 then 0
                      else if relation = CHR ''+'' \<or> relation = CHR ''-'' then
                        (let valutc = gw_mktime G \<lparr>tm_year = yy + 100, tm_mon = mon - 1, tm_mday = dd,
                                                   tm_hour = hh, tm_min = mi, tm_sec = se\<rparr> in
                         if valutc = -1 then -1
                         else
                           let localdiff = gw_mktime G (gw_localtime G now) - gw_mktime G (gw_gmtime G now);
                               v = (if relation = CHR ''+'' then valutc + localdiff - diff * 15 * 60
                                    else valutc + localdiff + diff * 15 * 60)
                           in ceil_minutes (v - now))
                      else if relation = CHR ''R'' then
                        (let l = gw_localtime G now;
                             valutc = gw_mktime G \<lparr>tm_year = tm_year l + yy, tm_mon = tm_mon l + mon,
                                        tm_mday = tm_mday l + dd, tm_hour = tm_hour l + hh,
                                        tm_min = tm_min l + mi, tm_sec = tm_sec l + se\<rparr> in
                         if valutc = -1 then -1 else ceil_minutes (valutc - now))
                      else -1)
                 | _ \<Rightarrow> -1)))"

text \<open>Two-digit fields; a field whose value is not positive is replaced by the current local time's.\<close>

definition smpp_time_to_c_time :: "gwlib \<Rightarrow> timestamp \<Rightarrow> octstr \<Rightarrow> int" where
  "smpp_time_to_c_time G now s =
     (let fs = scan_words 6 (cstr s);
          field = (\<lambda>n. if n < length fs then atol (fs ! n) else 0);
          t = gw_localtime G now
      in gw_mktime G
           \<lparr>tm_year = (if 0 < field 0 then field 0 + 2000 - 1900 else tm_year t),
            tm_mon = (if 0 < field 1 then field 1 - 1 else tm_mon t),
            tm_mday = (if 0 < field 2 then field 2 else tm_mday t),
            tm_hour = (if 0 < field 3 then field 3 else tm_hour t),
            tm_min = (if 0 < field 4 then field 4 else tm_min t),
            tm_sec = (if 0 < field 5 then field 5 else tm_sec t)\<rparr>)"

definition smpp_database_format_dlr_date :: "gwlib \<Rightarrow> timestamp \<Rightarrow> octstr option \<Rightarrow> octstr" where
  "smpp_database_format_dlr_date G now date =
     (case date of
        None \<Rightarrow> ''000000000000''
      | Some d \<Rightarrow>
          (if d = [] then ''000000000000''
           else let t = smpp_time_to_c_time G now d in
                if 0 < t then strftime12 (gw_localtime G t) else d))"

definition smpp_pdu_pack_without_command_length :: "gwlib \<Rightarrow> octstr option \<Rightarrow> pdu \<Rightarrow> octstr" where
  "smpp_pdu_pack_without_command_length G smscid p =
     (case gw_pdu_pack G smscid p of None \<Rightarrow> [] | Some os \<Rightarrow> drop 4 os)"

section \<open>Addresses\<close>

definition smpp_pdu_util_convert_addr :: "octstr option \<Rightarrow> int \<Rightarrow> command_status \<times> octstr option" where
  "smpp_pdu_util_convert_addr addr ton =
     (case addr of
        None \<Rightarrow> (SMPP_ESME_ROK, None)
      | Some a \<Rightarrow>
          (if ton = GSM_ADDR_TON_INTERNATIONAL then
             (if \<not> length a < 7 \<and> octstr_get_char a 0 = 43 \<and> \<not> octstr_check_range a 1 256 gw_isdigit
              then (SMPP_ESME_RINVSRCADR, Some a)
              else if \<not> length a < 7 \<and> octstr_get_char a 0 \<noteq> 43 \<and> \<not> octstr_check_range a 0 256 gw_isdigit
              then (SMPP_ESME_RINVSRCADR, Some a)
              else
                let a1 = (if octstr_search a ''00'' = Some 0 then drop 2 a else a);
                    a2 = (if octstr_get_char a1 0 \<noteq> 43 then CHR ''+'' # a1 else a1)
                in (SMPP_ESME_ROK, Some a2))
           else (SMPP_ESME_ROK, Some a)))"

section \<open>Data coding of submitted text\<close>

definition BEARERBOX_DEFAULT_CHARSET :: octstr where
  "BEARERBOX_DEFAULT_CHARSET = ''UTF-8''"

definition convert_from :: "gwlib \<Rightarrow> octstr \<Rightarrow> sms \<Rightarrow> sms" where
  "convert_from G from m =
     m\<lparr>msgdata := map_option (\<lambda>d. case gw_charset_convert G d from BEARERBOX_DEFAULT_CHARSET of
                                    None \<Rightarrow> d | Some d' \<Rightarrow> d') (msgdata m),
       coding := DC_7BIT\<rparr>"

definition smpp_pdu_util_compute_inbound_dcs :: "gwlib \<Rightarrow> sms \<Rightarrow> octstr option \<Rightarrow> int \<Rightarrow> int \<Rightarrow> sms" where
  "smpp_pdu_util_compute_inbound_dcs G m alt_charset dc esm =
     (if dc = 0x00 then
        (case alt_charset of
           Some ac \<Rightarrow>
             (if coding m \<noteq> DC_8BIT then convert_from G ac m
              else m\<lparr>msgdata := map_option (gw_gsm_to_utf8 G) (msgdata m), coding := DC_7BIT\<rparr>)
         | None \<Rightarrow> m\<lparr>msgdata := map_option (gw_gsm_to_utf8 G) (msgdata m), coding := DC_7BIT\<rparr>)
      else if dc = 0x01 then m\<lparr>coding := DC_7BIT\<rparr>
      else if dc = 0x03 then convert_from G ''ISO-8859-1'' m
      else if dc = 0x02 \<or> dc = 0x04 then m\<lparr>coding := DC_8BIT\<rparr>
      else if dc = 0x05 then convert_from G ''JIS_X0208-1990'' m
      else if dc = 0x06 then convert_from G ''ISO-8859-5'' m
      else if dc = 0x07 then convert_from G ''ISO-8859-8'' m
      else if dc = 0x08 then m\<lparr>coding := DC_UCS2\<rparr>
      else if dc = 0x0D then convert_from G ''JIS_X0212-1990'' m
      else if dc = 0x0E then
        m\<lparr>msgdata := map_option (\<lambda>d. case gw_charset_convert G d ''KSC_5601'' BEARERBOX_DEFAULT_CHARSET of
              Some d' \<Rightarrow> d'
            | None \<Rightarrow> (case gw_charset_convert G d ''KSC5636'' BEARERBOX_DEFAULT_CHARSET of
                         None \<Rightarrow> d | Some d' \<Rightarrow> d')) (msgdata m),
          coding := DC_7BIT\<rparr>
      else if coding m = DC_UNDEF \<and> esm AND ESM_CLASS_SUBMIT_UDH_INDICATOR \<noteq> 0 then m\<lparr>coding := DC_8BIT\<rparr>
      else if coding m = DC_7BIT \<or> coding m = DC_UNDEF
      then m\<lparr>coding := DC_7BIT, msgdata := map_option (gw_gsm_to_utf8 G) (msgdata m)\<rparr>
      else m)"

section \<open>Submissions\<close>

text \<open>The first byte of the text is the length of the user data header; an empty text reads -1.\<close>

definition split_udh :: "sms \<Rightarrow> command_status + sms" where
  "split_udh m =
     (let d = case_option [] id (msgdata m); udhl = octstr_get_char d 0 + 1 in
      if int (length d) < udhl then Inl SMPP_ESME_RINVESMCLASS
      else Inr (m\<lparr>udhdata := Some (take (nat udhl) d), msgdata := map_option (drop (nat udhl)) (msgdata m)\<rparr>))"

text \<open>
  The common core of the two conversions, with the fields both PDUs have: addresses, payload,
  segmentation parameters, user data header and data coding.
\<close>

record submission =
  su_source :: "octstr option"
  su_source_ton :: int
  su_dest :: "octstr option"
  su_dest_ton :: int
  su_service_type :: "octstr option"
  su_esm_class :: int
  su_data :: "octstr option"
  su_sar_ref :: int
  su_sar_seq :: int
  su_sar_total :: int
  su_data_coding :: int

definition submission_addresses :: "submission \<Rightarrow> sms \<Rightarrow> command_status + sms" where
  "submission_addresses b m =
     (let (r, src) = smpp_pdu_util_convert_addr (su_source b) (su_source_ton b) in
      if r \<noteq> SMPP_ESME_ROK then Inl r
      else if su_dest b = None then Inl SMPP_ESME_RINVDSTADR
      else
        let (r, dst) = smpp_pdu_util_convert_addr (su_dest b) (su_dest_ton b) in
        if r \<noteq> SMPP_ESME_ROK then Inl r
        else Inr (m\<lparr>sender := src, receiver := dst, binfo := su_service_type b\<rparr>))"

definition submission_text :: "gwlib \<Rightarrow> esme \<Rightarrow> submission \<Rightarrow> sms \<Rightarrow> command_status + sms" where
  "submission_text G e b m =
     (let udhi = su_esm_class b AND ESM_CLASS_SUBMIT_UDH_INDICATOR \<noteq> 0;
          m = (if su_esm_class b AND ESM_CLASS_SUBMIT_RPI \<noteq> 0 then m\<lparr>rpi := 1\<rparr> else m);
          m = m\<lparr>msgdata := su_data b\<rparr>;
          sar = (0x33 < e_version e \<and> 0 \<le> su_sar_ref b \<and> 0 < su_sar_seq b \<and> 0 < su_sar_total b)
      in
      if sar \<and> udhi then Inl SMPP_ESME_RINVTLVVAL
      else
        let m = (if sar then gw_prepend_catenation_udh G m (su_sar_seq b) (su_sar_total b) (su_sar_ref b) else m) in
        (case (if udhi then split_udh m else Inr m) of
           Inl r \<Rightarrow> Inl r
         | Inr m \<Rightarrow> Inr (smpp_pdu_util_compute_inbound_dcs G (gw_dcs_to_fields G m (su_data_coding b))
                           (e_alt_charset e) (su_data_coding b) (su_esm_class b))))"

definition registered_delivery_mask :: "int \<Rightarrow> int" where
  "registered_delivery_mask rd =
     (if rd AND 3 = 1 then DLR_SUCCESS OR DLR_FAIL OR DLR_SMSC_FAIL
      else if rd AND 3 = 2 then DLR_FAIL OR DLR_SMSC_FAIL else 0)"

definition smpp_submit_sm_to_msg :: "gwlib \<Rightarrow> timestamp \<Rightarrow> uuid \<Rightarrow> esme \<Rightarrow> submit_sm_body \<Rightarrow> command_status + sms" where
  "smpp_submit_sm_to_msg G now u e b =
     (let m = (sms_create u)\<lparr>sms_type := mt_push, service := e_system_id e\<rparr>;
          data = (if 0x33 < e_version e \<and> ss_sm_length b = 0 \<and> ss_message_payload b \<noteq> None
                  then ss_message_payload b else ss_short_message b);
          c = \<lparr>su_source = ss_source_addr b, su_source_ton = ss_source_addr_ton b,
               su_dest = ss_destination_addr b, su_dest_ton = ss_dest_addr_ton b,
               su_service_type = ss_service_type b, su_esm_class = ss_esm_class b, su_data = data,
               su_sar_ref = ss_sar_msg_ref_num b, su_sar_seq = ss_sar_segment_seqnum b,
               su_sar_total = ss_sar_total_segments b, su_data_coding = ss_data_coding b\<rparr>
      in
      (case submission_addresses c m of
         Inl r \<Rightarrow> Inl r
       | Inr m \<Rightarrow>
           (case submission_text G e c m of
              Inl r \<Rightarrow> Inl r
            | Inr m \<Rightarrow>
                let m = m\<lparr>pid := ss_protocol_id b, sms_time := now\<rparr>;
                    m = (if ss_validity_period b \<noteq> None
                         then m\<lparr>validity := now + timestamp_to_minutes G now (ss_validity_period b) * 60\<rparr> else m);
                    m = m\<lparr>priority := ss_priority_flag b,
                          meta_data := Some (gw_meta_data_set_values G (case_option [] id (meta_data m)) (ss_tlv b) ''smpp'')\<rparr>;
                    m = m\<lparr>dlr_mask := registered_delivery_mask (ss_registered_delivery b)\<rparr>
                in Inr (m\<lparr>dlr_mask := DLR_SUCCESS OR DLR_FAIL OR DLR_SMSC_FAIL\<rparr>))))"

definition smpp_data_sm_to_msg :: "gwlib \<Rightarrow> timestamp \<Rightarrow> uuid \<Rightarrow> esme \<Rightarrow> data_sm_body \<Rightarrow> command_status + sms" where
  "smpp_data_sm_to_msg G now u e b =
     (let m = (sms_create u)\<lparr>sms_type := mt_push, service := e_system_id e\<rparr>;
          c = \<lparr>su_source = ds_source_addr b, su_source_ton = ds_source_addr_ton b,
               su_dest = ds_destination_addr b, su_dest_ton = ds_dest_addr_ton b,
               su_service_type = ds_service_type b, su_esm_class = ds_esm_class b, su_data = ds_message_payload b,
               su_sar_ref = ds_sar_msg_ref_num b, su_sar_seq = ds_sar_segment_seqnum b,
               su_sar_total = ds_sar_total_segments b, su_data_coding = ds_data_coding b\<rparr>
      in
      (case submission_addresses c m of
         Inl r \<Rightarrow> Inl r
       | Inr m \<Rightarrow>
           (case submission_text G e c m of
              Inl r \<Rightarrow> Inl r
            | Inr m \<Rightarrow>
                let m = m\<lparr>sms_time := now\<rparr>;
                    m = m\<lparr>meta_data := Some (gw_meta_data_set_values G (case_option [] id (meta_data m)) (ds_tlv b) ''smpp'')\<rparr>;
                    m = m\<lparr>dlr_mask := registered_delivery_mask (ds_registered_delivery b)\<rparr>
                in Inr (m\<lparr>dlr_mask := DLR_SUCCESS OR DLR_FAIL OR DLR_SMSC_FAIL\<rparr>))))"

end
