(* ===== verification/Receipts.thy ===== *)
theory Receipts
  imports PduUtil
begin

unbundle bit_operations_syntax

text \<open>
  smpp_pdu_util.c, the direction towards the ESME: the parser of delivery receipts, the
  construction of deliver_sm PDUs from messages, and the log lines of responses.
\<close>

section \<open>Parsing a delivery receipt\<close>

record dlr_info =
  di_id :: octstr
  di_sub :: nat
  di_dlvrd :: nat
  di_submit_date :: int
  di_done_date :: int
  di_stat :: octstr
  di_err :: nat
  di_text :: octstr

definition not_space :: "char \<Rightarrow> bool" where
  "not_space c \<longleftrightarrow> c \<noteq> CHR '' ''"

definition dlr_format :: "scan_item list" where
  "dlr_format = [Lit ''id:'', Class 64 not_space, Blank, Lit ''sub:'', Class 3 not_space, Blank,
     Lit ''dlvrd:'', Class 3 not_space, Blank, Lit ''submit'', Blank, Lit ''date:'', Class 14 gw_isdigit, Blank,
     Lit ''done'', Blank, Lit ''date:'', Class 14 gw_isdigit, Blank, Lit ''stat:'', Class 15 not_space, Blank,
     Lit ''err:'', Class 3 not_space]"

text \<open>
  The fallback for one field: the bytes after the label up to the next blank after the label's
  start, copied over the buffer, at most n bytes. A negative length copies nothing.
\<close>

definition overlay :: "octstr \<Rightarrow> octstr \<Rightarrow> octstr" where
  "overlay new old = new @ drop (length new) old"

definition fallback_field :: "octstr \<Rightarrow> octstr \<Rightarrow> nat \<Rightarrow> octstr \<Rightarrow> octstr" where
  "fallback_field sm label n old =
     (case octstr_search sm label of
        None \<Rightarrow> old
      | Some cur \<Rightarrow>
          (let rest = drop cur sm;
               span = (case octstr_search_char rest (CHR '' '') of None \<Rightarrow> length rest | Some v \<Rightarrow> v);
               copy_len = (if length label \<le> span then min (span - length label) n else 0)
           in overlay (take copy_len (drop (length label) rest)) old))"

fun octstr_case_search :: "octstr \<Rightarrow> octstr \<Rightarrow> nat option" where
  "octstr_case_search [] p = (if p = [] then Some 0 else None)"
| "octstr_case_search (x # xs) p =
     (if octstr_lower (take (length p) (x # xs)) = octstr_lower p then Some 0
      else map_option Suc (octstr_case_search xs p))"

definition dlr_text_field :: "octstr \<Rightarrow> octstr" where
  "dlr_text_field sm =
     (case octstr_case_search sm ''text:'' of
        None \<Rightarrow> []
      | Some cur \<Rightarrow> take 64 (cstr (drop (cur + 5) sm)))"

text \<open>The seven scanned fields, after the fallback when not all of them were assigned.\<close>

definition dlr_fields :: "octstr \<Rightarrow> octstr list" where
  "dlr_fields sm =
     (let vs = scan_items dlr_format (cstr sm); old = (\<lambda>n. if n < length vs then vs ! n else []) in
      if length vs = 7 then vs
      else [fallback_field sm ''id:'' 64 (old 0), fallback_field sm ''sub:'' 3 (old 1),
            fallback_field sm ''dlvrd:'' 3 (old 2), fallback_field sm ''submit date:'' 14 (old 3),
            fallback_field sm ''done date:'' 14 (old 4), fallback_field sm ''stat:'' 15 (old 5),
            fallback_field sm ''err:'' 3 (old 6)])"

definition to_uint :: "int \<Rightarrow> nat" where
  "to_uint v = nat (v mod 2 ^ 32)"

text \<open>What the parser writes to its output parameters, also when it then reports a failure.\<close>

definition dlr_outputs :: "gwlib \<Rightarrow> timestamp \<Rightarrow> octstr \<Rightarrow> dlr_info" where
  "dlr_outputs G now sm =
     (let fs = dlr_fields sm in
      \<lparr>di_id = cstr (fs ! 0), di_sub = to_uint (strtol16 (fs ! 1)), di_dlvrd = to_uint (strtol16 (fs ! 2)),
       di_submit_date = smpp_time_to_c_time G now (fs ! 3), di_done_date = smpp_time_to_c_time G now (fs ! 4),
       di_stat = cstr (fs ! 5), di_err = to_uint (strtol16 (fs ! 6)), di_text = dlr_text_field sm\<rparr>)"

definition parse_dlr_short_message :: "gwlib \<Rightarrow> timestamp \<Rightarrow> octstr option \<Rightarrow> dlr_info option" where
  "parse_dlr_short_message G now smo =
     (case smo of
        None \<Rightarrow> None
      | Some sm \<Rightarrow>
          (if sm = [] then None
           else let d = dlr_outputs G now sm in if di_id d = [] \<and> di_stat d = [] then None else Some d))"

section \<open>From messages to deliver_sm\<close>

definition smpp_pdu_get_system_id_from_dlr_url :: "octstr \<Rightarrow> octstr option" where
  "smpp_pdu_get_system_id_from_dlr_url url =
     (case octstr_search_char url (CHR ''|'') of None \<Rightarrow> None | Some pos \<Rightarrow> Some (octstr_copy url 0 pos))"

text \<open>Type of number, numbering plan and address of the source.\<close>

definition deliver_source :: "octstr option \<Rightarrow> int \<times> int \<times> octstr option" where
  "deliver_source src =
     (case src of
        None \<Rightarrow> (GSM_ADDR_TON_NATIONAL, GSM_ADDR_NPI_E164, None)
      | Some a \<Rightarrow>
          (if a = [] then (GSM_ADDR_TON_NATIONAL, GSM_ADDR_NPI_E164, Some a)
           else if hd a = CHR ''+'' then
             (if \<not> octstr_check_range a 1 256 gw_isdigit
              then (GSM_ADDR_TON_ALPHANUMERIC, GSM_ADDR_NPI_UNKNOWN, Some a)
              else (GSM_ADDR_TON_INTERNATIONAL, GSM_ADDR_NPI_E164, Some (tl a)))
           else if \<not> octstr_check_range a 0 256 gw_isdigit
           then (GSM_ADDR_TON_ALPHANUMERIC, GSM_ADDR_NPI_UNKNOWN, Some a)
           else (GSM_ADDR_TON_NATIONAL, GSM_ADDR_NPI_E164, Some a)))"

definition deliver_dest :: "octstr option \<Rightarrow> int \<times> octstr option" where
  "deliver_dest dst =
     (case dst of
        Some (c # cs) \<Rightarrow> (if c = CHR ''+'' then (GSM_ADDR_TON_INTERNATIONAL, Some cs) else (GSM_ADDR_TON_NATIONAL, dst))
      | _ \<Rightarrow> (GSM_ADDR_TON_NATIONAL, dst))"

definition deliver_base :: "gwlib \<Rightarrow> sms \<Rightarrow> deliver_sm_body option" where
  "deliver_base G m =
     (let (ston, snpi, src) = deliver_source (sender m);
          (dton, dst) = deliver_dest (receiver m)
      in if octstr_len dst = 0 \<or> 20 < octstr_len dst \<or> 20 < octstr_len src then None
         else Some (deliver_sm_create
           \<lparr>d_source_addr := src, d_source_addr_ton := ston, d_source_addr_npi := snpi,
            d_destination_addr := dst, d_dest_addr_ton := dton, d_dest_addr_npi := GSM_ADDR_NPI_E164,
            d_service_type := binfo m,
            d_data_coding := (if mwi m = MWI_UNDEF \<and> mclass m \<noteq> MC_UNDEF then gw_fields_to_dcs G m 1
                              else gw_fields_to_dcs G m (alt_dcs m)),
            d_protocol_id := (if pid m \<noteq> SMS_PARAM_UNDEFINED then pid m else 0),
            d_esm_class := (if 0 < octstr_len (udhdata m) then ESM_CLASS_SUBMIT_UDH_INDICATOR else 0)
                           OR (if 0 < rpi m then ESM_CLASS_SUBMIT_RPI else 0)\<rparr>))"

text \<open>State, status text and delivered count of a receipt; the status text is only logged.\<close>

definition dlr_status_of :: "int \<Rightarrow> int \<times> octstr \<times> octstr" where
  "dlr_status_of ty =
     (if ty = DLR_UNDEFINED \<or> ty = DLR_NOTHING then (8, ''REJECTD'', ''000'')
      else if ty = DLR_SUCCESS then (2, ''DELIVRD'', ''001'')
      else if ty = DLR_BUFFERED then (6, ''ACCEPTD'', ''000'')
      else if ty = DLR_SMSC_SUCCESS then (0, ''BUFFRED'', ''000'')
      else if ty = DLR_FAIL \<or> ty = DLR_SMSC_FAIL then (5, ''UNDELIV'', ''000'')
      else (7, [], ''000''))"

definition dlr_short_message :: "octstr \<Rightarrow> octstr \<Rightarrow> octstr \<Rightarrow> octstr \<Rightarrow> octstr \<Rightarrow> nat \<Rightarrow> octstr \<Rightarrow> octstr" where
  "dlr_short_message mid dlvrd submitted done_at stat err txt =
     ''id:'' @ mid @ '' sub:001 dlvrd:'' @ dlvrd @ '' submit date:'' @ submitted @ '' done date:'' @ done_at
       @ '' stat:'' @ stat @ '' err:'' @ hex03 err @ '' text:'' @ txt"

definition UUID_STR_LEN :: nat where
  "UUID_STR_LEN = 36"

text \<open>The receipt for one message id: source and destination are exchanged.\<close>

definition dlr_pdu ::
  "gwlib \<Rightarrow> esme \<Rightarrow> sms \<Rightarrow> deliver_sm_body \<Rightarrow> tlv option \<Rightarrow> int \<Rightarrow> octstr \<Rightarrow> octstr \<Rightarrow> octstr \<Rightarrow> dlr_info \<Rightarrow> nat \<Rightarrow> octstr \<Rightarrow> pdu" where
  "dlr_pdu G e m b meta state dlvrd submitted done_at d err mid =
     (let sm = dlr_short_message mid dlvrd submitted done_at (di_stat d) err (di_text d);
          b2 = deliver_sm_create
            \<lparr>d_esm_class := d_esm_class b OR ESM_CLASS_DELIVER_SMSC_DELIVER_ACK,
             d_source_addr_ton := d_dest_addr_ton b, d_source_addr_npi := d_dest_addr_npi b,
             d_dest_addr_ton := d_source_addr_ton b, d_dest_addr_npi := d_source_addr_npi b,
             d_data_coding := d_data_coding b, d_protocol_id := d_protocol_id b,
             d_source_addr := d_destination_addr b, d_destination_addr := d_source_addr b,
             d_service_type := d_service_type b\<rparr>;
          b3 = (if 0x33 < e_version e
                then b2\<lparr>d_receipted_message_id := Some mid, d_message_state := state,
                        d_tlv := gw_meta_data_get_values G (meta_data m) ''smpp'',
                        d_network_error_code := (case meta of None \<Rightarrow> None | Some t \<Rightarrow> dict_get t ''network_error_code'')\<rparr>
                else b2)
      in Deliver_sm 0 (b3\<lparr>d_short_message := Some sm, d_sm_length := int (length sm)\<rparr>))"

definition msg_to_dlr_pdus :: "gwlib \<Rightarrow> timestamp \<Rightarrow> esme \<Rightarrow> sms \<Rightarrow> deliver_sm_body \<Rightarrow> pdu list option" where
  "msg_to_dlr_pdus G now e m b =
     (let meta = gw_meta_data_get_values G (meta_data m) ''smpp'' in
      if octstr_len (dlr_url m) \<le> UUID_STR_LEN then None
      else (case gw_octstr_split G (the (dlr_url m)) ''|'' of
              [svc, submitted, ids] \<Rightarrow>
                (let dlr_time = atol submitted;
                     (state0, status, dlvrd) = dlr_status_of (dlr_mask m);
                     state = (case meta of None \<Rightarrow> state0
                              | Some t \<Rightarrow> (if dict_get t ''dlr_stat'' = Some ''EXPIRED'' then 3 else state0))
                 in (case parse_dlr_short_message G now (msgdata m) of
                       None \<Rightarrow> None
                     | Some d \<Rightarrow>
                         (let submit_ts = (if 0 < di_submit_date d then di_submit_date d else dlr_time);
                              done_ts = (if 0 < di_done_date d then di_done_date d else sms_time m);
                              err = (if (dlr_mask m = DLR_FAIL \<or> dlr_mask m = DLR_SMSC_FAIL) \<and> di_err d = 0
                                     then 1 else di_err d)
                          in Some (map (dlr_pdu G e m b meta state dlvrd (strftime12 (gw_localtime G submit_ts))
                                          (strftime12 (gw_localtime G done_ts)) d err)
                                       (gw_octstr_split G ids '';'')))))
            | _ \<Rightarrow> None))"

text \<open>One part of a split message; the text is re-encoded when it is not binary.\<close>

definition part_text :: "gwlib \<Rightarrow> esme \<Rightarrow> sms \<Rightarrow> int \<Rightarrow> octstr option \<Rightarrow> octstr option" where
  "part_text G e m dc txt =
     (if coding m = DC_7BIT \<or> (coding m = DC_UNDEF \<and> 0 < octstr_len (udhdata m)) then
        (if dc AND 0xF0 \<noteq> 0 \<or> (e_alt_charset e = None \<and> dc = 0) then map_option (gw_utf8_to_gsm G) txt
         else (case e_alt_charset e of
                 Some ac \<Rightarrow>
                   (if dc = 0 then map_option (\<lambda>t. case gw_charset_convert G t BEARERBOX_DEFAULT_CHARSET ac of
                                                     None \<Rightarrow> t | Some t' \<Rightarrow> t') txt
                    else txt)
               | None \<Rightarrow> txt))
      else txt)"

definition part_pdu :: "gwlib \<Rightarrow> esme \<Rightarrow> sms \<Rightarrow> deliver_sm_body \<Rightarrow> nat \<Rightarrow> sms \<Rightarrow> pdu" where
  "part_pdu G e m b seq m2 =
     (let udh = 0 < octstr_len (udhdata m2);
          txt = (if udh then Some (the (udhdata m2) @ case_option [] id (msgdata m2))
                 else part_text G e m (d_data_coding b) (msgdata m2))
      in Deliver_sm (int seq) (deliver_sm_create
           \<lparr>d_source_addr_ton := d_source_addr_ton b, d_source_addr_npi := d_source_addr_npi b,
            d_dest_addr_ton := d_dest_addr_ton b, d_dest_addr_npi := d_dest_addr_npi b,
            d_data_coding := d_data_coding b, d_protocol_id := d_protocol_id b,
            d_source_addr := d_source_addr b, d_destination_addr := d_destination_addr b,
            d_service_type := d_service_type b,
            d_esm_class := (if udh then d_esm_class b OR ESM_CLASS_DELIVER_UDH_INDICATOR else 0),
            d_short_message := txt, d_sm_length := int (octstr_len txt),
            d_tlv := (if 0x33 < e_version e then gw_meta_data_get_values G (meta_data m) ''smpp'' else None)\<rparr>))"

fun number_parts :: "gwlib \<Rightarrow> sms \<Rightarrow> deliver_sm_body \<Rightarrow> esme \<Rightarrow> sms list \<Rightarrow> pdu list \<times> esme" where
  "number_parts G m b e [] = ([], e)"
| "number_parts G m b e (m2 # ms) =
     (let p = part_pdu G e m b (e_sequence_number e) m2;
          (ps, e') = number_parts G m b (e\<lparr>e_sequence_number := e_sequence_number e + 1\<rparr>) ms
      in (p # ps, e'))"

definition smpp_pdu_msg_to_pdu :: "gwlib \<Rightarrow> timestamp \<Rightarrow> esme \<Rightarrow> sms \<Rightarrow> pdu list option \<times> esme" where
  "smpp_pdu_msg_to_pdu G now e m =
     (case deliver_base G m of
        None \<Rightarrow> (None, e)
      | Some b \<Rightarrow>
          (if sms_type m = report_mo then (msg_to_dlr_pdus G now e m b, e)
           else
             let msg_sequence = e_catenated_sms_counter e mod 256;
                 e1 = e\<lparr>e_catenated_sms_counter := e_catenated_sms_counter e + 1\<rparr>;
                 (ps, e2) = number_parts G m b e1 (gw_sms_split G m msg_sequence)
             in (Some ps, e2)))"

section \<open>Log lines\<close>

definition hex08 :: "int \<Rightarrow> octstr" where
  "hex08 v = (let h = show_hex (nat (v mod 2 ^ 64)) in replicate (8 - length h) (CHR ''0'') @ h)"

definition or_dash :: "octstr option \<Rightarrow> octstr" where
  "or_dash v = (if 0 < octstr_len v then the v else ''-'')"

definition log_date :: "gwlib \<Rightarrow> int \<Rightarrow> octstr" where
  "log_date G t = (if 0 < t then strftime12 (gw_localtime G t) else ''-'')"

definition smpp_pdu_log_deliver_sm_resp ::
  "gwlib \<Rightarrow> timestamp \<Rightarrow> esme \<Rightarrow> deliver_sm_body \<Rightarrow> command_status \<Rightarrow> timestamp \<Rightarrow> octstr" where
  "smpp_pdu_log_deliver_sm_resp G now e b st time_sent =
     (let ack_sec = (if 0 < time_sent then now - time_sent else 0);
          d = (if d_esm_class b AND (0x04 OR 0x08 OR 0x20) \<noteq> 0
               then parse_dlr_short_message G now (d_short_message b) else None);
          mid = (if 0 < octstr_len (d_receipted_message_id b) then the (d_receipted_message_id b)
                 else case d of Some x \<Rightarrow> di_id x | None \<Rightarrow> ''-'');
          submit_ts = (case d of Some x \<Rightarrow> max 0 (di_submit_date x) | None \<Rightarrow> 0);
          done_ts = (case d of Some x \<Rightarrow> max 0 (di_done_date x) | None \<Rightarrow> 0);
          stat = (case d of Some x \<Rightarrow> or_dash (Some (di_stat x)) | None \<Rightarrow> ''-'');
          err = (if d_esm_class b AND (0x04 OR 0x08 OR 0x20) \<noteq> 0 \<and> 0 < octstr_len (d_short_message b)
                 then di_err (dlr_outputs G now (the (d_short_message b))) else 0);
          delay = (if 0 < done_ts then now - done_ts else 0);
          latency = (if 0 < submit_ts \<and> 0 < done_ts then done_ts - submit_ts else 0)
      in smpp_esme_log_label (Some e) @ '' deliver_sm_resp '' @ mid @ '' '' @ case_option ''(null)'' id (d_source_addr b)
         @ '' '' @ case_option ''(null)'' id (d_destination_addr b) @ '' '' @ or_dash (d_service_type b) @ '' '' @ stat
         @ '' '' @ hex03 err @ '' '' @ log_date G submit_ts @ '' '' @ log_date G done_ts @ '' '' @ show_int delay
         @ '' '' @ show_int latency @ '' '' @ show_int ack_sec @ '' '' @ hex08 st)"

definition submit_resp_line ::
  "gwlib \<Rightarrow> timestamp \<Rightarrow> esme \<Rightarrow> octstr option \<Rightarrow> command_status \<Rightarrow> sms option \<Rightarrow> octstr" where
  "submit_resp_line G now e mid st mo' =
     (let label = (if 0 < octstr_len mid then the mid
                   else case mo' of Some m \<Rightarrow> gw_uuid_unparse G (sms_id m) | None \<Rightarrow> ''-'')
      in smpp_esme_log_label (Some e) @ '' submit_sm_resp '' @ label @ '' '' @
         (case mo' of
            Some m \<Rightarrow> or_dash (sender m) @ '' '' @ or_dash (receiver m) @ '' '' @ or_dash (smsc_id m) @ '' ''
              @ show_nat (octstr_len (msgdata m)) @ '' '' @ log_date G (sms_time m) @ '' ''
              @ show_int (if 0 < sms_time m then now - sms_time m else 0)
          | None \<Rightarrow> ''- - - 0 - 0'') @ '' '' @ hex08 st)"

text \<open>The message pointer is dereferenced unless it is null.\<close>

definition smpp_pdu_log_submit_sm_resp ::
  "gwlib \<Rightarrow> timestamp \<Rightarrow> esme \<Rightarrow> octstr option \<Rightarrow> command_status \<Rightarrow> msg_ptr \<Rightarrow> log_entry" where
  "smpp_pdu_log_submit_sm_resp G now e mid st mp =
     (case mp of
        Msg_null \<Rightarrow> Log_line (submit_resp_line G now e mid st None)
      | Msg_own m \<Rightarrow> Log_line (submit_resp_line G now e mid st (Some m))
      | _ \<Rightarrow> Log_bad_pointer mp)"

end
