(* ===== verification/Acks.thy ===== *)
theory Acks
  imports Listener Receipts
begin

unbundle bit_operations_syntax

text \<open>
  The life of a PDU that waits for an answer: smpp_queues_add_outbound registers it under its
  sequence number, an answer, a time-out or the destruction of the ESME removes it and runs its
  callback (smpp_queues.c, smpp_esme.c), which acknowledges the message to the bearerbox it came
  from (smpp_bearerbox.c) or removes it from the store.
\<close>

section \<open>Acknowledging to a bearerbox\<close>

definition get_box :: "'d server \<Rightarrow> nat \<Rightarrow> bearerbox option" where
  "get_box s b = (if b < length (s_bearerboxes s) then Some (s_bearerboxes s ! b) else None)"

definition upd_box :: "nat \<Rightarrow> (bearerbox \<Rightarrow> bearerbox) \<Rightarrow> 'd server \<Rightarrow> 'd server option" where
  "upd_box b f s = do { x \<leftarrow> get_box s b; Some (s\<lparr>s_bearerboxes := (s_bearerboxes s)[b := f x]\<rparr>) }"

definition smpp_bearerbox_get_state :: "bearerbox \<Rightarrow> bool" where
  "smpp_bearerbox_get_state x = bb_alive x"

definition smpp_bearerbox_set_state :: "bool \<Rightarrow> bearerbox \<Rightarrow> bearerbox" where
  "smpp_bearerbox_set_state st x = x\<lparr>bb_alive := st\<rparr>"

text \<open>deliver_to_bearerbox_real on connection b, followed by the bookkeeping both callers share; True is success.\<close>

definition bb_write :: "'d env \<Rightarrow> nat \<Rightarrow> msg \<Rightarrow> 'd server \<Rightarrow> (bool \<times> 'd server) option" where
  "bb_write E b m s =
     (if ev_bb_write E b then do {
        s \<leftarrow> upd_box b (\<lambda>x. x\<lparr>bb_last_msg := ev_now E\<rparr>) (s\<lparr>s_bb_sent := s_bb_sent s @ [(b, m)]\<rparr>);
        Some (True, s) }
      else do { s \<leftarrow> upd_box b (smpp_bearerbox_set_state False) s; Some (False, s) })"

definition smpp_bearerbox_deliver :: "'d env \<Rightarrow> nat \<Rightarrow> msg \<Rightarrow> 'd server \<Rightarrow> (bool \<times> 'd server) option" where
  "smpp_bearerbox_deliver E b m s = bb_write E b m s"

definition smpp_bearerbox_acknowledge ::
  "'d env \<Rightarrow> nat option \<Rightarrow> octstr option \<Rightarrow> int \<Rightarrow> 'd server \<Rightarrow> (bool \<times> 'd server) option" where
  "smpp_bearerbox_acknowledge E bo ido st s =
     (case ido of
        None \<Rightarrow> Some (False, s)
      | Some id' \<Rightarrow>
          (if id' = [] then Some (False, s)
           else do {
             b \<leftarrow> bo;
             x \<leftarrow> get_box s b;
             (if smpp_bearerbox_get_state x then bb_write E b (Msg_ack (gw_uuid_parse (ev_gw E) id') st) s
              else Some (False, s)) }))"

section \<open>The outbound queue\<close>

text \<open>A null id is the empty key. A second PDU under the same key destroys the first (dict_put).\<close>

definition smpp_queues_add_outbound :: "nat \<Rightarrow> 'd server \<Rightarrow> 'd server option" where
  "smpp_queues_add_outbound p s = do {
     q \<leftarrow> get_pdu s p;
     i \<leftarrow> q_esme q;
     e \<leftarrow> get_esme s i;
     s \<leftarrow> (if q_callback q = None then Some s
          else
            let key = case_option [] id (q_id q) in
            do {
              s \<leftarrow> (case dict_get (e_open_acks e) key of
                     None \<Rightarrow> Some s
                   | Some other \<Rightarrow> if other = p then Some s else smpp_queued_pdu_destroy other s);
              upd_esme i (\<lambda>e. e\<lparr>e_open_acks := dict_put (e_open_acks e) key p\<rparr>) s });
     s \<leftarrow> upd_esme i (\<lambda>e. e\<lparr>e_outbound_queued := e_outbound_queued e + 1\<rparr>) s;
     Some (s\<lparr>s_outbound_queue := s_outbound_queue s @ [(p, i)]\<rparr>) }"

section \<open>Callbacks\<close>

definition is_dlr_class :: "int \<Rightarrow> bool" where
  "is_dlr_class c \<longleftrightarrow> c AND (0x04 OR 0x08 OR 0x20) \<noteq> 0"

text \<open>Increase a traffic counter of the ESME and of its system id.\<close>

definition count_traffic :: "(traffic \<Rightarrow> traffic) \<Rightarrow> nat \<Rightarrow> 'd server \<Rightarrow> 'd server option" where
  "count_traffic f i s = do {
     s \<leftarrow> upd_esme i (\<lambda>e. e\<lparr>e_traffic := f (e_traffic e)\<rparr>) s;
     upd_global i (\<lambda>g. g\<lparr>g_traffic := f (g_traffic g)\<rparr>) s }"

definition count_mt :: "traffic \<Rightarrow> traffic" where
  "count_mt t = t\<lparr>mt_counter := mt_counter t + 1\<rparr>"

definition count_mo :: "traffic \<Rightarrow> traffic" where
  "count_mo t = t\<lparr>mo_counter := mo_counter t + 1\<rparr>"

definition count_dlr :: "traffic \<Rightarrow> traffic" where
  "count_dlr t = t\<lparr>dlr_counter := dlr_counter t + 1\<rparr>"

definition count_error :: "traffic \<Rightarrow> traffic" where
  "count_error t = t\<lparr>error_counter := error_counter t + 1\<rparr>"

definition count_delivery :: "queued_pdu \<Rightarrow> 'd server \<Rightarrow> 'd server option" where
  "count_delivery q s =
     (case q_pdu q of
        Some (Deliver_sm _ b) \<Rightarrow> do {
          i \<leftarrow> q_esme q;
          count_traffic (if is_dlr_class (d_esm_class b) then count_dlr else count_mo) i s }
      | _ \<Rightarrow> Some s)"

text \<open>Tell the origin of the message: the bearerbox, or else the store.\<close>

definition settle_origin :: "'d env \<Rightarrow> queued_pdu \<Rightarrow> int \<Rightarrow> 'd server \<Rightarrow> 'd server option" where
  "settle_origin E q st s =
     (if q_bearerbox q \<noteq> None \<and> q_bearerbox_id q \<noteq> None
      then map_option snd (smpp_bearerbox_acknowledge E (q_bearerbox q) (q_bearerbox_id q) st s)
      else if 0 < q_global_id q
      then (if q_server q then Some (snd (smpp_database_remove E s (q_global_id q) False)) else None)
      else Some s)"

definition ack_timed_out :: "'d env \<Rightarrow> queued_pdu \<Rightarrow> 'd server \<Rightarrow> 'd server option" where
  "ack_timed_out E q s =
     (if \<not> q_server q then None
      else if c_wait_ack_action (s_cfg s) = SMPP_WAITACK_DISCONNECT then do {
        s \<leftarrow> (if q_bearerbox q \<noteq> None \<and> q_bearerbox_id q \<noteq> None
             then map_option snd (smpp_bearerbox_acknowledge E (q_bearerbox q) (q_bearerbox_id q) ack_failed_tmp s)
             else Some s);
        _ \<leftarrow> q_pdu q;
        i \<leftarrow> q_esme q;
        smpp_esme_disconnect i s }
      else if c_wait_ack_action (s_cfg s) = SMPP_WAITACK_DROP then do {
        _ \<leftarrow> q_pdu q;
        settle_origin E q ack_success s }
      else Some s)"

definition smpp_queues_callback_deliver_sm_resp :: "'d env \<Rightarrow> nat \<Rightarrow> command_status \<Rightarrow> 'd server \<Rightarrow> 'd server option" where
  "smpp_queues_callback_deliver_sm_resp E p st s = do {
     q \<leftarrow> get_pdu s p;
     s \<leftarrow> (if st = SMPP_ESME_ROK then do { s \<leftarrow> count_delivery q s; settle_origin E q ack_success s }
          else if st = SMPP_ESME_COMMAND_STATUS_QUEUED then settle_origin E q ack_success s
          else if st = SMPP_ESME_COMMAND_STATUS_WAIT_ACK_TIMEOUT then ack_timed_out E q s
          else if st = SMPP_QUEUED_PDU_DESTROYED
          then map_option snd (smpp_bearerbox_acknowledge E (q_bearerbox q) (q_bearerbox_id q) ack_failed_tmp s)
          else Some s);
     smpp_queued_pdu_destroy p s }"

definition db_queue_remove :: "'d env \<Rightarrow> queued_pdu \<Rightarrow> 'd server \<Rightarrow> 'd server" where
  "db_queue_remove E q s =
     (if q_from_dlr_table q then snd (smpp_database_remove_dlr E s (nat (q_sequence q)))
      else snd (smpp_database_remove E s (nat (q_sequence q)) False))"

definition smpp_esme_db_queue_callback :: "'d env \<Rightarrow> nat \<Rightarrow> command_status \<Rightarrow> 'd server \<Rightarrow> 'd server option" where
  "smpp_esme_db_queue_callback E p st s = do {
     q \<leftarrow> get_pdu s p;
     _ \<leftarrow> (if q_server q then Some () else None);
     s \<leftarrow> (if st = SMPP_ESME_ROK \<or> st = SMPP_ESME_COMMAND_STATUS_QUEUED then do {
            s \<leftarrow> (if st = SMPP_ESME_ROK \<and> q_esme q \<noteq> None then count_delivery q s else Some s);
            Some (db_queue_remove E q s) }
          else Some (db_queue_remove E q (snd (smpp_database_add_pdu E s q))));
     smpp_queued_pdu_destroy p s }"

definition run_pdu_callback :: "'d env \<Rightarrow> nat \<Rightarrow> command_status \<Rightarrow> 'd server \<Rightarrow> 'd server option" where
  "run_pdu_callback E p st s = do {
     q \<leftarrow> get_pdu s p;
     cb \<leftarrow> q_callback q;
     (case cb of
        Cb_deliver_sm_resp \<Rightarrow> smpp_queues_callback_deliver_sm_resp E p st s
      | Cb_db_queue \<Rightarrow> smpp_esme_db_queue_callback E p st s
      | Cb_queued_pdu_handler \<Rightarrow>
          smpp_queued_pdu_destroy p (s\<lparr>s_db := db_queued_pdu_handler (ev_db E) (ev_now E) (s_db s) q st\<rparr>)) }"

text \<open>The answer to a submission: set the status, drop the message id on failure, queue the response.\<close>

definition set_resp_status :: "command_status \<Rightarrow> pdu \<Rightarrow> pdu option" where
  "set_resp_status st p =
     (case p of
        Submit_sm_resp n _ mid \<Rightarrow> Some (Submit_sm_resp n st (if st = SMPP_ESME_ROK then mid else None))
      | Data_sm_resp n _ mid \<Rightarrow> Some (Data_sm_resp n st (if st = SMPP_ESME_ROK then mid else None))
      | _ \<Rightarrow> None)"

definition callback_response :: "nat \<Rightarrow> command_status \<Rightarrow> 'd server \<Rightarrow> 'd server option" where
  "callback_response p st s = do {
     q \<leftarrow> get_pdu s p;
     i \<leftarrow> q_esme q;
     s \<leftarrow> count_traffic (if st \<noteq> SMPP_ESME_ROK then count_error else count_mt) i s;
     resp \<leftarrow> q_pdu q;
     resp \<leftarrow> set_resp_status st resp;
     smpp_queues_add_outbound p (put_pdu p (q\<lparr>q_pdu := Some resp\<rparr>) s) }"

definition smpp_queues_callback_submit_sm :: "nat \<Rightarrow> command_status \<Rightarrow> 'd server \<Rightarrow> 'd server option" where
  "smpp_queues_callback_submit_sm p st s = callback_response p st s"

definition smpp_queues_callback_data_sm :: "nat \<Rightarrow> command_status \<Rightarrow> 'd server \<Rightarrow> 'd server option" where
  "smpp_queues_callback_data_sm p st s = callback_response p st s"

section \<open>Answers of the ESME\<close>

definition log_deliver :: "'d env \<Rightarrow> esme \<Rightarrow> queued_pdu \<Rightarrow> command_status \<Rightarrow> 'd server \<Rightarrow> 'd server" where
  "log_deliver E e q st s =
     (case q_pdu q of
        Some (Deliver_sm _ b) \<Rightarrow>
          s\<lparr>s_log := s_log s @ [Log_line (smpp_pdu_log_deliver_sm_resp (ev_gw E) (ev_now E) e b st (q_time_sent q))]\<rparr>
      | _ \<Rightarrow> s)"

definition smpp_queues_process_ack :: "'d env \<Rightarrow> nat \<Rightarrow> int \<Rightarrow> command_status \<Rightarrow> 'd server \<Rightarrow> 'd server option" where
  "smpp_queues_process_ack E i seq st s = do {
     s \<leftarrow> smpp_esme_outbound_load_increase E i s;
     e \<leftarrow> get_esme s i;
     (case dict_get (e_open_acks e) (show_int seq) of
        None \<Rightarrow> Some s
      | Some p \<Rightarrow> do {
          s \<leftarrow> upd_esme i (\<lambda>e. e\<lparr>e_open_acks := dict_remove (e_open_acks e) (show_int seq)\<rparr>) s;
          q \<leftarrow> get_pdu s p;
          let s = log_deliver E e q st s;
          (if q_callback q = None then Some s else run_pdu_callback E p st s) }) }"

section \<open>Destruction of an ESME\<close>

fun destroy_acks_loop :: "'d env \<Rightarrow> nat \<Rightarrow> octstr list \<Rightarrow> 'd server \<Rightarrow> 'd server option" where
  "destroy_acks_loop E i [] s = Some s"
| "destroy_acks_loop E i (k # ks) s = do {
     e \<leftarrow> get_esme s i;
     s \<leftarrow> (case dict_get (e_open_acks e) k of
            None \<Rightarrow> Some s
          | Some p \<Rightarrow> do {
              s \<leftarrow> upd_esme i (\<lambda>e. e\<lparr>e_open_acks := dict_remove (e_open_acks e) k\<rparr>) s;
              q \<leftarrow> get_pdu s p;
              (if q_callback q = None then Some s else run_pdu_callback E p SMPP_QUEUED_PDU_DESTROYED s) });
     destroy_acks_loop E i ks s }"

definition smpp_esme_destroy_open_acks :: "'d env \<Rightarrow> nat \<Rightarrow> 'd server \<Rightarrow> 'd server option" where
  "smpp_esme_destroy_open_acks E i s = do {
     e \<leftarrow> get_esme s i;
     destroy_acks_loop E i (dict_keys (e_open_acks e)) s }"

definition smpp_esme_destroy :: "'d env \<Rightarrow> nat \<Rightarrow> 'd server \<Rightarrow> 'd server option" where
  "smpp_esme_destroy E i s = do {
     s \<leftarrow> smpp_esme_destroy_open_acks E i s;
     s \<leftarrow> smpp_esme_disconnect i s;
     Some (s\<lparr>s_esme_heap := dict_remove (s_esme_heap s) i\<rparr>) }"

end
