(* ===== verification/Bearerbox.thy ===== *)
theory Bearerbox
  imports Acks
begin

text \<open>
  smpp_bearerbox.c, the queue towards the bearerboxes: a message is queued while a bearerbox is
  connected, otherwise it goes to the store or is rejected; its callback learns the outcome.
\<close>

definition smpp_bearerbox_msg_create :: "gwlib \<Rightarrow> sms \<Rightarrow> bb_callback \<Rightarrow> bearerbox_msg" where
  "smpp_bearerbox_msg_create G m cb = \<lparr>bm_msg = m, bm_callback = cb, bm_id = gw_uuid_unparse G (sms_id m)\<rparr>"

definition smpp_bearerbox_create :: bearerbox where
  "smpp_bearerbox_create = \<lparr>bb_id = None, bb_host = None, bb_port = 0, bb_ssl = False, bb_connection = False,
     bb_last_msg = 0, bb_alive = False, bb_writer_alive = False, bb_open_acks = None\<rparr>"

definition smpp_bearerbox_online :: "bearerbox \<Rightarrow> bool" where
  "smpp_bearerbox_online x \<longleftrightarrow> bb_alive x"

definition some_bearerbox_online :: "'d server \<Rightarrow> bool" where
  "some_bearerbox_online s \<longleftrightarrow> list_ex smpp_bearerbox_online (s_bearerboxes s)"

text \<open>The outcome of a message that came from the store.\<close>

definition smpp_bearerbox_requeue_result :: "'d env \<Rightarrow> database_msg \<Rightarrow> command_status \<Rightarrow> 'd server \<Rightarrow> 'd server" where
  "smpp_bearerbox_requeue_result E dm st s =
     (if st = 0 then snd (smpp_database_remove E s (dm_global_id dm) False)
      else if st = SMPP_ESME_RSUBMITFAIL then snd (smpp_database_remove E s (dm_global_id dm) False)
      else s)"

definition run_bb_callback :: "'d env \<Rightarrow> bb_callback \<Rightarrow> command_status \<Rightarrow> 'd server \<Rightarrow> 'd server option" where
  "run_bb_callback E cb st s =
     (case cb of
        BCb_submit_sm p \<Rightarrow> smpp_queues_callback_submit_sm p st s
      | BCb_data_sm p \<Rightarrow> smpp_queues_callback_data_sm p st s
      | BCb_requeue_result dm \<Rightarrow> Some (smpp_bearerbox_requeue_result E dm st s))"

definition smpp_bearerbox_add_to_queue :: "'d env \<Rightarrow> bearerbox_msg \<Rightarrow> 'd server \<Rightarrow> 'd server option" where
  "smpp_bearerbox_add_to_queue E bm s =
     (if some_bearerbox_online s then Some (s\<lparr>s_bb_queue := s_bb_queue s @ [bm]\<rparr>)
      else
        let (ok, s) = (if c_database_enable_queue (s_cfg s) then smpp_database_add_queue_message E s (bm_msg bm)
                       else (False, s))
        in run_bb_callback E (bm_callback bm) (if ok then 0 else SMPP_ESME_RSYSERR) s)"

definition smpp_bearerbox_add_message :: "'d env \<Rightarrow> sms \<Rightarrow> bb_callback \<Rightarrow> 'd server \<Rightarrow> 'd server option" where
  "smpp_bearerbox_add_message E m cb s =
     smpp_bearerbox_add_to_queue E (smpp_bearerbox_msg_create (ev_gw E) m cb) s"

end
