(* ===== verification/Route.thy ===== *)
theory Route
  imports Bearerbox Receipts
begin

text \<open>
  smpp_route.c, and what the users of the router do with its answer: the submissions of ESMEs
  (smpp_queues.c) and the messages of bearerboxes and of the store (smpp_bearerbox.c). The
  database router answers at once; the answers of the HTTP and plugin routers arrive later, so
  their requests are kept in a list.
\<close>

section \<open>The table of routes\<close>

definition smpp_route_status_create :: "gwlib \<Rightarrow> sms \<Rightarrow> route_status" where
  "smpp_route_status_create G m =
     \<lparr>rs_parts = (if msgdata m \<noteq> None then length (gw_sms_split G m 1) else 1), rs_cost = 0,
      rs_status = SMPP_ESME_RINVDSTADR\<rparr>"

definition smpp_route_create :: route where
  "smpp_route_create = \<lparr>rt_regex = [], rt_system_id = None, rt_smsc_id = None, rt_cost = 0,
     rt_direction = SMPP_ROUTE_DIRECTION_UNKNOWN, rt_source_regex = None\<rparr>"

text \<open>
  The search loop: the first route whose pattern matches the receiver and whose source pattern,
  if it has one, matches the sender; a route that only declines the sender sets the status.
\<close>

fun search_routes :: "gwlib \<Rightarrow> (route \<Rightarrow> bool) \<Rightarrow> sms \<Rightarrow> command_status \<Rightarrow> route list \<Rightarrow> command_status + route" where
  "search_routes G usable m st [] = Inl st"
| "search_routes G usable m st (r # rs) =
     (if usable r \<and> gw_regex_match G (rt_regex r) (case_option [] id (receiver m)) then
        (case rt_source_regex r of
           None \<Rightarrow> Inr r
         | Some sr \<Rightarrow>
             (if gw_regex_match G sr (case_option [] id (sender m)) then Inr r
              else search_routes G usable m SMPP_ESME_RINVSRCADR rs))
      else search_routes G usable m st rs)"

definition outbound_routes_for :: "'d env \<Rightarrow> octstr \<Rightarrow> 'd server \<Rightarrow> route list \<times> 'd server" where
  "outbound_routes_for E sid s =
     (case dict_get (s_outbound_routes s) sid of
        Some rs \<Rightarrow> (rs, s)
      | None \<Rightarrow>
          let rs = smpp_database_get_routes E s SMPP_ROUTE_DIRECTION_OUTBOUND (Some sid) in
          (rs, s\<lparr>s_outbound_routes := dict_put (s_outbound_routes s) sid rs\<rparr>))"

definition inbound_usable :: "octstr \<Rightarrow> route \<Rightarrow> bool" where
  "inbound_usable smsc r \<longleftrightarrow> octstr_len (rt_smsc_id r) = 0 \<or> octstr_case_compare (rt_smsc_id r) (Some smsc)"

text \<open>The status and the routed message of the database router.\<close>

definition route_database ::
  "'d env \<Rightarrow> int \<Rightarrow> octstr option \<Rightarrow> octstr option \<Rightarrow> sms \<Rightarrow> 'd server \<Rightarrow> route_status \<times> sms \<times> 'd server" where
  "route_database E direction smsc sid m s =
     (let st = smpp_route_status_create (ev_gw E) m in
      if direction = SMPP_ROUTE_DIRECTION_OUTBOUND \<and> 0 < octstr_len sid then
        (let (rs, s) = outbound_routes_for E (the sid) s in
         (case search_routes (ev_gw E) (\<lambda>_. True) m (rs_status st) rs of
            Inr r \<Rightarrow> (st\<lparr>rs_status := SMPP_ESME_ROK, rs_cost := rt_cost r\<rparr>, m\<lparr>smsc_id := rt_smsc_id r\<rparr>, s)
          | Inl c \<Rightarrow> (st\<lparr>rs_status := c\<rparr>, m, s)))
      else if direction = SMPP_ROUTE_DIRECTION_INBOUND \<and> 0 < octstr_len smsc then
        (case search_routes (ev_gw E) (inbound_usable (the smsc)) m (rs_status st) (s_inbound_routes s) of
           Inr r \<Rightarrow> (st\<lparr>rs_status := SMPP_ESME_ROK, rs_cost := rt_cost r\<rparr>, m\<lparr>service := rt_system_id r\<rparr>, s)
         | Inl c \<Rightarrow> (st\<lparr>rs_status := c\<rparr>, m, s))
      else (st, m, s))"

definition smpp_route_rebuild_database :: "'d env \<Rightarrow> 'd server \<Rightarrow> 'd server" where
  "smpp_route_rebuild_database E s =
     s\<lparr>s_inbound_routes := smpp_database_get_routes E s SMPP_ROUTE_DIRECTION_INBOUND None, s_outbound_routes := []\<rparr>"

definition smpp_route_rebuild :: "'d env \<Rightarrow> 'd server \<Rightarrow> 'd server" where
  "smpp_route_rebuild E s = (if s_routing_method s = Route_database then smpp_route_rebuild_database E s else s)"

section \<open>Submissions after routing\<close>

definition smpp_queues_msg_set_dlr_url :: "gwlib \<Rightarrow> timestamp \<Rightarrow> esme \<Rightarrow> sms \<Rightarrow> sms" where
  "smpp_queues_msg_set_dlr_url G now e m =
     m\<lparr>dlr_url := Some (case_option [] id (e_system_id e) @ ''|'' @ show_int now @ ''|'' @ gw_uuid_unparse G (sms_id m))\<rparr>"

definition set_resp_message_id :: "octstr option \<Rightarrow> pdu \<Rightarrow> pdu" where
  "set_resp_message_id mid p =
     (case p of Submit_sm_resp n st _ \<Rightarrow> Submit_sm_resp n st mid | _ \<Rightarrow> p)"

definition is_submit_sm_resp :: "pdu \<Rightarrow> bool" where
  "is_submit_sm_resp p = (case p of Submit_sm_resp _ _ _ \<Rightarrow> True | _ \<Rightarrow> False)"

definition own_msg :: "msg_ptr \<Rightarrow> sms option" where
  "own_msg mp = (case mp of Msg_own m \<Rightarrow> Some m | _ \<Rightarrow> None)"

text \<open>
  A routed and paid submission goes to the store or to the bearerbox queue. A submit_sm gets the
  message id in its response and a new delivery report URL first; a data_sm has both already.
\<close>

definition resp_callback :: "nat \<Rightarrow> pdu \<Rightarrow> bb_callback option" where
  "resp_callback p resp =
     (case resp of
        Submit_sm_resp _ _ _ \<Rightarrow> Some (BCb_submit_sm p)
      | Data_sm_resp _ _ _ \<Rightarrow> Some (BCb_data_sm p)
      | _ \<Rightarrow> None)"

definition forward_submission :: "'d env \<Rightarrow> nat \<Rightarrow> queued_pdu \<Rightarrow> nat \<Rightarrow> sms \<Rightarrow> 'd server \<Rightarrow> 'd server option" where
  "forward_submission E p q i m s = do {
     e \<leftarrow> get_esme s i;
     g \<leftarrow> get_global s i;
     resp \<leftarrow> q_pdu q;
     cb \<leftarrow> resp_callback p resp;
     let submit = is_submit_sm_resp resp;
     let q = q\<lparr>q_pdu := Some (set_resp_message_id (Some (gw_uuid_unparse (ev_gw E) (sms_id m))) resp)\<rparr>;
     let m = (if submit then smpp_queues_msg_set_dlr_url (ev_gw E) (ev_now E) e m else m);
     (if g_database_store_primary g then
        (let (ok, s) = smpp_database_add_message E s m in
         run_bb_callback E cb (if ok then 0 else SMPP_ESME_RSYSERR) (put_pdu p (q\<lparr>q_msg := Msg_null\<rparr>) s))
      else smpp_bearerbox_add_message E m cb (put_pdu p (q\<lparr>q_msg := Msg_lent\<rparr>) s)) }"

definition reject_submission :: "nat \<Rightarrow> queued_pdu \<Rightarrow> nat \<Rightarrow> command_status \<Rightarrow> 'd server \<Rightarrow> 'd server option" where
  "reject_submission p q i st s = do {
     s \<leftarrow> count_traffic count_error i s;
     resp \<leftarrow> q_pdu q;
     resp \<leftarrow> (case resp of
                Submit_sm_resp n _ _ \<Rightarrow> Some (Submit_sm_resp n st None)
              | Data_sm_resp n _ _ \<Rightarrow> Some (Data_sm_resp n st None)
              | _ \<Rightarrow> None);
     smpp_queues_add_outbound p (put_pdu p (q\<lparr>q_pdu := Some resp, q_msg := Msg_null\<rparr>) s) }"

definition charge :: "'d env \<Rightarrow> nat \<Rightarrow> real \<Rightarrow> 'd server \<Rightarrow> (bool \<times> 'd server) option" where
  "charge E i cost s = do {
     e \<leftarrow> get_esme s i;
     g \<leftarrow> get_global s i;
     Some (if g_enable_prepaid_billing g then smpp_database_deduct_credit E s (e_system_id e) cost else (True, s)) }"

definition submission_routing_done :: "'d env \<Rightarrow> nat \<Rightarrow> route_status \<Rightarrow> 'd server \<Rightarrow> 'd server option" where
  "submission_routing_done E p rs s = do {
     q \<leftarrow> get_pdu s p;
     i \<leftarrow> q_esme q;
     s \<leftarrow> upd_esme i (\<lambda>e. e\<lparr>e_pending_routing := e_pending_routing e - 1\<rparr>) s;
     e \<leftarrow> get_esme s i;
     m \<leftarrow> own_msg (q_msg q);
     (if rs_status rs = SMPP_ESME_ROK then do {
        (paid, s) \<leftarrow> charge E i (real (rs_parts rs) * rs_cost rs) s;
        (if paid then forward_submission E p q i m s else reject_submission p q i SMPP_ESME_RSUBMITFAIL s) }
      else if 0 < octstr_len (smsc_id m) then do {
        (paid, s) \<leftarrow> charge E i (real (rs_parts rs) * e_default_cost e) s;
        (if paid then forward_submission E p q i m s else reject_submission p q i SMPP_ESME_RSUBMITFAIL s) }
      else reject_submission p q i (rs_status rs) s) }"

definition smpp_queues_submit_routing_done :: "'d env \<Rightarrow> nat \<Rightarrow> route_status \<Rightarrow> 'd server \<Rightarrow> 'd server option" where
  "smpp_queues_submit_routing_done E p rs s = submission_routing_done E p rs s"

definition smpp_queues_data_sm_routing_done :: "'d env \<Rightarrow> nat \<Rightarrow> route_status \<Rightarrow> 'd server \<Rightarrow> 'd server option" where
  "smpp_queues_data_sm_routing_done E p rs s = submission_routing_done E p rs s"

section \<open>Messages for ESMEs after routing\<close>

text \<open>
  The PDUs of a message are queued one by one: each draws a sequence number of the ESME, which
  is also its id. The base record holds what the origin needs back.
\<close>

fun queue_deliveries :: "nat \<Rightarrow> queued_pdu \<Rightarrow> pdu list \<Rightarrow> 'd server \<Rightarrow> 'd server option" where
  "queue_deliveries i base [] s = Some s"
| "queue_deliveries i base (d # ds) s = do {
     e \<leftarrow> get_esme s i;
     let n = e_sequence_number e;
     let s = put_esme i (e\<lparr>e_sequence_number := n + 1\<rparr>) s;
     let (p, s) = alloc_pdu (base\<lparr>q_pdu := Some (set_deliver_seq (int n) d), q_system_id := e_system_id e,
                       q_callback := Some Cb_deliver_sm_resp, q_esme := Some i, q_id := Some (show_nat n)\<rparr>) s;
     s \<leftarrow> smpp_queues_add_outbound p s;
     queue_deliveries i base ds s }"

text \<open>smpp_pdu_msg_to_pdu on the ESME at address i, whose counters it advances.\<close>

definition msg_to_pdu_for :: "'d env \<Rightarrow> nat \<Rightarrow> sms \<Rightarrow> 'd server \<Rightarrow> (pdu list option \<times> 'd server) option" where
  "msg_to_pdu_for E i m s = do {
     e \<leftarrow> get_esme s i;
     let (ps, e') = smpp_pdu_msg_to_pdu (ev_gw E) (ev_now E) e m;
     Some (ps, put_esme i e' s) }"

text \<open>The list of PDUs is consumed without a check for null: a message that cannot be converted is a fault.\<close>

definition smpp_bearerbox_requeue_routing_done ::
  "'d env \<Rightarrow> database_msg \<Rightarrow> route_status \<Rightarrow> 'd server \<Rightarrow> 'd server option" where
  "smpp_bearerbox_requeue_routing_done E dm rs s = do {
     m \<leftarrow> dm_msg dm;
     (if rs_status rs = SMPP_ESME_ROK then do {
        r \<leftarrow> smpp_esme_find_best_receiver s (service m);
        (case r of
           Some i \<Rightarrow> do {
             (ps, s) \<leftarrow> msg_to_pdu_for E i m s;
             ds \<leftarrow> ps;
             queue_deliveries i (smpp_queued_pdu_create\<lparr>q_server := True, q_global_id := dm_global_id dm\<rparr>) ds s }
         | None \<Rightarrow> Some (snd (smpp_database_remove E s (dm_global_id dm) True))) }
      else Some (snd (smpp_database_remove E s (dm_global_id dm) False))) }"

definition smpp_bearerbox_routing_done ::
  "'d env \<Rightarrow> nat \<Rightarrow> sms \<Rightarrow> route_status \<Rightarrow> 'd server \<Rightarrow> 'd server option" where
  "smpp_bearerbox_routing_done E b m rs s =
     (let ack_id = gw_uuid_unparse (ev_gw E) (sms_id m);
          ack = (\<lambda>st s. map_option snd (smpp_bearerbox_acknowledge E (Some b) (Some ack_id) st s))
      in
      if rs_status rs = SMPP_ESME_ROK then do {
        r \<leftarrow> smpp_esme_find_best_receiver s (service m);
        (case r of
           Some i \<Rightarrow> do {
             (ps, s) \<leftarrow> msg_to_pdu_for E i m s;
             queue_deliveries i (smpp_queued_pdu_create\<lparr>q_bearerbox := Some b, q_bearerbox_id := Some ack_id\<rparr>)
               (case_option [] id ps) s }
         | None \<Rightarrow>
             (if c_database_enable_queue (s_cfg s) then
                (let (ok, s) = smpp_database_add_message E s m in ack (if ok then ack_success else ack_failed) s)
              else ack ack_failed_tmp s)) }
      else ack ack_failed s)"

section \<open>The router\<close>

definition set_callback_msg :: "route_callback \<Rightarrow> sms \<Rightarrow> 'd server \<Rightarrow> (route_callback \<times> 'd server) option" where
  "set_callback_msg cb m s =
     (case cb of
        RCb_submit_sm p _ \<Rightarrow> do { q \<leftarrow> get_pdu s p; Some (cb, put_pdu p (q\<lparr>q_msg := Msg_own m\<rparr>) s) }
      | RCb_data_sm p _ \<Rightarrow> do { q \<leftarrow> get_pdu s p; Some (cb, put_pdu p (q\<lparr>q_msg := Msg_own m\<rparr>) s) }
      | RCb_bearerbox b _ \<Rightarrow> Some (RCb_bearerbox b m, s)
      | RCb_requeue dm \<Rightarrow> Some (RCb_requeue (dm\<lparr>dm_msg := Some m\<rparr>), s))"

definition run_route_callback :: "'d env \<Rightarrow> route_callback \<Rightarrow> route_status \<Rightarrow> 'd server \<Rightarrow> 'd server option" where
  "run_route_callback E cb rs s =
     (case cb of
        RCb_submit_sm p _ \<Rightarrow> smpp_queues_submit_routing_done E p rs s
      | RCb_data_sm p _ \<Rightarrow> smpp_queues_data_sm_routing_done E p rs s
      | RCb_bearerbox b m \<Rightarrow> smpp_bearerbox_routing_done E b m rs s
      | RCb_requeue dm \<Rightarrow> smpp_bearerbox_requeue_routing_done E dm rs s)"

text \<open>The router has changed the message the context refers to; then the callback runs.\<close>

definition route_answer :: "'d env \<Rightarrow> route_callback \<Rightarrow> sms \<Rightarrow> route_status \<Rightarrow> 'd server \<Rightarrow> 'd server option" where
  "route_answer E cb m rs s = do {
     (cb, s) \<leftarrow> set_callback_msg cb m s;
     run_route_callback E cb rs s }"

definition smpp_route_message_database ::
  "'d env \<Rightarrow> int \<Rightarrow> octstr option \<Rightarrow> octstr option \<Rightarrow> sms \<Rightarrow> route_callback \<Rightarrow> 'd server \<Rightarrow> 'd server option" where
  "smpp_route_message_database E direction smsc sid m cb s =
     (let (rs, m, s) = route_database E direction smsc sid m s in route_answer E cb m rs s)"

text \<open>A message is dropped without an answer when no method is configured.\<close>

definition smpp_route_message ::
  "'d env \<Rightarrow> int \<Rightarrow> octstr option \<Rightarrow> octstr option \<Rightarrow> sms \<Rightarrow> route_callback \<Rightarrow> 'd server \<Rightarrow> 'd server option" where
  "smpp_route_message E direction smsc sid m cb s =
     (case s_routing_method s of
        Route_none \<Rightarrow> Some s
      | Route_database \<Rightarrow> smpp_route_message_database E direction smsc sid m cb s
      | _ \<Rightarrow> Some (s\<lparr>s_pending_routes := s_pending_routes s @ [(cb, m)]\<rparr>))"

end
