(* ===== verification/Auth.thy ===== *)
theory Auth
  imports Listener
begin

text \<open>
  Authentication of a bind: the answer of the authentication URL (smpp_http_client.c) and the
  decision of smpp_esme_auth (smpp_esme.c) with its checks of the peer address and of the bind
  limit. Header names of a reply are in lower case.
\<close>

section \<open>Authentication over HTTP\<close>

definition header_or :: "(octstr, octstr) dict \<Rightarrow> octstr \<Rightarrow> (octstr \<Rightarrow> 'a) \<Rightarrow> 'a \<Rightarrow> 'a" where
  "header_or hs name f dflt = (if 0 < octstr_len (dict_get hs name) then f (the (dict_get hs name)) else dflt)"

definition http_auth_simulation :: "(octstr, octstr) dict \<Rightarrow> simulation" where
  "http_auth_simulation hs =
     \<lparr>sim_on = header_or hs ''x-ksmppd-simulate'' (\<lambda>v. atol v \<noteq> 0) False,
      sim_dlr_fail = header_or hs ''x-ksmppd-simulate-dlr-fail'' (\<lambda>v. atol v \<noteq> 0) False,
      sim_deliver_every = header_or hs ''x-ksmppd-simulate-deliver-every'' (nat \<circ> atol) 0,
      sim_mo_every = header_or hs ''x-ksmppd-simulate-mo-every'' (nat \<circ> atol) 0,
      sim_permanent_failure_every = header_or hs ''x-ksmppd-permanent-failure-every'' (nat \<circ> atol) 0,
      sim_temporary_failure_every = header_or hs ''x-ksmppd-temporary-failure-every'' (nat \<circ> atol) 0\<rparr>"

definition smpp_http_client_auth :: "int \<times> (octstr, octstr) dict \<Rightarrow> auth_result option" where
  "smpp_http_client_auth reply =
     (let (status, hs) = reply in
      if status = 200 \<and> header_or hs ''x-ksmppd-auth'' (\<lambda>v. atol v \<noteq> 0) False then
        Some (smpp_esme_auth_result_create
          \<lparr>a_throughput := header_or hs ''x-ksmppd-throughput'' atof 0,
           a_max_binds := header_or hs ''x-ksmppd-max-binds'' atol 0,
           a_simulation := http_auth_simulation hs,
           a_default_smsc := header_or hs ''x-ksmppd-default-smsc'' Some None,
           a_default_cost := header_or hs ''x-ksmppd-default-smsc-cost'' atof 0,
           a_callback_url := header_or hs ''x-ksmppd-callback-url'' Some None,
           a_database_store_primary := header_or hs ''x-ksmppd-database-store-primary''
             (\<lambda>v. if atol v = 0 \<or> atol v = 1 then atol v else SMPP_AUTH_DATABASE_STORE_PRIMARY_INHERIT)
             SMPP_AUTH_DATABASE_STORE_PRIMARY_INHERIT,
           a_allowed_ips := header_or hs ''x-ksmppd-connect-allow-ip'' Some None\<rparr>)
      else None)"

section \<open>The decision\<close>

definition auth_backend ::
  "'d env \<Rightarrow> octstr option \<Rightarrow> octstr option \<Rightarrow> octstr option \<Rightarrow> 'd server \<Rightarrow> auth_result option option" where
  "auth_backend E sid password ip s =
     (let method = c_authentication_method (s_cfg s) in
      if method = SMPP_SERVER_AUTH_METHOD_DATABASE then smpp_database_auth E s sid password
      else if method = SMPP_SERVER_AUTH_METHOD_HTTP
      then Some (smpp_http_client_auth (ev_http_reply E sid password ip))
      else if method = SMPP_SERVER_AUTH_METHOD_PLUGIN
      then Some (case ev_plugin_auth E of None \<Rightarrow> None | Some f \<Rightarrow> f sid password)
      else smpp_database_auth E s sid password)"

definition auth_allowed_ip :: "gwlib \<Rightarrow> octstr option \<Rightarrow> auth_result \<Rightarrow> bool" where
  "auth_allowed_ip G ip a \<longleftrightarrow> \<not> (0 < octstr_len (a_allowed_ips a) \<and> gw_connect_denied G (a_allowed_ips a) ip)"

definition auth_bind_limit_ok :: "'d server \<Rightarrow> octstr option \<Rightarrow> auth_result \<Rightarrow> bool" where
  "auth_bind_limit_ok s sid a \<longleftrightarrow>
     \<not> (0 < a_max_binds a \<and>
        (case dict_get (s_esmes s) (octstr_lower (case_option [] id sid)) of
           None \<Rightarrow> False
         | Some g \<Rightarrow> a_max_binds a \<le> int (length (g_binds g))))"

definition smpp_esme_auth ::
  "'d env \<Rightarrow> octstr option \<Rightarrow> octstr option \<Rightarrow> nat \<Rightarrow> 'd server \<Rightarrow> (auth_result option \<times> 'd server) option" where
  "smpp_esme_auth E sid password i s = do {
     e \<leftarrow> get_esme s i;
     r \<leftarrow> auth_backend E sid password (e_ip e) s;
     let r = (case r of Some a \<Rightarrow> (if auth_allowed_ip (ev_gw E) (e_ip e) a then Some a else None) | None \<Rightarrow> None);
     let r = (case r of Some a \<Rightarrow> (if auth_bind_limit_ok s sid a then Some a else None) | None \<Rightarrow> None);
     Some (r, (if r = None then smpp_listener_auth_failed E (e_ip e) s else s)) }"

section \<open>Lemmas\<close>

lemma esme_auth_cases:
  assumes "smpp_esme_auth E sid password i s = Some (r, s')"
  obtains (accepted) e a where "get_esme s i = Some e" "auth_backend E sid password (e_ip e) s = Some (Some a)"
      "auth_allowed_ip (ev_gw E) (e_ip e) a" "auth_bind_limit_ok s sid a" "r = Some a" "s' = s"
  | (rejected) e where "get_esme s i = Some e" "r = None" "s' = smpp_listener_auth_failed E (e_ip e) s"
proof -
  from assms obtain e b where e: "get_esme s i = Some e" "auth_backend E sid password (e_ip e) s = Some b"
    by (auto simp: smpp_esme_auth_def split: Option.bind_splits)
  show thesis
  proof (cases "\<exists>a. b = Some a \<and> auth_allowed_ip (ev_gw E) (e_ip e) a \<and> auth_bind_limit_ok s sid a")
    case True
    then obtain a where a: "b = Some a" "auth_allowed_ip (ev_gw E) (e_ip e) a" "auth_bind_limit_ok s sid a" by blast
    with e have "smpp_esme_auth E sid password i s = Some (Some a, s)" by (simp add: smpp_esme_auth_def)
    with assms have "r = Some a" "s' = s" by simp_all
    from accepted [OF e(1) _ a(2,3) this] e(2) a(1) show thesis by simp
  next
    case False
    with e have "smpp_esme_auth E sid password i s = Some (None, smpp_listener_auth_failed E (e_ip e) s)"
      by (cases b) (simp_all add: smpp_esme_auth_def)
    with assms have "r = None" "s' = smpp_listener_auth_failed E (e_ip e) s" by simp_all
    from rejected [OF e(1) this] show thesis .
  qed
qed

lemma server_blocklist_id: "s = s\<lparr>s_ip_blocklist := s_ip_blocklist s\<rparr>"
  by simp

lemma auth_failed_frame:
  "\<exists>bl. smpp_listener_auth_failed E ip s = s\<lparr>s_ip_blocklist := bl\<rparr>"
  using server_blocklist_id [of s] unfolding smpp_listener_auth_failed_def Let_def by metis

lemma esme_auth_frame:
  assumes "smpp_esme_auth E sid password i s = Some (r, s')"
  shows "\<exists>bl. s' = s\<lparr>s_ip_blocklist := bl\<rparr>"
  using assms
proof (cases rule: esme_auth_cases)
  case accepted
  then show ?thesis using server_blocklist_id by metis
next
  case rejected
  then show ?thesis using auth_failed_frame by metis
qed

section \<open>Properties\<close>

text \<open>
  C13: A bind is accepted only with credentials the configured back end accepts, from an address
  the account allows, and below the account's limit of binds; an acceptance changes nothing in
  the server. In every other case no result is returned and, unless the address is exempt, the
  failure is counted against it.
\<close>

theorem esme_auth_sound:
  assumes "smpp_esme_auth E sid password i s = Some (r, s')" and "get_esme s i = Some e"
  shows "(case r of
      Some a \<Rightarrow> auth_backend E sid password (e_ip e) s = Some (Some a) \<and> s' = s
        \<and> (0 < octstr_len (a_allowed_ips a) \<longrightarrow> \<not> gw_connect_denied (ev_gw E) (a_allowed_ips a) (e_ip e))
        \<and> (\<forall>g. 0 < a_max_binds a \<longrightarrow> dict_get (s_esmes s) (octstr_lower (case_option [] id sid)) = Some g \<longrightarrow>
              int (length (g_binds g)) < a_max_binds a)
    | None \<Rightarrow> s' = smpp_listener_auth_failed E (e_ip e) s
        \<and> (\<forall>a. auth_backend E sid password (e_ip e) s = Some (Some a) \<longrightarrow>
              \<not> auth_allowed_ip (ev_gw E) (e_ip e) a \<or> \<not> auth_bind_limit_ok s sid a))"
proof (cases r)
  case (Some a)
  from assms(1) Some show ?thesis
    by (cases rule: esme_auth_cases) (use assms(2) in \<open>auto simp: auth_allowed_ip_def auth_bind_limit_ok_def\<close>)
next
  case None
  from assms(1) None have s': "s' = smpp_listener_auth_failed E (e_ip e) s"
    by (cases rule: esme_auth_cases) (use assms(2) in auto)
  have "\<not> auth_allowed_ip (ev_gw E) (e_ip e) a \<or> \<not> auth_bind_limit_ok s sid a"
    if "auth_backend E sid password (e_ip e) s = Some (Some a)" for a
    using assms None that by (auto simp: smpp_esme_auth_def)
  with None s' show ?thesis by simp
qed

text \<open>A plugin that accepts one password with a limit of two binds.\<close>

definition plugin_env :: "unit env" where
  "plugin_env = example_env\<lparr>ev_plugin_auth := Some (\<lambda>sid password.
     if password = Some ''secret'' then Some (smpp_esme_auth_result_create\<lparr>a_max_binds := 2\<rparr>) else None)\<rparr>"

theorem esme_auth_sound_witness:
  "smpp_esme_auth plugin_env (Some ''abc'') (Some ''wrong'') 0 (bound_server ''abc'' [example_esme 0 0]) =
     Some (None, smpp_listener_auth_failed plugin_env None (bound_server ''abc'' [example_esme 0 0]))"
proof -
  let ?s = "bound_server ''abc'' [example_esme 0 0]"
  let ?e = "example_esme 0 0\<lparr>e_system_id := Some ''abc'', e_global := Some ''abc''\<rparr>"
  have e: "get_esme ?s 0 = Some ?e" "e_ip ?e = None"
    by (simp_all add: bound_server_def get_esme_def dict_get_def example_esme_def smpp_esme_create_def)
  have "s_cfg ?s = example_cfg" by (simp add: bound_server_def example_server_def initial_server_def)
  then obtain s' where "smpp_esme_auth plugin_env (Some ''abc'') (Some ''wrong'') 0 ?s = Some (None, s')"
    using e by (auto simp: smpp_esme_auth_def auth_backend_def plugin_env_def example_cfg_def)
  with esme_auth_sound [OF this e(1)] e(2) show ?thesis by simp
qed

text \<open>
  The limit of binds is looked up in lower case while the table is keyed by the system id
  as sent: for a system id with an upper-case letter and no lower-case twin, authentication never
  fails because of the limit, however many binds the account already has.
\<close>

theorem bind_limit_ignored_for_mixed_case:
  assumes "get_esme s i = Some e" and "auth_backend E (Some k) password (e_ip e) s = Some (Some a)"
    and "auth_allowed_ip (ev_gw E) (e_ip e) a" and "octstr_lower k \<noteq> k"
    and "dict_get (s_esmes s) (octstr_lower k) = None" and "dict_get (s_esmes s) k = Some g"
    and "a_max_binds a \<le> int (length (g_binds g))"
  shows "smpp_esme_auth E (Some k) password i s = Some (Some a, s)"
  using assms(1-3,5) by (simp add: smpp_esme_auth_def auth_bind_limit_ok_def)

theorem bind_limit_ignored_for_mixed_case_witness:
  "\<exists>a. smpp_esme_auth plugin_env (Some ''Abc'') (Some ''secret'') 0
         (bound_server ''Abc'' [example_esme 0 0, example_esme 0 0, example_esme 0 0]) =
       Some (Some a, bound_server ''Abc'' [example_esme 0 0, example_esme 0 0, example_esme 0 0]) \<and> a_max_binds a = 2"
proof -
  let ?s = "bound_server ''Abc'' [example_esme 0 0, example_esme 0 0, example_esme 0 0]"
  let ?e = "example_esme 0 0\<lparr>e_system_id := Some ''Abc'', e_global := Some ''Abc''\<rparr>"
  let ?a = "smpp_esme_auth_result_create\<lparr>a_max_binds := 2\<rparr>"
  let ?g = "smpp_esme_global_create\<lparr>g_system_id := Some ''Abc'', g_binds := [0, 1, 2]\<rparr>"
  have e: "get_esme ?s 0 = Some ?e" by (simp add: bound_server_def get_esme_def dict_get_def)
  have low: "octstr_lower ''Abc'' = ''abc''" by code_simp
  have b: "auth_backend plugin_env (Some ''Abc'') (Some ''secret'') (e_ip ?e) ?s = Some (Some ?a)"
    by (simp add: auth_backend_def plugin_env_def bound_server_def example_server_def initial_server_def example_cfg_def)
  have ip: "auth_allowed_ip (ev_gw plugin_env) (e_ip ?e) ?a"
    by (simp add: auth_allowed_ip_def smpp_esme_auth_result_create_def)
  have g: "dict_get (s_esmes ?s) (octstr_lower ''Abc'') = None" "dict_get (s_esmes ?s) ''Abc'' = Some ?g"
    by (simp_all add: low bound_server_def dict_get_Cons upt_rec)
  have l: "a_max_binds ?a \<le> int (length (g_binds ?g))" by simp
  have "smpp_esme_auth plugin_env (Some ''Abc'') (Some ''secret'') 0 ?s = Some (Some ?a, ?s)"
    by (rule bind_limit_ignored_for_mixed_case [OF e b ip _ g l]) (simp add: low)
  then show ?thesis by (intro exI [of _ ?a]) simp
qed

end
