(* ===== verification/Handlers.thy ===== *)
theory Handlers
  imports Route Auth
begin

text \<open>
  smpp_queues.c: the handlers of the PDUs an ESME sends, and one iteration of each of the
  threads that consume the inbound, outbound and simulation queues.
\<close>

section \<open>Responses\<close>

text \<open>smpp_queued_pdu_create_quick and add_outbound in one go, with the status the handler sets.\<close>

definition respond :: "nat \<Rightarrow> pdu \<Rightarrow> 'd server \<Rightarrow> 'd server option" where
  "respond i resp s = do {
     e \<leftarrow> get_esme s i;
     let (r, s) = alloc_pdu (smpp_queued_pdu_create_quick i e resp) s;
     smpp_queues_add_outbound r s }"

definition respond_plain :: "nat \<Rightarrow> pdu \<Rightarrow> bool \<Rightarrow> 'd server \<Rightarrow> 'd server option" where
  "respond_plain i resp disc s =
     (let (r, s) = alloc_pdu (smpp_queued_pdu_create\<lparr>q_esme := Some i, q_pdu := Some resp, q_disconnect := disc\<rparr>) s
      in smpp_queues_add_outbound r s)"

definition smpp_queues_send_enquire_link :: "nat \<Rightarrow> 'd server \<Rightarrow> 'd server option" where
  "smpp_queues_send_enquire_link i s = do {
     e \<leftarrow> get_esme s i;
     let n = e_sequence_number e;
     respond_plain i (Enquire_link (int n)) False (put_esme i (e\<lparr>e_sequence_number := n + 1\<rparr>) s) }"

definition smpp_queues_handle_enquire_link :: "nat \<Rightarrow> nat \<Rightarrow> int \<Rightarrow> 'd server \<Rightarrow> 'd server option" where
  "smpp_queues_handle_enquire_link p i seq s = do {
     s \<leftarrow> respond_plain i (Enquire_link_resp seq) False s;
     smpp_queued_pdu_destroy p s }"

definition smpp_queues_handle_unbind :: "nat \<Rightarrow> nat \<Rightarrow> int \<Rightarrow> 'd server \<Rightarrow> 'd server option" where
  "smpp_queues_handle_unbind p i seq s = do {
     s \<leftarrow> respond_plain i (Unbind_resp seq) True s;
     smpp_queued_pdu_destroy p s }"

section \<open>Binding\<close>

text \<open>The settings of the account, copied to the ESME and to the entry of its system id.\<close>

definition apply_auth_result :: "nat \<Rightarrow> auth_result \<Rightarrow> 'd server \<Rightarrow> 'd server option" where
  "apply_auth_result i a s = do {
     s \<leftarrow> upd_esme i (\<lambda>e. e
       \<lparr>e_default_smsc := (if 0 < octstr_len (a_default_smsc a) then a_default_smsc a else e_default_smsc e),
        e_alt_charset := (if 0 < octstr_len (a_alt_charset a) then a_alt_charset a else e_alt_charset e),
        e_default_cost := a_default_cost a,
        e_simulation := (if sim_on (a_simulation a) then a_simulation a else e_simulation e)\<rparr>) s;
     upd_global i (\<lambda>g. g
       \<lparr>g_throughput := a_throughput a, g_max_binds := a_max_binds a,
        g_enable_prepaid_billing := a_enable_prepaid_billing a,
        g_database_store_primary := smpp_esme_effective_database_store_primary (s_cfg s) (Some a)\<rparr>) s }"

definition handle_bind :: "'d env \<Rightarrow> nat \<Rightarrow> nat \<Rightarrow> (command_status \<Rightarrow> octstr option \<Rightarrow> pdu) \<Rightarrow> nat \<Rightarrow> bind_body \<Rightarrow> 'd server \<Rightarrow> 'd server option" where
  "handle_bind E p i resp bt b s = do {
     (r, s) \<leftarrow> smpp_esme_auth E (b_system_id b) (b_password b) i s;
     s \<leftarrow> (case r of
            None \<Rightarrow> do {
              s \<leftarrow> upd_esme i (\<lambda>e. e\<lparr>e_pending_disconnect := True\<rparr>) s;
              respond_plain i (resp SMPP_ESME_RBINDFAIL None) True s }
          | Some a \<Rightarrow> do {
              s \<leftarrow> upd_esme i (\<lambda>e. e\<lparr>e_bind_type := bt, e_authenticated := True, e_system_id := b_system_id b,
                                   e_version := b_interface_version b\<rparr>) s;
              s \<leftarrow> smpp_esme_global_add i s;
              s \<leftarrow> respond_plain i (resp SMPP_ESME_ROK (c_server_id (s_cfg s))) False s;
              apply_auth_result i a s });
     smpp_queued_pdu_destroy p s }"

definition smpp_queues_handle_bind_pdu :: "'d env \<Rightarrow> nat \<Rightarrow> nat \<Rightarrow> pdu \<Rightarrow> 'd server \<Rightarrow> 'd server option" where
  "smpp_queues_handle_bind_pdu E p i pd s =
     (case pd of
        Bind_transmitter n b \<Rightarrow> handle_bind E p i (Bind_transmitter_resp n) SMPP_ESME_TRANSMIT b s
      | Bind_transceiver n b \<Rightarrow> handle_bind E p i (Bind_transceiver_resp n) 3 b s
      | Bind_receiver n b \<Rightarrow> handle_bind E p i (Bind_receiver_resp n) SMPP_ESME_RECEIVE b s
      | _ \<Rightarrow> smpp_queued_pdu_destroy p s)"

section \<open>Submissions\<close>

definition fresh_uuid :: "'d server \<Rightarrow> uuid \<times> 'd server" where
  "fresh_uuid s = (s_next_uuid s, s\<lparr>s_next_uuid := s_next_uuid s + 1\<rparr>)"

definition throttled :: "'d env \<Rightarrow> esme_global \<Rightarrow> bool" where
  "throttled E g \<longleftrightarrow> 0 < g_throughput g \<and> g_throughput g < gw_load_get (ev_gw E) (g_inbound_load g) 1 (ev_now E)"

text \<open>The default route of the account, the delivery report URL, and the request to the router.\<close>

definition route_submission :: "'d env \<Rightarrow> nat \<Rightarrow> (octstr \<Rightarrow> pdu) \<Rightarrow> (nat \<Rightarrow> nat \<Rightarrow> route_callback) \<Rightarrow> sms \<Rightarrow> 'd server \<Rightarrow> 'd server option" where
  "route_submission E i resp cb m s = do {
     e \<leftarrow> get_esme s i;
     let m = (if 0 < octstr_len (e_default_smsc e) then m\<lparr>smsc_id := e_default_smsc e\<rparr> else m);
     let m = smpp_queues_msg_set_dlr_url (ev_gw E) (ev_now E) e m;
     let (r, s) = alloc_pdu ((smpp_queued_pdu_create_quick i e (resp (gw_uuid_unparse (ev_gw E) (sms_id m))))
                              \<lparr>q_msg := Msg_own m\<rparr>) s;
     s \<leftarrow> upd_esme i (\<lambda>e. e\<lparr>e_pending_routing := e_pending_routing e + 1\<rparr>) s;
     smpp_route_message E SMPP_ROUTE_DIRECTION_OUTBOUND None (e_system_id e) m (cb r i) s }"

fun push_simulation :: "octstr option \<Rightarrow> pdu list \<Rightarrow> 'd server \<Rightarrow> 'd server" where
  "push_simulation sid [] s = s"
| "push_simulation sid (d # ds) s =
     (let (p, s) = alloc_pdu (smpp_queued_pdu_create\<lparr>q_pdu := Some d, q_system_id := sid\<rparr>) s
      in push_simulation sid ds (s\<lparr>s_simulation_queue := s_simulation_queue s @ [p]\<rparr>))"

definition every :: "nat \<Rightarrow> nat \<Rightarrow> bool" where
  "every k n \<longleftrightarrow> k \<noteq> 0 \<and> n mod k = 0"

definition simulate_dlr :: "'d env \<Rightarrow> nat \<Rightarrow> sms \<Rightarrow> 'd server \<Rightarrow> 'd server option" where
  "simulate_dlr E i m s = do {
     e \<leftarrow> get_esme s i;
     let fail = sim_dlr_fail (e_simulation e);
     let txt = dlr_short_message (gw_uuid_unparse (ev_gw E) (sms_id m)) (if fail then ''000'' else ''001'')
                 (strftime12 (gw_localtime (ev_gw E) (sms_time m))) (strftime12 (gw_localtime (ev_gw E) (ev_now E)))
                 (if fail then ''UNDELIV'' else ''DELIVRD'') (if fail then 1 else 0) (case_option [] id (msgdata m));
     (ps, s) \<leftarrow> msg_to_pdu_for E i (m\<lparr>msgdata := Some txt\<rparr>) s;
     ds \<leftarrow> ps;
     Some (push_simulation (e_system_id e) ds s) }"

definition simulate_mo :: "'d env \<Rightarrow> nat \<Rightarrow> sms \<Rightarrow> 'd server \<Rightarrow> 'd server option" where
  "simulate_mo E i m s = do {
     e \<leftarrow> get_esme s i;
     (ps, s) \<leftarrow> msg_to_pdu_for E i (m\<lparr>sms_type := mo, receiver := sender m, sender := receiver m\<rparr>) s;
     ds \<leftarrow> ps;
     Some (push_simulation (e_system_id e) ds s) }"

definition simulate_accept :: "'d env \<Rightarrow> nat \<Rightarrow> int \<Rightarrow> nat \<Rightarrow> sms \<Rightarrow> 'd server \<Rightarrow> 'd server option" where
  "simulate_accept E i seq n m s = do {
     s \<leftarrow> count_traffic count_mt i s;
     e \<leftarrow> get_esme s i;
     let resp = Submit_sm_resp seq SMPP_ESME_ROK (Some (gw_uuid_unparse (ev_gw E) (sms_id m)));
     let sim = e_simulation e;
     let dlr = every (sim_deliver_every sim) n;
     let m1 = (if dlr then smpp_queues_msg_set_dlr_url (ev_gw E) (ev_now E) e
                 (m\<lparr>sms_type := report_mo, dlr_mask := (if sim_dlr_fail sim then DLR_FAIL else DLR_SUCCESS)\<rparr>) else m);
     s \<leftarrow> (if dlr then do { s \<leftarrow> respond i resp s; simulate_dlr E i m1 s } else Some s);
     s \<leftarrow> (if every (sim_mo_every sim) n then simulate_mo E i m1 s else Some s);
     (if dlr then Some s else respond i resp s) }"

definition simulate_submit :: "'d env \<Rightarrow> nat \<Rightarrow> int \<Rightarrow> submit_sm_body \<Rightarrow> 'd server \<Rightarrow> 'd server option" where
  "simulate_submit E i seq b s = do {
     e \<leftarrow> get_esme s i;
     let n = e_inbound_processed e;
     (if every (sim_temporary_failure_every (e_simulation e)) n then do {
        s \<leftarrow> count_traffic count_error i s;
        respond i (Submit_sm_resp seq SMPP_ESME_RMSGQFUL None) s }
      else if every (sim_permanent_failure_every (e_simulation e)) n then do {
        s \<leftarrow> count_traffic count_error i s;
        respond i (Submit_sm_resp seq SMPP_ESME_RSUBMITFAIL None) s }
      else
        let (u, s) = fresh_uuid s in
        (case smpp_submit_sm_to_msg (ev_gw E) (ev_now E) u e b of
           Inl reason \<Rightarrow> respond i (Submit_sm_resp seq reason None) s
         | Inr m \<Rightarrow> simulate_accept E i seq n m s)) }"

definition smpp_queues_handle_submit_sm :: "'d env \<Rightarrow> nat \<Rightarrow> nat \<Rightarrow> int \<Rightarrow> submit_sm_body \<Rightarrow> 'd server \<Rightarrow> 'd server option" where
  "smpp_queues_handle_submit_sm E p i seq b s = do {
     e \<leftarrow> get_esme s i;
     s \<leftarrow> (if \<not> can_transmit (e_bind_type e) then respond i (Submit_sm_resp seq SMPP_ESME_RINVBNDSTS None) s
          else do {
            g \<leftarrow> get_global s i;
            (if throttled E g then respond i (Submit_sm_resp seq SMPP_ESME_RTHROTTLED None) s
             else do {
               s \<leftarrow> smpp_esme_inbound_load_increase E i s;
               (if sim_on (e_simulation e) then simulate_submit E i seq b s
                else
                  let (u, s) = fresh_uuid s in
                  (case smpp_submit_sm_to_msg (ev_gw E) (ev_now E) u e b of
                     Inl reason \<Rightarrow> respond i (Submit_sm_resp seq reason None) s
                   | Inr m \<Rightarrow> route_submission E i (\<lambda>mid. Submit_sm_resp seq SMPP_ESME_ROK (Some mid)) RCb_submit_sm m s)) }) });
     smpp_queued_pdu_destroy p s }"

definition smpp_queues_handle_data_sm :: "'d env \<Rightarrow> nat \<Rightarrow> nat \<Rightarrow> int \<Rightarrow> data_sm_body \<Rightarrow> 'd server \<Rightarrow> 'd server option" where
  "smpp_queues_handle_data_sm E p i seq b s = do {
     e \<leftarrow> get_esme s i;
     s \<leftarrow> (if \<not> can_transmit (e_bind_type e) then respond i (Data_sm_resp seq SMPP_ESME_RINVBNDSTS None) s
          else do {
            g \<leftarrow> get_global s i;
            (if throttled E g then respond i (Data_sm_resp seq SMPP_ESME_RTHROTTLED None) s
             else do {
               s \<leftarrow> smpp_esme_inbound_load_increase E i s;
               let (u, s) = fresh_uuid s;
               (case smpp_data_sm_to_msg (ev_gw E) (ev_now E) u e b of
                  Inl reason \<Rightarrow> respond i (Data_sm_resp seq reason None) s
                | Inr m \<Rightarrow> route_submission E i (\<lambda>mid. Data_sm_resp seq SMPP_ESME_ROK (Some mid)) RCb_data_sm m s) }) });
     smpp_queued_pdu_destroy p s }"

section \<open>The inbound thread\<close>

definition dispatch_inbound :: "'d env \<Rightarrow> nat \<Rightarrow> nat \<Rightarrow> pdu \<Rightarrow> 'd server \<Rightarrow> 'd server option" where
  "dispatch_inbound E p i pd s =
     (case pd of
        Bind_transmitter _ _ \<Rightarrow> smpp_queues_handle_bind_pdu E p i pd s
      | Bind_transceiver _ _ \<Rightarrow> smpp_queues_handle_bind_pdu E p i pd s
      | Bind_receiver _ _ \<Rightarrow> smpp_queues_handle_bind_pdu E p i pd s
      | Enquire_link n \<Rightarrow> smpp_queues_handle_enquire_link p i n s
      | Unbind n \<Rightarrow> smpp_queues_handle_unbind p i n s
      | Submit_sm n b \<Rightarrow> smpp_queues_handle_submit_sm E p i n b s
      | Data_sm n b \<Rightarrow> smpp_queues_handle_data_sm E p i n b s
      | Deliver_sm_resp n st \<Rightarrow> do {
          s \<leftarrow> smpp_queues_process_ack E i n st s;
          smpp_queued_pdu_destroy p s }
      | _ \<Rightarrow> smpp_queued_pdu_destroy p s)"

text \<open>One iteration; the queue hands out any of its entries (its comparison is constant).\<close>

definition smpp_queues_inbound_thread :: "'d env \<Rightarrow> nat \<Rightarrow> 'd server \<Rightarrow> 'd server option" where
  "smpp_queues_inbound_thread E n s =
     (if n < length (s_inbound_queue s) then do {
        let p = fst (s_inbound_queue s ! n);
        let s = s\<lparr>s_inbound_queue := take n (s_inbound_queue s) @ drop (Suc n) (s_inbound_queue s)\<rparr>;
        q \<leftarrow> get_pdu s p;
        i \<leftarrow> q_esme q;
        pd \<leftarrow> q_pdu q;
        s \<leftarrow> upd_esme i (\<lambda>e. e\<lparr>e_time_last_pdu := ev_now E, e_time_last_queue_process := ev_now E,
                              e_inbound_queued := e_inbound_queued e - 1,
                              e_inbound_processed := e_inbound_processed e + 1\<rparr>) s;
        dispatch_inbound E p i pd s }
      else Some s)"

section \<open>The outbound thread\<close>

definition smpp_queues_send_pdu :: "'d env \<Rightarrow> nat \<Rightarrow> pdu \<Rightarrow> 'd server \<Rightarrow> 'd server option" where
  "smpp_queues_send_pdu E i pd s = do {
     e \<leftarrow> get_esme s i;
     (case gw_pdu_pack (ev_gw E) (e_system_id e) pd of
        None \<Rightarrow> Some s
      | Some os \<Rightarrow> if e_conn e then Some (s\<lparr>s_written := s_written s @ [(i, pd)]\<rparr>) else None) }"

definition log_response :: "'d env \<Rightarrow> esme \<Rightarrow> queued_pdu \<Rightarrow> pdu \<Rightarrow> 'd server \<Rightarrow> 'd server" where
  "log_response E e q pd s =
     (case pd of
        Submit_sm_resp _ st mid \<Rightarrow>
          s\<lparr>s_log := s_log s @ [smpp_pdu_log_submit_sm_resp (ev_gw E) (ev_now E) e mid st (q_msg q)]\<rparr>
      | _ \<Rightarrow> s)"

definition smpp_queues_outbound_thread :: "'d env \<Rightarrow> nat \<Rightarrow> 'd server \<Rightarrow> 'd server option" where
  "smpp_queues_outbound_thread E n s =
     (if n < length (s_outbound_queue s) then do {
        let p = fst (s_outbound_queue s ! n);
        let s = s\<lparr>s_outbound_queue := take n (s_outbound_queue s) @ drop (Suc n) (s_outbound_queue s)\<rparr>;
        q \<leftarrow> get_pdu s p;
        i \<leftarrow> q_esme q;
        s \<leftarrow> upd_esme i (\<lambda>e. e\<lparr>e_time_last_queue_process := ev_now E, e_outbound_queued := e_outbound_queued e - 1,
                              e_outbound_processed := e_outbound_processed e + 1\<rparr>) s;
        e \<leftarrow> get_esme s i;
        (if e_connected e then do {
           pd \<leftarrow> q_pdu q;
           s \<leftarrow> (if q_disconnect q then smpp_esme_stop_listening i s else Some s);
           let s = (if q_callback q \<noteq> None then put_pdu p (q\<lparr>q_time_sent := ev_now E\<rparr>) s else s);
           let s = log_response E e q pd s;
           s \<leftarrow> smpp_queues_send_pdu E i pd s;
           s \<leftarrow> (if q_disconnect q \<and> \<not> e_authenticated e then smpp_esme_cleanup i s else Some s);
           (if q_callback q = None then smpp_queued_pdu_destroy p s else Some s) }
         else (if q_callback q = None then smpp_queued_pdu_destroy p s else Some s)) }
      else Some s)"

section \<open>The simulation thread\<close>

definition smpp_queues_simulation_thread :: "'d env \<Rightarrow> nat \<Rightarrow> 'd server \<Rightarrow> 'd server option" where
  "smpp_queues_simulation_thread E n s =
     (if n < length (s_simulation_queue s) then do {
        let p = s_simulation_queue s ! n;
        let s = s\<lparr>s_simulation_queue := take n (s_simulation_queue s) @ drop (Suc n) (s_simulation_queue s)\<rparr>;
        q \<leftarrow> get_pdu s p;
        pd \<leftarrow> q_pdu q;
        (if is_deliver_sm pd then do {
           r \<leftarrow> smpp_esme_find_best_receiver s (q_system_id q);
           let q = q\<lparr>q_callback := Some Cb_deliver_sm_resp\<rparr>;
           (case r of
              Some i \<Rightarrow> do {
                e \<leftarrow> get_esme s i;
                let k = e_sequence_number e;
                let s = put_esme i (e\<lparr>e_sequence_number := k + 1\<rparr>) s;
                let q = q\<lparr>q_pdu := Some (set_deliver_seq (int k) pd), q_sequence := int k, q_esme := Some i,
                           q_id := Some (show_nat k)\<rparr>;
                smpp_queues_add_outbound p (put_pdu p q s) }
            | None \<Rightarrow>
                (if c_database_enable_queue (s_cfg s) then
                   (let (ok, s) = smpp_database_add_pdu E s q in
                    run_pdu_callback E p (if ok then SMPP_ESME_COMMAND_STATUS_QUEUED else SMPP_ESME_COMMAND_STATUS_QUEUE_ERROR)
                      (put_pdu p q s))
                 else run_pdu_callback E p SMPP_ESME_RDELIVERYFAILURE (put_pdu p q s))) }
         else Some s) }
      else Some s)"

end
