(* ===== verification/Cleanup.thy ===== *)
theory Cleanup
  imports Handlers
begin

text \<open>
  smpp_esme.c: one round of the cleanup thread (time-outs of open acknowledgements, keep-alive,
  removal of dead binds, destruction of idle ESMEs) and the administrator's unbind command.
\<close>

section \<open>Binds\<close>

fun expire_acks :: "'d env \<Rightarrow> nat \<Rightarrow> octstr list \<Rightarrow> 'd server \<Rightarrow> 'd server option" where
  "expire_acks E i [] s = Some s"
| "expire_acks E i (k # ks) s = do {
     e \<leftarrow> get_esme s i;
     s \<leftarrow> (case dict_get (e_open_acks e) k of
            None \<Rightarrow> Some s
          | Some p \<Rightarrow> do {
              q \<leftarrow> get_pdu s p;
              (if 0 < q_time_sent q \<and> e_wait_ack_time e < ev_now E - q_time_sent q then do {
                 s \<leftarrow> upd_esme i (\<lambda>e. e\<lparr>e_open_acks := dict_remove (e_open_acks e) k\<rparr>) s;
                 run_pdu_callback E p SMPP_ESME_COMMAND_STATUS_WAIT_ACK_TIMEOUT (put_pdu p (q\<lparr>q_server := True\<rparr>) s) }
               else Some s) });
     expire_acks E i ks s }"

definition cleanup_bind :: "'d env \<Rightarrow> nat \<Rightarrow> 'd server \<Rightarrow> (bool \<times> 'd server) option" where
  "cleanup_bind E i s = do {
     e \<leftarrow> get_esme s i;
     (if \<not> e_connected e then do { s \<leftarrow> smpp_esme_cleanup i s; Some (False, s) }
      else do {
        let diff = ev_now E - e_time_last_pdu e;
        s \<leftarrow> expire_acks E i (dict_keys (e_open_acks e)) s;
        (if e_enquire_link_interval e < diff then
           (if 2 < diff div e_enquire_link_interval e then do { s \<leftarrow> smpp_esme_cleanup i s; Some (False, s) }
            else do { s \<leftarrow> smpp_queues_send_enquire_link i s; Some (True, s) })
         else Some (True, s)) }) }"

fun cleanup_binds :: "'d env \<Rightarrow> nat list \<Rightarrow> 'd server \<Rightarrow> (nat list \<times> 'd server) option" where
  "cleanup_binds E [] s = Some ([], s)"
| "cleanup_binds E (i # is) s = do {
     (alive, s) \<leftarrow> cleanup_bind E i s;
     (rest, s) \<leftarrow> cleanup_binds E is s;
     Some (if alive then i # rest else rest, s) }"

fun cleanup_globals :: "'d env \<Rightarrow> octstr list \<Rightarrow> 'd server \<Rightarrow> 'd server option" where
  "cleanup_globals E [] s = Some s"
| "cleanup_globals E (k # ks) s = do {
     g \<leftarrow> dict_get (s_esmes s) k;
     (replace, s) \<leftarrow> cleanup_binds E (g_binds g) s;
     g \<leftarrow> dict_get (s_esmes s) k;
     cleanup_globals E ks (s\<lparr>s_esmes := dict_put (s_esmes s) k (g\<lparr>g_binds := replace\<rparr>)\<rparr>) }"

section \<open>Destruction\<close>

definition queue_depth :: "esme \<Rightarrow> nat" where
  "queue_depth e = e_inbound_queued e + e_outbound_queued e + e_pending_routing e"

definition destroyable :: "'d env \<Rightarrow> esme \<Rightarrow> bool" where
  "destroyable E e \<longleftrightarrow> queue_depth e = 0 \<and> SMPP_ESME_CLEANUP_QUEUE_DELAY < ev_now E - e_time_last_queue_process e"

fun destroy_idle :: "'d env \<Rightarrow> nat list \<Rightarrow> 'd server \<Rightarrow> (nat list \<times> 'd server) option" where
  "destroy_idle E [] s = Some ([], s)"
| "destroy_idle E (i # is) s = do {
     e \<leftarrow> get_esme s i;
     (if destroyable E e then do {
        s \<leftarrow> smpp_esme_destroy E i s;
        destroy_idle E is s }
      else do {
        (rest, s) \<leftarrow> destroy_idle E is s;
        Some (i # rest, s) }) }"

definition smpp_esme_cleanup_thread :: "'d env \<Rightarrow> 'd server \<Rightarrow> 'd server option" where
  "smpp_esme_cleanup_thread E s = do {
     s \<leftarrow> cleanup_globals E (dict_keys (s_esmes s)) s;
     (replace, s) \<leftarrow> destroy_idle E (s_cleanup_queue s) s;
     Some (s\<lparr>s_cleanup_queue := replace\<rparr>) }"

section \<open>The unbind command\<close>

abbreviation (input) "HTTP_OK \<equiv> (200 :: int)"
abbreviation (input) "HTTP_NOT_FOUND \<equiv> (404 :: int)"
abbreviation (input) "HTTP_NOT_ACCEPTABLE \<equiv> (406 :: int)"

definition send_unbind :: "nat \<Rightarrow> 'd server \<Rightarrow> 'd server option" where
  "send_unbind i s = do {
     e \<leftarrow> get_esme s i;
     let n = e_sequence_number e;
     let s = put_esme i (e\<lparr>e_sequence_number := n + 1\<rparr>) s;
     let (p, s) = alloc_pdu ((smpp_queued_pdu_create_quick i e (Unbind (int n)))\<lparr>q_disconnect := True\<rparr>) s;
     smpp_queues_add_outbound p s }"

fun send_unbinds :: "nat list \<Rightarrow> 'd server \<Rightarrow> 'd server option" where
  "send_unbinds [] s = Some s"
| "send_unbinds (i # is) s = do { s \<leftarrow> send_unbind i s; send_unbinds is s }"

definition unbind_targets :: "esme_global \<Rightarrow> octstr option \<Rightarrow> nat list" where
  "unbind_targets g bind_id =
     (if 0 < octstr_len bind_id then take 1 (filter (\<lambda>i. int i = atol (the bind_id)) (g_binds g)) else g_binds g)"

datatype http_content = HTTP_CONTENT_TYPE_PLAIN | HTTP_CONTENT_TYPE_XML

definition command_text :: "http_content \<Rightarrow> octstr \<Rightarrow> octstr" where
  "command_text ct msg =
     (if ct = HTTP_CONTENT_TYPE_PLAIN then msg @ [CHR 0x0A] else ''<status>'' @ msg @ ''</status>'')"

definition smpp_esme_unbind_command ::
  "octstr option \<Rightarrow> octstr option \<Rightarrow> http_content \<Rightarrow> 'd server \<Rightarrow> ((int \<times> octstr) \<times> 'd server) option" where
  "smpp_esme_unbind_command sid bind_id ct s =
     (if octstr_len sid = 0 then
        Some ((HTTP_NOT_ACCEPTABLE,
          command_text ct (''You must specify a '' @ [CHR 0x27] @ ''system-id'' @ [CHR 0x27] @ '' parameter'')), s)
      else
        let key = octstr_lower (the sid) in
        (case dict_get (s_esmes s) key of
           None \<Rightarrow> Some ((HTTP_NOT_FOUND,
             command_text ct (''No such system-id '' @ [CHR 0x27] @ key @ [CHR 0x27] @ '' found'')), s)
         | Some g \<Rightarrow> do {
             s \<leftarrow> send_unbinds (unbind_targets g bind_id) s;
             Some ((HTTP_OK, command_text ct (show_nat (length (unbind_targets g bind_id)) @ '' binds disconnected'')), s) }))"

end
