(* ===== verification/Boxes.thy ===== *)
theory Boxes
  imports Handlers
begin

text \<open>
  smpp_bearerbox.c: one iteration of the threads of a bearerbox connection (sending, receiving,
  reconnecting) and of the two threads that bring stored messages back (smpp_bearerbox.c for
  messages to and from bearerboxes, smpp_queues.c and smpp_esme.c for deliveries to ESMEs).
\<close>

section \<open>Sending\<close>

definition box_track :: "bearerbox_msg \<Rightarrow> bearerbox \<Rightarrow> bearerbox" where
  "box_track bm x = x\<lparr>bb_open_acks := map_option (\<lambda>d. dict_put d (bm_id bm) bm) (bb_open_acks x)\<rparr>"

definition box_untrack :: "octstr \<Rightarrow> bearerbox \<Rightarrow> bearerbox" where
  "box_untrack k x = x\<lparr>bb_open_acks := map_option (\<lambda>d. dict_remove d k) (bb_open_acks x)\<rparr>"

definition smpp_bearerbox_outbound_thread :: "'d env \<Rightarrow> nat \<Rightarrow> nat \<Rightarrow> 'd server \<Rightarrow> 'd server option" where
  "smpp_bearerbox_outbound_thread E b n s = do {
     x \<leftarrow> get_box s b;
     (if smpp_bearerbox_online x \<and> n < length (s_bb_queue s) then do {
        let bm = s_bb_queue s ! n;
        let s = s\<lparr>s_bb_queue := take n (s_bb_queue s) @ drop (Suc n) (s_bb_queue s)\<rparr>;
        (if bb_connection x then do {
           let bm = bm\<lparr>bm_msg := (bm_msg bm)\<lparr>boxc_id := bb_id x\<rparr>\<rparr>;
           (if ev_bb_write E b then
              upd_box b (box_track bm) (s\<lparr>s_bb_sent := s_bb_sent s @ [(b, Msg_sms (bm_msg bm))]\<rparr>)
            else do {
              s \<leftarrow> upd_box b (\<lambda>x. (box_untrack (bm_id bm) x)\<lparr>bb_alive := False\<rparr>) s;
              smpp_bearerbox_add_to_queue E bm s }) }
         else smpp_bearerbox_add_to_queue E bm s) }
      else Some s) }"

section \<open>Connecting\<close>

fun fail_open_acks :: "'d env \<Rightarrow> bearerbox_msg list \<Rightarrow> 'd server \<Rightarrow> 'd server option" where
  "fail_open_acks E [] s = Some s"
| "fail_open_acks E (bm # bms) s = do {
     s \<leftarrow> run_bb_callback E (bm_callback bm) SMPP_ESME_RSYSERR s;
     fail_open_acks E bms s }"

definition smpp_bearerbox_identify :: "'d env \<Rightarrow> nat \<Rightarrow> 'd server \<Rightarrow> (bool \<times> 'd server) option" where
  "smpp_bearerbox_identify E b s =
     (if ev_bb_write E b then do {
        s \<leftarrow> upd_box b (\<lambda>x. x\<lparr>bb_last_msg := ev_now E\<rparr>) (s\<lparr>s_bb_sent := s_bb_sent s @ [(b, Msg_admin cmd_identify)]\<rparr>);
        Some (True, s) }
      else Some (False, s))"

text \<open>\<open>conn_ok\<close> is the outcome of the connection attempt.\<close>

definition box_reconnect :: "'d env \<Rightarrow> nat \<Rightarrow> bool \<Rightarrow> 'd server \<Rightarrow> 'd server option" where
  "box_reconnect E b conn_ok s = do {
     x \<leftarrow> get_box s b;
     (if smpp_bearerbox_online x then Some s
      else do {
        s \<leftarrow> upd_box b (\<lambda>x. x\<lparr>bb_open_acks := Some []\<rparr>) s;
        s \<leftarrow> fail_open_acks E (case bb_open_acks x of None \<Rightarrow> [] | Some d \<Rightarrow> map snd d) s;
        s \<leftarrow> upd_box b (\<lambda>x. x\<lparr>bb_connection := conn_ok\<rparr>) s;
        (if conn_ok then do {
           (ok, s) \<leftarrow> smpp_bearerbox_identify E b s;
           (if ok then upd_box b (smpp_bearerbox_set_state True) s else Some s) }
         else Some s) }) }"

section \<open>Receiving\<close>

definition nack_status :: "int \<Rightarrow> command_status" where
  "nack_status nack =
     (if nack = ack_buffered \<or> nack = ack_success then 0
      else if nack = ack_failed then SMPP_ESME_RSUBMITFAIL
      else SMPP_ESME_RSYSERR)"

definition receive_ack :: "'d env \<Rightarrow> nat \<Rightarrow> uuid \<Rightarrow> int \<Rightarrow> 'd server \<Rightarrow> 'd server option" where
  "receive_ack E b u nack s = do {
     x \<leftarrow> get_box s b;
     let k = gw_uuid_unparse (ev_gw E) u;
     d \<leftarrow> bb_open_acks x;
     (case dict_get d k of
        None \<Rightarrow> Some s
      | Some bm \<Rightarrow> do {
          s \<leftarrow> upd_box b (box_untrack k) s;
          run_bb_callback E (bm_callback bm) (nack_status nack) s }) }"

definition receive_report :: "'d env \<Rightarrow> nat \<Rightarrow> sms \<Rightarrow> 'd server \<Rightarrow> 'd server option" where
  "receive_report E b m s =
     (let ack_id = gw_uuid_unparse (ev_gw E) (sms_id m);
          ack = (\<lambda>st s. map_option snd (smpp_bearerbox_acknowledge E (Some b) (Some ack_id) st s));
          sid = smpp_pdu_get_system_id_from_dlr_url (the (dlr_url m))
      in do {
        r \<leftarrow> smpp_esme_find_best_receiver s sid;
        (case r of
           Some i \<Rightarrow> do {
             (ps, s) \<leftarrow> msg_to_pdu_for E i m s;
             (case ps of
                Some ds \<Rightarrow> queue_deliveries i
                  (smpp_queued_pdu_create\<lparr>q_bearerbox := Some b, q_bearerbox_id := Some ack_id\<rparr>) ds s
              | None \<Rightarrow> ack ack_success s) }
         | None \<Rightarrow>
             (if c_database_enable_queue (s_cfg s) then
                (if 0 < octstr_len sid then
                   (let (ok, s) = smpp_database_add_message E s m in ack (if ok then ack_success else ack_failed) s)
                 else ack ack_failed s)
              else ack ack_failed_tmp s)) })"

definition smpp_bearerbox_inbound_thread :: "'d env \<Rightarrow> nat \<Rightarrow> msg \<Rightarrow> 'd server \<Rightarrow> 'd server option" where
  "smpp_bearerbox_inbound_thread E b msg s =
     (case msg of
        Msg_ack u nack \<Rightarrow> receive_ack E b u nack s
      | Msg_admin cmd \<Rightarrow>
          (if cmd = cmd_shutdown \<or> cmd = cmd_restart then upd_box b (smpp_bearerbox_set_state False) s else Some s)
      | Msg_sms m \<Rightarrow>
          (if sms_type m = report_mo \<and> 0 < octstr_len (dlr_url m) then receive_report E b m s
           else if sms_type m = mo
           then smpp_route_message E SMPP_ROUTE_DIRECTION_INBOUND (smsc_id m) None m (RCb_bearerbox b m) s
           else map_option snd (smpp_bearerbox_acknowledge E (Some b)
                  (Some (gw_uuid_unparse (ev_gw E) (sms_id m))) ack_failed s))
      | _ \<Rightarrow> Some s)"

abbreviation (input) "HEARTBEAT_INTERVAL \<equiv> (10 :: int)"

definition box_idle :: "'d env \<Rightarrow> nat \<Rightarrow> 'd server \<Rightarrow> 'd server option" where
  "box_idle E b s = do {
     x \<leftarrow> get_box s b;
     (if HEARTBEAT_INTERVAL < ev_now E - bb_last_msg x
      then map_option snd (smpp_bearerbox_deliver E b Msg_heartbeat s) else Some s) }"

definition box_broken :: "nat \<Rightarrow> 'd server \<Rightarrow> 'd server option" where
  "box_broken b s = upd_box b (smpp_bearerbox_set_state False) s"

section \<open>Stored messages back to the bearerbox and to the router\<close>

fun requeue_mt :: "'d env \<Rightarrow> database_msg list \<Rightarrow> 'd server \<Rightarrow> 'd server option" where
  "requeue_mt E [] s = Some s"
| "requeue_mt E (dm # dms) s = do {
     m \<leftarrow> dm_msg dm;
     requeue_mt E dms
       (if sms_type m = mt_push
        then s\<lparr>s_bb_queue := s_bb_queue s @ [smpp_bearerbox_msg_create (ev_gw E) m (BCb_requeue_result dm)]\<rparr>
        else snd (smpp_database_remove E s (dm_global_id dm) False)) }"

fun requeue_mo :: "'d env \<Rightarrow> database_msg list \<Rightarrow> 'd server \<Rightarrow> 'd server option" where
  "requeue_mo E [] s = Some s"
| "requeue_mo E (dm # dms) s = do {
     m \<leftarrow> dm_msg dm;
     s \<leftarrow> (if sms_type m = mo
          then smpp_route_message E SMPP_ROUTE_DIRECTION_INBOUND (smsc_id m) None m (RCb_requeue dm) s
          else Some (snd (smpp_database_remove E s (dm_global_id dm) False)));
     requeue_mo E dms s }"

definition smpp_bearerbox_requeue_thread :: "'d env \<Rightarrow> 'd server \<Rightarrow> 'd server option" where
  "smpp_bearerbox_requeue_thread E s = do {
     let online = some_bearerbox_online s;
     s \<leftarrow> (if online \<and> (\<not> c_database_store_primary (s_cfg s) \<or> c_database_enable_queue (s_cfg s))
          then (let (stored, s) = smpp_database_get_bearerbox_mt_stored E s mt_push None 0 in requeue_mt E stored s)
          else Some s);
     (if online \<or> c_database_store_primary (s_cfg s)
      then (let (stored, s) = smpp_database_get_stored E s mo None 0 in requeue_mo E stored s)
      else Some s) }"

section \<open>Stored deliveries back to the ESMEs\<close>

text \<open>The PDUs of one stored message, as get_queued builds them; None for a message that cannot be converted.\<close>

definition stored_pdus :: "'d env \<Rightarrow> nat \<Rightarrow> bool \<Rightarrow> database_msg \<Rightarrow> 'd server \<Rightarrow> (queued_pdu list option \<times> 'd server) option" where
  "stored_pdus E i from_dlr dm s = do {
     m \<leftarrow> dm_msg dm;
     e \<leftarrow> get_esme s i;
     (ps, s) \<leftarrow> msg_to_pdu_for E i m s;
     Some (map_option (map (\<lambda>d. smpp_queued_pdu_create
       \<lparr>q_pdu := Some d, q_server := True, q_sequence := int (dm_global_id dm), q_from_dlr_table := from_dlr,
        q_system_id := e_system_id e, q_bearerbox_id := Some (show_nat (dm_global_id dm)), q_esme := Some i,
        q_callback := Some Cb_db_queue\<rparr>)) ps, s) }"

fun collect_stored :: "'d env \<Rightarrow> nat \<Rightarrow> bool \<Rightarrow> database_msg list \<Rightarrow> 'd server \<Rightarrow> (queued_pdu list \<times> 'd server) option" where
  "collect_stored E i from_dlr [] s = Some ([], s)"
| "collect_stored E i from_dlr (dm # dms) s = do {
     (qs, s) \<leftarrow> stored_pdus E i from_dlr dm s;
     let s = (if qs = None
              then snd (if from_dlr then smpp_database_remove_dlr E s (dm_global_id dm)
                        else smpp_database_remove E s (dm_global_id dm) False)
              else s);
     (rest, s) \<leftarrow> collect_stored E i from_dlr dms s;
     Some (case_option [] id qs @ rest, s) }"

definition queued_for :: "'d env \<Rightarrow> nat \<Rightarrow> 'd server \<Rightarrow> (queued_pdu list \<times> 'd server) option" where
  "queued_for E i s = do {
     e \<leftarrow> get_esme s i;
     let limt = open_ack_space e;
     (if 0 < limt then do {
        let (pdus, s) = smpp_database_get_stored_pdu E s (e_system_id e) limt;
        let limt = limt - int (length pdus);
        (if 0 < limt then do {
           let (dlrs, s) = smpp_database_get_dlrs E s (e_system_id e) limt;
           let (msgs, s) = smpp_database_get_stored E s report_mo (e_system_id e) (limt - int (length dlrs));
           (ds, s) \<leftarrow> collect_stored E i True dlrs s;
           (ms, s) \<leftarrow> collect_stored E i False msgs s;
           Some (pdus @ ds @ ms, s) }
         else Some (pdus, s)) }
      else Some ([], s)) }"

fun queued_for_all :: "'d env \<Rightarrow> nat list \<Rightarrow> 'd server \<Rightarrow> (queued_pdu list \<times> 'd server) option" where
  "queued_for_all E [] s = Some ([], s)"
| "queued_for_all E (i # is) s = do {
     (qs, s) \<leftarrow> queued_for E i s;
     (rest, s) \<leftarrow> queued_for_all E is s;
     Some (qs @ rest, s) }"

definition smpp_esme_global_get_queued :: "'d env \<Rightarrow> 'd server \<Rightarrow> (queued_pdu list \<times> 'd server) option" where
  "smpp_esme_global_get_queued E s = do {
     (is, s) \<leftarrow> smpp_esme_global_get_readers E True s;
     queued_for_all E is s }"

definition requeue_delivery :: "'d env \<Rightarrow> queued_pdu \<Rightarrow> 'd server \<Rightarrow> 'd server option" where
  "requeue_delivery E q s = do {
     r \<leftarrow> smpp_esme_find_best_receiver s (q_system_id q);
     (case r of
        Some i \<Rightarrow> do {
          e \<leftarrow> get_esme s i;
          pd \<leftarrow> q_pdu q;
          let n = e_sequence_number e;
          let q = q\<lparr>q_esme := Some i\<rparr>;
          let (q, s) = (if is_deliver_sm pd
                        then (q\<lparr>q_pdu := Some (set_deliver_seq (int n) pd), q_id := Some (show_nat n)\<rparr>,
                              put_esme i (e\<lparr>e_sequence_number := n + 1\<rparr>) s)
                        else (q, s));
          let (p, s) = alloc_pdu q s;
          smpp_queues_add_outbound p s }
      | None \<Rightarrow>
          (let (p, s) = alloc_pdu q s in run_pdu_callback E p SMPP_ESME_RMSGQFUL s)) }"

fun requeue_deliveries :: "'d env \<Rightarrow> queued_pdu list \<Rightarrow> 'd server \<Rightarrow> 'd server option" where
  "requeue_deliveries E [] s = Some s"
| "requeue_deliveries E (q # qs) s = do { s \<leftarrow> requeue_delivery E q s; requeue_deliveries E qs s }"

definition smpp_queues_requeue_thread :: "'d env \<Rightarrow> 'd server \<Rightarrow> 'd server option" where
  "smpp_queues_requeue_thread E s = do {
     (qs, s) \<leftarrow> smpp_esme_global_get_queued E s;
     requeue_deliveries E qs s }"

end
