(* ===== verification/Invariant.thy ===== *)
theory Invariant
  imports Cleanup Boxes
begin

text \<open>
  The invariant of the server and its preservation by the primitive operations on the heaps
  and queues. A claim (p, i) is a place that refers to the queued PDU p on behalf of the ESME i:
  an entry of a queue, an open acknowledgement, or a request the router has not answered.
\<close>

section \<open>The invariant\<close>

definition cb_claim :: "route_callback \<Rightarrow> (nat \<times> nat) option" where
  "cb_claim cb = (case cb of RCb_submit_sm p i \<Rightarrow> Some (p, i) | RCb_data_sm p i \<Rightarrow> Some (p, i) | _ \<Rightarrow> None)"

definition pending_claims :: "'d server \<Rightarrow> (nat \<times> nat) list" where
  "pending_claims s = List.map_filter (cb_claim \<circ> fst) (s_pending_routes s)"

definition ack_claim :: "'d server \<Rightarrow> nat \<Rightarrow> nat \<Rightarrow> bool" where
  "ack_claim s p i \<longleftrightarrow> (\<exists>e k. get_esme s i = Some e \<and> dict_get (e_open_acks e) k = Some p)"

definition queue_claims :: "'d server \<Rightarrow> (nat \<times> nat) set" where
  "queue_claims s = set (s_outbound_queue s) \<union> set (s_inbound_queue s) \<union> set (pending_claims s)"

definition claim :: "'d server \<Rightarrow> nat \<Rightarrow> nat \<Rightarrow> bool" where
  "claim s p i \<longleftrightarrow> (p, i) \<in> queue_claims s \<or> ack_claim s p i"

definition entries_of :: "nat \<Rightarrow> (nat \<times> nat) list \<Rightarrow> nat" where
  "entries_of i xs = length (filter (\<lambda>x. snd x = i) xs)"

definition pdus_ok :: "'d server \<Rightarrow> bool" where
  "pdus_ok s \<longleftrightarrow> (\<forall>p q. get_pdu s p = Some q \<longrightarrow> p < s_next_pdu s)
     \<and> (\<forall>p i. claim s p i \<longrightarrow> p < s_next_pdu s \<and> (\<forall>q. get_pdu s p = Some q \<longrightarrow> q_esme q = Some i))"

definition simulation_ok :: "'d server \<Rightarrow> bool" where
  "simulation_ok s \<longleftrightarrow> distinct (s_simulation_queue s)
     \<and> (\<forall>p \<in> set (s_simulation_queue s). p < s_next_pdu s \<and> (\<forall>i. \<not> claim s p i)
          \<and> (\<forall>q. get_pdu s p = Some q \<longrightarrow> q_esme q = None))"

definition esmes_ok :: "'d server \<Rightarrow> bool" where
  "esmes_ok s \<longleftrightarrow> (\<forall>p i. (p, i) \<in> queue_claims s \<longrightarrow> get_esme s i \<noteq> None)
     \<and> (\<forall>i e. get_esme s i = Some e \<longrightarrow> i < s_esme_counter s
          \<and> e_outbound_queued e = entries_of i (s_outbound_queue s)
          \<and> e_inbound_queued e = entries_of i (s_inbound_queue s)
          \<and> entries_of i (pending_claims s) \<le> e_pending_routing e)"

definition binds_ok :: "'d server \<Rightarrow> bool" where
  "binds_ok s \<longleftrightarrow> (\<forall>k g. dict_get (s_esmes s) k = Some g \<longrightarrow> distinct (g_binds g)
     \<and> (\<forall>i \<in> set (g_binds g). \<exists>e. get_esme s i = Some e \<and> e_authenticated e \<and> e_global e = Some k))"

text \<open>D are the ESMEs the current round of the cleanup thread has destroyed; it is empty between rounds.\<close>

definition cleanup_ok :: "nat set \<Rightarrow> 'd server \<Rightarrow> bool" where
  "cleanup_ok D s \<longleftrightarrow> distinct (s_cleanup_queue s)
     \<and> (\<forall>i \<in> set (s_cleanup_queue s). i \<in> D \<or> (\<exists>e. get_esme s i = Some e \<and> \<not> e_connected e))"

definition server_inv :: "nat set \<Rightarrow> 'd server \<Rightarrow> bool" where
  "server_inv D s \<longleftrightarrow> pdus_ok s \<and> simulation_ok s \<and> esmes_ok s \<and> binds_ok s \<and> cleanup_ok D s"

lemmas inv_parts = pdus_ok_def simulation_ok_def esmes_ok_def binds_ok_def cleanup_ok_def
lemmas claim_defs = claim_def queue_claims_def ack_claim_def pending_claims_def

section \<open>Fields the invariant does not read\<close>

lemma server_inv_frame [simp]:
  "server_inv D (s\<lparr>s_db := x1\<rparr>) = server_inv D s"
  "server_inv D (s\<lparr>s_next_uuid := x2\<rparr>) = server_inv D s"
  "server_inv D (s\<lparr>s_inbound_load := x3\<rparr>) = server_inv D s"
  "server_inv D (s\<lparr>s_outbound_load := x4\<rparr>) = server_inv D s"
  "server_inv D (s\<lparr>s_inbound_processed := x5\<rparr>) = server_inv D s"
  "server_inv D (s\<lparr>s_outbound_processed := x6\<rparr>) = server_inv D s"
  "server_inv D (s\<lparr>s_bearerboxes := x7\<rparr>) = server_inv D s"
  "server_inv D (s\<lparr>s_bb_queue := x8\<rparr>) = server_inv D s"
  "server_inv D (s\<lparr>s_outbound_routes := x9\<rparr>) = server_inv D s"
  "server_inv D (s\<lparr>s_inbound_routes := x10\<rparr>) = server_inv D s"
  "server_inv D (s\<lparr>s_ip_blocklist := x11\<rparr>) = server_inv D s"
  "server_inv D (s\<lparr>s_written := x12\<rparr>) = server_inv D s"
  "server_inv D (s\<lparr>s_bb_sent := x13\<rparr>) = server_inv D s"
  "server_inv D (s\<lparr>s_log := x14\<rparr>) = server_inv D s"
  by (simp_all add: server_inv_def inv_parts claim_defs get_esme_def get_pdu_def)

lemma same_but_db_inv: "same_but_db s s' \<Longrightarrow> server_inv D s' = server_inv D s"
  by (auto simp: same_but_db_def)

section \<open>Updates of ESMEs\<close>

text \<open>
  A harmless update keeps the counters and the identity of an ESME, never connects it again, and
  drops open acknowledgements at most.
\<close>

definition harmless :: "esme \<Rightarrow> esme \<Rightarrow> bool" where
  "harmless e e' \<longleftrightarrow> e_outbound_queued e' = e_outbound_queued e \<and> e_inbound_queued e' = e_inbound_queued e
     \<and> e_pending_routing e \<le> e_pending_routing e' \<and> (e_connected e' \<longrightarrow> e_connected e)
     \<and> e_authenticated e' = e_authenticated e \<and> e_global e' = e_global e
     \<and> (\<forall>k p. dict_get (e_open_acks e') k = Some p \<longrightarrow> (\<exists>k'. dict_get (e_open_acks e) k' = Some p))"

lemma ack_claim_put:
  assumes "get_esme s i = Some e"
    and "\<And>k p. dict_get (e_open_acks e') k = Some p \<Longrightarrow> \<exists>k'. dict_get (e_open_acks e) k' = Some p"
    and "ack_claim (put_esme i e' s) p j"
  shows "ack_claim s p j"
  using assms by (fastforce simp: ack_claim_def split: if_splits)

lemma put_esme_fields [simp]:
  "s_outbound_queue (put_esme i e s) = s_outbound_queue s" "s_inbound_queue (put_esme i e s) = s_inbound_queue s"
  "s_simulation_queue (put_esme i e s) = s_simulation_queue s" "s_pending_routes (put_esme i e s) = s_pending_routes s"
  "s_next_pdu (put_esme i e s) = s_next_pdu s" "s_esmes (put_esme i e s) = s_esmes s" "s_cfg (put_esme i e s) = s_cfg s"
  "s_cleanup_queue (put_esme i e s) = s_cleanup_queue s" "s_esme_counter (put_esme i e s) = s_esme_counter s"
  "get_pdu (put_esme i e s) p = get_pdu s p"
  by (simp_all add: put_esme_def get_pdu_def)

lemma put_esme_claims [simp]:
  "pending_claims (put_esme i e s) = pending_claims s" "queue_claims (put_esme i e s) = queue_claims s"
  by (simp_all add: pending_claims_def queue_claims_def)

lemma inv_put_esme:
  assumes "server_inv D s" and "get_esme s i = Some e" and "harmless e e'"
  shows "server_inv D (put_esme i e' s)"
proof -
  have claim: "claim (put_esme i e' s) p j \<Longrightarrow> claim s p j" for p j
    using ack_claim_put [OF assms(2)] assms(3) by (auto simp: claim_def harmless_def)
  have parts: "pdus_ok s" "simulation_ok s" "esmes_ok s" "binds_ok s" "cleanup_ok D s"
    using assms(1) by (auto simp: server_inv_def)
  have "pdus_ok (put_esme i e' s)" using parts(1) by (auto simp: pdus_ok_def dest!: claim)
  moreover have "simulation_ok (put_esme i e' s)" using parts(2) by (auto simp: simulation_ok_def dest!: claim)
  moreover have "esmes_ok (put_esme i e' s)"
    using parts(3) assms(2,3) by (fastforce simp: esmes_ok_def harmless_def)
  moreover have "binds_ok (put_esme i e' s)"
    using parts(4) assms(2,3) by (fastforce simp: binds_ok_def harmless_def)
  moreover have "cleanup_ok D (put_esme i e' s)"
    using parts(5) assms(2,3) by (fastforce simp: cleanup_ok_def harmless_def)
  ultimately show ?thesis by (simp add: server_inv_def)
qed

lemma inv_upd_esme:
  assumes "upd_esme i f s = Some s'" and "server_inv D s" and "\<And>e. get_esme s i = Some e \<Longrightarrow> harmless e (f e)"
  shows "server_inv D s'"
  using assms inv_put_esme by (fastforce simp: upd_esme_def split: Option.bind_splits)

lemma harmless_refl [simp]: "harmless e e"
  by (auto simp: harmless_def)

lemma harmless_remove_ack: "harmless e (e\<lparr>e_open_acks := dict_remove (e_open_acks e) k\<rparr>)"
  by (auto simp: harmless_def split: if_splits)

section \<open>Updates of the table of system ids\<close>

lemma inv_esmes:
  assumes "server_inv D s"
    and "\<And>k g. dict_get d k = Some g \<Longrightarrow> \<exists>g'. dict_get (s_esmes s) k = Some g' \<and> distinct (g_binds g) \<and> set (g_binds g) \<subseteq> set (g_binds g')"
  shows "server_inv D (s\<lparr>s_esmes := d\<rparr>)"
proof -
  have "pdus_ok (s\<lparr>s_esmes := d\<rparr>) = pdus_ok s" "simulation_ok (s\<lparr>s_esmes := d\<rparr>) = simulation_ok s"
    "esmes_ok (s\<lparr>s_esmes := d\<rparr>) = esmes_ok s" "cleanup_ok D (s\<lparr>s_esmes := d\<rparr>) = cleanup_ok D s"
    by (simp_all add: inv_parts claim_defs get_esme_def get_pdu_def)
  moreover have "binds_ok (s\<lparr>s_esmes := d\<rparr>)"
    unfolding binds_ok_def
  proof (intro allI impI)
    fix k g assume g: "dict_get (s_esmes (s\<lparr>s_esmes := d\<rparr>)) k = Some g"
    then obtain g' where "dict_get (s_esmes s) k = Some g'" "distinct (g_binds g)" "set (g_binds g) \<subseteq> set (g_binds g')"
      using assms(2) [of k g] by auto
    with assms(1) show "distinct (g_binds g) \<and> (\<forall>i \<in> set (g_binds g). \<exists>e. get_esme (s\<lparr>s_esmes := d\<rparr>) i = Some e
        \<and> e_authenticated e \<and> e_global e = Some k)"
      by (auto simp: server_inv_def binds_ok_def get_esme_def)
  qed
  ultimately show ?thesis using assms(1) by (simp add: server_inv_def)
qed

lemma inv_distinct_binds: "server_inv D s \<Longrightarrow> dict_get (s_esmes s) k = Some g \<Longrightarrow> distinct (g_binds g)"
  by (auto simp: server_inv_def binds_ok_def)

lemma inv_upd_global:
  assumes "upd_global i f s = Some s'" and "server_inv D s" and "\<And>g. g_binds (f g) = g_binds g"
  shows "server_inv D s'"
proof -
  from assms(1) obtain k g where g: "dict_get (s_esmes s) k = Some g" and s': "s' = s\<lparr>s_esmes := dict_put (s_esmes s) k (f g)\<rparr>"
    by (auto simp: upd_global_def split: Option.bind_splits)
  show ?thesis
    unfolding s' using assms(2) g
    by (rule_tac inv_esmes) (auto simp: assms(3) intro: inv_distinct_binds split: if_splits)
qed

section \<open>Updates of queued PDUs\<close>

lemma put_pdu_fields [simp]:
  "s_outbound_queue (put_pdu p q s) = s_outbound_queue s" "s_inbound_queue (put_pdu p q s) = s_inbound_queue s"
  "s_simulation_queue (put_pdu p q s) = s_simulation_queue s" "s_pending_routes (put_pdu p q s) = s_pending_routes s"
  "s_next_pdu (put_pdu p q s) = s_next_pdu s" "s_esmes (put_pdu p q s) = s_esmes s" "s_cfg (put_pdu p q s) = s_cfg s"
  "s_cleanup_queue (put_pdu p q s) = s_cleanup_queue s" "s_esme_counter (put_pdu p q s) = s_esme_counter s"
  "get_esme (put_pdu p q s) i = get_esme s i"
  by (simp_all add: put_pdu_def get_esme_def)

lemma put_pdu_claims [simp]:
  "claim (put_pdu p q s) = claim s" "queue_claims (put_pdu p q s) = queue_claims s"
  "pending_claims (put_pdu p q s) = pending_claims s"
  by (simp_all add: claim_defs fun_eq_iff)

lemma inv_put_pdu:
  assumes "server_inv D s" and "get_pdu s p = Some q" and "q_esme q' = q_esme q"
  shows "server_inv D (put_pdu p q' s)"
  using assms by (auto simp: server_inv_def inv_parts)

lemma free_pdu_fields:
  assumes "free_pdu p s = Some s'"
  shows "s_outbound_queue s' = s_outbound_queue s" "s_inbound_queue s' = s_inbound_queue s"
    "s_simulation_queue s' = s_simulation_queue s" "s_pending_routes s' = s_pending_routes s"
    "s_next_pdu s' = s_next_pdu s" "s_esmes s' = s_esmes s" "s_cleanup_queue s' = s_cleanup_queue s"
    "s_esme_counter s' = s_esme_counter s" "get_esme s' i = get_esme s i" "s_cfg s' = s_cfg s"
    "get_pdu s' r = (if r = p then None else get_pdu s r)"
  using assms by (auto simp: free_pdu_def get_esme_def get_pdu_def split: Option.bind_splits)

lemma free_pdu_claim: "free_pdu p s = Some s' \<Longrightarrow> claim s' = claim s"
  by (simp add: claim_defs fun_eq_iff free_pdu_fields)

lemma inv_free_pdu:
  assumes "free_pdu p s = Some s'" and "server_inv D s"
  shows "server_inv D s'"
proof -
  have [simp]: "queue_claims s' = queue_claims s" "pending_claims s' = pending_claims s"
    by (simp_all add: queue_claims_def pending_claims_def free_pdu_fields [OF assms(1)])
  show ?thesis
    using assms(2) by (auto simp: server_inv_def inv_parts free_pdu_fields [OF assms(1)] free_pdu_claim [OF assms(1)])
qed

lemma inv_destroy_pdu: "smpp_queued_pdu_destroy p s = Some s' \<Longrightarrow> server_inv D s \<Longrightarrow> server_inv D s'"
  by (simp add: smpp_queued_pdu_destroy_def inv_free_pdu)

lemma alloc_pdu_fields:
  assumes "alloc_pdu q s = (p, s')"
  shows "p = s_next_pdu s" "s_outbound_queue s' = s_outbound_queue s" "s_inbound_queue s' = s_inbound_queue s"
    "s_simulation_queue s' = s_simulation_queue s" "s_pending_routes s' = s_pending_routes s"
    "s_next_pdu s' = s_next_pdu s + 1" "s_esmes s' = s_esmes s" "s_cleanup_queue s' = s_cleanup_queue s"
    "s_esme_counter s' = s_esme_counter s" "get_esme s' i = get_esme s i" "s_cfg s' = s_cfg s"
    "get_pdu s' r = (if r = p then Some q else get_pdu s r)"
  using assms by (auto simp: alloc_pdu_def put_pdu_def get_esme_def get_pdu_def)

lemma inv_alloc_pdu:
  assumes "alloc_pdu q s = (p, s')" and "server_inv D s"
  shows "server_inv D s'"
proof -
  note f = alloc_pdu_fields [OF assms(1)]
  have [simp]: "queue_claims s' = queue_claims s" "pending_claims s' = pending_claims s" "claim s' = claim s"
    by (simp_all add: claim_defs fun_eq_iff f)
  have parts: "pdus_ok s" "simulation_ok s" "esmes_ok s" "binds_ok s" "cleanup_ok D s"
    using assms(2) by (auto simp: server_inv_def)
  have "pdus_ok s'" using parts(1) unfolding pdus_ok_def by (auto simp: f intro: less_SucI)
  moreover have "simulation_ok s'" using parts(2) unfolding simulation_ok_def by (auto simp: f intro: less_SucI)
  moreover have "esmes_ok s'" "binds_ok s'" "cleanup_ok D s'"
    using parts(3,4,5) by (simp_all add: esmes_ok_def binds_ok_def cleanup_ok_def f)
  ultimately show ?thesis by (simp add: server_inv_def)
qed

lemma inv_fresh_no_claim: "server_inv D s \<Longrightarrow> \<not> claim s (s_next_pdu s) i"
  by (auto simp: server_inv_def pdus_ok_def)

section \<open>Queueing\<close>

lemma entries_of_simps [simp]:
  "entries_of i [] = 0" "entries_of i (xs @ ys) = entries_of i xs + entries_of i ys"
  "entries_of i (x # xs) = (if snd x = i then Suc (entries_of i xs) else entries_of i xs)"
  by (simp_all add: entries_of_def)

lemma entries_of_zero: "entries_of i xs = 0 \<longleftrightarrow> (\<forall>p. (p, i) \<notin> set xs)"
  by (auto simp: entries_of_def filter_empty_conv)

lemma inv_enqueue_outbound:
  assumes inv: "server_inv D s" and q: "get_pdu s p = Some q" "q_esme q = Some i" and e: "get_esme s i = Some e"
    and s': "\<And>j. get_esme s' j = (if j = i then Some e' else get_esme s j)" "get_pdu s' = get_pdu s"
      "s_outbound_queue s' = s_outbound_queue s @ [(p, i)]" "s_inbound_queue s' = s_inbound_queue s"
      "s_simulation_queue s' = s_simulation_queue s" "s_pending_routes s' = s_pending_routes s"
      "s_next_pdu s' = s_next_pdu s" "s_esmes s' = s_esmes s" "s_cleanup_queue s' = s_cleanup_queue s"
      "s_esme_counter s' = s_esme_counter s"
    and e': "e_outbound_queued e' = e_outbound_queued e + 1" "e_inbound_queued e' = e_inbound_queued e"
      "e_pending_routing e' = e_pending_routing e" "e_connected e' = e_connected e"
      "e_authenticated e' = e_authenticated e" "e_global e' = e_global e"
      "\<And>k r. dict_get (e_open_acks e') k = Some r \<Longrightarrow> r = p \<or> (\<exists>k'. dict_get (e_open_acks e) k' = Some r)"
  shows "server_inv D s'"
proof -
  have parts: "pdus_ok s" "simulation_ok s" "esmes_ok s" "binds_ok s" "cleanup_ok D s"
    using inv by (auto simp: server_inv_def)
  have ack: "ack_claim s' r j \<Longrightarrow> ack_claim s r j \<or> (r = p \<and> j = i)" for r j
    using e e'(7) unfolding ack_claim_def s'(1) by (cases "j = i") fastforce+
  have qc: "queue_claims s' = insert (p, i) (queue_claims s)" and pc: "pending_claims s' = pending_claims s"
    by (auto simp: queue_claims_def pending_claims_def s')
  have claim: "claim s' r j \<Longrightarrow> claim s r j \<or> (r = p \<and> j = i)" for r j
    using ack [of r j] by (auto simp: claim_def qc)
  have "pdus_ok s'"
    using parts(1) q by (auto simp: pdus_ok_def s' dest!: claim)
  moreover have "simulation_ok s'"
    using parts(2) q by (auto simp: simulation_ok_def s' dest!: claim)
  moreover have "esmes_ok s'"
    using parts(3) e by (auto simp: esmes_ok_def s' qc pc e')
  moreover have "binds_ok s'"
    using parts(4) e unfolding binds_ok_def s' by (metis e'(5,6) option.inject)
  moreover have "cleanup_ok D s'"
    using parts(5) e unfolding cleanup_ok_def s' by (metis e'(4) option.inject)
  ultimately show ?thesis by (simp add: server_inv_def)
qed

lemma inv_add_outbound:
  assumes "smpp_queues_add_outbound p s = Some s'" and "server_inv D s"
  shows "server_inv D s'"
proof -
  from assms(1) obtain q i e where q: "get_pdu s p = Some q" "q_esme q = Some i" and e: "get_esme s i = Some e"
    by (auto simp: smpp_queues_add_outbound_def split: Option.bind_splits)
  let ?key = "case_option [] id (q_id q)"
  show ?thesis
  proof (cases "q_callback q")
    case None
    have s': "s' = (put_esme i (e\<lparr>e_outbound_queued := e_outbound_queued e + 1\<rparr>) s)
        \<lparr>s_outbound_queue := s_outbound_queue s @ [(p, i)]\<rparr>"
      using assms(1) q e None by (simp add: smpp_queues_add_outbound_def upd_esme_def)
    show ?thesis
      by (rule inv_enqueue_outbound [OF assms(2) q e, where e' = "e\<lparr>e_outbound_queued := e_outbound_queued e + 1\<rparr>"])
         (auto simp: s' get_esme_def get_pdu_def put_esme_def)
  next
    case (Some cb)
    obtain s1 where s1: "(case dict_get (e_open_acks e) ?key of None \<Rightarrow> Some s
        | Some other \<Rightarrow> if other = p then Some s else smpp_queued_pdu_destroy other s) = Some s1"
      using assms(1) q e Some by (auto simp: smpp_queues_add_outbound_def Let_def split: Option.bind_splits)
    have inv1: "server_inv D s1"
      using s1 assms(2) by (auto split: option.splits if_splits intro: inv_destroy_pdu)
    have same: "get_esme s1 i = Some e" "get_pdu s1 p = Some q"
      using s1 q e by (auto split: option.splits if_splits simp: smpp_queued_pdu_destroy_def free_pdu_fields)
    let ?e1 = "e\<lparr>e_open_acks := dict_put (e_open_acks e) ?key p\<rparr>"
    let ?e2 = "?e1\<lparr>e_outbound_queued := e_outbound_queued e + 1\<rparr>"
    have s': "s' = (put_esme i ?e2 (put_esme i ?e1 s1))\<lparr>s_outbound_queue := s_outbound_queue s1 @ [(p, i)]\<rparr>"
      using assms(1) q e Some s1 same by (simp add: smpp_queues_add_outbound_def Let_def upd_esme_def)
    show ?thesis
      by (rule inv_enqueue_outbound [OF inv1 same(2) q(2) same(1), where e' = ?e2])
         (auto simp: s' get_esme_def get_pdu_def put_esme_def split: if_splits)
  qed
qed

text \<open>The inbound queue: the new entry refers to a PDU that was just allocated for the ESME.\<close>

lemma inv_add_inbound:
  assumes "smpp_queues_add_inbound p s = Some s'" and "server_inv D s"
  shows "server_inv D s'"
proof -
  from assms(1) obtain q i e where q: "get_pdu s p = Some q" "q_esme q = Some i" and e: "get_esme s i = Some e"
    and s': "s' = (put_esme i (e\<lparr>e_inbound_queued := e_inbound_queued e + 1\<rparr>) s)\<lparr>s_inbound_queue := s_inbound_queue s @ [(p, i)]\<rparr>"
    by (auto simp: smpp_queues_add_inbound_def upd_esme_def split: Option.bind_splits)
  have parts: "pdus_ok s" "simulation_ok s" "esmes_ok s" "binds_ok s" "cleanup_ok D s"
    using assms(2) by (auto simp: server_inv_def)
  have g: "get_esme s' j = (if j = i then Some (e\<lparr>e_inbound_queued := e_inbound_queued e + 1\<rparr>) else get_esme s j)"
    "get_pdu s' r = get_pdu s r" for j r
    by (simp_all add: s' get_esme_def get_pdu_def put_esme_def)
  have f: "s_next_pdu s' = s_next_pdu s" "s_simulation_queue s' = s_simulation_queue s" "s_esmes s' = s_esmes s"
    "s_cleanup_queue s' = s_cleanup_queue s" "s_esme_counter s' = s_esme_counter s"
    "s_outbound_queue s' = s_outbound_queue s" "s_inbound_queue s' = s_inbound_queue s @ [(p, i)]"
    by (simp_all add: s')
  have ack: "ack_claim s' r j = ack_claim s r j" for r j
    unfolding ack_claim_def g using e by auto
  have qc: "queue_claims s' = insert (p, i) (queue_claims s)" and pc: "pending_claims s' = pending_claims s"
    by (auto simp: queue_claims_def pending_claims_def s')
  have claim: "claim s' r j \<Longrightarrow> claim s r j \<or> (r = p \<and> j = i)" for r j
    using ack [of r j] by (auto simp: claim_def qc)
  have "pdus_ok s'" using parts(1) q by (auto simp: pdus_ok_def g f dest!: claim)
  moreover have "simulation_ok s'" using parts(2) q by (auto simp: simulation_ok_def g f dest!: claim)
  moreover have "esmes_ok s'" using parts(3) e unfolding esmes_ok_def g qc pc f by auto
  moreover have "binds_ok s'" using parts(4) e unfolding binds_ok_def g f by fastforce
  moreover have "cleanup_ok D s'"
    using parts(5) e unfolding cleanup_ok_def g f by (auto split: if_splits)
  ultimately show ?thesis by (simp add: server_inv_def)
qed

end
