(* ===== verification/Preservation.thy ===== *)
theory Preservation
  imports Invariant
begin

text \<open>
  Preservation of the invariant by the operations of the server. An operation is calm when it
  leaves the queues alone and updates ESMEs and queued PDUs harmlessly; it is steady when it
  leaves the binds and the cleanup queue alone. Callbacks, counters and acknowledgements are calm.
\<close>

section \<open>Calm operations\<close>

definition same_binds :: "'d server \<Rightarrow> 'd server \<Rightarrow> bool" where
  "same_binds s s' \<longleftrightarrow> (\<forall>k. map_option g_binds (dict_get (s_esmes s') k) = map_option g_binds (dict_get (s_esmes s) k))"

definition calm :: "'d server \<Rightarrow> 'd server \<Rightarrow> bool" where
  "calm s s' \<longleftrightarrow> s_outbound_queue s' = s_outbound_queue s \<and> s_inbound_queue s' = s_inbound_queue s
     \<and> s_simulation_queue s' = s_simulation_queue s \<and> s_pending_routes s' = s_pending_routes s
     \<and> s_next_pdu s' = s_next_pdu s \<and> s_cleanup_queue s' = s_cleanup_queue s
     \<and> s_esme_counter s' = s_esme_counter s \<and> same_binds s s'
     \<and> (\<forall>p q'. get_pdu s' p = Some q' \<longrightarrow> (\<exists>q. get_pdu s p = Some q \<and> q_esme q' = q_esme q))
     \<and> (\<forall>i. rel_option harmless (get_esme s i) (get_esme s' i))"

lemma harmless_trans: "harmless a b \<Longrightarrow> harmless b c \<Longrightarrow> harmless a c"
  unfolding harmless_def by (metis (full_types) le_trans)

lemma same_binds_refl [simp]: "same_binds s s"
  by (simp add: same_binds_def)

lemma calm_refl [simp, intro]: "calm s s"
  by (auto simp: calm_def option.rel_refl)

lemma calm_trans [trans]:
  assumes "calm s t" and "calm t u"
  shows "calm s u"
proof -
  have "rel_option harmless (get_esme s i) (get_esme u i)" for i
    using assms harmless_trans unfolding calm_def by (cases "get_esme t i") (auto simp: option_rel_Some1 option_rel_Some2 dest!: spec [of _ i])
  moreover have "\<exists>q. get_pdu s p = Some q \<and> q_esme q' = q_esme q" if "get_pdu u p = Some q'" for p q'
    using assms that unfolding calm_def by metis
  ultimately show ?thesis using assms unfolding calm_def same_binds_def by simp
qed

lemma calm_frame:
  "calm s (s\<lparr>s_db := x1\<rparr>)" "calm s (s\<lparr>s_next_uuid := x2\<rparr>)" "calm s (s\<lparr>s_inbound_load := x3\<rparr>)"
  "calm s (s\<lparr>s_outbound_load := x4\<rparr>)" "calm s (s\<lparr>s_inbound_processed := x5\<rparr>)"
  "calm s (s\<lparr>s_outbound_processed := x6\<rparr>)" "calm s (s\<lparr>s_bearerboxes := x7\<rparr>)" "calm s (s\<lparr>s_bb_queue := x8\<rparr>)"
  "calm s (s\<lparr>s_outbound_routes := x9\<rparr>)" "calm s (s\<lparr>s_inbound_routes := x10\<rparr>)"
  "calm s (s\<lparr>s_ip_blocklist := x11\<rparr>)" "calm s (s\<lparr>s_written := x12\<rparr>)" "calm s (s\<lparr>s_bb_sent := x13\<rparr>)"
  "calm s (s\<lparr>s_log := x14\<rparr>)"
  by (simp_all add: calm_def same_binds_def get_esme_def get_pdu_def option.rel_refl)

lemma calm_same_but_db: "same_but_db s s' \<Longrightarrow> calm s s'"
  by (auto simp: same_but_db_def calm_frame)

lemmas calm_db [simp, intro] = database_frames [THEN calm_same_but_db]

lemma calm_put_esme: "get_esme s i = Some e \<Longrightarrow> harmless e e' \<Longrightarrow> calm s (put_esme i e' s)"
  by (auto simp: calm_def same_binds_def option.rel_refl)

lemma calm_upd_esme:
  assumes "upd_esme i f s = Some s'" and "\<And>e. get_esme s i = Some e \<Longrightarrow> harmless e (f e)"
  shows "calm s s'"
  using assms by (auto simp: upd_esme_def intro: calm_put_esme split: Option.bind_splits)

lemma calm_upd_global:
  assumes "upd_global i f s = Some s'" and "\<And>g. g_binds (f g) = g_binds g"
  shows "calm s s'"
  using assms by (auto simp: upd_global_def calm_def same_binds_def get_esme_def get_pdu_def option.rel_refl
      split: Option.bind_splits)

lemma calm_put_pdu: "get_pdu s p = Some q \<Longrightarrow> q_esme q' = q_esme q \<Longrightarrow> calm s (put_pdu p q' s)"
  by (auto simp: calm_def same_binds_def option.rel_refl)

lemma calm_free_pdu: "free_pdu p s = Some s' \<Longrightarrow> calm s s'"
  by (auto simp: calm_def same_binds_def free_pdu_fields option.rel_refl split: if_splits)

lemma calm_destroy_pdu: "smpp_queued_pdu_destroy p s = Some s' \<Longrightarrow> calm s s'"
  by (simp add: smpp_queued_pdu_destroy_def calm_free_pdu)

lemma calm_esme:
  assumes "calm s s'"
  shows "get_esme s' i = Some e' \<Longrightarrow> \<exists>e. get_esme s i = Some e \<and> harmless e e'"
    and "get_esme s i = Some e \<Longrightarrow> \<exists>e'. get_esme s' i = Some e' \<and> harmless e e'"
    and "get_esme s' i = None \<longleftrightarrow> get_esme s i = None"
  using assms unfolding calm_def by (cases "get_esme s i"; auto simp: option_rel_Some1 dest!: spec [of _ i]; fail)+

lemma calm_inv:
  assumes "calm s s'" and "server_inv D s"
  shows "server_inv D s'"
proof -
  note c = assms(1) [unfolded calm_def same_binds_def]
  have f: "s_outbound_queue s' = s_outbound_queue s" "s_inbound_queue s' = s_inbound_queue s"
    "s_simulation_queue s' = s_simulation_queue s" "s_pending_routes s' = s_pending_routes s"
    "s_next_pdu s' = s_next_pdu s" "s_cleanup_queue s' = s_cleanup_queue s" "s_esme_counter s' = s_esme_counter s"
    using c by simp_all
  have pdu: "\<exists>q. get_pdu s p = Some q \<and> q_esme q' = q_esme q" if "get_pdu s' p = Some q'" for p q'
    using c that by blast
  have binds: "\<exists>g. dict_get (s_esmes s) k = Some g \<and> g_binds g = g_binds g'" if "dict_get (s_esmes s') k = Some g'" for k g'
  proof -
    have "map_option g_binds (dict_get (s_esmes s) k) = Some (g_binds g')" using c that by (metis option.simps(9))
    then show ?thesis by auto
  qed
  have qc: "queue_claims s' = queue_claims s" "pending_claims s' = pending_claims s"
    by (simp_all add: queue_claims_def pending_claims_def f)
  have ack: "ack_claim s' p i \<Longrightarrow> ack_claim s p i" for p i
    using calm_esme(1) [OF assms(1)] unfolding ack_claim_def harmless_def by blast
  have claim: "claim s' p i \<Longrightarrow> claim s p i" for p i
    using ack by (auto simp: claim_def qc)
  have parts: "pdus_ok s" "simulation_ok s" "esmes_ok s" "binds_ok s" "cleanup_ok D s"
    using assms(2) by (auto simp: server_inv_def)
  have "pdus_ok s'" unfolding pdus_ok_def f
    using parts(1) pdu claim unfolding pdus_ok_def by metis
  moreover have "simulation_ok s'" unfolding simulation_ok_def f
    using parts(2) pdu claim unfolding simulation_ok_def by metis
  moreover have "esmes_ok s'"
    unfolding esmes_ok_def qc f calm_esme(3) [OF assms(1)]
  proof (intro conjI allI impI)
    fix i e' assume "get_esme s' i = Some e'"
    then obtain e where e: "get_esme s i = Some e" "harmless e e'" using calm_esme(1) [OF assms(1)] by blast
    have "i < s_esme_counter s" "e_outbound_queued e = entries_of i (s_outbound_queue s)"
      "e_inbound_queued e = entries_of i (s_inbound_queue s)" "entries_of i (pending_claims s) \<le> e_pending_routing e"
      using parts(3) e(1) unfolding esmes_ok_def by simp_all
    then show "i < s_esme_counter s" "e_outbound_queued e' = entries_of i (s_outbound_queue s)"
      "e_inbound_queued e' = entries_of i (s_inbound_queue s)" "entries_of i (pending_claims s) \<le> e_pending_routing e'"
      using e(2) by (simp_all add: harmless_def)
  qed (use parts(3) in \<open>simp add: esmes_ok_def\<close>)
  moreover have "binds_ok s'"
    using parts(4) binds calm_esme(2) [OF assms(1)] unfolding binds_ok_def harmless_def by metis
  moreover have "cleanup_ok D s'"
    using parts(5) calm_esme(2) [OF assms(1)] unfolding cleanup_ok_def f harmless_def by metis
  ultimately show ?thesis by (simp add: server_inv_def)
qed

section \<open>Calm operations of the components\<close>

named_theorems calm_intros \<open>operations that are calm\<close>

lemma calm_bind:
  assumes "Option.bind (f s) g = Some u" and "\<And>t. f s = Some t \<Longrightarrow> calm s t"
    and "\<And>t. f s = Some t \<Longrightarrow> g t = Some u \<Longrightarrow> calm t u"
  shows "calm s u"
  using assms calm_trans by (auto simp: bind_eq_Some_conv)

lemma harmless_updates [simp]:
  "harmless e (e\<lparr>e_connected := False, e_event_container := b\<rparr>)" "harmless e (e\<lparr>e_conn := b\<rparr>)"
  "harmless e (e\<lparr>e_connected := False\<rparr>)" "harmless e (e\<lparr>e_inbound_load := l\<rparr>)" "harmless e (e\<lparr>e_outbound_load := l\<rparr>)"
  "harmless e (e\<lparr>e_traffic := t\<rparr>)" "harmless e (e\<lparr>e_sequence_number := n\<rparr>)" "harmless e (e\<lparr>e_errors := n\<rparr>)"
  "harmless e (e\<lparr>e_inbuf := buf\<rparr>)" "harmless e (e\<lparr>e_pending_disconnect := b\<rparr>)"
  "harmless e (e\<lparr>e_pending_routing := e_pending_routing e + 1\<rparr>)"
  "harmless e (e\<lparr>e_inbuf := buf, e_pending_len := len\<rparr>)"
  by (auto simp: harmless_def)

lemma calm_stop_listening [calm_intros]: "smpp_esme_stop_listening i s = Some s' \<Longrightarrow> calm s s'"
  by (auto simp: smpp_esme_stop_listening_def intro: calm_upd_esme)

lemma calm_disconnect [calm_intros]: "smpp_esme_disconnect i s = Some s' \<Longrightarrow> calm s s'"
  unfolding smpp_esme_disconnect_def by (erule calm_bind) (auto intro: calm_intros calm_upd_esme)

lemma calm_count_traffic [calm_intros]: "count_traffic f i s = Some s' \<Longrightarrow> calm s s'"
  unfolding count_traffic_def by (erule calm_bind) (auto intro: calm_upd_esme calm_upd_global)

lemma calm_inbound_load [calm_intros]:
  assumes "smpp_esme_inbound_load_increase E i s = Some s'"
  shows "calm s s'"
proof -
  let ?s = "s\<lparr>s_inbound_processed := s_inbound_processed s + 1, s_inbound_load := s_inbound_load s @ [ev_now E]\<rparr>"
  have "calm s ?s" using calm_trans [OF calm_frame(5) calm_frame(3)] by auto
  also have "calm ?s s'"
    using assms unfolding smpp_esme_inbound_load_increase_def Let_def
    by (elim calm_bind) (auto intro: calm_upd_esme calm_upd_global)
  finally show ?thesis .
qed

lemma calm_outbound_load [calm_intros]:
  assumes "smpp_esme_outbound_load_increase E i s = Some s'"
  shows "calm s s'"
proof -
  let ?s = "s\<lparr>s_outbound_processed := s_outbound_processed s + 1, s_outbound_load := s_outbound_load s @ [ev_now E]\<rparr>"
  have "calm s ?s" using calm_trans [OF calm_frame(6) calm_frame(4)] by auto
  also have "calm ?s s'"
    using assms unfolding smpp_esme_outbound_load_increase_def Let_def
    by (elim calm_bind) (auto intro: calm_upd_esme calm_upd_global)
  finally show ?thesis .
qed

lemma calm_count_delivery [calm_intros]: "count_delivery q s = Some s' \<Longrightarrow> calm s s'"
  by (auto simp: count_delivery_def intro: calm_count_traffic split: option.splits pdu.splits Option.bind_splits)

lemma calm_upd_box [calm_intros]: "upd_box b f s = Some s' \<Longrightarrow> calm s s'"
  by (auto simp: upd_box_def calm_frame split: Option.bind_splits)

lemma calm_bb_write: "bb_write E b m s = Some (ok, s') \<Longrightarrow> calm s s'"
  using calm_trans [OF calm_frame(13) calm_upd_box]
  by (auto simp: bb_write_def intro: calm_upd_box split: if_splits Option.bind_splits)

lemma calm_acknowledge: "smpp_bearerbox_acknowledge E b i st s = Some (ok, s') \<Longrightarrow> calm s s'"
  by (auto simp: smpp_bearerbox_acknowledge_def intro: calm_bb_write split: option.splits if_splits Option.bind_splits)

lemma calm_acknowledge' [calm_intros]:
  "map_option snd (smpp_bearerbox_acknowledge E b i st s) = Some s' \<Longrightarrow> calm s s'"
  using calm_acknowledge by fastforce

lemma calm_settle_origin [calm_intros]: "settle_origin E q st s = Some s' \<Longrightarrow> calm s s'"
  unfolding settle_origin_def by (auto intro: calm_acknowledge split: if_splits)

lemma calm_ack_timed_out [calm_intros]:
  assumes "ack_timed_out E q s = Some s'"
  shows "calm s s'"
proof (cases "c_wait_ack_action (s_cfg s) = SMPP_WAITACK_DISCONNECT")
  case True
  with assms obtain t i where "(if q_bearerbox q \<noteq> None \<and> q_bearerbox_id q \<noteq> None
      then map_option snd (smpp_bearerbox_acknowledge E (q_bearerbox q) (q_bearerbox_id q) ack_failed_tmp s) else Some s) = Some t"
    and d: "smpp_esme_disconnect i t = Some s'"
    unfolding ack_timed_out_def by (auto simp: bind_eq_Some_conv split: if_splits)
  then have "calm s t" using calm_acknowledge by (fastforce split: if_splits)
  also have "calm t s'" using d by (rule calm_disconnect)
  finally show ?thesis .
next
  case False
  with assms show ?thesis
    by (auto simp: ack_timed_out_def bind_eq_Some_conv intro: calm_settle_origin split: if_splits)
qed

lemma calm_deliver_sm_resp [calm_intros]:
  assumes "smpp_queues_callback_deliver_sm_resp E p st s = Some s'"
  shows "calm s s'"
proof -
  from assms obtain q t where t: "(if st = SMPP_ESME_ROK then do { s \<leftarrow> count_delivery q s; settle_origin E q ack_success s }
          else if st = SMPP_ESME_COMMAND_STATUS_QUEUED then settle_origin E q ack_success s
          else if st = SMPP_ESME_COMMAND_STATUS_WAIT_ACK_TIMEOUT then ack_timed_out E q s
          else if st = SMPP_QUEUED_PDU_DESTROYED
          then map_option snd (smpp_bearerbox_acknowledge E (q_bearerbox q) (q_bearerbox_id q) ack_failed_tmp s)
          else Some s) = Some t" and d: "smpp_queued_pdu_destroy p t = Some s'"
    unfolding smpp_queues_callback_deliver_sm_resp_def bind_eq_Some_conv by blast
  have "calm s t"
    using t by (auto intro: calm_intros calm_bind calm_acknowledge split: if_splits)
  also have "calm t s'" using d by (rule calm_destroy_pdu)
  finally show ?thesis .
qed

lemma calm_db_queue_remove: "calm s (db_queue_remove E q s)"
  by (auto simp: db_queue_remove_def)

lemma calm_db_queue_callback [calm_intros]:
  assumes "smpp_esme_db_queue_callback E p st s = Some s'"
  shows "calm s s'"
proof -
  from assms obtain q t where t: "(if st = SMPP_ESME_ROK \<or> st = SMPP_ESME_COMMAND_STATUS_QUEUED then do {
            s \<leftarrow> (if st = SMPP_ESME_ROK \<and> q_esme q \<noteq> None then count_delivery q s else Some s);
            Some (db_queue_remove E q s) }
          else Some (db_queue_remove E q (snd (smpp_database_add_pdu E s q)))) = Some t"
    and d: "smpp_queued_pdu_destroy p t = Some s'"
    unfolding smpp_esme_db_queue_callback_def bind_eq_Some_conv by blast
  have "calm s t"
    using t calm_trans [OF calm_count_delivery calm_db_queue_remove] calm_trans [OF calm_db(3) calm_db_queue_remove] calm_db_queue_remove
    by (auto simp: bind_eq_Some_conv split: if_splits)
  also have "calm t s'" using d by (rule calm_destroy_pdu)
  finally show ?thesis .
qed

lemma calm_run_pdu_callback [calm_intros]:
  assumes "run_pdu_callback E p st s = Some s'"
  shows "calm s s'"
proof -
  from assms obtain q cb where cb: "(case cb of
        Cb_deliver_sm_resp \<Rightarrow> smpp_queues_callback_deliver_sm_resp E p st s
      | Cb_db_queue \<Rightarrow> smpp_esme_db_queue_callback E p st s
      | Cb_queued_pdu_handler \<Rightarrow>
          smpp_queued_pdu_destroy p (s\<lparr>s_db := db_queued_pdu_handler (ev_db E) (ev_now E) (s_db s) q st\<rparr>)) = Some s'"
    unfolding run_pdu_callback_def bind_eq_Some_conv by blast
  show ?thesis
    using cb calm_trans [OF calm_frame(1) calm_destroy_pdu] by (cases cb) (auto intro: calm_intros)
qed

lemma calm_log_deliver: "calm s (log_deliver E e q st s)"
  by (auto simp: log_deliver_def calm_frame split: option.splits pdu.splits)

lemma calm_process_ack [calm_intros]:
  assumes "smpp_queues_process_ack E i seq st s = Some s'"
  shows "calm s s'"
proof -
  from assms obtain t e where "smpp_esme_outbound_load_increase E i s = Some t"
    and r: "(case dict_get (e_open_acks e) (show_int seq) of
        None \<Rightarrow> Some t
      | Some p \<Rightarrow> do {
          s \<leftarrow> upd_esme i (\<lambda>e. e\<lparr>e_open_acks := dict_remove (e_open_acks e) (show_int seq)\<rparr>) t;
          q \<leftarrow> get_pdu s p;
          let s = log_deliver E e q st s;
          (if q_callback q = None then Some s else run_pdu_callback E p st s) }) = Some s'"
    unfolding smpp_queues_process_ack_def bind_eq_Some_conv by blast
  from this(1) have "calm s t" by (rule calm_outbound_load)
  also have "calm t s'"
  proof (cases "dict_get (e_open_acks e) (show_int seq)")
    case (Some p)
    with r obtain u q where u: "upd_esme i (\<lambda>e. e\<lparr>e_open_acks := dict_remove (e_open_acks e) (show_int seq)\<rparr>) t = Some u"
      and s': "(if q_callback q = None then Some (log_deliver E e q st u)
          else run_pdu_callback E p st (log_deliver E e q st u)) = Some s'"
      by (auto simp: bind_eq_Some_conv Let_def)
    from u have "calm t u" by (rule calm_upd_esme) (simp add: harmless_remove_ack)
    also have "calm u (log_deliver E e q st u)" by (rule calm_log_deliver)
    also have "calm (log_deliver E e q st u) s'" using s' by (auto intro: calm_intros split: if_splits)
    finally show ?thesis .
  qed (use r in simp)
  finally show ?thesis .
qed

lemma calm_expire_acks [calm_intros]: "expire_acks E i ks s = Some s' \<Longrightarrow> calm s s'"
proof (induction E i ks s rule: expire_acks.induct)
  case (2 E i k ks s)
  from "2.prems" obtain e t where e: "get_esme s i = Some e" and t: "(case dict_get (e_open_acks e) k of
            None \<Rightarrow> Some s
          | Some p \<Rightarrow> do {
              q \<leftarrow> get_pdu s p;
              (if 0 < q_time_sent q \<and> e_wait_ack_time e < ev_now E - q_time_sent q then do {
                 s \<leftarrow> upd_esme i (\<lambda>e. e\<lparr>e_open_acks := dict_remove (e_open_acks e) k\<rparr>) s;
                 run_pdu_callback E p SMPP_ESME_COMMAND_STATUS_WAIT_ACK_TIMEOUT (put_pdu p (q\<lparr>q_server := True\<rparr>) s) }
               else Some s) }) = Some t" and r: "expire_acks E i ks t = Some s'"
    unfolding expire_acks.simps bind_eq_Some_conv by blast
  have "calm s t"
  proof (cases "\<exists>p q u. get_pdu s p = Some q \<and> upd_esme i (\<lambda>e. e\<lparr>e_open_acks := dict_remove (e_open_acks e) k\<rparr>) s = Some u
      \<and> run_pdu_callback E p SMPP_ESME_COMMAND_STATUS_WAIT_ACK_TIMEOUT (put_pdu p (q\<lparr>q_server := True\<rparr>) u) = Some t")
    case True
    then obtain p q u where q: "get_pdu s p = Some q"
      and u: "upd_esme i (\<lambda>e. e\<lparr>e_open_acks := dict_remove (e_open_acks e) k\<rparr>) s = Some u"
      and c: "run_pdu_callback E p SMPP_ESME_COMMAND_STATUS_WAIT_ACK_TIMEOUT (put_pdu p (q\<lparr>q_server := True\<rparr>) u) = Some t"
      by blast
    from u have su: "calm s u" by (rule calm_upd_esme) (simp add: harmless_remove_ack)
    have "get_pdu u p = Some q" using u q by (auto simp: upd_esme_def bind_eq_Some_conv)
    then have "calm u (put_pdu p (q\<lparr>q_server := True\<rparr>) u)" by (rule calm_put_pdu) simp
    from calm_trans [OF su calm_trans [OF this calm_run_pdu_callback [OF c]]] show ?thesis .
  next
    case False
    then have "t = s" using t by (auto simp: bind_eq_Some_conv split: option.splits if_splits)
    then show ?thesis by simp
  qed
  also have "calm t s'" using "2.IH" e t r by blast
  finally show ?case .
qed auto

lemma calm_destroy_acks_loop [calm_intros]: "destroy_acks_loop E i ks s = Some s' \<Longrightarrow> calm s s'"
proof (induction E i ks s rule: destroy_acks_loop.induct)
  case (2 E i k ks s)
  from "2.prems" obtain e t where e: "get_esme s i = Some e" and t: "(case dict_get (e_open_acks e) k of
            None \<Rightarrow> Some s
          | Some p \<Rightarrow> do {
              s \<leftarrow> upd_esme i (\<lambda>e. e\<lparr>e_open_acks := dict_remove (e_open_acks e) k\<rparr>) s;
              q \<leftarrow> get_pdu s p;
              (if q_callback q = None then Some s else run_pdu_callback E p SMPP_QUEUED_PDU_DESTROYED s) }) = Some t"
    and r: "destroy_acks_loop E i ks t = Some s'"
    unfolding destroy_acks_loop.simps bind_eq_Some_conv by blast
  have "calm s t"
  proof (cases "dict_get (e_open_acks e) k")
    case (Some p)
    note t' = t [unfolded Some option.case]
    from t' obtain u and q :: queued_pdu where u: "upd_esme i (\<lambda>e. e\<lparr>e_open_acks := dict_remove (e_open_acks e) k\<rparr>) s = Some u"
      and c: "(if q_callback q = None then Some u else run_pdu_callback E p SMPP_QUEUED_PDU_DESTROYED u) = Some t"
      unfolding bind_eq_Some_conv by blast
    from u have "calm s u" by (rule calm_upd_esme) (simp add: harmless_remove_ack)
    also have "calm u t" using c by (auto intro: calm_intros split: if_splits)
    finally show ?thesis .
  qed (use t in simp)
  also have "calm t s'" using "2.IH" e t r by blast
  finally show ?case .
qed auto

lemma calm_destroy_open_acks [calm_intros]: "smpp_esme_destroy_open_acks E i s = Some s' \<Longrightarrow> calm s s'"
  by (auto simp: smpp_esme_destroy_open_acks_def bind_eq_Some_conv intro: calm_intros)

section \<open>Steady operations\<close>

text \<open>Binds, cleanup queue, configuration of the ESMEs and their identity are kept.\<close>

definition settled :: "esme \<Rightarrow> esme \<Rightarrow> bool" where
  "settled e e' \<longleftrightarrow> (e_connected e' \<longrightarrow> e_connected e) \<and> e_authenticated e' = e_authenticated e \<and> e_global e' = e_global e"

definition steady :: "'d server \<Rightarrow> 'd server \<Rightarrow> bool" where
  "steady s s' \<longleftrightarrow> s_cleanup_queue s' = s_cleanup_queue s \<and> same_binds s s'
     \<and> (\<forall>i. rel_option settled (get_esme s i) (get_esme s' i))"

lemma settled_trans: "settled a b \<Longrightarrow> settled b c \<Longrightarrow> settled a c"
  by (auto simp: settled_def)

lemma settled_refl [simp]: "settled e e"
  by (simp add: settled_def)

lemma steady_refl [simp, intro]: "steady s s"
  by (auto simp: steady_def option.rel_refl)

lemma steady_trans [trans]:
  assumes "steady s t" and "steady t u"
  shows "steady s u"
proof -
  have "rel_option settled (get_esme s i) (get_esme u i)" for i
    using assms settled_trans unfolding steady_def
    by (cases "get_esme t i") (auto simp: option_rel_Some1 option_rel_Some2 dest!: spec [of _ i])
  with assms show ?thesis unfolding steady_def same_binds_def by simp
qed

lemma harmless_settled: "harmless e e' \<Longrightarrow> settled e e'"
  by (simp add: harmless_def settled_def)

lemma calm_steady: "calm s s' \<Longrightarrow> steady s s'"
  unfolding calm_def steady_def by (metis harmless_settled option.rel_mono_strong)

lemma steady_esme:
  assumes "steady s s'"
  shows "get_esme s' i = Some e' \<Longrightarrow> \<exists>e. get_esme s i = Some e \<and> settled e e'"
    and "get_esme s i = Some e \<Longrightarrow> \<exists>e'. get_esme s' i = Some e' \<and> settled e e'"
  using assms unfolding steady_def by (cases "get_esme s i"; auto simp: option_rel_Some1 dest!: spec [of _ i]; fail)+

lemma steady_add_outbound:
  assumes "smpp_queues_add_outbound p s = Some s'"
  shows "steady s s'"
proof -
  from assms obtain q i e where q: "get_pdu s p = Some q" "q_esme q = Some i" and e: "get_esme s i = Some e"
    by (auto simp: smpp_queues_add_outbound_def bind_eq_Some_conv)
  have upd: "steady u t" if "upd_esme i f u = Some t" "\<And>e. settled e (f e)" for f and u t :: "'a server"
    using that by (auto simp: upd_esme_def bind_eq_Some_conv steady_def same_binds_def option.rel_refl)
  have enq: "steady t (t\<lparr>s_outbound_queue := x\<rparr>)" for t :: "'a server" and x
    by (auto simp: steady_def same_binds_def get_esme_def option.rel_refl)
  let ?inc = "\<lambda>e. e\<lparr>e_outbound_queued := e_outbound_queued e + 1\<rparr>"
  show ?thesis
  proof (cases "q_callback q")
    case None
    with assms q e obtain t where "upd_esme i ?inc s = Some t" "s' = t\<lparr>s_outbound_queue := s_outbound_queue t @ [(p, i)]\<rparr>"
      by (auto simp: smpp_queues_add_outbound_def bind_eq_Some_conv)
    then show ?thesis using steady_trans [OF upd enq] by (simp add: settled_def)
  next
    case (Some cb)
    let ?key = "case_option [] id (q_id q)"
    from assms q e Some obtain s1 s2 t where
      s1: "(case dict_get (e_open_acks e) ?key of None \<Rightarrow> Some s
          | Some other \<Rightarrow> if other = p then Some s else smpp_queued_pdu_destroy other s) = Some s1"
      and s2: "upd_esme i (\<lambda>e. e\<lparr>e_open_acks := dict_put (e_open_acks e) ?key p\<rparr>) s1 = Some s2"
      and t: "upd_esme i ?inc s2 = Some t" and s': "s' = t\<lparr>s_outbound_queue := s_outbound_queue t @ [(p, i)]\<rparr>"
      by (auto simp: smpp_queues_add_outbound_def bind_eq_Some_conv Let_def)
    have "steady s s1" using s1 by (auto intro: calm_steady calm_destroy_pdu split: option.splits if_splits)
    also have "steady s1 s2" using s2 by (rule upd) (simp add: settled_def)
    also have "steady s2 t" using t by (rule upd) (simp add: settled_def)
    also have "steady t s'" unfolding s' by (rule enq)
    finally show ?thesis .
  qed
qed

lemma steady_alloc: "alloc_pdu q s = (p, s') \<Longrightarrow> steady s s'"
  by (auto simp: steady_def same_binds_def alloc_pdu_fields option.rel_refl)

section \<open>Responses and deliveries\<close>

lemma inv_alloc_add_outbound:
  "(case alloc_pdu q s of (p, s) \<Rightarrow> smpp_queues_add_outbound p s) = Some s' \<Longrightarrow> server_inv D s \<Longrightarrow> server_inv D s'"
  by (cases "alloc_pdu q s") (simp add: inv_add_outbound inv_alloc_pdu)

lemma inv_respond_plain: "respond_plain i resp d s = Some s' \<Longrightarrow> server_inv D s \<Longrightarrow> server_inv D s'"
  unfolding respond_plain_def Let_def by (rule inv_alloc_add_outbound)

lemma steady_respond_plain: "respond_plain i resp d s = Some s' \<Longrightarrow> steady s s'"
  by (auto simp: respond_plain_def Let_def split: prod.splits intro: steady_trans [OF steady_alloc steady_add_outbound])

lemma inv_respond: "respond i resp s = Some s' \<Longrightarrow> server_inv D s \<Longrightarrow> server_inv D s'"
  unfolding respond_def Let_def bind_eq_Some_conv using inv_alloc_add_outbound by blast

lemma inv_enquire_link: "smpp_queues_send_enquire_link i s = Some s' \<Longrightarrow> server_inv D s \<Longrightarrow> server_inv D s'"
  by (auto simp: smpp_queues_send_enquire_link_def Let_def bind_eq_Some_conv elim!: inv_respond_plain intro: inv_put_esme)

lemma steady_enquire_link:
  assumes "smpp_queues_send_enquire_link i s = Some s'"
  shows "steady s s'"
proof -
  from assms obtain e n resp where "get_esme s i = Some e"
    and "respond_plain i resp False (put_esme i (e\<lparr>e_sequence_number := n\<rparr>) s) = Some s'"
    unfolding smpp_queues_send_enquire_link_def Let_def bind_eq_Some_conv by blast
  from calm_steady [OF calm_put_esme [OF this(1)]] steady_respond_plain [OF this(2)]
  show ?thesis using steady_trans harmless_updates(7) by blast
qed

lemma inv_queue_deliveries: "queue_deliveries i base ds s = Some s' \<Longrightarrow> server_inv D s \<Longrightarrow> server_inv D s'"
proof (induction i base ds s rule: queue_deliveries.induct)
  case (2 i base d ds s)
  from "2.prems"(1) obtain e where e: "get_esme s i = Some e" by (auto simp: bind_eq_Some_conv)
  obtain p t where t: "alloc_pdu (base\<lparr>q_pdu := Some (set_deliver_seq (int (e_sequence_number e)) d), q_system_id := e_system_id e,
        q_callback := Some Cb_deliver_sm_resp, q_esme := Some i, q_id := Some (show_nat (e_sequence_number e))\<rparr>)
        (put_esme i (e\<lparr>e_sequence_number := e_sequence_number e + 1\<rparr>) s) = (p, t)" by fastforce
  with "2.prems"(1) e obtain u where u: "smpp_queues_add_outbound p t = Some u" and r: "queue_deliveries i base ds u = Some s'"
    by (auto simp: bind_eq_Some_conv Let_def)
  have "server_inv D u"
    by (rule inv_add_outbound [OF u], rule inv_alloc_pdu [OF t], rule inv_put_esme [OF "2.prems"(2) e]) simp
  with "2.IH" e t u r show ?case by simp
qed auto

lemma msg_to_pdu_harmless: "harmless e (snd (smpp_pdu_msg_to_pdu G now e m))"
proof -
  have "harmless e (snd (number_parts G m b e ms))" for b e ms
    by (induction G m b e ms rule: number_parts.induct)
       (auto simp: Let_def split: prod.splits intro: harmless_trans [OF harmless_updates(7)])
  note step = this
  have "harmless e (e\<lparr>e_catenated_sms_counter := n\<rparr>)" for n by (auto simp: harmless_def)
  from harmless_trans [OF this step] show ?thesis
    by (auto simp: smpp_pdu_msg_to_pdu_def Let_def split: option.splits prod.splits) (metis snd_conv)
qed

lemma calm_msg_to_pdu: "msg_to_pdu_for E i m s = Some (ps, s') \<Longrightarrow> calm s s'"
  by (auto simp: msg_to_pdu_for_def bind_eq_Some_conv Let_def case_prod_beta msg_to_pdu_harmless intro!: calm_put_esme)

lemma inv_callback_response:
  assumes "callback_response p st s = Some s'" and "server_inv D s"
  shows "server_inv D s'"
proof -
  from assms(1) obtain q i t resp resp' where q: "get_pdu s p = Some q"
    and t: "count_traffic (if st \<noteq> SMPP_ESME_ROK then count_error else count_mt) i s = Some t"
    and o: "smpp_queues_add_outbound p (put_pdu p (q\<lparr>q_pdu := Some resp'\<rparr>) t) = Some s'"
    unfolding callback_response_def bind_eq_Some_conv by blast
  have "get_pdu t p = Some q"
    using t q by (auto simp: count_traffic_def upd_esme_def upd_global_def bind_eq_Some_conv get_pdu_def put_esme_def)
  moreover have "server_inv D t" using calm_inv [OF calm_count_traffic [OF t]] assms(2) by simp
  ultimately have "server_inv D (put_pdu p (q\<lparr>q_pdu := Some resp'\<rparr>) t)" by (simp add: inv_put_pdu)
  then show ?thesis by (rule inv_add_outbound [OF o])
qed

lemma inv_run_bb_callback: "run_bb_callback E cb st s = Some s' \<Longrightarrow> server_inv D s \<Longrightarrow> server_inv D s'"
  by (cases cb) (auto simp: run_bb_callback_def smpp_queues_callback_submit_sm_def smpp_queues_callback_data_sm_def
      smpp_bearerbox_requeue_result_def intro: inv_callback_response calm_inv split: if_splits)

lemma inv_add_to_queue: "smpp_bearerbox_add_to_queue E bm s = Some s' \<Longrightarrow> server_inv D s \<Longrightarrow> server_inv D s'"
  by (auto simp: smpp_bearerbox_add_to_queue_def split: if_splits prod.splits elim!: inv_run_bb_callback
      intro: calm_inv [OF calm_db(2)] dest!: arg_cong [of _ _ snd])

end
