(* ===== verification/RoutingInv.thy ===== *)
theory RoutingInv
  imports Preservation
begin

text \<open>
  Preservation of the invariant by the router and its users. A request for a submission may be
  handed to the router when its ESME counts one more pending request than the router holds.
\<close>

section \<open>Pending requests\<close>

definition pend_ok :: "route_callback \<Rightarrow> 'd server \<Rightarrow> bool" where
  "pend_ok cb s \<longleftrightarrow> (\<forall>p i. cb_claim cb = Some (p, i) \<longrightarrow>
     p < s_next_pdu s \<and> (\<forall>q. get_pdu s p = Some q \<longrightarrow> q_esme q = Some i) \<and> p \<notin> set (s_simulation_queue s)
     \<and> (\<exists>e. get_esme s i = Some e \<and> entries_of i (pending_claims s) < e_pending_routing e))"

lemma map_filter_append: "List.map_filter f (xs @ ys) = List.map_filter f xs @ List.map_filter f ys"
  by (induction xs) (auto simp: List.map_filter_simps split: option.splits)

lemma pending_fields [simp]:
  "get_esme (s\<lparr>s_pending_routes := x\<rparr>) = get_esme s" "get_pdu (s\<lparr>s_pending_routes := x\<rparr>) = get_pdu s"
  "ack_claim (s\<lparr>s_pending_routes := x\<rparr>) = ack_claim s"
  by (simp_all add: get_esme_def get_pdu_def ack_claim_def fun_eq_iff)

lemma pend_ok_calm:
  assumes "calm s s'" and "pend_ok cb s"
  shows "pend_ok cb s'"
  unfolding pend_ok_def
proof (intro allI impI)
  fix p i assume "cb_claim cb = Some (p, i)"
  with assms(2) obtain e where *: "p < s_next_pdu s" "\<forall>q. get_pdu s p = Some q \<longrightarrow> q_esme q = Some i"
    "p \<notin> set (s_simulation_queue s)" "get_esme s i = Some e" "entries_of i (pending_claims s) < e_pending_routing e"
    unfolding pend_ok_def by blast
  from calm_esme(2) [OF assms(1) *(4)] obtain e' where e': "get_esme s' i = Some e'" "harmless e e'" by blast
  have f: "s_next_pdu s' = s_next_pdu s" "s_simulation_queue s' = s_simulation_queue s" "pending_claims s' = pending_claims s"
    using assms(1) by (simp_all add: calm_def pending_claims_def)
  have "q_esme q = Some i" if "get_pdu s' p = Some q" for q
    using assms(1) that *(2) unfolding calm_def by metis
  then show "p < s_next_pdu s' \<and> (\<forall>q. get_pdu s' p = Some q \<longrightarrow> q_esme q = Some i) \<and> p \<notin> set (s_simulation_queue s')
     \<and> (\<exists>e. get_esme s' i = Some e \<and> entries_of i (pending_claims s') < e_pending_routing e)"
    using * e' by (auto simp: f harmless_def)
qed

lemma inv_push_pending:
  assumes "server_inv D s" and "pend_ok cb s"
  shows "server_inv D (s\<lparr>s_pending_routes := s_pending_routes s @ [(cb, m)]\<rparr>)"
proof -
  let ?s = "s\<lparr>s_pending_routes := s_pending_routes s @ [(cb, m)]\<rparr>"
  have parts: "pdus_ok s" "simulation_ok s" "esmes_ok s" "binds_ok s" "cleanup_ok D s"
    using assms(1) by (auto simp: server_inv_def)
  have rest: "binds_ok ?s" "cleanup_ok D ?s" using parts(4,5) by (simp_all add: binds_ok_def cleanup_ok_def)
  show ?thesis
  proof (cases "cb_claim cb")
    case None
    then have "pending_claims ?s = pending_claims s"
      by (simp add: pending_claims_def map_filter_append List.map_filter_simps)
    then have "queue_claims ?s = queue_claims s" "claim ?s = claim s"
      by (simp_all add: queue_claims_def claim_def fun_eq_iff)
    with parts rest \<open>pending_claims ?s = pending_claims s\<close> show ?thesis
      by (simp add: server_inv_def pdus_ok_def simulation_ok_def esmes_ok_def)
  next
    case (Some x)
    obtain p i where x: "x = (p, i)" by fastforce
    have pc: "pending_claims ?s = pending_claims s @ [(p, i)]"
      using Some x by (simp add: pending_claims_def map_filter_append List.map_filter_simps)
    have qc: "queue_claims ?s = insert (p, i) (queue_claims s)" by (auto simp: queue_claims_def pc)
    have claim: "claim ?s r j \<Longrightarrow> claim s r j \<or> (r = p \<and> j = i)" for r j by (auto simp: claim_def qc)
    from assms(2) Some x obtain e where ok: "p < s_next_pdu s" "\<forall>q. get_pdu s p = Some q \<longrightarrow> q_esme q = Some i"
      "p \<notin> set (s_simulation_queue s)" "get_esme s i = Some e" "entries_of i (pending_claims s) < e_pending_routing e"
      unfolding pend_ok_def by blast
    have "pdus_ok ?s" using parts(1) ok by (auto simp: pdus_ok_def dest!: claim)
    moreover have "simulation_ok ?s" using parts(2) ok by (auto simp: simulation_ok_def dest!: claim)
    moreover have "esmes_ok ?s" using parts(3) ok by (auto simp: esmes_ok_def qc pc)
    ultimately show ?thesis using rest by (simp add: server_inv_def)
  qed
qed

lemma inv_pop_pending:
  assumes "server_inv D s" and "s_pending_routes s = xs @ (cb, m) # ys"
  shows "server_inv D (s\<lparr>s_pending_routes := xs @ ys\<rparr>)" and "pend_ok cb (s\<lparr>s_pending_routes := xs @ ys\<rparr>)"
proof -
  let ?s = "s\<lparr>s_pending_routes := xs @ ys\<rparr>"
  let ?f = "List.map_filter (cb_claim \<circ> fst)"
  have pc: "pending_claims s = ?f xs @ ?f [(cb, m)] @ ?f ys" "pending_claims ?s = ?f xs @ ?f ys"
    using map_filter_append [of "cb_claim \<circ> fst" "[(cb, m)]" ys] by (simp_all add: pending_claims_def assms(2) map_filter_append)
  have sub: "queue_claims ?s \<subseteq> queue_claims s" by (auto simp: queue_claims_def pc)
  then have claim: "claim ?s r j \<Longrightarrow> claim s r j" for r j by (auto simp: claim_def)
  have parts: "pdus_ok s" "simulation_ok s" "esmes_ok s" "binds_ok s" "cleanup_ok D s"
    using assms(1) by (auto simp: server_inv_def)
  have le: "entries_of j (pending_claims ?s) \<le> entries_of j (pending_claims s)" for j by (simp add: pc)
  have "pdus_ok ?s" using parts(1) by (auto simp: pdus_ok_def dest!: claim)
  moreover have "simulation_ok ?s" using parts(2) by (auto simp: simulation_ok_def dest!: claim)
  moreover have "esmes_ok ?s" using parts(3) sub unfolding esmes_ok_def by (auto intro: le_trans [OF le])
  moreover have "binds_ok ?s" "cleanup_ok D ?s" using parts(4,5) by (simp_all add: binds_ok_def cleanup_ok_def)
  ultimately show "server_inv D ?s" by (simp add: server_inv_def)
  show "pend_ok cb ?s" unfolding pend_ok_def
  proof (intro allI impI)
    fix p i assume cb: "cb_claim cb = Some (p, i)"
    then have in_pc: "(p, i) \<in> set (pending_claims s)" by (simp add: pc List.map_filter_simps)
    then have cl: "claim s p i" "(p, i) \<in> queue_claims s" by (auto simp: claim_def queue_claims_def)
    then obtain e where e: "get_esme s i = Some e" using parts(3) unfolding esmes_ok_def by (meson not_None_eq)
    have "entries_of i (pending_claims ?s) < entries_of i (pending_claims s)" by (simp add: pc List.map_filter_simps cb)
    also have "\<dots> \<le> e_pending_routing e" using parts(3) e by (auto simp: esmes_ok_def)
    finally show "p < s_next_pdu ?s \<and> (\<forall>q. get_pdu ?s p = Some q \<longrightarrow> q_esme q = Some i) \<and> p \<notin> set (s_simulation_queue ?s)
      \<and> (\<exists>e. get_esme ?s i = Some e \<and> entries_of i (pending_claims ?s) < e_pending_routing e)"
      using cl parts(1,2) e by (auto simp: pdus_ok_def simulation_ok_def)
  qed
qed

lemma inv_pending_done:
  assumes "server_inv D s" and "get_esme s i = Some e" and "entries_of i (pending_claims s) \<le> n"
  shows "server_inv D (put_esme i (e\<lparr>e_pending_routing := n\<rparr>) s)"
proof -
  let ?e = "e\<lparr>e_pending_routing := n\<rparr>"
  let ?s = "put_esme i ?e s"
  have parts: "pdus_ok s" "simulation_ok s" "esmes_ok s" "binds_ok s" "cleanup_ok D s"
    using assms(1) by (auto simp: server_inv_def)
  have claim: "claim ?s r j \<Longrightarrow> claim s r j" for r j
    using ack_claim_put [OF assms(2), of ?e r j] by (auto simp: claim_def)
  have "pdus_ok ?s" using parts(1) by (auto simp: pdus_ok_def dest!: claim)
  moreover have "simulation_ok ?s" using parts(2) by (auto simp: simulation_ok_def dest!: claim)
  moreover have "esmes_ok ?s" using parts(3) assms(2,3) by (auto simp: esmes_ok_def)
  moreover have "binds_ok ?s" using parts(4) assms(2) by (fastforce simp: binds_ok_def)
  moreover have "cleanup_ok D ?s" using parts(5) assms(2) by (fastforce simp: cleanup_ok_def)
  ultimately show ?thesis by (simp add: server_inv_def)
qed

section \<open>Submissions\<close>

lemma same_but_db_pdu: "same_but_db s s' \<Longrightarrow> get_pdu s' = get_pdu s"
  by (auto simp: same_but_db_def get_pdu_def fun_eq_iff)

lemma inv_forward_submission:
  assumes "forward_submission E p q i m s = Some s'" and "server_inv D s" and q: "get_pdu s p = Some q"
  shows "server_inv D s'"
proof -
  from assms(1) obtain g :: esme_global and resp cb m' where fwd: "(if g_database_store_primary g then
        (let (ok, s) = smpp_database_add_message E s m' in
         run_bb_callback E cb (if ok then 0 else SMPP_ESME_RSYSERR) (put_pdu p (q\<lparr>q_pdu := Some resp, q_msg := Msg_null\<rparr>) s))
      else smpp_bearerbox_add_message E m' cb (put_pdu p (q\<lparr>q_pdu := Some resp, q_msg := Msg_lent\<rparr>) s)) = Some s'"
    unfolding forward_submission_def Let_def bind_eq_Some_conv by auto
  have put: "server_inv D (put_pdu p (q\<lparr>q_pdu := Some resp, q_msg := x\<rparr>) t)" if "same_but_db s t" for t x
    using that assms(2) q by (auto intro!: inv_put_pdu simp: same_but_db_inv same_but_db_pdu)
  show ?thesis
  proof (cases "g_database_store_primary g")
    case True
    then have "run_bb_callback E cb (if fst (smpp_database_add_message E s m') then 0 else SMPP_ESME_RSYSERR)
        (put_pdu p (q\<lparr>q_pdu := Some resp, q_msg := Msg_null\<rparr>) (snd (smpp_database_add_message E s m'))) = Some s'"
      using fwd by (simp add: case_prod_beta Let_def)
    then show ?thesis by (rule inv_run_bb_callback) (simp add: put)
  next
    case False
    with fwd have "smpp_bearerbox_add_message E m' cb (put_pdu p (q\<lparr>q_pdu := Some resp, q_msg := Msg_lent\<rparr>) s) = Some s'" by simp
    then show ?thesis unfolding smpp_bearerbox_add_message_def by (rule inv_add_to_queue) (simp add: put)
  qed
qed

lemma inv_reject_submission:
  assumes "reject_submission p q i st s = Some s'" and "server_inv D s" and q: "get_pdu s p = Some q"
  shows "server_inv D s'"
proof -
  from assms(1) obtain t resp where t: "count_traffic count_error i s = Some t"
    and o: "smpp_queues_add_outbound p (put_pdu p (q\<lparr>q_pdu := Some resp, q_msg := Msg_null\<rparr>) t) = Some s'"
    unfolding reject_submission_def bind_eq_Some_conv by blast
  have "get_pdu t p = Some q"
    using t q by (auto simp: count_traffic_def upd_esme_def upd_global_def bind_eq_Some_conv get_pdu_def put_esme_def)
  moreover have "server_inv D t" using calm_inv [OF calm_count_traffic [OF t]] assms(2) by simp
  ultimately have "server_inv D (put_pdu p (q\<lparr>q_pdu := Some resp, q_msg := Msg_null\<rparr>) t)" by (simp add: inv_put_pdu)
  then show ?thesis by (rule inv_add_outbound [OF o])
qed

lemma charge_frame: "charge E i c s = Some (ok, s') \<Longrightarrow> same_but_db s s'"
  by (auto simp: charge_def bind_eq_Some_conv split: if_splits) (metis database_frames(11) snd_conv)

lemma inv_submission_routing_done:
  assumes "submission_routing_done E p rs s = Some s'" and "server_inv D s"
    and pend: "\<And>q. get_pdu s p = Some q \<Longrightarrow> q_esme q = Some i"
      "\<And>e. get_esme s i = Some e \<Longrightarrow> entries_of i (pending_claims s) < e_pending_routing e"
  shows "server_inv D s'"
proof -
  from assms(1) obtain q j t e m where q: "get_pdu s p = Some q" "q_esme q = Some j"
    and t: "upd_esme j (\<lambda>e. e\<lparr>e_pending_routing := e_pending_routing e - 1\<rparr>) s = Some t"
    and r: "(if rs_status rs = SMPP_ESME_ROK then do {
        (paid, s) \<leftarrow> charge E j (real (rs_parts rs) * rs_cost rs) t;
        (if paid then forward_submission E p q j m s else reject_submission p q j SMPP_ESME_RSUBMITFAIL s) }
      else if 0 < octstr_len (smsc_id m) then do {
        (paid, s) \<leftarrow> charge E j (real (rs_parts rs) * e_default_cost (e :: esme)) t;
        (if paid then forward_submission E p q j m s else reject_submission p q j SMPP_ESME_RSUBMITFAIL s) }
      else reject_submission p q j (rs_status rs) t) = Some s'"
    unfolding submission_routing_done_def bind_eq_Some_conv by blast
  have j: "j = i" using pend(1) [OF q(1)] q(2) by simp
  from t obtain e0 where e0: "get_esme s i = Some e0" and t': "t = put_esme i (e0\<lparr>e_pending_routing := e_pending_routing e0 - 1\<rparr>) s"
    unfolding j by (auto simp: upd_esme_def bind_eq_Some_conv)
  have inv: "server_inv D t" unfolding t' using pend(2) [OF e0] by (intro inv_pending_done assms(2) e0) simp
  have pdu: "get_pdu t p = Some q" using q t' by simp
  have paid: "server_inv D u" if "charge E j c t = Some (ok, v)"
    and "(if ok then forward_submission E p q j m v else reject_submission p q j SMPP_ESME_RSUBMITFAIL v) = Some u" for c ok u v
  proof -
    have "server_inv D v" "get_pdu v p = Some q"
      using charge_frame [OF that(1)] inv pdu by (simp_all add: same_but_db_inv same_but_db_pdu)
    with that(2) show ?thesis by (auto intro: inv_forward_submission inv_reject_submission split: if_splits)
  qed
  show ?thesis
    using r paid inv_reject_submission [OF _ inv pdu] by (auto simp: bind_eq_Some_conv split: if_splits prod.splits)
qed

section \<open>The router\<close>

lemma inv_bearerbox_routing_done:
  assumes "smpp_bearerbox_routing_done E b m rs s = Some s'" and "server_inv D s"
  shows "server_inv D s'"
proof -
  have ack: "smpp_bearerbox_acknowledge E x y st u = Some (ok, v) \<Longrightarrow> server_inv D u \<Longrightarrow> server_inv D v"
    for x y st ok and u v :: "'a server"
    using calm_inv [OF calm_acknowledge] by blast
  show ?thesis
  proof (cases "rs_status rs = SMPP_ESME_ROK")
    case True
    with assms(1) obtain r where r: "smpp_esme_find_best_receiver s (service m) = Some r"
      by (auto simp: smpp_bearerbox_routing_done_def Let_def bind_eq_Some_conv)
    show ?thesis
    proof (cases r)
      case None
      have "server_inv D (snd (smpp_database_add_message E s m))" using calm_inv [OF calm_db(1)] assms(2) by blast
      then show ?thesis
        using assms True r None by (auto simp: smpp_bearerbox_routing_done_def Let_def case_prod_beta split: if_splits intro: ack)
    next
      case (Some i)
      with assms(1) True r obtain ps t base where "msg_to_pdu_for E i m s = Some (ps, t)"
        and "queue_deliveries i base (case_option [] id ps) t = Some s'"
        by (auto simp: smpp_bearerbox_routing_done_def Let_def bind_eq_Some_conv)
      then show ?thesis using inv_queue_deliveries calm_inv [OF calm_msg_to_pdu] assms(2) by blast
    qed
  qed (use assms ack in \<open>auto simp: smpp_bearerbox_routing_done_def Let_def\<close>)
qed

lemma inv_requeue_routing_done:
  assumes "smpp_bearerbox_requeue_routing_done E dm rs s = Some s'" and "server_inv D s"
  shows "server_inv D s'"
proof -
  have rm: "server_inv D (snd (smpp_database_remove E s n b))" for n b using calm_inv [OF calm_db(9)] assms(2) by blast
  from assms(1) obtain m where m: "(if rs_status rs = SMPP_ESME_ROK then do {
        r \<leftarrow> smpp_esme_find_best_receiver s (service m);
        (case r of
           Some i \<Rightarrow> do {
             (ps, s) \<leftarrow> msg_to_pdu_for E i m s;
             ds \<leftarrow> ps;
             queue_deliveries i (smpp_queued_pdu_create\<lparr>q_server := True, q_global_id := dm_global_id dm\<rparr>) ds s }
         | None \<Rightarrow> Some (snd (smpp_database_remove E s (dm_global_id dm) True))) }
      else Some (snd (smpp_database_remove E s (dm_global_id dm) False))) = Some s'"
    unfolding smpp_bearerbox_requeue_routing_done_def bind_eq_Some_conv by blast
  show ?thesis
  proof (cases "\<exists>i ds t base. msg_to_pdu_for E i m s = Some (Some ds, t) \<and> queue_deliveries i base ds t = Some s'")
    case True
    then show ?thesis using inv_queue_deliveries calm_inv [OF calm_msg_to_pdu] assms(2) by blast
  next
    case False
    then show ?thesis using m rm by (auto simp: bind_eq_Some_conv split: if_splits option.splits prod.splits)
  qed
qed

lemma inv_route_answer:
  assumes "route_answer E cb m rs s = Some s'" and "server_inv D s" and "pend_ok cb s"
  shows "server_inv D s'"
proof -
  from assms(1) obtain cb' t where cb': "set_callback_msg cb m s = Some (cb', t)" and r: "run_route_callback E cb' rs t = Some s'"
    by (auto simp: route_answer_def bind_eq_Some_conv)
  have c: "calm s t" "cb_claim cb' = cb_claim cb"
    using cb' by (auto simp: set_callback_msg_def bind_eq_Some_conv cb_claim_def intro!: calm_put_pdu split: route_callback.splits)
  have inv: "server_inv D t" using calm_inv [OF c(1) assms(2)] .
  have pend: "pend_ok cb t" using pend_ok_calm [OF c(1) assms(3)] .
  have sub: "server_inv D s'" if "submission_routing_done E p rs t = Some s'" "cb_claim cb' = Some (p, i)" for p i
    using pend that c(2) by (intro inv_submission_routing_done [OF that(1) inv, of i]) (auto simp: pend_ok_def)
  show ?thesis
    using r sub inv inv_bearerbox_routing_done inv_requeue_routing_done
    by (cases cb') (auto simp: run_route_callback_def smpp_queues_submit_routing_done_def smpp_queues_data_sm_routing_done_def cb_claim_def)
qed

lemma calm_route_database: "route_database E dir smsc sid m s = (rs, m', s') \<Longrightarrow> calm s s'"
  by (auto simp: route_database_def outbound_routes_for_def Let_def calm_frame split: if_splits option.splits sum.splits prod.splits)

lemma inv_route_message:
  assumes "smpp_route_message E dir smsc sid m cb s = Some s'" and "server_inv D s" and "pend_ok cb s"
  shows "server_inv D s'"
proof (cases "s_routing_method s")
  case Route_database
  obtain rs m' t where t: "route_database E dir smsc sid m s = (rs, m', t)" using prod_cases3 by blast
  with assms(1) Route_database have "route_answer E cb m' rs t = Some s'"
    by (simp add: smpp_route_message_def smpp_route_message_database_def)
  then show ?thesis
    using inv_route_answer calm_inv [OF calm_route_database [OF t] assms(2)] pend_ok_calm [OF calm_route_database [OF t] assms(3)] by blast
qed (use assms inv_push_pending in \<open>auto simp: smpp_route_message_def\<close>)

end
