(* ===== verification/ThreadInv.thy ===== *)
theory ThreadInv
  imports RoutingInv
begin

text \<open>
  Preservation of the invariant by the handlers, by one iteration of each thread, by the read
  event of a connection and by a round of the cleanup thread.
\<close>

section \<open>Dequeueing\<close>

lemma entries_of_remove:
  assumes "n < length xs" and "xs ! n = (p, i)"
  shows "entries_of j (take n xs @ drop (Suc n) xs) = (if j = i then entries_of j xs - 1 else entries_of j xs)"
    and "set (take n xs @ drop (Suc n) xs) \<subseteq> set xs" and "0 < entries_of i xs"
proof -
  have "xs = take n xs @ (p, i) # drop (Suc n) xs" using assms id_take_nth_drop by fastforce
  then have "entries_of j xs = entries_of j (take n xs) + entries_of j ((p, i) # drop (Suc n) xs)" for j
    by (metis entries_of_simps(2))
  then show "entries_of j (take n xs @ drop (Suc n) xs) = (if j = i then entries_of j xs - 1 else entries_of j xs)"
    and "0 < entries_of i xs" by simp_all
  show "set (take n xs @ drop (Suc n) xs) \<subseteq> set xs" by (auto dest: in_set_takeD in_set_dropD)
qed

text \<open>Taking an entry from one of the two queues and counting it on the ESME keeps the invariant.\<close>

lemma inv_dequeue:
  assumes inv: "server_inv D s" and e: "get_esme s i = Some e"
    and s': "\<And>j. get_esme s' j = (if j = i then Some e' else get_esme s j)" "get_pdu s' = get_pdu s"
      "s_simulation_queue s' = s_simulation_queue s" "s_pending_routes s' = s_pending_routes s"
      "s_next_pdu s' = s_next_pdu s" "s_esmes s' = s_esmes s" "s_cleanup_queue s' = s_cleanup_queue s"
      "s_esme_counter s' = s_esme_counter s"
      "set (s_outbound_queue s') \<subseteq> set (s_outbound_queue s)" "set (s_inbound_queue s') \<subseteq> set (s_inbound_queue s)"
    and cnt: "\<And>j. j \<noteq> i \<Longrightarrow> entries_of j (s_outbound_queue s') = entries_of j (s_outbound_queue s)"
      "\<And>j. j \<noteq> i \<Longrightarrow> entries_of j (s_inbound_queue s') = entries_of j (s_inbound_queue s)"
      "e_outbound_queued e' = entries_of i (s_outbound_queue s')" "e_inbound_queued e' = entries_of i (s_inbound_queue s')"
    and e': "e_pending_routing e' = e_pending_routing e" "e_connected e' = e_connected e"
      "e_authenticated e' = e_authenticated e" "e_global e' = e_global e" "e_open_acks e' = e_open_acks e"
  shows "server_inv D s'"
proof -
  have parts: "pdus_ok s" "simulation_ok s" "esmes_ok s" "binds_ok s" "cleanup_ok D s"
    using inv by (auto simp: server_inv_def)
  have ack: "ack_claim s' r j = ack_claim s r j" for r j
    using e e'(5) unfolding ack_claim_def s'(1) by auto
  have pc: "pending_claims s' = pending_claims s" by (simp add: pending_claims_def s')
  have qc: "queue_claims s' \<subseteq> queue_claims s" using s'(9,10) by (auto simp: queue_claims_def pc)
  have claim: "claim s' r j \<Longrightarrow> claim s r j" for r j using ack [of r j] qc by (auto simp: claim_def)
  have "pdus_ok s'" using parts(1) by (auto simp: pdus_ok_def s' dest!: claim)
  moreover have "simulation_ok s'" using parts(2) by (auto simp: simulation_ok_def s' dest!: claim)
  moreover have "esmes_ok s'" unfolding esmes_ok_def pc
  proof (intro conjI allI impI)
    fix p j assume "(p, j) \<in> queue_claims s'"
    then show "get_esme s' j \<noteq> None" using qc parts(3) unfolding esmes_ok_def s'(1) by (auto split: if_splits)
  next
    fix j x assume x: "get_esme s' j = Some x"
    then obtain y where "get_esme s j = Some y" using e by (auto simp: s'(1) split: if_splits)
    then have y: "j < s_esme_counter s" "e_outbound_queued y = entries_of j (s_outbound_queue s)"
      "e_inbound_queued y = entries_of j (s_inbound_queue s)" "entries_of j (pending_claims s) \<le> e_pending_routing y"
      "j \<noteq> i \<Longrightarrow> x = y" "j = i \<Longrightarrow> x = e' \<and> y = e"
      using parts(3) x e unfolding esmes_ok_def by (auto simp: s'(1))
    then show "j < s_esme_counter s'" "e_outbound_queued x = entries_of j (s_outbound_queue s')"
      "e_inbound_queued x = entries_of j (s_inbound_queue s')" "entries_of j (pending_claims s) \<le> e_pending_routing x"
      using cnt e'(1) by (cases "j = i"; simp add: s')+
  qed
  moreover have "binds_ok s'" using parts(4) e unfolding binds_ok_def s' by (metis e'(3,4) option.inject)
  moreover have "cleanup_ok D s'" using parts(5) e unfolding cleanup_ok_def s' by (metis e'(2) option.inject)
  ultimately show ?thesis by (simp add: server_inv_def)
qed

lemma inv_queue_entry:
  assumes "server_inv D s" and "(p, i) \<in> queue_claims s" and "get_pdu s p = Some q"
  shows "q_esme q = Some i" and "\<exists>e. get_esme s i = Some e"
    and "\<And>e. get_esme s i = Some e \<Longrightarrow> e_outbound_queued e = entries_of i (s_outbound_queue s)
       \<and> e_inbound_queued e = entries_of i (s_inbound_queue s)"
  using assms unfolding server_inv_def pdus_ok_def esmes_ok_def claim_def by (blast, meson not_None_eq, blast)

section \<open>Handlers of ordinary PDUs\<close>

lemma inv_handle_enquire_link:
  "smpp_queues_handle_enquire_link p i n s = Some s' \<Longrightarrow> server_inv D s \<Longrightarrow> server_inv D s'"
  by (auto simp: smpp_queues_handle_enquire_link_def bind_eq_Some_conv intro: inv_respond_plain elim!: inv_destroy_pdu)

lemma inv_handle_unbind: "smpp_queues_handle_unbind p i n s = Some s' \<Longrightarrow> server_inv D s \<Longrightarrow> server_inv D s'"
  by (auto simp: smpp_queues_handle_unbind_def bind_eq_Some_conv intro: inv_respond_plain elim!: inv_destroy_pdu)

lemma simulation_push_inv:
  assumes "server_inv D s" and q: "get_pdu s p = Some q" "q_esme q = None" and new: "p \<notin> set (s_simulation_queue s)"
    and free: "\<And>i. \<not> claim s p i"
  shows "server_inv D (s\<lparr>s_simulation_queue := s_simulation_queue s @ [p]\<rparr>)"
proof -
  let ?s = "s\<lparr>s_simulation_queue := s_simulation_queue s @ [p]\<rparr>"
  have c: "claim ?s = claim s" "queue_claims ?s = queue_claims s" "pending_claims ?s = pending_claims s"
    "get_esme ?s = get_esme s" "get_pdu ?s = get_pdu s"
    by (simp_all add: claim_defs fun_eq_iff get_esme_def get_pdu_def)
  have "p < s_next_pdu s" using assms(1) q by (auto simp: server_inv_def pdus_ok_def)
  then show ?thesis using assms by (auto simp: server_inv_def inv_parts c)
qed

lemma inv_push_simulation: "server_inv D s \<Longrightarrow> server_inv D (push_simulation sid ds s)"
proof (induction sid ds s rule: push_simulation.induct)
  case (2 sid d ds s)
  obtain p t where t: "alloc_pdu (smpp_queued_pdu_create\<lparr>q_pdu := Some d, q_system_id := sid\<rparr>) s = (p, t)" by fastforce
  note f = alloc_pdu_fields [OF t]
  have inv: "server_inv D t" using inv_alloc_pdu [OF t "2.prems"] .
  have "claim t = claim s" by (simp add: claim_defs fun_eq_iff f)
  then have "\<not> claim t p i" for i using inv_fresh_no_claim [OF "2.prems"] f(1) by simp
  moreover have "p \<notin> set (s_simulation_queue t)" using "2.prems" f by (auto simp: server_inv_def simulation_ok_def)
  ultimately have "server_inv D (t\<lparr>s_simulation_queue := s_simulation_queue t @ [p]\<rparr>)"
    by (intro simulation_push_inv [OF inv]) (auto simp: f smpp_queued_pdu_create_def)
  from "2.IH" [OF refl t [symmetric] this] t show ?case by simp
qed simp

lemma inv_simulate_dlr: "simulate_dlr E i m s = Some s' \<Longrightarrow> server_inv D s \<Longrightarrow> server_inv D s'"
  by (auto simp: simulate_dlr_def Let_def bind_eq_Some_conv intro!: inv_push_simulation elim!: calm_inv [OF calm_msg_to_pdu])

lemma inv_simulate_mo: "simulate_mo E i m s = Some s' \<Longrightarrow> server_inv D s \<Longrightarrow> server_inv D s'"
  by (auto simp: simulate_mo_def Let_def bind_eq_Some_conv intro!: inv_push_simulation elim!: calm_inv [OF calm_msg_to_pdu])

lemma inv_simulate_accept:
  assumes "simulate_accept E i seq n m s = Some s'" and "server_inv D s"
  shows "server_inv D s'"
proof -
  from assms(1) obtain t e resp m1 u v dlr sim where t: "count_traffic count_mt i s = Some t"
    and u: "(if dlr then do { s \<leftarrow> respond i resp t; simulate_dlr E i m1 s } else Some t) = Some u"
    and v: "(if sim then simulate_mo E i m1 u else Some u) = Some v"
    and r: "(if dlr then Some v else respond i resp v) = Some s'"
    unfolding simulate_accept_def Let_def bind_eq_Some_conv by blast
  have "server_inv D t" using calm_inv [OF calm_count_traffic [OF t] assms(2)] .
  then have "server_inv D u" using u by (auto simp: bind_eq_Some_conv intro: inv_simulate_dlr inv_respond split: if_splits)
  then have "server_inv D v" using v by (auto intro: inv_simulate_mo split: if_splits)
  then show ?thesis using r by (auto intro: inv_respond split: if_splits)
qed

lemma inv_fresh_uuid [simp]: "server_inv D (snd (fresh_uuid s)) = server_inv D s"
  by (simp add: fresh_uuid_def)

lemma inv_simulate_submit:
  assumes "simulate_submit E i seq b s = Some s'" and "server_inv D s"
  shows "server_inv D s'"
proof -
  have err: "server_inv D v" if "count_traffic count_error i s = Some u" "respond i r u = Some v" for u v r
    using calm_inv [OF calm_count_traffic [OF that(1)] assms(2)] inv_respond [OF that(2)] by simp
  have conv: "server_inv D s'" if "(case r of Inl reason \<Rightarrow> respond i (Submit_sm_resp seq reason None) (snd (fresh_uuid s))
      | Inr m \<Rightarrow> simulate_accept E i seq n m (snd (fresh_uuid s))) = Some s'" for r n
    using that assms(2) by (cases r) (auto intro: inv_respond inv_simulate_accept)
  from assms(1) show ?thesis
    unfolding simulate_submit_def Let_def bind_eq_Some_conv case_prod_beta
    by (elim exE conjE) (auto simp: bind_eq_Some_conv split: if_splits intro: err conv)
qed

text \<open>A submission that reaches the router.\<close>

lemma inv_route_submission:
  assumes "route_submission E i resp cb m s = Some s'" and "server_inv D s"
    and cb: "\<And>p i. cb_claim (cb p i) = Some (p, i)"
  shows "server_inv D s'"
proof -
  from assms(1) obtain e where e: "get_esme s i = Some e" by (auto simp: route_submission_def bind_eq_Some_conv)
  let ?m = "smpp_queues_msg_set_dlr_url (ev_gw E) (ev_now E) e
    (if 0 < octstr_len (e_default_smsc e) then m\<lparr>smsc_id := e_default_smsc e\<rparr> else m)"
  let ?q = "(smpp_queued_pdu_create_quick i e (resp (gw_uuid_unparse (ev_gw E) (sms_id ?m))))\<lparr>q_msg := Msg_own ?m\<rparr>"
  obtain r t where t: "alloc_pdu ?q s = (r, t)" by fastforce
  note f = alloc_pdu_fields [OF t]
  let ?inc = "\<lambda>e :: esme. e\<lparr>e_pending_routing := e_pending_routing e + 1\<rparr>"
  from assms(1) e t obtain u where u: "upd_esme i ?inc t = Some u"
    and rt: "smpp_route_message E SMPP_ROUTE_DIRECTION_OUTBOUND None (e_system_id e) ?m (cb r i) u = Some s'"
    by (auto simp: route_submission_def bind_eq_Some_conv Let_def)
  have inv_t: "server_inv D t" using inv_alloc_pdu [OF t assms(2)] .
  have c: "calm t u" using u by (rule calm_upd_esme) (rule harmless_updates)
  have u': "u = put_esme i (?inc e) t" using u e f(10) [of i] by (simp add: upd_esme_def)
  have "entries_of i (pending_claims s) \<le> e_pending_routing e" using assms(2) e by (auto simp: server_inv_def esmes_ok_def)
  then have "entries_of i (pending_claims u) < e_pending_routing (?inc e)" by (simp add: u' pending_claims_def f)
  moreover have "r \<notin> set (s_simulation_queue u)" using assms(2) by (auto simp: u' f server_inv_def simulation_ok_def)
  ultimately have "pend_ok (cb r i) u"
    by (auto simp: pend_ok_def cb u' f smpp_queued_pdu_create_quick_def)
  then show ?thesis by (rule inv_route_message [OF rt calm_inv [OF c inv_t]])
qed

lemma inv_handle_submit_sm:
  assumes "smpp_queues_handle_submit_sm E p i seq b s = Some s'" and "server_inv D s"
  shows "server_inv D s'"
proof -
  from assms(1) obtain e t where t: "(if \<not> can_transmit (e_bind_type e) then respond i (Submit_sm_resp seq SMPP_ESME_RINVBNDSTS None) s
          else do {
            g \<leftarrow> get_global s i;
            (if throttled E g then respond i (Submit_sm_resp seq SMPP_ESME_RTHROTTLED None) s
             else do {
               s \<leftarrow> smpp_esme_inbound_load_increase E i s;
               (if sim_on (e_simulation e) then simulate_submit E i seq b s
                else
                  let (u, s) = fresh_uuid s in
                  (case smpp_submit_sm_to_msg (ev_gw E) (ev_now E) u e b of
                     Inl reason \<Rightarrow> respond i (Submit_sm_resp seq reason None) s
                   | Inr m \<Rightarrow> route_submission E i (\<lambda>mid. Submit_sm_resp seq SMPP_ESME_ROK (Some mid)) RCb_submit_sm m s)) }) }) = Some t"
    and d: "smpp_queued_pdu_destroy p t = Some s'"
    unfolding smpp_queues_handle_submit_sm_def bind_eq_Some_conv by blast
  have load: "server_inv D u" if "smpp_esme_inbound_load_increase E i s = Some u" for u
    using calm_inv [OF calm_inbound_load [OF that] assms(2)] .
  have conv: "server_inv D t" if "server_inv D u" and "(case r of Inl reason \<Rightarrow> respond i (Submit_sm_resp seq reason None) (snd (fresh_uuid u))
      | Inr m \<Rightarrow> route_submission E i (\<lambda>mid. Submit_sm_resp seq SMPP_ESME_ROK (Some mid)) RCb_submit_sm m (snd (fresh_uuid u))) = Some t" for r u
    using that by (cases r) (auto intro: inv_respond inv_route_submission simp: cb_claim_def)
  have "server_inv D t"
    using t assms(2) unfolding Let_def case_prod_beta bind_eq_Some_conv
    by (auto simp: bind_eq_Some_conv split: if_splits intro: inv_respond inv_simulate_submit load conv)
  then show ?thesis by (rule inv_destroy_pdu [OF d])
qed

lemma inv_handle_data_sm:
  assumes "smpp_queues_handle_data_sm E p i seq b s = Some s'" and "server_inv D s"
  shows "server_inv D s'"
proof -
  from assms(1) obtain e t where t: "(if \<not> can_transmit (e_bind_type e) then respond i (Data_sm_resp seq SMPP_ESME_RINVBNDSTS None) s
          else do {
            g \<leftarrow> get_global s i;
            (if throttled E g then respond i (Data_sm_resp seq SMPP_ESME_RTHROTTLED None) s
             else do {
               s \<leftarrow> smpp_esme_inbound_load_increase E i s;
               let (u, s) = fresh_uuid s;
               (case smpp_data_sm_to_msg (ev_gw E) (ev_now E) u e b of
                  Inl reason \<Rightarrow> respond i (Data_sm_resp seq reason None) s
                | Inr m \<Rightarrow> route_submission E i (\<lambda>mid. Data_sm_resp seq SMPP_ESME_ROK (Some mid)) RCb_data_sm m s) }) }) = Some t"
    and d: "smpp_queued_pdu_destroy p t = Some s'"
    unfolding smpp_queues_handle_data_sm_def bind_eq_Some_conv by blast
  have load: "server_inv D u" if "smpp_esme_inbound_load_increase E i s = Some u" for u
    using calm_inv [OF calm_inbound_load [OF that] assms(2)] .
  have conv: "server_inv D t" if "server_inv D u" and "(case r of Inl reason \<Rightarrow> respond i (Data_sm_resp seq reason None) (snd (fresh_uuid u))
      | Inr m \<Rightarrow> route_submission E i (\<lambda>mid. Data_sm_resp seq SMPP_ESME_ROK (Some mid)) RCb_data_sm m (snd (fresh_uuid u))) = Some t" for r u
    using that by (cases r) (auto intro: inv_respond inv_route_submission simp: cb_claim_def)
  have "server_inv D t"
    using t assms(2) unfolding Let_def case_prod_beta bind_eq_Some_conv
    by (auto simp: bind_eq_Some_conv split: if_splits intro: inv_respond load conv)
  then show ?thesis by (rule inv_destroy_pdu [OF d])
qed

section \<open>Binding\<close>

definition unbound :: "nat \<Rightarrow> 'd server \<Rightarrow> bool" where
  "unbound i s \<longleftrightarrow> (\<forall>k g. dict_get (s_esmes s) k = Some g \<longrightarrow> i \<notin> set (g_binds g))"

lemma unauthenticated_unbound:
  "server_inv D s \<Longrightarrow> get_esme s i = Some e \<Longrightarrow> \<not> e_authenticated e \<Longrightarrow> unbound i s"
  unfolding server_inv_def binds_ok_def unbound_def by fastforce

lemma inv_put_unbound:
  assumes "server_inv D s" and "get_esme s i = Some e" and "unbound i s"
    and e': "e_outbound_queued e' = e_outbound_queued e" "e_inbound_queued e' = e_inbound_queued e"
      "e_pending_routing e' = e_pending_routing e" "e_connected e' = e_connected e" "e_open_acks e' = e_open_acks e"
  shows "server_inv D (put_esme i e' s)"
proof -
  let ?s = "put_esme i e' s"
  have parts: "pdus_ok s" "simulation_ok s" "esmes_ok s" "binds_ok s" "cleanup_ok D s"
    using assms(1) by (auto simp: server_inv_def)
  have claim: "claim ?s r j \<Longrightarrow> claim s r j" for r j
    using ack_claim_put [OF assms(2), of e' r j] e'(5) by (auto simp: claim_def)
  have "pdus_ok ?s" using parts(1) by (auto simp: pdus_ok_def dest!: claim)
  moreover have "simulation_ok ?s" using parts(2) by (auto simp: simulation_ok_def dest!: claim)
  moreover have "esmes_ok ?s" using parts(3) assms(2) by (auto simp: esmes_ok_def e')
  moreover have "binds_ok ?s" using parts(4) assms(3) unfolding binds_ok_def unbound_def by auto
  moreover have "cleanup_ok D ?s" using parts(5) assms(2) by (fastforce simp: cleanup_ok_def e')
  ultimately show ?thesis by (simp add: server_inv_def)
qed

lemma inv_add_bind:
  assumes "server_inv D s" and e: "get_esme s i = Some e" "e_authenticated e" "e_global e = Some k" and "unbound i s"
    and g: "g_binds g' = (case dict_get (s_esmes s) k of None \<Rightarrow> [] | Some g \<Rightarrow> g_binds g) @ [i]"
  shows "server_inv D (s\<lparr>s_esmes := dict_put (s_esmes s) k g'\<rparr>)"
proof -
  let ?s = "s\<lparr>s_esmes := dict_put (s_esmes s) k g'\<rparr>"
  have c: "claim ?s = claim s" "queue_claims ?s = queue_claims s" "pending_claims ?s = pending_claims s"
    "get_esme ?s = get_esme s" "get_pdu ?s = get_pdu s"
    by (simp_all add: claim_defs fun_eq_iff get_esme_def get_pdu_def)
  have "binds_ok ?s" unfolding binds_ok_def c
  proof (intro allI impI)
    fix k2 g2 assume g2: "dict_get (s_esmes ?s) k2 = Some g2"
    show "distinct (g_binds g2) \<and> (\<forall>j \<in> set (g_binds g2). \<exists>e. get_esme s j = Some e \<and> e_authenticated e \<and> e_global e = Some k2)"
      using assms(1,5) e g g2 unfolding server_inv_def binds_ok_def unbound_def
      by (cases "k2 = k"; cases "dict_get (s_esmes s) k") auto
  qed
  with assms(1) show ?thesis by (simp add: server_inv_def pdus_ok_def simulation_ok_def esmes_ok_def cleanup_ok_def c)
qed

lemma inv_global_add:
  assumes "smpp_esme_global_add i s = Some s'" and "server_inv D s" and e: "get_esme s i = Some e" "e_authenticated e"
    and "unbound i s"
  shows "server_inv D s'"
proof -
  let ?k = "case_option [] id (e_system_id e)"
  define g0 where "g0 = (case dict_get (s_esmes s) ?k of
                Some g \<Rightarrow> g
              | None \<Rightarrow> smpp_esme_global_create
                  \<lparr>g_system_id := Some ?k, g_database_store_primary := c_database_store_primary (s_cfg s)\<rparr>)"
  define g' where "g' = g0\<lparr>g_binds := g_binds g0 @ [i]\<rparr>"
  have g': "g_binds g' = (case dict_get (s_esmes s) ?k of None \<Rightarrow> [] | Some g \<Rightarrow> g_binds g) @ [i]"
    by (simp add: g'_def g0_def smpp_esme_global_create_def split: option.splits)
  have s': "s' = put_esme i (e\<lparr>e_global := Some ?k\<rparr>) (s\<lparr>s_esmes := dict_put (s_esmes s) ?k g'\<rparr>)"
    using assms(1) e unfolding smpp_esme_global_add_def Let_def g0_def [symmetric] g'_def [symmetric]
    by (simp add: upd_esme_def get_esme_def g0_def [symmetric] g'_def [symmetric])
  let ?t = "put_esme i (e\<lparr>e_global := Some ?k\<rparr>) s"
  have t: "server_inv D ?t" by (rule inv_put_unbound [OF assms(2) e(1) assms(5)]) simp_all
  have "server_inv D (?t\<lparr>s_esmes := dict_put (s_esmes ?t) ?k g'\<rparr>)"
    by (rule inv_add_bind [OF t, where e = "e\<lparr>e_global := Some ?k\<rparr>"]) (use e g' assms(5) in \<open>simp_all add: unbound_def\<close>)
  moreover have "s' = ?t\<lparr>s_esmes := dict_put (s_esmes ?t) ?k g'\<rparr>" by (simp add: s' put_esme_def)
  ultimately show ?thesis by simp
qed

lemma inv_apply_auth_result: "apply_auth_result i a s = Some s' \<Longrightarrow> server_inv D s \<Longrightarrow> server_inv D s'"
  unfolding apply_auth_result_def bind_eq_Some_conv
  by (elim exE conjE, rule inv_upd_global, assumption, rule inv_upd_esme) (auto simp: harmless_def)

lemma inv_auth:
  assumes "smpp_esme_auth E sid pw i s = Some (r, s')"
  shows "server_inv D s' = server_inv D s" "get_esme s' = get_esme s" "s_esmes s' = s_esmes s"
  using esme_auth_frame [OF assms] by (auto simp: get_esme_def fun_eq_iff)

lemma inv_handle_bind:
  assumes "handle_bind E p i resp bt b s = Some s'" and "server_inv D s"
    and e: "get_esme s i = Some e" "\<not> e_authenticated e"
  shows "server_inv D s'"
proof -
  from assms(1) obtain r t u where t: "smpp_esme_auth E (b_system_id b) (b_password b) i s = Some (r, t)"
    and u: "(case r of
            None \<Rightarrow> do {
              s \<leftarrow> upd_esme i (\<lambda>e. e\<lparr>e_pending_disconnect := True\<rparr>) t;
              respond_plain i (resp SMPP_ESME_RBINDFAIL None) True s }
          | Some a \<Rightarrow> do {
              s \<leftarrow> upd_esme i (\<lambda>e. e\<lparr>e_bind_type := bt, e_authenticated := True, e_system_id := b_system_id b,
                                   e_version := b_interface_version b\<rparr>) t;
              s \<leftarrow> smpp_esme_global_add i s;
              s \<leftarrow> respond_plain i (resp SMPP_ESME_ROK (c_server_id (s_cfg s))) False s;
              apply_auth_result i a s }) = Some u"
    and d: "smpp_queued_pdu_destroy p u = Some s'"
    unfolding handle_bind_def bind_eq_Some_conv by (auto simp: bind_eq_Some_conv)
  note a = inv_auth [OF t]
  have inv: "server_inv D t" and et: "get_esme t i = Some e" using a assms(2) e by simp_all
  have ub: "unbound i t" using unauthenticated_unbound [OF inv et e(2)] .
  have "server_inv D u"
  proof (cases r)
    case None
    with u obtain v where "upd_esme i (\<lambda>e. e\<lparr>e_pending_disconnect := True\<rparr>) t = Some v"
      "respond_plain i (resp SMPP_ESME_RBINDFAIL None) True v = Some u" by (auto simp: bind_eq_Some_conv)
    then show ?thesis using inv by (auto elim!: inv_respond_plain intro: inv_upd_esme)
  next
    case (Some acc)
    let ?e = "e\<lparr>e_bind_type := bt, e_authenticated := True, e_system_id := b_system_id b, e_version := b_interface_version b\<rparr>"
    from u Some et obtain v w where v: "smpp_esme_global_add i (put_esme i ?e t) = Some v"
      and w: "respond_plain i (resp SMPP_ESME_ROK (c_server_id (s_cfg v))) False v = Some w" "apply_auth_result i acc w = Some u"
      by (auto simp: bind_eq_Some_conv upd_esme_def)
    have "server_inv D (put_esme i ?e t)" by (rule inv_put_unbound [OF inv et ub]) simp_all
    then have "server_inv D v"
      by (rule inv_global_add [OF v, where e = ?e]) (use ub in \<open>simp_all add: unbound_def\<close>)
    then show ?thesis using inv_respond_plain [OF w(1)] inv_apply_auth_result [OF w(2)] by simp
  qed
  then show ?thesis by (rule inv_destroy_pdu [OF d])
qed

section \<open>The queue threads\<close>

text \<open>
  A connection that binds twice would be listed twice in the binds, which the cleanup thread does
  not expect: a second bind is excluded here.
\<close>

definition is_bind :: "pdu \<Rightarrow> bool" where
  "is_bind pd = (case pd of Bind_transmitter _ _ \<Rightarrow> True | Bind_transceiver _ _ \<Rightarrow> True | Bind_receiver _ _ \<Rightarrow> True | _ \<Rightarrow> False)"

definition first_bind :: "nat \<Rightarrow> 'd server \<Rightarrow> bool" where
  "first_bind n s \<longleftrightarrow> (\<forall>q i e pd. n < length (s_inbound_queue s) \<longrightarrow> get_pdu s (fst (s_inbound_queue s ! n)) = Some q \<longrightarrow>
     q_esme q = Some i \<longrightarrow> get_esme s i = Some e \<longrightarrow> q_pdu q = Some pd \<longrightarrow> is_bind pd \<longrightarrow> \<not> e_authenticated e)"

lemma inv_dispatch_inbound:
  assumes "dispatch_inbound E p i pd s = Some s'" and "server_inv D s" and "get_esme s i = Some e"
    and "is_bind pd \<Longrightarrow> \<not> e_authenticated e"
  shows "server_inv D s'"
proof -
  have ack: "server_inv D s'" if "smpp_queues_process_ack E i n st s = Some t" "smpp_queued_pdu_destroy p t = Some s'" for n st t
    using calm_inv [OF calm_process_ack [OF that(1)] assms(2)] inv_destroy_pdu [OF that(2)] by simp
  show ?thesis
    using assms ack
    by (cases pd)
       (auto simp: dispatch_inbound_def is_bind_def smpp_queues_handle_bind_pdu_def bind_eq_Some_conv
         intro: inv_handle_bind inv_handle_enquire_link inv_handle_unbind inv_handle_submit_sm inv_handle_data_sm inv_destroy_pdu)
qed

text \<open>The entry a round of the inbound thread takes, and the state its handler starts in.\<close>

lemma inbound_entry:
  assumes "smpp_queues_inbound_thread E n s = Some s'" and "server_inv D s" and "n < length (s_inbound_queue s)"
  obtains p i q pd e u where "fst (s_inbound_queue s ! n) = p" "get_pdu s p = Some q" "q_pdu q = Some pd" "q_esme q = Some i"
    "get_esme s i = Some e"
    "u = put_esme i (e\<lparr>e_time_last_pdu := ev_now E, e_time_last_queue_process := ev_now E,
           e_inbound_queued := e_inbound_queued e - 1, e_inbound_processed := e_inbound_processed e + 1\<rparr>)
         (s\<lparr>s_inbound_queue := take n (s_inbound_queue s) @ drop (Suc n) (s_inbound_queue s)\<rparr>)"
    "server_inv D u" "dispatch_inbound E p i pd u = Some s'"
proof -
  let ?upd = "\<lambda>e :: esme. e\<lparr>e_time_last_pdu := ev_now E, e_time_last_queue_process := ev_now E,
     e_inbound_queued := e_inbound_queued e - 1, e_inbound_processed := e_inbound_processed e + 1\<rparr>"
  let ?t = "s\<lparr>s_inbound_queue := take n (s_inbound_queue s) @ drop (Suc n) (s_inbound_queue s)\<rparr>"
  obtain p i0 where entry: "s_inbound_queue s ! n = (p, i0)" by fastforce
  from assms(1,3) entry obtain q i pd e where q: "get_pdu s p = Some q" "q_esme q = Some i" "q_pdu q = Some pd"
    and e: "get_esme s i = Some e" and d: "dispatch_inbound E p i pd (put_esme i (?upd e) ?t) = Some s'"
    by (auto simp: smpp_queues_inbound_thread_def Let_def bind_eq_Some_conv upd_esme_def get_esme_def get_pdu_def)
  have cl: "(p, i0) \<in> queue_claims s" using assms(3) entry nth_mem by (fastforce simp: queue_claims_def)
  note qe = inv_queue_entry [OF assms(2) cl q(1)]
  have i: "i0 = i" using qe(1) q(2) by simp
  note rm = entries_of_remove [OF assms(3) entry]
  have "server_inv D (put_esme i (?upd e) ?t)"
    by (rule inv_dequeue [OF assms(2) e, where e' = "?upd e"])
       (use qe(3) e rm i in \<open>auto simp: get_esme_def get_pdu_def put_esme_def fun_eq_iff\<close>)
  then show thesis using that entry q e d by simp
qed

lemma inv_inbound_thread:
  assumes "smpp_queues_inbound_thread E n s = Some s'" and "server_inv D s" and "first_bind n s"
  shows "server_inv D s'"
proof (cases "n < length (s_inbound_queue s)")
  case True
  show ?thesis
    using assms(1,2) True
  proof (cases rule: inbound_entry)
    case (1 p i q pd e u)
    have "is_bind pd \<Longrightarrow> \<not> e_authenticated e" using assms(3) True 1(1-5) by (auto simp: first_bind_def)
    moreover have "\<exists>x. get_esme u i = Some x \<and> e_authenticated x = e_authenticated e" by (simp add: 1(6))
    ultimately show ?thesis using inv_dispatch_inbound [OF 1(8,7)] by fastforce
  qed
qed (use assms in \<open>simp add: smpp_queues_inbound_thread_def\<close>)

lemma inv_cleanup:
  assumes "smpp_esme_cleanup i s = Some s'" and "server_inv D s"
  shows "server_inv D s'"
proof -
  from assms(1) obtain t u where t: "smpp_esme_stop_listening i s = Some t" and u: "upd_esme i (\<lambda>e. e\<lparr>e_connected := False\<rparr>) t = Some u"
    and s': "s' = u\<lparr>s_cleanup_queue := append_unique (s_cleanup_queue u) i\<rparr>"
    by (auto simp: smpp_esme_cleanup_def bind_eq_Some_conv)
  have inv: "server_inv D u" using calm_inv [OF calm_trans [OF calm_stop_listening [OF t] calm_upd_esme [OF u]] assms(2)] by simp
  from u obtain e where e: "get_esme u i = Some e" "\<not> e_connected e" by (auto simp: upd_esme_def bind_eq_Some_conv)
  have c: "claim s' = claim u" "queue_claims s' = queue_claims u" "pending_claims s' = pending_claims u"
    "get_esme s' = get_esme u" "get_pdu s' = get_pdu u"
    by (simp_all add: s' claim_defs fun_eq_iff get_esme_def get_pdu_def)
  have "cleanup_ok D s'" using inv e unfolding server_inv_def cleanup_ok_def c by (auto simp: s' append_unique_def)
  moreover have "s_next_pdu s' = s_next_pdu u" "s_simulation_queue s' = s_simulation_queue u" "s_esmes s' = s_esmes u"
    "s_esme_counter s' = s_esme_counter u" "s_outbound_queue s' = s_outbound_queue u" "s_inbound_queue s' = s_inbound_queue u"
    by (simp_all add: s')
  then have "pdus_ok s' = pdus_ok u" "simulation_ok s' = simulation_ok u" "esmes_ok s' = esmes_ok u" "binds_ok s' = binds_ok u"
    by (simp_all add: pdus_ok_def simulation_ok_def esmes_ok_def binds_ok_def c)
  ultimately show ?thesis using inv by (simp add: server_inv_def)
qed

lemma inv_send_pdu: "smpp_queues_send_pdu E i pd s = Some s' \<Longrightarrow> server_inv D s \<Longrightarrow> server_inv D s'"
  by (auto simp: smpp_queues_send_pdu_def bind_eq_Some_conv split: option.splits if_splits)

lemma inv_log_response [simp]: "server_inv D (log_response E e q pd s) = server_inv D s"
  by (simp add: log_response_def split: pdu.splits)

lemma inv_outbound_thread:
  assumes "smpp_queues_outbound_thread E n s = Some s'" and "server_inv D s"
  shows "server_inv D s'"
proof (cases "n < length (s_outbound_queue s)")
  case True
  let ?upd = "\<lambda>e :: esme. e\<lparr>e_time_last_queue_process := ev_now E, e_outbound_queued := e_outbound_queued e - 1,
     e_outbound_processed := e_outbound_processed e + 1\<rparr>"
  let ?t = "s\<lparr>s_outbound_queue := take n (s_outbound_queue s) @ drop (Suc n) (s_outbound_queue s)\<rparr>"
  obtain p i0 where entry: "s_outbound_queue s ! n = (p, i0)" by fastforce
  from assms(1) True entry obtain q i e where q: "get_pdu s p = Some q" "q_esme q = Some i" and e: "get_esme s i = Some e"
    by (auto simp: smpp_queues_outbound_thread_def Let_def bind_eq_Some_conv upd_esme_def get_esme_def get_pdu_def)
  let ?u = "put_esme i (?upd e) ?t"
  have cl: "(p, i0) \<in> queue_claims s" using True entry nth_mem by (fastforce simp: queue_claims_def)
  note qe = inv_queue_entry [OF assms(2) cl q(1)]
  have i: "i0 = i" using qe(1) q(2) by simp
  note rm = entries_of_remove [OF True entry]
  have inv: "server_inv D ?u"
    by (rule inv_dequeue [OF assms(2) e, where e' = "?upd e"])
       (use qe(3) e rm i in \<open>auto simp: get_esme_def get_pdu_def put_esme_def fun_eq_iff\<close>)
  have pdu: "get_pdu ?u p = Some q" using q by (simp add: get_pdu_def put_esme_def)
  have r: "(if e_connected (?upd e) then do {
           pd \<leftarrow> q_pdu q;
           s \<leftarrow> (if q_disconnect q then smpp_esme_stop_listening i ?u else Some ?u);
           let s = (if q_callback q \<noteq> None then put_pdu p (q\<lparr>q_time_sent := ev_now E\<rparr>) s else s);
           let s = log_response E (?upd e) q pd s;
           s \<leftarrow> smpp_queues_send_pdu E i pd s;
           s \<leftarrow> (if q_disconnect q \<and> \<not> e_authenticated (?upd e) then smpp_esme_cleanup i s else Some s);
           (if q_callback q = None then smpp_queued_pdu_destroy p s else Some s) }
         else (if q_callback q = None then smpp_queued_pdu_destroy p ?u else Some ?u)) = Some s'"
  proof -
    have "get_pdu ?t p = Some q" "get_esme ?t i = Some e" using q(1) e by (simp_all add: get_pdu_def get_esme_def)
    with assms(1) True entry q(2) show ?thesis
      by (simp add: smpp_queues_outbound_thread_def Let_def upd_esme_def cong: if_cong)
  qed
  show ?thesis
  proof (cases "e_connected (?upd e)")
    case False
    then show ?thesis using r inv by (auto intro: inv_destroy_pdu split: if_splits)
  next
    case True
    with r obtain pd v w x where v: "(if q_disconnect q then smpp_esme_stop_listening i ?u else Some ?u) = Some v"
      and w: "smpp_queues_send_pdu E i pd (log_response E (?upd e) q pd
                (if q_callback q \<noteq> None then put_pdu p (q\<lparr>q_time_sent := ev_now E\<rparr>) v else v)) = Some w"
      and x: "(if q_disconnect q \<and> \<not> e_authenticated (?upd e) then smpp_esme_cleanup i w else Some w) = Some x"
      and y: "(if q_callback q = None then smpp_queued_pdu_destroy p x else Some x) = Some s'"
      unfolding Let_def bind_eq_Some_conv if_P [OF True] by blast
    have "server_inv D v" using v inv by (auto intro: calm_inv [OF calm_stop_listening] split: if_splits)
    moreover have "get_pdu v p = Some q"
      using v pdu by (auto simp: smpp_esme_stop_listening_def upd_esme_def bind_eq_Some_conv split: if_splits)
    ultimately have "server_inv D (if q_callback q \<noteq> None then put_pdu p (q\<lparr>q_time_sent := ev_now E\<rparr>) v else v)"
      by (auto intro: inv_put_pdu)
    then have "server_inv D w" using inv_send_pdu [OF w] by simp
    then have "server_inv D x" using x by (auto intro: inv_cleanup split: if_splits)
    then show ?thesis using y by (auto intro: inv_destroy_pdu split: if_splits)
  qed
qed (use assms in \<open>simp add: smpp_queues_outbound_thread_def\<close>)

lemma inv_simulation_take:
  assumes "server_inv D s" and n: "n < length (s_simulation_queue s)" "s_simulation_queue s ! n = p"
  defines "t \<equiv> s\<lparr>s_simulation_queue := take n (s_simulation_queue s) @ drop (Suc n) (s_simulation_queue s)\<rparr>"
  shows "server_inv D t" and "p \<notin> set (s_simulation_queue t)" and "\<not> claim t p i"
    and "get_pdu t p = Some q \<Longrightarrow> q_esme q = None"
proof -
  have split: "s_simulation_queue s = take n (s_simulation_queue s) @ p # drop (Suc n) (s_simulation_queue s)"
    using n id_take_nth_drop by fastforce
  have dist: "distinct (take n (s_simulation_queue s) @ p # drop (Suc n) (s_simulation_queue s))"
    using assms(1) split by (metis server_inv_def simulation_ok_def)
  have sub: "set (s_simulation_queue t) \<subseteq> set (s_simulation_queue s)" "distinct (s_simulation_queue t)"
    using dist by (auto simp: t_def dest: in_set_takeD in_set_dropD)
  have c: "claim t = claim s" "queue_claims t = queue_claims s" "pending_claims t = pending_claims s"
    "get_esme t = get_esme s" "get_pdu t = get_pdu s"
    by (simp_all add: t_def claim_defs fun_eq_iff get_esme_def get_pdu_def)
  have f: "s_next_pdu t = s_next_pdu s" "s_esmes t = s_esmes s" "s_esme_counter t = s_esme_counter s"
    "s_outbound_queue t = s_outbound_queue s" "s_inbound_queue t = s_inbound_queue s" "s_cleanup_queue t = s_cleanup_queue s"
    by (simp_all add: t_def)
  have "pdus_ok t = pdus_ok s" "esmes_ok t = esmes_ok s" "binds_ok t = binds_ok s" "cleanup_ok D t = cleanup_ok D s"
    by (simp_all add: pdus_ok_def esmes_ok_def binds_ok_def cleanup_ok_def c f)
  moreover have "simulation_ok t" using assms(1) sub unfolding server_inv_def simulation_ok_def c f by blast
  ultimately show "server_inv D t" using assms(1) by (simp add: server_inv_def)
  show "p \<notin> set (s_simulation_queue t)" using dist by (auto simp: t_def)
  have "p \<in> set (s_simulation_queue s)" using n nth_mem by blast
  then show "\<not> claim t p i" "get_pdu t p = Some q \<Longrightarrow> q_esme q = None"
    using assms(1) by (auto simp: server_inv_def simulation_ok_def c)
qed

lemma inv_put_unclaimed:
  assumes "server_inv D s" and "get_pdu s p = Some q" and "\<And>i. \<not> claim s p i" and "p \<notin> set (s_simulation_queue s)"
  shows "server_inv D (put_pdu p q' s)"
  using assms by (auto simp: server_inv_def inv_parts)

lemma inv_simulation_thread:
  assumes "smpp_queues_simulation_thread E n s = Some s'" and "server_inv D s"
  shows "server_inv D s'"
proof (cases "n < length (s_simulation_queue s)")
  case True
  define p where "p = s_simulation_queue s ! n"
  define t where "t = s\<lparr>s_simulation_queue := take n (s_simulation_queue s) @ drop (Suc n) (s_simulation_queue s)\<rparr>"
  note tk = inv_simulation_take [OF assms(2) True p_def [symmetric], folded t_def]
  from assms(1) True obtain q pd where q: "get_pdu t p = Some q" and r: "(if is_deliver_sm pd then do {
           r \<leftarrow> smpp_esme_find_best_receiver t (q_system_id q);
           let q = q\<lparr>q_callback := Some Cb_deliver_sm_resp\<rparr>;
           (case r of
              Some i \<Rightarrow> do {
                e \<leftarrow> get_esme t i;
                let k = e_sequence_number e;
                let s = put_esme i (e\<lparr>e_sequence_number := k + 1\<rparr>) t;
                let q = q\<lparr>q_pdu := Some (set_deliver_seq (int k) pd), q_sequence := int k, q_esme := Some i,
                           q_id := Some (show_nat k)\<rparr>;
                smpp_queues_add_outbound p (put_pdu p q s) }
            | None \<Rightarrow>
                (if c_database_enable_queue (s_cfg t) then
                   (let (ok, s) = smpp_database_add_pdu E t q in
                    run_pdu_callback E p (if ok then SMPP_ESME_COMMAND_STATUS_QUEUED else SMPP_ESME_COMMAND_STATUS_QUEUE_ERROR)
                      (put_pdu p q s))
                 else run_pdu_callback E p SMPP_ESME_RDELIVERYFAILURE (put_pdu p q t))) }
         else Some t) = Some s'"
    unfolding smpp_queues_simulation_thread_def if_P [OF True] Let_def t_def [symmetric] p_def [symmetric] bind_eq_Some_conv by blast
  have esme: "server_inv D (put_pdu p q' (put_esme i (e\<lparr>e_sequence_number := k\<rparr>) t))" if "get_esme t i = Some e" for q' i e k
  proof (rule inv_put_unclaimed)
    have c: "calm t (put_esme i (e\<lparr>e_sequence_number := k\<rparr>) t)" using calm_put_esme [OF that] by simp
    show "server_inv D (put_esme i (e\<lparr>e_sequence_number := k\<rparr>) t)" using calm_inv [OF c tk(1)] .
    show "\<not> claim (put_esme i (e\<lparr>e_sequence_number := k\<rparr>) t) p j" for j
      using tk(3) [of j] ack_claim_put [OF that, of "e\<lparr>e_sequence_number := k\<rparr>" p j] by (auto simp: claim_def)
  qed (use q tk(2) in simp_all)
  have other: "server_inv D s'" if "run_pdu_callback E p st (put_pdu p (q\<lparr>q_callback := cb\<rparr>) u) = Some s'" "same_but_db t u" for st u cb
    using calm_inv [OF calm_run_pdu_callback [OF that(1)]] inv_put_pdu [of D u p q] tk(1) q that(2)
    by (simp add: same_but_db_inv same_but_db_pdu)
  show ?thesis
  proof (cases "is_deliver_sm pd")
    case del: True
    with r obtain b where b: "smpp_esme_find_best_receiver t (q_system_id q) = Some b" by (auto simp: bind_eq_Some_conv)
    show ?thesis
    proof (cases b)
      case (Some i)
      with r del b obtain e q' where "get_esme t i = Some e"
        "smpp_queues_add_outbound p (put_pdu p q' (put_esme i (e\<lparr>e_sequence_number := e_sequence_number e + 1\<rparr>) t)) = Some s'"
        by (auto simp: bind_eq_Some_conv Let_def)
      then show ?thesis using inv_add_outbound esme by blast
    next
      case None
      then show ?thesis using r del b other database_frames(3)
        by (auto simp: Let_def case_prod_beta split: if_splits)
    qed
  qed (use r tk(1) in simp)
qed (use assms in \<open>simp add: smpp_queues_simulation_thread_def\<close>)

section \<open>The listener\<close>

lemma inv_read_loop:
  "listener_read_loop G eof n i s = Some (r, s') \<Longrightarrow> server_inv D s \<Longrightarrow> server_inv D s'"
proof (induction G eof n i s arbitrary: r s' rule: listener_read_loop.induct)
  case (2 G eof n i s)
  from "2.prems"(1) obtain e where e: "get_esme s i = Some e" by (auto simp: bind_eq_Some_conv)
  obtain x e' where x: "smpp_listener_read_pdu G eof e = (x, e')" by fastforce
  have "harmless e e'" using x by (auto simp: smpp_listener_read_pdu_def harmless_def Let_def split: if_splits prod.splits)
  then have inv: "server_inv D (put_esme i e' s)" using inv_put_esme "2.prems"(2) e by blast
  show ?case
  proof (cases "\<exists>pd. x = Read_pdu pd")
    case True
    then obtain pd where pd: "x = Read_pdu pd" ..
    with "2.prems"(1) e x obtain t where t: "listener_queue_pdu i pd (put_esme i e' s) = Some t"
      and r: "listener_read_loop G eof n i t = Some (r, s')" by (auto simp: bind_eq_Some_conv)
    from t obtain u where u: "upd_esme i (\<lambda>e. e\<lparr>e_errors := 0\<rparr>) (put_esme i e' s) = Some u"
      and a: "(case alloc_pdu (smpp_queued_pdu_create\<lparr>q_pdu := Some pd, q_esme := Some i\<rparr>) u of (a, s) \<Rightarrow> smpp_queues_add_inbound a s) = Some t"
      by (auto simp: listener_queue_pdu_def bind_eq_Some_conv Let_def)
    have "server_inv D u" using inv_upd_esme [OF u inv] by simp
    then have "server_inv D t"
      using a inv_add_inbound inv_alloc_pdu by (cases "alloc_pdu (smpp_queued_pdu_create\<lparr>q_pdu := Some pd, q_esme := Some i\<rparr>) u") fastforce
    then show ?thesis using "2.IH" [OF e refl x [symmetric] refl pd t r] by simp
  next
    case False
    then have "s' = put_esme i e' s" using "2.prems"(1) e x by (cases x) auto
    then show ?thesis using inv by simp
  qed
qed simp

lemma inv_auth_failed [simp]: "server_inv D (smpp_listener_auth_failed E ip s) = server_inv D s"
  using auth_failed_frame [of E ip s] by auto

lemma inv_listener_drop: "listener_drop E i s = Some s' \<Longrightarrow> server_inv D s \<Longrightarrow> server_inv D s'"
  using calm_inv [OF calm_stop_listening]
  by (auto simp: listener_drop_def bind_eq_Some_conv elim!: inv_cleanup split: if_splits)

lemma inv_listener_event:
  assumes "smpp_listener_event E i bytes eof fuel s = Some s'" and "server_inv D s"
  shows "server_inv D s'"
proof -
  from assms(1) obtain t r u where t: "upd_esme i (\<lambda>e. e\<lparr>e_inbuf := e_inbuf e @ bytes\<rparr>) s = Some t"
    and u: "listener_read_loop (ev_gw E) eof fuel i t = Some (r, u)"
    and r: "(case r of
        Read_closed \<Rightarrow> listener_drop E i u
      | Read_invalid \<Rightarrow> do {
          s \<leftarrow> upd_esme i (\<lambda>e. e\<lparr>e_errors := e_errors e + 1\<rparr>) u;
          e \<leftarrow> get_esme s i;
          (if SMPP_ESME_MAX_CONSECUTIVE_ERRORS \<le> e_errors e then listener_drop E i s else Some s) }
      | _ \<Rightarrow> Some u) = Some s'"
    unfolding smpp_listener_event_def by (auto simp: bind_eq_Some_conv)
  have inv: "server_inv D u" by (rule inv_read_loop [OF u], rule inv_upd_esme [OF t assms(2)]) simp
  have err: "server_inv D v" if "upd_esme i (\<lambda>e. e\<lparr>e_errors := e_errors e + 1\<rparr>) u = Some v" for v
    using that inv by (rule inv_upd_esme) (rule harmless_updates)
  show ?thesis
    using r inv err inv_listener_drop by (cases r) (auto simp: bind_eq_Some_conv split: if_splits)
qed

lemma inv_accept:
  assumes "server_inv D s" and "smpp_listener_connection_callback E ip s = (r, s')"
  shows "server_inv D s'"
proof -
  let ?b = "if 0 < octstr_len ip then smpp_listener_ip_is_blocked E ip s else (False, s)"
  obtain blocked t where t: "?b = (blocked, t)" by fastforce
  have inv: "server_inv D t"
    using t assms(1) by (auto simp: smpp_listener_ip_is_blocked_def Let_def split: if_splits option.splits)
  show ?thesis
  proof (cases blocked)
    case True
    then show ?thesis using assms(2) t inv by (simp add: smpp_listener_connection_callback_def)
  next
    case False
    define i where "i = s_esme_counter t"
    define e where "e = smpp_esme_create\<lparr>e_conn := True, e_connected := True, e_time_connected := ev_now E, e_ip := ip,
                  e_max_open_acks := c_default_max_open_acks (s_cfg t), e_event_container := True\<rparr>"
    have e: "e_outbound_queued e = 0" "e_inbound_queued e = 0" "e_pending_routing e = 0" "e_open_acks e = []" "e_connected e"
      by (simp_all add: e_def smpp_esme_create_def)
    have s': "s' = put_esme i e (t\<lparr>s_esme_counter := i + 1\<rparr>)"
      using assms(2) t False by (simp add: smpp_listener_connection_callback_def i_def e_def Let_def)
    have parts: "pdus_ok t" "simulation_ok t" "esmes_ok t" "binds_ok t" "cleanup_ok D t" using inv by (auto simp: server_inv_def)
    have fresh: "get_esme t i = None" using parts(3) unfolding esmes_ok_def i_def by (metis less_irrefl not_None_eq)
    then have none: "(p, i) \<notin> queue_claims t" for p using parts(3) unfolding esmes_ok_def by blast
    have f: "s_next_pdu s' = s_next_pdu t" "s_simulation_queue s' = s_simulation_queue t" "s_esmes s' = s_esmes t"
      "s_esme_counter s' = i + 1" "s_outbound_queue s' = s_outbound_queue t" "s_inbound_queue s' = s_inbound_queue t"
      "s_cleanup_queue s' = s_cleanup_queue t" "s_pending_routes s' = s_pending_routes t"
      by (simp_all add: s')
    have g: "get_esme s' j = (if j = i then Some e else get_esme t j)" "get_pdu s' = get_pdu t" for j
      by (simp_all add: s' get_esme_def get_pdu_def put_esme_def fun_eq_iff)
    have q: "queue_claims s' = queue_claims t" "pending_claims s' = pending_claims t"
      by (simp_all add: queue_claims_def pending_claims_def f)
    have ack: "ack_claim s' p j \<Longrightarrow> ack_claim t p j" for p j using e(4) fresh unfolding ack_claim_def g by (auto split: if_splits)
    have claim: "claim s' p j \<Longrightarrow> claim t p j" for p j using ack [of p j] by (auto simp: claim_def q)
    have zero: "entries_of i (s_outbound_queue t) = 0" "entries_of i (s_inbound_queue t) = 0" "entries_of i (pending_claims t) = 0"
      using none unfolding queue_claims_def entries_of_zero by blast+
    have "pdus_ok s'" using parts(1) by (auto simp: pdus_ok_def g f dest!: claim)
    moreover have "simulation_ok s'" using parts(2) by (auto simp: simulation_ok_def g f dest!: claim)
    moreover have "esmes_ok s'" using parts(3) e zero none unfolding esmes_ok_def q f g i_def by (auto intro: less_SucI)
    moreover have "binds_ok s'" using parts(4) fresh unfolding binds_ok_def g f by fastforce
    moreover have "cleanup_ok D s'" using parts(5) fresh unfolding cleanup_ok_def g f by fastforce
    ultimately show ?thesis by (simp add: server_inv_def)
  qed
qed

section \<open>Bearerboxes and stored messages\<close>

lemmas inv_db [simp] = database_frames [THEN same_but_db_inv]

lemma inv_fail_open_acks: "fail_open_acks E bms s = Some s' \<Longrightarrow> server_inv D s \<Longrightarrow> server_inv D s'"
  by (induction E bms s rule: fail_open_acks.induct) (auto simp: bind_eq_Some_conv intro: inv_run_bb_callback)

lemma inv_upd_box: "upd_box b f s = Some s' \<Longrightarrow> server_inv D s \<Longrightarrow> server_inv D s'"
  using calm_inv [OF calm_upd_box] by blast

lemma inv_bb_outbound_thread:
  assumes "smpp_bearerbox_outbound_thread E b n s = Some s'" and "server_inv D s"
  shows "server_inv D s'"
  using assms inv_upd_box inv_add_to_queue
  by (auto simp: smpp_bearerbox_outbound_thread_def Let_def bind_eq_Some_conv split: if_splits
      elim!: inv_upd_box inv_add_to_queue)

lemma inv_box_reconnect:
  assumes "box_reconnect E b conn_ok s = Some s'" and "server_inv D s"
  shows "server_inv D s'"
proof -
  have ident: "server_inv D v" if "smpp_bearerbox_identify E b u = Some (ok, v)" "server_inv D u" for u v ok
    using that by (auto simp: smpp_bearerbox_identify_def bind_eq_Some_conv split: if_splits elim!: inv_upd_box)
  from assms show ?thesis
    by (auto simp: box_reconnect_def bind_eq_Some_conv split: if_splits option.splits
        elim!: inv_upd_box inv_fail_open_acks ident)
qed

lemma inv_receive_ack: "receive_ack E b u nack s = Some s' \<Longrightarrow> server_inv D s \<Longrightarrow> server_inv D s'"
  by (auto simp: receive_ack_def Let_def bind_eq_Some_conv split: option.splits elim!: inv_run_bb_callback inv_upd_box)

lemma inv_receive_report:
  assumes "receive_report E b m s = Some s'" and "server_inv D s"
  shows "server_inv D s'"
proof -
  have ack: "smpp_bearerbox_acknowledge E x y st u = Some (ok, v) \<Longrightarrow> server_inv D u \<Longrightarrow> server_inv D v"
    for x y st ok and u v :: "'a server"
    using calm_inv [OF calm_acknowledge] by blast
  have db: "server_inv D (snd (smpp_database_add_message E s m))" using calm_inv [OF calm_db(1)] assms(2) by blast
  from assms(1) obtain r where r: "smpp_esme_find_best_receiver s (smpp_pdu_get_system_id_from_dlr_url (the (dlr_url m))) = Some r"
    by (auto simp: receive_report_def Let_def bind_eq_Some_conv)
  show ?thesis
  proof (cases r)
    case None
    then show ?thesis using assms r db
      by (auto simp: receive_report_def Let_def case_prod_beta split: if_splits intro: ack)
  next
    case (Some i)
    with assms(1) r obtain ps t where t: "msg_to_pdu_for E i m s = Some (ps, t)"
      by (auto simp: receive_report_def Let_def bind_eq_Some_conv)
    then have "server_inv D t" using calm_inv [OF calm_msg_to_pdu] assms(2) by blast
    then show ?thesis using assms(1) r Some t
      by (auto simp: receive_report_def Let_def split: option.splits intro: inv_queue_deliveries ack)
  qed
qed

lemma inv_bb_inbound_thread:
  assumes "smpp_bearerbox_inbound_thread E b msg s = Some s'" and "server_inv D s"
  shows "server_inv D s'"
proof -
  have pend: "pend_ok (RCb_bearerbox b m) s" for m by (simp add: pend_ok_def cb_claim_def)
  show ?thesis
    using assms pend calm_inv [OF calm_acknowledge]
    by (auto simp: smpp_bearerbox_inbound_thread_def split: msg.splits if_splits
        elim!: inv_receive_ack inv_upd_box inv_receive_report inv_route_message)
qed

lemma inv_box_idle: "box_idle E b s = Some s' \<Longrightarrow> server_inv D s \<Longrightarrow> server_inv D s'"
  using calm_inv [OF calm_bb_write] by (auto simp: box_idle_def smpp_bearerbox_deliver_def bind_eq_Some_conv split: if_splits)

lemma inv_requeue_mt: "requeue_mt E dms s = Some s' \<Longrightarrow> server_inv D s \<Longrightarrow> server_inv D s'"
  by (induction E dms s rule: requeue_mt.induct) (auto simp: bind_eq_Some_conv split: if_splits)

lemma inv_requeue_mo: "requeue_mo E dms s = Some s' \<Longrightarrow> server_inv D s \<Longrightarrow> server_inv D s'"
proof (induction E dms s rule: requeue_mo.induct)
  case (2 E dm dms s)
  have pend: "pend_ok (RCb_requeue dm) s" by (simp add: pend_ok_def cb_claim_def)
  from "2.prems"(1) obtain m t where m: "dm_msg dm = Some m" and t: "(if sms_type m = mo
          then smpp_route_message E SMPP_ROUTE_DIRECTION_INBOUND (smsc_id m) None m (RCb_requeue dm) s
          else Some (snd (smpp_database_remove E s (dm_global_id dm) False))) = Some t"
    and r: "requeue_mo E dms t = Some s'"
    unfolding requeue_mo.simps bind_eq_Some_conv by blast
  have "server_inv D t" using t "2.prems"(2) pend by (auto intro: inv_route_message split: if_splits)
  with "2.IH" [OF m t r] show ?case by simp
qed simp

lemma inv_bb_requeue_thread:
  assumes "smpp_bearerbox_requeue_thread E s = Some s'" and "server_inv D s"
  shows "server_inv D s'"
proof -
  have mt: "server_inv D t" if "requeue_mt E (fst x) (snd x) = Some t" "x = smpp_database_get_bearerbox_mt_stored E s mt_push None 0" for t x
    using that calm_inv [OF calm_db(6)] assms(2) inv_requeue_mt by metis
  have mo: "server_inv D v" if "requeue_mo E (fst x) (snd x) = Some v" "x = smpp_database_get_stored E u mo None 0" "server_inv D u" for u v x
    using that calm_inv [OF calm_db(4)] inv_requeue_mo by metis
  from assms show ?thesis
    by (auto simp: smpp_bearerbox_requeue_thread_def Let_def bind_eq_Some_conv case_prod_beta split: if_splits intro: mt mo)
qed

lemma inv_collect_stored: "collect_stored E i b dms s = Some (qs, s') \<Longrightarrow> server_inv D s \<Longrightarrow> server_inv D s'"
proof (induction E i b dms s arbitrary: qs s' rule: collect_stored.induct)
  case (2 E i b dm dms s)
  from "2.prems"(1) obtain q t rest where t: "stored_pdus E i b dm s = Some (q, t)"
    and r: "collect_stored E i b dms (if q = None then snd (if b then smpp_database_remove_dlr E t (dm_global_id dm)
               else smpp_database_remove E t (dm_global_id dm) False) else t) = Some (rest, s')"
    by (auto simp: bind_eq_Some_conv Let_def)
  from t obtain ps m where "msg_to_pdu_for E i m s = Some (ps, t)" by (auto simp: stored_pdus_def bind_eq_Some_conv)
  then have "server_inv D t" using calm_inv [OF calm_msg_to_pdu] "2.prems"(2) by blast
  then have "server_inv D (if q = None then snd (if b then smpp_database_remove_dlr E t (dm_global_id dm)
               else smpp_database_remove E t (dm_global_id dm) False) else t)"
    by simp
  with r show ?case using "2.IH" [OF t refl refl] by blast
qed simp

lemma inv_queued_for:
  assumes "queued_for E i s = Some (qs, s')" and "server_inv D s"
  shows "server_inv D s'"
proof -
  from assms(1) obtain e where e: "get_esme s i = Some e" by (auto simp: queued_for_def bind_eq_Some_conv)
  obtain pdus s1 where s1: "smpp_database_get_stored_pdu E s (e_system_id e) (open_ack_space e) = (pdus, s1)" by fastforce
  let ?l = "open_ack_space e - int (length pdus)"
  obtain dlrs s2 where s2: "smpp_database_get_dlrs E s1 (e_system_id e) ?l = (dlrs, s2)" by fastforce
  obtain msgs s3 where s3: "smpp_database_get_stored E s2 report_mo (e_system_id e) (?l - int (length dlrs)) = (msgs, s3)" by fastforce
  have inv: "server_inv D s1" "server_inv D s3"
    using assms(2) inv_db(8) [of D E s] inv_db(7) [of D E s1] inv_db(4) [of D E s2] s1 s2 s3 by (metis snd_conv)+
  show ?thesis
  proof (cases "0 < open_ack_space e \<and> 0 < ?l")
    case True
    with assms(1) e s1 s2 s3 obtain ds ms t where "collect_stored E i True dlrs s3 = Some (ds, t)" "collect_stored E i False msgs t = Some (ms, s')"
      by (auto simp: queued_for_def bind_eq_Some_conv Let_def)
    then show ?thesis using inv inv_collect_stored by blast
  next
    case False
    then show ?thesis using assms e s1 inv by (auto simp: queued_for_def Let_def split: if_splits)
  qed
qed

lemma inv_queued_for_all: "queued_for_all E is s = Some (qs, s') \<Longrightarrow> server_inv D s \<Longrightarrow> server_inv D s'"
proof (induction "is" arbitrary: qs s s')
  case (Cons i "is")
  from Cons.prems(1) obtain a t rest where t: "queued_for E i s = Some (a, t)" and r: "queued_for_all E is t = Some (rest, s')"
    by (auto simp: bind_eq_Some_conv)
  show ?case using Cons.IH [OF r] inv_queued_for [OF t Cons.prems(2)] .
qed simp

lemma inv_requeue_delivery:
  assumes "requeue_delivery E q s = Some s'" and "server_inv D s"
  shows "server_inv D s'"
proof -
  from assms(1) obtain r where r: "smpp_esme_find_best_receiver s (q_system_id q) = Some r"
    by (auto simp: requeue_delivery_def bind_eq_Some_conv)
  show ?thesis
  proof (cases r)
    case (Some i)
    with assms(1) r obtain e q' t where "get_esme s i = Some e"
      and t: "t = s \<or> t = put_esme i (e\<lparr>e_sequence_number := e_sequence_number e + 1\<rparr>) s"
      and o: "(case alloc_pdu q' t of (p, s) \<Rightarrow> smpp_queues_add_outbound p s) = Some s'"
      by (auto simp: requeue_delivery_def bind_eq_Some_conv Let_def split: if_splits)
    then have "server_inv D t" using inv_put_esme [OF assms(2)] assms(2) by auto
    then show ?thesis using inv_alloc_add_outbound [OF o] by simp
  next
    case None
    obtain p t where t: "alloc_pdu q s = (p, t)" by fastforce
    with assms(1) r None have "run_pdu_callback E p SMPP_ESME_RMSGQFUL t = Some s'" by (simp add: requeue_delivery_def)
    from calm_inv [OF calm_run_pdu_callback [OF this] inv_alloc_pdu [OF t assms(2)]] show ?thesis .
  qed
qed

lemma inv_requeue_deliveries: "requeue_deliveries E qs s = Some s' \<Longrightarrow> server_inv D s \<Longrightarrow> server_inv D s'"
  by (induction E qs s rule: requeue_deliveries.induct) (auto simp: bind_eq_Some_conv intro: inv_requeue_delivery)

lemma inv_requeue_thread:
  assumes "smpp_queues_requeue_thread E s = Some s'" and "server_inv D s"
  shows "server_inv D s'"
proof -
  from assms(1) obtain rs t qs u where t: "smpp_esme_global_get_readers E True s = Some (rs, t)"
    and u: "queued_for_all E rs t = Some (qs, u)" and r: "requeue_deliveries E qs u = Some s'"
    by (auto simp: smpp_queues_requeue_thread_def smpp_esme_global_get_queued_def bind_eq_Some_conv)
  have "server_inv D t"
    using t assms(2) inv_db(12) [of D E s]
    by (auto simp: smpp_esme_global_get_readers_def bind_eq_Some_conv Let_def case_prod_beta split: if_splits)
  then show ?thesis using inv_queued_for_all [OF u] inv_requeue_deliveries [OF r] by simp
qed

section \<open>The cleanup thread\<close>

text \<open>What the handling of one bind does to the cleanup queue: only that bind may join it, when it is dropped.\<close>

definition same_but_queued :: "nat \<Rightarrow> bool \<Rightarrow> 'd server \<Rightarrow> 'd server \<Rightarrow> bool" where
  "same_but_queued i alive s s' \<longleftrightarrow> same_binds s s' \<and> (\<forall>j. rel_option settled (get_esme s j) (get_esme s' j))
     \<and> (if alive then s_cleanup_queue s' = s_cleanup_queue s else set (s_cleanup_queue s') = insert i (set (s_cleanup_queue s)))"

lemma cleanup_result: "smpp_esme_cleanup i s = Some s' \<Longrightarrow> same_but_queued i False s s'"
proof -
  assume "smpp_esme_cleanup i s = Some s'"
  then obtain t u where t: "smpp_esme_stop_listening i s = Some t" and u: "upd_esme i (\<lambda>e. e\<lparr>e_connected := False\<rparr>) t = Some u"
    and s': "s' = u\<lparr>s_cleanup_queue := append_unique (s_cleanup_queue u) i\<rparr>"
    by (auto simp: smpp_esme_cleanup_def bind_eq_Some_conv)
  have "steady s u" using calm_steady [OF calm_trans [OF calm_stop_listening [OF t] calm_upd_esme [OF u]]] by simp
  then show ?thesis by (auto simp: s' steady_def same_but_queued_def same_binds_def get_esme_def append_unique_def)
qed

lemma steady_queued_trans:
  assumes "steady s t" and "same_but_queued i b t u"
  shows "same_but_queued i b s u"
proof -
  have "rel_option settled (get_esme s j) (get_esme u j)" for j
    using assms settled_trans unfolding steady_def same_but_queued_def
    by (cases "get_esme t j") (auto simp: option_rel_Some1 option_rel_Some2 dest!: spec [of _ j])
  with assms show ?thesis unfolding steady_def same_but_queued_def same_binds_def by simp
qed

lemma cleanup_bind_spec:
  assumes "cleanup_bind E i s = Some (alive, s')" and "server_inv D s"
  shows "server_inv D s'" and "same_but_queued i alive s s'" and "alive \<Longrightarrow> \<exists>e. get_esme s i = Some e \<and> e_connected e"
proof -
  from assms(1) obtain e where e: "get_esme s i = Some e" by (auto simp: cleanup_bind_def bind_eq_Some_conv)
  have steady_alive: "same_but_queued i True u v" if "steady u v" for u v :: "'a server"
    using that by (auto simp: steady_def same_but_queued_def)
  have "server_inv D s' \<and> same_but_queued i alive s s' \<and> (alive \<longrightarrow> e_connected e)"
  proof (cases "e_connected e")
    case False
    with assms(1) e have c: "smpp_esme_cleanup i s = Some s'" "\<not> alive" by (auto simp: cleanup_bind_def bind_eq_Some_conv)
    then show ?thesis using inv_cleanup [OF c(1) assms(2)] cleanup_result [OF c(1)] by simp
  next
    case True
    let ?diff = "ev_now E - e_time_last_pdu e"
    from assms(1) e True obtain t where t: "expire_acks E i (dict_keys (e_open_acks e)) s = Some t"
      and r: "(if e_enquire_link_interval e < ?diff then
           (if 2 < ?diff div e_enquire_link_interval e then do { s \<leftarrow> smpp_esme_cleanup i t; Some (False, s) }
            else do { s \<leftarrow> smpp_queues_send_enquire_link i t; Some (True, s) })
         else Some (True, t)) = Some (alive, s')"
      by (auto simp: cleanup_bind_def bind_eq_Some_conv Let_def)
    have inv: "server_inv D t" and st: "steady s t"
      using calm_inv [OF calm_expire_acks [OF t] assms(2)] calm_steady [OF calm_expire_acks [OF t]] by simp_all
    show ?thesis
      using r inv True steady_queued_trans [OF st cleanup_result] steady_alive [OF steady_trans [OF st steady_enquire_link]]
        steady_alive [OF st] inv_cleanup inv_enquire_link
      by (auto simp: bind_eq_Some_conv split: if_splits)
  qed
  then show "server_inv D s'" "same_but_queued i alive s s'" "alive \<Longrightarrow> \<exists>e. get_esme s i = Some e \<and> e_connected e" using e by auto
qed

lemma inv_connected_not_queued:
  assumes "server_inv D s" and "get_esme s i = Some e" and "e_connected e" and "i \<notin> D"
  shows "i \<notin> set (s_cleanup_queue s)"
  using assms by (auto simp: server_inv_def cleanup_ok_def)

lemma cleanup_binds_spec:
  assumes "cleanup_binds E is s = Some (rep, s')" and "server_inv {} s" and "distinct is"
  shows "server_inv {} s' \<and> same_binds s s' \<and> (\<forall>j. rel_option settled (get_esme s j) (get_esme s' j))
    \<and> set rep \<subseteq> set is \<and> distinct rep \<and> set (s_cleanup_queue s') = set (s_cleanup_queue s) \<union> (set is - set rep)
    \<and> (\<forall>i \<in> set rep. i \<notin> set (s_cleanup_queue s'))"
  using assms
proof (induction "is" arbitrary: rep s s')
  case Nil
  then show ?case by (auto simp: option.rel_refl)
next
  case (Cons i "is")
  from Cons.prems(1) obtain alive t rest where b: "cleanup_bind E i s = Some (alive, t)"
    and r: "cleanup_binds E is t = Some (rest, s')" and rep: "rep = (if alive then i # rest else rest)"
    by (auto simp: bind_eq_Some_conv)
  note one = cleanup_bind_spec [OF b Cons.prems(2)]
  have IH: "server_inv {} s'" "same_binds t s'" "\<forall>j. rel_option settled (get_esme t j) (get_esme s' j)" "set rest \<subseteq> set is"
    "distinct rest" "set (s_cleanup_queue s') = set (s_cleanup_queue t) \<union> (set is - set rest)"
    "\<forall>i \<in> set rest. i \<notin> set (s_cleanup_queue s')"
    using Cons.IH [OF r one(1)] Cons.prems(3) unfolding distinct.simps by blast+
  have ni: "i \<notin> set is" "i \<notin> set rest" using Cons.prems(3) IH(4) by auto
  have rel: "rel_option settled (get_esme s j) (get_esme s' j)" for j
    using one(2) IH(3) settled_trans unfolding same_but_queued_def
    by (cases "get_esme t j") (auto simp: option_rel_Some1 option_rel_Some2 dest!: spec [of _ j])
  have sb: "same_binds s s'" using one(2) IH(2) unfolding same_but_queued_def same_binds_def by simp
  show ?case
  proof (cases alive)
    case True
    then obtain e where "get_esme s i = Some e" "e_connected e" using one(3) by blast
    then have "i \<notin> set (s_cleanup_queue s)" using inv_connected_not_queued [OF Cons.prems(2)] by simp
    then show ?thesis using True IH ni rep one(2) rel sb by (auto simp: same_but_queued_def)
  next
    case False
    then show ?thesis using IH ni rep one(2) rel sb by (auto simp: same_but_queued_def)
  qed
qed

definition clean_key :: "'d server \<Rightarrow> octstr \<Rightarrow> bool" where
  "clean_key s k \<longleftrightarrow> (\<forall>g. dict_get (s_esmes s) k = Some g \<longrightarrow> set (g_binds g) \<inter> set (s_cleanup_queue s) = {})"

lemma same_binds_get:
  "same_binds s s' \<Longrightarrow> dict_get (s_esmes s') k = Some g' \<Longrightarrow> \<exists>g. dict_get (s_esmes s) k = Some g \<and> g_binds g = g_binds g'"
  unfolding same_binds_def by (metis (no_types, lifting) map_option_eq_Some option.simps(9))

lemma same_binds_dom: "same_binds s s' \<Longrightarrow> dom (dict_get (s_esmes s')) = dom (dict_get (s_esmes s))"
  unfolding same_binds_def dom_def by (metis (no_types, lifting) option.map_disc_iff)

lemma binds_disjoint:
  assumes "server_inv D s" and "dict_get (s_esmes s) k = Some g" and "dict_get (s_esmes s) k2 = Some g2" and "k \<noteq> k2"
  shows "set (g_binds g) \<inter> set (g_binds g2) = {}"
proof -
  have "e_global e = Some k" if "i \<in> set (g_binds g)" "get_esme s i = Some e" for i e
    using assms(1,2) that unfolding server_inv_def binds_ok_def by fastforce
  moreover have "\<exists>e. get_esme s i = Some e \<and> e_global e = Some k2" if "i \<in> set (g_binds g2)" for i
    using assms(1,3) that unfolding server_inv_def binds_ok_def by blast
  ultimately show ?thesis using assms(4) by fastforce
qed

lemma cleanup_one_key:
  assumes g: "dict_get (s_esmes s) k = Some g" and "server_inv {} s" and b: "cleanup_binds E (g_binds g) s = Some (rep, t)"
    and g2: "dict_get (s_esmes t) k = Some g2"
  defines "u \<equiv> t\<lparr>s_esmes := dict_put (s_esmes t) k (g2\<lparr>g_binds := rep\<rparr>)\<rparr>"
  shows "server_inv {} u" and "clean_key u k" and "k2 \<noteq> k \<Longrightarrow> clean_key s k2 \<Longrightarrow> clean_key u k2"
    and "dom (dict_get (s_esmes u)) = dom (dict_get (s_esmes s))"
proof -
  have "distinct (g_binds g)" using inv_distinct_binds [OF assms(2) g] .
  note sp = cleanup_binds_spec [OF b assms(2) this]
  have inv: "server_inv {} t" and sb: "same_binds s t" and rep: "set rep \<subseteq> set (g_binds g)" "distinct rep"
    and q: "set (s_cleanup_queue t) = set (s_cleanup_queue s) \<union> (set (g_binds g) - set rep)"
    and ok: "\<forall>i \<in> set rep. i \<notin> set (s_cleanup_queue t)"
    using sp by blast+
  have g2': "g_binds g2 = g_binds g" using same_binds_get [OF sb g2] g by auto
  show "server_inv {} u" unfolding u_def
    by (rule inv_esmes [OF inv]) (use rep g2 g2' in \<open>auto intro: inv_distinct_binds [OF inv] split: if_splits\<close>)
  show "clean_key u k" using ok by (auto simp: clean_key_def u_def)
  show "clean_key u k2" if "k2 \<noteq> k" "clean_key s k2"
    unfolding clean_key_def
  proof (intro allI impI)
    fix h assume "dict_get (s_esmes u) k2 = Some h"
    then have "dict_get (s_esmes t) k2 = Some h" using that(1) by (simp add: u_def)
    then obtain h0 where h0: "dict_get (s_esmes s) k2 = Some h0" "g_binds h0 = g_binds h" using same_binds_get [OF sb] by blast
    have "set (g_binds h) \<inter> set (g_binds g) = {}" using binds_disjoint [OF assms(2) h0(1) g that(1)] h0(2) by simp
    moreover have "set (g_binds h) \<inter> set (s_cleanup_queue s) = {}" using that(2) h0 by (auto simp: clean_key_def)
    ultimately show "set (g_binds h) \<inter> set (s_cleanup_queue u) = {}" using q by (auto simp: u_def)
  qed
  show "dom (dict_get (s_esmes u)) = dom (dict_get (s_esmes s))"
    using same_binds_dom [OF sb] g2 by (auto simp: u_def dom_def split: if_splits)
qed

lemma cleanup_globals_spec:
  assumes "cleanup_globals E ks s = Some s'" and "server_inv {} s" and "\<forall>k \<in> K. clean_key s k"
  shows "server_inv {} s'" and "\<forall>k \<in> K \<union> set ks. clean_key s' k" and "dom (dict_get (s_esmes s')) = dom (dict_get (s_esmes s))"
proof -
  have "server_inv {} s' \<and> (\<forall>k \<in> K \<union> set ks. clean_key s' k) \<and> dom (dict_get (s_esmes s')) = dom (dict_get (s_esmes s))"
    using assms
  proof (induction ks arbitrary: K s)
    case (Cons k ks)
    from Cons.prems(1) obtain g rep t g2 where g: "dict_get (s_esmes s) k = Some g" and b: "cleanup_binds E (g_binds g) s = Some (rep, t)"
      and g2: "dict_get (s_esmes t) k = Some g2"
      and r: "cleanup_globals E ks (t\<lparr>s_esmes := dict_put (s_esmes t) k (g2\<lparr>g_binds := rep\<rparr>)\<rparr>) = Some s'"
      by (auto simp: bind_eq_Some_conv)
    note one = cleanup_one_key [OF g Cons.prems(2) b g2]
    have "\<forall>k2 \<in> insert k K. clean_key (t\<lparr>s_esmes := dict_put (s_esmes t) k (g2\<lparr>g_binds := rep\<rparr>)\<rparr>) k2"
    proof
      fix k2 assume "k2 \<in> insert k K"
      then show "clean_key (t\<lparr>s_esmes := dict_put (s_esmes t) k (g2\<lparr>g_binds := rep\<rparr>)\<rparr>) k2"
        using one(2) one(3) [of k2] Cons.prems(3) by (cases "k2 = k") simp_all
    qed
    from Cons.IH [OF r one(1) this] one(4) show ?case unfolding list.set by blast
  qed simp
  then show "server_inv {} s'" "\<forall>k \<in> K \<union> set ks. clean_key s' k" "dom (dict_get (s_esmes s')) = dom (dict_get (s_esmes s))" by blast+
qed

lemma idle_no_claims:
  assumes "server_inv D s" and "get_esme s i = Some e" and "queue_depth e = 0"
  shows "(p, i) \<notin> queue_claims s"
proof -
  have "e_outbound_queued e = entries_of i (s_outbound_queue s)" "e_inbound_queued e = entries_of i (s_inbound_queue s)"
    "entries_of i (pending_claims s) \<le> e_pending_routing e"
    using assms(1,2) unfolding server_inv_def esmes_ok_def by blast+
  then have "entries_of i (s_outbound_queue s) = 0" "entries_of i (s_inbound_queue s) = 0" "entries_of i (pending_claims s) = 0"
    using assms(3) by (simp_all add: queue_depth_def)
  then show ?thesis by (simp add: queue_claims_def entries_of_zero)
qed

lemma inv_remove_esme:
  assumes "server_inv D s" and none: "\<And>p. (p, i) \<notin> queue_claims s" and "unbound i s"
  shows "server_inv (insert i D) (s\<lparr>s_esme_heap := dict_remove (s_esme_heap s) i\<rparr>)"
proof -
  let ?s = "s\<lparr>s_esme_heap := dict_remove (s_esme_heap s) i\<rparr>"
  have parts: "pdus_ok s" "simulation_ok s" "esmes_ok s" "binds_ok s" "cleanup_ok D s" using assms(1) by (auto simp: server_inv_def)
  have g: "get_esme ?s j = (if j = i then None else get_esme s j)" "get_pdu ?s = get_pdu s" for j
    by (simp_all add: get_esme_def get_pdu_def fun_eq_iff)
  have q: "queue_claims ?s = queue_claims s" "pending_claims ?s = pending_claims s"
    by (simp_all add: queue_claims_def pending_claims_def)
  have claim: "claim ?s p j \<Longrightarrow> claim s p j" for p j unfolding claim_def ack_claim_def q g by (auto split: if_splits)
  have "pdus_ok ?s" using parts(1) by (auto simp: pdus_ok_def g dest!: claim)
  moreover have "simulation_ok ?s" using parts(2) by (auto simp: simulation_ok_def g dest!: claim)
  moreover have "esmes_ok ?s" using parts(3) none unfolding esmes_ok_def q g by (auto split: if_splits)
  moreover have "binds_ok ?s" using parts(4) assms(3) unfolding binds_ok_def unbound_def g by auto
  moreover have "cleanup_ok (insert i D) ?s" using parts(5) unfolding cleanup_ok_def g by auto
  ultimately show ?thesis by (simp add: server_inv_def)
qed

lemma same_binds_unbound: "same_binds s s' \<Longrightarrow> unbound i s \<Longrightarrow> unbound i s'"
  using same_binds_get unfolding unbound_def by metis

lemma esme_destroy_spec:
  assumes "smpp_esme_destroy E i s = Some s'" and "server_inv D s" and e: "get_esme s i = Some e" "queue_depth e = 0" and "unbound i s"
  shows "server_inv (insert i D) s'" and "s_cleanup_queue s' = s_cleanup_queue s" and "same_binds s s'"
    and "get_esme s' i = None"
proof -
  from assms(1) obtain t u where t: "smpp_esme_destroy_open_acks E i s = Some t" and u: "smpp_esme_disconnect i t = Some u"
    and s': "s' = u\<lparr>s_esme_heap := dict_remove (s_esme_heap u) i\<rparr>"
    by (auto simp: smpp_esme_destroy_def bind_eq_Some_conv)
  have c: "calm s u" using calm_trans [OF calm_destroy_open_acks [OF t] calm_disconnect [OF u]] .
  have inv: "server_inv D u" using calm_inv [OF c assms(2)] .
  have sb: "same_binds s u" "s_cleanup_queue u = s_cleanup_queue s" using c by (simp_all add: calm_def)
  have "queue_claims u = queue_claims s" using c by (simp add: calm_def queue_claims_def pending_claims_def)
  then have "server_inv (insert i D) (u\<lparr>s_esme_heap := dict_remove (s_esme_heap u) i\<rparr>)"
    using idle_no_claims [OF assms(2) e] same_binds_unbound [OF sb(1) assms(5)] by (intro inv_remove_esme [OF inv]) simp_all
  then show "server_inv (insert i D) s'" by (simp add: s')
  show "s_cleanup_queue s' = s_cleanup_queue s" "same_binds s s'" "get_esme s' i = None"
    using sb by (simp_all add: s' same_binds_def get_esme_def)
qed

lemma destroy_idle_spec:
  assumes "destroy_idle E is s = Some (rep, s')" and "server_inv D s" and "distinct is" and "\<forall>i \<in> set is. unbound i s"
  shows "server_inv (D \<union> (set is - set rep)) s' \<and> set rep \<subseteq> set is \<and> distinct rep \<and> s_cleanup_queue s' = s_cleanup_queue s"
  using assms
proof (induction "is" arbitrary: rep s D)
  case (Cons i "is")
  from Cons.prems(1) obtain e where e: "get_esme s i = Some e" by (auto simp: bind_eq_Some_conv)
  show ?case
  proof (cases "destroyable E e")
    case True
    with Cons.prems(1) e obtain t where t: "smpp_esme_destroy E i s = Some t" and r: "destroy_idle E is t = Some (rep, s')"
      by (auto simp: bind_eq_Some_conv)
    have "queue_depth e = 0" using True by (simp add: destroyable_def)
    note d = esme_destroy_spec [OF t Cons.prems(2) e this]
    have ub: "unbound i s" "\<forall>j \<in> set is. unbound j t" using Cons.prems(4) same_binds_unbound [OF d(3)] by simp_all
    have IH: "server_inv (insert i D \<union> (set is - set rep)) s'" "set rep \<subseteq> set is" "distinct rep" "s_cleanup_queue s' = s_cleanup_queue t"
      using Cons.IH [OF r d(1) [OF ub(1)] _ ub(2)] Cons.prems(3) by simp_all
    have "i \<notin> set rep" using IH(2) Cons.prems(3) by auto
    then have "D \<union> (set (i # is) - set rep) = insert i D \<union> (set is - set rep)" by auto
    then show ?thesis using IH d(2) [OF ub(1)] by auto
  next
    case False
    with Cons.prems(1) e obtain rest where r: "destroy_idle E is s = Some (rest, s')" and rep: "rep = i # rest"
      by (auto simp: bind_eq_Some_conv)
    have IH: "server_inv (D \<union> (set is - set rest)) s'" "set rest \<subseteq> set is" "distinct rest" "s_cleanup_queue s' = s_cleanup_queue s"
      using Cons.IH [OF r Cons.prems(2)] Cons.prems(3,4) by simp_all
    have "set (i # is) - set rep = set is - set rest" using rep Cons.prems(3) by auto
    then show ?thesis using IH rep Cons.prems(3) by auto
  qed
qed simp

lemma inv_cleanup_thread:
  assumes "smpp_esme_cleanup_thread E s = Some s'" and "server_inv {} s"
  shows "server_inv {} s'"
proof -
  from assms(1) obtain t rep u where t: "cleanup_globals E (dict_keys (s_esmes s)) s = Some t"
    and u: "destroy_idle E (s_cleanup_queue t) t = Some (rep, u)" and s': "s' = u\<lparr>s_cleanup_queue := rep\<rparr>"
    by (auto simp: smpp_esme_cleanup_thread_def bind_eq_Some_conv)
  note gl = cleanup_globals_spec [OF t assms(2), of "{}"]
  have inv: "server_inv {} t" using gl by simp
  have clean: "clean_key t k" if "dict_get (s_esmes t) k \<noteq> None" for k
  proof -
    have "k \<in> dom (dict_get (s_esmes s))" using gl(3) that by auto
    then show ?thesis using gl(2) by simp
  qed
  have "unbound i t" if "i \<in> set (s_cleanup_queue t)" for i
    using clean that unfolding unbound_def clean_key_def by blast
  moreover have "distinct (s_cleanup_queue t)" using inv by (simp add: server_inv_def cleanup_ok_def)
  ultimately have d: "server_inv ({} \<union> (set (s_cleanup_queue t) - set rep)) u" "set rep \<subseteq> set (s_cleanup_queue t)" "distinct rep"
    "s_cleanup_queue u = s_cleanup_queue t"
    using destroy_idle_spec [OF u inv] by blast+
  have c: "claim s' = claim u" "queue_claims s' = queue_claims u" "pending_claims s' = pending_claims u"
    "get_esme s' = get_esme u" "get_pdu s' = get_pdu u"
    by (simp_all add: s' claim_defs fun_eq_iff get_esme_def get_pdu_def)
  have f: "s_next_pdu s' = s_next_pdu u" "s_simulation_queue s' = s_simulation_queue u" "s_esmes s' = s_esmes u"
    "s_esme_counter s' = s_esme_counter u" "s_outbound_queue s' = s_outbound_queue u" "s_inbound_queue s' = s_inbound_queue u"
    "s_cleanup_queue s' = rep"
    by (simp_all add: s')
  have "pdus_ok s' = pdus_ok u" "simulation_ok s' = simulation_ok u" "esmes_ok s' = esmes_ok u" "binds_ok s' = binds_ok u"
    by (simp_all add: pdus_ok_def simulation_ok_def esmes_ok_def binds_ok_def c f)
  moreover have "cleanup_ok {} s'" using d unfolding server_inv_def cleanup_ok_def c f by auto
  ultimately show ?thesis using d(1) by (simp add: server_inv_def)
qed

section \<open>The unbind command\<close>

lemma inv_send_unbind: "send_unbind i s = Some s' \<Longrightarrow> server_inv D s \<Longrightarrow> server_inv D s'"
  by (auto simp: send_unbind_def bind_eq_Some_conv Let_def elim!: inv_alloc_add_outbound intro: inv_put_esme)

lemma inv_send_unbinds: "send_unbinds is s = Some s' \<Longrightarrow> server_inv D s \<Longrightarrow> server_inv D s'"
  by (induction "is" arbitrary: s) (auto simp: bind_eq_Some_conv intro: inv_send_unbind)

lemma inv_unbind_command: "smpp_esme_unbind_command sid bid ct s = Some (r, s') \<Longrightarrow> server_inv D s \<Longrightarrow> server_inv D s'"
  by (auto simp: smpp_esme_unbind_command_def Let_def bind_eq_Some_conv split: if_splits option.splits intro: inv_send_unbinds)

end
