(* ===== verification/System.thy ===== *)
theory System
  imports ThreadInv
begin

text \<open>
  The server as a state machine: the steps are one iteration of each thread, a connection that
  is accepted, a read event, an answer of an asynchronous router, and the administrator's
  commands, in any order and any environment. A step whose operation faults does not exist; the
  properties say which faults cannot happen.
\<close>

section \<open>Invariants of state machines\<close>

locale state_machine =
  fixes init :: "'s \<Rightarrow> bool" and step :: "'s \<Rightarrow> 's \<Rightarrow> bool" and inv :: "'s \<Rightarrow> bool"
  assumes init_inv: "init s \<Longrightarrow> inv s"
    and step_inv: "inv s \<Longrightarrow> step s t \<Longrightarrow> inv t"
begin

lemma reachable_inv:
  assumes "init s" and "step\<^sup>*\<^sup>* s t"
  shows "inv t"
  using assms(2) by (induction rule: rtranclp_induct) (auto intro: init_inv [OF assms(1)] step_inv)

end

section \<open>The steps\<close>

inductive server_step :: "'d server \<Rightarrow> 'd server \<Rightarrow> bool" where
  accept: "smpp_listener_connection_callback E ip s = (r, s') \<Longrightarrow> server_step s s'"
| read: "smpp_listener_event E i bytes eof fuel s = Some s' \<Longrightarrow> server_step s s'"
| inbound: "first_bind n s \<Longrightarrow> smpp_queues_inbound_thread E n s = Some s' \<Longrightarrow> server_step s s'"
| outbound: "smpp_queues_outbound_thread E n s = Some s' \<Longrightarrow> server_step s s'"
| simulation: "smpp_queues_simulation_thread E n s = Some s' \<Longrightarrow> server_step s s'"
| requeue: "smpp_queues_requeue_thread E s = Some s' \<Longrightarrow> server_step s s'"
| cleanup: "smpp_esme_cleanup_thread E s = Some s' \<Longrightarrow> server_step s s'"
| box_send: "smpp_bearerbox_outbound_thread E b n s = Some s' \<Longrightarrow> server_step s s'"
| box_connect: "box_reconnect E b ok s = Some s' \<Longrightarrow> server_step s s'"
| box_receive: "smpp_bearerbox_inbound_thread E b msg s = Some s' \<Longrightarrow> server_step s s'"
| box_timeout: "box_idle E b s = Some s' \<Longrightarrow> server_step s s'"
| box_lost: "box_broken b s = Some s' \<Longrightarrow> server_step s s'"
| box_requeue: "smpp_bearerbox_requeue_thread E s = Some s' \<Longrightarrow> server_step s s'"
| router: "s_pending_routes s = xs @ (cb, m) # ys \<Longrightarrow> route_answer E cb m' rs (s\<lparr>s_pending_routes := xs @ ys\<rparr>) = Some s' \<Longrightarrow>
    server_step s s'"
| rebuild: "server_step s (smpp_route_rebuild E s)"
| unbind: "smpp_esme_unbind_command sid bid ct s = Some (r, s') \<Longrightarrow> server_step s s'"

text \<open>At the start no bearerbox has an outstanding message.\<close>

definition server_init :: "'d server \<Rightarrow> bool" where
  "server_init s \<longleftrightarrow> (\<exists>c boxes method d. s = initial_server c boxes method d \<and> (\<forall>x \<in> set boxes. bb_open_acks x \<in> {None, Some []}))"

lemma initial_inv: "server_init s \<Longrightarrow> server_inv {} s"
  by (auto simp: server_init_def initial_server_def server_inv_def inv_parts claim_defs get_esme_def get_pdu_def List.map_filter_simps)

lemma inv_rebuild: "server_inv D (smpp_route_rebuild E s) = server_inv D s"
  using calm_inv calm_trans [OF calm_frame(10) calm_frame(9)]
  by (auto simp: smpp_route_rebuild_def smpp_route_rebuild_database_def)

lemma server_step_inv: "server_step s s' \<Longrightarrow> server_inv {} s \<Longrightarrow> server_inv {} s'"
proof (induction rule: server_step.induct)
  case (router s xs cb m ys E m' rs s')
  then show ?case using inv_route_answer inv_pop_pending by blast
next
  case (box_lost b s s')
  then show ?case by (auto simp: box_broken_def intro: inv_upd_box)
qed (auto simp: inv_rebuild intro: inv_accept inv_listener_event inv_inbound_thread inv_outbound_thread inv_simulation_thread
      inv_requeue_thread inv_cleanup_thread inv_bb_outbound_thread inv_box_reconnect inv_bb_inbound_thread inv_box_idle
      inv_bb_requeue_thread inv_unbind_command)

interpretation srv: state_machine server_init server_step "server_inv {}"
  by unfold_locales (auto intro: initial_inv server_step_inv)

end
