(* ===== verification/Runs.thy ===== *)
theory Runs
  imports System
begin

text \<open>
  Runs of the server as lists of events: an executable interpreter of the step relation, so that
  concrete runs can be evaluated and the states they reach are reachable.
\<close>

section \<open>Events\<close>

datatype 'd event =
    Ev_accept "'d env" "octstr option"
  | Ev_read "'d env" nat octstr bool nat
  | Ev_inbound "'d env" nat
  | Ev_outbound "'d env" nat
  | Ev_simulation "'d env" nat
  | Ev_requeue "'d env"
  | Ev_cleanup "'d env"
  | Ev_box_send "'d env" nat nat
  | Ev_box_connect "'d env" nat bool
  | Ev_box_receive "'d env" nat msg
  | Ev_box_timeout "'d env" nat
  | Ev_box_lost nat
  | Ev_box_requeue "'d env"
  | Ev_router "'d env" nat sms route_status
  | Ev_rebuild "'d env"
  | Ev_unbind "octstr option" "octstr option" http_content

definition bind_allowed :: "nat \<Rightarrow> 'd server \<Rightarrow> bool" where
  "bind_allowed n s =
     (if n < length (s_inbound_queue s) then
        (case do { q \<leftarrow> get_pdu s (fst (s_inbound_queue s ! n)); i \<leftarrow> q_esme q; e \<leftarrow> get_esme s i; pd \<leftarrow> q_pdu q;
                   Some (is_bind pd \<longrightarrow> \<not> e_authenticated e) } of None \<Rightarrow> True | Some ok \<Rightarrow> ok)
      else True)"

lemma bind_allowed_iff: "bind_allowed n s \<longleftrightarrow> first_bind n s"
  unfolding bind_allowed_def first_bind_def
  by (cases "get_pdu s (fst (s_inbound_queue s ! n))") (auto simp: bind_eq_Some_conv split: option.splits Option.bind_splits)

fun do_event :: "'d event \<Rightarrow> 'd server \<Rightarrow> 'd server option" where
  "do_event (Ev_accept E ip) s = Some (snd (smpp_listener_connection_callback E ip s))"
| "do_event (Ev_read E i bytes eof fuel) s = smpp_listener_event E i bytes eof fuel s"
| "do_event (Ev_inbound E n) s = (if bind_allowed n s then smpp_queues_inbound_thread E n s else None)"
| "do_event (Ev_outbound E n) s = smpp_queues_outbound_thread E n s"
| "do_event (Ev_simulation E n) s = smpp_queues_simulation_thread E n s"
| "do_event (Ev_requeue E) s = smpp_queues_requeue_thread E s"
| "do_event (Ev_cleanup E) s = smpp_esme_cleanup_thread E s"
| "do_event (Ev_box_send E b n) s = smpp_bearerbox_outbound_thread E b n s"
| "do_event (Ev_box_connect E b ok) s = box_reconnect E b ok s"
| "do_event (Ev_box_receive E b msg) s = smpp_bearerbox_inbound_thread E b msg s"
| "do_event (Ev_box_timeout E b) s = box_idle E b s"
| "do_event (Ev_box_lost b) s = box_broken b s"
| "do_event (Ev_box_requeue E) s = smpp_bearerbox_requeue_thread E s"
| "do_event (Ev_router E k m rs) s =
     (if k < length (s_pending_routes s)
      then route_answer E (fst (s_pending_routes s ! k)) m rs
             (s\<lparr>s_pending_routes := take k (s_pending_routes s) @ drop (Suc k) (s_pending_routes s)\<rparr>)
      else None)"
| "do_event (Ev_rebuild E) s = Some (smpp_route_rebuild E s)"
| "do_event (Ev_unbind sid bid ct) s = map_option snd (smpp_esme_unbind_command sid bid ct s)"

fun run :: "'d event list \<Rightarrow> 'd server \<Rightarrow> 'd server option" where
  "run [] s = Some s"
| "run (ev # evs) s = do { s \<leftarrow> do_event ev s; run evs s }"

section \<open>Events and steps\<close>

lemma do_event_step: "do_event ev s = Some t \<Longrightarrow> server_step s t"
proof (induction ev s rule: do_event.induct)
  case (1 E ip s)
  then show ?case by (auto intro: accept [OF surjective_pairing])
next
  case (14 E k m rs s)
  then have k: "k < length (s_pending_routes s)" by (simp split: if_splits)
  obtain cb m0 where x: "s_pending_routes s ! k = (cb, m0)" by fastforce
  have "s_pending_routes s = take k (s_pending_routes s) @ (cb, m0) # drop (Suc k) (s_pending_routes s)"
    using k id_take_nth_drop [OF k] x by simp
  then show ?case using 14 k x by (auto intro: router)
next
  case (15 E s)
  then show ?case by (auto intro: rebuild)
next
  case (16 sid bid ct s)
  then show ?case by (auto intro: unbind)
qed (auto simp: bind_allowed_iff split: if_splits
    intro: read inbound outbound simulation requeue cleanup box_send box_connect box_receive box_timeout box_lost box_requeue)

lemma step_do_event: "server_step s t \<Longrightarrow> \<exists>ev. do_event ev s = Some t"
proof (induction rule: server_step.induct)
  case (accept E ip s r s')
  then have "do_event (Ev_accept E ip) s = Some s'" by simp
  then show ?case ..
next
  case (router s xs cb m ys E m' rs s')
  then have "do_event (Ev_router E (length xs) m' rs) s = Some s'" by simp
  then show ?case ..
next
  case (unbind sid bid ct s r s')
  then have "do_event (Ev_unbind sid bid ct) s = Some s'" by simp
  then show ?case ..
next
  case (inbound n s E s')
  then have "do_event (Ev_inbound E n) s = Some s'" by (simp add: bind_allowed_iff)
  then show ?case ..
qed (metis do_event.simps)+

lemma run_append: "run (evs @ evs') s = do { s \<leftarrow> run evs s; run evs' s }"
  by (induction evs arbitrary: s) (auto split: Option.bind_splits)

text \<open>A state is reachable exactly when some list of events, interpreted without a fault, leads to it.\<close>

lemma run_iff_reachable: "server_step\<^sup>*\<^sup>* s t \<longleftrightarrow> (\<exists>evs. run evs s = Some t)"
proof
  show "server_step\<^sup>*\<^sup>* s t \<Longrightarrow> \<exists>evs. run evs s = Some t"
  proof (induction rule: rtranclp_induct)
    case base
    have "run [] s = Some s" by simp
    then show ?case ..
  next
    case (step t u)
    then obtain evs ev where "run evs s = Some t" "do_event ev t = Some u" using step_do_event by blast
    then have "run (evs @ [ev]) s = Some u" by (simp add: run_append)
    then show ?case ..
  qed
  have "run evs s = Some t \<Longrightarrow> server_step\<^sup>*\<^sup>* s t" for evs
    by (induction evs arbitrary: s) (auto simp: bind_eq_Some_conv dest!: do_event_step intro: converse_rtranclp_into_rtranclp)
  then show "\<exists>evs. run evs s = Some t \<Longrightarrow> server_step\<^sup>*\<^sup>* s t" by blast
qed

section \<open>Concrete runs\<close>

text \<open>The environment of the examples, in which the connection delivers one PDU whatever bytes arrive.\<close>

definition sends :: "pdu \<Rightarrow> unit env" where
  "sends pd = plugin_env\<lparr>ev_gw := example_gwlib\<lparr>gw_pdu_unpack := (\<lambda>_ _. Some pd)\<rparr>\<rparr>"

definition run_server :: "unit server" where
  "run_server = initial_server example_cfg [smpp_bearerbox_create] Route_database ()"

text \<open>A connection is accepted and its bind as a transceiver for the account abc is read and handled.\<close>

definition bind_events :: "unit event list" where
  "bind_events = (let E = sends (Bind_transceiver 7 \<lparr>b_system_id = Some ''abc'', b_password = Some ''secret'', b_interface_version = 0x34\<rparr>) in
     [Ev_accept E (Some ''10.1.2.3''), Ev_read E 0 [CHR 0x02, CHR 0x20] False 3, Ev_inbound E 0])"

definition run_bound :: "unit server option" where
  "run_bound = run bind_events run_server"

lemma run_server_init: "server_init run_server"
  unfolding server_init_def run_server_def by (intro exI conjI, rule refl) (simp add: smpp_bearerbox_create_def)

lemma run_bound_facts:
  "map_option s_outbound_queue run_bound = Some [(1, 0)]"
  "map_option (\<lambda>s. map_option g_binds (dict_get (s_esmes s) ''abc'')) run_bound = Some (Some [0])"
  "map_option (\<lambda>s. map_option (\<lambda>e. (e_outbound_queued e, e_authenticated e)) (get_esme s 0)) run_bound = Some (Some (1, True))"
  by code_simp+

lemma run_bound_reachable: "\<exists>s. run_bound = Some s \<and> server_step\<^sup>*\<^sup>* run_server s"
  using run_bound_facts(1) unfolding run_bound_def run_iff_reachable by auto

text \<open>A connection that sends a deliver_sm_resp instead of a bind.\<close>

definition stray_events :: "unit event list" where
  "stray_events = (let E = sends (Deliver_sm_resp 1 SMPP_ESME_ROK) in
     [Ev_accept E (Some ''10.1.2.3''), Ev_read E 0 [CHR 0x02, CHR 0x20] False 3])"

text \<open>
  A bound ESME answers a delivery before it was sent: an incoming message is routed to it and queued under
  sequence number 2, and the answer to that number arrives while the delivery is still in the queue.
\<close>

definition incoming :: sms where
  "incoming = (sms_create 5)\<lparr>sms_type := mo, smsc_id := Some ''smsc'', sender := Some ''100'', receiver := Some ''200'', msgdata := Some ''hi''\<rparr>"

definition early_events :: "unit event list" where
  "early_events = (let E = sends (Deliver_sm_resp 2 SMPP_ESME_ROK);
       R = E\<lparr>ev_db := null_database\<lparr>db_get_routes := Some (\<lambda>_ _ _. [smpp_route_create\<lparr>rt_regex := ''2'', rt_system_id := Some ''abc''\<rparr>])\<rparr>\<rparr> in
     bind_events @ [Ev_rebuild R, Ev_box_receive R 0 (Msg_sms incoming), Ev_read E 0 [CHR 0x02, CHR 0x20] False 3, Ev_inbound E 0])"

lemma stray_facts:
  "map_option s_inbound_queue (run stray_events run_server) = Some [(0, 0)]"
  "map_option (bind_allowed 0) (run stray_events run_server) = Some True"
  "do { s \<leftarrow> run stray_events run_server; smpp_queues_inbound_thread (sends (Unbind 1)) 0 s } = None"
  by code_simp+

lemma early_facts:
  "map_option s_outbound_queue (run early_events run_server) = Some [(1, 0), (2, 0)]"
  "map_option (\<lambda>s. get_pdu s 2) (run early_events run_server) = Some None"
  "do { s \<leftarrow> run early_events run_server; smpp_queues_outbound_thread (sends (Unbind 1)) 1 s } = None"
  by code_simp+

text \<open>
  Two binds on one connection, which the step relation leaves out: after the second bind a delivery
  is sent and not answered, and a cleanup round comes when it has expired but the connection is
  not yet idle.
\<close>

definition rebind :: pdu where
  "rebind = Bind_transceiver 8 \<lparr>b_system_id = Some ''abc'', b_password = Some ''secret'', b_interface_version = 0x34\<rparr>"

definition rebound :: "unit server option" where
  "rebound = do {
     s \<leftarrow> run (bind_events @ [Ev_read (sends rebind) 0 [CHR 0x02, CHR 0x20] False 3]) run_server;
     smpp_queues_inbound_thread (sends rebind) 0 s }"

definition expiring_events :: "unit event list" where
  "expiring_events = (let E = sends (Unbind 1);
       R = E\<lparr>ev_db := null_database\<lparr>db_get_routes := Some (\<lambda>_ _ _. [smpp_route_create\<lparr>rt_regex := ''2'', rt_system_id := Some ''abc''\<rparr>])\<rparr>\<rparr> in
     [Ev_rebuild R, Ev_box_receive R 0 (Msg_sms incoming), Ev_outbound E 0, Ev_outbound E 0, Ev_outbound E 0,
      Ev_cleanup (E\<lparr>ev_now := 1100\<rparr>)])"

lemma rebound_facts:
  "map_option (\<lambda>s. map_option g_binds (dict_get (s_esmes s) ''abc'')) rebound = Some (Some [0, 0])"
  "map_option (\<lambda>s. map_option g_binds (dict_get (s_esmes s) ''abc'')) (do { s \<leftarrow> rebound; run expiring_events s }) = Some (Some [0])"
  "map_option (\<lambda>s. get_esme s 0) (do { s \<leftarrow> rebound; run expiring_events s }) = Some None"
  "do { s \<leftarrow> rebound; s \<leftarrow> run expiring_events s; smpp_esme_find_best_receiver s (Some ''abc'') } = None"
  by code_simp+

end
