(* ===== verification/Submission.thy ===== *)
theory Submission
  imports Handlers
begin

text \<open>
  What becomes of a submission: every submit_sm and data_sm an ESME sends is answered exactly
  once, or is held by exactly one party (an asynchronous router, or the bearerbox queue) that
  owes the answer. The two kinds of submission share the proofs through a locale over their
  constructors.
\<close>

section \<open>Operations that neither answer nor forward\<close>

definition undisturbed :: "nat \<Rightarrow> 'd server \<Rightarrow> 'd server \<Rightarrow> bool" where
  "undisturbed i s s' \<longleftrightarrow> s_outbound_queue s' = s_outbound_queue s \<and> s_bb_queue s' = s_bb_queue s
     \<and> s_pending_routes s' = s_pending_routes s \<and> s_pdu_heap s' = s_pdu_heap s \<and> s_next_pdu s' = s_next_pdu s
     \<and> s_routing_method s' = s_routing_method s
     \<and> (\<forall>e. get_esme s i = Some e \<longrightarrow> (\<exists>e'. get_esme s' i = Some e' \<and> e_pending_routing e' = e_pending_routing e
          \<and> e_open_acks e' = e_open_acks e))
     \<and> (get_global s i \<noteq> None \<longrightarrow> get_global s' i \<noteq> None)"

lemma undisturbed_refl [simp]: "undisturbed i s s"
  by (simp add: undisturbed_def)

lemma undisturbed_trans [trans]: "undisturbed i s t \<Longrightarrow> undisturbed i t u \<Longrightarrow> undisturbed i s u"
  unfolding undisturbed_def by fastforce

lemma undisturbed_pdu: "undisturbed i s s' \<Longrightarrow> get_pdu s' = get_pdu s"
  by (simp add: undisturbed_def get_pdu_def fun_eq_iff)

lemma undisturbed_db: "same_but_db s s' \<Longrightarrow> undisturbed i s s'"
  by (auto simp: same_but_db_def undisturbed_def get_esme_def get_global_def)

lemma get_globalD: "get_global s i = Some g \<Longrightarrow> \<exists>e k. get_esme s i = Some e \<and> e_global e = Some k \<and> dict_get (s_esmes s) k = Some g"
  by (auto simp: get_global_def bind_eq_Some_conv)

lemma undisturbed_upd_esme:
  assumes "get_esme s i = Some e" and "e_pending_routing (f e) = e_pending_routing e" and "e_global (f e) = e_global e"
    and "e_open_acks (f e) = e_open_acks e"
  shows "\<exists>s'. upd_esme i f s = Some s' \<and> undisturbed i s s' \<and> get_global s' i = get_global s i"
proof -
  have "get_global (put_esme i (f e) s) i = get_global s i"
    using assms by (simp add: get_global_def) (simp add: put_esme_def)
  then show ?thesis using assms by (simp add: upd_esme_def undisturbed_def) (simp add: put_esme_def)
qed

lemma undisturbed_upd_global:
  assumes "get_global s i = Some g"
  shows "\<exists>s'. upd_global i f s = Some s' \<and> undisturbed i s s' \<and> get_global s' i = Some (f g)"
  using get_globalD [OF assms] by (auto simp: upd_global_def undisturbed_def get_global_def get_esme_def)

lemma count_traffic_total:
  assumes "get_global s i \<noteq> None"
  shows "\<exists>s'. count_traffic f i s = Some s' \<and> undisturbed i s s'"
proof -
  obtain g e where g: "get_global s i = Some g" and e: "get_esme s i = Some e" using assms get_globalD by fastforce
  obtain t where t: "upd_esme i (\<lambda>e. e\<lparr>e_traffic := f (e_traffic e)\<rparr>) s = Some t" "undisturbed i s t" "get_global t i = Some g"
    using undisturbed_upd_esme [OF e, of "\<lambda>e. e\<lparr>e_traffic := f (e_traffic e)\<rparr>"] g by auto
  obtain u where "upd_global i (\<lambda>g. g\<lparr>g_traffic := f (g_traffic g)\<rparr>) t = Some u" "undisturbed i t u"
    using undisturbed_upd_global [OF t(3)] by blast
  with t show ?thesis by (auto simp: count_traffic_def intro: undisturbed_trans)
qed

lemma inbound_load_total:
  assumes "get_global s i = Some g" and "get_esme s i = Some e"
  shows "\<exists>s'. smpp_esme_inbound_load_increase E i s = Some s' \<and> undisturbed i s s'"
proof -
  let ?s = "s\<lparr>s_inbound_processed := s_inbound_processed s + 1, s_inbound_load := s_inbound_load s @ [ev_now E]\<rparr>"
  let ?f = "\<lambda>e. e\<lparr>e_inbound_load := e_inbound_load e @ [ev_now E]\<rparr>"
  have s: "undisturbed i s ?s" "get_esme ?s i = Some e" "get_global ?s i = Some g"
    using assms by (auto simp: undisturbed_def get_esme_def get_global_def)
  obtain t where t: "upd_esme i ?f ?s = Some t" "undisturbed i ?s t" "get_global t i = Some g"
    using undisturbed_upd_esme [OF s(2), of ?f] s(3) by auto
  obtain u where "upd_global i (\<lambda>g. g\<lparr>g_inbound_load := g_inbound_load g @ [ev_now E]\<rparr>) t = Some u" "undisturbed i t u"
    using undisturbed_upd_global [OF t(3)] by blast
  with s t show ?thesis by (auto simp: smpp_esme_inbound_load_increase_def Let_def intro: undisturbed_trans)
qed

lemma undisturbed_route_database:
  "route_database E dir smsc sid m s = (rs, m', s') \<Longrightarrow> undisturbed i s s'"
  unfolding route_database_def outbound_routes_for_def Let_def
  by (auto simp: undisturbed_def get_esme_def get_global_def split: option.splits sum.splits if_splits prod.splits)

section \<open>Answers\<close>

text \<open>The PDU at r was queued for the ESME i, once, as the given answer; nothing was forwarded.\<close>

definition answered :: "nat \<Rightarrow> nat \<Rightarrow> pdu \<Rightarrow> 'd server \<Rightarrow> 'd server \<Rightarrow> bool" where
  "answered i r resp s s' \<longleftrightarrow> s_outbound_queue s' = s_outbound_queue s @ [(r, i)] \<and> s_bb_queue s' = s_bb_queue s
     \<and> s_pending_routes s' = s_pending_routes s
     \<and> (\<exists>q. get_pdu s' r = Some q \<and> q_pdu q = Some resp \<and> q_esme q = Some i)
     \<and> (\<forall>p. p \<noteq> r \<longrightarrow> get_pdu s' p = get_pdu s p)
     \<and> (\<forall>e. get_esme s i = Some e \<longrightarrow> (\<exists>e'. get_esme s' i = Some e' \<and> e_pending_routing e' = e_pending_routing e))"

lemma undisturbed_answered: "undisturbed i s t \<Longrightarrow> answered i r resp t u \<Longrightarrow> answered i r resp s u"
  unfolding answered_def undisturbed_def get_pdu_def by fastforce

lemma add_outbound_plain:
  assumes "get_pdu s r = Some q" and "q_esme q = Some i" and "q_callback q = None" and "get_esme s i \<noteq> None" and "q_pdu q = Some resp"
  shows "\<exists>s'. smpp_queues_add_outbound r s = Some s' \<and> answered i r resp s s' \<and> get_pdu s' r = Some q"
  using assms
  by (auto simp: smpp_queues_add_outbound_def upd_esme_def answered_def) (auto simp: put_esme_def get_esme_def get_pdu_def)

lemma get_pdu_alloc: "get_pdu (snd (alloc_pdu q s)) p = (if p = s_next_pdu s then Some q else get_pdu s p)"
  by (simp add: alloc_pdu_def) (simp add: get_pdu_def)

lemma alloc_split: "(case alloc_pdu q s of (r, t) \<Rightarrow> f r t) = f (s_next_pdu s) (snd (alloc_pdu q s))"
  by (simp add: alloc_pdu_def)

lemma alloc_fields [simp]:
  "s_outbound_queue (snd (alloc_pdu q s)) = s_outbound_queue s" "s_bb_queue (snd (alloc_pdu q s)) = s_bb_queue s"
  "s_pending_routes (snd (alloc_pdu q s)) = s_pending_routes s" "s_routing_method (snd (alloc_pdu q s)) = s_routing_method s"
  "get_esme (snd (alloc_pdu q s)) i = get_esme s i" "get_global (snd (alloc_pdu q s)) i = get_global s i"
  "s_db (snd (alloc_pdu q s)) = s_db s" "s_cfg (snd (alloc_pdu q s)) = s_cfg s" "s_bearerboxes (snd (alloc_pdu q s)) = s_bearerboxes s"
  by (simp_all add: alloc_pdu_def put_pdu_def get_esme_def get_global_def)

lemma put_pdu_frame [simp]:
  "s_outbound_queue (put_pdu p q s) = s_outbound_queue s" "s_bb_queue (put_pdu p q s) = s_bb_queue s"
  "s_pending_routes (put_pdu p q s) = s_pending_routes s" "s_routing_method (put_pdu p q s) = s_routing_method s"
  "get_esme (put_pdu p q s) i = get_esme s i" "get_global (put_pdu p q s) i = get_global s i"
  by (simp_all add: put_pdu_def get_esme_def get_global_def)

text \<open>A new PDU is answered: the same as answering it once it exists.\<close>

lemma respond_answers:
  assumes "get_esme s i \<noteq> None"
  shows "\<exists>s'. respond i resp s = Some s' \<and> answered i (s_next_pdu s) resp s s'"
proof -
  obtain e where e: "get_esme s i = Some e" using assms by blast
  let ?q = "smpp_queued_pdu_create_quick i e resp"
  let ?t = "snd (alloc_pdu ?q s)"
  have q: "get_pdu ?t (s_next_pdu s) = Some ?q" by (simp add: get_pdu_alloc)
  obtain s' where s': "smpp_queues_add_outbound (s_next_pdu s) ?t = Some s'" "answered i (s_next_pdu s) resp ?t s'"
    using add_outbound_plain [OF q, of i resp] e by (auto simp: smpp_queued_pdu_create_quick_def smpp_queued_pdu_create_def)
  have "respond i resp s = Some s'" using e s'(1) by (simp add: respond_def alloc_split)
  moreover have "answered i (s_next_pdu s) resp s s'" using s'(2) by (auto simp: answered_def get_pdu_alloc)
  ultimately show ?thesis by blast
qed

lemma destroy_after_answer:
  assumes "answered i r resp s s'" and "get_pdu s p \<noteq> None" and "p \<noteq> r"
  shows "\<exists>u. smpp_queued_pdu_destroy p s' = Some u \<and> get_pdu u p = None \<and> (\<forall>p'. p' \<noteq> p \<longrightarrow> get_pdu u p' = get_pdu s' p')
    \<and> s_outbound_queue u = s_outbound_queue s' \<and> s_bb_queue u = s_bb_queue s' \<and> s_pending_routes u = s_pending_routes s'
    \<and> s_db u = s_db s' \<and> get_esme u = get_esme s'"
  using assms by (auto simp: answered_def smpp_queued_pdu_destroy_def free_pdu_def get_pdu_def get_esme_def fun_eq_iff)

section \<open>Forwarding\<close>

text \<open>The message went to the bearerbox queue, once, with the callback that will answer with the PDU at r.\<close>

definition forwarded :: "nat \<Rightarrow> nat \<Rightarrow> bb_callback \<Rightarrow> pdu \<Rightarrow> 'd server \<Rightarrow> 'd server \<Rightarrow> bool" where
  "forwarded i r cb resp s s' \<longleftrightarrow> s_outbound_queue s' = s_outbound_queue s \<and> s_pending_routes s' = s_pending_routes s
     \<and> (\<exists>bm. s_bb_queue s' = s_bb_queue s @ [bm] \<and> bm_callback bm = cb)
     \<and> (\<exists>q. get_pdu s' r = Some q \<and> q_pdu q = Some resp \<and> q_esme q = Some i \<and> q_callback q = None)
     \<and> (\<forall>p. p \<noteq> r \<longrightarrow> get_pdu s' p = get_pdu s p)
     \<and> (\<forall>e. get_esme s i = Some e \<longrightarrow> (\<exists>e'. get_esme s' i = Some e' \<and> e_pending_routing e' = e_pending_routing e))"

text \<open>The message waits for the router, once, and the ESME counts one more submission in routing.\<close>

definition awaiting_route :: "nat \<Rightarrow> nat \<Rightarrow> route_callback \<Rightarrow> pdu \<Rightarrow> 'd server \<Rightarrow> 'd server \<Rightarrow> bool" where
  "awaiting_route i r cb resp s s' \<longleftrightarrow> s_outbound_queue s' = s_outbound_queue s \<and> s_bb_queue s' = s_bb_queue s
     \<and> (\<exists>m. s_pending_routes s' = s_pending_routes s @ [(cb, m)])
     \<and> (\<exists>q. get_pdu s' r = Some q \<and> q_pdu q = Some resp \<and> q_esme q = Some i \<and> q_callback q = None)
     \<and> (\<forall>p. p \<noteq> r \<longrightarrow> get_pdu s' p = get_pdu s p)
     \<and> (\<forall>e. get_esme s i = Some e \<longrightarrow> (\<exists>e'. get_esme s' i = Some e' \<and> e_pending_routing e' = e_pending_routing e + 1))"

locale submission_kind =
  fixes resp :: "command_status \<Rightarrow> octstr option \<Rightarrow> pdu"
    and bcb :: "nat \<Rightarrow> bb_callback"
    and rcb :: "nat \<Rightarrow> nat \<Rightarrow> route_callback"
    and answer :: "nat \<Rightarrow> command_status \<Rightarrow> 'd server \<Rightarrow> 'd server option"
    and routing_done :: "'d env \<Rightarrow> nat \<Rightarrow> route_status \<Rightarrow> 'd server \<Rightarrow> 'd server option"
  assumes resp_status: "set_resp_status st (resp st0 mid) = Some (resp st (if st = SMPP_ESME_ROK then mid else None))"
    and resp_cb: "resp_callback r (resp st mid) = Some (bcb r)"
    and resp_mid: "\<exists>mid'. set_resp_message_id mid (resp st mid0) = resp st mid'"
    and answer_def: "answer r st s = callback_response r st s"
    and run_bcb: "run_bb_callback E (bcb r) st s = answer r st s"
    and done_def: "routing_done E r rs s = submission_routing_done E r rs s"
    and run_rcb: "run_route_callback E (rcb r i) rs s = routing_done E r rs s"
    and set_rcb: "set_callback_msg (rcb r i) m (s :: 'd server) = do { q \<leftarrow> get_pdu s r; Some (rcb r i, put_pdu r (q\<lparr>q_msg := Msg_own m\<rparr>) s) }"
    and reject_def: "q_pdu q = Some (resp st0 mid) \<Longrightarrow> reject_submission r q i st (s :: 'd server) = do {
      s \<leftarrow> count_traffic count_error i s;
      smpp_queues_add_outbound r (put_pdu r (q\<lparr>q_pdu := Some (resp st None), q_msg := Msg_null\<rparr>) s) }"
begin

definition waiting :: "nat \<Rightarrow> octstr option \<Rightarrow> queued_pdu \<Rightarrow> bool" where
  "waiting i mid q \<longleftrightarrow> q_pdu q = Some (resp SMPP_ESME_ROK mid) \<and> q_esme q = Some i \<and> q_callback q = None"

definition owed :: "nat \<Rightarrow> nat \<Rightarrow> 'd server \<Rightarrow> 'd server \<Rightarrow> bool" where
  "owed i r s s' \<longleftrightarrow> (\<exists>st mid. answered i r (resp st mid) s s') \<or> (\<exists>mid. forwarded i r (bcb r) (resp SMPP_ESME_ROK mid) s s')"

lemma undisturbed_owed: "undisturbed i s t \<Longrightarrow> owed i r t u \<Longrightarrow> owed i r s u"
  unfolding owed_def forwarded_def undisturbed_def answered_def get_pdu_def by fastforce

lemma put_answered:
  assumes "undisturbed i s t" and "get_pdu s r \<noteq> None" and "get_global s i \<noteq> None" and "q_esme q = Some i" and "q_callback q = None" and "q_pdu q = Some p"
  shows "\<exists>s'. smpp_queues_add_outbound r (put_pdu r q t) = Some s' \<and> answered i r p s s'"
proof -
  have "get_esme t i \<noteq> None" using assms(1,3) get_globalD unfolding undisturbed_def by fastforce
  then obtain s' where s': "smpp_queues_add_outbound r (put_pdu r q t) = Some s'" "answered i r p (put_pdu r q t) s'"
    using add_outbound_plain [of "put_pdu r q t" r q i p] assms(4-6) by auto
  then have "answered i r p t s'" by (auto simp: answered_def)
  with s' assms(1) show ?thesis using undisturbed_answered by blast
qed

lemma answers:
  assumes "get_pdu s r = Some q" and "waiting i mid q" and "get_global s i \<noteq> None"
  shows "\<exists>s'. answer r st s = Some s' \<and> answered i r (resp st (if st = SMPP_ESME_ROK then mid else None)) s s'"
proof -
  obtain t where t: "count_traffic (if st \<noteq> SMPP_ESME_ROK then count_error else count_mt) i s = Some t" "undisturbed i s t"
    using count_traffic_total [OF assms(3)] by blast
  show ?thesis
    using put_answered [OF t(2) _ assms(3), of r "q\<lparr>q_pdu := Some (resp st (if st = SMPP_ESME_ROK then mid else None))\<rparr>"] assms t(1)
    by (auto simp: answer_def callback_response_def waiting_def resp_status)
qed

lemma rejects:
  fixes s :: "'d server"
  assumes "get_pdu s r \<noteq> None" and "waiting i mid q" and "get_global s i \<noteq> None"
  shows "\<exists>s'. reject_submission r q i st s = Some s' \<and> answered i r (resp st None) s s'"
proof -
  obtain t where t: "count_traffic count_error i s = Some t" "undisturbed i s t" using count_traffic_total [OF assms(3)] by blast
  have q: "q_pdu q = Some (resp SMPP_ESME_ROK mid)" using assms(2) by (simp add: waiting_def)
  show ?thesis
    using put_answered [OF t(2) assms(1,3), of "q\<lparr>q_pdu := Some (resp st None), q_msg := Msg_null\<rparr>"] assms(2) t(1)
    unfolding reject_def [OF q] by (auto simp: waiting_def)
qed

lemma adds_to_queue:
  assumes "get_pdu s r = Some q" and "waiting i mid q" and "get_global s i \<noteq> None" and "bm_callback bm = bcb r"
  shows "\<exists>s'. smpp_bearerbox_add_to_queue E bm s = Some s' \<and> owed i r s s'"
proof (cases "some_bearerbox_online s")
  case True
  let ?t = "s\<lparr>s_bb_queue := s_bb_queue s @ [bm]\<rparr>"
  have "forwarded i r (bcb r) (resp SMPP_ESME_ROK mid) s ?t"
    using assms by (auto simp: forwarded_def waiting_def get_pdu_def get_esme_def)
  with True show ?thesis by (auto simp: smpp_bearerbox_add_to_queue_def owed_def)
next
  case False
  define x where "x = (if c_database_enable_queue (s_cfg s) then smpp_database_add_queue_message E s (bm_msg bm) else (False, s))"
  obtain ok t where x': "x = (ok, t)" by (cases x)
  have "same_but_db s t" using x' database_frames(2) [of s E "bm_msg bm"] unfolding x_def by (cases "c_database_enable_queue (s_cfg s)") auto
  then have t: "undisturbed i s t" by (rule undisturbed_db)
  have t2: "get_pdu t r = Some q" "get_global t i \<noteq> None"
    using assms(1,3) t undisturbed_pdu [OF t] by (auto simp: undisturbed_def)
  obtain s' where s': "answer r (if ok then 0 else SMPP_ESME_RSYSERR) t = Some s'"
     "answered i r (resp (if ok then 0 else SMPP_ESME_RSYSERR) (if (if ok then 0 else SMPP_ESME_RSYSERR) = SMPP_ESME_ROK then mid else None)) t s'"
    using answers [OF t2(1) assms(2) t2(2)] by blast
  have "smpp_bearerbox_add_to_queue E bm s = Some s'"
    using False s'(1) x' unfolding smpp_bearerbox_add_to_queue_def Let_def x_def [symmetric] by (simp add: assms(4) run_bcb)
  moreover have "owed i r s s'" using s'(2) undisturbed_answered [OF t] unfolding owed_def by blast
  ultimately show ?thesis by blast
qed

lemma forwards:
  assumes "get_pdu s r \<noteq> None" and "waiting i mid q" and "get_global s i = Some g"
  shows "\<exists>s'. forward_submission E r q i m s = Some s' \<and> owed i r s s'"
proof -
  obtain e where e: "get_esme s i = Some e" using get_globalD [OF assms(3)] by blast
  obtain mid' where mid': "set_resp_message_id (Some (gw_uuid_unparse (ev_gw E) (sms_id m))) (resp SMPP_ESME_ROK mid) = resp SMPP_ESME_ROK mid'"
    using resp_mid by blast
  define q' where "q' = q\<lparr>q_pdu := Some (resp SMPP_ESME_ROK mid')\<rparr>"
  define m' where "m' = (if is_submit_sm_resp (resp SMPP_ESME_ROK mid) then smpp_queues_msg_set_dlr_url (ev_gw E) (ev_now E) e m else m)"
  have q': "waiting i mid' (q'\<lparr>q_msg := x\<rparr>)" for x using assms(2) by (simp add: waiting_def q'_def)
  have q: "q_pdu q = Some (resp SMPP_ESME_ROK mid)" using assms(2) by (simp add: waiting_def)
  have put_owed: "owed i r (put_pdu r x t) u \<Longrightarrow> undisturbed i s t \<Longrightarrow> owed i r s u" for x t u
    unfolding owed_def forwarded_def answered_def undisturbed_def get_pdu_def put_pdu_def get_esme_def by fastforce
  show ?thesis
  proof (cases "g_database_store_primary g")
    case True
    obtain ok t where x: "smpp_database_add_message E s m' = (ok, t)" by fastforce
    then have t: "undisturbed i s t" using database_frames(1) [of s E m'] undisturbed_db by (metis snd_conv)
    let ?u = "put_pdu r (q'\<lparr>q_msg := Msg_null\<rparr>) t"
    have "get_global ?u i \<noteq> None" using t assms(3) by (simp add: undisturbed_def)
    then obtain s' where s': "answer r (if ok then 0 else SMPP_ESME_RSYSERR) ?u = Some s'" "owed i r ?u s'"
      using answers [of ?u r "q'\<lparr>q_msg := Msg_null\<rparr>" i mid'] q' unfolding owed_def by (metis get_pdu_put)
    have "forward_submission E r q i m s = Some s'"
      using True e assms(3) q s'(1) x unfolding forward_submission_def m'_def q'_def Let_def
      by (simp add: resp_cb mid' run_bcb)
    with s'(2) put_owed t show ?thesis by blast
  next
    case False
    let ?u = "put_pdu r (q'\<lparr>q_msg := Msg_lent\<rparr>) s"
    obtain s' where s': "smpp_bearerbox_add_message E m' (bcb r) ?u = Some s'" "owed i r ?u s'"
      using adds_to_queue [of ?u r "q'\<lparr>q_msg := Msg_lent\<rparr>" i mid' "smpp_bearerbox_msg_create (ev_gw E) m' (bcb r)"] q' assms(3)
      by (auto simp: smpp_bearerbox_add_message_def smpp_bearerbox_msg_create_def)
    have "forward_submission E r q i m s = Some s'"
      using False e assms(3) q s'(1) unfolding forward_submission_def m'_def q'_def Let_def
      by (simp add: resp_cb mid')
    with s'(2) put_owed show ?thesis by (metis undisturbed_refl)
  qed
qed

text \<open>Up to the PDU at r and the pending counter, given as its new value, nothing has changed yet.\<close>

definition prepared :: "nat \<Rightarrow> nat \<Rightarrow> nat \<Rightarrow> 'd server \<Rightarrow> 'd server \<Rightarrow> bool" where
  "prepared i r n s t \<longleftrightarrow> s_outbound_queue t = s_outbound_queue s \<and> s_bb_queue t = s_bb_queue s \<and> s_pending_routes t = s_pending_routes s
     \<and> (\<forall>p. p \<noteq> r \<longrightarrow> get_pdu t p = get_pdu s p) \<and> (\<exists>e. get_esme t i = Some e \<and> e_pending_routing e = n)
     \<and> get_global t i \<noteq> None"

lemma prepared_owed:
  "prepared i r (e_pending_routing e) s t \<Longrightarrow> get_esme s i = Some e \<Longrightarrow> owed i r t u \<Longrightarrow> owed i r s u"
  unfolding owed_def prepared_def answered_def forwarded_def by fastforce

lemma prepared_undisturbed: "prepared i r n s t \<Longrightarrow> undisturbed i t u \<Longrightarrow> prepared i r n s u"
  unfolding prepared_def undisturbed_def get_pdu_def by fastforce

lemma prepared_put_pdu: "prepared i r n s t \<Longrightarrow> prepared i r n s (put_pdu r q t)"
  by (simp add: prepared_def)

lemma prepared_count:
  assumes "prepared i r n s t" and "\<And>e. e_pending_routing (f e) = h (e_pending_routing e)" and "\<And>e. e_global (f e) = e_global e"
  shows "\<exists>u. upd_esme i f t = Some u \<and> prepared i r (h n) s u \<and> get_pdu u = get_pdu t \<and> s_routing_method u = s_routing_method t"
proof -
  from assms(1) obtain e where e: "get_esme t i = Some e" "e_pending_routing e = n" by (auto simp: prepared_def)
  have "get_global (put_esme i (f e) t) i = get_global t i"
    using e(1) assms(3) by (simp add: get_global_def) (simp add: put_esme_def)
  then show ?thesis
    using assms e by (simp add: upd_esme_def prepared_def get_pdu_def fun_eq_iff) (simp add: put_esme_def)
qed

lemma routed:
  assumes "prepared i r (Suc n) s t" and "get_pdu t r = Some q" and "waiting i mid q" and "q_msg q = Msg_own m"
    and "get_esme s i = Some e" and "e_pending_routing e = n"
  shows "\<exists>s'. routing_done E r rs t = Some s' \<and> owed i r s s'"
proof -
  let ?f = "\<lambda>e. e\<lparr>e_pending_routing := e_pending_routing e - 1\<rparr>"
  obtain u where u: "upd_esme i ?f t = Some u" "prepared i r n s u" "get_pdu u = get_pdu t"
    using prepared_count [OF assms(1), of ?f "\<lambda>k. k - 1"] by auto
  then obtain e1 g where e1: "get_esme u i = Some e1" and g: "get_global u i = Some g" by (auto simp: prepared_def)
  have charged: "\<exists>s'. do { (paid, v) \<leftarrow> charge E i c u;
      (if paid then forward_submission E r q i m v else reject_submission r q i SMPP_ESME_RSUBMITFAIL v) } = Some s' \<and> owed i r u s'" for c
  proof -
    obtain paid v where v: "charge E i c u = Some (paid, v)" "same_but_db u v"
      using e1 g database_frames(11) [of u E "e_system_id e1" c]
      by (cases "smpp_database_deduct_credit E u (e_system_id e1) c"; cases "g_enable_prepaid_billing g") (auto simp: charge_def)
    have d: "undisturbed i u v" using v(2) by (rule undisturbed_db)
    then have v2: "get_pdu v r \<noteq> None" "get_global v i \<noteq> None" using g assms(2) u(3) undisturbed_pdu [OF d] by (auto simp: undisturbed_def)
    then obtain g2 where g2: "get_global v i = Some g2" by blast
    obtain a where a: "forward_submission E r q i m v = Some a" "owed i r v a" using forwards [OF v2(1) assms(3) g2] by blast
    obtain b where b: "reject_submission r q i SMPP_ESME_RSUBMITFAIL v = Some b" "owed i r v b"
      using rejects [OF v2(1) assms(3) v2(2)] unfolding owed_def by blast
    show ?thesis using a b undisturbed_owed [OF d] by (cases paid) (simp_all add: v(1))
  qed
  have rejected: "\<exists>s'. reject_submission r q i st u = Some s' \<and> owed i r u s'" for st
    using rejects [of u r i mid q st] assms(2,3) u(3) g unfolding owed_def by auto
  have "\<exists>s'. routing_done E r rs t = Some s' \<and> owed i r u s'"
    using assms(2-4) u(1) e1 charged rejected unfolding done_def submission_routing_done_def
    by (simp add: waiting_def own_msg_def)
  then show ?thesis using prepared_owed [of i r e s u] u(2) assms(5,6) by blast
qed

lemma routes_submission:
  assumes "get_esme s i = Some e" and "get_global s i \<noteq> None" and "s_routing_method s \<noteq> Route_none"
  shows "\<exists>s'. route_submission E i (\<lambda>mid. resp SMPP_ESME_ROK (Some mid)) rcb m s = Some s'
    \<and> (owed i (s_next_pdu s) s s' \<or> (\<exists>mid. awaiting_route i (s_next_pdu s) (rcb (s_next_pdu s) i) (resp SMPP_ESME_ROK mid) s s'))"
proof -
  define m1 where "m1 = smpp_queues_msg_set_dlr_url (ev_gw E) (ev_now E) e
    (if 0 < octstr_len (e_default_smsc e) then m\<lparr>smsc_id := e_default_smsc e\<rparr> else m)"
  define mid where "mid = gw_uuid_unparse (ev_gw E) (sms_id m1)"
  define q where "q = (smpp_queued_pdu_create_quick i e (resp SMPP_ESME_ROK (Some mid)))\<lparr>q_msg := Msg_own m1\<rparr>"
  let ?r = "s_next_pdu s" and ?f = "\<lambda>e. e\<lparr>e_pending_routing := e_pending_routing e + 1\<rparr>"
  let ?s1 = "snd (alloc_pdu q s)"
  have "prepared i ?r (e_pending_routing e) s ?s1" using assms(1,2) by (simp add: prepared_def get_pdu_alloc)
  then obtain s2 where s2: "upd_esme i ?f ?s1 = Some s2" "prepared i ?r (Suc (e_pending_routing e)) s s2"
      "get_pdu s2 = get_pdu ?s1" "s_routing_method s2 = s_routing_method s"
    using prepared_count [of i ?r "e_pending_routing e" s ?s1 ?f "\<lambda>n. n + 1"] by auto
  have q: "get_pdu s2 ?r = Some q" "waiting i (Some mid) q"
    by (simp_all add: s2(3) get_pdu_alloc q_def waiting_def smpp_queued_pdu_create_quick_def smpp_queued_pdu_create_def)
  have route: "route_submission E i (\<lambda>mid. resp SMPP_ESME_ROK (Some mid)) rcb m s =
      smpp_route_message E SMPP_ROUTE_DIRECTION_OUTBOUND None (e_system_id e) m1 (rcb ?r i) s2"
    using assms(1) s2(1) unfolding route_submission_def Let_def alloc_split m1_def [symmetric] mid_def [symmetric] q_def [symmetric]
    by (simp add: alloc_split m1_def [symmetric] mid_def [symmetric] q_def [symmetric])
  show ?thesis
  proof (cases "s_routing_method s = Route_database")
    case True
    obtain rs m2 s3 where d: "route_database E SMPP_ROUTE_DIRECTION_OUTBOUND None (e_system_id e) m1 s2 = (rs, m2, s3)"
      using prod_cases3 by blast
    let ?s4 = "put_pdu ?r (q\<lparr>q_msg := Msg_own m2\<rparr>) s3"
    have u: "undisturbed i s2 s3" by (rule undisturbed_route_database [OF d])
    have p3: "get_pdu s3 ?r = Some q" using undisturbed_pdu [OF u] q(1) by simp
    have p: "prepared i ?r (Suc (e_pending_routing e)) s ?s4" using prepared_put_pdu [OF prepared_undisturbed [OF s2(2) u]] .
    obtain s' where "routing_done E ?r rs ?s4 = Some s'" "owed i ?r s s'"
      using routed [OF p, of "q\<lparr>q_msg := Msg_own m2\<rparr>" "Some mid" m2 e E rs] q(2) assms(1) by (auto simp: waiting_def)
    then show ?thesis
      using True s2(4) d p3 unfolding route
      by (simp add: smpp_route_message_def smpp_route_message_database_def route_answer_def set_rcb run_rcb)
  next
    case False
    let ?s' = "s2\<lparr>s_pending_routes := s_pending_routes s2 @ [(rcb ?r i, m1)]\<rparr>"
    have "smpp_route_message E SMPP_ROUTE_DIRECTION_OUTBOUND None (e_system_id e) m1 (rcb ?r i) s2 = Some ?s'"
      using False assms(3) s2(4) by (simp add: smpp_route_message_def split: routing_method.splits)
    moreover have "awaiting_route i ?r (rcb ?r i) (resp SMPP_ESME_ROK (Some mid)) s ?s'"
      using s2(2) q assms(1) by (auto simp: awaiting_route_def prepared_def waiting_def get_pdu_def get_esme_def)
    ultimately show ?thesis unfolding route by blast
  qed
qed

end

section \<open>The two kinds of submission\<close>

interpretation submit: submission_kind "Submit_sm_resp seq" BCb_submit_sm RCb_submit_sm
    smpp_queues_callback_submit_sm smpp_queues_submit_routing_done for seq
  by unfold_locales
    (auto simp: set_resp_status_def resp_callback_def set_resp_message_id_def smpp_queues_callback_submit_sm_def run_bb_callback_def
      smpp_queues_submit_routing_done_def run_route_callback_def set_callback_msg_def reject_submission_def)

interpretation data: submission_kind "Data_sm_resp seq" BCb_data_sm RCb_data_sm
    smpp_queues_callback_data_sm smpp_queues_data_sm_routing_done for seq
  by unfold_locales
    (auto simp: set_resp_status_def resp_callback_def set_resp_message_id_def smpp_queues_callback_data_sm_def run_bb_callback_def
      smpp_queues_data_sm_routing_done_def run_route_callback_def set_callback_msg_def reject_submission_def)

text \<open>
  The outcome of a submission of the ESME i with the response PDU at r: exactly one of an answer in
  the outbound queue, an entry of the bearerbox queue, and a request to the router.
\<close>

definition submission_outcome ::
  "(command_status \<Rightarrow> octstr option \<Rightarrow> pdu) \<Rightarrow> (nat \<Rightarrow> bb_callback) \<Rightarrow> (nat \<Rightarrow> nat \<Rightarrow> route_callback) \<Rightarrow> nat \<Rightarrow> nat \<Rightarrow> 'd server \<Rightarrow> 'd server \<Rightarrow> bool" where
  "submission_outcome resp bcb rcb i r s s' \<longleftrightarrow>
     (\<exists>st mid. answered i r (resp st mid) s s')
   \<or> (\<exists>mid. forwarded i r (bcb r) (resp SMPP_ESME_ROK mid) s s')
   \<or> (\<exists>mid. awaiting_route i r (rcb r i) (resp SMPP_ESME_ROK mid) s s')"

lemma undisturbed_outcome:
  "undisturbed i s t \<Longrightarrow> submission_outcome resp bcb rcb i r t u \<Longrightarrow> submission_outcome resp bcb rcb i r s u"
  unfolding submission_outcome_def answered_def forwarded_def awaiting_route_def undisturbed_def get_pdu_def by fastforce

lemma outcome_keeps: "submission_outcome resp bcb rcb i r s t \<Longrightarrow> p \<noteq> r \<Longrightarrow> get_pdu t p = get_pdu s p"
  unfolding submission_outcome_def answered_def forwarded_def awaiting_route_def by auto

lemma respond_outcome:
  assumes "get_esme s i \<noteq> None"
  shows "\<exists>t. respond i (resp st None) s = Some t \<and> submission_outcome resp bcb rcb i (s_next_pdu s) s t"
  using respond_answers [OF assms, of "resp st None"] unfolding submission_outcome_def by blast

lemma undisturbed_fresh_uuid: "undisturbed i s (snd (fresh_uuid s))"
  by (auto simp: undisturbed_def fresh_uuid_def get_esme_def get_global_def)

text \<open>The guards of a handler, its accounting and its last step, with the part that depends on the kind given as \<open>rest\<close>.\<close>

lemma guarded_submission:
  assumes "get_esme s i = Some e" and "get_global s i = Some g" and "get_pdu s p \<noteq> None" and "get_pdu s (s_next_pdu s) = None"
    and rest: "\<And>t. undisturbed i s t \<Longrightarrow> \<exists>u. rest t = Some u \<and> submission_outcome resp bcb rcb i (s_next_pdu s) t u"
    and handler: "handler = do {
      s \<leftarrow> (if \<not> can_transmit (e_bind_type e) then respond i (resp SMPP_ESME_RINVBNDSTS None) s
           else if throttled E g then respond i (resp SMPP_ESME_RTHROTTLED None) s
           else do { s \<leftarrow> smpp_esme_inbound_load_increase E i s; rest s });
      smpp_queued_pdu_destroy p s }"
  shows "\<exists>t s'. handler = Some s' \<and> submission_outcome resp bcb rcb i (s_next_pdu s) s t \<and> smpp_queued_pdu_destroy p t = Some s'"
proof -
  have i: "get_esme s i \<noteq> None" using assms(1) by simp
  obtain l where l: "smpp_esme_inbound_load_increase E i s = Some l" "undisturbed i s l" using inbound_load_total [OF assms(2,1)] by blast
  obtain u where u: "rest l = Some u" "submission_outcome resp bcb rcb i (s_next_pdu s) s u" using rest [OF l(2)] undisturbed_outcome [OF l(2)] by blast
  obtain t where t: "submission_outcome resp bcb rcb i (s_next_pdu s) s t"
      "handler = smpp_queued_pdu_destroy p t"
    using respond_outcome [OF i, of resp SMPP_ESME_RINVBNDSTS bcb rcb] respond_outcome [OF i, of resp SMPP_ESME_RTHROTTLED bcb rcb] l(1) u
    unfolding handler by (cases "can_transmit (e_bind_type e)"; cases "throttled E g") (auto)
  have "get_pdu t p \<noteq> None" using outcome_keeps [OF t(1), of p] assms(3,4) by metis
  then have "\<exists>s'. smpp_queued_pdu_destroy p t = Some s'" by (auto simp: smpp_queued_pdu_destroy_def free_pdu_def)
  with t show ?thesis by auto
qed

lemma submit_outcome:
  assumes "get_esme s i \<noteq> None" and "get_global s i \<noteq> None" and "s_routing_method s \<noteq> Route_none"
  shows "\<exists>u. route_submission E i (\<lambda>mid. Submit_sm_resp seq SMPP_ESME_ROK (Some mid)) RCb_submit_sm m s = Some u
    \<and> submission_outcome (Submit_sm_resp seq) BCb_submit_sm RCb_submit_sm i (s_next_pdu s) s u"
  using submit.routes_submission [of s i _ E seq m] assms unfolding submit.owed_def submission_outcome_def by blast

lemma data_outcome:
  assumes "get_esme s i \<noteq> None" and "get_global s i \<noteq> None" and "s_routing_method s \<noteq> Route_none"
  shows "\<exists>u. route_submission E i (\<lambda>mid. Data_sm_resp seq SMPP_ESME_ROK (Some mid)) RCb_data_sm m s = Some u
    \<and> submission_outcome (Data_sm_resp seq) BCb_data_sm RCb_data_sm i (s_next_pdu s) s u"
  using data.routes_submission [of s i _ E seq m] assms unfolding data.owed_def submission_outcome_def by blast

text \<open>A message that was converted, or refused with a status, after the identifier has been drawn.\<close>

lemma converted_outcome:
  assumes t: "undisturbed i s t" and "get_esme s i \<noteq> None" and "get_global s i \<noteq> None" and "s_routing_method s \<noteq> Route_none"
    and route: "\<And>t m. get_esme t i \<noteq> None \<Longrightarrow> get_global t i \<noteq> None \<Longrightarrow> s_routing_method t \<noteq> Route_none \<Longrightarrow>
      \<exists>u. route_submission E i ok rcb m t = Some u \<and> submission_outcome resp bcb rcb i (s_next_pdu t) t u"
  shows "\<exists>u. (case fresh_uuid t of (n, t) \<Rightarrow> (case conv n of Inl reason \<Rightarrow> respond i (resp reason None) t
      | Inr m \<Rightarrow> route_submission E i ok rcb m t)) = Some u \<and> submission_outcome resp bcb rcb i (s_next_pdu s) t u"
proof -
  let ?t = "snd (fresh_uuid t)"
  have u: "undisturbed i s ?t" "undisturbed i t ?t" using undisturbed_trans [OF t] undisturbed_fresh_uuid by blast+
  then have t2: "get_esme ?t i \<noteq> None" "get_global ?t i \<noteq> None" "s_routing_method ?t \<noteq> Route_none" "s_next_pdu ?t = s_next_pdu s"
    using assms(2-4) unfolding undisturbed_def by auto
  have "\<exists>u. (case conv (fst (fresh_uuid t)) of Inl reason \<Rightarrow> respond i (resp reason None) ?t | Inr m \<Rightarrow> route_submission E i ok rcb m ?t) = Some u
      \<and> submission_outcome resp bcb rcb i (s_next_pdu s) ?t u"
    using respond_outcome [OF t2(1), of resp _ bcb rcb] route [OF t2(1-3)] t2(4) by (cases "conv (fst (fresh_uuid t))") auto
  then show ?thesis using undisturbed_outcome [OF u(2)] by (auto simp: case_prod_beta)
qed

text \<open>
  Every submission of a bound ESME is settled exactly once. The handlers of submit_sm and
  data_sm return; before they free the received PDU they have, for a response PDU with the
  sequence number of the request, either queued it once as the answer to the ESME, or put the
  message once in the queue to the bearerboxes or once to an asynchronous router, with the callback that will
  answer; never two of these, never none, and no other PDU is touched. The number of submissions
  in routing grows by one exactly in the last case. (For an ESME that is not simulated, with a
  routing method configured.)
\<close>

theorem submission_settled_once:
  assumes "get_esme s i = Some e" and "get_global s i = Some g" and "get_pdu s p \<noteq> None" and "get_pdu s (s_next_pdu s) = None"
    and "s_routing_method s \<noteq> Route_none" and "\<not> sim_on (e_simulation e)"
  shows "(\<exists>t s'. smpp_queues_handle_submit_sm E p i seq b s = Some s' \<and> smpp_queued_pdu_destroy p t = Some s'
        \<and> submission_outcome (Submit_sm_resp seq) BCb_submit_sm RCb_submit_sm i (s_next_pdu s) s t)
    \<and> (\<exists>t s'. smpp_queues_handle_data_sm E p i seq c s = Some s' \<and> smpp_queued_pdu_destroy p t = Some s'
        \<and> submission_outcome (Data_sm_resp seq) BCb_data_sm RCb_data_sm i (s_next_pdu s) s t)"
proof
  have g: "get_esme s i \<noteq> None" "get_global s i \<noteq> None" using assms(1,2) by simp_all
  have submit: "\<exists>u. (case fresh_uuid t of (n, t) \<Rightarrow> (case smpp_submit_sm_to_msg (ev_gw E) (ev_now E) n e b of
        Inl reason \<Rightarrow> respond i (Submit_sm_resp seq reason None) t
      | Inr m \<Rightarrow> route_submission E i (\<lambda>mid. Submit_sm_resp seq SMPP_ESME_ROK (Some mid)) RCb_submit_sm m t)) = Some u
      \<and> submission_outcome (Submit_sm_resp seq) BCb_submit_sm RCb_submit_sm i (s_next_pdu s) t u" if "undisturbed i s t" for t
    by (rule converted_outcome [OF that g assms(5) submit_outcome])
  have "\<exists>t s'. smpp_queues_handle_submit_sm E p i seq b s = Some s' \<and>
      submission_outcome (Submit_sm_resp seq) BCb_submit_sm RCb_submit_sm i (s_next_pdu s) s t \<and> smpp_queued_pdu_destroy p t = Some s'"
    by (rule guarded_submission [where E = E, OF assms(1-4) submit]) (use assms(1,2,6) in \<open>simp_all add: smpp_queues_handle_submit_sm_def\<close>)
  then show "\<exists>t s'. smpp_queues_handle_submit_sm E p i seq b s = Some s' \<and> smpp_queued_pdu_destroy p t = Some s'
        \<and> submission_outcome (Submit_sm_resp seq) BCb_submit_sm RCb_submit_sm i (s_next_pdu s) s t" by blast
  have data: "\<exists>u. (case fresh_uuid t of (n, t) \<Rightarrow> (case smpp_data_sm_to_msg (ev_gw E) (ev_now E) n e c of
        Inl reason \<Rightarrow> respond i (Data_sm_resp seq reason None) t
      | Inr m \<Rightarrow> route_submission E i (\<lambda>mid. Data_sm_resp seq SMPP_ESME_ROK (Some mid)) RCb_data_sm m t)) = Some u
      \<and> submission_outcome (Data_sm_resp seq) BCb_data_sm RCb_data_sm i (s_next_pdu s) t u" if "undisturbed i s t" for t
    by (rule converted_outcome [OF that g assms(5) data_outcome])
  have "\<exists>t s'. smpp_queues_handle_data_sm E p i seq c s = Some s' \<and>
      submission_outcome (Data_sm_resp seq) BCb_data_sm RCb_data_sm i (s_next_pdu s) s t \<and> smpp_queued_pdu_destroy p t = Some s'"
    by (rule guarded_submission [where E = E, OF assms(1-4) data]) (use assms(1,2,6) in \<open>simp_all add: smpp_queues_handle_data_sm_def\<close>)
  then show "\<exists>t s'. smpp_queues_handle_data_sm E p i seq c s = Some s' \<and> smpp_queued_pdu_destroy p t = Some s'
        \<and> submission_outcome (Data_sm_resp seq) BCb_data_sm RCb_data_sm i (s_next_pdu s) s t" by blast
qed

text \<open>One bound transceiver with a received PDU at address 0.\<close>

definition submitting_server :: "unit server" where
  "submitting_server = put_pdu 0 smpp_queued_pdu_create ((bound_server ''abc'' [example_esme 0 0])\<lparr>s_next_pdu := 1\<rparr>)"

definition example_submit :: submit_sm_body where
  "example_submit = \<lparr>ss_service_type = None, ss_source_addr_ton = 0, ss_source_addr_npi = 0, ss_source_addr = Some ''100'',
     ss_dest_addr_ton = 0, ss_dest_addr_npi = 0, ss_destination_addr = Some ''200'', ss_esm_class = 0, ss_protocol_id = 0,
     ss_priority_flag = 0, ss_validity_period = None, ss_registered_delivery = 1, ss_data_coding = 0, ss_sm_length = 2,
     ss_short_message = Some ''hi'', ss_message_payload = None, ss_sar_msg_ref_num = -1, ss_sar_segment_seqnum = -1,
     ss_sar_total_segments = -1, ss_tlv = None\<rparr>"

lemma submitting_server_facts:
  "get_pdu submitting_server 0 \<noteq> None" "get_pdu submitting_server (s_next_pdu submitting_server) = None"
  "s_routing_method submitting_server \<noteq> Route_none"
  "get_esme submitting_server 0 = Some (example_esme 0 0\<lparr>e_system_id := Some ''abc'', e_global := Some ''abc''\<rparr>)"
  "get_global submitting_server 0 = Some (smpp_esme_global_create\<lparr>g_system_id := Some ''abc'', g_binds := [0]\<rparr>)"
  by (simp_all add: submitting_server_def bound_server_def example_server_def initial_server_def get_pdu_def put_pdu_def
      get_esme_def get_global_def dict_get_Cons)

theorem submission_settled_once_witness:
  "\<exists>t s'. smpp_queues_handle_submit_sm example_env 0 0 7 example_submit submitting_server = Some s' \<and> smpp_queued_pdu_destroy 0 t = Some s'
     \<and> submission_outcome (Submit_sm_resp 7) BCb_submit_sm RCb_submit_sm 0 1 submitting_server t"
proof -
  have "\<not> sim_on (e_simulation (example_esme 0 0\<lparr>e_system_id := Some ''abc'', e_global := Some ''abc''\<rparr>))"
    by (simp add: example_esme_def smpp_esme_create_def simulation_off_def)
  moreover have "s_next_pdu submitting_server = 1" by (simp add: submitting_server_def put_pdu_def)
  ultimately show ?thesis
    using submission_settled_once [OF submitting_server_facts(4,5,1,2,3), of example_env 7 example_submit] by simp
qed

section \<open>Refused submissions\<close>

lemma respond_only_queues:
  assumes "respond i resp s = Some t"
  shows "s_db t = s_db s \<and> s_inbound_processed t = s_inbound_processed s \<and> s_esmes t = s_esmes s \<and> s_bb_sent t = s_bb_sent s"
  using assms by (auto simp: respond_def alloc_split smpp_queues_add_outbound_def upd_esme_def bind_eq_Some_conv put_esme_def
      smpp_queued_pdu_create_quick_def smpp_queued_pdu_create_def alloc_pdu_def put_pdu_def get_pdu_def split: if_splits)

text \<open>
  C15: An ESME that is not bound as a transmitter, one that never bound included, cannot submit:
  its submit_sm is answered with the code for a wrong bind state, before any table of the account is
  read. One that exceeds the throughput of its account is answered with the code for throttling. In
  both cases nothing is charged, stored, routed or counted.
\<close>

theorem submission_refused:
  assumes "get_esme s i = Some e" and "get_pdu s p \<noteq> None" and "get_pdu s (s_next_pdu s) = None"
    and "\<not> can_transmit (e_bind_type e) \<or> (\<exists>g. get_global s i = Some g \<and> throttled E g)"
  shows "\<exists>t s'. smpp_queues_handle_submit_sm E p i seq b s = Some s' \<and> smpp_queued_pdu_destroy p t = Some s'
    \<and> answered i (s_next_pdu s) (Submit_sm_resp seq (if can_transmit (e_bind_type e) then SMPP_ESME_RTHROTTLED else SMPP_ESME_RINVBNDSTS) None) s t
    \<and> s_db t = s_db s \<and> s_inbound_processed t = s_inbound_processed s \<and> s_esmes t = s_esmes s"
proof -
  define st where "st = (if can_transmit (e_bind_type e) then SMPP_ESME_RTHROTTLED else SMPP_ESME_RINVBNDSTS)"
  obtain t where t: "respond i (Submit_sm_resp seq st None) s = Some t" "answered i (s_next_pdu s) (Submit_sm_resp seq st None) s t"
    using respond_answers [of s i "Submit_sm_resp seq st None"] assms(1) by auto
  have "p \<noteq> s_next_pdu s" using assms(2,3) by auto
  then obtain s' where s': "smpp_queued_pdu_destroy p t = Some s'" using destroy_after_answer [OF t(2) assms(2)] by blast
  have "smpp_queues_handle_submit_sm E p i seq b s = Some s'"
  proof (cases "can_transmit (e_bind_type e)")
    case True
    then obtain g where "get_global s i = Some g" "throttled E g" using assms(4) by blast
    with True t(1) s' assms(1) show ?thesis by (simp add: smpp_queues_handle_submit_sm_def st_def)
  next
    case False
    with t(1) s' assms(1) show ?thesis by (simp add: smpp_queues_handle_submit_sm_def st_def)
  qed
  with s' t(2) respond_only_queues [OF t(1)] show ?thesis unfolding st_def by blast
qed

theorem submission_refused_witness:
  "\<exists>t s'. smpp_queues_handle_submit_sm example_env 0 0 7 example_submit
       (put_pdu 0 smpp_queued_pdu_create (put_esme 0 smpp_esme_create (example_server\<lparr>s_next_pdu := 1\<rparr>))) = Some s'
     \<and> answered 0 1 (Submit_sm_resp 7 SMPP_ESME_RINVBNDSTS None)
         (put_pdu 0 smpp_queued_pdu_create (put_esme 0 smpp_esme_create (example_server\<lparr>s_next_pdu := 1\<rparr>))) t"
proof -
  let ?s = "put_pdu 0 smpp_queued_pdu_create (put_esme 0 smpp_esme_create (example_server\<lparr>s_next_pdu := 1\<rparr>))"
  have n: "s_next_pdu ?s = 1" by (simp add: put_pdu_def put_esme_def)
  have f: "get_esme ?s 0 = Some smpp_esme_create" "get_pdu ?s 0 \<noteq> None" "get_pdu ?s (s_next_pdu ?s) = None"
    unfolding n by (simp_all add: get_pdu_def get_esme_def put_pdu_def put_esme_def example_server_def initial_server_def dict_get_Cons)
  have c: "\<not> can_transmit (e_bind_type smpp_esme_create)" by (simp add: smpp_esme_create_def can_transmit_def)
  show ?thesis using submission_refused [OF f, of example_env 7 example_submit] c n by auto
qed

lemma deduct_reads_db: "s_db t = s_db s \<Longrightarrow> fst (smpp_database_deduct_credit E t sid c) = fst (smpp_database_deduct_credit E s sid c)"
  by (simp add: smpp_database_deduct_credit_def db_call_def split: option.splits prod.splits)

context submission_kind
begin

lemma unpaid:
  assumes "get_pdu s r = Some q" and "waiting i mid q" and "q_msg q = Msg_own m" and "get_esme s i = Some e" and "get_global s i = Some g"
    and "g_enable_prepaid_billing g" and "rs_status rs = SMPP_ESME_ROK \<or> 0 < octstr_len (smsc_id m)"
    and "\<not> fst (smpp_database_deduct_credit E s (e_system_id e)
           (real (rs_parts rs) * (if rs_status rs = SMPP_ESME_ROK then rs_cost rs else e_default_cost e)))"
  shows "\<exists>s'. routing_done E r rs s = Some s'
    \<and> answered i r (resp SMPP_ESME_RSUBMITFAIL None) (put_esme i (e\<lparr>e_pending_routing := e_pending_routing e - 1\<rparr>) s) s'"
proof -
  let ?e = "e\<lparr>e_pending_routing := e_pending_routing e - 1\<rparr>"
  let ?u = "put_esme i ?e s"
  let ?c = "real (rs_parts rs) * (if rs_status rs = SMPP_ESME_ROK then rs_cost rs else e_default_cost e)"
  have g: "get_global ?u i = Some g" using assms(4,5) by (simp add: get_global_def) (simp add: put_esme_def)
  have db: "s_db ?u = s_db s" by (simp add: put_esme_def)
  obtain a v where x: "smpp_database_deduct_credit E ?u (e_system_id e) ?c = (a, v)" by fastforce
  have "\<not> a" using assms(8) deduct_reads_db [OF db, of E "e_system_id e" ?c] x by simp
  then have "charge E i ?c ?u = Some (False, v)" using x assms(6) g by (simp add: charge_def)
  moreover have "same_but_db ?u v" using x database_frames(11) [of ?u E "e_system_id e" ?c] by simp
  ultimately have v: "charge E i ?c ?u = Some (False, v)" "same_but_db ?u v" by simp_all
  have d: "undisturbed i ?u v" using v(2) by (rule undisturbed_db)
  then have v2: "get_pdu v r \<noteq> None" "get_global v i \<noteq> None"
    using assms(1) g undisturbed_pdu [OF d] by (auto simp: undisturbed_def get_pdu_def put_esme_def)
  obtain s' where s': "reject_submission r q i SMPP_ESME_RSUBMITFAIL v = Some s'" "answered i r (resp SMPP_ESME_RSUBMITFAIL None) v s'"
    using rejects [OF v2(1) assms(2) v2(2)] by blast
  have "routing_done E r rs s = Some s'"
    using assms(1-4,7) v(1) s'(1) unfolding done_def submission_routing_done_def
    by (cases "rs_status rs = SMPP_ESME_ROK") (auto simp: waiting_def own_msg_def upd_esme_def)
  with undisturbed_answered [OF d s'(2)] show ?thesis by blast
qed

end


text \<open>The same bound ESME after its submission was sent to the router; the account is prepaid and the store has no credit function.\<close>

definition prepaid_server :: "unit server" where
  "prepaid_server = put_pdu 0 (smpp_queued_pdu_create\<lparr>q_pdu := Some (Submit_sm_resp 7 SMPP_ESME_ROK None), q_esme := Some 0, q_msg := Msg_own (sms_create 3)\<rparr>)
     ((bound_server ''abc'' [example_esme 0 0])\<lparr>s_esmes := [(''abc'', smpp_esme_global_create\<lparr>g_enable_prepaid_billing := True\<rparr>)]\<rparr>)"


end
