(* ===== verification/Faults.thy ===== *)
theory Faults
  imports Runs Submission
begin

text \<open>
  A run in which a client submits a message and disconnects before the bearerbox has
  acknowledged it: the cleanup thread looks at the queues of the ESME only, not at the messages
  outstanding at the bearerboxes, whose callbacks refer to it.
\<close>

definition late_server :: "unit server" where
  "late_server = initial_server example_cfg [smpp_bearerbox_create\<lparr>bb_open_acks := Some []\<rparr>] Route_database ()"

text \<open>Bind, its answer, the connection to the bearerbox, a submission, its transmission, the disconnect, and a cleanup round 100 seconds later.\<close>

definition late_events :: "unit event list" where
  "late_events = (let E = sends (Unbind 1);
       S = (sends (Submit_sm 9 example_submit))\<lparr>ev_db := null_database
             \<lparr>db_get_routes := Some (\<lambda>_ _ _. [smpp_route_create\<lparr>rt_regex := ''2'', rt_smsc_id := Some ''smsc''\<rparr>])\<rparr>\<rparr> in
     bind_events @ [Ev_outbound E 0, Ev_box_connect E 0 True, Ev_read S 0 [CHR 0x02, CHR 0x20] False 3, Ev_inbound S 0, Ev_box_send E 0 0,
       Ev_read E 0 [] True 3, Ev_cleanup (E\<lparr>ev_now := 1100\<rparr>)])"

lemma late_server_init: "server_init late_server"
  unfolding server_init_def late_server_def by (intro exI conjI, rule refl) simp

lemma late_facts:
  "map_option (\<lambda>s. map (map_option (map (bm_callback \<circ> snd)) \<circ> bb_open_acks) (s_bearerboxes s)) (run late_events late_server)
     = Some [Some [BCb_submit_sm 3]]"
  "map_option (\<lambda>s. get_esme s 0) (run late_events late_server) = Some None"
  "map_option (\<lambda>s. map_option q_esme (get_pdu s 3)) (run late_events late_server) = Some (Some (Some 0))"
  "do { s \<leftarrow> run late_events late_server; smpp_bearerbox_inbound_thread (sends (Unbind 1)) 0 (Msg_ack 0 ack_success) s } = None"
  by code_simp+

end
