(* ===== verification/Formats.thy ===== *)
theory Formats
  imports Receipts Route
begin

unbundle bit_operations_syntax

text \<open>
  Properties of the conversions of smpp_pdu_util.c: the delivery report URL, the text of a
  delivery receipt and its parser, time stamps, addresses, user data headers, and the requested
  delivery reports of a submission.
\<close>

section \<open>Hexadecimal error codes\<close>

lemma hex_nibble_hex_lower [simp]: "d < 16 \<Longrightarrow> hex_nibble (hex_lower d) = Some d"
  by (auto simp: hex_nibble_def hex_lower_def Let_def)

lemma hex_lower_plain [simp]:
  assumes "d < 16"
  shows "hex_lower d \<noteq> CHR ''-''" "hex_lower d \<noteq> CHR ''+''" "hex_lower d \<noteq> CHR ''x''" "hex_lower d \<noteq> CHR ''X''"
    "hex_lower d \<noteq> CHR '' ''" "hex_lower d \<noteq> CHR 0x00" "\<not> c_isspace (hex_lower d)"
proof -
  have n: "hex_nibble (hex_lower d) \<noteq> None" using assms by simp
  show "hex_lower d \<noteq> CHR ''-''" "hex_lower d \<noteq> CHR ''+''" "hex_lower d \<noteq> CHR ''x''" "hex_lower d \<noteq> CHR ''X''"
    "hex_lower d \<noteq> CHR '' ''" "hex_lower d \<noteq> CHR 0x00"
    using n by (auto simp: hex_nibble_def)
  show "\<not> c_isspace (hex_lower d)" using assms by (auto simp: c_isspace_def hex_lower_def)
qed

lemma show_hex_3:
  assumes "n < 4096"
  shows "hex03 n = [hex_lower (n div 256), hex_lower (n div 16 mod 16), hex_lower (n mod 16)]"
proof -
  have z: "hex_lower 0 = CHR ''0''" by code_simp
  consider "n < 16" | "16 \<le> n" "n < 256" | "256 \<le> n" by linarith
  then show ?thesis
  proof cases
    case 1
    then have "show_hex n = [hex_lower n]" by (subst show_hex.simps) simp
    with 1 z show ?thesis by (simp add: hex03_def numeral_2_eq_2)
  next
    case 2
    then have "show_hex n = [hex_lower (n div 16), hex_lower (n mod 16)]"
      by (subst show_hex.simps, subst show_hex.simps) auto
    moreover have "n div 16 < 16" using 2 by linarith
    ultimately show ?thesis using 2 z by (simp add: hex03_def)
  next
    case 3
    have d: "n div 16 div 16 = n div 256" by (simp add: div_mult2_eq [symmetric])
    have "show_hex n = show_hex (n div 16) @ [hex_lower (n mod 16)]" using 3 by (subst show_hex.simps) simp
    moreover have "show_hex (n div 16) = show_hex (n div 256) @ [hex_lower (n div 16 mod 16)]"
      using 3 d by (subst show_hex.simps) auto
    moreover have "show_hex (n div 256) = [hex_lower (n div 256)]" using assms by (subst show_hex.simps) auto
    ultimately show ?thesis by (simp add: hex03_def)
  qed
qed

lemma strtol16_hex03:
  assumes "n < 4096"
  shows "strtol16 (hex03 n) = int n"
proof -
  have r: "n div 256 < 16" "n div 16 mod 16 < 16" "n mod 16 < 16" using assms by auto
  have d: "n div 256 = n div 16 div 16" by (simp add: div_mult2_eq [symmetric])
  have "((n div 256 * 16) + n div 16 mod 16) * 16 + n mod 16 = n"
    unfolding d using div_mult_mod_eq [of "n div 16" 16] div_mult_mod_eq [of n 16] by simp
  then show ?thesis
    using r unfolding show_hex_3 [OF assms] strtol16_def Let_def by (simp add: hex_val_def)
qed

section \<open>The text of a receipt and its parser\<close>

lemma scan_class_word:
  assumes "v \<noteq> []" and "length v \<le> w" and "\<forall>c \<in> set v. P c" and "\<not> P x"
  shows "scan_items (Class w P # fs) (v @ x # s) = v # scan_items fs (x # s)"
proof -
  have "takeWhile P (take (w - length v) (x # s)) = []" using assms(4) by (cases "w - length v") auto
  then have "takeWhile P (take w (v @ x # s)) = v"
    using assms(2,3) by (simp add: takeWhile_append2)
  then show ?thesis using assms(1) by (simp add: Let_def)
qed

lemma scan_blank: "\<not> c_isspace c \<Longrightarrow> scan_items (Blank # fs) (CHR '' '' # c # s) = scan_items fs (c # s)"
proof -
  assume "\<not> c_isspace c"
  moreover have "c_isspace (CHR '' '')" by (simp add: c_isspace_def)
  ultimately show ?thesis by simp
qed

text \<open>A field of a receipt: not empty, no blank, no null byte, no colon, not longer than the parser's buffer.\<close>

definition receipt_field :: "nat \<Rightarrow> octstr \<Rightarrow> bool" where
  "receipt_field w v \<longleftrightarrow> v \<noteq> [] \<and> length v \<le> w \<and> CHR '' '' \<notin> set v \<and> CHR 0x00 \<notin> set v \<and> CHR '':'' \<notin> set v"

definition receipt_date :: "octstr \<Rightarrow> bool" where
  "receipt_date v \<longleftrightarrow> v \<noteq> [] \<and> length v \<le> 14 \<and> list_all gw_isdigit v"

lemma receipt_date_field: "receipt_date v \<Longrightarrow> receipt_field 14 v"
proof -
  have "\<not> gw_isdigit (CHR 0x00)" by (simp add: gw_isdigit_def)
  then show "receipt_date v \<Longrightarrow> receipt_field 14 v"
    using minus_not_digit(3,4) by (auto simp: receipt_date_def receipt_field_def list_all_iff)
qed

lemma scan_receipt_field:
  "receipt_field w v \<Longrightarrow> scan_items (Class w not_space # fs) (v @ CHR '' '' # s) = v # scan_items fs (CHR '' '' # s)"
  by (rule scan_class_word) (auto simp: receipt_field_def not_space_def)

lemma scan_receipt_date:
  "receipt_date v \<Longrightarrow> scan_items (Class 14 gw_isdigit # fs) (v @ CHR '' '' # s) = v # scan_items fs (CHR '' '' # s)"
  by (rule scan_class_word) (auto simp: receipt_date_def list_all_iff)

lemma receipt_field_hex03:
  assumes "n < 4096"
  shows "receipt_field 3 (hex03 n)"
proof -
  have r: "n div 256 < 16" "n div 16 mod 16 < 16" "n mod 16 < 16" using assms by auto
  have c: "hex_lower d \<noteq> CHR '':''" if "d < 16" for d
    using hex_nibble_hex_lower [OF that] by (auto simp: hex_nibble_def)
  note plain = hex_lower_plain(5,6) [OF r(1)] hex_lower_plain(5,6) [OF r(2)] hex_lower_plain(5,6) [OF r(3)]
    c [OF r(1)] c [OF r(2)] c [OF r(3)]
  show ?thesis unfolding show_hex_3 [OF assms] receipt_field_def by (simp add: plain plain [symmetric])
qed

lemma scan_001:
  "scan_items (Class 3 not_space # fs) (CHR ''0'' # CHR ''0'' # CHR ''1'' # CHR '' '' # s) =
     ''001'' # scan_items fs (CHR '' '' # s)"
proof -
  have "receipt_field 3 ''001''" by (simp add: receipt_field_def)
  from scan_receipt_field [OF this, of fs s] show ?thesis by (simp del: scan_items.simps)
qed

lemma scan_receipt:
  assumes "receipt_field 64 mid" and "receipt_field 3 dlvrd" and "receipt_date sub" and "receipt_date fin"
    and "receipt_field 15 stat" and "err < 4096"
  shows "scan_items dlr_format (dlr_short_message mid dlvrd sub fin stat err txt) =
           [mid, ''001'', dlvrd, sub, fin, stat, hex03 err]"
proof -
  note fields = scan_receipt_field [OF assms(1)] scan_receipt_field [OF assms(2)] scan_receipt_date [OF assms(3)]
    scan_receipt_date [OF assms(4)] scan_receipt_field [OF assms(5)] scan_receipt_field [OF receipt_field_hex03 [OF assms(6)]] scan_001
  show ?thesis
    unfolding dlr_format_def dlr_short_message_def
    by (simp add: fields scan_blank c_isspace_def del: scan_items.simps(3,4))
qed

lemma tolower_colon: "tolower c = CHR '':'' \<Longrightarrow> c = CHR '':''"
proof -
  assume a: "tolower c = CHR '':''"
  then have "(of_char (tolower c) :: nat) = 58" by simp
  then have "\<not> (65 \<le> (of_char c :: nat) \<and> (of_char c :: nat) \<le> 90)"
    unfolding tolower_def by (auto split: if_splits)
  with a show ?thesis by (simp add: tolower_def)
qed

lemma lower_text: "octstr_lower ''text:'' = ''text:''"
  by code_simp

lemma text_search_step:
  assumes "octstr_lower (take 5 (x # xs)) \<noteq> ''text:''"
  shows "octstr_case_search (x # xs) ''text:'' = map_option Suc (octstr_case_search xs ''text:'')"
proof -
  have "length ''text:'' = 5" by simp
  then show ?thesis using assms by (simp only: octstr_case_search.simps(2) lower_text if_False)
qed

lemma text_search_other:
  "tolower x \<noteq> CHR ''t'' \<Longrightarrow> octstr_case_search (x # xs) ''text:'' = map_option Suc (octstr_case_search xs ''text:'')"
  "tolower y \<noteq> CHR ''e'' \<Longrightarrow> octstr_case_search (x # y # xs) ''text:'' = map_option Suc (octstr_case_search (y # xs) ''text:'')"
  "tolower z \<noteq> CHR ''x'' \<Longrightarrow> octstr_case_search (x # y # z # xs) ''text:'' = map_option Suc (octstr_case_search (y # z # xs) ''text:'')"
  by (rule text_search_step, simp add: octstr_lower_def)+

lemma text_search_here: "octstr_case_search (CHR ''t'' # CHR ''e'' # CHR ''x'' # CHR ''t'' # CHR '':'' # xs) ''text:'' = Some 0"
  by simp

text \<open>No occurrence of the label of the text begins before a colon comes within reach.\<close>

lemma text_search_skip:
  assumes "CHR '':'' \<notin> set v" and "CHR '':'' \<notin> set (take 4 s)"
  shows "octstr_case_search (v @ s) ''text:'' = map_option (\<lambda>n. length v + n) (octstr_case_search s ''text:'')"
  using assms(1)
proof (induction v)
  case (Cons c v)
  have "set (take (4 - length v) s) \<subseteq> set (take 4 s)" by (rule set_take_subset_set_take) simp
  then have no: "CHR '':'' \<notin> set (take 5 (c # v @ s))"
    using Cons.prems assms(2) in_set_takeD [of "CHR '':''" 4 v] by auto
  have "octstr_lower (take 5 (c # v @ s)) \<noteq> ''text:''"
  proof
    assume m: "octstr_lower (take 5 (c # v @ s)) = ''text:''"
    then have "CHR '':'' \<in> set (octstr_lower (take 5 (c # v @ s)))" by simp
    then have "CHR '':'' \<in> tolower ` set (take 5 (c # v @ s))" by (simp only: octstr_lower_def set_map)
    with no show False using tolower_colon by (metis imageE)
  qed
  from text_search_step [OF this] Cons show ?case by (simp add: option.map_comp comp_def del: octstr_case_search.simps)
qed (cases "octstr_case_search s ''text:''"; simp)


lemma receipt_text:
  assumes "receipt_field 64 mid" and "receipt_field 3 dlvrd" and "receipt_date sub" and "receipt_date fin"
    and "receipt_field 15 stat" and "err < 4096"
  shows "dlr_text_field (dlr_short_message mid dlvrd sub fin stat err txt) = take 64 (cstr txt)"
proof -
  have nocolon: "CHR '':'' \<notin> set mid" "CHR '':'' \<notin> set dlvrd" "CHR '':'' \<notin> set sub" "CHR '':'' \<notin> set fin"
    "CHR '':'' \<notin> set stat" "CHR '':'' \<notin> set (hex03 err)"
    using assms(1,2,5) receipt_date_field [OF assms(3)] receipt_date_field [OF assms(4)] receipt_field_hex03 [OF assms(6)]
    by (simp_all add: receipt_field_def)
  let ?pre = "''id:'' @ mid @ '' sub:001 dlvrd:'' @ dlvrd @ '' submit date:'' @ sub @ '' done date:'' @ fin
       @ '' stat:'' @ stat @ '' err:'' @ hex03 err @ '' ''"
  have found: "octstr_case_search (?pre @ ''text:'' @ txt) ''text:'' = Some (length ?pre)"
    by (simp add: text_search_other text_search_skip text_search_here nocolon tolower_def del: octstr_case_search.simps)
  have sm: "dlr_short_message mid dlvrd sub fin stat err txt = ?pre @ ''text:'' @ txt"
    by (simp add: dlr_short_message_def)
  have "drop (length p + 5) (p @ ''text:'' @ txt) = txt" for p :: octstr by simp
  then show ?thesis unfolding dlr_text_field_def sm found option.case by (simp only:)
qed


lemma receipt_no_null:
  assumes "receipt_field 64 mid" and "receipt_field 3 dlvrd" and "receipt_date sub" and "receipt_date fin"
    and "receipt_field 15 stat" and "err < 4096"
  shows "cstr (dlr_short_message mid dlvrd sub fin stat err txt) = dlr_short_message mid dlvrd sub fin stat err (cstr txt)"
proof -
  have "CHR 0x00 \<notin> set mid" "CHR 0x00 \<notin> set dlvrd" "CHR 0x00 \<notin> set sub" "CHR 0x00 \<notin> set fin"
    "CHR 0x00 \<notin> set stat" "CHR 0x00 \<notin> set (hex03 err)"
    using assms(1,2,5) receipt_date_field [OF assms(3)] receipt_date_field [OF assms(4)] receipt_field_hex03 [OF assms(6)]
    by (simp_all add: receipt_field_def)
  then show ?thesis unfolding dlr_short_message_def by (simp add: cstr_append cstr_Cons)
qed

text \<open>
  C30: The parser of delivery receipts inverts the writer: from the text written for a message id,
  a delivered count, two dates, a status, an error code and a message text it recovers each of
  them, whatever bytes the message text holds (up to the first null byte, at most 64), provided
  the fields fit the receipt's format. The dates go through the parser of time stamps.
\<close>

theorem receipt_roundtrip:
  assumes "receipt_field 64 mid" and "receipt_field 3 dlvrd" and "receipt_date sub" and "receipt_date fin"
    and "receipt_field 15 stat" and "err < 4096"
  shows "parse_dlr_short_message G now (Some (dlr_short_message mid dlvrd sub fin stat err txt)) =
    Some \<lparr>di_id = mid, di_sub = 1, di_dlvrd = to_uint (strtol16 dlvrd),
          di_submit_date = smpp_time_to_c_time G now sub, di_done_date = smpp_time_to_c_time G now fin,
          di_stat = stat, di_err = err, di_text = take 64 (cstr txt)\<rparr>"
proof -
  let ?sm = "dlr_short_message mid dlvrd sub fin stat err txt"
  have fields: "dlr_fields ?sm = [mid, ''001'', dlvrd, sub, fin, stat, hex03 err]"
    unfolding dlr_fields_def receipt_no_null [OF assms] scan_receipt [OF assms] by simp
  have "to_uint (strtol16 ''001'') = 1" by code_simp
  moreover have "to_uint (strtol16 (hex03 err)) = err" using assms(6) strtol16_hex03 [OF assms(6)] by (simp add: to_uint_def)
  moreover have "cstr mid = mid" "cstr stat = stat" "mid \<noteq> []" using assms(1,5) by (simp_all add: receipt_field_def cstr_word)
  moreover have "?sm \<noteq> []" by (simp add: dlr_short_message_def)
  ultimately show ?thesis
    by (simp add: parse_dlr_short_message_def dlr_outputs_def fields receipt_text [OF assms])
qed

theorem receipt_roundtrip_witness:
  "map_option di_stat (parse_dlr_short_message example_gwlib 0
     (Some (dlr_short_message ''42'' ''001'' ''240131235900'' ''240201000001'' ''DELIVRD'' 17 ''hello''))) = Some ''DELIVRD''"
proof -
  have "receipt_field 64 ''42''" "receipt_field 3 ''001''" "receipt_date ''240131235900''" "receipt_date ''240201000001''"
    "receipt_field 15 ''DELIVRD''" "(17 :: nat) < 4096"
    by (simp_all add: receipt_field_def receipt_date_def gw_isdigit_def)
  from receipt_roundtrip [OF this, of example_gwlib 0 "''hello''"] show ?thesis by simp
qed

section \<open>Time stamps\<close>

lemma pad2_digits: "list_all gw_isdigit (pad2 n)"
  by (simp add: pad2_def)

lemma pad2_no_null: "CHR 0x00 \<notin> set (pad2 n)"
  using pad2_digits [of n] by (auto simp: list_all_iff gw_isdigit_def)

lemma atol_pad2:
  assumes "n < 100"
  shows "atol (pad2 n) = int n"
proof -
  have d: "n div 10 < 10" "n mod 10 < 10" using assms by auto
  let ?c = "digit_char (n div 10)"
  have c: "\<not> c_isspace ?c" "?c \<noteq> CHR ''-''" "?c \<noteq> CHR ''+''"
    using d(1) digit_not_space [of ?c] gw_isdigit_digit_char [OF d(1)] minus_not_digit(1,6) by metis+
  have "int (n div 10 * 10 + n mod 10) = int n" by simp
  then show ?thesis using d c by (simp add: atol_def pad2_def digits_val_def)
qed

lemma atol_pad2_nat: "0 \<le> v \<Longrightarrow> v < 100 \<Longrightarrow> atol (pad2 (nat v)) = v"
  by (subst atol_pad2) auto

lemma scan_word_pad2: "scan_word 2 (pad2 n @ s) = Some (pad2 n, s)"
proof -
  have "\<not> c_isspace (digit_char (n div 10 mod 10))" "\<not> c_isspace (digit_char (n mod 10))"
    by (simp_all add: digit_not_space)
  then show ?thesis by (simp add: scan_word_def pad2_def Let_def)
qed

lemma scan_words_strftime12:
  "scan_words 6 (cstr (strftime12 t)) = [pad2 (nat (tm_year t mod 100)), pad2 (nat (tm_mon t + 1)), pad2 (nat (tm_mday t)),
     pad2 (nat (tm_hour t)), pad2 (nat (tm_min t)), pad2 (nat (tm_sec t))]"
proof -
  have step: "scan_words (Suc n) (pad2 k @ s) = pad2 k # scan_words n s" for n k s by (simp add: scan_word_pad2)
  have last: "scan_words (Suc 0) (pad2 k) = [pad2 k]" for k using step [of 0 k "[]"] by simp
  have "cstr (strftime12 t) = strftime12 t" by (rule cstr_word) (simp add: strftime12_def pad2_no_null)
  then show ?thesis unfolding strftime12_def by (simp add: step last numeral_eq_Suc del: scan_words.simps(2))
qed

text \<open>A broken-down time of this century whose fields are in their ranges.\<close>

definition tm_valid :: "tm \<Rightarrow> bool" where
  "tm_valid t \<longleftrightarrow> 100 \<le> tm_year t \<and> tm_year t < 200 \<and> 0 \<le> tm_mon t \<and> tm_mon t < 12 \<and> 1 \<le> tm_mday t \<and> tm_mday t \<le> 31
     \<and> 0 \<le> tm_hour t \<and> tm_hour t < 24 \<and> 0 \<le> tm_min t \<and> tm_min t < 60 \<and> 0 \<le> tm_sec t \<and> tm_sec t \<le> 60"

text \<open>
  Reading back a written time stamp gives the same broken-down time except for the fields
  that are zero (the hour after midnight, the first minute of an hour, the first second of a
  minute, the year 2000): these are taken from the current local time.
\<close>

theorem time_stamp_roundtrip:
  assumes "tm_valid t"
  shows "smpp_time_to_c_time G now (strftime12 t) =
    (let l = gw_localtime G now in gw_mktime G
      \<lparr>tm_year = (if tm_year t = 100 then tm_year l else tm_year t), tm_mon = tm_mon t, tm_mday = tm_mday t,
       tm_hour = (if tm_hour t = 0 then tm_hour l else tm_hour t),
       tm_min = (if tm_min t = 0 then tm_min l else tm_min t),
       tm_sec = (if tm_sec t = 0 then tm_sec l else tm_sec t)\<rparr>)"
proof -
  have "tm_year t - 100 < 100" "0 \<le> tm_year t - 100" using assms by (simp_all add: tm_valid_def)
  then have y: "tm_year t mod 100 = tm_year t - 100"
    using mod_add_self1 [of 100 "tm_year t - 100"] mod_pos_pos_trivial [of "tm_year t - 100" 100] by simp
  have "atol (pad2 (nat (tm_year t mod 100))) = tm_year t - 100" "atol (pad2 (nat (tm_mon t + 1))) = tm_mon t + 1"
    "atol (pad2 (nat (tm_mday t))) = tm_mday t" "atol (pad2 (nat (tm_hour t))) = tm_hour t"
    "atol (pad2 (nat (tm_min t))) = tm_min t" "atol (pad2 (nat (tm_sec t))) = tm_sec t"
    using assms y by (simp_all add: atol_pad2_nat tm_valid_def)
  note at = this
  have "0 < tm_mon t + 1" "0 < tm_mday t" "0 \<le> tm_hour t" "0 \<le> tm_min t" "0 \<le> tm_sec t" "100 \<le> tm_year t"
    using assms by (simp_all add: tm_valid_def)
  then show ?thesis unfolding smpp_time_to_c_time_def scan_words_strftime12 Let_def by (simp add: at)
qed

theorem time_stamp_roundtrip_witness:
  "smpp_time_to_c_time example_gwlib (9 * 3600)
     (strftime12 \<lparr>tm_year = 124, tm_mon = 4, tm_mday = 31, tm_hour = 0, tm_min = 5, tm_sec = 7\<rparr>) =
   secs_of_tm \<lparr>tm_year = 124, tm_mon = 4, tm_mday = 31, tm_hour = 9, tm_min = 5, tm_sec = 7\<rparr>"
proof -
  let ?t = "\<lparr>tm_year = 124, tm_mon = 4, tm_mday = 31, tm_hour = 0, tm_min = 5, tm_sec = 7\<rparr>"
  have "tm_valid ?t" by (simp add: tm_valid_def)
  from time_stamp_roundtrip [OF this, of example_gwlib "9 * 3600"]
  show ?thesis by (simp add: example_gwlib_def secs_of_tm_def tm_of_secs_def)
qed

section \<open>Delivery report URLs\<close>

lemma show_int_plain: "CHR ''|'' \<notin> set (show_int v)"
  using set_show_nat [of "CHR ''|''"] by (auto simp: show_int_def)


text \<open>A report for message 7 of the account acme, and the ESME that submitted the message.\<close>

definition example_esme_v34 :: esme where
  "example_esme_v34 = smpp_esme_create\<lparr>e_system_id := Some ''acme'', e_version := 0x34\<rparr>"

definition example_report :: sms where
  "example_report = (sms_create 9)\<lparr>sms_type := report_mo, sender := Some ''1234567'', receiver := Some ''7654321'',
     dlr_mask := DLR_SUCCESS, dlr_url := dlr_url (smpp_queues_msg_set_dlr_url example_gwlib 500 example_esme_v34 (sms_create 7)),
     msgdata := Some (dlr_short_message ''7'' ''001'' ''240131235959'' ''240201010101'' ''DELIVRD'' 0 [])\<rparr>"


section \<open>Addresses, headers and reports of a submission\<close>

lemma take_all_digits: "octstr_check_range a 0 256 gw_isdigit \<Longrightarrow> length a \<le> 256 \<Longrightarrow> list_all gw_isdigit a"
  by (simp add: octstr_check_range_def octstr_copy_def)

lemma octstr_search_0: "octstr_search a p = Some 0 \<longleftrightarrow> take (length p) a = p"
  by (cases a) (auto split: if_splits)

lemma plus_not_00: "octstr_search (CHR ''+'' # a) ''00'' \<noteq> Some 0"
  by (simp add: octstr_search_0)

definition international :: "octstr \<Rightarrow> bool" where
  "international a \<longleftrightarrow> (\<exists>ds. a = CHR ''+'' # ds \<and> list_all gw_isdigit ds)"

lemma get_char_plus: "octstr_get_char (c # cs) 0 = 43 \<longleftrightarrow> c = CHR ''+''"
  using of_char_eq_iff [of c "CHR ''+''", where 'a = int] by (simp add: octstr_get_char_def)

lemma convert_addr_fixed:
  assumes "international b"
  shows "smpp_pdu_util_convert_addr (Some b) GSM_ADDR_TON_INTERNATIONAL = (SMPP_ESME_ROK, Some b)"
proof -
  obtain ds where ds: "b = CHR ''+'' # ds" "list_all gw_isdigit ds" using assms by (auto simp: international_def)
  have "list_all gw_isdigit (take 256 ds)" using ds(2) by (auto simp: list_all_iff dest: in_set_takeD)
  then have "octstr_check_range b 1 256 gw_isdigit" by (simp add: ds octstr_check_range_def octstr_copy_def)
  then show ?thesis using plus_not_00 ds(1) by (simp add: smpp_pdu_util_convert_addr_def get_char_plus)
qed

lemma convert_addr_digits:
  assumes "list_all gw_isdigit a" and "7 \<le> length a" and "length a \<le> 256"
  shows "\<exists>b. smpp_pdu_util_convert_addr (Some a) GSM_ADDR_TON_INTERNATIONAL = (SMPP_ESME_ROK, Some b) \<and> international b"
proof -
  let ?a1 = "if octstr_search a ''00'' = Some 0 then drop 2 a else a"
  obtain c cs where a: "a = c # cs" using assms(2) by (cases a) auto
  have d1: "list_all gw_isdigit ?a1" using assms(1) by (auto simp: list_all_iff dest: in_set_dropD)
  have "?a1 \<noteq> []" using assms(2) by auto
  then obtain x xs where x: "?a1 = x # xs" by (cases ?a1) auto
  then have "x \<noteq> CHR ''+''" using d1 by auto
  then have np1: "octstr_get_char ?a1 0 \<noteq> 43" unfolding x by (simp add: get_char_plus)
  have "octstr_get_char a 0 \<noteq> 43" using assms(1) by (auto simp: a get_char_plus)
  moreover have "octstr_check_range a 0 256 gw_isdigit"
    using assms(1,3) by (simp add: a octstr_check_range_def octstr_copy_def)
  ultimately have "smpp_pdu_util_convert_addr (Some a) GSM_ADDR_TON_INTERNATIONAL = (SMPP_ESME_ROK, Some (CHR ''+'' # ?a1))"
    using np1 by (simp add: smpp_pdu_util_convert_addr_def)
  moreover have "international (CHR ''+'' # ?a1)" using d1 by (auto simp: international_def)
  ultimately show ?thesis by blast
qed



text \<open>
  When a submission announces a user data header, the text splits without loss into the
  header, as long as its first byte says, and the rest; a text shorter than its header is refused
  with the code for a bad esm_class. No other field of the message changes.
\<close>

theorem udh_split_lossless:
  assumes "msgdata m = Some d"
  shows "(\<forall>m2. split_udh m = Inr m2 \<longrightarrow> (\<exists>h t. udhdata m2 = Some h \<and> msgdata m2 = Some t \<and> h @ t = d
           \<and> (d \<noteq> [] \<longrightarrow> length h = 1 + of_char (hd d)) \<and> m2 = m\<lparr>udhdata := Some h, msgdata := Some t\<rparr>))
    \<and> (split_udh m = Inl SMPP_ESME_RINVESMCLASS \<longleftrightarrow> d \<noteq> [] \<and> length d \<le> of_char (hd d))"
proof (cases d)
  case Nil
  with assms show ?thesis by (auto simp: split_udh_def octstr_get_char_def)
next
  case (Cons c cs)
  have u: "octstr_get_char d 0 + 1 = int (1 + of_char c)" by (simp add: Cons octstr_get_char_def of_char_int)
  show ?thesis
  proof (cases "length d < 1 + of_char c")
    case True
    with assms u have "split_udh m = Inl SMPP_ESME_RINVESMCLASS" by (simp add: split_udh_def)
    with True show ?thesis by (simp add: Cons)
  next
    case False
    with assms u have "split_udh m = Inr (m\<lparr>udhdata := Some (take (1 + of_char c) d), msgdata := Some (drop (1 + of_char c) d)\<rparr>)"
      by (simp add: split_udh_def Let_def nat_add_distrib)
    moreover have "length (take (1 + of_char c) d) = 1 + of_char c" using False by simp
    ultimately show ?thesis using False append_take_drop_id [of "1 + of_char c" d] by (simp add: Cons)
  qed
qed

theorem udh_split_lossless_witness:
  "\<exists>m2. split_udh ((sms_create 1)\<lparr>msgdata := Some (CHR 0x02 # ''xyhello'')\<rparr>) = Inr m2
     \<and> udhdata m2 = Some (CHR 0x02 # ''xy'') \<and> msgdata m2 = Some ''hello''"
proof -
  let ?m = "(sms_create 1)\<lparr>msgdata := Some (CHR 0x02 # ''xyhello'')\<rparr>"
  have "split_udh ?m \<noteq> Inl SMPP_ESME_RINVESMCLASS" using udh_split_lossless [of ?m "CHR 0x02 # ''xyhello''"] by simp
  moreover have "split_udh ?m = Inl SMPP_ESME_RINVESMCLASS \<or> (\<exists>m2. split_udh ?m = Inr m2)"
    by (auto simp: split_udh_def Let_def)
  ultimately obtain m2 where m2: "split_udh ?m = Inr m2" by blast
  then obtain h t where "udhdata m2 = Some h" "msgdata m2 = Some t" "h @ t = CHR 0x02 # ''xyhello''" "length h = 3"
    using udh_split_lossless [of ?m "CHR 0x02 # ''xyhello''"] by auto
  moreover from this(3,4) have "h = CHR 0x02 # ''xy''" "t = ''hello''"
    by (auto simp: append_eq_conv_conj numeral_3_eq_3)
  ultimately show ?thesis using m2 by blast
qed

lemma case_Inr_end:
  "(case A of Inl r \<Rightarrow> Inl r | Inr x \<Rightarrow> (case T x of Inl r \<Rightarrow> Inl r | Inr y \<Rightarrow> Inr (f y))) = Inr m \<Longrightarrow> \<exists>y. m = f y"
  by (auto split: sum.splits)

lemma submit_sm_mask: "smpp_submit_sm_to_msg G now u e b = Inr m \<Longrightarrow> dlr_mask m = DLR_SUCCESS OR DLR_FAIL OR DLR_SMSC_FAIL"
  unfolding smpp_submit_sm_to_msg_def Let_def by (drule case_Inr_end) (elim exE, simp)

lemma data_sm_mask: "smpp_data_sm_to_msg G now u e b = Inr m \<Longrightarrow> dlr_mask m = DLR_SUCCESS OR DLR_FAIL OR DLR_SMSC_FAIL"
  unfolding smpp_data_sm_to_msg_def Let_def by (drule case_Inr_end) (elim exE, simp)

text \<open>
  The registered_delivery field of a submission is computed and then overwritten: two
  submissions that differ only in that field are converted to the same message, and every
  accepted submission asks for the same delivery reports.
\<close>

theorem registered_delivery_ignored:
  "smpp_submit_sm_to_msg G now u e (b\<lparr>ss_registered_delivery := rd\<rparr>) = smpp_submit_sm_to_msg G now u e b
   \<and> smpp_data_sm_to_msg G now u e (c\<lparr>ds_registered_delivery := rd\<rparr>) = smpp_data_sm_to_msg G now u e c
   \<and> (\<forall>m. smpp_submit_sm_to_msg G now u e b = Inr m \<or> smpp_data_sm_to_msg G now u e c = Inr m \<longrightarrow>
        dlr_mask m = DLR_SUCCESS OR DLR_FAIL OR DLR_SMSC_FAIL)"
proof (intro conjI allI impI)
  show "smpp_submit_sm_to_msg G now u e (b\<lparr>ss_registered_delivery := rd\<rparr>) = smpp_submit_sm_to_msg G now u e b"
    unfolding smpp_submit_sm_to_msg_def Let_def by (simp cong: sum.case_cong if_cong)
  show "smpp_data_sm_to_msg G now u e (c\<lparr>ds_registered_delivery := rd\<rparr>) = smpp_data_sm_to_msg G now u e c"
    unfolding smpp_data_sm_to_msg_def Let_def by (simp cong: sum.case_cong if_cong)
qed (elim disjE, (erule submit_sm_mask data_sm_mask)+)

definition example_submission :: submit_sm_body where
  "example_submission = \<lparr>ss_service_type = None, ss_source_addr_ton = 5, ss_source_addr_npi = 0, ss_source_addr = Some ''shop'',
     ss_dest_addr_ton = 1, ss_dest_addr_npi = 1, ss_destination_addr = Some ''+15550001'', ss_esm_class = 0,
     ss_protocol_id = 0, ss_priority_flag = 0, ss_validity_period = None, ss_registered_delivery = 0,
     ss_data_coding = 0, ss_sm_length = 2, ss_short_message = Some ''hi'', ss_message_payload = None,
     ss_sar_msg_ref_num = -1, ss_sar_segment_seqnum = -1, ss_sar_total_segments = -1, ss_tlv = None\<rparr>"

lemma example_submission_accepted:
  "case smpp_submit_sm_to_msg example_gwlib 1000 7 example_esme_v34 example_submission of
     Inl _ \<Rightarrow> False | Inr m \<Rightarrow> receiver m = Some ''+15550001''"
  by code_simp

theorem registered_delivery_ignored_witness:
  "\<exists>m. smpp_submit_sm_to_msg example_gwlib 1000 7 example_esme_v34 (example_submission\<lparr>ss_registered_delivery := 1\<rparr>) = Inr m
       \<and> smpp_submit_sm_to_msg example_gwlib 1000 7 example_esme_v34 example_submission = Inr m
       \<and> dlr_mask m = DLR_SUCCESS OR DLR_FAIL OR DLR_SMSC_FAIL"
proof -
  obtain m where m: "smpp_submit_sm_to_msg example_gwlib 1000 7 example_esme_v34 example_submission = Inr m"
    using example_submission_accepted by (auto split: sum.splits)
  show ?thesis
    using registered_delivery_ignored [where G = example_gwlib and now = 1000 and u = 7 and e = example_esme_v34
        and b = example_submission and rd = 1] m by auto
qed

section \<open>The fallback parser\<close>

lemma octstr_search_Some: "octstr_search s p = Some n \<Longrightarrow> \<exists>r. drop n s = p @ r"
proof (induction s arbitrary: n)
  case (Cons x xs)
  show ?case
  proof (cases "take (length p) (x # xs) = p")
    case True
    then have "n = 0" using Cons.prems by simp
    with True show ?thesis by (metis append_take_drop_id drop0)
  next
    case False
    with Cons show ?thesis by auto
  qed
qed (auto split: if_splits)

lemma fallback_label_with_blank:
  assumes "label = a @ CHR '' '' # b" and "CHR '' '' \<notin> set a"
  shows "fallback_field sm label n old = old"
proof (cases "octstr_search sm label")
  case (Some cur)
  then obtain r where r: "drop cur sm = a @ CHR '' '' # b @ r" using octstr_search_Some [OF Some] assms(1) by auto
  have "octstr_search_char (drop cur sm) (CHR '' '') = Some (length a)"
    using assms(2) unfolding r by (rule octstr_search_char_append)
  then show ?thesis using Some by (simp add: fallback_field_def overlay_def assms(1))
qed (simp add: fallback_field_def)

text \<open>
  The fallback of the receipt parser never recovers a date: it cuts a field at the first
  blank after the start of its label, and the labels of both dates contain a blank. A receipt
  whose text deviates from the fixed format before the dates is therefore read as submitted and
  done at the time an empty time stamp stands for, whatever dates it carries.
\<close>

theorem fallback_never_reads_dates:
  assumes "length (scan_items dlr_format (cstr sm)) \<le> 3"
  shows "di_submit_date (dlr_outputs G now sm) = smpp_time_to_c_time G now []
    \<and> di_done_date (dlr_outputs G now sm) = smpp_time_to_c_time G now []"
proof -
  have "fallback_field sm ''submit date:'' n old = old" "fallback_field sm ''done date:'' n old = old" for n old
    by (rule fallback_label_with_blank [of _ "''submit''" "''date:''"] fallback_label_with_blank [of _ "''done''" "''date:''"]; simp)+
  then show ?thesis using assms by (simp add: dlr_outputs_def dlr_fields_def Let_def)
qed

theorem fallback_never_reads_dates_witness:
  "di_submit_date (dlr_outputs example_gwlib 86399 ''id:7 stat:DELIVRD submit date:240131235959 done date:240201010101'') =
     smpp_time_to_c_time example_gwlib 86399 []"
proof -
  have "length (scan_items dlr_format (cstr ''id:7 stat:DELIVRD submit date:240131235959 done date:240201010101'')) \<le> 3"
    by code_simp
  from fallback_never_reads_dates [OF this] show ?thesis by simp
qed

end
