(* ===== verification/Delivery.thy ===== *)
theory Delivery
  imports Boxes Cleanup Submission
begin

text \<open>
  Acknowledgements in both directions: what the server tells the origin of a message when the
  ESME has answered (or has not), and what it tells the ESME when a bearerbox has answered (or its
  connection is lost). Routing by the table of routes.
\<close>

section \<open>From the ESME to the origin of a message\<close>

text \<open>The acknowledgement a bearerbox gets for the final status of a delivery, if any.\<close>

definition ack_for :: "int \<Rightarrow> command_status \<Rightarrow> int option" where
  "ack_for action st =
     (if st = SMPP_ESME_ROK \<or> st = SMPP_ESME_COMMAND_STATUS_QUEUED then Some ack_success
      else if st = SMPP_ESME_COMMAND_STATUS_WAIT_ACK_TIMEOUT then
        (if action = SMPP_WAITACK_DISCONNECT then Some ack_failed_tmp
         else if action = SMPP_WAITACK_DROP then Some ack_success else None)
      else if st = SMPP_QUEUED_PDU_DESTROYED then Some ack_failed_tmp
      else None)"

lemma acknowledge_sends:
  assumes "b < length (s_bearerboxes s)" and "bb_alive (s_bearerboxes s ! b)" and "ev_bb_write E b" and "k \<noteq> []"
  shows "\<exists>s'. smpp_bearerbox_acknowledge E (Some b) (Some k) a s = Some (True, s')
    \<and> s_bb_sent s' = s_bb_sent s @ [(b, Msg_ack (gw_uuid_parse (ev_gw E) k) a)]
    \<and> s_db s' = s_db s \<and> s_pdu_heap s' = s_pdu_heap s \<and> s_esme_heap s' = s_esme_heap s \<and> s_esmes s' = s_esmes s
    \<and> s_outbound_queue s' = s_outbound_queue s"
  using assms by (simp add: smpp_bearerbox_acknowledge_def get_box_def smpp_bearerbox_get_state_def bb_write_def upd_box_def)

lemma count_delivery_frame:
  assumes "q_esme q = Some i" and "get_global s i \<noteq> None"
  shows "\<exists>s'. count_delivery q s = Some s' \<and> undisturbed i s s' \<and> s_db s' = s_db s \<and> s_bb_sent s' = s_bb_sent s
    \<and> s_bearerboxes s' = s_bearerboxes s \<and> s_cfg s' = s_cfg s"
proof -
  have frame: "s_db s' = s_db s \<and> s_bb_sent s' = s_bb_sent s \<and> s_bearerboxes s' = s_bearerboxes s \<and> s_cfg s' = s_cfg s"
    if "count_traffic f i s = Some s'" for f s'
    using that by (auto simp: count_traffic_def upd_esme_def upd_global_def bind_eq_Some_conv put_esme_def)
  show ?thesis
  proof (cases "\<exists>n b. q_pdu q = Some (Deliver_sm n b)")
    case True
    then obtain n b where "q_pdu q = Some (Deliver_sm n b)" by blast
    define f where "f = (if is_dlr_class (d_esm_class b) then count_dlr else count_mo)"
    obtain s' where "count_traffic f i s = Some s'" "undisturbed i s s'" using count_traffic_total [OF assms(2)] by blast
    then show ?thesis using frame \<open>q_pdu q = _\<close> assms(1) by (auto simp: count_delivery_def f_def)
  next
    case False
    then have "count_delivery q s = Some s" by (auto simp: count_delivery_def split: option.splits pdu.splits)
    then show ?thesis by simp
  qed
qed

text \<open>What the steps of a settlement leave alone: the store, every PDU, and the existence of the ESME.\<close>

definition settles :: "nat \<Rightarrow> 'd server \<Rightarrow> (nat \<times> msg) list \<Rightarrow> 'd server \<Rightarrow> bool" where
  "settles i s sent t \<longleftrightarrow> s_bb_sent t = s_bb_sent s @ sent \<and> s_db t = s_db s \<and> get_pdu t = get_pdu s
     \<and> (\<forall>e. get_esme s i = Some e \<longrightarrow> (\<exists>e'. get_esme t i = Some e' \<and> e_open_acks e' = e_open_acks e))"

lemma settle_box:
  assumes "q_bearerbox q = Some b" and "q_bearerbox_id q = Some k" and "k \<noteq> []"
    and "b < length (s_bearerboxes s)" and "bb_alive (s_bearerboxes s ! b)" and "ev_bb_write E b"
  shows "\<exists>t. settle_origin E q a s = Some t \<and> settles i s [(b, Msg_ack (gw_uuid_parse (ev_gw E) k) a)] t \<and> get_esme t = get_esme s"
    and "\<exists>t. map_option snd (smpp_bearerbox_acknowledge E (q_bearerbox q) (q_bearerbox_id q) a s) = Some t
      \<and> settles i s [(b, Msg_ack (gw_uuid_parse (ev_gw E) k) a)] t \<and> get_esme t = get_esme s"
  using acknowledge_sends [OF assms(4-6,3), of a] assms(1,2)
  by (auto simp: settle_origin_def settles_def get_pdu_def get_esme_def fun_eq_iff)

lemma timed_out_box:
  assumes "q_bearerbox q = Some b" and "q_bearerbox_id q = Some k" and "k \<noteq> []"
    and "b < length (s_bearerboxes s)" and "bb_alive (s_bearerboxes s ! b)" and "ev_bb_write E b"
    and "q_server q" and "q_pdu q \<noteq> None" and "q_esme q = Some i" and "get_esme s i \<noteq> None"
  shows "\<exists>t. ack_timed_out E q s = Some t \<and> settles i s
    (case ack_for (c_wait_ack_action (s_cfg s)) SMPP_ESME_COMMAND_STATUS_WAIT_ACK_TIMEOUT of
       None \<Rightarrow> [] | Some a \<Rightarrow> [(b, Msg_ack (gw_uuid_parse (ev_gw E) k) a)]) t"
proof -
  consider (disc) "c_wait_ack_action (s_cfg s) = SMPP_WAITACK_DISCONNECT" | (drop) "c_wait_ack_action (s_cfg s) = SMPP_WAITACK_DROP"
    | (none) "c_wait_ack_action (s_cfg s) \<noteq> SMPP_WAITACK_DISCONNECT" "c_wait_ack_action (s_cfg s) \<noteq> SMPP_WAITACK_DROP" by blast
  then show ?thesis
  proof cases
    case disc
    obtain t where t: "map_option snd (smpp_bearerbox_acknowledge E (q_bearerbox q) (q_bearerbox_id q) ack_failed_tmp s) = Some t"
      "settles i s [(b, Msg_ack (gw_uuid_parse (ev_gw E) k) ack_failed_tmp)] t" "get_esme t = get_esme s"
      using settle_box(2) [OF assms(1-6), where i = i] by blast
    then obtain u where u: "smpp_esme_disconnect i t = Some u" "s_bb_sent u = s_bb_sent t" "s_db u = s_db t" "get_pdu u = get_pdu t"
        "\<forall>e. get_esme t i = Some e \<longrightarrow> (\<exists>e'. get_esme u i = Some e' \<and> e_open_acks e' = e_open_acks e)"
      using assms(10) by (auto simp: smpp_esme_disconnect_def smpp_esme_stop_listening_def upd_esme_def)
        (auto simp: put_esme_def get_pdu_def fun_eq_iff)
    show ?thesis using disc t u assms(1,2,7-9) by (auto simp: ack_timed_out_def ack_for_def settles_def)
  next
    case drop
    then show ?thesis using settle_box(1) [OF assms(1-6), where i = i and a = ack_success] assms(7,8) by (auto simp: ack_timed_out_def ack_for_def)
  next
    case none
    then show ?thesis using assms(7) by (auto simp: ack_timed_out_def ack_for_def settles_def)
  qed
qed


text \<open>A bound ESME with one delivery outstanding under sequence number 5, from bearerbox 0.\<close>

definition delivering_pdu :: queued_pdu where
  "delivering_pdu = smpp_queued_pdu_create\<lparr>q_pdu := Some (Deliver_sm 5 deliver_sm_create), q_esme := Some 0,
     q_callback := Some Cb_deliver_sm_resp, q_bearerbox := Some 0, q_bearerbox_id := Some ''9'', q_id := Some ''5''\<rparr>"

definition delivering_server :: "unit server" where
  "delivering_server = put_pdu 0 delivering_pdu
     ((bound_server ''abc'' [(example_esme 0 0)\<lparr>e_open_acks := [(''5'', 0)]\<rparr>])\<lparr>s_bearerboxes := [smpp_bearerbox_create\<lparr>bb_alive := True\<rparr>]\<rparr>)"

lemma delivering_facts:
  "get_pdu delivering_server 0 = Some delivering_pdu" "q_esme delivering_pdu = Some 0" "get_global delivering_server 0 \<noteq> None"
  "q_pdu delivering_pdu \<noteq> None" "q_bearerbox delivering_pdu = Some 0" "q_bearerbox_id delivering_pdu = Some ''9''" "''9'' \<noteq> []"
  "0 < length (s_bearerboxes delivering_server)" "bb_alive (s_bearerboxes delivering_server ! 0)" "ev_bb_write example_env 0"
  "s_bb_sent delivering_server = []" "gw_uuid_parse (ev_gw example_env) ''9'' = 9" "q_callback delivering_pdu = Some Cb_deliver_sm_resp"
  by (simp_all add: delivering_server_def delivering_pdu_def bound_server_def example_server_def initial_server_def put_pdu_def get_pdu_def
      get_global_def get_esme_def dict_get_Cons example_env_def smpp_queued_pdu_create_def smpp_bearerbox_create_def example_gwlib_def
      digits_val_def digit_val_def)


lemma outbound_load_total:
  assumes "get_esme s i = Some e" and "get_global s i = Some g"
  shows "\<exists>s'. smpp_esme_outbound_load_increase E i s = Some s' \<and> undisturbed i s s' \<and> s_db s' = s_db s \<and> s_bb_sent s' = s_bb_sent s
    \<and> s_bearerboxes s' = s_bearerboxes s \<and> s_cfg s' = s_cfg s"
proof -
  let ?s = "s\<lparr>s_outbound_processed := s_outbound_processed s + 1, s_outbound_load := s_outbound_load s @ [ev_now E]\<rparr>"
  let ?f = "\<lambda>e. e\<lparr>e_outbound_load := e_outbound_load e @ [ev_now E]\<rparr>"
  have s: "undisturbed i s ?s" "get_esme ?s i = Some e" "get_global ?s i = Some g"
    using assms by (auto simp: undisturbed_def get_esme_def get_global_def)
  obtain t where t: "upd_esme i ?f ?s = Some t" "undisturbed i ?s t" "get_global t i = Some g"
    using undisturbed_upd_esme [OF s(2), of ?f] s(3) by auto
  obtain u where u: "upd_global i (\<lambda>g. g\<lparr>g_outbound_load := g_outbound_load g @ [ev_now E]\<rparr>) t = Some u" "undisturbed i t u"
    using undisturbed_upd_global [OF t(3)] by blast
  have "s_db u = s_db s \<and> s_bb_sent u = s_bb_sent s \<and> s_bearerboxes u = s_bearerboxes s \<and> s_cfg u = s_cfg s"
    using t(1) u(1) by (auto simp: upd_esme_def upd_global_def bind_eq_Some_conv put_esme_def)
  with s t u show ?thesis
    by (auto simp: smpp_esme_outbound_load_increase_def Let_def intro: undisturbed_trans)
qed



section \<open>From a bearerbox to the ESME\<close>

lemma undisturbed_upd_box:
  assumes "b < length (s_bearerboxes s)"
  shows "\<exists>t. upd_box b f s = Some t \<and> undisturbed i s t \<and> s_bearerboxes t = (s_bearerboxes s)[b := f (s_bearerboxes s ! b)]"
  using assms by (auto simp: upd_box_def get_box_def undisturbed_def get_esme_def get_global_def)

text \<open>The message waits for the answer of a bearerbox, and the PDU at r of the ESME i for the outcome.\<close>

definition submit_waits :: "'d server \<Rightarrow> bearerbox_msg \<Rightarrow> nat \<Rightarrow> nat \<Rightarrow> int \<Rightarrow> octstr option \<Rightarrow> bool" where
  "submit_waits s bm r i seq mid \<longleftrightarrow> bm_callback bm = BCb_submit_sm r \<and> get_global s i \<noteq> None
     \<and> (\<exists>q. get_pdu s r = Some q \<and> q_pdu q = Some (Submit_sm_resp seq SMPP_ESME_ROK mid) \<and> q_esme q = Some i \<and> q_callback q = None)"

lemma submit_waits_answers:
  assumes "submit_waits s bm r i seq mid"
  shows "\<exists>s'. run_bb_callback E (bm_callback bm) st s = Some s'
    \<and> answered i r (Submit_sm_resp seq st (if st = SMPP_ESME_ROK then mid else None)) s s'"
  using assms submit.answers [where s = s and r = r and i = i and seq = seq and mid = mid and st = st] by (auto simp: submit_waits_def submit.waiting_def submit.run_bcb)

text \<open>
  The answer of a bearerbox reaches the ESME: an acknowledgement of a message that is outstanding
  on that connection removes it from the outstanding ones and queues the response of its submission
  exactly once: accepted for a message the bearerbox has sent or buffered, failed submission for one it
  refused, system error for anything else; the message id is kept only in an accepted one. An
  acknowledgement of anything that is not outstanding changes nothing.
\<close>

theorem bearerbox_ack_answers:
  assumes "b < length (s_bearerboxes s)" and "bb_open_acks (s_bearerboxes s ! b) = Some d"
  shows "(dict_get d (gw_uuid_unparse (ev_gw E) u) = None \<longrightarrow> receive_ack E b u nack s = Some s)
    \<and> (\<forall>bm r i seq mid. dict_get d (gw_uuid_unparse (ev_gw E) u) = Some bm \<and> submit_waits s bm r i seq mid \<longrightarrow>
        (\<exists>t s'. receive_ack E b u nack s = Some s'
           \<and> t = s\<lparr>s_bearerboxes := (s_bearerboxes s)[b := (s_bearerboxes s ! b)\<lparr>bb_open_acks := Some (dict_remove d (gw_uuid_unparse (ev_gw E) u))\<rparr>]\<rparr>
           \<and> answered i r (Submit_sm_resp seq
                (if nack = ack_success \<or> nack = ack_buffered then SMPP_ESME_ROK else if nack = ack_failed then SMPP_ESME_RSUBMITFAIL else SMPP_ESME_RSYSERR)
                (if nack = ack_success \<or> nack = ack_buffered then mid else None)) t s'))"
proof (intro conjI allI impI)
  assume "dict_get d (gw_uuid_unparse (ev_gw E) u) = None"
  then show "receive_ack E b u nack s = Some s" using assms by (simp add: receive_ack_def get_box_def)
next
  fix bm r i seq mid
  assume a: "dict_get d (gw_uuid_unparse (ev_gw E) u) = Some bm \<and> submit_waits s bm r i seq mid"
  let ?k = "gw_uuid_unparse (ev_gw E) u"
  let ?t = "s\<lparr>s_bearerboxes := (s_bearerboxes s)[b := (s_bearerboxes s ! b)\<lparr>bb_open_acks := Some (dict_remove d ?k)\<rparr>]\<rparr>"
  have t: "upd_box b (box_untrack ?k) s = Some ?t" using assms by (simp add: upd_box_def get_box_def box_untrack_def)
  have w: "submit_waits ?t bm r i seq mid"
    using a by (simp add: submit_waits_def get_pdu_def get_global_def get_esme_def)
  obtain s' where "run_bb_callback E (bm_callback bm) (nack_status nack) ?t = Some s'"
    "answered i r (Submit_sm_resp seq (nack_status nack) (if nack_status nack = SMPP_ESME_ROK then mid else None)) ?t s'"
    using submit_waits_answers [OF w] by blast
  moreover have "receive_ack E b u nack s = run_bb_callback E (bm_callback bm) (nack_status nack) ?t"
    using a assms t by (simp add: receive_ack_def get_box_def)
  ultimately show "\<exists>t s'. receive_ack E b u nack s = Some s' \<and> t = ?t
     \<and> answered i r (Submit_sm_resp seq
          (if nack = ack_success \<or> nack = ack_buffered then SMPP_ESME_ROK else if nack = ack_failed then SMPP_ESME_RSUBMITFAIL else SMPP_ESME_RSYSERR)
          (if nack = ack_success \<or> nack = ack_buffered then mid else None)) t s'"
    by (auto simp: nack_status_def split: if_splits)
qed

text \<open>A message of a bound ESME, outstanding on bearerbox 0 under the identifier 3.\<close>

definition outstanding_msg :: bearerbox_msg where
  "outstanding_msg = smpp_bearerbox_msg_create example_gwlib (sms_create 3) (BCb_submit_sm 0)"

definition outstanding_server :: "unit server" where
  "outstanding_server = put_pdu 0 (smpp_queued_pdu_create\<lparr>q_pdu := Some (Submit_sm_resp 7 SMPP_ESME_ROK (Some ''x'')), q_esme := Some 0\<rparr>)
     ((bound_server ''abc'' [example_esme 0 0])
        \<lparr>s_bearerboxes := [smpp_bearerbox_create\<lparr>bb_open_acks := Some [(gw_uuid_unparse example_gwlib 3, outstanding_msg)]\<rparr>]\<rparr>)"

lemma outstanding_facts:
  "0 < length (s_bearerboxes outstanding_server)"
  "bb_open_acks (s_bearerboxes outstanding_server ! 0) = Some [(gw_uuid_unparse example_gwlib 3, outstanding_msg)]"
  "submit_waits outstanding_server outstanding_msg 0 0 7 (Some ''x'')" "s_outbound_queue outstanding_server = []"
  by (simp_all add: outstanding_server_def outstanding_msg_def bound_server_def example_server_def initial_server_def put_pdu_def get_pdu_def
      get_global_def get_esme_def dict_get_Cons smpp_queued_pdu_create_def submit_waits_def smpp_bearerbox_msg_create_def)

theorem bearerbox_ack_answers_witness:
  "\<exists>s'. receive_ack example_env 0 3 ack_failed outstanding_server = Some s' \<and> s_outbound_queue s' = [(0, 0)]"
proof -
  have "ev_gw example_env = example_gwlib" by (simp add: example_env_def)
  moreover have "dict_get [(gw_uuid_unparse example_gwlib 3, outstanding_msg)] (gw_uuid_unparse example_gwlib 3) = Some outstanding_msg"
    by (simp add: dict_get_Cons)
  ultimately show ?thesis
    using bearerbox_ack_answers [OF outstanding_facts(1,2), of example_env 3 ack_failed] outstanding_facts(3,4)
    by (fastforce simp: answered_def)
qed

lemma dict_put_dom: "dict_get d k \<noteq> None \<Longrightarrow> dict_get (dict_put d k2 v) k \<noteq> None"
  by simp

lemma globals_upd_esme:
  assumes "upd_esme i f s = Some t" and "\<And>e. e_global (f e) = e_global e" and "get_global s j \<noteq> None"
  shows "get_global t j \<noteq> None"
  using assms by (auto simp: upd_esme_def get_global_def put_esme_def get_esme_def bind_eq_Some_conv split: if_splits)

lemma globals_upd_global:
  assumes "upd_global i f s = Some t" and "get_global s j \<noteq> None"
  shows "get_global t j \<noteq> None"
  using assms by (auto simp: upd_global_def get_global_def get_esme_def bind_eq_Some_conv)

lemma answer_keeps_globals:
  assumes "callback_response r st s = Some t" and "get_pdu s r = Some q" and "q_callback q = None" and "get_global s j \<noteq> None"
  shows "get_global t j \<noteq> None \<and> s_bearerboxes t = s_bearerboxes s"
proof -
  obtain i f u v resp where i: "count_traffic f i s = Some u" and v: "v = put_pdu r (q\<lparr>q_pdu := resp\<rparr>) u" and a: "smpp_queues_add_outbound r v = Some t"
    using assms(1,2) by (auto simp: callback_response_def bind_eq_Some_conv)
  obtain x where x: "upd_esme i (\<lambda>e. e\<lparr>e_traffic := f (e_traffic e)\<rparr>) s = Some x"
      "upd_global i (\<lambda>g. g\<lparr>g_traffic := f (g_traffic g)\<rparr>) x = Some u"
    using i by (auto simp: count_traffic_def bind_eq_Some_conv)
  have "get_global x j \<noteq> None" using globals_upd_esme [OF x(1) _ assms(4)] by simp
  then have "get_global u j \<noteq> None" by (rule globals_upd_global [OF x(2)])
  then have gv: "get_global v j \<noteq> None" by (simp add: v)
  have "get_pdu v r = Some (q\<lparr>q_pdu := resp\<rparr>)" by (simp add: v)
  with a assms(3) obtain w k where w: "upd_esme k (\<lambda>e. e\<lparr>e_outbound_queued := e_outbound_queued e + 1\<rparr>) v = Some w"
    "t = w\<lparr>s_outbound_queue := s_outbound_queue w @ [(r, k)]\<rparr>"
    by (auto simp: smpp_queues_add_outbound_def bind_eq_Some_conv)
  have "get_global w j \<noteq> None" using globals_upd_esme [OF w(1) _ gv] by simp
  moreover have "s_bearerboxes w = s_bearerboxes s"
    using x w(1) by (auto simp: v upd_esme_def upd_global_def bind_eq_Some_conv put_esme_def put_pdu_def)
  ultimately show ?thesis by (simp add: w(2) get_global_def get_esme_def)
qed

text \<open>Several answers in a row.\<close>

fun all_answered :: "(nat \<times> nat \<times> int) list \<Rightarrow> 'd server \<Rightarrow> 'd server \<Rightarrow> bool" where
  "all_answered [] s t = (s_outbound_queue t = s_outbound_queue s \<and> s_bb_queue t = s_bb_queue s \<and> get_pdu t = get_pdu s)"
| "all_answered ((r, i, seq) # ws) s t = (\<exists>u. answered i r (Submit_sm_resp seq SMPP_ESME_RSYSERR None) s u \<and> all_answered ws u t)"

definition lost_waits :: "'d server \<Rightarrow> bearerbox_msg \<Rightarrow> nat \<times> nat \<times> int \<Rightarrow> bool" where
  "lost_waits s bm w \<longleftrightarrow> (\<exists>mid. submit_waits s bm (fst w) (fst (snd w)) (snd (snd w)) mid)"

lemma fail_open_acks_answers:
  assumes "list_all2 (lost_waits s) bms ws" and "distinct (map fst ws)"
  shows "\<exists>t. fail_open_acks E bms s = Some t \<and> all_answered ws s t \<and> s_bearerboxes t = s_bearerboxes s"
  using assms
proof (induction bms arbitrary: ws s)
  case Nil
  then show ?case by simp
next
  case (Cons bm bms)
  then obtain r i seq ws' where ws: "ws = (r, i, seq) # ws'" and rest: "list_all2 (lost_waits s) bms ws'" and bm: "lost_waits s bm (r, i, seq)"
    by (cases ws) auto
  then obtain mid where w: "submit_waits s bm r i seq mid" by (auto simp: lost_waits_def)
  obtain u where u: "run_bb_callback E (bm_callback bm) SMPP_ESME_RSYSERR s = Some u" "answered i r (Submit_sm_resp seq SMPP_ESME_RSYSERR None) s u"
    using submit_waits_answers [OF w, of E SMPP_ESME_RSYSERR] by auto
  obtain q where q: "get_pdu s r = Some q" "q_callback q = None" "bm_callback bm = BCb_submit_sm r" "get_global s i \<noteq> None"
    using w by (auto simp: submit_waits_def)
  have cr: "callback_response r SMPP_ESME_RSYSERR s = Some u" using u(1) q(3) by (simp add: run_bb_callback_def smpp_queues_callback_submit_sm_def)
  have boxes: "s_bearerboxes u = s_bearerboxes s" using answer_keeps_globals [OF cr q(1,2,4)] by simp
  have "lost_waits u bm2 w2" if l: "lost_waits s bm2 w2" and n: "fst w2 \<noteq> r" for bm2 w2
  proof -
    obtain mid2 where w2: "submit_waits s bm2 (fst w2) (fst (snd w2)) (snd (snd w2)) mid2" using l by (auto simp: lost_waits_def)
    have "get_global u j \<noteq> None" if "get_global s j \<noteq> None" for j using answer_keeps_globals [OF cr q(1,2) that] by simp
    moreover have "get_pdu u (fst w2) = get_pdu s (fst w2)" using u(2) n by (simp add: answered_def)
    ultimately show ?thesis using w2 by (auto simp: lost_waits_def submit_waits_def)
  qed
  note still = this
  have r: "r \<notin> set (map fst ws')" "distinct (map fst ws')" using Cons.prems(2) ws by auto
  have "list_all2 (lost_waits u) bms ws'"
  proof (rule list.rel_mono_strong [OF rest])
    fix x y assume "y \<in> set ws'" "lost_waits s x y"
    then show "lost_waits u x y" using still r(1) by (metis image_eqI list.set_map)
  qed
  then obtain t where "fail_open_acks E bms u = Some t" "all_answered ws' u t" "s_bearerboxes t = s_bearerboxes u" using Cons.IH r(2) by blast
  with u boxes show ?case by (auto simp: ws)
qed

text \<open>Steps that concern the connection only.\<close>

definition boxes_only :: "'d server \<Rightarrow> 'd server \<Rightarrow> bool" where
  "boxes_only s t \<longleftrightarrow> s_outbound_queue t = s_outbound_queue s \<and> s_bb_queue t = s_bb_queue s \<and> s_pending_routes t = s_pending_routes s
     \<and> get_pdu t = get_pdu s \<and> get_esme t = get_esme s \<and> get_global t = get_global s"

lemma all_answered_before: "boxes_only s t \<Longrightarrow> all_answered ws t u \<Longrightarrow> all_answered ws s u"
proof (cases ws)
  case (Cons w ws')
  assume "boxes_only s t" "all_answered ws t u"
  then show ?thesis using Cons by (cases w) (auto simp: boxes_only_def answered_def)
qed (auto simp: boxes_only_def)

lemma all_answered_after: "all_answered ws s t \<Longrightarrow> boxes_only t u \<Longrightarrow> all_answered ws s u"
  by (induction ws s t rule: all_answered.induct) (auto simp: boxes_only_def)

lemma boxes_only_upd_box:
  assumes "b < length (s_bearerboxes s)"
  shows "\<exists>t. upd_box b f s = Some t \<and> boxes_only s t \<and> length (s_bearerboxes t) = length (s_bearerboxes s)
    \<and> s_bearerboxes t ! b = f (s_bearerboxes s ! b)"
  using assms by (simp add: upd_box_def get_box_def boxes_only_def fun_eq_iff get_pdu_def get_esme_def get_global_def)

lemma boxes_only_trans: "boxes_only s t \<Longrightarrow> boxes_only t u \<Longrightarrow> boxes_only s u"
  by (simp add: boxes_only_def)

lemma boxes_only_identify:
  assumes "b < length (s_bearerboxes s)"
  shows "\<exists>ok t. smpp_bearerbox_identify E b s = Some (ok, t) \<and> boxes_only s t \<and> length (s_bearerboxes t) = length (s_bearerboxes s)
    \<and> bb_open_acks (s_bearerboxes t ! b) = bb_open_acks (s_bearerboxes s ! b)"
  using assms by (auto simp: smpp_bearerbox_identify_def upd_box_def get_box_def boxes_only_def fun_eq_iff get_pdu_def get_esme_def get_global_def)

text \<open>
  When the connection to a bearerbox is lost, every submission outstanding on it is answered, exactly
  once and in turn, with the code for a system error, before the server tries to connect again; and nothing is outstanding on the
  connection afterwards, whether the attempt succeeds or not.
\<close>

theorem lost_connection_answers_all:
  assumes "b < length (s_bearerboxes s)" and "\<not> bb_alive (s_bearerboxes s ! b)" and "bb_open_acks (s_bearerboxes s ! b) = Some d"
    and "list_all2 (lost_waits s) (map snd d) ws" and "distinct (map fst ws)"
  shows "\<exists>s'. box_reconnect E b conn_ok s = Some s' \<and> all_answered ws s s' \<and> bb_open_acks (s_bearerboxes s' ! b) = Some []"
proof -
  obtain s1 where s1: "upd_box b (\<lambda>x. x\<lparr>bb_open_acks := Some []\<rparr>) s = Some s1" "boxes_only s s1" "length (s_bearerboxes s1) = length (s_bearerboxes s)"
      "bb_open_acks (s_bearerboxes s1 ! b) = Some []"
    using boxes_only_upd_box [OF assms(1), of "\<lambda>x. x\<lparr>bb_open_acks := Some []\<rparr>"] by auto
  have "lost_waits s1 = lost_waits s"
    using s1(2) by (simp add: fun_eq_iff lost_waits_def submit_waits_def boxes_only_def)
  then obtain s2 where s2: "fail_open_acks E (map snd d) s1 = Some s2" "all_answered ws s1 s2" "s_bearerboxes s2 = s_bearerboxes s1"
    using fail_open_acks_answers [of s1 "map snd d" ws E] assms(4,5) by auto
  have b2: "b < length (s_bearerboxes s2)" using s1(3) s2(3) assms(1) by simp
  obtain s3 where s3: "upd_box b (\<lambda>x. x\<lparr>bb_connection := conn_ok\<rparr>) s2 = Some s3" "boxes_only s2 s3" "b < length (s_bearerboxes s3)"
      "bb_open_acks (s_bearerboxes s3 ! b) = Some []"
    using boxes_only_upd_box [OF b2, of "\<lambda>x. x\<lparr>bb_connection := conn_ok\<rparr>"] b2 s1(4) s2(3) by auto
  obtain ok s4 where s4: "smpp_bearerbox_identify E b s3 = Some (ok, s4)" "boxes_only s3 s4" "b < length (s_bearerboxes s4)"
      "bb_open_acks (s_bearerboxes s4 ! b) = Some []"
    using boxes_only_identify [OF s3(3)] s3(3,4) by fastforce
  obtain s5 where s5: "upd_box b (smpp_bearerbox_set_state True) s4 = Some s5" "boxes_only s4 s5" "bb_open_acks (s_bearerboxes s5 ! b) = Some []"
    using boxes_only_upd_box [OF s4(3), of "smpp_bearerbox_set_state True"] s4(4) by (auto simp: smpp_bearerbox_set_state_def)
  define s' where "s' = (if conn_ok then if ok then s5 else s4 else s3)"
  have "box_reconnect E b conn_ok s = Some s'"
    using assms(1-3) s1(1) s2(1) s3(1) s4(1) s5(1) by (simp add: box_reconnect_def get_box_def smpp_bearerbox_online_def s'_def)
  moreover have "boxes_only s2 s'" "bb_open_acks (s_bearerboxes s' ! b) = Some []"
    using s3(2,4) s4(2,4) s5(2,3) boxes_only_trans unfolding s'_def by (auto intro: boxes_only_trans)
  moreover have "all_answered ws s s'" using all_answered_after [OF s2(2) calculation(2)] all_answered_before [OF s1(2)] by blast
  ultimately show ?thesis by blast
qed

theorem lost_connection_answers_all_witness:
  "\<exists>s'. box_reconnect example_env 0 False outstanding_server = Some s' \<and> s_outbound_queue s' = [(0, 0)]"
proof -
  have "\<not> bb_alive (s_bearerboxes outstanding_server ! 0)"
    by (simp add: outstanding_server_def bound_server_def example_server_def initial_server_def put_pdu_def smpp_bearerbox_create_def)
  moreover have "list_all2 (lost_waits outstanding_server) (map snd [(gw_uuid_unparse example_gwlib 3, outstanding_msg)]) [(0, 0, 7)]"
    using outstanding_facts(3) by (auto simp: lost_waits_def)
  ultimately show ?thesis
    using lost_connection_answers_all [OF outstanding_facts(1) _ outstanding_facts(2), of "[(0, 0, 7)]" example_env False] outstanding_facts(4)
    by (auto simp: answered_def)
qed

section \<open>The table of routes\<close>

definition dest_matches :: "gwlib \<Rightarrow> sms \<Rightarrow> route \<Rightarrow> bool" where
  "dest_matches G m r \<longleftrightarrow> gw_regex_match G (rt_regex r) (case_option [] id (receiver m))"

definition source_matches :: "gwlib \<Rightarrow> sms \<Rightarrow> route \<Rightarrow> bool" where
  "source_matches G m r \<longleftrightarrow> (\<forall>sr. rt_source_regex r = Some sr \<longrightarrow> gw_regex_match G sr (case_option [] id (sender m)))"

lemma search_routes_find:
  "search_routes G usable m st rs =
     (case find (\<lambda>r. usable r \<and> dest_matches G m r \<and> source_matches G m r) rs of
        Some r \<Rightarrow> Inr r
      | None \<Rightarrow> Inl (if \<exists>r \<in> set rs. usable r \<and> dest_matches G m r then SMPP_ESME_RINVSRCADR else st))"
  by (induction rs arbitrary: st) (auto simp: dest_matches_def source_matches_def split: option.splits)

text \<open>
  C22: The database router implements its specification: a submission of an account takes the first route
  of the account's table whose pattern matches the destination and whose source pattern, if any, matches
  the sender; it gets the cost and the SMSC of that route. An incoming message takes in the same way the
  first route of the shared table among those for its SMSC or for any, and gets the account of the route.
  When there is no such route the message is unchanged, and the status blames the sender if some route
  matched the destination and the destination otherwise.
\<close>

theorem database_routing_spec:
  assumes "k \<noteq> []"
  shows "route_database E SMPP_ROUTE_DIRECTION_OUTBOUND smsc (Some k) m s =
      (let (rs, s') = outbound_routes_for E k s; st = smpp_route_status_create (ev_gw E) m in
       (case find (\<lambda>r. dest_matches (ev_gw E) m r \<and> source_matches (ev_gw E) m r) rs of
          Some r \<Rightarrow> (st\<lparr>rs_status := SMPP_ESME_ROK, rs_cost := rt_cost r\<rparr>, m\<lparr>smsc_id := rt_smsc_id r\<rparr>, s')
        | None \<Rightarrow> (st\<lparr>rs_status := (if \<exists>r \<in> set rs. dest_matches (ev_gw E) m r then SMPP_ESME_RINVSRCADR else SMPP_ESME_RINVDSTADR)\<rparr>, m, s')))
    \<and> route_database E SMPP_ROUTE_DIRECTION_INBOUND (Some k) sid m s =
      (let st = smpp_route_status_create (ev_gw E) m; rs = filter (inbound_usable k) (s_inbound_routes s) in
       (case find (\<lambda>r. dest_matches (ev_gw E) m r \<and> source_matches (ev_gw E) m r) rs of
          Some r \<Rightarrow> (st\<lparr>rs_status := SMPP_ESME_ROK, rs_cost := rt_cost r\<rparr>, m\<lparr>service := rt_system_id r\<rparr>, s)
        | None \<Rightarrow> (st\<lparr>rs_status := (if \<exists>r \<in> set rs. dest_matches (ev_gw E) m r then SMPP_ESME_RINVSRCADR else SMPP_ESME_RINVDSTADR)\<rparr>, m, s)))"
proof
  have find_filter: "find (\<lambda>r. P r \<and> Q r) rs = find Q (filter P rs)" for P Q and rs :: "route list" by (induction rs) auto
  have st: "rs_status (smpp_route_status_create (ev_gw E) m) = SMPP_ESME_RINVDSTADR" by (simp add: smpp_route_status_create_def)
  show "route_database E SMPP_ROUTE_DIRECTION_OUTBOUND smsc (Some k) m s =
      (let (rs, s') = outbound_routes_for E k s; st = smpp_route_status_create (ev_gw E) m in
       (case find (\<lambda>r. dest_matches (ev_gw E) m r \<and> source_matches (ev_gw E) m r) rs of
          Some r \<Rightarrow> (st\<lparr>rs_status := SMPP_ESME_ROK, rs_cost := rt_cost r\<rparr>, m\<lparr>smsc_id := rt_smsc_id r\<rparr>, s')
        | None \<Rightarrow> (st\<lparr>rs_status := (if \<exists>r \<in> set rs. dest_matches (ev_gw E) m r then SMPP_ESME_RINVSRCADR else SMPP_ESME_RINVDSTADR)\<rparr>, m, s')))"
    using assms by (auto simp: route_database_def Let_def search_routes_find st split: prod.splits option.splits)
  show "route_database E SMPP_ROUTE_DIRECTION_INBOUND (Some k) sid m s =
      (let st = smpp_route_status_create (ev_gw E) m; rs = filter (inbound_usable k) (s_inbound_routes s) in
       (case find (\<lambda>r. dest_matches (ev_gw E) m r \<and> source_matches (ev_gw E) m r) rs of
          Some r \<Rightarrow> (st\<lparr>rs_status := SMPP_ESME_ROK, rs_cost := rt_cost r\<rparr>, m\<lparr>service := rt_system_id r\<rparr>, s)
        | None \<Rightarrow> (st\<lparr>rs_status := (if \<exists>r \<in> set rs. dest_matches (ev_gw E) m r then SMPP_ESME_RINVSRCADR else SMPP_ESME_RINVDSTADR)\<rparr>, m, s)))"
    using assms by (auto simp: route_database_def Let_def search_routes_find st find_filter [where P = "inbound_usable k", symmetric] split: option.splits)
qed

theorem database_routing_spec_witness:
  "fst (snd (route_database example_env SMPP_ROUTE_DIRECTION_OUTBOUND None (Some ''abc'') ((sms_create 1)\<lparr>receiver := Some ''4912345''\<rparr>)
     (example_server\<lparr>s_outbound_routes := [(''abc'', [smpp_route_create\<lparr>rt_regex := ''44'', rt_smsc_id := Some ''uk''\<rparr>,
        smpp_route_create\<lparr>rt_regex := ''49'', rt_smsc_id := Some ''de''\<rparr>])]\<rparr>))) =
   (sms_create 1)\<lparr>receiver := Some ''4912345'', smsc_id := Some ''de''\<rparr>"
proof -
  let ?m = "(sms_create 1)\<lparr>receiver := Some ''4912345''\<rparr>"
  let ?s = "example_server\<lparr>s_outbound_routes := [(''abc'', [smpp_route_create\<lparr>rt_regex := ''44'', rt_smsc_id := Some ''uk''\<rparr>,
        smpp_route_create\<lparr>rt_regex := ''49'', rt_smsc_id := Some ''de''\<rparr>])]\<rparr>"
  show ?thesis
    using database_routing_spec [of "''abc''" example_env None ?m ?s]
    by (simp add: outbound_routes_for_def dict_get_Cons dest_matches_def source_matches_def example_env_def example_gwlib_def smpp_route_create_def)
qed

text \<open>
  The routes of an account are read from the store once: until the table is rebuilt every later
  submission of the account sees the routes the first one saw, whatever has become of the store. After a rebuild
  the next submission sees the routes the store has then.
\<close>

theorem route_cache_until_rebuild:
  "fst (outbound_routes_for E2 k ((snd (outbound_routes_for E k s))\<lparr>s_db := d\<rparr>)) = fst (outbound_routes_for E k s)
   \<and> fst (outbound_routes_for E k (smpp_route_rebuild_database E s)) = smpp_database_get_routes E s SMPP_ROUTE_DIRECTION_OUTBOUND (Some k)
   \<and> s_inbound_routes (smpp_route_rebuild_database E s) = smpp_database_get_routes E s SMPP_ROUTE_DIRECTION_INBOUND None"
  by (auto simp: outbound_routes_for_def smpp_route_rebuild_database_def smpp_database_get_routes_def Let_def split: option.splits)

end
