(* ===== verification/Binding.thy ===== *)
theory Binding
  imports Submission
begin

text \<open>
  The outcome of a bind: what the handler does to the ESME, to the table of bound ESMEs and to the
  outbound queue when the authentication succeeds and when it fails.
\<close>

lemma respond_plain_answers:
  assumes "get_esme s i \<noteq> None"
  shows "\<exists>s' q e'. respond_plain i resp disc s = Some s' \<and> s_outbound_queue s' = s_outbound_queue s @ [(s_next_pdu s, i)]
    \<and> get_pdu s' (s_next_pdu s) = Some q \<and> q_pdu q = Some resp \<and> q_disconnect q = disc
    \<and> (\<forall>p. p \<noteq> s_next_pdu s \<longrightarrow> get_pdu s' p = get_pdu s p)
    \<and> get_esme s' i = Some e' \<and> e' = (the (get_esme s i))\<lparr>e_outbound_queued := e_outbound_queued (the (get_esme s i)) + 1\<rparr>
    \<and> s_esmes s' = s_esmes s \<and> s_cfg s' = s_cfg s"
proof -
  let ?q = "smpp_queued_pdu_create\<lparr>q_esme := Some i, q_pdu := Some resp, q_disconnect := disc\<rparr>"
  obtain e where e: "get_esme s i = Some e" using assms by blast
  let ?t = "snd (alloc_pdu ?q s)"
  let ?u = "(put_esme i (e\<lparr>e_outbound_queued := e_outbound_queued e + 1\<rparr>) ?t)\<lparr>s_outbound_queue := s_outbound_queue s @ [(s_next_pdu s, i)]\<rparr>"
  have "respond_plain i resp disc s = Some ?u"
    using e by (simp add: respond_plain_def alloc_split smpp_queues_add_outbound_def get_pdu_alloc upd_esme_def smpp_queued_pdu_create_def)
      (simp add: put_esme_def alloc_pdu_def put_pdu_def)
  moreover have "get_pdu ?u p = (if p = s_next_pdu s then Some ?q else get_pdu s p)" for p
    using get_pdu_alloc [of ?q s p] by (simp add: get_pdu_def put_esme_def)
  moreover have "get_esme ?u i = Some (e\<lparr>e_outbound_queued := e_outbound_queued e + 1\<rparr>)" by (simp add: get_esme_def put_esme_def)
  moreover have "s_esmes ?u = s_esmes s" "s_cfg ?u = s_cfg s" by (simp_all add: put_esme_def alloc_pdu_def put_pdu_def)
  ultimately show ?thesis using e by (auto simp: smpp_queued_pdu_create_def)
qed

lemma destroy_pdu_total:
  assumes "get_pdu s p \<noteq> None"
  shows "\<exists>t. smpp_queued_pdu_destroy p s = Some t \<and> get_pdu t p = None \<and> (\<forall>p'. p' \<noteq> p \<longrightarrow> get_pdu t p' = get_pdu s p')
    \<and> s_outbound_queue t = s_outbound_queue s \<and> get_esme t = get_esme s \<and> s_esmes t = s_esmes s"
  using assms by (auto simp: smpp_queued_pdu_destroy_def free_pdu_def get_pdu_def get_esme_def fun_eq_iff)

text \<open>The response of a bind, alone at the end of the outbound queue.\<close>

definition bind_answered :: "nat \<Rightarrow> pdu \<Rightarrow> bool \<Rightarrow> nat \<Rightarrow> 'd server \<Rightarrow> 'd server \<Rightarrow> bool" where
  "bind_answered i resp disc p s s' \<longleftrightarrow> s_outbound_queue s' = s_outbound_queue s @ [(s_next_pdu s, i)]
     \<and> (\<exists>q. get_pdu s' (s_next_pdu s) = Some q \<and> q_pdu q = Some resp \<and> q_disconnect q = disc) \<and> get_pdu s' p = None"

lemma bind_rejected:
  assumes "smpp_esme_auth E (b_system_id b) (b_password b) i s = Some (None, s1)" and "get_esme s i = Some e"
    and "get_pdu s p \<noteq> None" and "p \<noteq> s_next_pdu s"
  shows "\<exists>s' e'. handle_bind E p i resp bt b s = Some s' \<and> bind_answered i (resp SMPP_ESME_RBINDFAIL None) True p s s' \<and> s_esmes s' = s_esmes s
    \<and> get_esme s' i = Some e' \<and> e_authenticated e' = e_authenticated e \<and> e_global e' = e_global e \<and> e_bind_type e' = e_bind_type e \<and> e_pending_disconnect e'"
proof -
  obtain bl where s1: "s1 = s\<lparr>s_ip_blocklist := bl\<rparr>" using esme_auth_frame [OF assms(1)] by blast
  let ?e = "e\<lparr>e_pending_disconnect := True\<rparr>"
  let ?s2 = "put_esme i ?e s1"
  have s2: "upd_esme i (\<lambda>e. e\<lparr>e_pending_disconnect := True\<rparr>) s1 = Some ?s2" "get_esme ?s2 i = Some ?e" "s_outbound_queue ?s2 = s_outbound_queue s"
    "s_next_pdu ?s2 = s_next_pdu s" "get_pdu ?s2 = get_pdu s" "s_esmes ?s2 = s_esmes s"
    using assms(2) by (auto simp: s1 upd_esme_def get_esme_def put_esme_def get_pdu_def fun_eq_iff)
  have "get_esme ?s2 i \<noteq> None" using s2(2) by simp
  from respond_plain_answers [OF this, of "resp SMPP_ESME_RBINDFAIL None" True, unfolded s2(2-6)]
  obtain s3 q where s3: "respond_plain i (resp SMPP_ESME_RBINDFAIL None) True ?s2 = Some s3"
      "s_outbound_queue s3 = s_outbound_queue s @ [(s_next_pdu s, i)]"
      "get_pdu s3 (s_next_pdu s) = Some q" "q_pdu q = Some (resp SMPP_ESME_RBINDFAIL None)" "q_disconnect q"
      "\<forall>p. p \<noteq> s_next_pdu s \<longrightarrow> get_pdu s3 p = get_pdu s p"
      "get_esme s3 i = Some (?e\<lparr>e_outbound_queued := e_outbound_queued e + 1\<rparr>)" "s_esmes s3 = s_esmes s" by auto
  then have "get_pdu s3 p \<noteq> None" using assms(3,4) by metis
  then obtain s' where s': "smpp_queued_pdu_destroy p s3 = Some s'" "get_pdu s' p = None" "\<forall>p'. p' \<noteq> p \<longrightarrow> get_pdu s' p' = get_pdu s3 p'"
      "s_outbound_queue s' = s_outbound_queue s3" "get_esme s' = get_esme s3" "s_esmes s' = s_esmes s3" using destroy_pdu_total by blast
  have "handle_bind E p i resp bt b s = Some s'" using assms(1) s2(1) s3(1) s'(1) by (simp add: handle_bind_def)
  then show ?thesis using s3 s' assms(4) by (auto simp: bind_answered_def)
qed

lemma bind_accepted:
  assumes "smpp_esme_auth E (b_system_id b) (b_password b) i s = Some (Some a, s1)" and "get_esme s i = Some e"
    and "get_pdu s p \<noteq> None" and "p \<noteq> s_next_pdu s"
  shows "\<exists>s' e' g. handle_bind E p i resp bt b s = Some s' \<and> bind_answered i (resp SMPP_ESME_ROK (c_server_id (s_cfg s))) False p s s'
    \<and> get_esme s' i = Some e' \<and> e_authenticated e' \<and> e_bind_type e' = bt \<and> e_system_id e' = b_system_id b
    \<and> e_global e' = Some (case_option [] id (b_system_id b)) \<and> dict_get (s_esmes s') (case_option [] id (b_system_id b)) = Some g
    \<and> g_binds g = (case dict_get (s_esmes s) (case_option [] id (b_system_id b)) of None \<Rightarrow> [] | Some g0 \<Rightarrow> g_binds g0) @ [i]
    \<and> g_throughput g = a_throughput a \<and> g_max_binds g = a_max_binds a \<and> g_enable_prepaid_billing g = a_enable_prepaid_billing a
    \<and> (\<forall>k. k \<noteq> case_option [] id (b_system_id b) \<longrightarrow> dict_get (s_esmes s') k = dict_get (s_esmes s) k)"
proof -
  let ?k = "case_option [] id (b_system_id b)"
  have s1: "s1 = s" using assms(1) by (cases rule: esme_auth_cases) auto
  let ?e = "e\<lparr>e_bind_type := bt, e_authenticated := True, e_system_id := b_system_id b, e_version := b_interface_version b\<rparr>"
  let ?g = "case dict_get (s_esmes s) ?k of Some g \<Rightarrow> g
     | None \<Rightarrow> smpp_esme_global_create\<lparr>g_system_id := Some ?k, g_database_store_primary := c_database_store_primary (s_cfg s)\<rparr>"
  define s2 where "s2 = (put_esme i (?e\<lparr>e_global := Some ?k\<rparr>) (put_esme i ?e s))\<lparr>s_esmes := dict_put (s_esmes s) ?k (?g\<lparr>g_binds := g_binds ?g @ [i]\<rparr>)\<rparr>"
  have put: "smpp_esme_global_add i (put_esme i ?e s) = Some s2"
    by (simp add: smpp_esme_global_add_def upd_esme_def Let_def s2_def get_esme_def put_esme_def cong: option.case_cong)
  have s2: "get_esme s2 i = Some (?e\<lparr>e_global := Some ?k\<rparr>)" "s_outbound_queue s2 = s_outbound_queue s" "s_next_pdu s2 = s_next_pdu s"
    "get_pdu s2 = get_pdu s" "s_cfg s2 = s_cfg s"
    by (auto simp: s2_def get_esme_def put_esme_def get_pdu_def fun_eq_iff)
  have "get_esme s2 i \<noteq> None" using s2(1) by simp
  from respond_plain_answers [OF this, of "resp SMPP_ESME_ROK (c_server_id (s_cfg s))" False, unfolded s2]
  obtain s3 q where s3: "respond_plain i (resp SMPP_ESME_ROK (c_server_id (s_cfg s))) False s2 = Some s3"
      "s_outbound_queue s3 = s_outbound_queue s @ [(s_next_pdu s, i)]"
      "get_pdu s3 (s_next_pdu s) = Some q" "q_pdu q = Some (resp SMPP_ESME_ROK (c_server_id (s_cfg s)))" "\<not> q_disconnect q"
      "\<forall>p. p \<noteq> s_next_pdu s \<longrightarrow> get_pdu s3 p = get_pdu s p"
      "get_esme s3 i = Some (?e\<lparr>e_global := Some ?k, e_outbound_queued := e_outbound_queued e + 1\<rparr>)" "s_esmes s3 = s_esmes s2" by auto
  have g3: "dict_get (s_esmes s3) ?k = Some (?g\<lparr>g_binds := g_binds ?g @ [i]\<rparr>)" by (simp add: s3(8) s2_def)
  obtain s4 e4 g4 where s4: "apply_auth_result i a s3 = Some s4" "get_pdu s4 = get_pdu s3" "s_outbound_queue s4 = s_outbound_queue s3"
      "get_esme s4 i = Some e4" "e_authenticated e4" "e_bind_type e4 = bt" "e_system_id e4 = b_system_id b" "e_global e4 = Some ?k"
      "dict_get (s_esmes s4) ?k = Some g4" "g_binds g4 = g_binds ?g @ [i]" "g_throughput g4 = a_throughput a" "g_max_binds g4 = a_max_binds a"
      "g_enable_prepaid_billing g4 = a_enable_prepaid_billing a" "\<forall>k. k \<noteq> ?k \<longrightarrow> dict_get (s_esmes s4) k = dict_get (s_esmes s3) k"
    using s3(7) g3 by (auto simp: apply_auth_result_def upd_esme_def upd_global_def get_esme_def put_esme_def get_pdu_def fun_eq_iff)
  have "get_pdu s4 p \<noteq> None" using s4(2) s3(6) assms(3,4) by auto
  then obtain s' where s': "smpp_queued_pdu_destroy p s4 = Some s'" "get_pdu s' p = None" "\<forall>p'. p' \<noteq> p \<longrightarrow> get_pdu s' p' = get_pdu s4 p'"
      "s_outbound_queue s' = s_outbound_queue s4" "get_esme s' = get_esme s4" "s_esmes s' = s_esmes s4" using destroy_pdu_total by blast
  have "handle_bind E p i resp bt b s = Some s'"
    using assms(1,2) s1 put s3(1) s4(1) s'(1) s2(5) by (simp add: handle_bind_def upd_esme_def)
  moreover have "g_binds ?g = (case dict_get (s_esmes s) ?k of None \<Rightarrow> [] | Some g0 \<Rightarrow> g_binds g0)"
    by (simp add: smpp_esme_global_create_def split: option.splits)
  moreover have "\<forall>k. k \<noteq> ?k \<longrightarrow> dict_get (s_esmes s') k = dict_get (s_esmes s) k" using s4(14) s'(6) s3(8) by (simp add: s2_def)
  ultimately show ?thesis using s3 s4 s' assms(4) by (auto simp: bind_answered_def)
qed

text \<open>The response of a bind request, its direction, and its sequence number.\<close>

fun bind_parts :: "pdu \<Rightarrow> ((command_status \<Rightarrow> octstr option \<Rightarrow> pdu) \<times> nat \<times> bind_body) option" where
  "bind_parts (Bind_transmitter n b) = Some (Bind_transmitter_resp n, 1, b)"
| "bind_parts (Bind_receiver n b) = Some (Bind_receiver_resp n, 2, b)"
| "bind_parts (Bind_transceiver n b) = Some (Bind_transceiver_resp n, 3, b)"
| "bind_parts _ = None"


text \<open>The plugin accepts the password secret; the connection at address 0 has not bound yet.\<close>

definition connected_server :: "unit server" where
  "connected_server = put_pdu 0 smpp_queued_pdu_create (put_esme 0 smpp_esme_create (example_server\<lparr>s_next_pdu := 1, s_esme_counter := 1\<rparr>))"


end
