(* ===== verification/Store.thy ===== *)
theory Store
  imports QueuedPdu PduUtil
begin

text \<open>
  What the two store back ends (smpp_database_mysql.c and smpp_database_redis.c) have in common:
  the columns of a stored message, the percent-encoding of its binary fields, the message made
  from a row of the delivery report table, and the contract for claims: a message handed out by
  get_stored stays claimed until it is removed. The locale \<open>claiming_store\<close> states that
  contract; each back end interprets it on its own operations.
\<close>

section \<open>C strings\<close>

text \<open>\<open>%S\<close> of a null string, octstr_get_cstr of one, and octstr_parse_long in base 10.\<close>

definition fmt_S :: "octstr option \<Rightarrow> octstr" where
  "fmt_S v = (case v of None \<Rightarrow> ''(null)'' | Some s \<Rightarrow> s)"

definition get_cstr :: "octstr option \<Rightarrow> octstr" where
  "get_cstr v = (case v of None \<Rightarrow> ''(null)'' | Some s \<Rightarrow> cstr s)"

definition octstr_parse_long :: "octstr \<Rightarrow> int option" where
  "octstr_parse_long s =
     (let t = dropWhile c_isspace (cstr s);
          u = (if take 1 t = ''-'' \<or> take 1 t = ''+'' then tl t else t);
          v = atol t
      in if takeWhile gw_isdigit u = [] \<or> v < - (2 ^ 63) \<or> 2 ^ 63 \<le> v then None else Some v)"

text \<open>Conversions between long and unsigned long.\<close>

definition to_ulong :: "int \<Rightarrow> nat" where
  "to_ulong i = nat (i mod 2 ^ 64)"

definition to_slong :: "nat \<Rightarrow> int" where
  "to_slong n = (int n + 2 ^ 63) mod 2 ^ 64 - 2 ^ 63"

lemma to_ulong_slong: "n < 2 ^ 64 \<Longrightarrow> to_ulong (to_slong n) = n"
  unfolding to_ulong_def to_slong_def by (simp add: mod_diff_left_eq)

lemma to_ulong_less: "to_ulong i < 2 ^ 64"
  unfolding to_ulong_def by (simp add: nat_less_iff)

lemma to_ulong_id: "0 \<le> i \<Longrightarrow> i < 2 ^ 64 \<Longrightarrow> to_ulong i = nat i"
  unfolding to_ulong_def by simp

section \<open>The fields of a stored message\<close>

text \<open>
  The fields of an SMS in the order of their declaration, each with its macro (INTEGER, OCTSTR
  or UUID), its name, its reader and its writer: the code expands one declaration file with
  different macros, the model folds one list with different functions.
\<close>

datatype field =
    F_INTEGER octstr "sms \<Rightarrow> int" "int \<Rightarrow> sms \<Rightarrow> sms"
  | F_OCTSTR octstr "sms \<Rightarrow> octstr option" "octstr option \<Rightarrow> sms \<Rightarrow> sms"
  | F_UUID octstr "sms \<Rightarrow> uuid" "uuid \<Rightarrow> sms \<Rightarrow> sms"

fun field_name :: "field \<Rightarrow> octstr" where
  "field_name (F_INTEGER n _ _) = n"
| "field_name (F_OCTSTR n _ _) = n"
| "field_name (F_UUID n _ _) = n"

definition msg_decl :: "field list" where
  "msg_decl = [
     F_OCTSTR ''sender'' sender (\<lambda>v. sender_update (\<lambda>_. v)),
     F_OCTSTR ''receiver'' receiver (\<lambda>v. receiver_update (\<lambda>_. v)),
     F_OCTSTR ''udhdata'' udhdata (\<lambda>v. udhdata_update (\<lambda>_. v)),
     F_OCTSTR ''msgdata'' msgdata (\<lambda>v. msgdata_update (\<lambda>_. v)),
     F_INTEGER ''time'' sms_time (\<lambda>v. sms_time_update (\<lambda>_. v)),
     F_OCTSTR ''smsc_id'' smsc_id (\<lambda>v. smsc_id_update (\<lambda>_. v)),
     F_OCTSTR ''smsc_number'' smsc_number (\<lambda>v. smsc_number_update (\<lambda>_. v)),
     F_OCTSTR ''foreign_id'' foreign_id (\<lambda>v. foreign_id_update (\<lambda>_. v)),
     F_OCTSTR ''service'' service (\<lambda>v. service_update (\<lambda>_. v)),
     F_OCTSTR ''account'' account (\<lambda>v. account_update (\<lambda>_. v)),
     F_UUID ''id'' sms_id (\<lambda>v. sms_id_update (\<lambda>_. v)),
     F_INTEGER ''sms_type'' sms_type (\<lambda>v. sms_type_update (\<lambda>_. v)),
     F_INTEGER ''mclass'' mclass (\<lambda>v. mclass_update (\<lambda>_. v)),
     F_INTEGER ''mwi'' mwi (\<lambda>v. mwi_update (\<lambda>_. v)),
     F_INTEGER ''coding'' coding (\<lambda>v. coding_update (\<lambda>_. v)),
     F_INTEGER ''compress'' compress (\<lambda>v. compress_update (\<lambda>_. v)),
     F_INTEGER ''validity'' validity (\<lambda>v. validity_update (\<lambda>_. v)),
     F_INTEGER ''deferred'' deferred (\<lambda>v. deferred_update (\<lambda>_. v)),
     F_INTEGER ''dlr_mask'' dlr_mask (\<lambda>v. dlr_mask_update (\<lambda>_. v)),
     F_OCTSTR ''dlr_url'' dlr_url (\<lambda>v. dlr_url_update (\<lambda>_. v)),
     F_INTEGER ''pid'' pid (\<lambda>v. pid_update (\<lambda>_. v)),
     F_INTEGER ''alt_dcs'' alt_dcs (\<lambda>v. alt_dcs_update (\<lambda>_. v)),
     F_INTEGER ''rpi'' rpi (\<lambda>v. rpi_update (\<lambda>_. v)),
     F_OCTSTR ''charset'' charset (\<lambda>v. charset_update (\<lambda>_. v)),
     F_OCTSTR ''boxc_id'' boxc_id (\<lambda>v. boxc_id_update (\<lambda>_. v)),
     F_OCTSTR ''binfo'' binfo (\<lambda>v. binfo_update (\<lambda>_. v)),
     F_INTEGER ''msg_left'' msg_left (\<lambda>v. msg_left_update (\<lambda>_. v)),
     F_INTEGER ''priority'' priority (\<lambda>v. priority_update (\<lambda>_. v)),
     F_INTEGER ''resend_try'' resend_try (\<lambda>v. resend_try_update (\<lambda>_. v)),
     F_INTEGER ''resend_time'' resend_time (\<lambda>v. resend_time_update (\<lambda>_. v)),
     F_OCTSTR ''meta_data'' meta_data (\<lambda>v. meta_data_update (\<lambda>_. v))]"

text \<open>The names are distinct and none of them is the name of the row identifier.\<close>

lemma msg_decl_names: "distinct (map field_name msg_decl)" "''global_id'' \<notin> set (map field_name msg_decl)"
  by (simp_all add: msg_decl_def)

section \<open>Binary fields\<close>

definition encode_field :: "octstr option \<Rightarrow> octstr option" where
  "encode_field v = (if 0 < octstr_len v then Some (smpp_db_url_encode_octstr v) else v)"

definition decode_field :: "octstr option \<Rightarrow> octstr option" where
  "decode_field v = (if 0 < octstr_len v then Some (smpp_db_url_decode_octstr v) else v)"

definition encode_payload :: "sms \<Rightarrow> sms" where
  "encode_payload m = m\<lparr>udhdata := encode_field (udhdata m), msgdata := encode_field (msgdata m)\<rparr>"

definition decode_payload :: "sms \<Rightarrow> sms" where
  "decode_payload m =
     (let m = m\<lparr>udhdata := decode_field (udhdata m), msgdata := decode_field (msgdata m)\<rparr> in
      if msgdata m = None then m\<lparr>msgdata := Some []\<rparr> else m)"

lemma decode_encode_field [simp]: "decode_field (encode_field v) = v"
proof (cases v)
  case (Some s)
  then show ?thesis
    by (cases "s = []") (simp_all add: encode_field_def decode_field_def smpp_db_url_roundtrip,
      simp add: smpp_db_url_encode_octstr_def)
qed (simp add: encode_field_def decode_field_def)

lemma decode_encode_payload:
  "decode_payload (encode_payload m) = (if msgdata m = None then m\<lparr>msgdata := Some []\<rparr> else m)"
  by (simp add: decode_payload_def encode_payload_def Let_def)

section \<open>Delivery reports from the store\<close>

text \<open>A row of the delivery report table: the columns both back ends read.\<close>

record dlr_row =
  dr_message_id :: "octstr option"
  dr_status :: "octstr option"
  dr_err_code :: "octstr option"
  dr_submit_date :: "octstr option"
  dr_done_date :: "octstr option"
  dr_destination_addr :: "octstr option"
  dr_source_addr :: "octstr option"
  dr_smsc_id :: "octstr option"
  dr_text :: "octstr option"

text \<open>
  When the error code does not start with a number the C variable is read uninitialised:
  \<open>junk\<close> is the value it has.
\<close>

definition dlr_err_code :: "int \<Rightarrow> octstr option \<Rightarrow> nat" where
  "dlr_err_code junk err =
     (case err of
        None \<Rightarrow> 0
      | Some s \<Rightarrow> (if s = [] then 0
                  else nat ((case octstr_parse_long s of None \<Rightarrow> junk | Some v \<Rightarrow> v) mod 2 ^ 32)))"

definition dlr_delivered :: "dlr_row \<Rightarrow> bool" where
  "dlr_delivered r \<longleftrightarrow> dr_status r \<noteq> None \<and> octstr_case_compare (dr_status r) (Some ''DELIVRD'')"

definition dlr_msgdata :: "octstr \<Rightarrow> octstr \<Rightarrow> int \<Rightarrow> dlr_row \<Rightarrow> octstr" where
  "dlr_msgdata submit_date done_date junk r =
     ''id:'' @ fmt_S (dr_message_id r) @ '' sub:001 dlvrd:'' @ (if dlr_delivered r then ''001'' else ''000'') @
     '' submit date:'' @ submit_date @ '' done date:'' @ done_date @
     '' stat:'' @ (if 0 < octstr_len (dr_status r) then fmt_S (dr_status r) else ''DELIVRD'') @
     '' err:'' @ hex03 (dlr_err_code junk (dr_err_code r)) @
     '' text:'' @ (case dr_text r of None \<Rightarrow> [] | Some t \<Rightarrow> t)"

definition dlr_message :: "gwlib \<Rightarrow> timestamp \<Rightarrow> uuid \<Rightarrow> int \<Rightarrow> octstr option \<Rightarrow> dlr_row \<Rightarrow> sms" where
  "dlr_message G now u junk svc r =
     (let submit_date = smpp_database_format_dlr_date G now (dr_submit_date r);
          done_date = smpp_database_format_dlr_date G now (dr_done_date r);
          submit_time = smpp_time_to_c_time G now submit_date;
          done_time = smpp_time_to_c_time G now done_date;
          t = (if 0 < submit_time then submit_time else if 0 < done_time then done_time else now)
      in (sms_create u)\<lparr>sms_type := report_mo, service := svc,
           receiver := Some (case dr_destination_addr r of None \<Rightarrow> [] | Some a \<Rightarrow> a),
           sender := Some (case dr_source_addr r of None \<Rightarrow> [] | Some a \<Rightarrow> a),
           smsc_id := Some (case dr_smsc_id r of None \<Rightarrow> [] | Some a \<Rightarrow> a),
           sms_time := t,
           dlr_mask := (if dlr_delivered r then DLR_SUCCESS else DLR_FAIL),
           msgdata := Some (dlr_msgdata submit_date done_date junk r),
           dlr_url := Some (fmt_S svc @ ''|'' @ show_int t @ ''|'' @ fmt_S (dr_message_id r))\<rparr>)"

section \<open>Which table a poll reads\<close>

definition poll_kind :: "server_cfg \<Rightarrow> int \<Rightarrow> int" where
  "poll_kind c kind =
     (if kind = SMPP_DATABASE_STORE_BEARERBOX_MT_DRAIN
      then (if c_database_store_primary c then SMPP_DATABASE_STORE_BEARERBOX_QUEUE else SMPP_DATABASE_STORE_AUTO)
      else kind)"

definition poll_table :: "server_cfg \<Rightarrow> int \<Rightarrow> int \<Rightarrow> octstr option" where
  "poll_table c ty kind =
     (if 0 \<le> kind then smpp_database_store_table_name c kind else smpp_database_get_stored_table_name c ty)"

section \<open>Connection settings\<close>

text \<open>
  A group of the parsed configuration file: cfg_get, cfg_get_integer (None for -1) and the value
  cfg_get_bool stores (false for an absent directive). A back end
  looks for the first group of its kind whose id is the configured one; where the code panics the
  model returns the reason; it is shared by all parts of the program.
\<close>

record cfg_group =
  cg_get :: "octstr \<Rightarrow> octstr option"
  cg_integer :: "octstr \<Rightarrow> int option"
  cg_bool :: "octstr \<Rightarrow> bool"

datatype init_error =
    No_config
  | No_database
  | No_listener
  | No_bearerbox
  | Unknown_method octstr
  | Bad_plugin octstr
  | No_queue_config
  | No_groups
  | No_group
  | Missing octstr
  | No_connections
  | Bad_version

definition find_group :: "octstr option \<Rightarrow> cfg_group list \<Rightarrow> init_error + cfg_group" where
  "find_group wanted gs =
     (case find (\<lambda>g. cg_get g ''id'' \<noteq> None \<and> cg_get g ''id'' = wanted) gs of None \<Rightarrow> Inl No_group | Some g \<Rightarrow> Inr g)"

definition pool_size_of :: "cfg_group \<Rightarrow> int" where
  "pool_size_of g = (case cg_integer g ''max-connections'' of None \<Rightarrow> 1 | Some n \<Rightarrow> (if n = 0 then 1 else n))"

definition required :: "cfg_group \<Rightarrow> octstr \<Rightarrow> init_error + octstr" where
  "required g name = (case cg_get g name of None \<Rightarrow> Inl (Missing name) | Some v \<Rightarrow> Inr v)"

section \<open>Claims\<close>

text \<open>A sequence of polls and removals, as the threads that drain a store issue them.\<close>

datatype store_op = Op_get int "octstr option" int int | Op_delete nat bool

fun run_store ::
  "('d \<Rightarrow> int \<Rightarrow> octstr option \<Rightarrow> int \<Rightarrow> int \<Rightarrow> database_msg list \<times> 'd) \<Rightarrow> ('d \<Rightarrow> nat \<Rightarrow> bool \<Rightarrow> bool \<times> 'd) \<Rightarrow>
   store_op list \<Rightarrow> 'd \<Rightarrow> 'd" where
  "run_store get del [] d = d"
| "run_store get del (Op_get ty svc lmt kind # ops) d = run_store get del ops (snd (get d ty svc lmt kind))"
| "run_store get del (Op_delete gid tmp # ops) d = run_store get del ops (snd (del d gid tmp))"

locale claiming_store =
  fixes get :: "'d \<Rightarrow> int \<Rightarrow> octstr option \<Rightarrow> int \<Rightarrow> int \<Rightarrow> database_msg list \<times> 'd"
    and del :: "'d \<Rightarrow> nat \<Rightarrow> bool \<Rightarrow> bool \<times> 'd"
    and claimed :: "'d \<Rightarrow> octstr set"
  assumes get_keeps: "claimed d \<subseteq> claimed (snd (get d ty svc lmt kind))"
    and get_nothing: "fst (get d ty svc lmt kind) = [] \<Longrightarrow> claimed (snd (get d ty svc lmt kind)) = claimed d"
    and del_releases: "claimed (snd (del d gid tmp)) = claimed d - {show_nat gid}"
    and del_temporary: "fst (del d gid True) \<Longrightarrow> show_nat gid \<in> claimed d"
begin

lemma claim_persists:
  assumes "k \<in> claimed d" "\<And>gid tmp. Op_delete gid tmp \<in> set ops \<Longrightarrow> show_nat gid \<noteq> k"
  shows "k \<in> claimed (run_store get del ops d)"
  using assms
proof (induction ops arbitrary: d)
  case (Cons op ops)
  have later: "Op_delete gid tmp \<in> set ops \<Longrightarrow> show_nat gid \<noteq> k" for gid tmp
    using Cons.prems(2) [of gid tmp] by simp
  show ?case
  proof (cases op)
    case (Op_get ty svc lmt kind)
    have "k \<in> claimed (snd (get d ty svc lmt kind))" using Cons.prems(1) get_keeps by blast
    then show ?thesis unfolding Op_get run_store.simps by (rule Cons.IH) (rule later)
  next
    case (Op_delete gid tmp)
    have "k \<in> claimed (snd (del d gid tmp))"
      using Cons.prems(1) Cons.prems(2) [of gid tmp] Op_delete by (simp add: del_releases)
    then show ?thesis unfolding Op_delete run_store.simps by (rule Cons.IH) (rule later)
  qed
qed simp

lemma removed_not_claimed: "show_nat gid \<notin> claimed (snd (del d gid tmp))"
  by (simp add: del_releases)

lemma second_release_fails: "\<not> fst (del (snd (del d gid tmp)) gid True)"
  using del_temporary removed_not_claimed by blast

end

end
