(* ===== verification/SqlStore.thy ===== *)
theory SqlStore
  imports Store Route
begin

text \<open>
  smpp_database_mysql.c: the relational store, for MySQL and PostgreSQL. The database server
  (reached through dbpool) is not part of the repository: it is the record \<open>sql_lib\<close>, a
  query and an update function on SQL texts and the values bound to their placeholders, which
  every operation takes. The model has the texts character for character.
\<close>

section \<open>The server\<close>

text \<open>
  \<open>sl_select\<close> is dbpool_conn_select (None for -1), \<open>sl_update\<close> dbpool_conn_update (-1 for an error,
  else the number of rows); both give the same for an absent connection as for an error.
  \<open>sl_junk\<close> is the value of an uninitialised variable.
\<close>

record 'r sql_lib =
  sl_select :: "octstr \<Rightarrow> octstr option list \<Rightarrow> 'r \<Rightarrow> octstr option list list option"
  sl_update :: "octstr \<Rightarrow> octstr option list \<Rightarrow> 'r \<Rightarrow> int \<times> 'r"
  sl_junk :: int

text \<open>The messages and PDUs of the pending tables are never read through them.\<close>

record 'r sql_store =
  sq_server :: 'r
  sq_pending_msg :: "(octstr, unit) dict"
  sq_pending_msg_store :: "(octstr, octstr option) dict"
  sq_pending_pdu :: "(octstr, unit) dict"
  sq_next_uuid :: uuid

definition query :: "'r sql_lib \<Rightarrow> db_type \<Rightarrow> sql_text \<Rightarrow> 'r sql_store \<Rightarrow> octstr option list list" where
  "query L D t d =
     (case sl_select L (fst t) (if smpp_db_sql_is_pgsql (Some D) then [] else snd t) (sq_server d) of
        None \<Rightarrow> [] | Some rows \<Rightarrow> rows)"

definition execute :: "'r sql_lib \<Rightarrow> db_type \<Rightarrow> sql_text \<Rightarrow> 'r sql_store \<Rightarrow> int \<times> 'r sql_store" where
  "execute L D t d =
     (let (n, r) = sl_update L (fst t) (if smpp_db_sql_is_pgsql (Some D) then [] else snd t) (sq_server d) in
      (n, d\<lparr>sq_server := r\<rparr>))"

definition append_sql :: "sql_text \<Rightarrow> octstr \<Rightarrow> sql_text" where
  "append_sql t s = (fst t @ s, snd t)"

text \<open>A column of a row; a column that is not there is null, as gwlist_get has it.\<close>

definition col :: "octstr option list \<Rightarrow> nat \<Rightarrow> octstr option" where
  "col row i = (if i < length row then row ! i else None)"

definition row_key :: "octstr option list \<Rightarrow> octstr" where
  "row_key row = (case col row 0 of None \<Rightarrow> [] | Some k \<Rightarrow> k)"

text \<open>The exclusion of the rows in process.\<close>

definition not_in :: "octstr list \<Rightarrow> octstr" where
  "not_in ks = (if ks = [] then []
     else '' AND global_id NOT IN ('' @ butlast (concat (map (\<lambda>k. k @ '','') ks)) @ '')'')"

definition sql_quote :: "octstr \<Rightarrow> octstr" where
  "sql_quote s = CHR 0x27 # s @ [CHR 0x27]"

section \<open>Queued PDUs\<close>

definition smpp_database_mysql_remove_stored_pdu ::
  "'r sql_lib \<Rightarrow> db_type \<Rightarrow> server_cfg \<Rightarrow> 'r sql_store \<Rightarrow> octstr option \<Rightarrow> bool \<times> 'r sql_store" where
  "smpp_database_mysql_remove_stored_pdu L D c d gid =
     (let (n, d) = execute L D (''DELETE FROM '' @ fmt_S (c_database_pdu_table c) @ '' WHERE global_id = '' @ fmt_S gid, []) d
      in (n \<noteq> -1, d))"

definition smpp_database_mysql_queued_pdu_handler ::
  "'r sql_lib \<Rightarrow> db_type \<Rightarrow> server_cfg \<Rightarrow> 'r sql_store \<Rightarrow> queued_pdu \<Rightarrow> command_status \<Rightarrow> 'r sql_store" where
  "smpp_database_mysql_queued_pdu_handler L D c d q status =
     (if \<not> q_server q then d
      else let d = (if status \<noteq> SMPP_QUEUED_PDU_DESTROYED \<and> status \<noteq> SMPP_ESME_COMMAND_STATUS_WAIT_ACK_TIMEOUT
                    then snd (smpp_database_mysql_remove_stored_pdu L D c d (q_bearerbox_id q)) else d)
           in case q_bearerbox_id q of
                None \<Rightarrow> d
              | Some k \<Rightarrow> d\<lparr>sq_pending_pdu := dict_remove (sq_pending_pdu d) k\<rparr>)"

definition pdu_query :: "db_type \<Rightarrow> server_cfg \<Rightarrow> octstr list \<Rightarrow> octstr option \<Rightarrow> int \<Rightarrow> sql_text" where
  "pdu_query D c pending svc lmt =
     (let t = (''SELECT global_id, time, system_id, pdu FROM '' @ fmt_S (c_database_pdu_table c) @ '' WHERE '', []);
          t = smpp_db_sql_append_where_eq t (Some D) ''system_id'' svc
      in append_sql t ('' '' @ not_in pending @ '' LIMIT '' @ show_int lmt @ '' ''))"

definition row_pdu :: "gwlib \<Rightarrow> octstr option \<Rightarrow> octstr option list \<Rightarrow> queued_pdu" where
  "row_pdu G svc row =
     smpp_queued_pdu_create\<lparr>q_bearerbox_id := col row 0, q_callback := Some Cb_queued_pdu_handler, q_system_id := svc,
       q_pdu := gw_pdu_unpack G svc (smpp_db_url_decode_octstr (col row 3)), q_server := True\<rparr>"

definition smpp_database_mysql_get_stored_pdu ::
  "'r sql_lib \<Rightarrow> gwlib \<Rightarrow> db_type \<Rightarrow> server_cfg \<Rightarrow> 'r sql_store \<Rightarrow> octstr option \<Rightarrow> int \<Rightarrow> queued_pdu list \<times> 'r sql_store" where
  "smpp_database_mysql_get_stored_pdu L G D c d svc lmt =
     (let rows = query L D (pdu_query D c (dict_keys (sq_pending_pdu d)) svc lmt) d in
      (map (row_pdu G svc) rows,
       d\<lparr>sq_pending_pdu := foldl (\<lambda>t row. dict_put t (row_key row) ()) (sq_pending_pdu d) rows\<rparr>))"

definition smpp_database_mysql_add_pdu ::
  "'r sql_lib \<Rightarrow> gwlib \<Rightarrow> db_type \<Rightarrow> server_cfg \<Rightarrow> 'r sql_store \<Rightarrow> queued_pdu \<Rightarrow> bool \<times> 'r sql_store" where
  "smpp_database_mysql_add_pdu L G D c d q =
     (let packed = (case q_pdu q of None \<Rightarrow> [] | Some p \<Rightarrow> smpp_pdu_pack_without_command_length G (q_system_id q) p);
          enc = smpp_db_url_encode_octstr (Some packed);
          t = (if smpp_db_sql_is_pgsql (Some D)
               then (''INSERT INTO '' @ fmt_S (c_database_pdu_table c) @ '' (system_id, time, pdu) VALUES ('' @
                       smpp_db_sql_string_literal (q_system_id q) @ '', '' @ show_int (q_time_sent q) @ '', '' @
                       smpp_db_sql_string_literal (Some enc) @ '');'', [])
               else (''INSERT INTO '' @ fmt_S (c_database_pdu_table c) @ '' ( `system_id`, `time`, `pdu` ) VALUES ( ?, ?, ?);'',
                     [q_system_id q, Some (show_int (q_time_sent q)), Some enc]));
          (n, d) = execute L D t d
      in (n \<noteq> -1, d))"

section \<open>Accounts with something queued\<close>

definition esmes_query :: "db_type \<Rightarrow> server_cfg \<Rightarrow> octstr" where
  "esmes_query D c =
     ''SELECT system_id FROM '' @ fmt_S (c_database_pdu_table c) @ '' '' @ smpp_db_sql_union_keyword (Some D) @
     '' SELECT service FROM '' @ fmt_S (c_database_store_table c) @ '' WHERE sms_type IN ('' @ show_int mo @ '', '' @ show_int report_mo @ '')'' @
     (if 0 < octstr_len (c_database_dlr_table c)
      then '' '' @ smpp_db_sql_union_keyword (Some D) @ '' SELECT service FROM '' @ fmt_S (c_database_dlr_table c)
      else [])"

text \<open>A row whose account is null has no name to return.\<close>

definition smpp_database_mysql_get_esmes_with_queued ::
  "'r sql_lib \<Rightarrow> db_type \<Rightarrow> server_cfg \<Rightarrow> 'r sql_store \<Rightarrow> octstr list \<times> 'r sql_store" where
  "smpp_database_mysql_get_esmes_with_queued L D c d =
     (List.map_filter (\<lambda>row. col row 0) (query L D (esmes_query D c, []) d), d)"

section \<open>Routes\<close>

definition routes_query :: "db_type \<Rightarrow> server_cfg \<Rightarrow> int \<Rightarrow> octstr option \<Rightarrow> sql_text" where
  "routes_query D c direction svc =
     (let t = (''SELECT regex, cost, system_id, smsc_id, source_regex FROM '' @ fmt_S (c_database_route_table c) @
               '' WHERE direction = '' @ show_int direction @ '' '', []);
          t = (if 0 < octstr_len svc then smpp_db_sql_append_where_eq (append_sql t '' AND '') (Some D) ''system_id'' svc else t)
      in append_sql t '' ORDER BY priority DESC'')"

text \<open>A route whose pattern does not compile is ignored; a source pattern that does not compile is dropped.\<close>

definition row_route :: "gwlib \<Rightarrow> int \<Rightarrow> octstr option list \<Rightarrow> route option" where
  "row_route G direction row =
     (case col row 0 of
        None \<Rightarrow> None
      | Some r \<Rightarrow>
          (if \<not> gw_regex_comp G r then None
           else Some (smpp_route_create
             \<lparr>rt_cost := (case col row 1 of None \<Rightarrow> rt_cost smpp_route_create | Some v \<Rightarrow> (if gw_is_double G v then gw_octstr_parse_double G v else rt_cost smpp_route_create)),
              rt_direction := direction, rt_system_id := map_option octstr_lower (col row 2), rt_regex := r,
              rt_smsc_id := col row 3,
              rt_source_regex := (case col row 4 of None \<Rightarrow> None
                                  | Some v \<Rightarrow> (if v \<noteq> [] \<and> gw_regex_comp G v then Some v else None))\<rparr>)))"

definition smpp_database_mysql_get_routes ::
  "'r sql_lib \<Rightarrow> gwlib \<Rightarrow> db_type \<Rightarrow> server_cfg \<Rightarrow> 'r sql_store \<Rightarrow> int \<Rightarrow> octstr option \<Rightarrow> route list" where
  "smpp_database_mysql_get_routes L G D c d direction svc =
     List.map_filter (row_route G direction) (query L D (routes_query D c direction svc) d)"

section \<open>Messages\<close>

text \<open>
  The query of a poll. The drain of the bearerbox queue joins the accounts to leave out those
  whose messages stay in the store.
\<close>

definition stored_columns :: octstr where
  "stored_columns = butlast (concat (map (\<lambda>f. ''`'' @ field_name f @ ''`,'') msg_decl))"

definition stored_query :: "db_type \<Rightarrow> server_cfg \<Rightarrow> octstr list \<Rightarrow> int \<Rightarrow> octstr option \<Rightarrow> int \<Rightarrow> sql_text" where
  "stored_query D c pending ty svc kind =
     (let t = (''SELECT global_id, '' @ stored_columns, []);
          store_table = poll_table c ty (poll_kind c kind);
          t = (if kind = SMPP_DATABASE_STORE_BEARERBOX_MT_DRAIN \<and> ty = mt_push \<and> octstr_len svc = 0
                  \<and> 0 < octstr_len (c_database_user_table c)
               then append_sql t ('' FROM '' @ fmt_S store_table @ '' AS s LEFT JOIN '' @ fmt_S (c_database_user_table c) @
                      '' AS u ON LOWER(u.`system_id`) = LOWER(s.`service`) WHERE s.`sms_type` = '' @ show_int ty @
                      '' AND COALESCE(u.`database_store_primary`, '' @ (if c_database_store_primary c then ''1'' else ''0'') @ '') = 0 '')
               else let t = append_sql t ('' FROM '' @ fmt_S store_table @ '' WHERE sms_type = '' @ show_int ty @ '' '')
                    in if 0 < octstr_len svc then smpp_db_sql_append_where_eq (append_sql t '' AND '') (Some D) ''service'' svc else t)
      in append_sql t (not_in pending @ '' LIMIT '' @ show_int SMPP_DATABASE_BATCH_LIMIT))"

text \<open>
  A row is read column by column. For the identifier the code passes the Octstr object where
  uuid_parse expects the characters; the bytes of the object are no identifier, so the message
  keeps the one it was created with.
\<close>

fun read_column :: "octstr option list \<Rightarrow> sms \<Rightarrow> nat \<times> field \<Rightarrow> sms" where
  "read_column row m (i, F_INTEGER _ _ put) = put (atol (get_cstr (col row i))) m"
| "read_column row m (i, F_OCTSTR _ _ put) = (if 0 < octstr_len (col row i) then put (col row i) m else m)"
| "read_column row m (i, F_UUID _ _ put) = m"

definition row_msg :: "uuid \<Rightarrow> octstr option list \<Rightarrow> sms" where
  "row_msg u row = decode_payload (foldl (read_column row) (sms_create u) (enumerate 1 msg_decl))"

fun claim_rows :: "octstr option \<Rightarrow> octstr option list list \<Rightarrow> 'r sql_store \<Rightarrow> database_msg list \<times> 'r sql_store" where
  "claim_rows t [] d = ([], d)"
| "claim_rows t (row # rows) d =
     (let dm = smpp_database_msg_create\<lparr>dm_global_id := to_ulong (atol (get_cstr (col row 0))),
                 dm_msg := Some (row_msg (sq_next_uuid d) row), dm_store_table := t\<rparr>;
          (dms, d) = claim_rows t rows (d\<lparr>sq_next_uuid := sq_next_uuid d + 1,
                       sq_pending_msg := dict_put (sq_pending_msg d) (row_key row) (),
                       sq_pending_msg_store := dict_put (sq_pending_msg_store d) (row_key row) t\<rparr>)
      in (dm # dms, d))"

text \<open>The poll asks for a whole batch, whatever the limit.\<close>

definition smpp_database_mysql_get_stored ::
  "'r sql_lib \<Rightarrow> db_type \<Rightarrow> server_cfg \<Rightarrow> 'r sql_store \<Rightarrow> int \<Rightarrow> octstr option \<Rightarrow> int \<Rightarrow> int \<Rightarrow> database_msg list \<times> 'r sql_store" where
  "smpp_database_mysql_get_stored L D c d ty svc lmt kind =
     claim_rows (poll_table c ty (poll_kind c kind))
       (query L D (stored_query D c (dict_keys (sq_pending_msg d)) ty svc kind) d) d"

text \<open>One column of the insert: its name and its value; a null string is left out.\<close>

fun write_column :: "gwlib \<Rightarrow> db_type \<Rightarrow> sms \<Rightarrow> octstr \<times> sql_text \<Rightarrow> field \<Rightarrow> octstr \<times> sql_text" where
  "write_column G D m (cols, t) (F_INTEGER n get _) =
     (cols @ n @ '','', smpp_db_sql_append_insert_long t (Some D) (get m))"
| "write_column G D m (cols, t) (F_OCTSTR n get _) =
     (if get m = None then (cols, t) else (cols @ n @ '','', smpp_db_sql_append_insert_value t (Some D) (get m)))"
| "write_column G D m (cols, t) (F_UUID n get _) =
     (cols @ n @ '','',
      if smpp_db_sql_is_pgsql (Some D) then append_sql t (sql_quote (gw_uuid_unparse G (get m)) @ '','')
      else (fst t @ ''?,'', snd t @ [Some (gw_uuid_unparse G (get m))]))"

definition insert_text :: "gwlib \<Rightarrow> db_type \<Rightarrow> octstr option \<Rightarrow> sms \<Rightarrow> sql_text" where
  "insert_text G D store_table m =
     (let (cols, t) = foldl (write_column G D m) (''INSERT INTO '' @ fmt_S store_table @ '' ( '', ('' ) VALUES ( '', [])) msg_decl
      in (butlast cols @ butlast (fst t) @ '');'', snd t))"

definition smpp_database_mysql_add_message ::
  "'r sql_lib \<Rightarrow> gwlib \<Rightarrow> db_type \<Rightarrow> server_cfg \<Rightarrow> 'r sql_store \<Rightarrow> sms \<Rightarrow> int \<Rightarrow> bool \<times> 'r sql_store" where
  "smpp_database_mysql_add_message L G D c d m kind =
     (let (n, d) = execute L D (insert_text G D (smpp_database_store_table_name c kind) (encode_payload m)) d
      in (n \<noteq> -1, d))"

definition smpp_database_mysql_remove ::
  "'r sql_lib \<Rightarrow> db_type \<Rightarrow> server_cfg \<Rightarrow> 'r sql_store \<Rightarrow> nat \<Rightarrow> bool \<Rightarrow> bool \<times> 'r sql_store" where
  "smpp_database_mysql_remove L D c d gid temporary =
     (let key = show_nat gid;
          (res, d) =
            (if temporary then (False, d)
             else let store_table = (case dict_get (sq_pending_msg_store d) key of None \<Rightarrow> c_database_store_table c | Some t \<Rightarrow> t);
                      d = d\<lparr>sq_pending_msg_store := dict_remove (sq_pending_msg_store d) key\<rparr>;
                      (n, d) = execute L D (''DELETE FROM '' @ fmt_S store_table @ '' WHERE global_id = '' @ key, []) d
                  in (n \<noteq> -1, d));
          res = (res \<or> dict_get (sq_pending_msg d) key \<noteq> None)
      in (res, d\<lparr>sq_pending_msg := dict_remove (sq_pending_msg d) key,
                sq_pending_msg_store := dict_remove (sq_pending_msg_store d) key\<rparr>))"

section \<open>Delivery reports\<close>

definition dlr_query :: "db_type \<Rightarrow> server_cfg \<Rightarrow> octstr option \<Rightarrow> int \<Rightarrow> sql_text" where
  "dlr_query D c svc lmt =
     (let t = ''SELECT global_id, message_id, service, status, err_code, submit_date, done_date, destination_addr, source_addr, smsc_id, text FROM ''
              @ fmt_S (c_database_dlr_table c) @ '' WHERE '' in
      if smpp_db_sql_is_pgsql (Some D)
      then (t @ ''LOWER(service) = LOWER('' @ smpp_db_sql_string_literal svc @ '') AND processed = 0 LIMIT '' @ show_int lmt, [])
      else (t @ ''service = ? AND processed = 0 LIMIT '' @ show_int lmt, [svc]))"

definition row_dlr :: "octstr option list \<Rightarrow> dlr_row" where
  "row_dlr row = \<lparr>dr_message_id = col row 1, dr_status = col row 3, dr_err_code = col row 4, dr_submit_date = col row 5,
     dr_done_date = col row 6, dr_destination_addr = col row 7, dr_source_addr = col row 8, dr_smsc_id = col row 9,
     dr_text = col row 10\<rparr>"

fun read_dlr_rows :: "'r sql_lib \<Rightarrow> gwlib \<Rightarrow> timestamp \<Rightarrow> octstr option \<Rightarrow> octstr option list list \<Rightarrow> 'r sql_store \<Rightarrow>
    database_msg list \<times> 'r sql_store" where
  "read_dlr_rows L G now svc [] d = ([], d)"
| "read_dlr_rows L G now svc (row # rows) d =
     (let m = dlr_message G now (sq_next_uuid d) (sl_junk L) svc (row_dlr row);
          (dms, d) = read_dlr_rows L G now svc rows (d\<lparr>sq_next_uuid := sq_next_uuid d + 1\<rparr>)
      in (smpp_database_msg_create\<lparr>dm_global_id := to_ulong (atol (get_cstr (col row 0))), dm_msg := Some m\<rparr> # dms, d))"

definition smpp_database_mysql_get_dlrs ::
  "'r sql_lib \<Rightarrow> gwlib \<Rightarrow> db_type \<Rightarrow> server_cfg \<Rightarrow> timestamp \<Rightarrow> 'r sql_store \<Rightarrow> octstr option \<Rightarrow> int \<Rightarrow>
   database_msg list \<times> 'r sql_store" where
  "smpp_database_mysql_get_dlrs L G D c now d svc lmt =
     (if octstr_len (c_database_dlr_table c) = 0 then ([], d)
      else let lmt = (if lmt = 0 then SMPP_DATABASE_BATCH_LIMIT else lmt)
           in read_dlr_rows L G now svc (query L D (dlr_query D c svc lmt) d) d)"

definition smpp_database_mysql_remove_dlr ::
  "'r sql_lib \<Rightarrow> db_type \<Rightarrow> server_cfg \<Rightarrow> 'r sql_store \<Rightarrow> nat \<Rightarrow> bool \<times> 'r sql_store" where
  "smpp_database_mysql_remove_dlr L D c d gid =
     (if octstr_len (c_database_dlr_table c) = 0 then (False, d)
      else let t = (if c_database_dlr_delete_processed c
                    then ''DELETE FROM '' @ fmt_S (c_database_dlr_table c) @ '' WHERE global_id = '' @ show_nat gid
                    else ''UPDATE '' @ fmt_S (c_database_dlr_table c) @ '' SET processed = 1 WHERE global_id = '' @ show_nat gid);
               (n, d) = execute L D (t, []) d
           in (0 \<le> n, d))"

section \<open>Credit\<close>

text \<open>printf's \<open>%f\<close>: six digits after the point, rounded.\<close>

definition show_f :: "real \<Rightarrow> octstr" where
  "show_f r =
     (let n = nat \<lfloor>\<bar>r\<bar> * 1000000 + 1 / 2\<rfloor>; fraction = show_nat (n mod 1000000) in
      (if r < 0 then ''-'' else []) @ show_nat (n div 1000000) @ ''.'' @ replicate (6 - length fraction) (CHR ''0'') @ fraction)"

definition credit_query :: "db_type \<Rightarrow> server_cfg \<Rightarrow> octstr option \<Rightarrow> sql_text" where
  "credit_query D c svc =
     append_sql (smpp_db_sql_append_where_eq (''SELECT credit FROM '' @ fmt_S (c_database_user_table c) @ '' WHERE '', [])
                   (Some D) ''system_id'' svc) '' LIMIT 1''"

definition credit_update :: "db_type \<Rightarrow> server_cfg \<Rightarrow> octstr option \<Rightarrow> real \<Rightarrow> sql_text" where
  "credit_update D c svc cost =
     (if smpp_db_sql_is_pgsql (Some D)
      then (''UPDATE '' @ fmt_S (c_database_user_table c) @ '' SET credit = credit - '' @ show_f cost @ '' WHERE system_id = '' @
            smpp_db_sql_string_literal svc, [])
      else (''UPDATE '' @ fmt_S (c_database_user_table c) @ '' SET `credit` = `credit` - ? WHERE `system_id` = ?'',
            [Some (show_f cost), svc]))"

definition balance_covers :: "'r sql_lib \<Rightarrow> gwlib \<Rightarrow> octstr option list list \<Rightarrow> real \<Rightarrow> bool" where
  "balance_covers L G rows cost =
     (case rows of
        [] \<Rightarrow> False
      | row # _ \<Rightarrow>
          (case col row 0 of
             None \<Rightarrow> False
           | Some v \<Rightarrow> gw_is_double G v \<and> cost \<le> gw_octstr_parse_double G v))"

definition smpp_database_mysql_deduct_credit ::
  "'r sql_lib \<Rightarrow> gwlib \<Rightarrow> db_type \<Rightarrow> server_cfg \<Rightarrow> 'r sql_store \<Rightarrow> octstr option \<Rightarrow> real \<Rightarrow> bool \<times> 'r sql_store" where
  "smpp_database_mysql_deduct_credit L G D c d svc cost =
     (if \<not> balance_covers L G (query L D (credit_query D c svc) d) cost then (False, d)
      else if cost = 0 then (True, d)
      else let (n, d) = execute L D (credit_update D c svc cost) d in (1 \<le> n, d))"

section \<open>Authentication\<close>

definition auth_query :: "db_type \<Rightarrow> server_cfg \<Rightarrow> octstr option \<Rightarrow> octstr option \<Rightarrow> sql_text" where
  "auth_query D c user password =
     (let t = (''SELECT throughput, default_smsc, callback_url, simulate, simulate_dlr_fail, simulate_deliver_every, '' @
               ''simulate_permanent_failure_every, simulate_temporary_failure_every, simulate_mo_every, default_cost, max_binds, '' @
               ''enable_prepaid_billing, connect_allow_ip, database_store_primary  FROM '' @ fmt_S (c_database_user_table c) @ '' WHERE '', []);
          t = smpp_db_sql_append_where_eq t (Some D) ''system_id'' user;
          t = smpp_db_sql_append_password_check t (Some D) password
      in append_sql t '' LIMIT 1'')"

definition row_number :: "octstr option list \<Rightarrow> nat \<Rightarrow> int" where
  "row_number row i = (case col row i of None \<Rightarrow> 0 | Some v \<Rightarrow> atol (cstr v))"

definition row_simulation :: "octstr option list \<Rightarrow> simulation" where
  "row_simulation row =
     (if row_number row 3 = 0 then simulation_off
      else \<lparr>sim_on = True, sim_dlr_fail = (row_number row 4 \<noteq> 0), sim_deliver_every = nat (row_number row 5),
            sim_mo_every = nat (row_number row 8), sim_permanent_failure_every = nat (row_number row 6),
            sim_temporary_failure_every = nat (row_number row 7)\<rparr>)"

definition row_auth_result :: "octstr option list \<Rightarrow> auth_result" where
  "row_auth_result row =
     smpp_esme_auth_result_create\<lparr>a_throughput := atof (get_cstr (col row 0)), a_default_smsc := col row 1,
       a_callback_url := col row 2, a_default_cost := atof (get_cstr (col row 9)), a_max_binds := row_number row 10,
       a_enable_prepaid_billing := (row_number row 11 \<noteq> 0),
       a_allowed_ips := (if 0 < octstr_len (col row 12) then col row 12 else None),
       a_database_store_primary :=
         (if 0 < octstr_len (col row 13) \<and> row_number row 13 \<in> {0, 1} then row_number row 13
          else SMPP_AUTH_DATABASE_STORE_PRIMARY_INHERIT),
       a_simulation := row_simulation row\<rparr>"

definition smpp_database_mysql_authenticate ::
  "'r sql_lib \<Rightarrow> db_type \<Rightarrow> server_cfg \<Rightarrow> 'r sql_store \<Rightarrow> octstr option \<Rightarrow> octstr option \<Rightarrow> auth_result option" where
  "smpp_database_mysql_authenticate L D c d user password =
     (case query L D (auth_query D c user password) d of [] \<Rightarrow> None | row # _ \<Rightarrow> Some (row_auth_result row))"

end
