(* ===== verification/Redis.thy ===== *)
theory Redis
  imports Store
begin

text \<open>
  smpp_database_redis.c: the queue store on Redis. Redis (reached through hiredis) and the JSON
  library jansson are not part of the repository: they are the fields of the record
  \<open>redis_lib\<close>, which every operation takes. A command is the text that smpp_redis_command
  formats and passes to redisCommand; its reply and its effect on the server are the library's.
\<close>

section \<open>The libraries\<close>

datatype json =
    J_null
  | J_integer int
  | J_real real
  | J_string octstr
  | J_object "(octstr \<times> json) list"
  | J_other

datatype redis_reply =
    Reply_string octstr
  | Reply_array "redis_reply list"
  | Reply_integer int
  | Reply_nil
  | Reply_status octstr
  | Reply_error octstr

text \<open>
  \<open>rl_command\<close> is dbpool_conn_consume and redisCommand on the command text (None when there is no
  connection or no reply); \<open>rl_utf8\<close> says which strings json_string accepts;
  \<open>rl_junk\<close> is the value of an uninitialised variable.
\<close>

record 'r redis_lib =
  rl_command :: "octstr \<Rightarrow> 'r \<Rightarrow> redis_reply option \<times> 'r"
  rl_json_dumps :: "json \<Rightarrow> octstr"
  rl_json_loads :: "octstr \<Rightarrow> json option"
  rl_utf8 :: "octstr \<Rightarrow> bool"
  rl_junk :: int

record redis_pending =
  rp_json :: octstr
  rp_list_key :: octstr
  rp_store_table :: "octstr option"
  rp_service :: "octstr option"
  rp_sms_type :: int

text \<open>
  The server, the tables of SMPPDatabase that this back end uses and the supply of message
  identifiers. The PDUs of pending_pdu are never read through the table.
\<close>

record 'r redis_store =
  rd_redis :: 'r
  rd_pending_msg :: "(octstr, redis_pending) dict"
  rd_pending_msg_store :: "(octstr, octstr option) dict"
  rd_pending_pdu :: "(octstr, unit) dict"
  rd_next_uuid :: uuid

definition smpp_redis_command :: "'r redis_lib \<Rightarrow> octstr \<Rightarrow> 'r redis_store \<Rightarrow> redis_reply option \<times> 'r redis_store" where
  "smpp_redis_command L cmd d =
     (let (reply, r) = rl_command L (cstr cmd) (rd_redis d) in (reply, d\<lparr>rd_redis := r\<rparr>))"

text \<open>
  The version check reads \<open>redis_version:major.minor.patch\<close> from the server's INFO; what
  sscanf does not find stays 0. The result is false where the code panics.
\<close>

definition scan_version :: "octstr \<Rightarrow> int \<times> int" where
  "scan_version v =
     (let num = (\<lambda>s. let t = dropWhile c_isspace s; u = (if take 1 t = ''-'' \<or> take 1 t = ''+'' then tl t else t) in
                   if takeWhile gw_isdigit u = [] then None else Some (atol t, dropWhile gw_isdigit u))
      in case num v of
           None \<Rightarrow> (0, 0)
         | Some (major, r) \<Rightarrow>
             (if take 1 r \<noteq> ''.'' then (major, 0)
              else (case num (tl r) of None \<Rightarrow> (major, 0) | Some (minor, _) \<Rightarrow> (major, minor))))"

definition smpp_redis_check_version :: "'r redis_lib \<Rightarrow> 'r redis_store \<Rightarrow> bool \<times> 'r redis_store" where
  "smpp_redis_check_version L d =
     (let (reply, d) = smpp_redis_command L ''INFO server'' d in
      case reply of
        Some (Reply_string s) \<Rightarrow>
          (let (major, minor) =
             (case octstr_search (cstr s) ''redis_version:'' of
                None \<Rightarrow> (0, 0)
              | Some n \<Rightarrow> scan_version (drop (n + 14) (cstr s)))
           in (\<not> (major < 6 \<or> (major = 6 \<and> minor < 2)), d))
      | _ \<Rightarrow> (False, d))"

section \<open>Keys\<close>

abbreviation (input) "SMPP_REDIS_GLOBAL_SERVICE \<equiv> ''_global_''"

definition smpp_redis_norm_service :: "octstr option \<Rightarrow> octstr" where
  "smpp_redis_norm_service svc =
     (case svc of None \<Rightarrow> SMPP_REDIS_GLOBAL_SERVICE
      | Some s \<Rightarrow> (if s = [] then SMPP_REDIS_GLOBAL_SERVICE else octstr_lower s))"

definition smpp_redis_store_queue_key_for :: "octstr option \<Rightarrow> octstr" where
  "smpp_redis_store_queue_key_for t = fmt_S t @ '':queue''"

definition smpp_redis_store_esmes_key_for :: "octstr option \<Rightarrow> octstr" where
  "smpp_redis_store_esmes_key_for t = fmt_S t @ '':esmes''"

definition smpp_redis_store_id_key_for :: "octstr option \<Rightarrow> octstr" where
  "smpp_redis_store_id_key_for t = fmt_S t @ '':id''"

definition smpp_redis_pdu_list_key :: "server_cfg \<Rightarrow> octstr option \<Rightarrow> octstr" where
  "smpp_redis_pdu_list_key c sid = fmt_S (c_database_pdu_table c) @ '':'' @ smpp_redis_norm_service sid"

definition smpp_redis_pdu_esmes_key :: "server_cfg \<Rightarrow> octstr" where
  "smpp_redis_pdu_esmes_key c = fmt_S (c_database_pdu_table c) @ '':esmes''"

definition smpp_redis_pdu_id_key :: "server_cfg \<Rightarrow> octstr" where
  "smpp_redis_pdu_id_key c = fmt_S (c_database_pdu_table c) @ '':id''"

definition smpp_redis_dlr_list_key :: "server_cfg \<Rightarrow> octstr option \<Rightarrow> octstr" where
  "smpp_redis_dlr_list_key c svc = fmt_S (c_database_dlr_table c) @ '':'' @ smpp_redis_norm_service svc"

definition smpp_redis_dlr_esmes_key :: "server_cfg \<Rightarrow> octstr" where
  "smpp_redis_dlr_esmes_key c = fmt_S (c_database_dlr_table c) @ '':esmes''"

definition smpp_redis_incr_id :: "'r redis_lib \<Rightarrow> octstr \<Rightarrow> 'r redis_store \<Rightarrow> nat \<times> 'r redis_store" where
  "smpp_redis_incr_id L key d =
     (let (reply, d) = smpp_redis_command L (''INCR '' @ cstr key) d in
      (case reply of Some (Reply_integer n) \<Rightarrow> to_ulong n | _ \<Rightarrow> 0, d))"

section \<open>JSON\<close>

text \<open>json_string refuses a text that is not UTF-8, and json_object_set_new ignores what was refused.\<close>

definition json_string :: "'r redis_lib \<Rightarrow> octstr \<Rightarrow> json option" where
  "json_string L s = (if rl_utf8 L s then Some (J_string s) else None)"

definition json_object_set_new :: "(octstr \<times> json) list \<Rightarrow> octstr \<Rightarrow> json option \<Rightarrow> (octstr \<times> json) list" where
  "json_object_set_new obj key v = (case v of None \<Rightarrow> obj | Some j \<Rightarrow> dict_put obj key j)"

definition smpp_redis_json_set_str ::
  "'r redis_lib \<Rightarrow> (octstr \<times> json) list \<Rightarrow> octstr \<Rightarrow> octstr option \<Rightarrow> (octstr \<times> json) list" where
  "smpp_redis_json_set_str L obj key val =
     (if octstr_len val = 0 then json_object_set_new obj key (json_string L [])
      else json_object_set_new obj key (json_string L (get_cstr val)))"

definition truncate_real :: "real \<Rightarrow> int" where
  "truncate_real r = (if r < 0 then \<lceil>r\<rceil> else \<lfloor>r\<rfloor>)"

definition smpp_redis_json_get_long :: "(octstr \<times> json) list \<Rightarrow> octstr \<Rightarrow> int" where
  "smpp_redis_json_get_long obj key =
     (case dict_get obj key of
        Some (J_integer i) \<Rightarrow> i
      | Some (J_real r) \<Rightarrow> truncate_real r
      | Some (J_string s) \<Rightarrow> atol s
      | _ \<Rightarrow> -1)"

definition smpp_redis_json_get_octstr :: "(octstr \<times> json) list \<Rightarrow> octstr \<Rightarrow> octstr" where
  "smpp_redis_json_get_octstr obj key = (case dict_get obj key of Some (J_string s) \<Rightarrow> cstr s | _ \<Rightarrow> [])"

fun json_write_field :: "'r redis_lib \<Rightarrow> gwlib \<Rightarrow> sms \<Rightarrow> (octstr \<times> json) list \<Rightarrow> field \<Rightarrow> (octstr \<times> json) list" where
  "json_write_field L G m obj (F_INTEGER n get _) = json_object_set_new obj n (Some (J_integer (get m)))"
| "json_write_field L G m obj (F_OCTSTR n get _) = smpp_redis_json_set_str L obj n (get m)"
| "json_write_field L G m obj (F_UUID n get _) = json_object_set_new obj n (json_string L (gw_uuid_unparse G (get m)))"

definition msg_object :: "'r redis_lib \<Rightarrow> gwlib \<Rightarrow> sms \<Rightarrow> nat \<Rightarrow> (octstr \<times> json) list" where
  "msg_object L G m gid =
     foldl (json_write_field L G m) (json_object_set_new [] ''global_id'' (Some (J_integer (to_slong gid)))) msg_decl"

definition smpp_redis_msg_to_json :: "'r redis_lib \<Rightarrow> gwlib \<Rightarrow> sms \<Rightarrow> nat \<Rightarrow> octstr" where
  "smpp_redis_msg_to_json L G m gid = cstr (rl_json_dumps L (J_object (msg_object L G m gid)))"

fun json_read_field :: "gwlib \<Rightarrow> (octstr \<times> json) list \<Rightarrow> sms \<Rightarrow> field \<Rightarrow> sms" where
  "json_read_field G obj m (F_INTEGER n _ put) =
     (case dict_get obj n of None \<Rightarrow> m | Some J_null \<Rightarrow> m | Some _ \<Rightarrow> put (smpp_redis_json_get_long obj n) m)"
| "json_read_field G obj m (F_OCTSTR n _ put) = put (Some (smpp_redis_json_get_octstr obj n)) m"
| "json_read_field G obj m (F_UUID n _ put) =
     (case dict_get obj n of Some (J_string s) \<Rightarrow> (if gw_uuid_valid G s then put (gw_uuid_parse G s) m else m) | _ \<Rightarrow> m)"

definition smpp_redis_json_to_msg :: "gwlib \<Rightarrow> uuid \<Rightarrow> (octstr \<times> json) list \<Rightarrow> sms" where
  "smpp_redis_json_to_msg G u obj = decode_payload (foldl (json_read_field G obj) (sms_create u) msg_decl)"

section \<open>Lists\<close>

definition smpp_redis_lpush :: "'r redis_lib \<Rightarrow> octstr \<Rightarrow> octstr \<Rightarrow> 'r redis_store \<Rightarrow> bool \<times> 'r redis_store" where
  "smpp_redis_lpush L key payload d =
     (let (reply, d) = smpp_redis_command L (''LPUSH '' @ cstr key @ '' '' @ cstr payload) d in
      (case reply of None \<Rightarrow> False | Some (Reply_error _) \<Rightarrow> False | Some _ \<Rightarrow> True, d))"

definition reply_strings :: "redis_reply list \<Rightarrow> octstr list" where
  "reply_strings rs = List.map_filter (\<lambda>r. case r of Reply_string s \<Rightarrow> Some (cstr s) | _ \<Rightarrow> None) rs"

definition smpp_redis_lpop_json_batch :: "'r redis_lib \<Rightarrow> octstr \<Rightarrow> int \<Rightarrow> 'r redis_store \<Rightarrow> octstr list \<times> 'r redis_store" where
  "smpp_redis_lpop_json_batch L key lmt d =
     (let lmt = (if lmt \<le> 0 then SMPP_DATABASE_BATCH_LIMIT else lmt);
          (reply, d) = smpp_redis_command L (''LPOP '' @ cstr key @ '' '' @ show_int lmt) d
      in (case reply of
            Some (Reply_string s) \<Rightarrow> [cstr s]
          | Some (Reply_array rs) \<Rightarrow> reply_strings rs
          | _ \<Rightarrow> [], d))"

definition smpp_redis_track_store_esme :: "'r redis_lib \<Rightarrow> octstr option \<Rightarrow> octstr option \<Rightarrow> 'r redis_store \<Rightarrow> 'r redis_store" where
  "smpp_redis_track_store_esme L store_table svc d =
     snd (smpp_redis_command L (''SADD '' @ cstr (smpp_redis_store_esmes_key_for store_table) @ '' '' @
                                cstr (smpp_redis_norm_service svc)) d)"

section \<open>Messages\<close>

definition smpp_redis_store_matches :: "sms \<Rightarrow> int \<Rightarrow> octstr option \<Rightarrow> bool" where
  "smpp_redis_store_matches m ty filt \<longleftrightarrow>
     sms_type m = ty \<and> (octstr_len filt = 0 \<or> smpp_redis_norm_service filt = smpp_redis_norm_service (service m))"

definition smpp_database_redis_add_message ::
  "'r redis_lib \<Rightarrow> gwlib \<Rightarrow> server_cfg \<Rightarrow> 'r redis_store \<Rightarrow> sms \<Rightarrow> int \<Rightarrow> bool \<times> 'r redis_store" where
  "smpp_database_redis_add_message L G c d m kind =
     (let store_table = smpp_database_store_table_name c kind;
          m = encode_payload m;
          (gid, d) = smpp_redis_incr_id L (smpp_redis_store_id_key_for store_table) d;
          json = smpp_redis_msg_to_json L G m gid;
          (res, d) = smpp_redis_lpush L (smpp_redis_store_queue_key_for store_table) json d
      in (res, if res then smpp_redis_track_store_esme L store_table (service m) d else d))"

text \<open>A message that is not an object, or does not match, is not claimed.\<close>

definition smpp_redis_claim_store_message ::
  "'r redis_lib \<Rightarrow> gwlib \<Rightarrow> octstr \<Rightarrow> octstr option \<Rightarrow> octstr \<Rightarrow> int \<Rightarrow> octstr option \<Rightarrow> 'r redis_store \<Rightarrow>
   database_msg option \<times> 'r redis_store" where
  "smpp_redis_claim_store_message L G key store_table json ty filt d =
     (case rl_json_loads L (cstr json) of
        Some (J_object obj) \<Rightarrow>
          (let m = smpp_redis_json_to_msg G (rd_next_uuid d) obj;
               d = d\<lparr>rd_next_uuid := rd_next_uuid d + 1\<rparr>
           in if \<not> smpp_redis_store_matches m ty filt then (None, d)
              else let gid = to_ulong (smpp_redis_json_get_long obj ''global_id'');
                       entry = \<lparr>rp_json = json, rp_list_key = key, rp_store_table = store_table,
                                rp_service = service m, rp_sms_type = sms_type m\<rparr>
                   in (Some (smpp_database_msg_create\<lparr>dm_global_id := gid, dm_msg := Some m, dm_store_table := store_table\<rparr>),
                       d\<lparr>rd_pending_msg := dict_put (rd_pending_msg d) (show_nat gid) entry,
                         rd_pending_msg_store := dict_put (rd_pending_msg_store d) (show_nat gid) store_table\<rparr>))
      | _ \<Rightarrow> (None, d))"

text \<open>One batch of the poll: what does not match is pushed back.\<close>

fun claim_batch ::
  "'r redis_lib \<Rightarrow> gwlib \<Rightarrow> octstr \<Rightarrow> octstr option \<Rightarrow> int \<Rightarrow> octstr option \<Rightarrow> octstr list \<Rightarrow> 'r redis_store \<Rightarrow>
   database_msg list \<times> 'r redis_store" where
  "claim_batch L G key store_table ty filt [] d = ([], d)"
| "claim_batch L G key store_table ty filt (json # items) d =
     (case smpp_redis_claim_store_message L G key store_table json ty filt d of
        (Some dm, d) \<Rightarrow> (let (dms, d) = claim_batch L G key store_table ty filt items d in (dm # dms, d))
      | (None, d) \<Rightarrow> claim_batch L G key store_table ty filt items (snd (smpp_redis_lpush L key json d)))"

text \<open>
  The loop of the poll. Every round either claims a message or counts as an empty batch, and 32
  empty batches in a row end it.
\<close>

function get_stored_loop ::
  "'r redis_lib \<Rightarrow> gwlib \<Rightarrow> octstr \<Rightarrow> octstr option \<Rightarrow> int \<Rightarrow> octstr option \<Rightarrow> int \<Rightarrow> int \<Rightarrow> nat \<Rightarrow> 'r redis_store \<Rightarrow>
   database_msg list \<times> 'r redis_store" where
  "get_stored_loop L G key store_table ty filt lmt picked empty_batches d =
     (if picked < lmt \<and> empty_batches < 32 then
        (let (raw, d) = smpp_redis_lpop_json_batch L key (lmt - picked) d in
         if raw = [] then ([], d)
         else let (dms, d) = claim_batch L G key store_table ty filt raw d;
                  (rest, d) = get_stored_loop L G key store_table ty filt lmt (picked + int (length dms))
                                (if dms = [] then empty_batches + 1 else 0) d
              in (dms @ rest, d))
      else ([], d))"
  by pat_completeness auto
termination
  by (relation "measures [\<lambda>(L, G, key, t, ty, f, lmt, picked, e, d). nat (lmt - picked), \<lambda>(L, G, key, t, ty, f, lmt, picked, e, d). 32 - e]")
     auto

declare get_stored_loop.simps [simp del]

definition smpp_database_redis_get_stored ::
  "'r redis_lib \<Rightarrow> gwlib \<Rightarrow> server_cfg \<Rightarrow> 'r redis_store \<Rightarrow> int \<Rightarrow> octstr option \<Rightarrow> int \<Rightarrow> int \<Rightarrow>
   database_msg list \<times> 'r redis_store" where
  "smpp_database_redis_get_stored L G c d ty svc lmt kind =
     (let lmt = (if lmt = 0 then SMPP_DATABASE_BATCH_LIMIT else lmt);
          store_table = poll_table c ty (poll_kind c kind)
      in get_stored_loop L G (smpp_redis_store_queue_key_for store_table) store_table ty svc lmt 0 0 d)"

definition smpp_database_redis_remove :: "'r redis_lib \<Rightarrow> 'r redis_store \<Rightarrow> nat \<Rightarrow> bool \<Rightarrow> bool \<times> 'r redis_store" where
  "smpp_database_redis_remove L d gid temporary =
     (case dict_get (rd_pending_msg d) (show_nat gid) of
        None \<Rightarrow> (False, d)
      | Some entry \<Rightarrow>
          (let d = d\<lparr>rd_pending_msg := dict_remove (rd_pending_msg d) (show_nat gid)\<rparr>;
               (res, d) =
                 (if temporary then
                    (let (ok, d) = smpp_redis_lpush L (rp_list_key entry) (rp_json entry) d in
                     (ok, if ok then smpp_redis_track_store_esme L (rp_store_table entry) (rp_service entry) d else d))
                  else (True, d))
           in (res, d\<lparr>rd_pending_msg_store := dict_remove (rd_pending_msg_store d) (show_nat gid)\<rparr>)))"

section \<open>Queued PDUs\<close>

text \<open>
  Packing needs a PDU: the callers hand over PDUs that have one, an absent one packs to nothing.
\<close>

definition pdu_object :: "'r redis_lib \<Rightarrow> gwlib \<Rightarrow> queued_pdu \<Rightarrow> nat \<Rightarrow> (octstr \<times> json) list" where
  "pdu_object L G q gid =
     (let packed = (case q_pdu q of None \<Rightarrow> [] | Some p \<Rightarrow> smpp_pdu_pack_without_command_length G (q_system_id q) p);
          obj = json_object_set_new [] ''global_id'' (Some (J_integer (to_slong gid)));
          obj = json_object_set_new obj ''time'' (Some (J_integer (q_time_sent q)));
          obj = smpp_redis_json_set_str L obj ''system_id'' (q_system_id q)
      in smpp_redis_json_set_str L obj ''pdu'' (Some (smpp_db_url_encode_octstr (Some packed))))"

definition smpp_database_redis_add_pdu ::
  "'r redis_lib \<Rightarrow> gwlib \<Rightarrow> server_cfg \<Rightarrow> 'r redis_store \<Rightarrow> queued_pdu \<Rightarrow> bool \<times> 'r redis_store" where
  "smpp_database_redis_add_pdu L G c d q =
     (let (gid, d) = smpp_redis_incr_id L (smpp_redis_pdu_id_key c) d;
          json = cstr (rl_json_dumps L (J_object (pdu_object L G q gid)));
          (res, d) = smpp_redis_lpush L (smpp_redis_pdu_list_key c (q_system_id q)) json d
      in (res, if res
               then snd (smpp_redis_command L (''SADD '' @ cstr (smpp_redis_pdu_esmes_key c) @ '' '' @
                           cstr (smpp_redis_norm_service (q_system_id q))) d)
               else d))"

text \<open>The callback of a stored PDU: whatever the status, the PDU is no longer pending; Redis is not touched.\<close>

definition smpp_database_redis_queued_pdu_handler ::
  "'r redis_store \<Rightarrow> queued_pdu \<Rightarrow> command_status \<Rightarrow> 'r redis_store" where
  "smpp_database_redis_queued_pdu_handler d q status =
     (if \<not> q_server q then d
      else case q_bearerbox_id q of
             None \<Rightarrow> d
           | Some k \<Rightarrow> d\<lparr>rd_pending_pdu := dict_remove (rd_pending_pdu d) k\<rparr>)"

definition stored_pdu :: "gwlib \<Rightarrow> octstr option \<Rightarrow> (octstr \<times> json) list \<Rightarrow> queued_pdu" where
  "stored_pdu G svc obj =
     smpp_queued_pdu_create\<lparr>q_bearerbox_id := Some (show_int (smpp_redis_json_get_long obj ''global_id'')),
       q_callback := Some Cb_queued_pdu_handler, q_system_id := svc,
       q_time_sent := smpp_redis_json_get_long obj ''time'',
       q_pdu := gw_pdu_unpack G svc (smpp_db_url_decode_octstr (Some (smpp_redis_json_get_octstr obj ''pdu''))),
       q_server := True\<rparr>"

fun read_stored_pdus ::
  "'r redis_lib \<Rightarrow> gwlib \<Rightarrow> octstr option \<Rightarrow> octstr list \<Rightarrow> 'r redis_store \<Rightarrow> queued_pdu list \<times> 'r redis_store" where
  "read_stored_pdus L G svc [] d = ([], d)"
| "read_stored_pdus L G svc (json # items) d =
     (case rl_json_loads L (cstr json) of
        Some (J_object obj) \<Rightarrow>
          (let q = stored_pdu G svc obj;
               d = d\<lparr>rd_pending_pdu := dict_put (rd_pending_pdu d) (show_int (smpp_redis_json_get_long obj ''global_id'')) ()\<rparr>;
               (qs, d) = read_stored_pdus L G svc items d
           in (q # qs, d))
      | _ \<Rightarrow> read_stored_pdus L G svc items d)"

definition smpp_database_redis_get_stored_pdu ::
  "'r redis_lib \<Rightarrow> gwlib \<Rightarrow> server_cfg \<Rightarrow> 'r redis_store \<Rightarrow> octstr option \<Rightarrow> int \<Rightarrow> queued_pdu list \<times> 'r redis_store" where
  "smpp_database_redis_get_stored_pdu L G c d svc lmt =
     (let lmt = (if lmt = 0 then SMPP_DATABASE_BATCH_LIMIT else lmt);
          key = smpp_redis_pdu_list_key c svc;
          (raw, d) = smpp_redis_lpop_json_batch L key lmt d;
          (qs, d) = read_stored_pdus L G svc raw d
      in if qs \<noteq> [] then (qs, d)
         else let (reply, d) = smpp_redis_command L (''LLEN '' @ cstr key) d
              in (qs, if reply = Some (Reply_integer 0)
                      then snd (smpp_redis_command L (''SREM '' @ cstr (smpp_redis_pdu_esmes_key c) @ '' '' @
                                  cstr (smpp_redis_norm_service svc)) d)
                      else d))"

section \<open>Delivery reports\<close>

definition json_dlr_row :: "(octstr \<times> json) list \<Rightarrow> dlr_row" where
  "json_dlr_row obj =
     (let str = (\<lambda>n. Some (smpp_redis_json_get_octstr obj n)) in
      \<lparr>dr_message_id = str ''message_id'', dr_status = str ''status'', dr_err_code = str ''err_code'',
       dr_submit_date = str ''submit_date'', dr_done_date = str ''done_date'',
       dr_destination_addr = str ''destination_addr'', dr_source_addr = str ''source_addr'',
       dr_smsc_id = str ''smsc_id'', dr_text = str ''text''\<rparr>)"

fun read_dlrs ::
  "'r redis_lib \<Rightarrow> gwlib \<Rightarrow> timestamp \<Rightarrow> octstr option \<Rightarrow> octstr list \<Rightarrow> 'r redis_store \<Rightarrow> database_msg list \<times> 'r redis_store" where
  "read_dlrs L G now svc [] d = ([], d)"
| "read_dlrs L G now svc (json # items) d =
     (case rl_json_loads L (cstr json) of
        Some (J_object obj) \<Rightarrow>
          (let m = dlr_message G now (rd_next_uuid d) (rl_junk L) svc (json_dlr_row obj);
               gid = to_ulong (smpp_redis_json_get_long obj ''global_id'');
               (dms, d) = read_dlrs L G now svc items (d\<lparr>rd_next_uuid := rd_next_uuid d + 1\<rparr>)
           in (smpp_database_msg_create\<lparr>dm_global_id := gid, dm_msg := Some m\<rparr> # dms, d))
      | _ \<Rightarrow> read_dlrs L G now svc items d)"

definition smpp_database_redis_get_dlrs ::
  "'r redis_lib \<Rightarrow> gwlib \<Rightarrow> server_cfg \<Rightarrow> timestamp \<Rightarrow> 'r redis_store \<Rightarrow> octstr option \<Rightarrow> int \<Rightarrow>
   database_msg list \<times> 'r redis_store" where
  "smpp_database_redis_get_dlrs L G c now d svc lmt =
     (if octstr_len (c_database_dlr_table c) = 0 then ([], d)
      else let lmt = (if lmt = 0 then SMPP_DATABASE_BATCH_LIMIT else lmt);
               (raw, d) = smpp_redis_lpop_json_batch L (smpp_redis_dlr_list_key c svc) lmt d
           in read_dlrs L G now svc raw d)"

text \<open>A report left Redis when it was read.\<close>

definition smpp_database_redis_remove_dlr :: "'r redis_store \<Rightarrow> nat \<Rightarrow> bool \<times> 'r redis_store" where
  "smpp_database_redis_remove_dlr d gid = (True, d)"

section \<open>Accounts with something queued\<close>

definition smpp_redis_merge_string_esmes :: "redis_reply option \<Rightarrow> octstr list \<Rightarrow> octstr list" where
  "smpp_redis_merge_string_esmes reply esmes =
     (case reply of Some (Reply_array rs) \<Rightarrow> esmes @ reply_strings rs | _ \<Rightarrow> esmes)"

definition smpp_redis_merge_store_esmes :: "redis_reply option \<Rightarrow> octstr list \<Rightarrow> octstr list" where
  "smpp_redis_merge_store_esmes reply esmes =
     (case reply of
        Some (Reply_array rs) \<Rightarrow>
          esmes @ filter (\<lambda>i. \<not> octstr_case_compare (Some i) (Some SMPP_REDIS_GLOBAL_SERVICE)) (reply_strings rs)
      | _ \<Rightarrow> esmes)"

definition smpp_redis_add_store_esmes ::
  "'r redis_lib \<Rightarrow> octstr option \<Rightarrow> octstr list \<Rightarrow> 'r redis_store \<Rightarrow> octstr list \<times> 'r redis_store" where
  "smpp_redis_add_store_esmes L store_table esmes d =
     (let (reply, d) = smpp_redis_command L (''SMEMBERS '' @ cstr (smpp_redis_store_esmes_key_for store_table)) d in
      (smpp_redis_merge_store_esmes reply esmes, d))"

definition smpp_database_redis_get_esmes_with_queued ::
  "'r redis_lib \<Rightarrow> server_cfg \<Rightarrow> 'r redis_store \<Rightarrow> octstr list \<times> 'r redis_store" where
  "smpp_database_redis_get_esmes_with_queued L c d =
     (let (reply, d) = smpp_redis_command L (''SMEMBERS '' @ cstr (smpp_redis_pdu_esmes_key c)) d;
          esmes = smpp_redis_merge_string_esmes reply [];
          (esmes, d) = smpp_redis_add_store_esmes L (c_database_store_table c) esmes d;
          (esmes, d) = (if c_database_store_table c \<noteq> c_database_queue_store_table c
                        then smpp_redis_add_store_esmes L (c_database_queue_store_table c) esmes d
                        else (esmes, d))
      in if octstr_len (c_database_dlr_table c) = 0 then (esmes, d)
         else let (reply, d) = smpp_redis_command L (''SMEMBERS '' @ cstr (smpp_redis_dlr_esmes_key c)) d
              in (smpp_redis_merge_string_esmes reply esmes, d))"

section \<open>Attaching the queue\<close>

record redis_conf =
  rc_host :: octstr
  rc_port :: int
  rc_password :: "octstr option"
  rc_database :: int
  rc_idle_timeout :: int
  rc_pool_size :: int

text \<open>The settings of the connection: the group whose id is database-queue-config.\<close>

definition redis_connection :: "octstr option \<Rightarrow> cfg_group list \<Rightarrow> init_error + redis_conf" where
  "redis_connection config groups =
     (if octstr_len config = 0 then Inl No_queue_config
      else if groups = [] then Inl No_groups
      else case find_group config groups of
             Inl e \<Rightarrow> Inl e
           | Inr g \<Rightarrow>
               (case required g ''host'' of
                  Inl e \<Rightarrow> Inl e
                | Inr host \<Rightarrow>
                    (case cg_integer g ''port'' of
                       None \<Rightarrow> Inl (Missing ''port'')
                     | Some port \<Rightarrow>
                         Inr \<lparr>rc_host = host, rc_port = port, rc_password = cg_get g ''password'',
                              rc_database = case_option (-1) id (cg_integer g ''database''),
                              rc_idle_timeout = case_option (-1) id (cg_integer g ''idle-timeout''),
                              rc_pool_size = pool_size_of g\<rparr>)))"

text \<open>
  The operations the Redis back end puts in the table; the relational back end's entries for
  accounts, routes and credit stay. The state of the combined store is the pair of both.
\<close>

definition on_snd :: "('b \<Rightarrow> 'r \<times> 'b) \<Rightarrow> 'a \<times> 'b \<Rightarrow> 'r \<times> ('a \<times> 'b)" where
  "on_snd f p = (let (r, b) = f (snd p) in (r, (fst p, b)))"

definition on_fst :: "('a \<Rightarrow> 'r \<times> 'a) \<Rightarrow> 'a \<times> 'b \<Rightarrow> 'r \<times> ('a \<times> 'b)" where
  "on_fst f p = (let (r, a) = f (fst p) in (r, (a, snd p)))"

definition redis_operations ::
  "'r redis_lib \<Rightarrow> gwlib \<Rightarrow> server_cfg \<Rightarrow> 's smpp_database \<Rightarrow> ('s \<times> 'r redis_store) smpp_database" where
  "redis_operations L G c D = \<lparr>
     db_authenticate = map_option (\<lambda>f p. f (fst p)) (db_authenticate D),
     db_add_message = Some (\<lambda>now p m kind. on_snd (\<lambda>d. smpp_database_redis_add_message L G c d m kind) p),
     db_add_pdu = Some (\<lambda>now p q. on_snd (\<lambda>d. smpp_database_redis_add_pdu L G c d q) p),
     db_get_stored = Some (\<lambda>p ty svc lmt kind. on_snd (\<lambda>d. smpp_database_redis_get_stored L G c d ty svc lmt kind) p),
     db_get_dlrs = Some (\<lambda>now p svc lmt. on_snd (\<lambda>d. smpp_database_redis_get_dlrs L G c now d svc lmt) p),
     db_get_stored_pdu = Some (\<lambda>p svc lmt. on_snd (\<lambda>d. smpp_database_redis_get_stored_pdu L G c d svc lmt) p),
     db_get_routes = map_option (\<lambda>f p. f (fst p)) (db_get_routes D),
     db_deduct_credit = map_option (\<lambda>f p svc cost. on_fst (\<lambda>d. f d svc cost) p) (db_deduct_credit D),
     db_delete = Some (\<lambda>p gid tmp. on_snd (\<lambda>d. smpp_database_redis_remove L d gid tmp) p),
     db_delete_dlr = Some (\<lambda>p gid. on_snd (\<lambda>d. smpp_database_redis_remove_dlr d gid) p),
     db_get_esmes_with_queued = Some (on_snd (smpp_database_redis_get_esmes_with_queued L c)),
     db_queued_pdu_handler = (\<lambda>now p q status. (fst p, smpp_database_redis_queued_pdu_handler (snd p) q status))\<rparr>"

text \<open>
  smpp_database_redis_queue_attach: the connection, the version check, then the table of
  operations. \<open>conns\<close> is the number of connections the pool could open.
\<close>

definition smpp_database_redis_queue_attach ::
  "'r redis_lib \<Rightarrow> gwlib \<Rightarrow> server_cfg \<Rightarrow> octstr option \<Rightarrow> cfg_group list \<Rightarrow> (redis_conf \<Rightarrow> nat) \<Rightarrow> 's smpp_database \<Rightarrow>
   'r redis_store \<Rightarrow> init_error + (('s \<times> 'r redis_store) smpp_database \<times> 'r redis_store)" where
  "smpp_database_redis_queue_attach L G c config groups conns D d =
     (case redis_connection config groups of
        Inl e \<Rightarrow> Inl e
      | Inr conf \<Rightarrow>
          (if conns conf = 0 then Inl No_connections
           else let (ok, d) = smpp_redis_check_version L d in
                if \<not> ok then Inl Bad_version else Inr (redis_operations L G c D, d)))"

end
