(* ===== verification/SqlSetup.thy ===== *)
theory SqlSetup
  imports SqlStore Redis
begin

text \<open>
  smpp_database_mysql.c: creating the tables, the migrations of the schema, the table of
  operations of the relational store and its defaults, and the choice of the queue back end.
\<close>

section \<open>Tables\<close>

fun mysql_column :: "field \<Rightarrow> octstr" where
  "mysql_column (F_INTEGER n _ _) = ''`'' @ n @ ''` bigint not null,''"
| "mysql_column (F_OCTSTR n _ _) = ''`'' @ n @ ''` text default null,''"
| "mysql_column (F_UUID n _ _) = ''`'' @ n @ ''` varchar(128) default null,''"

fun pgsql_column :: "field \<Rightarrow> octstr" where
  "pgsql_column (F_INTEGER n _ _) = n @ '' BIGINT NOT NULL,''"
| "pgsql_column (F_OCTSTR n _ _) = n @ '' TEXT,''"
| "pgsql_column (F_UUID n _ _) = n @ '' VARCHAR(128),''"

definition run_sql :: "'r sql_lib \<Rightarrow> octstr \<Rightarrow> octstr option list \<Rightarrow> 'r sql_store \<Rightarrow> int \<times> 'r sql_store" where
  "run_sql L sql binds d = (let (n, r) = sl_update L sql binds (sq_server d) in (n, d\<lparr>sq_server := r\<rparr>))"

definition smpp_database_mysql_create_store_table :: "'r sql_lib \<Rightarrow> octstr \<Rightarrow> 'r sql_store \<Rightarrow> bool \<times> 'r sql_store" where
  "smpp_database_mysql_create_store_table L t d =
     (let (n, d) = run_sql L (''CREATE TABLE IF NOT EXISTS '' @ t @ '' ( global_id bigint unsigned not null auto_increment primary key, '' @
                     concat (map mysql_column msg_decl) @ ''KEY `service` (`service`(16)),KEY `sms_type` (`sms_type`)) ;'') [] d
      in (n \<noteq> -1, d))"

definition smpp_database_pgsql_create_store_table :: "'r sql_lib \<Rightarrow> octstr \<Rightarrow> 'r sql_store \<Rightarrow> bool \<times> 'r sql_store" where
  "smpp_database_pgsql_create_store_table L t d =
     (let (n, d) = run_sql L (''CREATE TABLE IF NOT EXISTS '' @ t @ '' ( global_id BIGSERIAL PRIMARY KEY, '' @
                     butlast (concat (map pgsql_column msg_decl)) @ '');'') [] d
      in if n = -1 then (False, d)
         else let (_, d) = run_sql L (''CREATE INDEX IF NOT EXISTS '' @ t @ ''_service_idx ON '' @ t @ '' (service)'') [] d;
                  (n, d) = run_sql L (''CREATE INDEX IF NOT EXISTS '' @ t @ ''_sms_type_idx ON '' @ t @ '' (sms_type)'') [] d
              in (n \<noteq> -1, d))"

definition smpp_database_create_store_table :: "'r sql_lib \<Rightarrow> db_type \<Rightarrow> octstr \<Rightarrow> 'r sql_store \<Rightarrow> bool \<times> 'r sql_store" where
  "smpp_database_create_store_table L D t d =
     (if smpp_db_sql_is_pgsql (Some D) then smpp_database_pgsql_create_store_table L t d
      else smpp_database_mysql_create_store_table L t d)"

definition redis_queue :: "server_cfg \<Rightarrow> bool" where
  "redis_queue c \<longleftrightarrow> 0 < octstr_len (c_database_queue_type c) \<and> octstr_case_compare (c_database_queue_type c) (Some ''redis'')"

text \<open>The store tables of both dialects: the second only when its name differs.\<close>

definition create_store_tables :: "'r sql_lib \<Rightarrow> db_type \<Rightarrow> server_cfg \<Rightarrow> 'r sql_store \<Rightarrow> bool \<times> 'r sql_store" where
  "create_store_tables L D c d =
     (let (ok, d) = smpp_database_create_store_table L D (fmt_S (c_database_store_table c)) d in
      if ok \<and> c_database_store_table c \<noteq> c_database_queue_store_table c
      then smpp_database_create_store_table L D (fmt_S (c_database_queue_store_table c)) d else (ok, d))"

definition mysql_pdu_table :: "octstr \<Rightarrow> octstr" where
  "mysql_pdu_table t = ''CREATE TABLE IF NOT EXISTS '' @ t @ '' ( `global_id` bigint unsigned not null auto_increment primary key, '' @
     '' `system_id` varchar(64) not null,`time` bigint, `pdu` blob, KEY `system_id` (`system_id`));''"

definition mysql_dlr_table :: "octstr \<Rightarrow> octstr" where
  "mysql_dlr_table t = ''CREATE TABLE IF NOT EXISTS '' @ t @ '' ( `global_id` bigint unsigned not null auto_increment primary key, '' @
     ''`message_id` varchar(128) not null, `service` varchar(64) not null, `status` varchar(16) default '' @ sql_quote ''DELIVRD'' @
     '', `err_code` int default 0, `submit_date` varchar(20) default null, `done_date` varchar(20) default null, '' @
     ''`destination_addr` varchar(32) default null, `source_addr` varchar(32) default null, `smsc_id` varchar(64) default null, '' @
     ''`text` text default null, `processed` tinyint default 0, KEY `service_processed` (`service`(16), `processed`), '' @
     ''KEY `message_id` (`message_id`(32)));''"

definition mysql_route_table :: "octstr \<Rightarrow> octstr" where
  "mysql_route_table t = ''CREATE TABLE IF NOT EXISTS '' @ t @ '' ( `route_id` bigint unsigned not null auto_increment primary key,'' @
     ''`direction` int not null,`regex` text, `cost` double,`system_id` varchar(64), `smsc_id` varchar(64), '' @
     '' KEY `direction` (`direction`), KEY `system_id` (`system_id`), KEY `smsc_id` (`smsc_id`));''"

definition mysql_user_table :: "octstr \<Rightarrow> octstr" where
  "mysql_user_table t = ''CREATE TABLE IF NOT EXISTS '' @ t @ '' ( `system_id` varchar(15) NOT NULL, `password` varchar(64) NOT NULL, '' @
     ''`throughput` double(10,5) NOT NULL DEFAULT '' @ sql_quote ''0.00000'' @ '',`default_smsc` varchar(64) DEFAULT NULL,'' @
     ''`default_cost` double NOT NULL,`enable_prepaid_billing` int(10) unsigned NOT NULL DEFAULT '' @ sql_quote ''0'' @
     '',`credit` double NOT NULL DEFAULT '' @ sql_quote ''0'' @ '',`callback_url` varchar(255) DEFAULT NULL,'' @
     ''`simulate` tinyint(1) NOT NULL DEFAULT '' @ sql_quote ''0'' @ '',`simulate_dlr_fail` tinyint(1) NOT NULL DEFAULT '' @ sql_quote ''0'' @
     '',`simulate_deliver_every` int(10) unsigned NOT NULL,`simulate_permanent_failure_every` int(10) unsigned NOT NULL,'' @
     ''`simulate_temporary_failure_every` int(10) unsigned NOT NULL,`simulate_mo_every` int(10) unsigned NOT NULL,'' @
     ''`max_binds` int(10) unsigned NOT NULL DEFAULT '' @ sql_quote ''0'' @ '',`connect_allow_ip` text,PRIMARY KEY (`system_id`));''"

definition mysql_version_table :: "octstr \<Rightarrow> octstr" where
  "mysql_version_table t = ''CREATE TABLE IF NOT EXISTS '' @ t @
     '' ( `component` varchar(54) not null, `version` int unsigned not null, PRIMARY KEY(`component`));''"

section \<open>Migrations\<close>

text \<open>
  The version of the schema: the row of the component, or a new row with version 1. A migration
  is run when the version is below its own, and the version becomes its own whether the server
  accepted the statement or not.
\<close>

definition mysql_migrations :: "server_cfg \<Rightarrow> (int \<times> octstr) list" where
  "mysql_migrations c =
     [(2, ''ALTER TABLE '' @ fmt_S (c_database_user_table c) @ '' ADD COLUMN connect_allow_ip text''),
      (3, ''ALTER TABLE '' @ fmt_S (c_database_route_table c) @ '' ADD COLUMN source_regex text''),
      (4, ''ALTER TABLE '' @ fmt_S (c_database_route_table c) @ '' ADD COLUMN priority int DEFAULT '' @ sql_quote ''0''),
      (5, ''ALTER TABLE '' @ fmt_S (c_database_user_table c) @ '' ADD COLUMN simulate_dlr_fail tinyint(1) NOT NULL DEFAULT '' @ sql_quote ''0'')]"

fun migrate :: "'r sql_lib \<Rightarrow> (int \<times> octstr) list \<Rightarrow> int \<Rightarrow> 'r sql_store \<Rightarrow> int \<times> 'r sql_store" where
  "migrate L [] v d = (v, d)"
| "migrate L ((our_version, sql) # ms) v d =
     (if v < our_version then migrate L ms our_version (snd (run_sql L sql [] d)) else migrate L ms v d)"

definition running_version :: "'r sql_lib \<Rightarrow> octstr \<Rightarrow> octstr \<Rightarrow> octstr option list \<Rightarrow> 'r sql_store \<Rightarrow> int \<times> 'r sql_store" where
  "running_version L sel ins binds d =
     (case sl_select L sel binds (sq_server d) of
        None \<Rightarrow> (1, d)
      | Some [] \<Rightarrow> (1, snd (run_sql L ins binds d))
      | Some (row # _) \<Rightarrow> (atol (get_cstr (col row 0)), d))"

text \<open>
  When a store table cannot be created the code releases a string it never created; the result is
  then None.
\<close>

definition mysql_queue_tables :: "'r sql_lib \<Rightarrow> server_cfg \<Rightarrow> 'r sql_store \<Rightarrow> 'r sql_store option" where
  "mysql_queue_tables L c d =
     (let (ok, d) = create_store_tables L DBPOOL_MYSQL c d in
      if \<not> ok then None
      else let (_, d) = run_sql L (mysql_pdu_table (fmt_S (c_database_pdu_table c))) [] d in
           Some (if 0 < octstr_len (c_database_dlr_table c)
                 then snd (run_sql L (mysql_dlr_table (fmt_S (c_database_dlr_table c))) [] d) else d))"

definition smpp_database_mysql_init_tables :: "'r sql_lib \<Rightarrow> server_cfg \<Rightarrow> 'r sql_store \<Rightarrow> 'r sql_store option" where
  "smpp_database_mysql_init_tables L c d =
     (case (if redis_queue c then Some d else mysql_queue_tables L c d) of
        None \<Rightarrow> None
      | Some d \<Rightarrow>
          (let version = fmt_S (c_database_version_table c);
               (_, d) = run_sql L (mysql_route_table (fmt_S (c_database_route_table c))) [] d;
               (_, d) = run_sql L (mysql_user_table (fmt_S (c_database_user_table c))) [] d;
               (n, d) = run_sql L (mysql_version_table version) [] d
           in if n = -1 then Some d
              else let (v, d) = running_version L (''SELECT `version` FROM '' @ version @ '' WHERE `component` = ?'')
                                  (''INSERT INTO '' @ version @ '' (`component`, `version`) VALUES (?, 1);'') [Some ''ksmppd''] d;
                       (v, d) = migrate L (mysql_migrations c) v d
                   in Some (snd (run_sql L (''UPDATE '' @ version @ '' SET `version` = '' @ show_int v @ '' WHERE `component` = ?'')
                                   [Some ''ksmppd''] d))))"

section \<open>PostgreSQL\<close>

definition pgsql_pdu_table :: "octstr \<Rightarrow> octstr" where
  "pgsql_pdu_table t = ''CREATE TABLE IF NOT EXISTS '' @ t @ '' ( global_id BIGSERIAL PRIMARY KEY, system_id VARCHAR(64) NOT NULL, time BIGINT, pdu BYTEA)''"

definition pgsql_dlr_table :: "octstr \<Rightarrow> octstr" where
  "pgsql_dlr_table t = ''CREATE TABLE IF NOT EXISTS '' @ t @ '' ( global_id BIGSERIAL PRIMARY KEY, message_id VARCHAR(128) NOT NULL, '' @
     ''service VARCHAR(64) NOT NULL, status VARCHAR(16) DEFAULT '' @ sql_quote ''DELIVRD'' @ '', err_code INT DEFAULT 0, '' @
     ''submit_date VARCHAR(20), done_date VARCHAR(20), destination_addr VARCHAR(32), source_addr VARCHAR(32), '' @
     ''smsc_id VARCHAR(64), text TEXT, processed SMALLINT DEFAULT 0)''"

definition pgsql_route_table :: "octstr \<Rightarrow> octstr" where
  "pgsql_route_table t = ''CREATE TABLE IF NOT EXISTS '' @ t @ '' ( route_id BIGSERIAL PRIMARY KEY, direction INT NOT NULL, regex TEXT, '' @
     ''cost DOUBLE PRECISION, system_id VARCHAR(64), smsc_id VARCHAR(64), source_regex TEXT, priority INT DEFAULT 0)''"

definition pgsql_user_table :: "octstr \<Rightarrow> octstr" where
  "pgsql_user_table t = ''CREATE TABLE IF NOT EXISTS '' @ t @ '' ( system_id VARCHAR(15) NOT NULL PRIMARY KEY, password VARCHAR(64) NOT NULL, '' @
     ''throughput DOUBLE PRECISION NOT NULL DEFAULT 0, default_smsc VARCHAR(64), default_cost DOUBLE PRECISION NOT NULL, '' @
     ''enable_prepaid_billing INT NOT NULL DEFAULT 0, credit DOUBLE PRECISION NOT NULL DEFAULT 0, callback_url VARCHAR(255), '' @
     ''simulate SMALLINT NOT NULL DEFAULT 0, simulate_dlr_fail SMALLINT NOT NULL DEFAULT 0, simulate_deliver_every INT NOT NULL, '' @
     ''simulate_permanent_failure_every INT NOT NULL, simulate_temporary_failure_every INT NOT NULL, '' @
     ''simulate_mo_every INT NOT NULL, max_binds INT NOT NULL DEFAULT 0, connect_allow_ip TEXT)''"

definition pgsql_version_table :: "octstr \<Rightarrow> octstr" where
  "pgsql_version_table t = ''CREATE TABLE IF NOT EXISTS '' @ t @ '' ( component VARCHAR(54) NOT NULL PRIMARY KEY, version INT NOT NULL)''"

definition run_all :: "'r sql_lib \<Rightarrow> octstr list \<Rightarrow> 'r sql_store \<Rightarrow> 'r sql_store" where
  "run_all L sqls d = foldl (\<lambda>d sql. snd (run_sql L sql [] d)) d sqls"

definition pgsql_queue_tables :: "'r sql_lib \<Rightarrow> server_cfg \<Rightarrow> 'r sql_store \<Rightarrow> 'r sql_store" where
  "pgsql_queue_tables L c d =
     (let (ok, d) = create_store_tables L DBPOOL_PGSQL c d;
          pdus = fmt_S (c_database_pdu_table c);
          dlrs = fmt_S (c_database_dlr_table c);
          d = (if \<not> ok then d
               else let (n, d) = run_sql L (pgsql_pdu_table pdus) [] d in
                    if n = -1 then d
                    else snd (run_sql L (''CREATE INDEX IF NOT EXISTS '' @ pdus @ ''_system_id_idx ON '' @ pdus @ '' (system_id)'') [] d))
      in if octstr_len (c_database_dlr_table c) = 0 then d
         else run_all L [pgsql_dlr_table dlrs,
                ''CREATE INDEX IF NOT EXISTS '' @ dlrs @ ''_service_processed_idx ON '' @ dlrs @ '' (service, processed)'',
                ''CREATE INDEX IF NOT EXISTS '' @ dlrs @ ''_message_id_idx ON '' @ dlrs @ '' (message_id)''] d)"

definition smpp_database_pgsql_init_tables :: "'r sql_lib \<Rightarrow> server_cfg \<Rightarrow> 'r sql_store \<Rightarrow> 'r sql_store" where
  "smpp_database_pgsql_init_tables L c d =
     (let d = snd (run_sql L ''CREATE EXTENSION IF NOT EXISTS pgcrypto'' [] d);
          d = (if redis_queue c then d else pgsql_queue_tables L c d);
          version = fmt_S (c_database_version_table c);
          d = run_all L [pgsql_route_table (fmt_S (c_database_route_table c)), pgsql_user_table (fmt_S (c_database_user_table c))] d;
          (n, d) = run_sql L (pgsql_version_table version) [] d
      in if n = -1 then d
         else let (v, d) = running_version L (''SELECT version FROM '' @ version @ '' WHERE component = '' @ sql_quote ''ksmppd'')
                             (''INSERT INTO '' @ version @ '' (component, version) VALUES ('' @ sql_quote ''ksmppd'' @ '', 1)'') [] d
              in if v < 5 then snd (run_sql L (''UPDATE '' @ version @ '' SET version = 5 WHERE component = '' @ sql_quote ''ksmppd'') [] d)
                 else d)"

definition smpp_database_sql_init_tables :: "'r sql_lib \<Rightarrow> db_type \<Rightarrow> server_cfg \<Rightarrow> 'r sql_store \<Rightarrow> 'r sql_store option" where
  "smpp_database_sql_init_tables L D c d =
     (if smpp_db_sql_is_pgsql (Some D) then Some (smpp_database_pgsql_init_tables L c d)
      else smpp_database_mysql_init_tables L c d)"

section \<open>The table of operations\<close>

definition sql_operations :: "'r sql_lib \<Rightarrow> gwlib \<Rightarrow> db_type \<Rightarrow> server_cfg \<Rightarrow> 'r sql_store smpp_database" where
  "sql_operations L G D c = \<lparr>
     db_authenticate = Some (smpp_database_mysql_authenticate L D c),
     db_add_message = Some (\<lambda>now d m kind. smpp_database_mysql_add_message L G D c d m kind),
     db_add_pdu = Some (\<lambda>now d q. smpp_database_mysql_add_pdu L G D c d q),
     db_get_stored = Some (smpp_database_mysql_get_stored L D c),
     db_get_dlrs = Some (smpp_database_mysql_get_dlrs L G D c),
     db_get_stored_pdu = Some (smpp_database_mysql_get_stored_pdu L G D c),
     db_get_routes = Some (smpp_database_mysql_get_routes L G D c),
     db_deduct_credit = Some (smpp_database_mysql_deduct_credit L G D c),
     db_delete = Some (smpp_database_mysql_remove L D c),
     db_delete_dlr = Some (smpp_database_mysql_remove_dlr L D c),
     db_get_esmes_with_queued = Some (smpp_database_mysql_get_esmes_with_queued L D c),
     db_queued_pdu_handler = (\<lambda>now d q status. smpp_database_mysql_queued_pdu_handler L D c d q status)\<rparr>"

text \<open>The names of tables that the configuration leaves empty.\<close>

definition or_default :: "octstr option \<Rightarrow> octstr \<Rightarrow> octstr option" where
  "or_default v dflt = (if octstr_len v = 0 then Some dflt else v)"

definition table_defaults :: "server_cfg \<Rightarrow> server_cfg" where
  "table_defaults c =
     c\<lparr>c_database_user_table := or_default (c_database_user_table c) ''smpp_user'',
       c_database_store_table := or_default (c_database_store_table c) ''smpp_store'',
       c_database_queue_store_table := or_default (c_database_queue_store_table c) ''smpp_store_queue'',
       c_database_dlr_table := or_default (c_database_dlr_table c) ''smpp_dlr'',
       c_database_pdu_table := or_default (c_database_pdu_table c) ''smpp_queued_pdu'',
       c_database_route_table := or_default (c_database_route_table c) ''smpp_route'',
       c_database_version_table := or_default (c_database_version_table c) ''smpp_version''\<rparr>"

text \<open>
  The relational operations on the pair of both stores: what the server uses when the queue is
  not on Redis.
\<close>

definition lift_fst :: "'a smpp_database \<Rightarrow> ('a \<times> 'b) smpp_database" where
  "lift_fst D = \<lparr>
     db_authenticate = map_option (\<lambda>f p. f (fst p)) (db_authenticate D),
     db_add_message = map_option (\<lambda>f now p m kind. on_fst (\<lambda>d. f now d m kind) p) (db_add_message D),
     db_add_pdu = map_option (\<lambda>f now p q. on_fst (\<lambda>d. f now d q) p) (db_add_pdu D),
     db_get_stored = map_option (\<lambda>f p ty svc lmt kind. on_fst (\<lambda>d. f d ty svc lmt kind) p) (db_get_stored D),
     db_get_dlrs = map_option (\<lambda>f now p svc lmt. on_fst (\<lambda>d. f now d svc lmt) p) (db_get_dlrs D),
     db_get_stored_pdu = map_option (\<lambda>f p svc lmt. on_fst (\<lambda>d. f d svc lmt) p) (db_get_stored_pdu D),
     db_get_routes = map_option (\<lambda>f p. f (fst p)) (db_get_routes D),
     db_deduct_credit = map_option (\<lambda>f p svc cost. on_fst (\<lambda>d. f d svc cost) p) (db_deduct_credit D),
     db_delete = map_option (\<lambda>f p gid tmp. on_fst (\<lambda>d. f d gid tmp) p) (db_delete D),
     db_delete_dlr = map_option (\<lambda>f p gid. on_fst (\<lambda>d. f d gid) p) (db_delete_dlr D),
     db_get_esmes_with_queued = map_option on_fst (db_get_esmes_with_queued D),
     db_queued_pdu_handler = (\<lambda>now p q status. (db_queued_pdu_handler D now (fst p) q status, snd p))\<rparr>"

text \<open>
  smpp_database_relational_setup: the defaults, the tables, and the queue back end. The result
  is None where the code releases a string it never created, else an error or the configuration,
  the table of operations and the state of the store.
\<close>

definition smpp_database_relational_setup ::
  "'r sql_lib \<Rightarrow> 'q redis_lib \<Rightarrow> gwlib \<Rightarrow> db_type \<Rightarrow> server_cfg \<Rightarrow> octstr option \<Rightarrow> cfg_group list \<Rightarrow> (redis_conf \<Rightarrow> nat) \<Rightarrow>
   'r \<Rightarrow> 'q \<Rightarrow> uuid \<Rightarrow>
   (init_error + (server_cfg \<times> ('r sql_store \<times> 'q redis_store) smpp_database \<times> 'r sql_store \<times> 'q redis_store)) option" where
  "smpp_database_relational_setup L R G D c config groups conns r q u =
     (let c = table_defaults c;
          d = \<lparr>sq_server = r, sq_pending_msg = [], sq_pending_msg_store = [], sq_pending_pdu = [], sq_next_uuid = u\<rparr>;
          e = \<lparr>rd_redis = q, rd_pending_msg = [], rd_pending_msg_store = [], rd_pending_pdu = [], rd_next_uuid = u\<rparr>
      in case smpp_database_sql_init_tables L D c d of
           None \<Rightarrow> None
         | Some d \<Rightarrow>
             (if redis_queue c
              then (case smpp_database_redis_queue_attach R G c config groups conns (sql_operations L G D c) e of
                      Inl x \<Rightarrow> Some (Inl x)
                    | Inr (ops, e) \<Rightarrow> Some (Inr (c, ops, d, e)))
              else Some (Inr (c, lift_fst (sql_operations L G D c), d, e))))"

section \<open>Connections\<close>

record sql_conf =
  qc_host :: octstr
  qc_port :: int
  qc_username :: octstr
  qc_password :: octstr
  qc_database :: octstr
  qc_pool_size :: int

text \<open>The settings of the connection; both dialects read the same directives from their own group.\<close>

definition sql_connection :: "octstr option \<Rightarrow> cfg_group list \<Rightarrow> init_error + sql_conf" where
  "sql_connection config groups =
     (case find_group config groups of
        Inl e \<Rightarrow> Inl e
      | Inr g \<Rightarrow>
          (case (required g ''host'', required g ''username'', required g ''password'', required g ''database'') of
             (Inl e, _, _, _) \<Rightarrow> Inl e
           | (_, Inl e, _, _) \<Rightarrow> Inl e
           | (_, _, Inl e, _) \<Rightarrow> Inl e
           | (_, _, _, Inl e) \<Rightarrow> Inl e
           | (Inr host, Inr user, Inr pass, Inr db) \<Rightarrow>
               Inr \<lparr>qc_host = host, qc_port = case_option 0 id (cg_integer g ''port''), qc_username = user,
                    qc_password = pass, qc_database = db, qc_pool_size = pool_size_of g\<rparr>))"

definition smpp_database_mysql_init :: "octstr option \<Rightarrow> cfg_group list \<Rightarrow> (sql_conf \<Rightarrow> nat) \<Rightarrow> init_error + (sql_conf \<times> db_type)" where
  "smpp_database_mysql_init config groups conns =
     (case sql_connection config groups of
        Inl e \<Rightarrow> Inl e
      | Inr conf \<Rightarrow> (if conns conf = 0 then Inl No_connections else Inr (conf, DBPOOL_MYSQL)))"

definition smpp_database_pgsql_init :: "octstr option \<Rightarrow> cfg_group list \<Rightarrow> (sql_conf \<Rightarrow> nat) \<Rightarrow> init_error + (sql_conf \<times> db_type)" where
  "smpp_database_pgsql_init config groups conns =
     (case sql_connection config groups of
        Inl e \<Rightarrow> Inl e
      | Inr conf \<Rightarrow> (if conns conf = 0 then Inl No_connections else Inr (conf, DBPOOL_PGSQL)))"

end
