(* ===== verification/RedisRefine.thy ===== *)
theory RedisRefine
  imports Redis
begin

text \<open>
  The Redis back end as a store: its claims satisfy the contract of Store for every Redis, and,
  for a Redis that behaves as documented, its operations refine an abstract store of a multiset
  of queued messages and a map of claimed ones.
\<close>

section \<open>What the commands leave alone\<close>

lemma command_frame [simp]:
  "rd_pending_msg (snd (smpp_redis_command L cmd d)) = rd_pending_msg d"
  "rd_pending_msg_store (snd (smpp_redis_command L cmd d)) = rd_pending_msg_store d"
  "rd_pending_pdu (snd (smpp_redis_command L cmd d)) = rd_pending_pdu d"
  "rd_next_uuid (snd (smpp_redis_command L cmd d)) = rd_next_uuid d"
  by (simp_all add: smpp_redis_command_def split: prod.splits)

lemma lpush_frame [simp]:
  "rd_pending_msg (snd (smpp_redis_lpush L k x d)) = rd_pending_msg d"
  "rd_pending_msg_store (snd (smpp_redis_lpush L k x d)) = rd_pending_msg_store d"
  "rd_pending_pdu (snd (smpp_redis_lpush L k x d)) = rd_pending_pdu d"
  by (simp_all add: smpp_redis_lpush_def Let_def case_prod_beta)

lemma lpop_frame [simp]: "rd_pending_msg (snd (smpp_redis_lpop_json_batch L k n d)) = rd_pending_msg d"
  by (simp add: smpp_redis_lpop_json_batch_def Let_def case_prod_beta)

lemma track_frame [simp]: "rd_pending_msg (smpp_redis_track_store_esme L t svc d) = rd_pending_msg d"
  by (simp add: smpp_redis_track_store_esme_def)

section \<open>Claims\<close>

abbreviation redis_claimed :: "'r redis_store \<Rightarrow> octstr set" where
  "redis_claimed d \<equiv> dom (dict_get (rd_pending_msg d))"

lemma claim_message_cases:
  obtains (refused) d' where "smpp_redis_claim_store_message L G key t json ty filt d = (None, d')"
      "rd_pending_msg d' = rd_pending_msg d" "rd_redis d' = rd_redis d"
  | (claimed) obj m dm d' where "rl_json_loads L (cstr json) = Some (J_object obj)"
      "m = smpp_redis_json_to_msg G (rd_next_uuid d) obj" "smpp_redis_store_matches m ty filt"
      "smpp_redis_claim_store_message L G key t json ty filt d = (Some dm, d')"
      "dm_msg dm = Some m" "dm_global_id dm = to_ulong (smpp_redis_json_get_long obj ''global_id'')" "dm_store_table dm = t"
      "rd_pending_msg d' = dict_put (rd_pending_msg d) (show_nat (dm_global_id dm))
         \<lparr>rp_json = json, rp_list_key = key, rp_store_table = t, rp_service = service m, rp_sms_type = sms_type m\<rparr>"
      "rd_redis d' = rd_redis d"
proof (cases "\<exists>obj. rl_json_loads L (cstr json) = Some (J_object obj)
     \<and> smpp_redis_store_matches (smpp_redis_json_to_msg G (rd_next_uuid d) obj) ty filt")
  case True
  then obtain obj where obj: "rl_json_loads L (cstr json) = Some (J_object obj)"
    and m: "smpp_redis_store_matches (smpp_redis_json_to_msg G (rd_next_uuid d) obj) ty filt" by blast
  obtain dm d' where eq: "smpp_redis_claim_store_message L G key t json ty filt d = (Some dm, d')"
    using obj m by (simp add: smpp_redis_claim_store_message_def Let_def)
  show ?thesis
    by (rule claimed [OF obj refl m eq])
       (use obj m eq in \<open>auto simp: smpp_redis_claim_store_message_def Let_def smpp_database_msg_create_def\<close>)
next
  case False
  then show ?thesis
    by (intro refused [of "snd (smpp_redis_claim_store_message L G key t json ty filt d)"])
       (auto simp: smpp_redis_claim_store_message_def Let_def prod_eq_iff split: option.splits json.splits)
qed

lemma claim_batch_claims:
  "redis_claimed d \<subseteq> redis_claimed (snd (claim_batch L G key t ty filt items d))
   \<and> (fst (claim_batch L G key t ty filt items d) = [] \<longrightarrow>
      redis_claimed (snd (claim_batch L G key t ty filt items d)) = redis_claimed d)"
proof (induction items arbitrary: d)
  case (Cons json items)
  show ?case
  proof (cases rule: claim_message_cases [of L G key t json ty filt d])
    case (refused d')
    then show ?thesis using Cons.IH [of "snd (smpp_redis_lpush L key json d')"] by simp
  next
    case (claimed obj m dm d')
    have "redis_claimed d \<subseteq> redis_claimed d'" by (auto simp: claimed(8) split: if_splits)
    with Cons.IH [of d'] have "redis_claimed d \<subseteq> redis_claimed (snd (claim_batch L G key t ty filt items d'))" by blast
    with claimed(4) show ?thesis by (simp add: case_prod_beta Let_def)
  qed
qed simp

text \<open>The loop as an induction over its rounds.\<close>

lemma poll_rounds:
  assumes stop: "\<And>picked e d. \<not> (picked < lmt \<and> e < 32) \<Longrightarrow> P picked e d ([], d)"
    and dry: "\<And>picked e d d1. picked < lmt \<Longrightarrow> e < 32 \<Longrightarrow>
      smpp_redis_lpop_json_batch L key (lmt - picked) d = ([], d1) \<Longrightarrow> P picked e d ([], d1)"
    and round: "\<And>picked e d raw d1 dms d2 rest d3. picked < lmt \<Longrightarrow> e < 32 \<Longrightarrow>
      smpp_redis_lpop_json_batch L key (lmt - picked) d = (raw, d1) \<Longrightarrow> raw \<noteq> [] \<Longrightarrow>
      claim_batch L G key t ty filt raw d1 = (dms, d2) \<Longrightarrow>
      P (picked + int (length dms)) (if dms = [] then e + 1 else 0) d2 (rest, d3) \<Longrightarrow> P picked e d (dms @ rest, d3)"
  shows "P picked e d (get_stored_loop L G key t ty filt lmt picked e d)"
  using assms
proof (induction L G key t ty filt lmt picked e d rule: get_stored_loop.induct)
  case (1 L G key t ty filt lmt picked e d)
  note stop = "1.prems"(1) and dry = "1.prems"(2) and round = "1.prems"(3)
  show ?case
  proof (cases "picked < lmt \<and> e < 32")
    case True
    obtain raw d1 where pop: "smpp_redis_lpop_json_batch L key (lmt - picked) d = (raw, d1)" by fastforce
    obtain dms d2 where batch: "claim_batch L G key t ty filt raw d1 = (dms, d2)" by fastforce
    let ?loop = "get_stored_loop L G key t ty filt lmt (picked + int (length dms)) (if dms = [] then e + 1 else 0) d2"
    obtain rest d3 where rest: "?loop = (rest, d3)" by fastforce
    show ?thesis
    proof (cases "raw = []")
      case False
      have "P (picked + int (length dms)) (if dms = [] then e + 1 else 0) d2 ?loop"
        by (rule "1.IH" [OF True pop [symmetric] refl False batch [symmetric] refl stop dry round])
      moreover have "get_stored_loop L G key t ty filt lmt picked e d = (dms @ rest, d3)"
        using True pop batch rest False by (subst get_stored_loop.simps) simp
      ultimately show ?thesis using round [OF _ _ pop False batch] True rest by simp
    next
      case raw: True
      then have "get_stored_loop L G key t ty filt lmt picked e d = ([], d1)"
        using True pop by (subst get_stored_loop.simps) simp
      then show ?thesis using dry True pop raw by simp
    qed
  next
    case False
    then have "get_stored_loop L G key t ty filt lmt picked e d = ([], d)" by (subst get_stored_loop.simps) auto
    then show ?thesis using stop [OF False] by simp
  qed
qed

lemma get_stored_loop_claims:
  "redis_claimed d \<subseteq> redis_claimed (snd (get_stored_loop L G key t ty filt lmt picked e d))
   \<and> (fst (get_stored_loop L G key t ty filt lmt picked e d) = [] \<longrightarrow>
      redis_claimed (snd (get_stored_loop L G key t ty filt lmt picked e d)) = redis_claimed d)"
proof (rule poll_rounds [where P = "\<lambda>_ _ d r. redis_claimed d \<subseteq> redis_claimed (snd r) \<and>
      (fst r = [] \<longrightarrow> redis_claimed (snd r) = redis_claimed d)" and L = L and key = key and lmt = lmt])
  fix picked e d d1
  assume "smpp_redis_lpop_json_batch L key (lmt - picked) d = ([], d1)"
  then show "redis_claimed d \<subseteq> redis_claimed (snd ([], d1)) \<and>
      (fst ([] :: database_msg list, d1) = [] \<longrightarrow> redis_claimed (snd ([], d1)) = redis_claimed d)"
    using lpop_frame [of L key "lmt - picked" d] by simp
next
  fix picked e d raw d1 dms d2 d3 and rest :: "database_msg list"
  assume "smpp_redis_lpop_json_batch L key (lmt - picked) d = (raw, d1)" "claim_batch L G key t ty filt raw d1 = (dms, d2)"
    "redis_claimed d2 \<subseteq> redis_claimed (snd (rest, d3)) \<and>
      (fst (rest, d3) = [] \<longrightarrow> redis_claimed (snd (rest, d3)) = redis_claimed d2)"
  then show "redis_claimed d \<subseteq> redis_claimed (snd (dms @ rest, d3)) \<and>
      (fst (dms @ rest, d3) = [] \<longrightarrow> redis_claimed (snd (dms @ rest, d3)) = redis_claimed d)"
    using lpop_frame [of L key "lmt - picked" d] claim_batch_claims [of d1 L G key t ty filt raw] by (simp, blast)
qed simp

lemma remove_claims:
  "redis_claimed (snd (smpp_database_redis_remove L d gid tmp)) = redis_claimed d - {show_nat gid}"
proof (cases "dict_get (rd_pending_msg d) (show_nat gid)")
  case (Some entry)
  have "rd_pending_msg (snd (smpp_database_redis_remove L d gid tmp)) = dict_remove (rd_pending_msg d) (show_nat gid)"
    using Some by (simp add: smpp_database_redis_remove_def Let_def case_prod_beta)
  then show ?thesis by (auto simp: dom_def split: if_splits)
qed (auto simp: smpp_database_redis_remove_def)

interpretation redis_claims: claiming_store "smpp_database_redis_get_stored L G c" "smpp_database_redis_remove L" redis_claimed
  for L :: "'r redis_lib" and G c
proof unfold_locales
  fix d :: "'r redis_store" and ty svc lmt kind gid tmp
  show "redis_claimed d \<subseteq> redis_claimed (snd (smpp_database_redis_get_stored L G c d ty svc lmt kind))"
    by (cases "lmt = 0") (simp_all add: smpp_database_redis_get_stored_def Let_def get_stored_loop_claims)
  show "fst (smpp_database_redis_get_stored L G c d ty svc lmt kind) = [] \<Longrightarrow>
      redis_claimed (snd (smpp_database_redis_get_stored L G c d ty svc lmt kind)) = redis_claimed d"
    by (cases "lmt = 0") (simp_all add: smpp_database_redis_get_stored_def Let_def get_stored_loop_claims)
  show "redis_claimed (snd (smpp_database_redis_remove L d gid tmp)) = redis_claimed d - {show_nat gid}"
    by (rule remove_claims)
  show "fst (smpp_database_redis_remove L d gid True) \<Longrightarrow> show_nat gid \<in> redis_claimed d"
    by (auto simp: smpp_database_redis_remove_def split: option.splits)
qed

section \<open>Redis as documented\<close>

text \<open>
  A view of a Redis server: the list, set and counter at each key, and the words that the client
  passes on unchanged in a command text. A key holds one kind of value; a command for another
  kind is refused.
\<close>

record 'r redis_view =
  rv_list :: "'r \<Rightarrow> octstr \<Rightarrow> octstr list"
  rv_set :: "'r \<Rightarrow> octstr \<Rightarrow> octstr set"
  rv_counter :: "'r \<Rightarrow> octstr \<Rightarrow> int"
  rv_word :: "octstr \<Rightarrow> bool"

definition list_key :: "'r redis_view \<Rightarrow> 'r \<Rightarrow> octstr \<Rightarrow> bool" where
  "list_key V r k \<longleftrightarrow> rv_word V k \<and> rv_set V r k = {} \<and> rv_counter V r k = 0"

definition set_key :: "'r redis_view \<Rightarrow> 'r \<Rightarrow> octstr \<Rightarrow> bool" where
  "set_key V r k \<longleftrightarrow> rv_word V k \<and> rv_list V r k = [] \<and> rv_counter V r k = 0"

definition counter_key :: "'r redis_view \<Rightarrow> 'r \<Rightarrow> octstr \<Rightarrow> bool" where
  "counter_key V r k \<longleftrightarrow> rv_word V k \<and> rv_list V r k = [] \<and> rv_set V r k = {}"

definition lpush_law :: "'r redis_lib \<Rightarrow> 'r redis_view \<Rightarrow> bool" where
  "lpush_law L V \<longleftrightarrow> (\<forall>r k x. list_key V r k \<and> rv_word V x \<longrightarrow>
     (\<exists>n r'. rl_command L (''LPUSH '' @ k @ '' '' @ x) r = (Some (Reply_integer n), r')
        \<and> rv_list V r' = (rv_list V r)(k := x # rv_list V r k) \<and> rv_set V r' = rv_set V r \<and> rv_counter V r' = rv_counter V r))"

definition lpop_law :: "'r redis_lib \<Rightarrow> 'r redis_view \<Rightarrow> bool" where
  "lpop_law L V \<longleftrightarrow> (\<forall>r k n. list_key V r k \<and> 0 < n \<longrightarrow>
     (\<exists>r'. rl_command L (''LPOP '' @ k @ '' '' @ show_int n) r =
             (Some (if rv_list V r k = [] then Reply_nil else Reply_array (map Reply_string (take (nat n) (rv_list V r k)))), r')
        \<and> rv_list V r' = (rv_list V r)(k := drop (nat n) (rv_list V r k)) \<and> rv_set V r' = rv_set V r \<and> rv_counter V r' = rv_counter V r))"

definition incr_law :: "'r redis_lib \<Rightarrow> 'r redis_view \<Rightarrow> bool" where
  "incr_law L V \<longleftrightarrow> (\<forall>r k. counter_key V r k \<and> rv_counter V r k < 2 ^ 63 - 1 \<longrightarrow>
     (\<exists>r'. rl_command L (''INCR '' @ k) r = (Some (Reply_integer (rv_counter V r k + 1)), r')
        \<and> rv_counter V r' = (rv_counter V r)(k := rv_counter V r k + 1) \<and> rv_list V r' = rv_list V r \<and> rv_set V r' = rv_set V r))"

definition sadd_law :: "'r redis_lib \<Rightarrow> 'r redis_view \<Rightarrow> bool" where
  "sadd_law L V \<longleftrightarrow> (\<forall>r k x. set_key V r k \<and> rv_word V x \<longrightarrow>
     (\<exists>n r'. rl_command L (''SADD '' @ k @ '' '' @ x) r = (Some (Reply_integer n), r')
        \<and> rv_set V r' = (rv_set V r)(k := insert x (rv_set V r k)) \<and> rv_list V r' = rv_list V r \<and> rv_counter V r' = rv_counter V r))"

definition redis_documented :: "'r redis_lib \<Rightarrow> 'r redis_view \<Rightarrow> bool" where
  "redis_documented L V \<longleftrightarrow> (\<forall>w. rv_word V w \<longrightarrow> CHR 0x00 \<notin> set w) \<and> lpush_law L V \<and> lpop_law L V \<and> incr_law L V \<and> sadd_law L V"

lemma show_int_no_null: "CHR 0x00 \<notin> set (show_int n)"
  by (auto simp: show_int_def gw_isdigit_def dest: set_show_nat)

lemma lpush_effect:
  assumes "redis_documented L V" "list_key V (rd_redis d) k" "rv_word V x"
  shows "\<exists>d'. smpp_redis_lpush L k x d = (True, d')
    \<and> rv_list V (rd_redis d') = (rv_list V (rd_redis d))(k := x # rv_list V (rd_redis d) k)
    \<and> rv_set V (rd_redis d') = rv_set V (rd_redis d) \<and> rv_counter V (rd_redis d') = rv_counter V (rd_redis d)
    \<and> rd_pending_msg d' = rd_pending_msg d"
proof -
  have w: "CHR 0x00 \<notin> set k" "CHR 0x00 \<notin> set x"
    using assms by (auto simp: redis_documented_def list_key_def)
  then have "cstr (''LPUSH '' @ cstr k @ '' '' @ cstr x) = ''LPUSH '' @ k @ '' '' @ x"
    by (simp add: cstr_word)
  then show ?thesis
    using assms by (fastforce simp: smpp_redis_lpush_def smpp_redis_command_def redis_documented_def lpush_law_def)
qed

lemma reply_strings_words: "\<forall>x\<in>set xs. CHR 0x00 \<notin> set x \<Longrightarrow> reply_strings (map Reply_string xs) = xs"
  by (induction xs) (simp_all add: reply_strings_def List.map_filter_simps cstr_word)

lemma lpop_effect:
  assumes "redis_documented L V" "list_key V (rd_redis d) k" "0 < n" "\<forall>x\<in>set (rv_list V (rd_redis d) k). rv_word V x"
  shows "\<exists>d'. smpp_redis_lpop_json_batch L k n d = (take (nat n) (rv_list V (rd_redis d) k), d')
    \<and> rv_list V (rd_redis d') = (rv_list V (rd_redis d))(k := drop (nat n) (rv_list V (rd_redis d) k))
    \<and> rv_set V (rd_redis d') = rv_set V (rd_redis d) \<and> rv_counter V (rd_redis d') = rv_counter V (rd_redis d)
    \<and> rd_pending_msg d' = rd_pending_msg d"
proof -
  let ?l = "rv_list V (rd_redis d) k"
  have w: "CHR 0x00 \<notin> set k" "\<forall>x\<in>set ?l. CHR 0x00 \<notin> set x"
    using assms by (auto simp: redis_documented_def list_key_def)
  have cmd: "cstr (''LPOP '' @ cstr k @ '' '' @ show_int n) = ''LPOP '' @ k @ '' '' @ show_int n"
    using w show_int_no_null [of n] by (simp add: cstr_word)
  have strings: "reply_strings (map Reply_string (take (nat n) ?l)) = take (nat n) ?l"
    by (rule reply_strings_words) (use w(2) in_set_takeD in fast)
  obtain r' where r': "rl_command L (''LPOP '' @ k @ '' '' @ show_int n) (rd_redis d) =
      (Some (if ?l = [] then Reply_nil else Reply_array (map Reply_string (take (nat n) ?l))), r')"
    "rv_list V r' = (rv_list V (rd_redis d))(k := drop (nat n) ?l)"
    "rv_set V r' = rv_set V (rd_redis d)" "rv_counter V r' = rv_counter V (rd_redis d)"
    using assms(1-3) unfolding redis_documented_def lpop_law_def by blast
  then show ?thesis
    using assms(3) cmd strings by (cases "?l = []") (simp_all add: smpp_redis_lpop_json_batch_def smpp_redis_command_def)
qed

lemma track_effect:
  assumes "redis_documented L V" "set_key V (rd_redis d) (smpp_redis_store_esmes_key_for t)" "rv_word V (smpp_redis_norm_service svc)"
  shows "rv_list V (rd_redis (smpp_redis_track_store_esme L t svc d)) = rv_list V (rd_redis d)
    \<and> rv_counter V (rd_redis (smpp_redis_track_store_esme L t svc d)) = rv_counter V (rd_redis d)
    \<and> rv_set V (rd_redis (smpp_redis_track_store_esme L t svc d)) =
        (rv_set V (rd_redis d))(smpp_redis_store_esmes_key_for t :=
           insert (smpp_redis_norm_service svc) (rv_set V (rd_redis d) (smpp_redis_store_esmes_key_for t)))"
proof -
  let ?k = "smpp_redis_store_esmes_key_for t" and ?x = "smpp_redis_norm_service svc"
  have "CHR 0x00 \<notin> set ?k" "CHR 0x00 \<notin> set ?x"
    using assms by (auto simp: redis_documented_def set_key_def)
  then have "cstr (''SADD '' @ cstr ?k @ '' '' @ cstr ?x) = ''SADD '' @ ?k @ '' '' @ ?x"
    by (simp add: cstr_word)
  then show ?thesis
    using assms
    by (fastforce simp: smpp_redis_track_store_esme_def smpp_redis_command_def redis_documented_def sadd_law_def)
qed

lemma incr_effect:
  assumes "redis_documented L V" "counter_key V (rd_redis d) k" "0 \<le> rv_counter V (rd_redis d) k" "rv_counter V (rd_redis d) k < 2 ^ 63 - 1"
  shows "\<exists>d'. smpp_redis_incr_id L k d = (nat (rv_counter V (rd_redis d) k + 1), d')
    \<and> rv_counter V (rd_redis d') = (rv_counter V (rd_redis d))(k := rv_counter V (rd_redis d) k + 1)
    \<and> rv_list V (rd_redis d') = rv_list V (rd_redis d) \<and> rv_set V (rd_redis d') = rv_set V (rd_redis d)
    \<and> rd_pending_msg d' = rd_pending_msg d"
proof -
  have "CHR 0x00 \<notin> set k" using assms by (auto simp: redis_documented_def counter_key_def)
  then have "cstr (''INCR '' @ cstr k) = ''INCR '' @ k" by (simp add: cstr_word)
  moreover have "to_ulong (rv_counter V (rd_redis d) k + 1) = nat (rv_counter V (rd_redis d) k + 1)"
    using assms(3,4) by (intro to_ulong_id) simp_all
  ultimately show ?thesis
    using assms by (fastforce simp: smpp_redis_incr_id_def smpp_redis_command_def redis_documented_def incr_law_def)
qed

section \<open>The abstract store\<close>

text \<open>
  A multiset of queued texts per list, and the claimed texts by identifier together with the list
  they came from. A poll moves some texts of a list to the claims; a release moves one back; a
  settlement forgets a claim.
\<close>

type_synonym abs_store = "(octstr \<Rightarrow> octstr multiset) \<times> (octstr \<rightharpoonup> octstr \<times> octstr)"

datatype store_label =
    Stored octstr octstr
  | Polled octstr "octstr list" "octstr list"
  | Released octstr
  | Settled octstr

definition add_claims :: "octstr \<Rightarrow> octstr list \<Rightarrow> octstr list \<Rightarrow> (octstr \<rightharpoonup> octstr \<times> octstr) \<Rightarrow> (octstr \<rightharpoonup> octstr \<times> octstr)" where
  "add_claims k ids ps P = foldl (\<lambda>P (i, x). P(i \<mapsto> (k, x))) P (zip ids ps)"

inductive store_step :: "store_label \<Rightarrow> abs_store \<Rightarrow> abs_store \<Rightarrow> bool" where
  stored: "store_step (Stored k x) (Q, P) (Q(k := add_mset x (Q k)), P)"
| polled: "mset ps \<subseteq># Q k \<Longrightarrow> length ids = length ps \<Longrightarrow>
    store_step (Polled k ids ps) (Q, P) (Q(k := Q k - mset ps), add_claims k ids ps P)"
| released: "P i = Some (k, x) \<Longrightarrow> store_step (Released i) (Q, P) (Q(k := add_mset x (Q k)), P(i := None))"
| settled: "store_step (Settled i) (Q, P) (Q, P(i := None))"

inductive_simps store_step_simps [simp]:
  "store_step (Stored k x) a b"
  "store_step (Polled k ids ps) a b"
  "store_step (Released i) a b"
  "store_step (Settled i) a b"

definition abs_redis :: "'r redis_view \<Rightarrow> 'r redis_store \<Rightarrow> abs_store" where
  "abs_redis V d = (\<lambda>k. mset (rv_list V (rd_redis d) k),
                    \<lambda>i. map_option (\<lambda>e. (rp_list_key e, rp_json e)) (dict_get (rd_pending_msg d) i))"

lemma add_claims_simps [simp]:
  "add_claims k [] ps P = P" "add_claims k ids [] P = P"
  "add_claims k (i # ids) (x # ps) P = add_claims k ids ps (P(i \<mapsto> (k, x)))"
  by (simp_all add: add_claims_def)

lemma add_claims_append:
  "length ids = length ps \<Longrightarrow> add_claims k (ids @ ids') (ps @ ps') P = add_claims k ids' ps' (add_claims k ids ps P)"
  by (simp add: add_claims_def)

section \<open>A poll conserves the store\<close>

text \<open>The database message made from a queued text.\<close>

definition claim_of :: "'r redis_lib \<Rightarrow> gwlib \<Rightarrow> int \<Rightarrow> octstr option \<Rightarrow> octstr \<Rightarrow> database_msg \<Rightarrow> bool" where
  "claim_of L G ty filt x dm \<longleftrightarrow> (\<exists>u obj. rl_json_loads L x = Some (J_object obj)
     \<and> dm_global_id dm = to_ulong (smpp_redis_json_get_long obj ''global_id'')
     \<and> dm_msg dm = Some (smpp_redis_json_to_msg G u obj)
     \<and> smpp_redis_store_matches (smpp_redis_json_to_msg G u obj) ty filt)"

definition claim_ids :: "database_msg list \<Rightarrow> octstr list" where
  "claim_ids dms = map (\<lambda>dm. show_nat (dm_global_id dm)) dms"

text \<open>What a poll of the list \<open>k\<close> does to the store: it moves the texts \<open>ps\<close> to the claims.\<close>

definition poll_effect :: "'r redis_lib \<Rightarrow> 'r redis_view \<Rightarrow> gwlib \<Rightarrow> octstr \<Rightarrow> int \<Rightarrow> octstr option \<Rightarrow> octstr list \<Rightarrow>
    octstr list \<Rightarrow> 'r redis_store \<Rightarrow> database_msg list \<Rightarrow> 'r redis_store \<Rightarrow> bool" where
  "poll_effect L V G k ty filt popped ps d dms d' \<longleftrightarrow>
     mset popped + mset (rv_list V (rd_redis d) k) = mset ps + mset (rv_list V (rd_redis d') k)
     \<and> list_all2 (claim_of L G ty filt) ps dms
     \<and> (\<forall>k'. k' \<noteq> k \<longrightarrow> rv_list V (rd_redis d') k' = rv_list V (rd_redis d) k')
     \<and> rv_set V (rd_redis d') = rv_set V (rd_redis d) \<and> rv_counter V (rd_redis d') = rv_counter V (rd_redis d)
     \<and> snd (abs_redis V d') = add_claims k (claim_ids dms) ps (snd (abs_redis V d))"

lemma claim_batch_effect:
  assumes "redis_documented L V" "list_key V (rd_redis d) k" "\<forall>x\<in>set items. rv_word V x"
  shows "\<exists>ps. poll_effect L V G k ty filt items ps d (fst (claim_batch L G k t ty filt items d)) (snd (claim_batch L G k t ty filt items d))"
  using assms(2,3)
proof (induction items arbitrary: d)
  case Nil
  then show ?case by (intro exI [of _ "[]"]) (simp add: poll_effect_def claim_ids_def)
next
  case (Cons json items)
  have word: "cstr json = json" using Cons.prems assms(1) by (intro cstr_word) (simp add: redis_documented_def)
  show ?case
  proof (cases rule: claim_message_cases [of L G k t json ty filt d])
    case (refused d')
    then obtain d'' where push: "smpp_redis_lpush L k json d' = (True, d'')"
      "rv_list V (rd_redis d'') = (rv_list V (rd_redis d))(k := json # rv_list V (rd_redis d) k)"
      "rv_set V (rd_redis d'') = rv_set V (rd_redis d)" "rv_counter V (rd_redis d'') = rv_counter V (rd_redis d)"
      "rd_pending_msg d'' = rd_pending_msg d"
      using lpush_effect [OF assms(1), of d' k json] Cons.prems by auto
    have "list_key V (rd_redis d'') k" using Cons.prems(1) push by (simp add: list_key_def)
    from Cons.IH [OF this] obtain ps where
      "poll_effect L V G k ty filt items ps d'' (fst (claim_batch L G k t ty filt items d'')) (snd (claim_batch L G k t ty filt items d''))"
      using Cons.prems(2) by auto
    then show ?thesis
      using refused push by (intro exI [of _ ps]) (auto simp: poll_effect_def abs_redis_def)
  next
    case (claimed obj m dm d')
    have "list_key V (rd_redis d') k" using Cons.prems(1) claimed by (simp add: list_key_def)
    from Cons.IH [OF this] obtain ps where ps:
      "poll_effect L V G k ty filt items ps d' (fst (claim_batch L G k t ty filt items d')) (snd (claim_batch L G k t ty filt items d'))"
      using Cons.prems(2) by auto
    have "claim_of L G ty filt json dm" using claimed word by (auto simp: claim_of_def)
    moreover have "snd (abs_redis V d') = (snd (abs_redis V d))(show_nat (dm_global_id dm) \<mapsto> (k, json))"
      using claimed by (auto simp: abs_redis_def)
    ultimately show ?thesis
      using claimed ps by (intro exI [of _ "json # ps"]) (auto simp: poll_effect_def claim_ids_def case_prod_beta Let_def)
  qed
qed

lemma claim_batch_length: "length (fst (claim_batch L G k t ty filt items d)) \<le> length items"
proof (induction items arbitrary: d)
  case (Cons json items)
  obtain dm d' where step: "smpp_redis_claim_store_message L G k t json ty filt d = (dm, d')" by fastforce
  show ?case
    using Cons.IH [of d'] Cons.IH [of "snd (smpp_redis_lpush L k json d')"] step
    by (cases dm) (simp_all add: case_prod_beta Let_def)
qed simp

lemma poll_effect_trans:
  assumes "poll_effect L V G k ty filt popped ps d dms d1" "poll_effect L V G k ty filt [] ps' d1 dms' d2"
  shows "poll_effect L V G k ty filt popped (ps @ ps') d (dms @ dms') d2"
proof -
  have "length (claim_ids dms) = length ps"
    using assms(1) by (auto simp: poll_effect_def claim_ids_def dest: list_all2_lengthD)
  then show ?thesis
    using assms by (auto simp: poll_effect_def claim_ids_def add_claims_append list_all2_appendI)
qed

text \<open>The list can be polled: its key is a word that names no set or counter, and so are its texts.\<close>

definition pollable :: "'r redis_view \<Rightarrow> 'r \<Rightarrow> octstr \<Rightarrow> bool" where
  "pollable V r k \<longleftrightarrow> list_key V r k \<and> (\<forall>x\<in>set (rv_list V r k). rv_word V x)"

lemma pop_then_claim:
  assumes "redis_documented L V" "pollable V (rd_redis d) k" "0 < n"
    and "smpp_redis_lpop_json_batch L k n d = (raw, d1)" "claim_batch L G k t ty filt raw d1 = (dms, d2)"
  shows "(\<exists>ps. poll_effect L V G k ty filt [] ps d dms d2) \<and> pollable V (rd_redis d2) k"
proof -
  let ?l = "rv_list V (rd_redis d) k"
  have d1: "raw = take (nat n) ?l" "rv_list V (rd_redis d1) = (rv_list V (rd_redis d))(k := drop (nat n) ?l)"
    "rv_set V (rd_redis d1) = rv_set V (rd_redis d)" "rv_counter V (rd_redis d1) = rv_counter V (rd_redis d)"
    "rd_pending_msg d1 = rd_pending_msg d"
    using lpop_effect [OF assms(1) _ assms(3), of d k] assms(2,4) by (auto simp: pollable_def)
  have key: "list_key V (rd_redis d1) k" using assms(2) d1 by (simp add: pollable_def list_key_def)
  have words: "\<forall>x\<in>set raw. rv_word V x" using assms(2) d1(1) in_set_takeD unfolding pollable_def by fast
  obtain ps where ps: "poll_effect L V G k ty filt raw ps d1 dms d2"
    using claim_batch_effect [OF assms(1) key words, of G ty filt t] assms(5) by auto
  have all: "mset raw + mset (drop (nat n) ?l) = mset ?l"
    by (metis d1(1) append_take_drop_id mset_append)
  have eff: "poll_effect L V G k ty filt [] ps d dms d2"
    using ps d1 all by (auto simp: poll_effect_def abs_redis_def)
  have "set (rv_list V (rd_redis d2) k) \<subseteq> set ?l"
    using eff unfolding poll_effect_def by (metis add_0 mset.simps(1) mset_subset_eq_add_right set_mset_mono set_mset_mset)
  then have "pollable V (rd_redis d2) k"
    using assms(2) eff by (auto simp: pollable_def poll_effect_def list_key_def)
  with eff show ?thesis by blast
qed

lemma poll_loop_effect:
  assumes "redis_documented L V" "pollable V (rd_redis d) k"
  shows "(\<exists>ps. poll_effect L V G k ty filt [] ps d (fst (get_stored_loop L G k t ty filt lmt picked e d))
            (snd (get_stored_loop L G k t ty filt lmt picked e d)))
         \<and> pollable V (rd_redis (snd (get_stored_loop L G k t ty filt lmt picked e d))) k
         \<and> int (length (fst (get_stored_loop L G k t ty filt lmt picked e d))) \<le> max 0 (lmt - picked)"
proof -
  define I where "I = (\<lambda>picked (e :: nat) d r. pollable V (rd_redis d) k \<longrightarrow>
     (\<exists>ps. poll_effect L V G k ty filt [] ps d (fst r) (snd r)) \<and> pollable V (rd_redis (snd r)) k
     \<and> int (length (fst r)) \<le> max 0 (lmt - picked))"
  have here: "\<exists>ps. poll_effect L V G k ty filt [] ps d [] d" for d
    by (intro exI [of _ "[]"]) (simp add: poll_effect_def claim_ids_def)
  have "I picked e d (get_stored_loop L G k t ty filt lmt picked e d)"
  proof (rule poll_rounds)
    fix picked e d
    show "I picked e d ([], d)" using here by (simp add: I_def)
  next
    fix picked e d d1
    assume "picked < lmt" "smpp_redis_lpop_json_batch L k (lmt - picked) d = ([], d1)"
    then show "I picked e d ([], d1)"
      using pop_then_claim [OF assms(1), of d k "lmt - picked" "[]" d1 G t ty filt "[]" d1] by (simp add: I_def)
  next
    fix picked e d raw d1 dms d2 d3 and rest :: "database_msg list"
    assume *: "picked < lmt" "smpp_redis_lpop_json_batch L k (lmt - picked) d = (raw, d1)"
      "claim_batch L G k t ty filt raw d1 = (dms, d2)"
      "I (picked + int (length dms)) (if dms = [] then e + 1 else 0) d2 (rest, d3)"
    show "I picked e d (dms @ rest, d3)"
      unfolding I_def
    proof
      assume p: "pollable V (rd_redis d) k"
      have step: "\<exists>ps. poll_effect L V G k ty filt [] ps d dms d2" "pollable V (rd_redis d2) k"
        using pop_then_claim [OF assms(1) p _ *(2,3)] *(1) by auto
      have raw: "raw = take (nat (lmt - picked)) (rv_list V (rd_redis d) k)"
        using lpop_effect [OF assms(1), of d k "lmt - picked"] p *(1,2) by (auto simp: pollable_def)
      have "length dms \<le> length raw" using claim_batch_length [of L G k t ty filt raw d1] *(3) by simp
      then have "int (length dms) \<le> lmt - picked" using raw *(1) by (simp, linarith)
      moreover obtain ps' where "poll_effect L V G k ty filt [] ps' d2 rest d3" "pollable V (rd_redis d3) k"
        "int (length rest) \<le> max 0 (lmt - (picked + int (length dms)))"
        using *(4) step(2) by (auto simp: I_def)
      moreover obtain ps where "poll_effect L V G k ty filt [] ps d dms d2" using step(1) by blast
      ultimately show "(\<exists>ps. poll_effect L V G k ty filt [] ps d (fst (dms @ rest, d3)) (snd (dms @ rest, d3)))
          \<and> pollable V (rd_redis (snd (dms @ rest, d3))) k \<and> int (length (fst (dms @ rest, d3))) \<le> max 0 (lmt - picked)"
        using poll_effect_trans [of L V G k ty filt "[]" ps d dms d2 ps' rest d3] by auto
    qed
  qed
  then show ?thesis using assms(2) by (simp add: I_def)
qed

end
