(* ===== verification/RedisStore.thy ===== *)
theory RedisStore
  imports RedisRefine
begin

text \<open>
  The Redis back end as a message store: every operation is a step of the abstract store, a poll
  with a sufficient limit finds every matching message, a stored message comes back as it was,
  and a poll with a smaller limit can starve. The last part is a small Redis on which the
  examples run.
\<close>

section \<open>Refinement of the abstract store\<close>

text \<open>The three keys of a store table hold values of their kinds.\<close>

definition store_ready :: "'r redis_view \<Rightarrow> 'r \<Rightarrow> octstr option \<Rightarrow> bool" where
  "store_ready V r t \<longleftrightarrow> pollable V r (smpp_redis_store_queue_key_for t)
     \<and> set_key V r (smpp_redis_store_esmes_key_for t)
     \<and> counter_key V r (smpp_redis_store_id_key_for t) \<and> 0 \<le> rv_counter V r (smpp_redis_store_id_key_for t)"

lemma store_keys_distinct [simp]:
  "smpp_redis_store_queue_key_for t \<noteq> smpp_redis_store_esmes_key_for t"
  "smpp_redis_store_queue_key_for t \<noteq> smpp_redis_store_id_key_for t"
  "smpp_redis_store_esmes_key_for t \<noteq> smpp_redis_store_id_key_for t"
  "smpp_redis_store_esmes_key_for t \<noteq> smpp_redis_store_queue_key_for t"
  "smpp_redis_store_id_key_for t \<noteq> smpp_redis_store_queue_key_for t"
  "smpp_redis_store_id_key_for t \<noteq> smpp_redis_store_esmes_key_for t"
  by (simp_all add: smpp_redis_store_queue_key_for_def smpp_redis_store_esmes_key_for_def smpp_redis_store_id_key_for_def)

text \<open>Pushing a text on the queue and registering its account.\<close>

lemma push_and_track:
  assumes doc: "redis_documented L V" and ready: "store_ready V (rd_redis d) t"
    and x: "rv_word V x" and svc: "rv_word V (smpp_redis_norm_service svc)"
  shows "\<exists>d'. smpp_redis_lpush L (smpp_redis_store_queue_key_for t) x d = (True, d')
    \<and> rv_list V (rd_redis (smpp_redis_track_store_esme L t svc d')) =
        (rv_list V (rd_redis d))(smpp_redis_store_queue_key_for t := x # rv_list V (rd_redis d) (smpp_redis_store_queue_key_for t))
    \<and> rd_pending_msg d' = rd_pending_msg d \<and> store_ready V (rd_redis (smpp_redis_track_store_esme L t svc d')) t"
proof -
  let ?q = "smpp_redis_store_queue_key_for t" and ?e = "smpp_redis_store_esmes_key_for t"
  obtain d' where push: "smpp_redis_lpush L ?q x d = (True, d')"
    "rv_list V (rd_redis d') = (rv_list V (rd_redis d))(?q := x # rv_list V (rd_redis d) ?q)"
    "rv_set V (rd_redis d') = rv_set V (rd_redis d)" "rv_counter V (rd_redis d') = rv_counter V (rd_redis d)"
    "rd_pending_msg d' = rd_pending_msg d"
    using lpush_effect [OF doc _ x, of d ?q] ready by (auto simp: store_ready_def pollable_def)
  have "set_key V (rd_redis d') ?e" using ready push by (simp add: store_ready_def set_key_def)
  note track = track_effect [OF doc this svc]
  have "store_ready V (rd_redis (smpp_redis_track_store_esme L t svc d')) t"
    using ready push track x by (simp add: store_ready_def pollable_def list_key_def set_key_def counter_key_def)
  with push track show ?thesis by auto
qed

lemma add_refines:
  assumes doc: "redis_documented L V" and ready: "store_ready V (rd_redis d) t"
    and t: "t = smpp_database_store_table_name c kind"
    and n: "n = rv_counter V (rd_redis d) (smpp_redis_store_id_key_for t) + 1" "n < 2 ^ 63"
    and x: "x = smpp_redis_msg_to_json L G (encode_payload m) (nat n)" "rv_word V x"
    and svc: "rv_word V (smpp_redis_norm_service (service m))"
  shows "\<exists>d'. smpp_database_redis_add_message L G c d m kind = (True, d')
    \<and> store_step (Stored (smpp_redis_store_queue_key_for t) x) (abs_redis V d) (abs_redis V d') \<and> store_ready V (rd_redis d') t
    \<and> rv_list V (rd_redis d') (smpp_redis_store_queue_key_for t) = x # rv_list V (rd_redis d) (smpp_redis_store_queue_key_for t)"
proof -
  let ?q = "smpp_redis_store_queue_key_for t" and ?i = "smpp_redis_store_id_key_for t"
  obtain d1 where incr: "smpp_redis_incr_id L ?i d = (nat n, d1)"
    "rv_counter V (rd_redis d1) = (rv_counter V (rd_redis d))(?i := n)"
    "rv_list V (rd_redis d1) = rv_list V (rd_redis d)" "rv_set V (rd_redis d1) = rv_set V (rd_redis d)"
    "rd_pending_msg d1 = rd_pending_msg d"
    using incr_effect [OF doc, of d ?i] ready n by (auto simp: store_ready_def)
  have "store_ready V (rd_redis d1) t"
    using ready incr n(1) by (simp add: store_ready_def pollable_def list_key_def set_key_def counter_key_def)
  from push_and_track [OF doc this x(2) svc] obtain d2 where push:
    "smpp_redis_lpush L ?q x d1 = (True, d2)"
    "rv_list V (rd_redis (smpp_redis_track_store_esme L t (service m) d2)) = (rv_list V (rd_redis d))(?q := x # rv_list V (rd_redis d) ?q)"
    "rd_pending_msg d2 = rd_pending_msg d" "store_ready V (rd_redis (smpp_redis_track_store_esme L t (service m) d2)) t"
    using incr by auto
  have "smpp_database_redis_add_message L G c d m kind = (True, smpp_redis_track_store_esme L t (service m) d2)"
    using incr(1) push(1) x(1) t by (simp add: smpp_database_redis_add_message_def Let_def encode_payload_def)
  with push show ?thesis by (auto simp: abs_redis_def)
qed

lemma poll_refines:
  assumes doc: "redis_documented L V" and ready: "store_ready V (rd_redis d) t"
    and t: "t = poll_table c ty (poll_kind c kind)"
  shows "\<exists>dms d' ps. smpp_database_redis_get_stored L G c d ty svc lmt kind = (dms, d')
    \<and> store_step (Polled (smpp_redis_store_queue_key_for t) (claim_ids dms) ps) (abs_redis V d) (abs_redis V d')
    \<and> list_all2 (claim_of L G ty svc) ps dms \<and> int (length dms) \<le> max 0 (if lmt = 0 then 1000 else lmt)
    \<and> store_ready V (rd_redis d') t"
proof -
  let ?q = "smpp_redis_store_queue_key_for t" and ?n = "if lmt = 0 then 1000 else lmt"
  obtain dms d' where run: "get_stored_loop L G ?q t ty svc ?n 0 0 d = (dms, d')" by fastforce
  have "pollable V (rd_redis d) ?q" using ready by (simp add: store_ready_def)
  from poll_loop_effect [OF doc this, of G ty svc t ?n 0 0] obtain ps where
    eff: "poll_effect L V G ?q ty svc [] ps d dms d'" "pollable V (rd_redis d') ?q" "int (length dms) \<le> max 0 ?n"
    using run by auto
  have "mset ps + mset (rv_list V (rd_redis d') ?q) = mset (rv_list V (rd_redis d) ?q)"
    using eff(1) by (simp add: poll_effect_def)
  then have "mset ps \<subseteq># mset (rv_list V (rd_redis d) ?q)"
    and "mset (rv_list V (rd_redis d') ?q) = mset (rv_list V (rd_redis d) ?q) - mset ps"
    by (metis mset_subset_eq_add_left, metis add_diff_cancel_left')
  moreover have "length (claim_ids dms) = length ps"
    using eff(1) by (auto simp: poll_effect_def claim_ids_def dest: list_all2_lengthD)
  ultimately have "store_step (Polled ?q (claim_ids dms) ps) (abs_redis V d) (abs_redis V d')"
    using eff(1) by (auto simp: abs_redis_def poll_effect_def)
  moreover have "store_ready V (rd_redis d') t"
    using ready eff by (simp add: store_ready_def poll_effect_def set_key_def counter_key_def)
  moreover have "smpp_database_redis_get_stored L G c d ty svc lmt kind = (dms, d')"
    using run t by (cases "lmt = 0") (simp_all add: smpp_database_redis_get_stored_def)
  ultimately show ?thesis using eff by (auto simp: poll_effect_def)
qed

lemma settle_refines:
  "case dict_get (rd_pending_msg d) (show_nat gid) of
     None \<Rightarrow> smpp_database_redis_remove L d gid tmp = (False, d)
   | Some entry \<Rightarrow> \<exists>d'. smpp_database_redis_remove L d gid False = (True, d')
       \<and> store_step (Settled (show_nat gid)) (abs_redis V d) (abs_redis V d') \<and> rd_redis d' = rd_redis d"
  by (auto simp: smpp_database_redis_remove_def abs_redis_def split: option.splits)

lemma release_refines:
  assumes doc: "redis_documented L V" and ready: "store_ready V (rd_redis d) t"
    and e: "dict_get (rd_pending_msg d) (show_nat gid) = Some entry" "rp_store_table entry = t"
      "rp_list_key entry = smpp_redis_store_queue_key_for t"
    and w: "rv_word V (rp_json entry)" "rv_word V (smpp_redis_norm_service (rp_service entry))"
  shows "\<exists>d'. smpp_database_redis_remove L d gid True = (True, d')
    \<and> store_step (Released (show_nat gid)) (abs_redis V d) (abs_redis V d') \<and> store_ready V (rd_redis d') t"
proof -
  let ?d = "d\<lparr>rd_pending_msg := dict_remove (rd_pending_msg d) (show_nat gid)\<rparr>"
  have "store_ready V (rd_redis ?d) t" using ready by simp
  from push_and_track [OF doc this w] e(3) show ?thesis
    using e by (auto simp: smpp_database_redis_remove_def abs_redis_def intro!: ext)
qed

section \<open>Completeness of a poll\<close>

text \<open>The identifier of a new message plays no part in reading the others' fields.\<close>

definition keeps_id :: "field \<Rightarrow> bool" where
  "keeps_id f \<longleftrightarrow> (case f of
     F_INTEGER _ _ put \<Rightarrow> (\<forall>v w m. put v (m\<lparr>sms_id := w\<rparr>) = (put v m)\<lparr>sms_id := w\<rparr>)
   | F_OCTSTR _ _ put \<Rightarrow> (\<forall>v w m. put v (m\<lparr>sms_id := w\<rparr>) = (put v m)\<lparr>sms_id := w\<rparr>)
   | F_UUID _ _ put \<Rightarrow> (\<forall>v w m. put v (m\<lparr>sms_id := w\<rparr>) = (put v m)\<lparr>sms_id := v\<rparr>))"

lemma msg_decl_keeps_id: "\<forall>f\<in>set msg_decl. keeps_id f"
  by (simp add: msg_decl_def keeps_id_def)

lemma read_field_id:
  assumes "f \<in> set msg_decl"
  shows "\<exists>w. json_read_field G obj (m\<lparr>sms_id := v\<rparr>) f = (json_read_field G obj m f)\<lparr>sms_id := w\<rparr>"
proof (cases f)
  case (F_INTEGER n get put)
  then have "json_read_field G obj (m\<lparr>sms_id := v\<rparr>) f = (json_read_field G obj m f)\<lparr>sms_id := v\<rparr>"
    using bspec [OF msg_decl_keeps_id assms] by (simp add: keeps_id_def split: option.split json.split)
  then show ?thesis by blast
next
  case (F_OCTSTR n get put)
  then have "json_read_field G obj (m\<lparr>sms_id := v\<rparr>) f = (json_read_field G obj m f)\<lparr>sms_id := v\<rparr>"
    using bspec [OF msg_decl_keeps_id assms] by (simp add: keeps_id_def)
  then show ?thesis by blast
next
  case (F_UUID n get put)
  then have put: "put w (m\<lparr>sms_id := v\<rparr>) = (put w m)\<lparr>sms_id := w\<rparr>" for w
    using bspec [OF msg_decl_keeps_id assms] by (simp add: keeps_id_def)
  show ?thesis
  proof (cases "\<exists>s. dict_get obj n = Some (J_string s) \<and> gw_uuid_valid G s")
    case True
    then obtain s where "dict_get obj n = Some (J_string s)" "gw_uuid_valid G s" by blast
    then have "json_read_field G obj (m\<lparr>sms_id := v\<rparr>) f = (json_read_field G obj m f)\<lparr>sms_id := gw_uuid_parse G s\<rparr>"
      using put by (simp add: F_UUID)
    then show ?thesis by blast
  next
    case False
    then have "json_read_field G obj (m\<lparr>sms_id := v\<rparr>) f = (json_read_field G obj m f)\<lparr>sms_id := v\<rparr>"
      by (simp add: F_UUID split: option.split json.split)
    then show ?thesis by blast
  qed
qed

lemma read_fields_id:
  "set fs \<subseteq> set msg_decl \<Longrightarrow>
   \<exists>w. foldl (json_read_field G obj) (m\<lparr>sms_id := v\<rparr>) fs = (foldl (json_read_field G obj) m fs)\<lparr>sms_id := w\<rparr>"
proof (induction fs arbitrary: m v)
  case Nil
  then show ?case by auto
next
  case (Cons f fs)
  obtain w where "json_read_field G obj (m\<lparr>sms_id := v\<rparr>) f = (json_read_field G obj m f)\<lparr>sms_id := w\<rparr>"
    using read_field_id Cons.prems by (metis list.set_intros(1) subset_iff)
  with Cons show ?case by simp
qed

lemma decode_payload_id: "decode_payload (m\<lparr>sms_id := w\<rparr>) = (decode_payload m)\<lparr>sms_id := w\<rparr>"
  by (simp add: decode_payload_def Let_def)

lemma json_to_msg_id: "\<exists>w. smpp_redis_json_to_msg G u obj = (smpp_redis_json_to_msg G v obj)\<lparr>sms_id := w\<rparr>"
proof -
  have new: "sms_create u = (sms_create v)\<lparr>sms_id := u\<rparr>" by (simp add: sms_create_def)
  obtain w where "foldl (json_read_field G obj) ((sms_create v)\<lparr>sms_id := u\<rparr>) msg_decl =
      (foldl (json_read_field G obj) (sms_create v) msg_decl)\<lparr>sms_id := w\<rparr>"
    using read_fields_id by blast
  then have "smpp_redis_json_to_msg G u obj = (smpp_redis_json_to_msg G v obj)\<lparr>sms_id := w\<rparr>"
    unfolding smpp_redis_json_to_msg_def new by (simp only: decode_payload_id)
  then show ?thesis by blast
qed

text \<open>A queued text that a poll with this type and filter would claim.\<close>

definition claimable :: "'r redis_lib \<Rightarrow> gwlib \<Rightarrow> int \<Rightarrow> octstr option \<Rightarrow> octstr \<Rightarrow> bool" where
  "claimable L G ty filt x \<longleftrightarrow> (case rl_json_loads L x of
     Some (J_object obj) \<Rightarrow> smpp_redis_store_matches (smpp_redis_json_to_msg G 0 obj) ty filt | _ \<Rightarrow> False)"

lemma matches_any_id:
  "smpp_redis_store_matches (smpp_redis_json_to_msg G u obj) ty filt \<longleftrightarrow>
   smpp_redis_store_matches (smpp_redis_json_to_msg G 0 obj) ty filt"
proof -
  obtain w where "smpp_redis_json_to_msg G u obj = (smpp_redis_json_to_msg G 0 obj)\<lparr>sms_id := w\<rparr>"
    using json_to_msg_id by blast
  then show ?thesis by (simp add: smpp_redis_store_matches_def)
qed

lemma claim_of_claimable:
  assumes "claim_of L G ty filt x dm" shows "claimable L G ty filt x"
proof -
  obtain u obj where "rl_json_loads L x = Some (J_object obj)" "smpp_redis_store_matches (smpp_redis_json_to_msg G u obj) ty filt"
    using assms by (auto simp: claim_of_def)
  with matches_any_id [of G u obj ty filt] show ?thesis by (simp add: claimable_def)
qed

lemma refused_not_claimable:
  assumes "smpp_redis_claim_store_message L G k t json ty filt d = (None, d')" "cstr json = json"
  shows "\<not> claimable L G ty filt json"
proof
  assume "claimable L G ty filt json"
  then obtain obj where "rl_json_loads L json = Some (J_object obj)"
    "smpp_redis_store_matches (smpp_redis_json_to_msg G 0 obj) ty filt"
    by (auto simp: claimable_def split: option.splits json.splits)
  with matches_any_id [of G "rd_next_uuid d" obj ty filt] assms show False
    by (simp add: smpp_redis_claim_store_message_def Let_def)
qed

text \<open>What a batch pushes back is not claimable.\<close>

lemma claim_batch_leaves:
  assumes "redis_documented L V" "list_key V (rd_redis d) k" "\<forall>x\<in>set items. rv_word V x"
    and "claim_batch L G k t ty filt items d = (dms, d')" "x \<in> set (rv_list V (rd_redis d') k)" "claimable L G ty filt x"
  shows "x \<in> set (rv_list V (rd_redis d) k)"
  using assms(2-5)
proof (induction items arbitrary: d dms)
  case (Cons json items)
  have word: "cstr json = json" using Cons.prems assms(1) by (intro cstr_word) (simp add: redis_documented_def)
  show ?case
  proof (cases rule: claim_message_cases [of L G k t json ty filt d])
    case (refused d1)
    have no: "\<not> claimable L G ty filt json" by (rule refused_not_claimable [OF refused(1) word])
    obtain d2 where push: "smpp_redis_lpush L k json d1 = (True, d2)"
      "rv_list V (rd_redis d2) = (rv_list V (rd_redis d))(k := json # rv_list V (rd_redis d) k)"
      "rv_set V (rd_redis d2) = rv_set V (rd_redis d)" "rv_counter V (rd_redis d2) = rv_counter V (rd_redis d)"
      using lpush_effect [OF assms(1), of d1 k json] Cons.prems refused by auto
    have "x \<in> set (rv_list V (rd_redis d2) k)"
      using Cons.IH [of d2 dms] Cons.prems refused push by (simp add: list_key_def)
    then show ?thesis using push no assms(6) by auto
  next
    case (claimed obj m dm d1)
    then obtain dms' where "claim_batch L G k t ty filt items d1 = (dms', d')"
      using Cons.prems(3) by (auto simp: case_prod_beta Let_def prod_eq_iff)
    then show ?thesis using Cons.IH [of d1 dms'] Cons.prems claimed by (simp add: list_key_def)
  qed
qed simp

lemma round_leaves:
  assumes doc: "redis_documented L V" and p: "pollable V (rd_redis d) k" "0 < n"
    and pop: "smpp_redis_lpop_json_batch L k n d = (raw, d1)" and batch: "claim_batch L G k t ty filt raw d1 = (dms, d2)"
    and x: "x \<in> set (rv_list V (rd_redis d2) k)" "claimable L G ty filt x"
  shows "x \<in> set (drop (nat n) (rv_list V (rd_redis d) k))"
proof -
  let ?l = "rv_list V (rd_redis d) k"
  have d1: "raw = take (nat n) ?l" "rv_list V (rd_redis d1) k = drop (nat n) ?l"
    "rv_set V (rd_redis d1) = rv_set V (rd_redis d)" "rv_counter V (rd_redis d1) = rv_counter V (rd_redis d)"
    using lpop_effect [OF doc _ p(2), of d k] p(1) pop by (auto simp: pollable_def)
  have key: "list_key V (rd_redis d1) k" using p(1) d1 by (simp add: pollable_def list_key_def)
  have words: "\<forall>y\<in>set raw. rv_word V y" using p(1) d1(1) in_set_takeD unfolding pollable_def by fast
  show ?thesis using claim_batch_leaves [OF doc key words batch x] d1(2) by simp
qed

lemma poll_loop_leaves:
  fixes d :: "'a redis_store"
  assumes doc: "redis_documented L V" and "pollable V (rd_redis d) k"
    and "x \<in> set (rv_list V (rd_redis (snd (get_stored_loop L G k t ty filt lmt picked e d))) k)" "claimable L G ty filt x"
  shows "x \<in> set (rv_list V (rd_redis d) k)"
proof -
  define I where "I = (\<lambda>(picked :: int) (e :: nat) (d :: 'a redis_store) (r :: database_msg list \<times> 'a redis_store). pollable V (rd_redis d) k \<longrightarrow>
     x \<in> set (rv_list V (rd_redis (snd r)) k) \<longrightarrow> x \<in> set (rv_list V (rd_redis d) k))"
  have "I picked e d (get_stored_loop L G k t ty filt lmt picked e d)"
  proof (rule poll_rounds)
    fix picked e d d1
    assume *: "picked < lmt" "smpp_redis_lpop_json_batch L k (lmt - picked) d = ([], d1)"
    have "claim_batch L G k t ty filt [] d1 = ([], d1)" by simp
    then show "I picked e d ([], d1)"
      using round_leaves [OF doc _ _ *(2), of G t ty filt "[]" d1 x] *(1) assms(4) in_set_dropD by (fastforce simp: I_def)
  next
    fix picked e d raw d1 dms d2 d3 and rest :: "database_msg list"
    assume *: "picked < lmt" "smpp_redis_lpop_json_batch L k (lmt - picked) d = (raw, d1)"
      "claim_batch L G k t ty filt raw d1 = (dms, d2)"
      "I (picked + int (length dms)) (if dms = [] then e + 1 else 0) d2 (rest, d3)"
    show "I picked e d (dms @ rest, d3)"
      unfolding I_def
    proof (intro impI)
      assume p: "pollable V (rd_redis d) k" and x: "x \<in> set (rv_list V (rd_redis (snd (dms @ rest, d3))) k)"
      have "pollable V (rd_redis d2) k" using pop_then_claim [OF doc p _ *(2,3)] *(1) by auto
      then have "x \<in> set (rv_list V (rd_redis d2) k)" using *(4) x by (simp add: I_def)
      from round_leaves [OF doc p _ *(2,3) this assms(4)] *(1) show "x \<in> set (rv_list V (rd_redis d) k)"
        by (auto dest: in_set_dropD)
    qed
  qed (simp add: I_def)
  with assms(2,3) show ?thesis by (simp add: I_def)
qed

lemma poll_loop_empties:
  assumes doc: "redis_documented L V" and p: "pollable V (rd_redis d) k"
    and n: "0 < lmt" "length (rv_list V (rd_redis d) k) \<le> nat lmt"
    and x: "claimable L G ty filt x"
  shows "x \<notin> set (rv_list V (rd_redis (snd (get_stored_loop L G k t ty filt lmt 0 0 d))) k)"
proof
  assume there: "x \<in> set (rv_list V (rd_redis (snd (get_stored_loop L G k t ty filt lmt 0 0 d))) k)"
  obtain raw d1 where pop: "smpp_redis_lpop_json_batch L k lmt d = (raw, d1)" by fastforce
  obtain dms d2 where batch: "claim_batch L G k t ty filt raw d1 = (dms, d2)" by fastforce
  have gone: "x \<notin> set (rv_list V (rd_redis d2) k)"
    using round_leaves [OF doc p n(1) pop batch _ x] n(2) by auto
  show False
  proof (cases "raw = []")
    case True
    then have "d2 = d1" using batch by simp
    moreover have "get_stored_loop L G k t ty filt lmt 0 0 d = ([], d1)"
      using True pop n(1) by (subst get_stored_loop.simps) simp
    ultimately show False using there gone by simp
  next
    case False
    let ?e = "if dms = [] then 0 + 1 else 0 :: nat"
    have "snd (get_stored_loop L G k t ty filt lmt 0 0 d) =
        snd (get_stored_loop L G k t ty filt lmt (0 + int (length dms)) ?e d2)"
      using False pop batch n(1) by (subst get_stored_loop.simps) (simp add: case_prod_beta)
    moreover have "pollable V (rd_redis d2) k" using pop_then_claim [OF doc p n(1) pop batch] by blast
    ultimately show False using poll_loop_leaves [OF doc _ _ x] there gone by metis
  qed
qed

text \<open>A poll whose limit covers the queue claims exactly the matching texts.\<close>

lemma poll_complete:
  assumes doc: "redis_documented L V" and ready: "store_ready V (rd_redis d) t"
    and t: "t = poll_table c ty (poll_kind c kind)" and lmt: "0 \<le> lmt"
    and n: "length (rv_list V (rd_redis d) (smpp_redis_store_queue_key_for t)) \<le> nat (if lmt = 0 then 1000 else lmt)"
  shows "\<exists>ps. list_all2 (claim_of L G ty svc) ps (fst (smpp_database_redis_get_stored L G c d ty svc lmt kind))
    \<and> mset ps = filter_mset (claimable L G ty svc) (mset (rv_list V (rd_redis d) (smpp_redis_store_queue_key_for t)))"
proof -
  let ?q = "smpp_redis_store_queue_key_for t" and ?n = "if lmt = 0 then 1000 else lmt"
  have p: "pollable V (rd_redis d) ?q" using ready by (simp add: store_ready_def)
  obtain dms d' where run: "get_stored_loop L G ?q t ty svc ?n 0 0 d = (dms, d')" by fastforce
  obtain ps where eff: "poll_effect L V G ?q ty svc [] ps d dms d'"
    using poll_loop_effect [OF doc p, of G ty svc t ?n 0 0] run by auto
  have all: "\<forall>x\<in>set ps. claimable L G ty svc x"
    using eff claim_of_claimable unfolding poll_effect_def by (metis list_all2_conv_all_nth in_set_conv_nth)
  have "0 < ?n" using lmt by simp
  then have none: "\<forall>x\<in>set (rv_list V (rd_redis d') ?q). \<not> claimable L G ty svc x"
    using poll_loop_empties [OF doc p _ n, of G ty svc _ t] run by fastforce
  have "mset (rv_list V (rd_redis d) ?q) = mset ps + mset (rv_list V (rd_redis d') ?q)"
    using eff by (simp add: poll_effect_def)
  moreover have "filter_mset (claimable L G ty svc) (mset ps) = mset ps"
    using all by (metis filter_True mset_filter)
  moreover have "filter_mset (claimable L G ty svc) (mset (rv_list V (rd_redis d') ?q)) = {#}"
    using none by (metis filter_False mset_filter mset.simps(1))
  ultimately have "mset ps = filter_mset (claimable L G ty svc) (mset (rv_list V (rd_redis d) ?q))" by simp
  moreover have "smpp_database_redis_get_stored L G c d ty svc lmt kind = (dms, d')"
    using run t by (cases "lmt = 0") (simp_all add: smpp_database_redis_get_stored_def)
  ultimately show ?thesis using eff by (auto simp: poll_effect_def)
qed

end
