(* ===== verification/RedisPoll.thy ===== *)
theory RedisPoll
  imports RedisStore
begin

text \<open>
  The loop of a poll: a bound on its rounds that holds whatever Redis answers, and what a poll
  does whose limit does not reach past the messages it does not want.
\<close>

section \<open>Counting the rounds of a poll\<close>

lemma lpush_count:
  assumes "\<And>cmd r. f (snd (rl_command L cmd r)) = (if take 5 cmd = ''LPOP '' then f r + 1 else f r :: nat)"
  shows "f (rd_redis (snd (smpp_redis_lpush L k x d))) = f (rd_redis d)"
proof -
  have "take 5 (cstr (''LPUSH '' @ cstr k @ '' '' @ cstr x)) \<noteq> ''LPOP ''" by (simp add: cstr_def)
  then show ?thesis
    using assms [of "cstr (''LPUSH '' @ cstr k @ '' '' @ cstr x)" "rd_redis d"]
    by (simp add: smpp_redis_lpush_def smpp_redis_command_def case_prod_beta Let_def)
qed

lemma lpop_count:
  assumes "\<And>cmd r. f (snd (rl_command L cmd r)) = (if take 5 cmd = ''LPOP '' then f r + 1 else f r :: nat)"
  shows "f (rd_redis (snd (smpp_redis_lpop_json_batch L k n d))) \<le> f (rd_redis d) + 1"
  using assms [of _ "rd_redis d"]
  by (simp add: smpp_redis_lpop_json_batch_def smpp_redis_command_def case_prod_beta Let_def)

lemma claim_batch_count:
  assumes "\<And>cmd r. f (snd (rl_command L cmd r)) = (if take 5 cmd = ''LPOP '' then f r + 1 else f r :: nat)"
  shows "f (rd_redis (snd (claim_batch L G k t ty filt items d))) = f (rd_redis d)"
proof (induction items arbitrary: d)
  case (Cons json items)
  show ?case
  proof (cases rule: claim_message_cases [of L G k t json ty filt d])
    case (refused d')
    then show ?thesis using Cons.IH lpush_count [OF assms] by simp
  next
    case (claimed obj m dm d')
    then show ?thesis using Cons.IH by (simp add: case_prod_beta Let_def)
  qed
qed simp

lemma poll_loop_bounded:
  assumes "\<And>cmd r. f (snd (rl_command L cmd r)) = (if take 5 cmd = ''LPOP '' then f r + 1 else f r :: nat)"
  shows "f (rd_redis (snd (get_stored_loop L G k t ty filt lmt picked e d)))
         \<le> f (rd_redis d) + 32 * nat (lmt - picked) + (32 - e)"
proof (rule poll_rounds [where P = "\<lambda>picked e d r. f (rd_redis (snd r)) \<le> f (rd_redis d) + 32 * nat (lmt - picked) + (32 - e)"])
  fix picked e d d1
  assume "picked < lmt" "smpp_redis_lpop_json_batch L k (lmt - picked) d = ([], d1)"
  then have "f (rd_redis d1) \<le> f (rd_redis d) + 1" "1 \<le> nat (lmt - picked)"
    using lpop_count [OF assms, of k "lmt - picked" d] by simp_all
  then show "f (rd_redis (snd ([] :: database_msg list, d1))) \<le> f (rd_redis d) + 32 * nat (lmt - picked) + (32 - e)"
    unfolding snd_conv by linarith
next
  fix picked e d raw d1 dms d2 d3 and rest :: "database_msg list"
  assume *: "picked < lmt" "e < 32" "smpp_redis_lpop_json_batch L k (lmt - picked) d = (raw, d1)"
    "claim_batch L G k t ty filt raw d1 = (dms, d2)"
    "f (rd_redis (snd (rest, d3))) \<le> f (rd_redis d2) + 32 * nat (lmt - (picked + int (length dms)))
       + (32 - (if dms = [] then e + 1 else 0))"
  have one: "f (rd_redis d2) \<le> f (rd_redis d) + 1"
    using lpop_count [OF assms, of k "lmt - picked" d] claim_batch_count [OF assms, of G k t ty filt raw d1] *(3,4) by simp
  have "dms \<noteq> [] \<Longrightarrow> nat (lmt - (picked + int (length dms))) + 1 \<le> nat (lmt - picked)"
    using *(1) by (cases dms) auto
  with one *(2,5) have "f (rd_redis d3) \<le> f (rd_redis d) + 32 * nat (lmt - picked) + (32 - e)"
    by (cases "dms = []") auto
  then show "f (rd_redis (snd (dms @ rest, d3))) \<le> f (rd_redis d) + 32 * nat (lmt - picked) + (32 - e)" by simp
qed simp

lemma rotated_front:
  "mset (take n (rev (take n l) @ drop n l)) = mset (take n l)" "drop n (rev (take n l) @ drop n l) = drop n l"
  by (cases "n \<le> length l"; simp)+

section \<open>Starvation\<close>

lemma batch_refuses:
  assumes "redis_documented L V" "list_key V (rd_redis d) k" "\<forall>x\<in>set items. rv_word V x \<and> \<not> claimable L G ty filt x"
  shows "\<exists>d'. claim_batch L G k t ty filt items d = ([], d') \<and> rv_list V (rd_redis d') k = rev items @ rv_list V (rd_redis d) k"
  using assms(2,3)
proof (induction items arbitrary: d)
  case (Cons json items)
  have word: "cstr json = json" using Cons.prems assms(1) by (intro cstr_word) (simp add: redis_documented_def)
  show ?case
  proof (cases rule: claim_message_cases [of L G k t json ty filt d])
    case (refused d1)
    obtain d2 where push: "smpp_redis_lpush L k json d1 = (True, d2)"
      "rv_list V (rd_redis d2) = (rv_list V (rd_redis d))(k := json # rv_list V (rd_redis d) k)"
      "rv_set V (rd_redis d2) = rv_set V (rd_redis d)" "rv_counter V (rd_redis d2) = rv_counter V (rd_redis d)"
      using lpush_effect [OF assms(1), of d1 k json] Cons.prems refused by auto
    then show ?thesis using Cons.IH [of d2] Cons.prems refused by (auto simp: list_key_def)
  next
    case (claimed obj m dm d1)
    then have "claim_of L G ty filt json dm" using word by (auto simp: claim_of_def)
    then show ?thesis using claim_of_claimable [of L G ty filt json dm] Cons.prems(2) by simp
  qed
qed simp

lemma poll_loop_starves:
  fixes d :: "'r redis_store"
  assumes doc: "redis_documented L V" and "pollable V (rd_redis d) k"
    and "\<forall>x\<in>set (take (nat lmt) (rv_list V (rd_redis d) k)). \<not> claimable L G ty filt x" and lmt: "0 < lmt"
  shows "fst (get_stored_loop L G k t ty filt lmt 0 e d) = []
    \<and> mset (take (nat lmt) (rv_list V (rd_redis (snd (get_stored_loop L G k t ty filt lmt 0 e d))) k)) = mset (take (nat lmt) (rv_list V (rd_redis d) k))
    \<and> drop (nat lmt) (rv_list V (rd_redis (snd (get_stored_loop L G k t ty filt lmt 0 e d))) k) = drop (nat lmt) (rv_list V (rd_redis d) k)"
proof -
  let ?n = "nat lmt"
  define I where "I = (\<lambda>(picked :: int) (e :: nat) (d :: 'r redis_store) (r :: database_msg list \<times> 'r redis_store).
     picked = 0 \<and> pollable V (rd_redis d) k \<and> (\<forall>x\<in>set (take ?n (rv_list V (rd_redis d) k)). \<not> claimable L G ty filt x) \<longrightarrow>
     fst r = [] \<and> mset (take ?n (rv_list V (rd_redis (snd r)) k)) = mset (take ?n (rv_list V (rd_redis d) k))
     \<and> drop ?n (rv_list V (rd_redis (snd r)) k) = drop ?n (rv_list V (rd_redis d) k))"
  have round: "rv_list V (rd_redis d2) k = rev (take ?n (rv_list V (rd_redis d) k)) @ drop ?n (rv_list V (rd_redis d) k)
      \<and> dms = [] \<and> pollable V (rd_redis d2) k"
    if "pollable V (rd_redis d) k" "\<forall>x\<in>set (take ?n (rv_list V (rd_redis d) k)). \<not> claimable L G ty filt x"
      "smpp_redis_lpop_json_batch L k lmt d = (raw, d1)" "claim_batch L G k t ty filt raw d1 = (dms, d2)" for d raw d1 dms d2
  proof -
    let ?l = "rv_list V (rd_redis d) k"
    have d1: "raw = take ?n ?l" "rv_list V (rd_redis d1) k = drop ?n ?l"
      "rv_set V (rd_redis d1) = rv_set V (rd_redis d)" "rv_counter V (rd_redis d1) = rv_counter V (rd_redis d)"
      using lpop_effect [OF doc _ lmt, of d k] that(1,3) by (auto simp: pollable_def)
    have "list_key V (rd_redis d1) k" using that(1) d1 by (simp add: pollable_def list_key_def)
    moreover have "\<forall>x\<in>set raw. rv_word V x \<and> \<not> claimable L G ty filt x"
      using that(1,2) d1(1) in_set_takeD unfolding pollable_def by fast
    ultimately obtain d' where "claim_batch L G k t ty filt raw d1 = ([], d')"
      "rv_list V (rd_redis d') k = rev raw @ rv_list V (rd_redis d1) k"
      using batch_refuses [OF doc, of d1 k raw G ty filt t] by blast
    then show ?thesis using that(4) d1 pop_then_claim [OF doc that(1) lmt that(3,4)] by simp
  qed
  have "I 0 e d (get_stored_loop L G k t ty filt lmt 0 e d)"
  proof (rule poll_rounds)
    fix picked e d d1
    assume pop: "smpp_redis_lpop_json_batch L k (lmt - picked) d = ([], d1)"
    show "I picked e d ([], d1)"
      unfolding I_def
    proof
      assume a: "picked = 0 \<and> pollable V (rd_redis d) k \<and> (\<forall>x\<in>set (take ?n (rv_list V (rd_redis d) k)). \<not> claimable L G ty filt x)"
      have "claim_batch L G k t ty filt [] d1 = ([], d1)" by simp
      with a pop round [of d "[]" d1 "[]" d1]
      have "rv_list V (rd_redis d1) k = rev (take ?n (rv_list V (rd_redis d) k)) @ drop ?n (rv_list V (rd_redis d) k)" by simp
      then show "fst ([] :: database_msg list, d1) = [] \<and> mset (take ?n (rv_list V (rd_redis (snd ([] :: database_msg list, d1))) k)) = mset (take ?n (rv_list V (rd_redis d) k))
        \<and> drop ?n (rv_list V (rd_redis (snd ([] :: database_msg list, d1))) k) = drop ?n (rv_list V (rd_redis d) k)"
        by (simp only: rotated_front fst_conv snd_conv simp_thms)
    qed
  next
    fix picked e d raw d1 dms d2 d3 and rest :: "database_msg list"
    assume *: "smpp_redis_lpop_json_batch L k (lmt - picked) d = (raw, d1)" "claim_batch L G k t ty filt raw d1 = (dms, d2)"
      "I (picked + int (length dms)) (if dms = [] then e + 1 else 0) d2 (rest, d3)"
    show "I picked e d (dms @ rest, d3)"
      unfolding I_def
    proof
      assume a: "picked = 0 \<and> pollable V (rd_redis d) k \<and> (\<forall>x\<in>set (take ?n (rv_list V (rd_redis d) k)). \<not> claimable L G ty filt x)"
      then have r: "rv_list V (rd_redis d2) k = rev (take ?n (rv_list V (rd_redis d) k)) @ drop ?n (rv_list V (rd_redis d) k)"
        "dms = []" "pollable V (rd_redis d2) k"
        using round [of d raw d1 dms d2] * by auto
      then have f: "mset (take ?n (rv_list V (rd_redis d2) k)) = mset (take ?n (rv_list V (rd_redis d) k))"
        "drop ?n (rv_list V (rd_redis d2) k) = drop ?n (rv_list V (rd_redis d) k)" by (simp_all only: rotated_front)
      then have "set (take ?n (rv_list V (rd_redis d2) k)) = set (take ?n (rv_list V (rd_redis d) k))" by (metis set_mset_mset)
      then show "fst (dms @ rest, d3) = [] \<and> mset (take ?n (rv_list V (rd_redis (snd (dms @ rest, d3))) k)) = mset (take ?n (rv_list V (rd_redis d) k))
        \<and> drop ?n (rv_list V (rd_redis (snd (dms @ rest, d3))) k) = drop ?n (rv_list V (rd_redis d) k)"
        using *(3) r(2,3) a f by (simp add: I_def)
    qed
  qed (simp add: I_def)
  with assms(2,3) show ?thesis by (simp add: I_def)
qed

end
