(* ===== verification/RedisFacts.thy ===== *)
theory RedisFacts
  imports RedisPoll
begin

text \<open>
  Properties of the Redis back end: a message read back from its JSON is the message that was
  stored, the operations refine the abstract store, a covering poll claims exactly the matching
  messages, and a smaller one can starve. The examples run on a small Redis whose commands are
  split at blanks and whose keys hold one kind of value.
\<close>

lemma list_all2_member: "list_all2 P xs ys \<Longrightarrow> x \<in> set xs \<Longrightarrow> \<exists>y\<in>set ys. P x y"
  by (induction rule: list_all2_induct) auto

section \<open>A message and its JSON\<close>

text \<open>What storing makes of a message: a null string comes back empty.\<close>

definition str_or_empty :: "octstr option \<Rightarrow> octstr option" where
  "str_or_empty v = Some (case v of None \<Rightarrow> [] | Some s \<Rightarrow> s)"

definition stored_form :: "sms \<Rightarrow> sms" where
  "stored_form m = m\<lparr>sender := str_or_empty (sender m), receiver := str_or_empty (receiver m),
     udhdata := str_or_empty (udhdata m), msgdata := str_or_empty (msgdata m), smsc_id := str_or_empty (smsc_id m),
     smsc_number := str_or_empty (smsc_number m), foreign_id := str_or_empty (foreign_id m),
     service := str_or_empty (service m), account := str_or_empty (account m), dlr_url := str_or_empty (dlr_url m),
     charset := str_or_empty (charset m), boxc_id := str_or_empty (boxc_id m), binfo := str_or_empty (binfo m),
     meta_data := str_or_empty (meta_data m)\<rparr>"

text \<open>The texts of a message that JSON can hold: no NUL byte, and UTF-8.\<close>

definition json_text :: "'r redis_lib \<Rightarrow> octstr option \<Rightarrow> bool" where
  "json_text L v \<longleftrightarrow> (case v of None \<Rightarrow> rl_utf8 L [] | Some s \<Rightarrow> rl_utf8 L s \<and> CHR 0x00 \<notin> set s)"

definition json_field :: "'r redis_lib \<Rightarrow> gwlib \<Rightarrow> sms \<Rightarrow> field \<Rightarrow> bool" where
  "json_field L G m f = (case f of
     F_INTEGER _ _ _ \<Rightarrow> True
   | F_OCTSTR _ get _ \<Rightarrow> json_text L (get m)
   | F_UUID _ get _ \<Rightarrow> rl_utf8 L (gw_uuid_unparse G (get m)) \<and> gw_uuid_valid G (gw_uuid_unparse G (get m)) \<and> gw_uuid_parse G (gw_uuid_unparse G (get m)) = get m)"

text \<open>The value a field is written with, and the field it is read back as.\<close>

fun json_value :: "gwlib \<Rightarrow> sms \<Rightarrow> field \<Rightarrow> json" where
  "json_value G m (F_INTEGER _ get _) = J_integer (get m)"
| "json_value G m (F_OCTSTR _ get _) = J_string (the (str_or_empty (get m)))"
| "json_value G m (F_UUID _ get _) = J_string (gw_uuid_unparse G (get m))"

fun put_back :: "sms \<Rightarrow> sms \<Rightarrow> field \<Rightarrow> sms" where
  "put_back m a (F_INTEGER _ get put) = put (get m) a"
| "put_back m a (F_OCTSTR _ get put) = put (str_or_empty (get m)) a"
| "put_back m a (F_UUID _ get put) = put (get m) a"

lemma write_field:
  assumes "json_field L G m f"
  shows "json_write_field L G m obj f = dict_put obj (field_name f) (json_value G m f)"
proof (cases f)
  case (F_OCTSTR n get put)
  with assms show ?thesis
    by (cases "get m") (auto simp: json_field_def json_text_def smpp_redis_json_set_str_def json_object_set_new_def
        json_string_def str_or_empty_def get_cstr_def cstr_word)
qed (use assms in \<open>auto simp: json_field_def json_object_set_new_def json_string_def\<close>)

lemma write_fields:
  assumes "\<forall>f\<in>set fs. json_field L G m f" "distinct (map field_name fs)"
  shows "(\<forall>n. n \<notin> set (map field_name fs) \<longrightarrow> dict_get (foldl (json_write_field L G m) obj fs) n = dict_get obj n)
    \<and> (\<forall>f\<in>set fs. dict_get (foldl (json_write_field L G m) obj fs) (field_name f) = Some (json_value G m f))"
  using assms
proof (induction fs arbitrary: obj)
  case (Cons f fs)
  let ?o = "dict_put obj (field_name f) (json_value G m f)"
  have "foldl (json_write_field L G m) obj (f # fs) = foldl (json_write_field L G m) ?o fs"
    using Cons.prems by (simp add: write_field)
  with Cons.IH [of ?o] Cons.prems show ?case by auto
qed simp

lemma read_field:
  assumes "dict_get obj (field_name f) = Some (json_value G m f)" "json_field L G m f"
  shows "json_read_field G obj a f = put_back m a f"
proof (cases f)
  case (F_OCTSTR n get put)
  then show ?thesis using assms
    by (cases "get m") (auto simp: json_field_def json_text_def smpp_redis_json_get_octstr_def str_or_empty_def cstr_word)
next
  case (F_INTEGER n get put)
  with assms show ?thesis by (simp add: smpp_redis_json_get_long_def)
next
  case (F_UUID n get put)
  with assms show ?thesis by (simp add: json_field_def)
qed

lemma read_fields:
  assumes "\<forall>f\<in>set fs. dict_get obj (field_name f) = Some (json_value G m f)" "\<forall>f\<in>set fs. json_field L G m f"
  shows "foldl (json_read_field G obj) a fs = foldl (put_back m) a fs"
  using assms
proof (induction fs arbitrary: a)
  case (Cons f fs)
  then have "json_read_field G obj a f = put_back m a f" using read_field [of obj f G m L a] by simp
  with Cons show ?case by simp
qed simp

lemma put_back_all: "foldl (put_back m) (sms_create u) msg_decl = stored_form m"
  by (cases m) (simp add: msg_decl_def sms_create_def stored_form_def)

lemma decode_stored_form: "decode_payload (stored_form (encode_payload m)) = stored_form m"
proof -
  have "decode_field (str_or_empty (encode_field v)) = str_or_empty v" for v
  proof (cases v)
    case (Some s)
    then have "str_or_empty (encode_field v) = encode_field v" by (simp add: str_or_empty_def encode_field_def)
    with Some show ?thesis by (simp add: str_or_empty_def)
  qed (simp add: str_or_empty_def encode_field_def decode_field_def)
  then show ?thesis
    by (simp add: decode_payload_def encode_payload_def stored_form_def Let_def str_or_empty_def)
qed

text \<open>
  The conditions are on the fields as written: the two binary fields are percent-encoded, so
  they satisfy it whatever bytes they hold.
\<close>

lemma json_roundtrip:
  assumes "\<forall>f\<in>set msg_decl. json_field L G (encode_payload m) f"
  shows "smpp_redis_json_to_msg G u (msg_object L G (encode_payload m) gid) = stored_form m"
    and "smpp_redis_json_get_long (msg_object L G (encode_payload m) gid) ''global_id'' = to_slong gid"
proof -
  let ?o = "msg_object L G (encode_payload m) gid"
  note w = write_fields [OF assms msg_decl_names(1), of "json_object_set_new [] ''global_id'' (Some (J_integer (to_slong gid)))"]
  have "\<forall>f\<in>set msg_decl. dict_get ?o (field_name f) = Some (json_value G (encode_payload m) f)"
    using w by (simp add: msg_object_def)
  from read_fields [OF this assms, of "sms_create u"]
  show "smpp_redis_json_to_msg G u ?o = stored_form m"
    by (simp add: smpp_redis_json_to_msg_def put_back_all decode_stored_form)
  have "dict_get ?o ''global_id'' = Some (J_integer (to_slong gid))"
    using w msg_decl_names(2) by (simp add: msg_object_def json_object_set_new_def)
  then show "smpp_redis_json_get_long ?o ''global_id'' = to_slong gid"
    by (simp add: smpp_redis_json_get_long_def)
qed

section \<open>A small Redis\<close>

text \<open>
  Lists, sets and counters by key. Command texts are split at blanks; a command for a key that
  holds another kind of value is refused. Texts with a percent sign are not passed on unchanged
  by redisCommand, for which they are conversion specifications.
\<close>

type_synonym small_redis = "(octstr, octstr list) dict \<times> (octstr, octstr list) dict \<times> (octstr, int) dict"

definition small_list :: "small_redis \<Rightarrow> octstr \<Rightarrow> octstr list" where
  "small_list r k = (case dict_get (fst r) k of None \<Rightarrow> [] | Some l \<Rightarrow> l)"

definition small_set :: "small_redis \<Rightarrow> octstr \<Rightarrow> octstr list" where
  "small_set r k = (case dict_get (fst (snd r)) k of None \<Rightarrow> [] | Some l \<Rightarrow> l)"

definition small_counter :: "small_redis \<Rightarrow> octstr \<Rightarrow> int" where
  "small_counter r k = (case dict_get (snd (snd r)) k of None \<Rightarrow> 0 | Some n \<Rightarrow> n)"

definition put_list :: "octstr \<Rightarrow> octstr list \<Rightarrow> small_redis \<Rightarrow> small_redis" where
  "put_list k l r = (dict_put (fst r) k l, snd r)"

definition put_set :: "octstr \<Rightarrow> octstr list \<Rightarrow> small_redis \<Rightarrow> small_redis" where
  "put_set k l r = (fst r, dict_put (fst (snd r)) k l, snd (snd r))"

definition put_counter :: "octstr \<Rightarrow> int \<Rightarrow> small_redis \<Rightarrow> small_redis" where
  "put_counter k n r = (fst r, fst (snd r), dict_put (snd (snd r)) k n)"

definition small_incr :: "octstr \<Rightarrow> small_redis \<Rightarrow> redis_reply option \<times> small_redis" where
  "small_incr k r =
     (if small_list r k \<noteq> [] \<or> small_set r k \<noteq> [] then (Some (Reply_error ''WRONGTYPE''), r)
      else (Some (Reply_integer (small_counter r k + 1)), put_counter k (small_counter r k + 1) r))"

definition small_lpush :: "octstr \<Rightarrow> octstr \<Rightarrow> small_redis \<Rightarrow> redis_reply option \<times> small_redis" where
  "small_lpush k x r =
     (if small_set r k \<noteq> [] \<or> small_counter r k \<noteq> 0 then (Some (Reply_error ''WRONGTYPE''), r)
      else (Some (Reply_integer (int (length (small_list r k)) + 1)), put_list k (x # small_list r k) r))"

definition small_lpop :: "octstr \<Rightarrow> octstr \<Rightarrow> small_redis \<Rightarrow> redis_reply option \<times> small_redis" where
  "small_lpop k n r =
     (if small_list r k = [] then (Some Reply_nil, r)
      else (Some (Reply_array (map Reply_string (take (nat (atol n)) (small_list r k)))),
            put_list k (drop (nat (atol n)) (small_list r k)) r))"

definition small_sadd :: "octstr \<Rightarrow> octstr \<Rightarrow> small_redis \<Rightarrow> redis_reply option \<times> small_redis" where
  "small_sadd k x r =
     (if small_list r k \<noteq> [] \<or> small_counter r k \<noteq> 0 then (Some (Reply_error ''WRONGTYPE''), r)
      else (Some (Reply_integer 1), put_set k (List.insert x (small_set r k)) r))"

fun small_execute :: "octstr list \<Rightarrow> small_redis \<Rightarrow> redis_reply option \<times> small_redis" where
  "small_execute [cmd, k] r =
     (if cmd = ''INCR'' then small_incr k r
      else if cmd = ''SMEMBERS'' then (Some (Reply_array (map Reply_string (small_set r k))), r)
      else if cmd = ''LLEN'' then (Some (Reply_integer (int (length (small_list r k)))), r)
      else (Some (Reply_error ''ERR''), r))"
| "small_execute [cmd, k, x] r =
     (if cmd = ''LPUSH'' then small_lpush k x r
      else if cmd = ''LPOP'' then small_lpop k x r
      else if cmd = ''SADD'' then small_sadd k x r
      else if cmd = ''SREM'' then (Some (Reply_integer 1), put_set k (filter (\<lambda>y. y \<noteq> x) (small_set r k)) r)
      else (Some (Reply_error ''ERR''), r))"
| "small_execute _ r = (Some (Reply_error ''ERR''), r)"

definition redis_word :: "octstr \<Rightarrow> bool" where
  "redis_word w \<longleftrightarrow> w \<noteq> [] \<and> CHR '' '' \<notin> set w \<and> CHR ''%'' \<notin> set w \<and> CHR 0x00 \<notin> set w"

text \<open>Objects of numbers and texts, written with hexadecimal texts and read back.\<close>

definition hex_text :: "octstr \<Rightarrow> octstr" where
  "hex_text s = concat (map (\<lambda>b. hex02 (of_char b)) s)"

fun unhex_text :: "octstr \<Rightarrow> octstr" where
  "unhex_text (a # b # s) =
     char_of (smpp_db_hex_nibble (of_char a) * 16 + smpp_db_hex_nibble (of_char b)) # unhex_text s"
| "unhex_text _ = []"

fun small_value :: "json \<Rightarrow> octstr" where
  "small_value (J_integer i) = CHR ''i'' # show_int i"
| "small_value (J_string s) = CHR ''s'' # hex_text s"
| "small_value _ = ''n''"

fun small_dumps :: "json \<Rightarrow> octstr" where
  "small_dumps (J_object kvs) = concat (map (\<lambda>(k, v). hex_text k @ '':'' @ small_value v @ '','') kvs)"
| "small_dumps _ = []"

definition small_pair :: "octstr \<Rightarrow> (octstr \<times> json) option" where
  "small_pair s = (case split_at_char (CHR '':'') s of
     [k, v] \<Rightarrow> Some (unhex_text k, if take 1 v = ''i'' then J_integer (atol (tl v))
                                  else if take 1 v = ''s'' then J_string (unhex_text (tl v)) else J_null)
   | _ \<Rightarrow> None)"

definition small_loads :: "octstr \<Rightarrow> json option" where
  "small_loads s = (let kvs = List.map_filter small_pair (split_at_char (CHR '','') s) in
                    if kvs = [] then None else Some (J_object kvs))"

definition small_lib :: "small_redis redis_lib" where
  "small_lib = \<lparr>rl_command = (\<lambda>cmd. small_execute (split_at_char (CHR '' '') cmd)), rl_json_dumps = small_dumps,
     rl_json_loads = small_loads, rl_utf8 = (\<lambda>_. True), rl_junk = 0\<rparr>"

definition small_view :: "small_redis redis_view" where
  "small_view = \<lparr>rv_list = small_list, rv_set = (\<lambda>r k. set (small_set r k)), rv_counter = small_counter,
     rv_word = redis_word\<rparr>"

fun simple_json :: "json \<Rightarrow> bool" where
  "simple_json (J_integer _) = True"
| "simple_json (J_string _) = True"
| "simple_json _ = False"

definition hex_digit :: "char \<Rightarrow> bool" where
  "hex_digit c \<longleftrightarrow> gw_isdigit c \<or> (65 \<le> (of_char c :: nat) \<and> (of_char c :: nat) \<le> 70)"

lemma hex_digit_hex_upper: "d < 16 \<Longrightarrow> hex_digit (hex_upper d)"
  by (auto simp: hex_digit_def hex_upper_def gw_isdigit_def)

lemma hex_text_digits: "c \<in> set (hex_text s) \<Longrightarrow> hex_digit c"
  by (auto simp: hex_text_def hex02_def hex_digit_hex_upper)

lemma unhex_hex_text [simp]: "unhex_text (hex_text s) = s"
proof (induction s)
  case (Cons b s)
  define n where "n = (of_char b :: nat)"
  have n: "n < 256" by (simp add: n_def)
  have "int (n div 16 mod 16) * 16 + int (n mod 16) = int n"
    using n by (simp add: of_nat_mod of_nat_div)
  then have "char_of (int (n div 16 mod 16) * 16 + int (n mod 16)) = b"
    by (simp only:) (simp add: n_def)
  with Cons show ?case
    by (simp add: hex_text_def hex02_def hex_nibble_hex_upper n_def)
qed (simp add: hex_text_def)

lemma small_value_plain:
  "simple_json v \<Longrightarrow> c \<in> set (small_value v) \<Longrightarrow> hex_digit c \<or> c \<in> {CHR ''i'', CHR ''s'', CHR ''-''}"
  by (cases v) (auto simp: show_int_def hex_digit_def dest: hex_text_digits set_show_nat split: if_splits)

lemma hex_digit_plain [simp]: "\<not> hex_digit (CHR '':'')" "\<not> hex_digit (CHR '','')" "\<not> hex_digit (CHR '' '')"
  "\<not> hex_digit (CHR ''%'')" "\<not> hex_digit (CHR 0x00)"
  by (simp_all add: hex_digit_def gw_isdigit_def)

lemma small_pair_written:
  assumes "simple_json v" shows "small_pair (hex_text k @ '':'' @ small_value v) = Some (k, v)"
proof -
  have "CHR '':'' \<notin> set (hex_text k)" using hex_text_digits by fastforce
  moreover have "CHR '':'' \<notin> set (small_value v)" using small_value_plain [OF assms, of "CHR '':''"] by auto
  ultimately have "split_at_char (CHR '':'') (hex_text k @ '':'' @ small_value v) = [hex_text k, small_value v]"
    by (simp add: split_at_char_append split_at_char_no_sep)
  with assms show ?thesis by (cases v) (simp_all add: small_pair_def atol_show_int)
qed

lemma small_pairs_written:
  "\<forall>(k, v)\<in>set kvs. simple_json v \<Longrightarrow>
   List.map_filter small_pair (split_at_char (CHR '','') (small_dumps (J_object kvs))) = kvs"
proof (induction kvs)
  case Nil
  then show ?case by (simp add: small_pair_def List.map_filter_simps)
next
  case (Cons kv kvs)
  obtain k v where kv: "kv = (k, v)" by fastforce
  have v: "simple_json v" using Cons.prems kv by simp
  have "CHR '','' \<notin> set (hex_text k @ '':'' @ small_value v)"
    using hex_text_digits [of "CHR '',''" k] small_value_plain [OF v, of "CHR '',''"] by auto
  from split_at_char_append [OF this] have "split_at_char (CHR '','') (small_dumps (J_object (kv # kvs))) =
      (hex_text k @ '':'' @ small_value v) # split_at_char (CHR '','') (small_dumps (J_object kvs))"
    by (simp add: kv)
  with Cons small_pair_written [OF v, of k] show ?case by (simp add: kv List.map_filter_simps)
qed

lemma small_loads_dumps:
  assumes "\<forall>(k, v)\<in>set kvs. simple_json v" "kvs \<noteq> []"
  shows "small_loads (small_dumps (J_object kvs)) = Some (J_object kvs)"
  using assms by (simp add: small_loads_def small_pairs_written del: small_dumps.simps)

lemma small_get_put [simp]:
  "small_list (put_list k l r) = (small_list r)(k := l)" "small_set (put_list k l r) = small_set r"
  "small_counter (put_list k l r) = small_counter r"
  "small_set (put_set k l r) = (small_set r)(k := l)" "small_list (put_set k l r) = small_list r"
  "small_counter (put_set k l r) = small_counter r"
  "small_counter (put_counter k n r) = (small_counter r)(k := n)" "small_list (put_counter k n r) = small_list r"
  "small_set (put_counter k n r) = small_set r"
  by (simp_all add: fun_eq_iff small_list_def small_set_def small_counter_def put_list_def put_set_def put_counter_def)

lemma split_words:
  "CHR '' '' \<notin> set k \<Longrightarrow> CHR '' '' \<notin> set c \<Longrightarrow> split_at_char (CHR '' '') (c @ CHR '' '' # k) = [c, k]"
  "CHR '' '' \<notin> set k \<Longrightarrow> CHR '' '' \<notin> set c \<Longrightarrow> CHR '' '' \<notin> set x \<Longrightarrow>
     split_at_char (CHR '' '') (c @ CHR '' '' # k @ CHR '' '' # x) = [c, k, x]"
  by (simp_all add: split_at_char_append split_at_char_no_sep)

lemma show_int_no_blank: "CHR '' '' \<notin> set (show_int n)"
  by (auto simp: show_int_def gw_isdigit_def dest: set_show_nat)

lemma small_documented: "redis_documented small_lib small_view"
proof -
  have "lpush_law small_lib small_view"
    unfolding lpush_law_def
  proof (intro allI impI, elim conjE)
    fix r k x assume "list_key small_view r k" "rv_word small_view x"
    moreover from this have "split_at_char (CHR '' '') (''LPUSH'' @ CHR '' '' # k @ CHR '' '' # x) = [''LPUSH'', k, x]"
      by (intro split_words) (simp_all add: list_key_def small_view_def redis_word_def)
    ultimately show "\<exists>n r'. rl_command small_lib (''LPUSH '' @ k @ '' '' @ x) r = (Some (Reply_integer n), r')
        \<and> rv_list small_view r' = (rv_list small_view r)(k := x # rv_list small_view r k)
        \<and> rv_set small_view r' = rv_set small_view r \<and> rv_counter small_view r' = rv_counter small_view r"
      by (simp add: list_key_def small_lib_def small_view_def small_lpush_def)
  qed
  moreover have "lpop_law small_lib small_view"
    unfolding lpop_law_def
  proof (intro allI impI, elim conjE)
    fix r k and n :: int assume "list_key small_view r k" "0 < n"
    moreover from this have "split_at_char (CHR '' '') (''LPOP'' @ CHR '' '' # k @ CHR '' '' # show_int n) = [''LPOP'', k, show_int n]"
      using show_int_no_blank by (intro split_words) (simp_all add: list_key_def small_view_def redis_word_def)
    ultimately show "\<exists>r'. rl_command small_lib (''LPOP '' @ k @ '' '' @ show_int n) r =
             (Some (if rv_list small_view r k = [] then Reply_nil else Reply_array (map Reply_string (take (nat n) (rv_list small_view r k)))), r')
        \<and> rv_list small_view r' = (rv_list small_view r)(k := drop (nat n) (rv_list small_view r k))
        \<and> rv_set small_view r' = rv_set small_view r \<and> rv_counter small_view r' = rv_counter small_view r"
      by (cases "small_list r k = []")
         (simp_all add: list_key_def small_lib_def small_view_def small_lpop_def atol_show_int fun_upd_idem)
  qed
  moreover have "incr_law small_lib small_view"
    unfolding incr_law_def
  proof (intro allI impI, elim conjE)
    fix r k assume "counter_key small_view r k"
    moreover from this have "split_at_char (CHR '' '') (''INCR'' @ CHR '' '' # k) = [''INCR'', k]"
      by (intro split_words) (simp_all add: counter_key_def small_view_def redis_word_def)
    ultimately show "\<exists>r'. rl_command small_lib (''INCR '' @ k) r = (Some (Reply_integer (rv_counter small_view r k + 1)), r')
        \<and> rv_counter small_view r' = (rv_counter small_view r)(k := rv_counter small_view r k + 1)
        \<and> rv_list small_view r' = rv_list small_view r \<and> rv_set small_view r' = rv_set small_view r"
      by (simp add: counter_key_def small_lib_def small_view_def small_incr_def)
  qed
  moreover have "sadd_law small_lib small_view"
    unfolding sadd_law_def
  proof (intro allI impI, elim conjE)
    fix r k x assume "set_key small_view r k" "rv_word small_view x"
    moreover from this have "split_at_char (CHR '' '') (''SADD'' @ CHR '' '' # k @ CHR '' '' # x) = [''SADD'', k, x]"
      by (intro split_words) (simp_all add: set_key_def small_view_def redis_word_def)
    ultimately show "\<exists>n r'. rl_command small_lib (''SADD '' @ k @ '' '' @ x) r = (Some (Reply_integer n), r')
        \<and> rv_set small_view r' = (rv_set small_view r)(k := insert x (rv_set small_view r k))
        \<and> rv_list small_view r' = rv_list small_view r \<and> rv_counter small_view r' = rv_counter small_view r"
      by (auto simp: set_key_def small_lib_def small_view_def small_sadd_def fun_eq_iff)
  qed
  ultimately show ?thesis
    by (simp add: redis_documented_def small_view_def redis_word_def)
qed

section \<open>Examples\<close>

text \<open>Two texts in the store's queue: a mobile-originated message in front of a delivery report.\<close>

definition small_text :: "int \<Rightarrow> int \<Rightarrow> octstr" where
  "small_text gid ty = small_dumps (J_object [(''global_id'', J_integer gid), (''sms_type'', J_integer ty), (''service'', J_string ''abc'')])"

definition small_queue :: "small_redis redis_store" where
  "small_queue = \<lparr>rd_redis = ([(''store:queue'', [small_text 2 mo, small_text 1 report_mo])], [(''store:esmes'', [''abc''])], [(''store:id'', 2)]),
     rd_pending_msg = [], rd_pending_msg_store = [], rd_pending_pdu = [], rd_next_uuid = 0\<rparr>"

lemma small_queue_keys:
  "smpp_redis_store_queue_key_for (Some ''store'') = ''store:queue''"
  "smpp_redis_store_esmes_key_for (Some ''store'') = ''store:esmes''"
  "smpp_redis_store_id_key_for (Some ''store'') = ''store:id''"
  "poll_table example_cfg report_mo (poll_kind example_cfg SMPP_DATABASE_STORE_AUTO) = Some ''store''"
  "poll_table example_cfg mo (poll_kind example_cfg SMPP_DATABASE_STORE_AUTO) = Some ''store''"
  "smpp_database_store_table_name example_cfg SMPP_DATABASE_STORE_PRIMARY = Some ''store''"
  by code_simp+

lemma small_queue_words: "redis_word (small_text 2 mo) \<and> redis_word (small_text 1 report_mo)"
  by code_simp

lemma small_queue_list: "small_list (rd_redis small_queue) ''store:queue'' = [small_text 2 mo, small_text 1 report_mo]"
  by (simp add: small_queue_def small_list_def dict_get_Cons)

lemma small_queue_ready: "store_ready small_view (rd_redis small_queue) (Some ''store'')"
proof -
  have "pollable small_view (rd_redis small_queue) ''store:queue''"
    using small_queue_words small_queue_list
    by (simp add: pollable_def list_key_def small_view_def)
       (simp add: small_queue_def small_set_def small_counter_def dict_get_Cons redis_word_def)
  moreover have "set_key small_view (rd_redis small_queue) ''store:esmes''" "counter_key small_view (rd_redis small_queue) ''store:id''"
    by (simp_all add: set_key_def counter_key_def small_view_def small_queue_def small_list_def small_set_def small_counter_def
        dict_get_Cons redis_word_def)
  moreover have "0 \<le> rv_counter small_view (rd_redis small_queue) ''store:id''"
    by (simp add: small_view_def small_queue_def small_counter_def dict_get_Cons)
  ultimately show ?thesis by (simp add: store_ready_def small_queue_keys)
qed

definition small_object :: "int \<Rightarrow> int \<Rightarrow> (octstr \<times> json) list" where
  "small_object gid ty = [(''global_id'', J_integer gid), (''sms_type'', J_integer ty), (''service'', J_string ''abc'')]"

lemma small_text_loads: "small_loads (small_text gid ty) = Some (J_object (small_object gid ty))"
  unfolding small_text_def small_object_def by (rule small_loads_dumps) simp_all

text \<open>The two fields a poll filters on, read from an object.\<close>

lemma read_keeps:
  assumes "case f of F_INTEGER _ _ put \<Rightarrow> \<forall>v m. sel (put v m) = sel m | F_OCTSTR _ _ put \<Rightarrow> \<forall>v m. sel (put v m) = sel m
    | F_UUID _ _ put \<Rightarrow> \<forall>v m. sel (put v m) = sel m"
  shows "sel (json_read_field G obj m f) = sel m"
  using assms by (cases f) (auto split: option.split json.split)

lemma fold_keeps:
  "\<forall>f\<in>set fs. \<forall>m. sel (json_read_field G obj m f) = sel m \<Longrightarrow> sel (foldl (json_read_field G obj) m fs) = sel m"
  by (induction fs arbitrary: m) simp_all

lemma fold_last_write:
  assumes "msg_decl = fs @ f # fs'" "\<forall>f\<in>set fs'. \<forall>m. sel (json_read_field G obj m f) = sel m"
  shows "sel (foldl (json_read_field G obj) m msg_decl) = sel (json_read_field G obj (foldl (json_read_field G obj) m fs) f)"
  unfolding assms(1) by (simp add: fold_keeps [OF assms(2)])

lemma read_service: "service (smpp_redis_json_to_msg G u obj) = Some (smpp_redis_json_get_octstr obj ''service'')"
proof -
  have "msg_decl = take 8 msg_decl @ F_OCTSTR ''service'' service (\<lambda>v. service_update (\<lambda>_. v)) # drop 9 msg_decl"
    by (simp add: msg_decl_def)
  moreover have "\<forall>f\<in>set (drop 9 msg_decl). \<forall>m. service (json_read_field G obj m f) = service m"
    by (intro ballI allI read_keeps) (auto simp: msg_decl_def)
  ultimately show ?thesis
    using fold_last_write [of "take 8 msg_decl" _ "drop 9 msg_decl" service G obj "sms_create u"]
    by (simp add: smpp_redis_json_to_msg_def decode_payload_def Let_def)
qed

lemma read_sms_type:
  "dict_get obj ''sms_type'' = Some (J_integer ty) \<Longrightarrow> sms_type (smpp_redis_json_to_msg G u obj) = ty"
proof -
  assume ty: "dict_get obj ''sms_type'' = Some (J_integer ty)"
  have "msg_decl = take 11 msg_decl @ F_INTEGER ''sms_type'' sms_type (\<lambda>v. sms_type_update (\<lambda>_. v)) # drop 12 msg_decl"
    by (simp add: msg_decl_def)
  moreover have "\<forall>f\<in>set (drop 12 msg_decl). \<forall>m. sms_type (json_read_field G obj m f) = sms_type m"
    by (intro ballI allI read_keeps) (auto simp: msg_decl_def)
  ultimately show ?thesis
    using fold_last_write [of "take 11 msg_decl" _ "drop 12 msg_decl" sms_type G obj "sms_create u"] ty
    by (simp add: smpp_redis_json_to_msg_def decode_payload_def smpp_redis_json_get_long_def Let_def)
qed

lemma small_object_matches:
  "smpp_redis_store_matches (smpp_redis_json_to_msg G 0 (small_object gid ty)) ty' (Some ''abc'') \<longleftrightarrow> ty = ty'"
proof -
  have "smpp_redis_json_get_octstr (small_object gid ty) ''service'' = ''abc''" "dict_get (small_object gid ty) ''sms_type'' = Some (J_integer ty)"
    by (simp_all add: small_object_def smpp_redis_json_get_octstr_def dict_get_Cons cstr_def)
  then show ?thesis by (simp add: smpp_redis_store_matches_def read_service read_sms_type)
qed

lemma small_claimable:
  "claimable small_lib example_gwlib report_mo (Some ''abc'') (small_text 1 report_mo)"
  "\<not> claimable small_lib example_gwlib report_mo (Some ''abc'') (small_text 2 mo)"
  using small_object_matches by (simp_all add: claimable_def small_lib_def small_text_loads)

text \<open>A message to store.\<close>

definition small_msg :: sms where
  "small_msg = (sms_create 7)\<lparr>sms_type := mo, service := Some ''abc'', sender := Some ''100'', msgdata := Some ''100% sure''\<rparr>"

definition simple_obj :: "(octstr \<times> json) list \<Rightarrow> bool" where
  "simple_obj obj \<longleftrightarrow> (\<forall>x\<in>set obj. simple_json (snd x))"

lemma simple_obj_put [simp]: "simple_obj obj \<Longrightarrow> simple_json j \<Longrightarrow> simple_obj (dict_put obj k j)"
  unfolding simple_obj_def by (induction obj) (auto simp: dict_put_def)

lemma simple_obj_set [simp]:
  "simple_obj obj \<Longrightarrow> simple_json j \<Longrightarrow> simple_obj (json_object_set_new obj k (Some j))"
  "simple_obj obj \<Longrightarrow> simple_obj (json_object_set_new obj k (json_string L s))"
  by (simp_all add: json_object_set_new_def json_string_def)

lemma write_field_simple: "simple_obj obj \<Longrightarrow> simple_obj (json_write_field L G m obj f)"
  by (cases f) (simp_all add: smpp_redis_json_set_str_def)

lemma msg_object_simple: "\<forall>(k, v)\<in>set (msg_object L G m gid). simple_json v"
proof -
  have "simple_obj obj \<Longrightarrow> simple_obj (foldl (json_write_field L G m) obj fs)" for obj fs
    by (induction fs arbitrary: obj) (simp_all add: write_field_simple)
  then have "simple_obj (msg_object L G m gid)" unfolding msg_object_def by (simp add: simple_obj_def [of "[]"])
  then show ?thesis by (auto simp: simple_obj_def)
qed

lemma small_dumps_chars:
  assumes "\<forall>(k, v)\<in>set kvs. simple_json v" "c \<in> set (small_dumps (J_object kvs))"
  shows "hex_digit c \<or> c \<in> {CHR ''i'', CHR ''s'', CHR ''-'', CHR '':'', CHR '',''}"
proof -
  obtain k v where kv: "(k, v) \<in> set kvs" "c \<in> set (hex_text k @ '':'' @ small_value v @ '','')"
    using assms(2) by auto
  with assms(1) have "simple_json v" by auto
  from small_value_plain [OF this, of c] hex_text_digits [of c k] kv(2) show ?thesis by auto
qed

lemma small_dumps_word:
  assumes "\<forall>(k, v)\<in>set kvs. simple_json v" "kvs \<noteq> []"
  shows "redis_word (small_dumps (J_object kvs))"
proof -
  have "small_dumps (J_object kvs) \<noteq> []" using assms(2) by (cases kvs) auto
  moreover have "c \<notin> set (small_dumps (J_object kvs))" if "c \<in> {CHR '' '', CHR ''%'', CHR 0x00}" for c
    using small_dumps_chars [OF assms(1), of c] that by (auto simp del: small_dumps.simps)
  ultimately show ?thesis unfolding redis_word_def by blast
qed

lemma small_uuid:
  "gw_uuid_parse example_gwlib (gw_uuid_unparse example_gwlib 7) = 7" "gw_uuid_valid example_gwlib (gw_uuid_unparse example_gwlib 7)"
  by code_simp+

lemma encoded_text: "json_text small_lib (encode_field v)"
proof -
  have "CHR 0x00 \<notin> set (smpp_db_url_encode_octstr v)" by (rule url_codec.enc_avoids) (simp add: url_safe_def gw_isdigit_def)
  then show ?thesis by (cases v) (auto simp: json_text_def encode_field_def small_lib_def)
qed

lemma small_msg_texts: "\<forall>f\<in>set msg_decl. json_field small_lib example_gwlib (encode_payload small_msg) f"
  using small_uuid
  by (simp add: msg_decl_def json_field_def small_msg_def sms_create_def encode_payload_def encoded_text)
     (simp add: json_text_def small_lib_def)

lemma small_msg_object:
  "rl_json_loads small_lib (smpp_redis_msg_to_json small_lib example_gwlib (encode_payload small_msg) 3) =
     Some (J_object (msg_object small_lib example_gwlib (encode_payload small_msg) 3))"
  "redis_word (smpp_redis_msg_to_json small_lib example_gwlib (encode_payload small_msg) 3)"
proof -
  let ?o = "msg_object small_lib example_gwlib (encode_payload small_msg) 3"
  have "smpp_redis_json_get_long ?o ''global_id'' = 3" using json_roundtrip(2) [OF small_msg_texts, of 3] by (simp add: to_slong_def)
  then have ne: "?o \<noteq> []" by (auto simp: smpp_redis_json_get_long_def)
  have word: "redis_word (small_dumps (J_object ?o))" by (rule small_dumps_word [OF msg_object_simple ne])
  then have "cstr (small_dumps (J_object ?o)) = small_dumps (J_object ?o)" by (intro cstr_word) (simp add: redis_word_def)
  then have json: "smpp_redis_msg_to_json small_lib example_gwlib (encode_payload small_msg) 3 = small_dumps (J_object ?o)"
    by (simp add: smpp_redis_msg_to_json_def small_lib_def del: small_dumps.simps)
  show "rl_json_loads small_lib (smpp_redis_msg_to_json small_lib example_gwlib (encode_payload small_msg) 3) = Some (J_object ?o)"
    unfolding json using small_loads_dumps [OF msg_object_simple ne] by (simp add: small_lib_def del: small_dumps.simps)
  show "redis_word (smpp_redis_msg_to_json small_lib example_gwlib (encode_payload small_msg) 3)"
    unfolding json by (rule word)
qed

section \<open>Properties\<close>



text \<open>
  No message is out of reach of a poll whose limit covers the queue: it claims exactly the
  queued texts that are messages of the type and account asked for.
\<close>

theorem redis_poll_complete:
  assumes "redis_documented L V" "store_ready V (rd_redis d) t" "t = poll_table c ty (poll_kind c kind)" "0 \<le> lmt"
    and "length (rv_list V (rd_redis d) (smpp_redis_store_queue_key_for t)) \<le> nat (if lmt = 0 then 1000 else lmt)"
  shows "\<exists>ps. list_all2 (claim_of L G ty svc) ps (fst (smpp_database_redis_get_stored L G c d ty svc lmt kind))
    \<and> mset ps = filter_mset (claimable L G ty svc) (mset (rv_list V (rd_redis d) (smpp_redis_store_queue_key_for t)))"
  by (rule poll_complete [OF assms])

theorem redis_poll_complete_witness:
  "\<exists>ps. list_all2 (claim_of small_lib example_gwlib report_mo (Some ''abc'')) ps
      (fst (smpp_database_redis_get_stored small_lib example_gwlib example_cfg small_queue report_mo (Some ''abc'') 5 SMPP_DATABASE_STORE_AUTO))
    \<and> mset ps = {#small_text 1 report_mo#}"
  using redis_poll_complete [OF small_documented small_queue_ready small_queue_keys(4) [symmetric], of 5 example_gwlib "Some ''abc''"]
    small_claimable
  by (simp add: small_queue_keys small_queue_list small_view_def)





text \<open>
  A poll whose limit does not cover the messages in front of the one it wants starves: what it
  pops and does not want it pushes back to the head it pops from. If none of the first
  \<open>limit\<close> texts is wanted, the poll returns nothing and leaves the same texts in front, in
  some order, so the next poll does the same, although a wanted text may be queued behind them.
\<close>

theorem redis_poll_starves:
  assumes "redis_documented L V" "store_ready V (rd_redis d) t" "t = poll_table c ty (poll_kind c kind)" "0 < lmt"
    and "\<forall>x\<in>set (take (nat lmt) (rv_list V (rd_redis d) (smpp_redis_store_queue_key_for t))). \<not> claimable L G ty svc x"
  shows "\<exists>d'. smpp_database_redis_get_stored L G c d ty svc lmt kind = ([], d')
    \<and> mset (take (nat lmt) (rv_list V (rd_redis d') (smpp_redis_store_queue_key_for t))) =
        mset (take (nat lmt) (rv_list V (rd_redis d) (smpp_redis_store_queue_key_for t)))
    \<and> drop (nat lmt) (rv_list V (rd_redis d') (smpp_redis_store_queue_key_for t)) =
        drop (nat lmt) (rv_list V (rd_redis d) (smpp_redis_store_queue_key_for t))
    \<and> (\<forall>x\<in>set (take (nat lmt) (rv_list V (rd_redis d') (smpp_redis_store_queue_key_for t))). \<not> claimable L G ty svc x)"
proof -
  let ?q = "smpp_redis_store_queue_key_for t"
  have "pollable V (rd_redis d) ?q" using assms(2) by (simp add: store_ready_def)
  note loop = poll_loop_starves [OF assms(1) this assms(5,4), of t 0]
  have run: "smpp_database_redis_get_stored L G c d ty svc lmt kind = get_stored_loop L G ?q t ty svc lmt 0 0 d"
    using assms(3,4) by (simp add: smpp_database_redis_get_stored_def Let_def)
  show ?thesis
    using loop assms(5) unfolding run by (metis prod.collapse set_mset_mset)
qed

theorem redis_poll_starves_witness:
  "fst (smpp_database_redis_get_stored small_lib example_gwlib example_cfg small_queue report_mo (Some ''abc'') 1 SMPP_DATABASE_STORE_AUTO) = []
   \<and> claimable small_lib example_gwlib report_mo (Some ''abc'') (small_text 1 report_mo)"
  using redis_poll_starves [OF small_documented small_queue_ready small_queue_keys(4) [symmetric], of 1 example_gwlib "Some ''abc''"]
    small_claimable
  by (auto simp: small_queue_keys small_queue_list small_view_def)

end
