(* ===== verification/SqlFacts.thy ===== *)
theory SqlFacts
  imports SqlSetup RedisFacts
begin

text \<open>
  Properties of the relational store: its claims satisfy the contract of Store, an inserted
  message reads back as it was, a claimed message is not handed out again, and the tables the
  program creates do not fit the query of its authentication.
\<close>

section \<open>Claims\<close>

abbreviation sql_claimed :: "'r sql_store \<Rightarrow> octstr set" where
  "sql_claimed d \<equiv> dom (dict_get (sq_pending_msg d))"

lemma execute_frame [simp]:
  "sq_pending_msg (snd (execute L D t d)) = sq_pending_msg d"
  "sq_pending_msg_store (snd (execute L D t d)) = sq_pending_msg_store d"
  by (simp_all add: execute_def split: prod.splits)

lemma claim_rows_claims:
  "sql_claimed (snd (claim_rows t rows d)) = sql_claimed d \<union> row_key ` set rows \<and> length (fst (claim_rows t rows d)) = length rows"
proof (induction rows arbitrary: d)
  case (Cons row rows)
  let ?d = "d\<lparr>sq_next_uuid := sq_next_uuid d + 1, sq_pending_msg := dict_put (sq_pending_msg d) (row_key row) (),
    sq_pending_msg_store := dict_put (sq_pending_msg_store d) (row_key row) t\<rparr>"
  have "sql_claimed ?d = insert (row_key row) (sql_claimed d)" by (auto simp: dom_def)
  with Cons.IH [of ?d] show ?case by (auto simp: case_prod_beta Let_def)
qed simp

lemma claim_rows_ids: "map dm_global_id (fst (claim_rows t rows d)) = map (\<lambda>row. to_ulong (atol (get_cstr (col row 0)))) rows"
  by (induction rows arbitrary: d) (simp_all add: case_prod_beta Let_def)

interpretation sql_claims: claiming_store "smpp_database_mysql_get_stored L D c" "smpp_database_mysql_remove L D c" sql_claimed
  for L :: "'r sql_lib" and D c
proof unfold_locales
  fix d :: "'r sql_store" and ty svc lmt kind gid tmp
  show "sql_claimed d \<subseteq> sql_claimed (snd (smpp_database_mysql_get_stored L D c d ty svc lmt kind))"
    by (simp add: smpp_database_mysql_get_stored_def claim_rows_claims)
  show "fst (smpp_database_mysql_get_stored L D c d ty svc lmt kind) = [] \<Longrightarrow>
      sql_claimed (snd (smpp_database_mysql_get_stored L D c d ty svc lmt kind)) = sql_claimed d"
    unfolding smpp_database_mysql_get_stored_def by (metis claim_rows.simps(1) claim_rows_claims length_0_conv snd_conv)
  show "sql_claimed (snd (smpp_database_mysql_remove L D c d gid tmp)) = sql_claimed d - {show_nat gid}"
    by (auto simp: smpp_database_mysql_remove_def Let_def case_prod_beta dom_def split: if_splits)
  show "fst (smpp_database_mysql_remove L D c d gid True) \<Longrightarrow> show_nat gid \<in> sql_claimed d"
    by (auto simp: smpp_database_mysql_remove_def Let_def)
qed

section \<open>An inserted message and its row\<close>

text \<open>The columns an insert names and the values it gives them.\<close>

fun written_column :: "gwlib \<Rightarrow> sms \<Rightarrow> field \<Rightarrow> (octstr \<times> octstr) list" where
  "written_column G m (F_INTEGER n get _) = [(n, show_int (get m))]"
| "written_column G m (F_OCTSTR n get _) = (case get m of None \<Rightarrow> [] | Some v \<Rightarrow> [(n, v)])"
| "written_column G m (F_UUID n get _) = [(n, gw_uuid_unparse G (get m))]"

definition written :: "gwlib \<Rightarrow> sms \<Rightarrow> field list \<Rightarrow> (octstr \<times> octstr) list" where
  "written G m fs = concat (map (written_column G m) fs)"

definition with_commas :: "octstr list \<Rightarrow> octstr" where
  "with_commas xs = concat (map (\<lambda>x. x @ '','') xs)"

lemma write_column_mysql:
  "write_column G DBPOOL_MYSQL m (cols, (t, binds)) f =
     (cols @ with_commas (map fst (written_column G m f)),
      (t @ with_commas (map (\<lambda>_. ''?'') (written_column G m f)), binds @ map (Some \<circ> snd) (written_column G m f)))"
  by (cases f) (auto simp: with_commas_def smpp_db_sql_append_insert_long_def smpp_db_sql_append_insert_value_def
      smpp_db_sql_is_pgsql_def split: option.splits)

lemma write_columns_mysql:
  "foldl (write_column G DBPOOL_MYSQL m) (cols, (t, binds)) fs =
     (cols @ with_commas (map fst (written G m fs)),
      (t @ with_commas (map (\<lambda>_. ''?'') (written G m fs)), binds @ map (Some \<circ> snd) (written G m fs)))"
proof (induction fs arbitrary: cols t binds)
  case (Cons f fs)
  then show ?case
    by (simp only: foldl_Cons write_column_mysql) (simp add: written_def with_commas_def comp_def)
qed (simp add: written_def with_commas_def)

lemma written_names: "fst ` set (written_column G m f) \<subseteq> {field_name f}"
  by (cases f) (auto split: option.splits)

lemma written_all_names: "fst ` set (written G m fs) \<subseteq> field_name ` set fs"
  by (induction fs) (use written_names in \<open>fastforce simp: written_def\<close>)+

lemma written_lookup:
  "distinct (map field_name fs) \<Longrightarrow> f \<in> set fs \<Longrightarrow>
   map_of (written G m fs) (field_name f) = map_option snd (case written_column G m f of [] \<Rightarrow> None | x # _ \<Rightarrow> Some x)"
proof (induction fs)
  case (Cons g gs)
  have other: "map_of (written_column G m g) (field_name f) = None" if "field_name f \<noteq> field_name g"
    using written_names [of G m g] that by (auto simp: map_of_eq_None_iff)
  have none: "map_of (written G m gs) (field_name g) = None" if "field_name g \<notin> field_name ` set gs"
    using written_all_names [of G m gs] that unfolding map_of_eq_None_iff by blast
  have own: "map_of (written_column G m g @ xs) (field_name g) =
      (case written_column G m g of [] \<Rightarrow> map_of xs (field_name g) | x # _ \<Rightarrow> Some (snd x))" for xs
    by (cases g) (auto split: option.splits)
  show ?case
  proof (cases "f = g")
    case True
    have w: "written G m (g # gs) = written_column G m g @ written G m gs" by (simp add: written_def)
    have "map_of (written G m gs) (field_name g) = None" using none Cons.prems by simp
    then show ?thesis unfolding True w own by (simp split: list.split)
  next
    case False
    then have "f \<in> set gs" using Cons.prems(2) by simp
    then have "field_name f \<noteq> field_name g" using Cons.prems(1) by (metis distinct.simps(2) image_eqI list.map(2) set_map)
    note this \<open>f \<in> set gs\<close>
    with Cons other show ?thesis by (simp add: written_def map_add_def)
  qed
qed simp

text \<open>The row of an inserted message: the columns the insert did not name are null.\<close>

definition inserted_row :: "gwlib \<Rightarrow> octstr \<Rightarrow> sms \<Rightarrow> octstr option list" where
  "inserted_row G gid m = Some gid # map (\<lambda>f. map_of (written G m msg_decl) (field_name f)) msg_decl"

text \<open>What the row makes of a message: an empty string reads back as null, except the text; the identifier is new.\<close>

definition null_if_empty :: "octstr option \<Rightarrow> octstr option" where
  "null_if_empty v = (if octstr_len v = 0 then None else v)"

definition row_form :: "uuid \<Rightarrow> sms \<Rightarrow> sms" where
  "row_form u m = m\<lparr>sender := null_if_empty (sender m), receiver := null_if_empty (receiver m),
     udhdata := null_if_empty (udhdata m), msgdata := str_or_empty (msgdata m), smsc_id := null_if_empty (smsc_id m),
     smsc_number := null_if_empty (smsc_number m), foreign_id := null_if_empty (foreign_id m),
     service := null_if_empty (service m), account := null_if_empty (account m), dlr_url := null_if_empty (dlr_url m),
     charset := null_if_empty (charset m), boxc_id := null_if_empty (boxc_id m), binfo := null_if_empty (binfo m),
     meta_data := null_if_empty (meta_data m), sms_id := u\<rparr>"

fun field_back :: "sms \<Rightarrow> sms \<Rightarrow> field \<Rightarrow> sms" where
  "field_back m a (F_INTEGER _ get put) = put (get m) a"
| "field_back m a (F_OCTSTR _ get put) = (if 0 < octstr_len (get m) then put (get m) a else a)"
| "field_back m a (F_UUID _ get put) = a"

lemma read_column_written:
  assumes "col row i = map_option snd (case written_column G m f of [] \<Rightarrow> None | x # _ \<Rightarrow> Some x)"
  shows "read_column row a (i, f) = field_back m a f"
proof (cases f)
  case (F_INTEGER n get put)
  have "cstr (show_int (get m)) = show_int (get m)" using show_int_no_null by (rule cstr_word)
  with assms F_INTEGER show ?thesis by (simp add: get_cstr_def atol_show_int)
next
  case (F_OCTSTR n get put)
  with assms show ?thesis by (cases "get m") simp_all
qed simp

lemma read_columns_written:
  assumes "\<forall>(i, f)\<in>set (enumerate k fs). col row i = map_option snd (case written_column G m f of [] \<Rightarrow> None | x # _ \<Rightarrow> Some x)"
  shows "foldl (read_column row) a (enumerate k fs) = foldl (field_back m) a fs"
  using assms
proof (induction fs arbitrary: k a)
  case (Cons f fs)
  then have "read_column row a (k, f) = field_back m a f" by (intro read_column_written) auto
  with Cons show ?case by auto
qed simp

lemma inserted_row_col:
  assumes "(i, f) \<in> set (enumerate 1 msg_decl)"
  shows "col (inserted_row G gid m) i = map_option snd (case written_column G m f of [] \<Rightarrow> None | x # _ \<Rightarrow> Some x)"
proof -
  have f: "f = msg_decl ! (i - 1)" "i - 1 < length msg_decl" "1 \<le> i"
    using assms by (auto simp: in_set_enumerate_eq)
  then have "col (inserted_row G gid m) i = map_of (written G m msg_decl) (field_name f)"
    by (auto simp: col_def inserted_row_def nth_Cons')
  also have "\<dots> = map_option snd (case written_column G m f of [] \<Rightarrow> None | x # _ \<Rightarrow> Some x)"
    using f by (intro written_lookup msg_decl_names) simp
  finally show ?thesis .
qed

lemma null_puts:
  "sender a = None \<Longrightarrow> (if 0 < octstr_len v then a\<lparr>sender := v\<rparr> else a) = a\<lparr>sender := null_if_empty v\<rparr>"
  "receiver a = None \<Longrightarrow> (if 0 < octstr_len v then a\<lparr>receiver := v\<rparr> else a) = a\<lparr>receiver := null_if_empty v\<rparr>"
  "udhdata a = None \<Longrightarrow> (if 0 < octstr_len v then a\<lparr>udhdata := v\<rparr> else a) = a\<lparr>udhdata := null_if_empty v\<rparr>"
  "msgdata a = None \<Longrightarrow> (if 0 < octstr_len v then a\<lparr>msgdata := v\<rparr> else a) = a\<lparr>msgdata := null_if_empty v\<rparr>"
  "smsc_id a = None \<Longrightarrow> (if 0 < octstr_len v then a\<lparr>smsc_id := v\<rparr> else a) = a\<lparr>smsc_id := null_if_empty v\<rparr>"
  "smsc_number a = None \<Longrightarrow> (if 0 < octstr_len v then a\<lparr>smsc_number := v\<rparr> else a) = a\<lparr>smsc_number := null_if_empty v\<rparr>"
  "foreign_id a = None \<Longrightarrow> (if 0 < octstr_len v then a\<lparr>foreign_id := v\<rparr> else a) = a\<lparr>foreign_id := null_if_empty v\<rparr>"
  "service a = None \<Longrightarrow> (if 0 < octstr_len v then a\<lparr>service := v\<rparr> else a) = a\<lparr>service := null_if_empty v\<rparr>"
  "account a = None \<Longrightarrow> (if 0 < octstr_len v then a\<lparr>account := v\<rparr> else a) = a\<lparr>account := null_if_empty v\<rparr>"
  "dlr_url a = None \<Longrightarrow> (if 0 < octstr_len v then a\<lparr>dlr_url := v\<rparr> else a) = a\<lparr>dlr_url := null_if_empty v\<rparr>"
  "charset a = None \<Longrightarrow> (if 0 < octstr_len v then a\<lparr>charset := v\<rparr> else a) = a\<lparr>charset := null_if_empty v\<rparr>"
  "boxc_id a = None \<Longrightarrow> (if 0 < octstr_len v then a\<lparr>boxc_id := v\<rparr> else a) = a\<lparr>boxc_id := null_if_empty v\<rparr>"
  "binfo a = None \<Longrightarrow> (if 0 < octstr_len v then a\<lparr>binfo := v\<rparr> else a) = a\<lparr>binfo := null_if_empty v\<rparr>"
  "meta_data a = None \<Longrightarrow> (if 0 < octstr_len v then a\<lparr>meta_data := v\<rparr> else a) = a\<lparr>meta_data := null_if_empty v\<rparr>"
  by (cases a; simp add: null_if_empty_def)+

fun put_null :: "sms \<Rightarrow> sms \<Rightarrow> field \<Rightarrow> sms" where
  "put_null m a (F_INTEGER _ get put) = put (get m) a"
| "put_null m a (F_OCTSTR _ get put) = put (null_if_empty (get m)) a"
| "put_null m a (F_UUID _ get put) = a"

lemma sms_create_null:
  "sender (sms_create u) = None" "receiver (sms_create u) = None" "udhdata (sms_create u) = None" "msgdata (sms_create u) = None" "smsc_id (sms_create u) = None" "smsc_number (sms_create u) = None" "foreign_id (sms_create u) = None"
  "service (sms_create u) = None" "account (sms_create u) = None" "dlr_url (sms_create u) = None" "charset (sms_create u) = None" "boxc_id (sms_create u) = None" "binfo (sms_create u) = None" "meta_data (sms_create u) = None"
  by (simp_all add: sms_create_def)

lemma field_back_all:
  "decode_payload (foldl (field_back (encode_payload m)) (sms_create u) msg_decl) = row_form u m"
proof -
  have blank: "null_if_empty (Some []) = None" "null_if_empty None = None" by (simp_all add: null_if_empty_def)
  have raw: "foldl (field_back n) (sms_create u) msg_decl =
      (row_form u n)\<lparr>msgdata := null_if_empty (msgdata n)\<rparr>" for n
  proof -
    have "foldl (field_back n) (sms_create u) msg_decl = foldl (put_null n) (sms_create u) msg_decl"
      by (simp add: msg_decl_def null_puts sms_create_null del: if_split)
    also have "\<dots> = (row_form u n)\<lparr>msgdata := null_if_empty (msgdata n)\<rparr>"
      by (cases n) (simp add: msg_decl_def sms_create_def row_form_def)
    finally show ?thesis .
  qed
  have dec: "decode_field (null_if_empty (encode_field v)) = null_if_empty v" for v
  proof (cases v)
    case (Some s)
    have "encode_field v = v" if "s = []" using Some that by (simp add: encode_field_def)
    moreover have "smpp_db_url_encode_octstr v \<noteq> []" if "s \<noteq> []"
      using that Some by (cases s) (simp_all add: smpp_db_url_encode_octstr_def)
    ultimately show ?thesis
      using Some decode_encode_field [of v] by (cases "s = []") (simp_all add: null_if_empty_def encode_field_def decode_field_def)
  qed (simp add: null_if_empty_def encode_field_def decode_field_def)
  have "str_or_empty v = (case null_if_empty v of None \<Rightarrow> Some [] | Some s \<Rightarrow> Some s)" for v
    by (cases v) (auto simp: str_or_empty_def null_if_empty_def)
  then show ?thesis
    unfolding raw by (simp add: decode_payload_def row_form_def encode_payload_def dec Let_def split: option.splits)
qed

section \<open>Polls and claims\<close>

text \<open>
  What a poll needs of the server: its NOT IN excludes the rows in process, and the row
  identifier is a 64-bit number in decimal.
\<close>

definition excludes_pending :: "'r sql_lib \<Rightarrow> db_type \<Rightarrow> server_cfg \<Rightarrow> bool" where
  "excludes_pending L D c \<longleftrightarrow> (\<forall>d pending ty svc kind. \<forall>row\<in>set (query L D (stored_query D c pending ty svc kind) d).
     row_key row \<notin> set pending \<and> (\<exists>n < 2 ^ 64. col row 0 = Some (show_nat n)))"

lemma show_nat_no_null: "CHR 0x00 \<notin> set (show_nat n)"
  using set_show_nat by (fastforce simp: gw_isdigit_def)

lemma row_id:
  assumes "col row 0 = Some (show_nat n)" "n < 2 ^ 64"
  shows "row_key row = show_nat (to_ulong (atol (get_cstr (col row 0))))"
  using assms atol_show_int [of "int n"] show_nat_no_null [of n]
  by (simp add: row_key_def get_cstr_def cstr_word show_int_nat to_ulong_id)

lemma poll_claims:
  assumes "excludes_pending L D c" "dm \<in> set (fst (smpp_database_mysql_get_stored L D c d ty svc lmt kind))"
  shows "show_nat (dm_global_id dm) \<notin> sql_claimed d
    \<and> show_nat (dm_global_id dm) \<in> sql_claimed (snd (smpp_database_mysql_get_stored L D c d ty svc lmt kind))"
proof -
  let ?rows = "query L D (stored_query D c (dict_keys (sq_pending_msg d)) ty svc kind) d"
  have "dm_global_id dm \<in> set (map dm_global_id (fst (smpp_database_mysql_get_stored L D c d ty svc lmt kind)))"
    using assms(2) by simp
  then obtain row where row: "row \<in> set ?rows" "dm_global_id dm = to_ulong (atol (get_cstr (col row 0)))"
    unfolding smpp_database_mysql_get_stored_def claim_rows_ids by auto
  have "row_key row \<notin> set (dict_keys (sq_pending_msg d)) \<and> (\<exists>n < 2 ^ 64. col row 0 = Some (show_nat n))"
    using assms(1) row(1) unfolding excludes_pending_def by blast
  then have "row_key row \<notin> set (dict_keys (sq_pending_msg d))" "row_key row = show_nat (dm_global_id dm)"
    using row_id [of row] row(2) by metis+
  with row(1) show ?thesis
    unfolding smpp_database_mysql_get_stored_def claim_rows_claims [THEN conjunct1] by (metis UnI2 image_eqI set_dict_keys)
qed

section \<open>Examples\<close>

text \<open>A server with one message, number 7, that answers a query with a parenthesis, so one with an exclusion, with no rows.\<close>

definition one_row_lib :: "unit sql_lib" where
  "one_row_lib = \<lparr>sl_select = (\<lambda>sql binds r. Some (if CHR '')'' \<in> set sql then [] else [[Some ''7'']])),
     sl_update = (\<lambda>sql binds r. (1, r)), sl_junk = 0\<rparr>"

definition empty_sql_store :: "unit sql_store" where
  "empty_sql_store = \<lparr>sq_server = (), sq_pending_msg = [], sq_pending_msg_store = [], sq_pending_pdu = [], sq_next_uuid = 0\<rparr>"

lemma show_seven: "show_nat 7 = ''7''"
  by code_simp

lemma seven_id: "to_ulong (atol (get_cstr (col [Some ''7''] 0))) = 7"
  using row_id [of "[Some ''7'']" 7] by (simp add: col_def row_key_def show_nat_inj flip: show_seven)

lemma one_row_excludes: "excludes_pending one_row_lib DBPOOL_MYSQL c"
proof -
  have excluded: "CHR '')'' \<in> set (fst (stored_query DBPOOL_MYSQL c pending ty svc kind))" if "pending \<noteq> []" for pending ty svc kind
    using that by (simp add: stored_query_def append_sql_def not_in_def Let_def)
  have seven: "row_key [Some ''7''] = ''7''" "col [Some ''7''] 0 = Some (show_nat 7)"
    by (simp_all add: row_key_def col_def show_seven)
  show ?thesis
    unfolding excludes_pending_def
  proof (intro allI ballI conjI)
    fix d pending ty svc kind row
    assume row: "row \<in> set (query one_row_lib DBPOOL_MYSQL (stored_query DBPOOL_MYSQL c pending ty svc kind) d)"
    then have r: "row = [Some ''7'']" "CHR '')'' \<notin> set (fst (stored_query DBPOOL_MYSQL c pending ty svc kind))"
      by (auto simp: query_def one_row_lib_def split: if_splits)
    then have "pending = []" using excluded by blast
    then show "row_key row \<notin> set pending" by simp
    show "\<exists>n < 2 ^ 64. col row 0 = Some (show_nat n)" using r(1) seven(2) by (intro exI [of _ 7]) simp
  qed
qed

lemma one_row_poll:
  "query one_row_lib DBPOOL_MYSQL (stored_query DBPOOL_MYSQL example_cfg (dict_keys (sq_pending_msg empty_sql_store)) mo None SMPP_DATABASE_STORE_AUTO) empty_sql_store
     = [[Some ''7'']]"
proof -
  have store: "poll_table example_cfg mo (poll_kind example_cfg SMPP_DATABASE_STORE_AUTO) = Some ''store''" by (rule small_queue_keys)
  have "CHR '')'' \<notin> set stored_columns" by (simp add: stored_columns_def msg_decl_def)
  moreover have "CHR '')'' \<notin> set (show_int n)" for n by (auto simp: show_int_def gw_isdigit_def dest: set_show_nat)
  ultimately have "CHR '')'' \<notin> set (fst (stored_query DBPOOL_MYSQL example_cfg [] mo None SMPP_DATABASE_STORE_AUTO))"
    by (simp add: stored_query_def append_sql_def not_in_def fmt_S_def store del: One_nat_def)
  then show ?thesis by (simp add: query_def one_row_lib_def empty_sql_store_def dict_keys_def)
qed

section \<open>Properties\<close>

text \<open>
  C27: A stored message reads back from its row. The MySQL insert names the columns of all numbers,
  of the identifier and of the strings that are not null, in the order of the declaration, and
  binds their values in the same order, one placeholder each; the row with these values and null
  in the other columns is read as the stored message, where binary fields come back unchanged, an
  empty string comes back as null, an absent text as the empty one, and the identifier is a new
  one (the stored identifier is not recovered).
\<close>

theorem sql_message_roundtrip:
  "insert_text G DBPOOL_MYSQL t (encode_payload m) =
     (''INSERT INTO '' @ fmt_S t @ '' ( '' @ butlast (with_commas (map fst (written G (encode_payload m) msg_decl))) @
      '' ) VALUES ( '' @ butlast (with_commas (map (\<lambda>_. ''?'') (written G (encode_payload m) msg_decl))) @ '');'',
      map (Some \<circ> snd) (written G (encode_payload m) msg_decl))
   \<and> row_msg u (inserted_row G gid (encode_payload m)) = row_form u m"
proof
  have "with_commas (map fst (written G (encode_payload m) msg_decl)) \<noteq> []"
    "with_commas (map (\<lambda>_. ''?'') (written G (encode_payload m) msg_decl)) \<noteq> []"
    by (auto simp: with_commas_def written_def msg_decl_def)
  then show "insert_text G DBPOOL_MYSQL t (encode_payload m) =
     (''INSERT INTO '' @ fmt_S t @ '' ( '' @ butlast (with_commas (map fst (written G (encode_payload m) msg_decl))) @
      '' ) VALUES ( '' @ butlast (with_commas (map (\<lambda>_. ''?'') (written G (encode_payload m) msg_decl))) @ '');'',
      map (Some \<circ> snd) (written G (encode_payload m) msg_decl))"
    by (simp add: insert_text_def write_columns_mysql butlast_append)
  show "row_msg u (inserted_row G gid (encode_payload m)) = row_form u m"
    unfolding row_msg_def
    by (subst read_columns_written [where G = G and m = "encode_payload m"])
       (use inserted_row_col [where m = "encode_payload m"] in \<open>auto simp: field_back_all\<close>)
qed

text \<open>
  C17: A message in process is not handed out twice. Once a poll has returned a message, no later
  poll returns one with its identifier, whatever other polls and removals happen in between, until
  it is removed itself: for every type, account and kind of poll, and both dialects.
\<close>

theorem sql_no_double_claim:
  assumes "excludes_pending L D c"
    and "dm \<in> set (fst (smpp_database_mysql_get_stored L D c d ty svc lmt kind))"
    and "\<And>tmp. Op_delete (dm_global_id dm) tmp \<notin> set ops"
    and "dm' \<in> set (fst (smpp_database_mysql_get_stored L D c
            (run_store (smpp_database_mysql_get_stored L D c) (smpp_database_mysql_remove L D c) ops
               (snd (smpp_database_mysql_get_stored L D c d ty svc lmt kind))) ty' svc' lmt' kind'))"
  shows "dm_global_id dm' \<noteq> dm_global_id dm"
proof
  assume same: "dm_global_id dm' = dm_global_id dm"
  have "show_nat (dm_global_id dm) \<in> sql_claimed (run_store (smpp_database_mysql_get_stored L D c) (smpp_database_mysql_remove L D c) ops
               (snd (smpp_database_mysql_get_stored L D c d ty svc lmt kind)))"
    using poll_claims [OF assms(1,2)] assms(3) by (intro sql_claims.claim_persists) (auto simp: show_nat_inj)
  with poll_claims [OF assms(1,4)] same show False by simp
qed

theorem sql_no_double_claim_witness:
  "7 \<notin> set (map dm_global_id (fst (smpp_database_mysql_get_stored one_row_lib DBPOOL_MYSQL example_cfg
            (run_store (smpp_database_mysql_get_stored one_row_lib DBPOOL_MYSQL example_cfg) (smpp_database_mysql_remove one_row_lib DBPOOL_MYSQL example_cfg)
               [Op_delete 8 False] (snd (smpp_database_mysql_get_stored one_row_lib DBPOOL_MYSQL example_cfg empty_sql_store mo None 5 SMPP_DATABASE_STORE_AUTO)))
            mo None 5 SMPP_DATABASE_STORE_AUTO)))"
proof -
  have "map dm_global_id (fst (smpp_database_mysql_get_stored one_row_lib DBPOOL_MYSQL example_cfg empty_sql_store mo None 5 SMPP_DATABASE_STORE_AUTO)) = [7]"
    unfolding smpp_database_mysql_get_stored_def claim_rows_ids one_row_poll by (simp add: seven_id)
  then obtain dm where "dm \<in> set (fst (smpp_database_mysql_get_stored one_row_lib DBPOOL_MYSQL example_cfg empty_sql_store mo None 5 SMPP_DATABASE_STORE_AUTO))"
    "dm_global_id dm = 7" by fastforce
  with sql_no_double_claim [OF one_row_excludes this(1), of "[Op_delete 8 False]"] show ?thesis by auto
qed

end
