(* ===== verification/HttpRouter.thy ===== *)
theory HttpRouter
  imports System Store
begin

text \<open>
  The HTTP router of smpp_http_client.c: requests are queued, sent to the routing URL with the
  message in the headers while fewer than the limit are outstanding, and answered from the headers
  of the response. The responses are inputs. The list of requests the server waits for
  (s_pending_routes) is the concatenation of the requests sent and those still queued.
\<close>

section \<open>Headers\<close>

definition http_header_key :: "octstr \<Rightarrow> octstr" where
  "http_header_key name = ''X-KSMPPD-'' @ map (\<lambda>c. if c = CHR ''_'' then CHR ''-'' else c) name"

text \<open>Header names are compared without case; the names of a response are in lower case.\<close>

definition http_header_value :: "(octstr, octstr) dict \<Rightarrow> octstr \<Rightarrow> octstr option" where
  "http_header_value hs name = dict_get hs (octstr_lower name)"

text \<open>\<open>enc\<close> is the percent-encoding of the format \<open>%E\<close>.\<close>

fun field_headers :: "gwlib \<Rightarrow> (octstr \<Rightarrow> octstr) \<Rightarrow> sms \<Rightarrow> field \<Rightarrow> (octstr \<times> octstr) list" where
  "field_headers G enc m (F_INTEGER n get _) = (if get m \<noteq> -1 then [(http_header_key n, show_int (get m))] else [])"
| "field_headers G enc m (F_OCTSTR n get _) = (case get m of None \<Rightarrow> [] | Some v \<Rightarrow> (if v = [] then [] else [(http_header_key n, enc v)]))"
| "field_headers G enc m (F_UUID n get _) = [(http_header_key n, gw_uuid_unparse G (get m))]"

definition smpp_http_client_msg_to_headers :: "gwlib \<Rightarrow> (octstr \<Rightarrow> octstr) \<Rightarrow> sms \<Rightarrow> (octstr \<times> octstr) list" where
  "smpp_http_client_msg_to_headers G enc m = concat (map (field_headers G enc m) msg_decl)"

section \<open>The answer of the routing service\<close>

text \<open>A header with a value replaces the field; an identifier that does not parse is left alone.\<close>

fun header_field :: "gwlib \<Rightarrow> (octstr, octstr) dict \<Rightarrow> sms \<Rightarrow> field \<Rightarrow> sms" where
  "header_field G hs m (F_INTEGER n _ put) = header_or hs (octstr_lower (http_header_key n)) (\<lambda>v. put (atol v) m) m"
| "header_field G hs m (F_OCTSTR n _ put) = header_or hs (octstr_lower (http_header_key n)) (\<lambda>v. put (Some v) m) m"
| "header_field G hs m (F_UUID n _ put) =
     header_or hs (octstr_lower (http_header_key n)) (\<lambda>v. if gw_uuid_valid G v then put (gw_uuid_parse G v) m else m) m"

definition http_changes :: "gwlib \<Rightarrow> (octstr, octstr) dict \<Rightarrow> int \<Rightarrow> sms \<Rightarrow> sms" where
  "http_changes G hs direction m =
     (let m' = foldl (header_field G hs) m msg_decl in
      if direction = SMPP_ROUTE_DIRECTION_OUTBOUND then m'\<lparr>service := service m\<rparr>
      else if direction = SMPP_ROUTE_DIRECTION_INBOUND then m'\<lparr>smsc_id := smsc_id m\<rparr>
      else m')"

definition http_route_result :: "gwlib \<Rightarrow> (octstr, octstr) dict \<Rightarrow> int \<Rightarrow> route_status \<Rightarrow> sms \<Rightarrow> route_status \<times> sms" where
  "http_route_result G hs direction rs m =
     (let fail = rs\<lparr>rs_status := SMPP_ESME_RSUBMITFAIL\<rparr> in
      case http_header_value hs ''X-KSMPPD-Route-Status'' of
        None \<Rightarrow> (fail, m)
      | Some v \<Rightarrow>
          (if atol v \<noteq> 0 then
             (case http_header_value hs ''X-KSMPPD-Route-Cost'' of
                None \<Rightarrow> (fail, m)
              | Some c \<Rightarrow>
                  (if gw_is_double G c
                   then (rs\<lparr>rs_status := SMPP_ESME_ROK, rs_cost := gw_octstr_parse_double G c\<rparr>, http_changes G hs direction m)
                   else (fail, m)))
           else (header_or hs (octstr_lower ''X-KSMPPD-Route-Error-Code'')
                   (\<lambda>v. rs\<lparr>rs_status := (if atol v = SMPP_ESME_ROK then SMPP_ESME_RSUBMITFAIL else atol v)\<rparr>) fail, m)))"

section \<open>The queue of requests\<close>

record http_request =
  hq_direction :: int
  hq_smsc_id :: "octstr option"
  hq_system_id :: "octstr option"
  hq_msg :: sms
  hq_callback :: route_callback
  hq_status :: route_status

text \<open>\<open>hr_sent\<close> are the requests the HTTP caller has and whose result has not been received.\<close>

record http_routing =
  hr_max_outstanding :: int
  hr_outstanding :: counter
  hr_queued :: "http_request list"
  hr_sent :: "http_request list"

definition smpp_http_client_route_message ::
  "gwlib \<Rightarrow> int \<Rightarrow> octstr option \<Rightarrow> octstr option \<Rightarrow> sms \<Rightarrow> route_callback \<Rightarrow> http_routing \<Rightarrow> http_routing" where
  "smpp_http_client_route_message G direction smsc sid m cb h =
     h\<lparr>hr_queued := hr_queued h @ [\<lparr>hq_direction = direction, hq_smsc_id = smsc, hq_system_id = sid, hq_msg = m,
                                    hq_callback = cb, hq_status = smpp_route_status_create G m\<rparr>]\<rparr>"

definition request_headers :: "gwlib \<Rightarrow> (octstr \<Rightarrow> octstr) \<Rightarrow> http_request \<Rightarrow> (octstr \<times> octstr) list" where
  "request_headers G enc q =
     smpp_http_client_msg_to_headers G enc (hq_msg q) @ [(''X-KSMPPD-Routing-Direction'', show_int (hq_direction q))]"

fun send_requests :: "gwlib \<Rightarrow> (octstr \<Rightarrow> octstr) \<Rightarrow> nat \<Rightarrow> http_routing \<Rightarrow> (octstr \<times> octstr) list list \<times> http_routing" where
  "send_requests G enc 0 h = ([], h)"
| "send_requests G enc (Suc n) h =
     (case hr_queued h of
        [] \<Rightarrow> ([], h)
      | q # qs \<Rightarrow>
          (let (reqs, h) = send_requests G enc n
                 (h\<lparr>hr_queued := qs, hr_outstanding := hr_outstanding h + 1, hr_sent := hr_sent h @ [q]\<rparr>)
           in (request_headers G enc q # reqs, h)))"

text \<open>One round of the request thread, with the headers of the requests it sends.\<close>

definition smpp_http_client_request_thread ::
  "gwlib \<Rightarrow> (octstr \<Rightarrow> octstr) \<Rightarrow> http_routing \<Rightarrow> (octstr \<times> octstr) list list \<times> http_routing" where
  "smpp_http_client_request_thread G enc h =
     (if hr_max_outstanding h \<le> int (hr_outstanding h) then ([], h)
      else send_requests G enc (nat (hr_max_outstanding h - int (hr_outstanding h))) h)"

text \<open>The result of the n-th outstanding request: its callback, the status and the message for it.\<close>

definition receive_result ::
  "gwlib \<Rightarrow> nat \<Rightarrow> (octstr, octstr) dict \<Rightarrow> http_routing \<Rightarrow> ((route_callback \<times> route_status \<times> sms) \<times> http_routing) option" where
  "receive_result G n hs h =
     (if n < length (hr_sent h)
      then let q = hr_sent h ! n in
           Some ((hq_callback q, http_route_result G hs (hq_direction q) (hq_status q) (hq_msg q)),
                 h\<lparr>hr_outstanding := hr_outstanding h - 1, hr_sent := take n (hr_sent h) @ drop (Suc n) (hr_sent h)\<rparr>)
      else None)"

definition http_pending :: "http_routing \<Rightarrow> (route_callback \<times> sms) list" where
  "http_pending h = map (\<lambda>q. (hq_callback q, hq_msg q)) (hr_sent h @ hr_queued h)"

text \<open>One result in the receive thread: the callback runs on the server.\<close>

definition smpp_http_client_receive_thread ::
  "'d env \<Rightarrow> nat \<Rightarrow> (octstr, octstr) dict \<Rightarrow> http_routing \<Rightarrow> 'd server \<Rightarrow> (http_routing \<times> 'd server) option" where
  "smpp_http_client_receive_thread E n hs h s = do {
     (r, h) \<leftarrow> receive_result (ev_gw E) n hs h;
     let (cb, rs, m) = r;
     s \<leftarrow> route_answer E cb m rs (s\<lparr>s_pending_routes := http_pending h\<rparr>);
     Some (h, s) }"

text \<open>The settings of the router; no answer where the code panics.\<close>

definition HTTP_DEFAULT_MAX_OUTSTANDING :: int where
  "HTTP_DEFAULT_MAX_OUTSTANDING = 512"

definition smpp_http_client_route_init :: "cfg_group \<Rightarrow> (octstr \<times> int \<times> http_routing) option" where
  "smpp_http_client_route_init g =
     (case cg_get g ''http-routing-url'' of
        None \<Rightarrow> None
      | Some url \<Rightarrow>
          (if url = [] then None
           else Some (url, case_option 1 id (cg_integer g ''http-num-callers''),
             \<lparr>hr_max_outstanding = case_option HTTP_DEFAULT_MAX_OUTSTANDING id (cg_integer g ''http-max-outstanding-requests''),
              hr_outstanding = 0, hr_queued = [], hr_sent = []\<rparr>)))"

end
