(* ===== verification/Frames.thy ===== *)
theory Frames
  imports System
begin

text \<open>
  What the operations of the server do to the settings, the routing method and the requests that
  wait for the router: the first two never change, and only the operations that hand a message to
  the router touch the third, by adding requests at its end.
\<close>

section \<open>The core of the state\<close>

definition trunk :: "'d server \<Rightarrow> server_cfg \<times> routing_method \<times> (route_callback \<times> sms) list" where
  "trunk s = (s_cfg s, s_routing_method s, s_pending_routes s)"

text \<open>The core also has the messages that wait to be sent to a bearerbox, or for its acknowledgement.\<close>

definition core :: "'d server \<Rightarrow> (server_cfg \<times> routing_method \<times> (route_callback \<times> sms) list)
    \<times> bearerbox_msg list \<times> (octstr, bearerbox_msg) dict option list" where
  "core s = (trunk s, s_bb_queue s, map bb_open_acks (s_bearerboxes s))"

named_theorems core_frame \<open>operations that leave the core alone\<close>
named_theorems trunk_frame \<open>operations that leave the trunk alone\<close>

lemma trunk_of_core: "core t = core s \<Longrightarrow> trunk t = trunk s"
  by (simp add: core_def)

lemma core_updates [simp]:
  "core (s\<lparr>s_db := x1\<rparr>) = core s" "core (s\<lparr>s_next_uuid := x2\<rparr>) = core s" "core (s\<lparr>s_inbound_load := x3\<rparr>) = core s"
  "core (s\<lparr>s_outbound_load := x4\<rparr>) = core s" "core (s\<lparr>s_inbound_processed := x5\<rparr>) = core s"
  "core (s\<lparr>s_outbound_processed := x6\<rparr>) = core s" 
  "core (s\<lparr>s_outbound_routes := x9\<rparr>) = core s" "core (s\<lparr>s_inbound_routes := x10\<rparr>) = core s"
  "core (s\<lparr>s_ip_blocklist := x11\<rparr>) = core s" "core (s\<lparr>s_written := x12\<rparr>) = core s" "core (s\<lparr>s_bb_sent := x13\<rparr>) = core s"
  "core (s\<lparr>s_log := x14\<rparr>) = core s" "core (s\<lparr>s_cleanup_queue := x15\<rparr>) = core s" "core (s\<lparr>s_outbound_queue := x16\<rparr>) = core s"
  "core (s\<lparr>s_inbound_queue := x17\<rparr>) = core s" "core (s\<lparr>s_simulation_queue := x18\<rparr>) = core s" "core (s\<lparr>s_esmes := x19\<rparr>) = core s"
  "core (s\<lparr>s_esme_heap := x20\<rparr>) = core s" "core (s\<lparr>s_pdu_heap := x21\<rparr>) = core s" "core (s\<lparr>s_esme_counter := x22\<rparr>) = core s"
  "core (s\<lparr>s_next_pdu := x23\<rparr>) = core s"
  by (simp_all add: core_def trunk_def)

lemma trunk_updates [simp]: "trunk (s\<lparr>s_bearerboxes := x1\<rparr>) = trunk s" "trunk (s\<lparr>s_bb_queue := x2\<rparr>) = trunk s"
  "trunk (s\<lparr>s_bb_sent := x3\<rparr>) = trunk s"
  by (simp_all add: trunk_def)

lemma core_heap [simp]:
  "core (put_esme i e s) = core s" "core (put_pdu p q s) = core s" "core (snd (alloc_pdu q s)) = core s"
  "core (snd (fresh_uuid s)) = core s" "core (smpp_listener_auth_failed E ip s) = core s"
  "core (snd (smpp_listener_ip_is_blocked E ip s)) = core s" "core (push_simulation sid ds s) = core s"
  "core (log_deliver E e q st s) = core s" "core (log_response E e q pd s) = core s"
  by (simp_all add: put_esme_def put_pdu_def alloc_pdu_def fresh_uuid_def smpp_listener_auth_failed_def Let_def
      smpp_listener_ip_is_blocked_def log_deliver_def log_response_def split: option.splits pdu.splits)
    (induction ds arbitrary: s; simp add: alloc_pdu_def put_pdu_def Let_def)

lemma core_db [simp]:
  "core (snd (smpp_database_add_message E s m)) = core s" "core (snd (smpp_database_add_queue_message E s m)) = core s"
  "core (snd (smpp_database_add_pdu E s q)) = core s" "core (snd (smpp_database_get_stored E s ty svc lmt)) = core s"
  "core (snd (smpp_database_get_bearerbox_mt_stored E s ty svc lmt)) = core s"
  "core (snd (smpp_database_get_dlrs E s svc lmt)) = core s" "core (snd (smpp_database_get_stored_pdu E s svc lmt)) = core s"
  "core (snd (smpp_database_remove E s gid tmp)) = core s" "core (snd (smpp_database_remove_dlr E s gid)) = core s"
  "core (snd (smpp_database_deduct_credit E s svc cost)) = core s" "core (snd (smpp_database_get_esmes_with_queued E s)) = core s"
  using database_frames unfolding same_but_db_def by (metis core_updates(1))+

lemmas trunk_simps [simp] = core_heap [THEN trunk_of_core] core_db [THEN trunk_of_core]

lemma core_alloc [core_frame]: "alloc_pdu q s = (p, t) \<Longrightarrow> core t = core s"
  and core_uuid [core_frame]: "fresh_uuid s = (u, t) \<Longrightarrow> core t = core s"
  and core_blocked [core_frame]: "smpp_listener_ip_is_blocked E ip s = (b, t) \<Longrightarrow> core t = core s"
  and core_add_message [core_frame]: "smpp_database_add_message E s m = (ok, t) \<Longrightarrow> core t = core s"
  and core_add_queue_message [core_frame]: "smpp_database_add_queue_message E s m = (ok, t) \<Longrightarrow> core t = core s"
  and core_add_pdu [core_frame]: "smpp_database_add_pdu E s q = (ok, t) \<Longrightarrow> core t = core s"
  and core_get_stored [core_frame]: "smpp_database_get_stored E s ty svc lmt = (ds, t) \<Longrightarrow> core t = core s"
  and core_get_mt [core_frame]: "smpp_database_get_bearerbox_mt_stored E s ty svc lmt = (ds, t) \<Longrightarrow> core t = core s"
  and core_get_dlrs [core_frame]: "smpp_database_get_dlrs E s svc lmt = (ds, t) \<Longrightarrow> core t = core s"
  and core_get_pdus [core_frame]: "smpp_database_get_stored_pdu E s svc lmt = (qs, t) \<Longrightarrow> core t = core s"
  and core_deduct [core_frame]: "smpp_database_deduct_credit E s svc cost = (ok, t) \<Longrightarrow> core t = core s"
  and core_with_queued [core_frame]: "smpp_database_get_esmes_with_queued E s = (ks, t) \<Longrightarrow> core t = core s"
  by (metis core_heap core_db snd_conv)+

lemma core_upd_esme [core_frame]: "upd_esme i f s = Some t \<Longrightarrow> core t = core s"
  and core_upd_global [core_frame]: "upd_global i h s = Some t \<Longrightarrow> core t = core s"
  and core_free [core_frame]: "free_pdu p s = Some t \<Longrightarrow> core t = core s"
  and core_destroy_pdu [core_frame]: "smpp_queued_pdu_destroy p s = Some t \<Longrightarrow> core t = core s"
  by (auto simp: upd_esme_def upd_global_def upd_box_def free_pdu_def smpp_queued_pdu_destroy_def bind_eq_Some_conv)

lemma core_upd_box: "upd_box b g s = Some t \<Longrightarrow> (\<forall>x. bb_open_acks (g x) = bb_open_acks x) \<longrightarrow> core t = core s"
  by (auto simp: upd_box_def get_box_def core_def map_update bind_eq_Some_conv trunk_def list_update_same_conv split: if_split_asm)

lemma trunk_upd_box [trunk_frame]: "upd_box b g s = Some t \<Longrightarrow> trunk t = trunk s"
  by (auto simp: upd_box_def bind_eq_Some_conv)

lemma set_state_acks [simp]: "bb_open_acks (smpp_bearerbox_set_state b x) = bb_open_acks x"
  by (simp add: smpp_bearerbox_set_state_def)

section \<open>Acknowledgements and the bearerbox queue\<close>

lemma core_stop_listening [core_frame]: "smpp_esme_stop_listening i s = Some t \<Longrightarrow> core t = core s"
  by (auto simp: smpp_esme_stop_listening_def bind_eq_Some_conv Let_def split: if_splits option.splits prod.splits dest!: core_frame)

lemma core_disconnect [core_frame]: "smpp_esme_disconnect i s = Some t \<Longrightarrow> core t = core s"
  by (auto simp: smpp_esme_disconnect_def bind_eq_Some_conv Let_def split: if_splits option.splits prod.splits dest!: core_frame)

lemma core_cleanup [core_frame]: "smpp_esme_cleanup i s = Some t \<Longrightarrow> core t = core s"
  by (auto simp: smpp_esme_cleanup_def bind_eq_Some_conv Let_def split: if_splits option.splits prod.splits dest!: core_frame)

lemma core_inbound_load [core_frame]: "smpp_esme_inbound_load_increase E i s = Some t \<Longrightarrow> core t = core s"
  by (auto simp: smpp_esme_inbound_load_increase_def bind_eq_Some_conv Let_def split: if_splits option.splits prod.splits dest!: core_frame)

lemma core_outbound_load [core_frame]: "smpp_esme_outbound_load_increase E i s = Some t \<Longrightarrow> core t = core s"
  by (auto simp: smpp_esme_outbound_load_increase_def bind_eq_Some_conv Let_def split: if_splits option.splits prod.splits dest!: core_frame)

lemma core_global_add [core_frame]: "smpp_esme_global_add i s = Some t \<Longrightarrow> core t = core s"
  by (auto simp: smpp_esme_global_add_def bind_eq_Some_conv Let_def dest!: core_frame)

lemma core_readers [core_frame]: "smpp_esme_global_get_readers E b s = Some (r, t) \<Longrightarrow> core t = core s"
  by (auto simp: smpp_esme_global_get_readers_def bind_eq_Some_conv Let_def split: if_splits option.splits prod.splits dest!: core_frame)

lemma core_bb_write [core_frame]: "bb_write E b m s = Some (r, t) \<Longrightarrow> core t = core s"
  by (auto simp: bb_write_def bind_eq_Some_conv Let_def split: if_splits option.splits prod.splits dest!: core_upd_box)

lemma core_deliver [core_frame]: "smpp_bearerbox_deliver E b m s = Some (r, t) \<Longrightarrow> core t = core s"
  by (auto simp: smpp_bearerbox_deliver_def bind_eq_Some_conv Let_def split: if_splits option.splits prod.splits dest!: core_frame)

lemma core_acknowledge [core_frame]: "smpp_bearerbox_acknowledge E bo ido st s = Some (r, t) \<Longrightarrow> core t = core s"
  by (auto simp: smpp_bearerbox_acknowledge_def bind_eq_Some_conv Let_def split: if_splits option.splits prod.splits dest!: core_frame)

lemma core_add_outbound [core_frame]: "smpp_queues_add_outbound p s = Some t \<Longrightarrow> core t = core s"
  by (auto simp: smpp_queues_add_outbound_def bind_eq_Some_conv Let_def split: if_splits option.splits prod.splits dest!: core_frame)

lemma core_add_inbound [core_frame]: "smpp_queues_add_inbound p s = Some t \<Longrightarrow> core t = core s"
  by (auto simp: smpp_queues_add_inbound_def bind_eq_Some_conv Let_def split: if_splits option.splits prod.splits dest!: core_frame)

lemma core_count_traffic [core_frame]: "count_traffic f i s = Some t \<Longrightarrow> core t = core s"
  by (auto simp: count_traffic_def bind_eq_Some_conv Let_def split: if_splits option.splits prod.splits dest!: core_frame)

lemma core_count_delivery [core_frame]: "count_delivery q s = Some t \<Longrightarrow> core t = core s"
  by (auto simp: count_delivery_def bind_eq_Some_conv Let_def split: if_splits option.splits prod.splits pdu.splits dest!: core_frame)

lemma core_settle_origin [core_frame]: "settle_origin E q st s = Some t \<Longrightarrow> core t = core s"
  by (auto simp: settle_origin_def bind_eq_Some_conv Let_def split: if_splits option.splits prod.splits dest!: core_frame)

lemma core_timed_out [core_frame]: "ack_timed_out E q s = Some t \<Longrightarrow> core t = core s"
  by (auto simp: ack_timed_out_def bind_eq_Some_conv Let_def split: if_splits option.splits prod.splits dest!: core_frame)

lemma core_deliver_resp [core_frame]: "smpp_queues_callback_deliver_sm_resp E p st s = Some t \<Longrightarrow> core t = core s"
  by (auto simp: smpp_queues_callback_deliver_sm_resp_def bind_eq_Some_conv Let_def split: if_splits option.splits prod.splits dest!: core_frame)

lemma core_queue_remove [simp]: "core (db_queue_remove E q s) = core s"
  by (simp add: db_queue_remove_def)

lemma core_db_queue [core_frame]: "smpp_esme_db_queue_callback E p st s = Some t \<Longrightarrow> core t = core s"
  by (auto simp: smpp_esme_db_queue_callback_def bind_eq_Some_conv Let_def split: if_splits option.splits prod.splits dest!: core_frame)

lemma core_pdu_callback [core_frame]:
  assumes "run_pdu_callback E p st s = Some t"
  shows "core t = core s"
proof -
  from assms obtain q cb where "q_callback q = Some cb" and cb: "(case cb of
        Cb_deliver_sm_resp \<Rightarrow> smpp_queues_callback_deliver_sm_resp E p st s
      | Cb_db_queue \<Rightarrow> smpp_esme_db_queue_callback E p st s
      | Cb_queued_pdu_handler \<Rightarrow>
          smpp_queued_pdu_destroy p (s\<lparr>s_db := db_queued_pdu_handler (ev_db E) (ev_now E) (s_db s) q st\<rparr>)) = Some t"
    unfolding run_pdu_callback_def bind_eq_Some_conv by blast
  then show ?thesis by (cases cb) (auto dest!: core_frame)
qed

lemma core_callback_response [core_frame]: "callback_response p st s = Some t \<Longrightarrow> core t = core s"
  by (auto simp: callback_response_def bind_eq_Some_conv Let_def split: if_splits option.splits prod.splits dest!: core_frame)

lemma core_process_ack [core_frame]: "smpp_queues_process_ack E i seq st s = Some t \<Longrightarrow> core t = core s"
  by (auto simp: smpp_queues_process_ack_def bind_eq_Some_conv Let_def split: if_splits option.splits prod.splits dest!: core_frame)

lemma core_acks_loop [core_frame]: "destroy_acks_loop E i ks s = Some t \<Longrightarrow> core t = core s"
  by (induction ks arbitrary: s) (auto simp: bind_eq_Some_conv split: option.splits if_splits dest!: core_frame)

lemma core_esme_destroy [core_frame]: "smpp_esme_destroy E i s = Some t \<Longrightarrow> core t = core s"
  by (auto simp: smpp_esme_destroy_def smpp_esme_destroy_open_acks_def bind_eq_Some_conv Let_def split: if_splits option.splits prod.splits dest!: core_frame)

lemma core_bb_callback [core_frame]: "run_bb_callback E cb st s = Some t \<Longrightarrow> core t = core s"
  by (auto simp: run_bb_callback_def smpp_queues_callback_submit_sm_def smpp_queues_callback_data_sm_def smpp_bearerbox_requeue_result_def bind_eq_Some_conv Let_def split: if_splits option.splits prod.splits bb_callback.splits dest!: core_frame)

lemma trunk_add_to_queue [trunk_frame]: "smpp_bearerbox_add_to_queue E bm s = Some t \<Longrightarrow> trunk t = trunk s"
  by (auto simp: smpp_bearerbox_add_to_queue_def bind_eq_Some_conv Let_def split: if_splits option.splits prod.splits dest!: trunk_frame core_frame [THEN trunk_of_core])

lemma trunk_bb_message [trunk_frame]: "smpp_bearerbox_add_message E m cb s = Some t \<Longrightarrow> trunk t = trunk s"
  by (auto simp: smpp_bearerbox_add_message_def bind_eq_Some_conv Let_def split: if_splits option.splits prod.splits dest!: trunk_frame core_frame [THEN trunk_of_core])

section \<open>Answers of the router\<close>

lemma core_charge [core_frame]: "charge E i cost s = Some (r, t) \<Longrightarrow> core t = core s"
  by (auto simp: charge_def bind_eq_Some_conv Let_def case_prod_beta split: if_split_asm option.split_asm dest!: core_frame)

lemma core_reject [core_frame]: "reject_submission p q i st s = Some t \<Longrightarrow> core t = core s"
  by (auto simp: reject_submission_def bind_eq_Some_conv dest!: core_frame)

lemma trunk_forward [trunk_frame]: "forward_submission E p q i m s = Some t \<Longrightarrow> trunk t = trunk s"
  by (auto simp: forward_submission_def bind_eq_Some_conv Let_def case_prod_beta split: if_split_asm option.split_asm dest!: trunk_frame core_frame [THEN trunk_of_core])

lemma trunk_submission_done [trunk_frame]: "submission_routing_done E p rs s = Some t \<Longrightarrow> trunk t = trunk s"
  by (auto simp: submission_routing_done_def bind_eq_Some_conv Let_def case_prod_beta split: if_split_asm option.split_asm dest!: trunk_frame core_frame [THEN trunk_of_core])

lemma core_queue_deliveries [core_frame]: "queue_deliveries i base ds s = Some t \<Longrightarrow> core t = core s"
  by (induction ds arbitrary: s) (auto simp: bind_eq_Some_conv Let_def case_prod_beta split: if_split_asm option.split_asm dest!: core_frame)

lemma core_msg_to_pdu [core_frame]: "msg_to_pdu_for E i m s = Some (r, t) \<Longrightarrow> core t = core s"
  by (auto simp: msg_to_pdu_for_def bind_eq_Some_conv Let_def case_prod_beta split: if_split_asm option.split_asm dest!: core_frame)

lemma core_requeue_done [core_frame]: "smpp_bearerbox_requeue_routing_done E dm rs s = Some t \<Longrightarrow> core t = core s"
  by (auto simp: smpp_bearerbox_requeue_routing_done_def bind_eq_Some_conv Let_def case_prod_beta split: if_split_asm option.split_asm dest!: core_frame)

lemma core_bearerbox_done [core_frame]: "smpp_bearerbox_routing_done E b m rs s = Some t \<Longrightarrow> core t = core s"
  by (auto simp: smpp_bearerbox_routing_done_def bind_eq_Some_conv Let_def case_prod_beta split: if_split_asm option.split_asm dest!: core_frame)

lemma trunk_route_answer [trunk_frame]: "route_answer E cb m rs s = Some t \<Longrightarrow> trunk t = trunk s"
  by (cases cb) (auto simp: route_answer_def set_callback_msg_def run_route_callback_def smpp_queues_submit_routing_done_def
      smpp_queues_data_sm_routing_done_def bind_eq_Some_conv dest!: trunk_frame core_frame [THEN trunk_of_core])

lemma core_route_database [core_frame]: "route_database E d smsc sid m s = (rs, m', t) \<Longrightarrow> core t = core s"
  by (auto simp: route_database_def outbound_routes_for_def Let_def case_prod_beta split: if_split_asm option.split_asm sum.split_asm dest!: core_frame)

section \<open>Handlers that do not route\<close>

lemma core_respond [core_frame]: "respond i resp s = Some t \<Longrightarrow> core t = core s"
  by (auto simp: respond_def bind_eq_Some_conv Let_def case_prod_beta split: if_split_asm option.split_asm dest!: core_frame)

lemma core_respond_plain [core_frame]: "respond_plain i resp disc s = Some t \<Longrightarrow> core t = core s"
  by (auto simp: respond_plain_def bind_eq_Some_conv Let_def case_prod_beta split: if_split_asm option.split_asm dest!: core_frame)

lemma core_enquire_link [core_frame]: "smpp_queues_send_enquire_link i s = Some t \<Longrightarrow> core t = core s"
  by (auto simp: smpp_queues_send_enquire_link_def bind_eq_Some_conv Let_def case_prod_beta split: if_split_asm option.split_asm dest!: core_frame)

lemma core_handle_enquire [core_frame]: "smpp_queues_handle_enquire_link p i seq s = Some t \<Longrightarrow> core t = core s"
  by (auto simp: smpp_queues_handle_enquire_link_def bind_eq_Some_conv Let_def case_prod_beta split: if_split_asm option.split_asm dest!: core_frame)

lemma core_handle_unbind [core_frame]: "smpp_queues_handle_unbind p i seq s = Some t \<Longrightarrow> core t = core s"
  by (auto simp: smpp_queues_handle_unbind_def bind_eq_Some_conv Let_def case_prod_beta split: if_split_asm option.split_asm dest!: core_frame)

lemma core_auth_result [core_frame]: "apply_auth_result i a s = Some t \<Longrightarrow> core t = core s"
  by (auto simp: apply_auth_result_def bind_eq_Some_conv Let_def case_prod_beta split: if_split_asm option.split_asm dest!: core_frame)

lemma core_auth [core_frame]: "smpp_esme_auth E sid password i s = Some (r, t) \<Longrightarrow> core t = core s"
  by (erule esme_auth_cases) simp_all

lemma core_bind [core_frame]: "handle_bind E p i resp bt b s = Some t \<Longrightarrow> core t = core s"
  by (auto simp: handle_bind_def bind_eq_Some_conv Let_def case_prod_beta split: if_split_asm option.split_asm dest!: core_frame)

lemma core_handle_bind [core_frame]: "smpp_queues_handle_bind_pdu E p i pd s = Some t \<Longrightarrow> core t = core s"
  by (auto simp: smpp_queues_handle_bind_pdu_def bind_eq_Some_conv Let_def case_prod_beta split: pdu.split_asm dest!: core_frame)

lemma core_simulate_dlr [core_frame]: "simulate_dlr E i m s = Some t \<Longrightarrow> core t = core s"
  by (auto simp: simulate_dlr_def bind_eq_Some_conv Let_def case_prod_beta split: if_split_asm option.split_asm dest!: core_frame)

lemma core_simulate_mo [core_frame]: "simulate_mo E i m s = Some t \<Longrightarrow> core t = core s"
  by (auto simp: simulate_mo_def bind_eq_Some_conv Let_def case_prod_beta split: if_split_asm option.split_asm dest!: core_frame)

lemma core_simulate_accept [core_frame]: "simulate_accept E i seq n m s = Some t \<Longrightarrow> core t = core s"
  by (auto simp: simulate_accept_def bind_eq_Some_conv Let_def case_prod_beta split: if_split_asm dest!: core_frame)

lemma core_simulate_submit [core_frame]: "simulate_submit E i seq b s = Some t \<Longrightarrow> core t = core s"
  by (auto simp: simulate_submit_def bind_eq_Some_conv Let_def case_prod_beta split: if_split_asm sum.split_asm dest!: core_frame)

section \<open>Threads that do not route\<close>

lemma core_send_pdu [core_frame]: "smpp_queues_send_pdu E i pd s = Some t \<Longrightarrow> core t = core s"
  by (auto simp: smpp_queues_send_pdu_def bind_eq_Some_conv Let_def case_prod_beta split: if_split_asm option.split_asm dest!: core_frame)

lemma core_outbound [core_frame]:
  assumes "smpp_queues_outbound_thread E n s = Some t"
  shows "core t = core s"
proof (cases "n < length (s_outbound_queue s)")
  case True
  define p where "p = fst (s_outbound_queue s ! n)"
  from assms obtain q i u e where "get_pdu (s\<lparr>s_outbound_queue := take n (s_outbound_queue s) @ drop (Suc n) (s_outbound_queue s)\<rparr>) p = Some q"
    and u: "upd_esme i (\<lambda>e. e\<lparr>e_time_last_queue_process := ev_now E, e_outbound_queued := e_outbound_queued e - 1,
                              e_outbound_processed := e_outbound_processed e + 1\<rparr>)
          (s\<lparr>s_outbound_queue := take n (s_outbound_queue s) @ drop (Suc n) (s_outbound_queue s)\<rparr>) = Some u"
    and t: "(if e_connected e then do {
           pd \<leftarrow> q_pdu q;
           s \<leftarrow> (if q_disconnect q then smpp_esme_stop_listening i u else Some u);
           s \<leftarrow> smpp_queues_send_pdu E i pd
                 (log_response E e q pd (if q_callback q \<noteq> None then put_pdu p (q\<lparr>q_time_sent := ev_now E\<rparr>) s else s));
           s \<leftarrow> (if q_disconnect q \<and> \<not> e_authenticated e then smpp_esme_cleanup i s else Some s);
           (if q_callback q = None then smpp_queued_pdu_destroy p s else Some s) }
         else (if q_callback q = None then smpp_queued_pdu_destroy p u else Some u)) = Some t"
    unfolding smpp_queues_outbound_thread_def Let_def if_P [OF True] bind_eq_Some_conv p_def [symmetric] by blast
  have "core u = core s" using u by (auto dest!: core_frame)
  moreover have "core t = core u"
  proof (cases "e_connected e")
    case True
    with t obtain pd v w x where "(if q_disconnect q then smpp_esme_stop_listening i u else Some u) = Some v"
      "smpp_queues_send_pdu E i pd (log_response E e q pd (if q_callback q \<noteq> None then put_pdu p (q\<lparr>q_time_sent := ev_now E\<rparr>) v else v)) = Some w"
      "(if q_disconnect q \<and> \<not> e_authenticated e then smpp_esme_cleanup i w else Some w) = Some x"
      "(if q_callback q = None then smpp_queued_pdu_destroy p x else Some x) = Some t"
      unfolding if_P [OF True] bind_eq_Some_conv by blast
    then have "core v = core u" "core w = core v" "core x = core w" "core t = core x"
      by (auto split: if_split_asm dest!: core_frame)
    then show ?thesis by simp
  qed (use t in \<open>auto split: if_split_asm dest!: core_frame\<close>)
  ultimately show ?thesis by simp
qed (use assms in \<open>simp add: smpp_queues_outbound_thread_def\<close>)

lemma core_simulation [core_frame]:
  assumes "smpp_queues_simulation_thread E n s = Some t"
  shows "core t = core s"
proof (cases "n < length (s_simulation_queue s)")
  case True
  define p where "p = s_simulation_queue s ! n"
  define u where "u = s\<lparr>s_simulation_queue := take n (s_simulation_queue s) @ drop (Suc n) (s_simulation_queue s)\<rparr>"
  from assms obtain q pd where "get_pdu u p = Some q" "q_pdu q = Some pd"
    and t: "(if is_deliver_sm pd then do {
          r \<leftarrow> smpp_esme_find_best_receiver u (q_system_id q);
          let q = q\<lparr>q_callback := Some Cb_deliver_sm_resp\<rparr>;
          (case r of
             Some i \<Rightarrow> do {
               e \<leftarrow> get_esme u i;
               let k = e_sequence_number e;
               let s = put_esme i (e\<lparr>e_sequence_number := k + 1\<rparr>) u;
               let q = q\<lparr>q_pdu := Some (set_deliver_seq (int k) pd), q_sequence := int k, q_esme := Some i,
                          q_id := Some (show_nat k)\<rparr>;
               smpp_queues_add_outbound p (put_pdu p q s) }
           | None \<Rightarrow>
               (if c_database_enable_queue (s_cfg u) then
                  (let (ok, s) = smpp_database_add_pdu E u q in
                   run_pdu_callback E p (if ok then SMPP_ESME_COMMAND_STATUS_QUEUED else SMPP_ESME_COMMAND_STATUS_QUEUE_ERROR)
                     (put_pdu p q s))
                else run_pdu_callback E p SMPP_ESME_RDELIVERYFAILURE (put_pdu p q u))) }
        else Some u) = Some t"
    unfolding smpp_queues_simulation_thread_def Let_def if_P [OF True] bind_eq_Some_conv p_def [symmetric] u_def [symmetric] by blast
  have "core u = core s" by (simp add: u_def)
  moreover have "core t = core u"
    using t by (auto simp: bind_eq_Some_conv Let_def case_prod_beta split: if_split_asm option.split_asm dest!: core_frame)
  ultimately show ?thesis by simp
qed (use assms in \<open>simp add: smpp_queues_simulation_thread_def\<close>)

lemma core_listener_pdu [core_frame]: "listener_queue_pdu i p s = Some t \<Longrightarrow> core t = core s"
  by (auto simp: listener_queue_pdu_def bind_eq_Some_conv Let_def case_prod_beta split: if_split_asm option.split_asm dest!: core_frame)

lemma core_read_loop [core_frame]: "listener_read_loop G eof n i s = Some (r, t) \<Longrightarrow> core t = core s"
proof (induction n arbitrary: s)
  case (Suc n)
  then obtain e where e: "get_esme s i = Some e" by (auto simp: bind_eq_Some_conv)
  obtain x e' where x: "smpp_listener_read_pdu G eof e = (x, e')" by fastforce
  show ?case
  proof (cases x)
    case (Read_pdu p)
    with Suc.prems e x obtain u where "listener_queue_pdu i p (put_esme i e' s) = Some u" "listener_read_loop G eof n i u = Some (r, t)"
      by (auto simp: bind_eq_Some_conv)
    with Suc.IH show ?thesis by (auto dest!: core_frame)
  qed (use Suc.prems e x in auto)
qed simp

lemma core_drop [core_frame]: "listener_drop E i s = Some t \<Longrightarrow> core t = core s"
  by (auto simp: listener_drop_def bind_eq_Some_conv Let_def case_prod_beta split: if_split_asm option.split_asm dest!: core_frame)

lemma core_event [core_frame]:
  assumes "smpp_listener_event E i bytes eof fuel s = Some t"
  shows "core t = core s"
proof -
  from assms obtain u r v where u: "upd_esme i (\<lambda>e. e\<lparr>e_inbuf := e_inbuf e @ bytes\<rparr>) s = Some u"
    "listener_read_loop (ev_gw E) eof fuel i u = Some (r, v)"
    and t: "(case r of
        Read_closed \<Rightarrow> listener_drop E i v
      | Read_invalid \<Rightarrow> do {
          s \<leftarrow> upd_esme i (\<lambda>e. e\<lparr>e_errors := e_errors e + 1\<rparr>) v;
          e \<leftarrow> get_esme s i;
          (if SMPP_ESME_MAX_CONSECUTIVE_ERRORS \<le> e_errors e then listener_drop E i s else Some s) }
      | _ \<Rightarrow> Some v) = Some t"
    unfolding smpp_listener_event_def by (auto simp: bind_eq_Some_conv)
  have "core v = core s" using u by (auto dest!: core_frame)
  moreover have "core t = core v" using t by (cases r) (auto simp: bind_eq_Some_conv split: if_split_asm dest!: core_frame)
  ultimately show ?thesis by simp
qed

lemma core_accept [core_frame]: "smpp_listener_connection_callback E ip s = (r, t) \<Longrightarrow> core t = core s"
  by (auto simp: smpp_listener_connection_callback_def bind_eq_Some_conv Let_def case_prod_beta split: if_split_asm dest!: core_frame)

lemma core_expire [core_frame]: "expire_acks E i ks s = Some t \<Longrightarrow> core t = core s"
  by (induction ks arbitrary: s) (auto simp: bind_eq_Some_conv Let_def case_prod_beta split: if_split_asm option.split_asm dest!: core_frame)

lemma core_cleanup_bind [core_frame]: "cleanup_bind E i s = Some (r, t) \<Longrightarrow> core t = core s"
  by (auto simp: cleanup_bind_def bind_eq_Some_conv Let_def case_prod_beta split: if_split_asm option.split_asm dest!: core_frame)

lemma core_cleanup_binds [core_frame]: "cleanup_binds E is s = Some (r, t) \<Longrightarrow> core t = core s"
  by (induction "is" arbitrary: s r) (auto simp: bind_eq_Some_conv Let_def case_prod_beta split: if_split_asm option.split_asm dest!: core_frame)

lemma core_cleanup_globals [core_frame]: "cleanup_globals E ks s = Some t \<Longrightarrow> core t = core s"
  by (induction ks arbitrary: s) (auto simp: bind_eq_Some_conv Let_def case_prod_beta split: if_split_asm option.split_asm dest!: core_frame)

lemma core_destroy_idle [core_frame]: "destroy_idle E is s = Some (r, t) \<Longrightarrow> core t = core s"
  by (induction "is" arbitrary: s r) (auto simp: bind_eq_Some_conv Let_def case_prod_beta split: if_split_asm option.split_asm dest!: core_frame)

lemma core_cleanup_thread [core_frame]: "smpp_esme_cleanup_thread E s = Some t \<Longrightarrow> core t = core s"
  by (auto simp: smpp_esme_cleanup_thread_def bind_eq_Some_conv Let_def case_prod_beta split: if_split_asm option.split_asm dest!: core_frame)

lemma core_send_unbind [core_frame]: "send_unbind i s = Some t \<Longrightarrow> core t = core s"
  by (auto simp: send_unbind_def bind_eq_Some_conv Let_def case_prod_beta split: if_split_asm option.split_asm dest!: core_frame)

lemma core_send_unbinds [core_frame]: "send_unbinds is s = Some t \<Longrightarrow> core t = core s"
  by (induction "is" arbitrary: s) (auto simp: bind_eq_Some_conv Let_def case_prod_beta split: if_split_asm option.split_asm dest!: core_frame)

lemma core_unbind_command [core_frame]: "smpp_esme_unbind_command sid bid ct s = Some (r, t) \<Longrightarrow> core t = core s"
  by (auto simp: smpp_esme_unbind_command_def bind_eq_Some_conv Let_def case_prod_beta split: if_split_asm option.split_asm dest!: core_frame)

lemma trunk_box_send [trunk_frame]: "smpp_bearerbox_outbound_thread E b n s = Some t \<Longrightarrow> trunk t = trunk s"
  by (auto simp: smpp_bearerbox_outbound_thread_def bind_eq_Some_conv Let_def case_prod_beta split: if_split_asm option.split_asm dest!: trunk_frame core_frame [THEN trunk_of_core])

lemma core_fail_acks [core_frame]: "fail_open_acks E bms s = Some t \<Longrightarrow> core t = core s"
  by (induction bms arbitrary: s) (auto simp: bind_eq_Some_conv Let_def case_prod_beta split: if_split_asm option.split_asm dest!: core_frame)

lemma core_identify [core_frame]: "smpp_bearerbox_identify E b s = Some (r, t) \<Longrightarrow> core t = core s"
  by (auto simp: smpp_bearerbox_identify_def bind_eq_Some_conv Let_def case_prod_beta split: if_split_asm option.split_asm dest!: core_upd_box)

lemma trunk_box_connect [trunk_frame]:
  assumes "box_reconnect E b ok s = Some t"
  shows "trunk t = trunk s"
proof -
  from assms obtain x where "get_box s b = Some x" and x: "(if smpp_bearerbox_online x then Some s
      else do {
        s \<leftarrow> upd_box b (\<lambda>x. x\<lparr>bb_open_acks := Some []\<rparr>) s;
        s \<leftarrow> fail_open_acks E (case bb_open_acks x of None \<Rightarrow> [] | Some d \<Rightarrow> map snd d) s;
        s \<leftarrow> upd_box b (\<lambda>x. x\<lparr>bb_connection := ok\<rparr>) s;
        (if ok then do {
           (ok, s) \<leftarrow> smpp_bearerbox_identify E b s;
           (if ok then upd_box b (smpp_bearerbox_set_state True) s else Some s) }
         else Some s) }) = Some t"
    unfolding box_reconnect_def bind_eq_Some_conv by blast
  show ?thesis
  proof (cases "smpp_bearerbox_online x")
    case False
    with x obtain u v w where "upd_box b (\<lambda>x. x\<lparr>bb_open_acks := Some []\<rparr>) s = Some u"
      "fail_open_acks E (case bb_open_acks x of None \<Rightarrow> [] | Some d \<Rightarrow> map snd d) u = Some v"
      "upd_box b (\<lambda>x. x\<lparr>bb_connection := ok\<rparr>) v = Some w"
      "(if ok then do {
           (ok, s) \<leftarrow> smpp_bearerbox_identify E b w;
           (if ok then upd_box b (smpp_bearerbox_set_state True) s else Some s) }
         else Some w) = Some t"
      unfolding if_not_P [OF False] bind_eq_Some_conv by blast
    then have "trunk u = trunk s" "trunk v = trunk u" "trunk w = trunk v" "trunk t = trunk w"
      by (auto simp: bind_eq_Some_conv split: if_split_asm dest!: trunk_frame core_frame [THEN trunk_of_core])
    then show ?thesis by simp
  qed (use x in simp)
qed

lemma core_box_idle [core_frame]: "box_idle E b s = Some t \<Longrightarrow> core t = core s"
  by (auto simp: box_idle_def bind_eq_Some_conv Let_def case_prod_beta split: if_split_asm option.split_asm dest!: core_frame)

lemma core_box_broken [core_frame]: "box_broken b s = Some t \<Longrightarrow> core t = core s"
  by (auto simp: box_broken_def bind_eq_Some_conv Let_def case_prod_beta split: if_split_asm option.split_asm dest!: core_upd_box)

lemma trunk_receive_ack [trunk_frame]: "receive_ack E b u nack s = Some t \<Longrightarrow> trunk t = trunk s"
  by (auto simp: receive_ack_def bind_eq_Some_conv Let_def case_prod_beta split: if_split_asm option.split_asm dest!: trunk_frame core_frame [THEN trunk_of_core])

lemma core_receive_report [core_frame]: "receive_report E b m s = Some t \<Longrightarrow> core t = core s"
  by (auto simp: receive_report_def bind_eq_Some_conv Let_def case_prod_beta split: if_split_asm option.split_asm dest!: core_frame)

lemma trunk_requeue_mt [trunk_frame]: "requeue_mt E dms s = Some t \<Longrightarrow> trunk t = trunk s"
  by (induction dms arbitrary: s) (auto simp: bind_eq_Some_conv Let_def case_prod_beta split: if_split_asm option.split_asm dest!: trunk_frame core_frame [THEN trunk_of_core])

lemma core_stored_pdus [core_frame]: "stored_pdus E i d dm s = Some (r, t) \<Longrightarrow> core t = core s"
  by (auto simp: stored_pdus_def bind_eq_Some_conv Let_def case_prod_beta split: if_split_asm option.split_asm dest!: core_frame)

lemma core_collect_stored [core_frame]: "collect_stored E i d dms s = Some (r, t) \<Longrightarrow> core t = core s"
  by (induction dms arbitrary: s r) (auto simp: bind_eq_Some_conv Let_def case_prod_beta split: if_split_asm option.split_asm dest!: core_frame)

lemma core_queued_for [core_frame]: "queued_for E i s = Some (r, t) \<Longrightarrow> core t = core s"
  by (auto simp: queued_for_def bind_eq_Some_conv Let_def case_prod_beta split: if_split_asm option.split_asm dest!: core_frame)

lemma core_queued_for_all [core_frame]: "queued_for_all E is s = Some (r, t) \<Longrightarrow> core t = core s"
  by (induction "is" arbitrary: s r) (auto simp: bind_eq_Some_conv Let_def case_prod_beta split: if_split_asm option.split_asm dest!: core_frame)

lemma core_requeue_delivery [core_frame]: "requeue_delivery E q s = Some t \<Longrightarrow> core t = core s"
  by (auto simp: requeue_delivery_def bind_eq_Some_conv Let_def case_prod_beta split: if_split_asm option.split_asm dest!: core_frame)

lemma core_requeue_deliveries [core_frame]: "requeue_deliveries E qs s = Some t \<Longrightarrow> core t = core s"
  by (induction qs arbitrary: s) (auto simp: bind_eq_Some_conv Let_def case_prod_beta split: if_split_asm option.split_asm dest!: core_frame)

lemma core_requeue_thread [core_frame]: "smpp_queues_requeue_thread E s = Some t \<Longrightarrow> core t = core s"
  by (auto simp: smpp_queues_requeue_thread_def smpp_esme_global_get_queued_def bind_eq_Some_conv Let_def case_prod_beta split: if_split_asm option.split_asm dest!: core_frame)

section \<open>Operations that route\<close>

text \<open>The settings stay and the requests that wait for the router only grow at the end.\<close>

definition grows :: "'d server \<Rightarrow> 'd server \<Rightarrow> bool" where
  "grows s t \<longleftrightarrow> s_cfg t = s_cfg s \<and> s_routing_method t = s_routing_method s \<and> (\<exists>qs. s_pending_routes t = s_pending_routes s @ qs)"

lemma trunk_grows: "trunk t = trunk s \<Longrightarrow> grows s t"
  by (simp add: grows_def trunk_def)

lemma core_grows: "core t = core s \<Longrightarrow> grows s t"
  by (rule trunk_grows [OF trunk_of_core])

lemma grows_trans [trans]: "grows s t \<Longrightarrow> grows t u \<Longrightarrow> grows s u"
  by (auto simp: grows_def)

lemma grows_after: "grows t u \<Longrightarrow> core t = core s \<Longrightarrow> grows s u"
  using core_grows grows_trans by blast

lemma grows_before: "core u = core t \<Longrightarrow> grows s t \<Longrightarrow> grows s u"
  using core_grows grows_trans by blast

lemma grows_route_message: "smpp_route_message E d smsc sid m cb s = Some t \<Longrightarrow> grows s t"
proof (cases "s_routing_method s = Route_database")
  case True
  obtain rs m' u where u: "route_database E d smsc sid m s = (rs, m', u)" by (metis prod_cases3)
  moreover assume "smpp_route_message E d smsc sid m cb s = Some t"
  ultimately have "route_answer E cb m' rs u = Some t"
    using True by (simp add: smpp_route_message_def smpp_route_message_database_def)
  with u have "trunk t = trunk s" by (auto dest!: trunk_route_answer core_route_database trunk_of_core)
  then show ?thesis by (rule trunk_grows)
qed (auto simp: smpp_route_message_def grows_def split: routing_method.split_asm)

lemma grows_route_submission:
  assumes "route_submission E i resp cb m s = Some t"
  shows "grows s t"
proof -
  from assms obtain e u m' where "upd_esme i (\<lambda>e. e\<lparr>e_pending_routing := e_pending_routing e + 1\<rparr>)
      (snd (alloc_pdu ((smpp_queued_pdu_create_quick i e (resp (gw_uuid_unparse (ev_gw E) (sms_id m'))))\<lparr>q_msg := Msg_own m'\<rparr>) s)) = Some u"
    and "\<exists>d smsc sid c. smpp_route_message E d smsc sid m' c u = Some t"
    unfolding route_submission_def Let_def case_prod_beta bind_eq_Some_conv by blast
  then show ?thesis by (auto dest!: core_frame intro: grows_after grows_route_message)
qed

lemma grows_converted:
  "(case c of Inl reason \<Rightarrow> respond i (f reason) s | Inr m \<Rightarrow> route_submission E i resp cb m s) = Some t \<Longrightarrow> grows s t"
  by (cases c) (auto dest!: core_respond intro: core_grows grows_route_submission)

lemma submit_cases:
  assumes "smpp_queues_handle_submit_sm E p i seq b s = Some t"
  obtains u where "smpp_queued_pdu_destroy p u = Some t" "\<exists>resp. respond i resp s = Some u"
  | u v c where "smpp_queued_pdu_destroy p u = Some t" "smpp_esme_inbound_load_increase E i s = Some v"
      "simulate_submit E i seq b v = Some u \<or> (case c of
          Inl reason \<Rightarrow> respond i (Submit_sm_resp seq reason None) (snd (fresh_uuid v))
        | Inr m \<Rightarrow> route_submission E i (\<lambda>mid. Submit_sm_resp seq SMPP_ESME_ROK (Some mid)) RCb_submit_sm m (snd (fresh_uuid v))) = Some u"
proof -
  from assms obtain e u where "get_esme s i = Some e" and d: "smpp_queued_pdu_destroy p u = Some t"
    and u: "(if \<not> can_transmit (e_bind_type e) then respond i (Submit_sm_resp seq SMPP_ESME_RINVBNDSTS None) s
          else do {
            g \<leftarrow> get_global s i;
            (if throttled E g then respond i (Submit_sm_resp seq SMPP_ESME_RTHROTTLED None) s
             else do {
               s \<leftarrow> smpp_esme_inbound_load_increase E i s;
               (if sim_on (e_simulation e) then simulate_submit E i seq b s
                else let (u, s) = fresh_uuid s in (case smpp_submit_sm_to_msg (ev_gw E) (ev_now E) u e b of
                  Inl reason \<Rightarrow> respond i (Submit_sm_resp seq reason None) s
                | Inr m \<Rightarrow> route_submission E i (\<lambda>mid. Submit_sm_resp seq SMPP_ESME_ROK (Some mid)) RCb_submit_sm m s)) }) }) = Some u"
    unfolding smpp_queues_handle_submit_sm_def bind_eq_Some_conv by blast
  show thesis
  proof (cases "\<exists>resp. respond i resp s = Some u")
    case False
    with u obtain v where v: "smpp_esme_inbound_load_increase E i s = Some v"
      and w: "simulate_submit E i seq b v = Some u \<or> (case smpp_submit_sm_to_msg (ev_gw E) (ev_now E) (fst (fresh_uuid v)) e b of
          Inl reason \<Rightarrow> respond i (Submit_sm_resp seq reason None) (snd (fresh_uuid v))
        | Inr m \<Rightarrow> route_submission E i (\<lambda>mid. Submit_sm_resp seq SMPP_ESME_ROK (Some mid)) RCb_submit_sm m (snd (fresh_uuid v))) = Some u"
      by (auto simp: bind_eq_Some_conv case_prod_beta Let_def split: if_split_asm)
    then show thesis using d that(2) by blast
  qed (use d that(1) in blast)
qed

lemma data_cases:
  assumes "smpp_queues_handle_data_sm E p i seq b s = Some t"
  obtains u where "smpp_queued_pdu_destroy p u = Some t" "\<exists>resp. respond i resp s = Some u"
  | u v c where "smpp_queued_pdu_destroy p u = Some t" "smpp_esme_inbound_load_increase E i s = Some v"
      "(case c of
          Inl reason \<Rightarrow> respond i (Data_sm_resp seq reason None) (snd (fresh_uuid v))
        | Inr m \<Rightarrow> route_submission E i (\<lambda>mid. Data_sm_resp seq SMPP_ESME_ROK (Some mid)) RCb_data_sm m (snd (fresh_uuid v))) = Some u"
proof -
  from assms obtain e u where "get_esme s i = Some e" and d: "smpp_queued_pdu_destroy p u = Some t"
    and u: "(if \<not> can_transmit (e_bind_type e) then respond i (Data_sm_resp seq SMPP_ESME_RINVBNDSTS None) s
          else do {
            g \<leftarrow> get_global s i;
            (if throttled E g then respond i (Data_sm_resp seq SMPP_ESME_RTHROTTLED None) s
             else do {
               s \<leftarrow> smpp_esme_inbound_load_increase E i s;
               let (u, s) = fresh_uuid s;
               (case smpp_data_sm_to_msg (ev_gw E) (ev_now E) u e b of
                  Inl reason \<Rightarrow> respond i (Data_sm_resp seq reason None) s
                | Inr m \<Rightarrow> route_submission E i (\<lambda>mid. Data_sm_resp seq SMPP_ESME_ROK (Some mid)) RCb_data_sm m s) }) }) = Some u"
    unfolding smpp_queues_handle_data_sm_def bind_eq_Some_conv by blast
  show thesis
  proof (cases "\<exists>resp. respond i resp s = Some u")
    case False
    with u obtain v where v: "smpp_esme_inbound_load_increase E i s = Some v"
      and w: "(case smpp_data_sm_to_msg (ev_gw E) (ev_now E) (fst (fresh_uuid v)) e b of
          Inl reason \<Rightarrow> respond i (Data_sm_resp seq reason None) (snd (fresh_uuid v))
        | Inr m \<Rightarrow> route_submission E i (\<lambda>mid. Data_sm_resp seq SMPP_ESME_ROK (Some mid)) RCb_data_sm m (snd (fresh_uuid v))) = Some u"
      by (auto simp: bind_eq_Some_conv case_prod_beta Let_def split: if_split_asm)
    then show thesis using d that(2) by blast
  qed (use d that(1) in blast)
qed

lemma grows_submit:
  assumes "smpp_queues_handle_submit_sm E p i seq b s = Some t"
  shows "grows s t"
  using assms
proof (cases rule: submit_cases)
  case (1 u)
  then show ?thesis by (auto dest!: core_frame intro: core_grows)
next
  case (2 u v c)
  have "grows v u" using 2(3) by (auto dest!: grows_converted core_simulate_submit intro: core_grows grows_after)
  then show ?thesis using 2(1,2) core_inbound_load core_destroy_pdu grows_after grows_before by blast
qed

lemma grows_data:
  assumes "smpp_queues_handle_data_sm E p i seq b s = Some t"
  shows "grows s t"
  using assms
proof (cases rule: data_cases)
  case (1 u)
  then show ?thesis by (auto dest!: core_frame intro: core_grows)
next
  case (2 u v c)
  have "grows v u" using 2(3) by (auto dest!: grows_converted core_simulate_submit intro: core_grows grows_after)
  then show ?thesis using 2(1,2) core_inbound_load core_destroy_pdu grows_after grows_before by blast
qed

lemma grows_dispatch: "dispatch_inbound E p i pd s = Some t \<Longrightarrow> grows s t"
  by (cases pd) (auto simp: dispatch_inbound_def bind_eq_Some_conv dest!: core_frame grows_submit grows_data intro: core_grows)

lemma grows_inbound:
  assumes "smpp_queues_inbound_thread E n s = Some t"
  shows "grows s t"
proof (cases "n < length (s_inbound_queue s)")
  case True
  with assms obtain p i pd f u where
    "upd_esme i f (s\<lparr>s_inbound_queue := take n (s_inbound_queue s) @ drop (Suc n) (s_inbound_queue s)\<rparr>) = Some u"
    "dispatch_inbound E p i pd u = Some t"
    unfolding smpp_queues_inbound_thread_def Let_def if_P [OF True] bind_eq_Some_conv by blast
  then show ?thesis by (auto dest!: core_upd_esme intro: grows_after grows_dispatch)
qed (use assms in \<open>simp add: smpp_queues_inbound_thread_def grows_def\<close>)

lemma grows_requeue_mo: "requeue_mo E dms s = Some t \<Longrightarrow> grows s t"
proof (induction dms arbitrary: s)
  case (Cons dm dms)
  then obtain m u where u: "(if sms_type m = mo
          then smpp_route_message E SMPP_ROUTE_DIRECTION_INBOUND (smsc_id m) None m (RCb_requeue dm) s
          else Some (snd (smpp_database_remove E s (dm_global_id dm) False))) = Some u" "requeue_mo E dms u = Some t"
    unfolding requeue_mo.simps bind_eq_Some_conv by blast
  have "grows s u" using u(1) by (auto split: if_split_asm intro: grows_route_message core_grows)
  also have "grows u t" using Cons.IH u(2) by blast
  finally show ?case .
qed (simp add: core_grows)

lemma grows_requeue:
  assumes "smpp_bearerbox_requeue_thread E s = Some t"
  shows "grows s t"
proof -
  from assms obtain u where u: "(if some_bearerbox_online s \<and> (\<not> c_database_store_primary (s_cfg s) \<or> c_database_enable_queue (s_cfg s))
          then (let (stored, s) = smpp_database_get_bearerbox_mt_stored E s mt_push None 0 in requeue_mt E stored s)
          else Some s) = Some u"
    and t: "(if some_bearerbox_online s \<or> c_database_store_primary (s_cfg u)
      then (let (stored, s) = smpp_database_get_stored E u mo None 0 in requeue_mo E stored s)
      else Some u) = Some t"
    unfolding smpp_bearerbox_requeue_thread_def Let_def bind_eq_Some_conv by blast
  have "trunk u = trunk s"
    using u by (auto simp: case_prod_beta split: if_split_asm dest!: trunk_requeue_mt intro: trunk_of_core)
  moreover have "grows u t"
    using t by (auto simp: case_prod_beta split: if_split_asm dest!: grows_requeue_mo intro: grows_after core_grows)
  ultimately show ?thesis using trunk_grows grows_trans by blast
qed

lemma grows_box_inbound: "smpp_bearerbox_inbound_thread E b msg s = Some t \<Longrightarrow> grows s t"
  by (cases msg) (auto simp: smpp_bearerbox_inbound_thread_def split: if_split_asm
      dest!: core_upd_box core_frame trunk_receive_ack intro: core_grows trunk_grows grows_route_message)

lemma core_rebuild: "core (smpp_route_rebuild E s) = core s"
  by (simp add: smpp_route_rebuild_def smpp_route_rebuild_database_def)

section \<open>Steps\<close>

text \<open>A step of the server is the answer to a request that waits, or adds requests at the end.\<close>

lemma server_step_grows:
  assumes "server_step s t"
  obtains (thread) "grows s t"
  | (router) xs cb m ys E m' rs where "s_pending_routes s = xs @ (cb, m) # ys"
      "route_answer E cb m' rs (s\<lparr>s_pending_routes := xs @ ys\<rparr>) = Some t" "s_pending_routes t = xs @ ys"
      "s_cfg t = s_cfg s" "s_routing_method t = s_routing_method s"
  using assms
proof (cases rule: server_step.cases)
  case (router xs cb m ys E m' rs)
  have "trunk t = trunk (s\<lparr>s_pending_routes := xs @ ys\<rparr>)" using router(2) by (rule trunk_route_answer)
  then show ?thesis using router by (intro that(2)) (auto simp: trunk_def)
qed (auto intro: that(1) core_grows [OF core_rebuild] grows_inbound grows_requeue grows_box_inbound dest!: core_frame trunk_frame intro: core_grows trunk_grows)

lemma server_run_settings:
  assumes "server_step\<^sup>*\<^sup>* s t"
  shows "s_cfg t = s_cfg s" and "s_routing_method t = s_routing_method s"
  using assms by (induction rule: rtranclp_induct) (auto elim!: server_step_grows simp: grows_def)

end
