(* ===== verification/HttpFacts.thy ===== *)
theory HttpFacts
  imports HttpRouter Delivery Frames
begin

text \<open>
  The HTTP router does what the server expects of a router: it refines the list of pending
  requests of System, loses and duplicates no request and answers all of them when the service
  answers, and keeps the laws every router obeys (the locale \<open>router\<close>, interpreted for the
  database router too), so that its answers settle submissions like those of the database.
\<close>

section \<open>The queue of requests\<close>

lemma pending_route_message:
  "http_pending (smpp_http_client_route_message G d smsc sid m cb h) = http_pending h @ [(cb, m)]"
  by (simp add: http_pending_def smpp_http_client_route_message_def)

lemma send_requests_spec:
  "hr_sent (snd (send_requests G enc n h)) = hr_sent h @ take n (hr_queued h)
   \<and> hr_queued (snd (send_requests G enc n h)) = drop n (hr_queued h)
   \<and> hr_outstanding (snd (send_requests G enc n h)) = hr_outstanding h + length (take n (hr_queued h))
   \<and> hr_max_outstanding (snd (send_requests G enc n h)) = hr_max_outstanding h
   \<and> fst (send_requests G enc n h) = map (request_headers G enc) (take n (hr_queued h))"
  by (induction n arbitrary: h) (auto simp: case_prod_beta Let_def split: list.splits)

text \<open>How many requests a round may send.\<close>

definition room :: "http_routing \<Rightarrow> nat" where
  "room h = nat (hr_max_outstanding h - int (hr_outstanding h))"

lemma request_round:
  "hr_sent (snd (smpp_http_client_request_thread G enc h)) = hr_sent h @ take (room h) (hr_queued h)"
  "hr_queued (snd (smpp_http_client_request_thread G enc h)) = drop (room h) (hr_queued h)"
  "hr_outstanding (snd (smpp_http_client_request_thread G enc h)) = hr_outstanding h + length (take (room h) (hr_queued h))"
  "hr_max_outstanding (snd (smpp_http_client_request_thread G enc h)) = hr_max_outstanding h"
  by (simp_all add: smpp_http_client_request_thread_def room_def send_requests_spec)

lemma pending_request_round: "http_pending (snd (smpp_http_client_request_thread G enc h)) = http_pending h"
proof -
  have "hr_sent h @ take (room h) (hr_queued h) @ drop (room h) (hr_queued h) = hr_sent h @ hr_queued h" by simp
  then show ?thesis unfolding http_pending_def request_round by (metis append.assoc)
qed

lemma receive_result_cases:
  assumes "receive_result G n hs h = Some ((cb, rs, m), h')"
  obtains q where "n < length (hr_sent h)" "q = hr_sent h ! n" "cb = hq_callback q"
    "(rs, m) = http_route_result G hs (hq_direction q) (hq_status q) (hq_msg q)"
    "hr_sent h' = take n (hr_sent h) @ drop (Suc n) (hr_sent h)" "hr_queued h' = hr_queued h"
    "hr_outstanding h' = hr_outstanding h - 1" "hr_max_outstanding h' = hr_max_outstanding h"
  using assms by (auto simp: receive_result_def Let_def split: if_splits)

lemma pending_receive:
  assumes "receive_result G n hs h = Some ((cb, rs, m), h')"
  shows "\<exists>xs m0 ys. http_pending h = xs @ (cb, m0) # ys \<and> http_pending h' = xs @ ys"
proof -
  obtain q where q: "n < length (hr_sent h)" "q = hr_sent h ! n" "cb = hq_callback q"
    "hr_sent h' = take n (hr_sent h) @ drop (Suc n) (hr_sent h)" "hr_queued h' = hr_queued h"
    using receive_result_cases [OF assms] by metis
  define f :: "http_request \<Rightarrow> route_callback \<times> sms" where "f = (\<lambda>q. (hq_callback q, hq_msg q))"
  have "http_pending h = map f (take n (hr_sent h)) @ (cb, hq_msg q) # map f (drop (Suc n) (hr_sent h) @ hr_queued h)"
    unfolding http_pending_def f_def [symmetric] by (subst id_take_nth_drop [OF q(1)]) (simp add: q(2,3) f_def)
  moreover have "http_pending h' = map f (take n (hr_sent h)) @ map f (drop (Suc n) (hr_sent h) @ hr_queued h)"
    unfolding http_pending_def f_def by (simp add: q(4,5))
  ultimately show ?thesis by blast
qed

section \<open>Serving all requests\<close>

text \<open>
  A service that answers: \<open>answers\<close> receives the results of all outstanding requests in
  order, \<open>serve\<close> alternates rounds of the request thread with it. The service is a function
  from requests to response headers.
\<close>

fun answers :: "gwlib \<Rightarrow> (http_request \<Rightarrow> (octstr, octstr) dict) \<Rightarrow> nat \<Rightarrow> http_routing \<Rightarrow>
    (route_callback \<times> route_status \<times> sms) list \<times> http_routing" where
  "answers G reply 0 h = ([], h)"
| "answers G reply (Suc n) h =
     (case hr_sent h of
        [] \<Rightarrow> ([], h)
      | q # _ \<Rightarrow>
          (case receive_result G 0 (reply q) h of
             None \<Rightarrow> ([], h)
           | Some (r, h) \<Rightarrow> (let (rs, h) = answers G reply n h in (r # rs, h))))"

fun serve :: "gwlib \<Rightarrow> (octstr \<Rightarrow> octstr) \<Rightarrow> (http_request \<Rightarrow> (octstr, octstr) dict) \<Rightarrow> nat \<Rightarrow> http_routing \<Rightarrow>
    (route_callback \<times> route_status \<times> sms) list \<times> http_routing" where
  "serve G enc reply 0 h = ([], h)"
| "serve G enc reply (Suc k) h =
     (let h = snd (smpp_http_client_request_thread G enc h);
          (rs, h) = answers G reply (length (hr_sent h)) h;
          (rest, h) = serve G enc reply k h
      in (rs @ rest, h))"

definition result_of :: "gwlib \<Rightarrow> (http_request \<Rightarrow> (octstr, octstr) dict) \<Rightarrow> http_request \<Rightarrow> route_callback \<times> route_status \<times> sms" where
  "result_of G reply q = (hq_callback q, http_route_result G (reply q) (hq_direction q) (hq_status q) (hq_msg q))"

lemma answers_spec:
  "length (hr_sent h) = n \<Longrightarrow> hr_outstanding h = n \<Longrightarrow>
   fst (answers G reply n h) = map (result_of G reply) (hr_sent h)
   \<and> hr_sent (snd (answers G reply n h)) = [] \<and> hr_queued (snd (answers G reply n h)) = hr_queued h
   \<and> hr_outstanding (snd (answers G reply n h)) = 0 \<and> hr_max_outstanding (snd (answers G reply n h)) = hr_max_outstanding h"
proof (induction n arbitrary: h)
  case (Suc n)
  then obtain q qs where q: "hr_sent h = q # qs" "length qs = n" by (cases "hr_sent h") auto
  let ?h = "h\<lparr>hr_outstanding := hr_outstanding h - 1, hr_sent := qs\<rparr>"
  have r: "receive_result G 0 (reply q) h = Some (result_of G reply q, ?h)"
    using q by (simp add: receive_result_def result_of_def Let_def)
  show ?case using Suc.IH [of ?h] Suc.prems(2) q r by (simp add: case_prod_beta Let_def)
qed simp

lemma serve_spec:
  assumes "0 < hr_max_outstanding h" "hr_outstanding h = length (hr_sent h)" "length (hr_sent h @ hr_queued h) \<le> k"
  shows "fst (serve G enc reply k h) = map (result_of G reply) (hr_sent h @ hr_queued h)
    \<and> http_pending (snd (serve G enc reply k h)) = []"
  using assms
proof (induction k arbitrary: h)
  case 0
  then show ?case by (simp add: http_pending_def)
next
  case (Suc k)
  define h1 where "h1 = snd (smpp_http_client_request_thread G enc h)"
  define n where "n = length (hr_sent h1)"
  have h1: "hr_sent h1 = hr_sent h @ take (room h) (hr_queued h)" "hr_queued h1 = drop (room h) (hr_queued h)"
    "hr_outstanding h1 = n" "hr_max_outstanding h1 = hr_max_outstanding h"
    using Suc.prems(2) by (simp_all add: h1_def n_def request_round)
  define h2 where "h2 = snd (answers G reply n h1)"
  note a = answers_spec [of h1 n G reply, OF n_def [symmetric] h1(3), folded h2_def]
  have room: "0 < room h \<or> hr_sent h \<noteq> []" using Suc.prems(1,2) by (auto simp: room_def)
  have "length (hr_queued h1) \<le> k"
  proof (cases "hr_queued h = []")
    case False
    then show ?thesis using Suc.prems(3) room h1(2) by (cases "hr_sent h") auto
  qed (simp add: h1(2))
  then have ih: "fst (serve G enc reply k h2) = map (result_of G reply) (hr_queued h1) \<and> http_pending (snd (serve G enc reply k h2)) = []"
    using Suc.IH [of h2] a Suc.prems(1) h1(4) by simp
  have "fst (serve G enc reply (Suc k) h) = fst (answers G reply n h1) @ fst (serve G enc reply k h2)"
    "snd (serve G enc reply (Suc k) h) = snd (serve G enc reply k h2)"
    by (simp_all add: case_prod_beta Let_def h1_def [symmetric] n_def [symmetric] h2_def [symmetric])
  then have "fst (serve G enc reply (Suc k) h) = map (result_of G reply) (hr_sent h1 @ hr_queued h1)"
    using ih a by (simp del: serve.simps)
  moreover have "hr_sent h1 @ hr_queued h1 = hr_sent h @ hr_queued h" using h1(1,2) by simp
  ultimately show ?case
    using ih \<open>snd (serve G enc reply (Suc k) h) = snd (serve G enc reply k h2)\<close> by (simp del: serve.simps map_append)
qed

section \<open>What reaches the bearerbox queue and the router\<close>

text \<open>
  Most operations leave the bearerbox queue and the pending requests alone; a submission after
  routing may add entries to the bearerbox queue, and these belong to one account.
\<close>

definition quiet :: "'d server \<Rightarrow> 'd server \<Rightarrow> bool" where
  "quiet s t \<longleftrightarrow> s_bb_queue t = s_bb_queue s \<and> s_pending_routes t = s_pending_routes s"

definition adds_for :: "octstr option \<Rightarrow> 'd server \<Rightarrow> 'd server \<Rightarrow> bool" where
  "adds_for a s t \<longleftrightarrow> s_pending_routes t = s_pending_routes s
     \<and> (\<exists>new. s_bb_queue t = s_bb_queue s @ new \<and> (\<forall>bm\<in>set new. service (bm_msg bm) = a))"

lemma adds_for_quiet: "quiet s t \<Longrightarrow> adds_for a s t"
  by (simp add: adds_for_def quiet_def)

lemma adds_for_from: "adds_for a t u \<Longrightarrow> quiet s t \<Longrightarrow> adds_for a s u"
  by (simp add: adds_for_def quiet_def)

lemma quiet_refl [simp]: "quiet s s"
  by (simp add: quiet_def)

lemma quiet_trans [trans]: "quiet s t \<Longrightarrow> quiet t u \<Longrightarrow> quiet s u"
  by (simp add: quiet_def)

lemma quiet_put_pdu [simp]: "quiet s (put_pdu p q t) = quiet s t" "quiet (put_pdu p q s) t = quiet s t"
  by (simp_all add: quiet_def put_pdu_def)

lemma quiet_upd_esme: "upd_esme i f s = Some t \<Longrightarrow> quiet s t"
  by (auto simp: upd_esme_def put_esme_def quiet_def bind_eq_Some_conv)

lemma quiet_upd_global: "upd_global i f s = Some t \<Longrightarrow> quiet s t"
  by (auto simp: upd_global_def quiet_def bind_eq_Some_conv)

lemma quiet_same_but_db: "same_but_db s t \<Longrightarrow> quiet s t"
  by (auto simp: same_but_db_def quiet_def)

lemma quiet_db [simp]:
  "quiet s (snd (smpp_database_add_message E s m))"
  "quiet s (snd (smpp_database_add_queue_message E s m))"
  "quiet s (snd (smpp_database_remove E s gid tmp))"
  "quiet s (snd (smpp_database_deduct_credit E s svc cost))"
  by (intro quiet_same_but_db database_frames)+

lemma quiet_destroy: "smpp_queued_pdu_destroy p s = Some t \<Longrightarrow> quiet s t"
  by (auto simp: smpp_queued_pdu_destroy_def free_pdu_def quiet_def bind_eq_Some_conv)

lemma quiet_queue [simp]: "quiet s (t\<lparr>s_outbound_queue := x\<rparr>) = quiet s t"
  by (simp add: quiet_def)

lemma quiet_add_outbound: "smpp_queues_add_outbound p s = Some t \<Longrightarrow> quiet s t"
  by (auto simp: smpp_queues_add_outbound_def bind_eq_Some_conv Let_def split: if_splits option.splits
      dest!: quiet_upd_esme quiet_destroy intro: quiet_trans)

lemma quiet_count: "count_traffic f i s = Some t \<Longrightarrow> quiet s t"
  by (auto simp: count_traffic_def bind_eq_Some_conv dest!: quiet_upd_esme quiet_upd_global intro: quiet_trans)

lemma quiet_callback_response: "callback_response p st s = Some t \<Longrightarrow> quiet s t"
  by (auto simp: callback_response_def bind_eq_Some_conv dest!: quiet_count quiet_add_outbound intro: quiet_trans)

lemma quiet_run_callback: "run_bb_callback E cb st s = Some t \<Longrightarrow> quiet s t"
  by (auto simp: run_bb_callback_def smpp_queues_callback_submit_sm_def smpp_queues_callback_data_sm_def
      smpp_bearerbox_requeue_result_def dest!: quiet_callback_response split: bb_callback.splits)

lemma quiet_reject: "reject_submission p q i st s = Some t \<Longrightarrow> quiet s t"
  by (auto simp: reject_submission_def bind_eq_Some_conv dest!: quiet_count quiet_add_outbound intro: quiet_trans)

lemma quiet_charge: "charge E i cost s = Some (paid, t) \<Longrightarrow> quiet s t"
  using quiet_db(4) [of s E] by (fastforce simp: charge_def bind_eq_Some_conv split: if_splits dest: arg_cong [of _ _ snd])

lemma adds_add_message:
  assumes "smpp_bearerbox_add_message E m cb s = Some t"
  shows "adds_for (service m) s t"
proof (cases "some_bearerbox_online s")
  case True
  then show ?thesis
    using assms by (auto simp: adds_for_def smpp_bearerbox_add_message_def smpp_bearerbox_add_to_queue_def smpp_bearerbox_msg_create_def)
next
  case False
  define x where "x = (if c_database_enable_queue (s_cfg s)
    then smpp_database_add_queue_message E s (bm_msg (smpp_bearerbox_msg_create (ev_gw E) m cb)) else (False, s))"
  have "run_bb_callback E cb (if fst x then 0 else SMPP_ESME_RSYSERR) (snd x) = Some t"
    using assms False unfolding smpp_bearerbox_add_message_def smpp_bearerbox_add_to_queue_def Let_def case_prod_beta x_def [symmetric]
    by (simp add: smpp_bearerbox_msg_create_def split: if_splits)
  moreover have "quiet s (snd x)" by (simp add: x_def)
  ultimately show ?thesis using quiet_run_callback quiet_trans adds_for_quiet by blast
qed

lemma adds_forward:
  assumes "forward_submission E p q i m s = Some t"
  shows "adds_for (service m) s t"
proof -
  from assms obtain e g resp cb where f: "get_esme s i = Some e" "get_global s i = Some g" "q_pdu q = Some resp" "resp_callback p resp = Some cb"
    by (auto simp: forward_submission_def bind_eq_Some_conv)
  define m1 where "m1 = (if is_submit_sm_resp resp then smpp_queues_msg_set_dlr_url (ev_gw E) (ev_now E) e m else m)"
  define q1 where "q1 = q\<lparr>q_pdu := Some (set_resp_message_id (Some (gw_uuid_unparse (ev_gw E) (sms_id m))) resp)\<rparr>"
  have svc: "service m1 = service m" by (simp add: m1_def smpp_queues_msg_set_dlr_url_def)
  show ?thesis
  proof (cases "g_database_store_primary g")
    case True
    then have "run_bb_callback E cb (if fst (smpp_database_add_message E s m1) then 0 else SMPP_ESME_RSYSERR)
        (put_pdu p (q1\<lparr>q_msg := Msg_null\<rparr>) (snd (smpp_database_add_message E s m1))) = Some t"
      using assms f by (simp add: forward_submission_def m1_def q1_def Let_def case_prod_beta)
    from quiet_run_callback [OF this] have "quiet s t" using quiet_trans [OF quiet_db(1) [of s E m1]] by simp
    then show ?thesis by (rule adds_for_quiet)
  next
    case False
    then have "smpp_bearerbox_add_message E m1 cb (put_pdu p (q1\<lparr>q_msg := Msg_lent\<rparr>) s) = Some t"
      using assms f by (simp add: forward_submission_def m1_def q1_def Let_def)
    from adds_add_message [OF this] show ?thesis by (simp add: svc adds_for_def put_pdu_def)
  qed
qed

lemma adds_routing_done:
  assumes "submission_routing_done E p rs s = Some t" "get_pdu s p = Some q" "q_msg q = Msg_own m"
  shows "adds_for (service m) s t"
proof -
  from assms obtain i u e where u: "q_esme q = Some i" "upd_esme i (\<lambda>e. e\<lparr>e_pending_routing := e_pending_routing e - 1\<rparr>) s = Some u" "get_esme u i = Some e"
    by (auto simp: submission_routing_done_def bind_eq_Some_conv)
  have same: "quiet s u" by (rule quiet_upd_esme [OF u(2)])
  have charged: "adds_for (service m) u t" if "do { (paid, v) \<leftarrow> charge E i c u;
      (if paid then forward_submission E p q i m v else reject_submission p q i SMPP_ESME_RSUBMITFAIL v) } = Some t" for c
  proof -
    from that obtain paid v where v: "charge E i c u = Some (paid, v)"
      "(if paid then forward_submission E p q i m v else reject_submission p q i SMPP_ESME_RSUBMITFAIL v) = Some t"
      by (auto simp: bind_eq_Some_conv)
    then have "adds_for (service m) v t" by (cases paid) (auto dest: adds_forward quiet_reject intro: adds_for_quiet)
    then show ?thesis using quiet_charge [OF v(1)] by (rule adds_for_from)
  qed
  have "adds_for (service m) u t"
    using assms u charged unfolding submission_routing_done_def
    by (auto simp: own_msg_def dest: quiet_reject intro: adds_for_quiet split: if_splits)
  then show ?thesis using same by (rule adds_for_from)
qed

section \<open>What every router keeps\<close>

text \<open>
  A router decides on a status and a message. Whatever it is, it leaves the account of a
  submission and the SMSC of an incoming message alone, prices the parts of the message it was
  given, and does not touch a message it refuses.
\<close>

locale router =
  fixes G :: gwlib and decides :: "int \<Rightarrow> sms \<Rightarrow> route_status \<Rightarrow> sms \<Rightarrow> bool"
  assumes account: "decides SMPP_ROUTE_DIRECTION_OUTBOUND m rs m' \<Longrightarrow> service m' = service m"
    and smsc: "decides SMPP_ROUTE_DIRECTION_INBOUND m rs m' \<Longrightarrow> smsc_id m' = smsc_id m"
    and parts: "decides d m rs m' \<Longrightarrow> rs_parts rs = rs_parts (smpp_route_status_create G m)"
    and refusal: "decides d m rs m' \<Longrightarrow> rs_status rs \<noteq> SMPP_ESME_ROK \<Longrightarrow> m' = m"
begin

lemma submission_account:
  assumes "decides SMPP_ROUTE_DIRECTION_OUTBOUND m rs m'" and "cb = RCb_submit_sm p i \<or> cb = RCb_data_sm p i"
    and "route_answer E cb m' rs s = Some t"
  shows "adds_for (service m) s t"
proof -
  obtain q where q: "get_pdu s p = Some q" "submission_routing_done E p rs (put_pdu p (q\<lparr>q_msg := Msg_own m'\<rparr>) s) = Some t"
    using assms(2,3) by (auto simp: route_answer_def set_callback_msg_def run_route_callback_def bind_eq_Some_conv
        smpp_queues_submit_routing_done_def smpp_queues_data_sm_routing_done_def)
  have "adds_for (service m') (put_pdu p (q\<lparr>q_msg := Msg_own m'\<rparr>) s) t"
    by (rule adds_routing_done [OF q(2), of "q\<lparr>q_msg := Msg_own m'\<rparr>"]) simp_all
  with account [OF assms(1)] show ?thesis by (simp add: adds_for_def put_pdu_def)
qed

end

lemma http_result_parts: "rs_parts (fst (http_route_result G hs d rs m)) = rs_parts rs"
  by (simp add: http_route_result_def Let_def header_or_def split: option.split)

interpretation http_router: router G "\<lambda>d m rs m'. \<exists>hs. http_route_result G hs d (smpp_route_status_create G m) m = (rs, m')" for G
proof
  fix d m rs m'
  assume "\<exists>hs. http_route_result G hs d (smpp_route_status_create G m) m = (rs, m')"
  then show "rs_parts rs = rs_parts (smpp_route_status_create G m)" using http_result_parts [of G _ d _ m] by (metis fst_conv)
qed (auto simp: http_route_result_def http_changes_def Let_def header_or_def split: option.splits if_splits)

interpretation db_router: router "ev_gw E" "\<lambda>d m rs m'. \<exists>smsc sid s s'. route_database E d smsc sid m s = (rs, m', s')" for E
  by unfold_locales (auto simp: route_database_def Let_def smpp_route_status_create_def split: if_splits sum.splits prod.splits)

section \<open>Answers leave the other requests alone\<close>

lemma pending_alloc_put [simp]:
  "s_pending_routes (snd (alloc_pdu q s)) = s_pending_routes s" "s_pending_routes (put_esme i e s) = s_pending_routes s"
  "s_pending_routes (put_pdu p q s) = s_pending_routes s"
  by (simp_all add: alloc_pdu_def put_pdu_def put_esme_def)

lemma pending_route_answer: "route_answer E cb m rs s = Some t \<Longrightarrow> s_pending_routes t = s_pending_routes s"
  using trunk_route_answer by (fastforce simp: trunk_def)

section \<open>Answers settle submissions\<close>

lemma receive_answers:
  assumes "n < length (hr_sent h)"
  shows "\<exists>h'. length (http_pending h) = Suc (length (http_pending h'))
    \<and> receive_result (ev_gw E) n hs h = Some ((hq_callback (hr_sent h ! n),
         http_route_result (ev_gw E) hs (hq_direction (hr_sent h ! n)) (hq_status (hr_sent h ! n)) (hq_msg (hr_sent h ! n))), h')"
  using assms by (auto simp: receive_result_def http_pending_def Let_def)

context submission_kind
begin

text \<open>The answer of a router to a submission that waits for it.\<close>

lemma awaited:
  fixes s :: "'d server"
  assumes "get_pdu s r = Some q" and w: "waiting i mid q" and "get_esme s i = Some e" and "0 < e_pending_routing e" and "get_global s i \<noteq> None"
  defines "u \<equiv> put_esme i (e\<lparr>e_pending_routing := e_pending_routing e - 1\<rparr>) s"
  shows "\<exists>s'. route_answer E (rcb r i) m rs s = Some s' \<and> owed i r u s'
    \<and> (rs_status rs \<noteq> SMPP_ESME_ROK \<and> octstr_len (smsc_id m) = 0 \<longrightarrow> answered i r (resp (rs_status rs) None) u s')"
proof -
  let ?q = "q\<lparr>q_msg := Msg_own m\<rparr>"
  let ?t = "put_pdu r ?q s"
  let ?e = "e\<lparr>e_pending_routing := e_pending_routing e - 1\<rparr>"
  have g: "get_global u i \<noteq> None" "get_global ?t i \<noteq> None"
    using assms(3,5) by (simp_all add: get_global_def u_def)
  have w: "waiting i mid ?q" using w by (simp add: waiting_def)
  have "prepared i r (Suc (e_pending_routing ?e)) u ?t"
    using assms(3,4) g(2) by (auto simp: prepared_def u_def) (simp_all add: put_esme_def put_pdu_def get_pdu_def get_esme_def)
  then obtain s' where s': "routing_done E r rs ?t = Some s'" "owed i r u s'"
    using routed [of i r "e_pending_routing ?e" u ?t ?q mid m ?e E rs] w by (auto simp: u_def)
  have run: "route_answer E (rcb r i) m rs s = Some s'"
    using s'(1) assms(1) by (simp add: route_answer_def set_rcb run_rcb)
  have "answered i r (resp (rs_status rs) None) u s'" if st: "rs_status rs \<noteq> SMPP_ESME_ROK" "octstr_len (smsc_id m) = 0"
  proof -
    let ?v = "put_esme i ?e ?t"
    have heap: "get_esme ?t i = Some e" "get_esme ?v i = Some ?e" "get_pdu ?t r = Some ?q"
      using assms(3) by (simp_all add: put_pdu_def put_esme_def get_esme_def get_pdu_def)
    have "reject_submission r ?q i (rs_status rs) ?v = Some s'"
      using s'(1) st w heap by (simp add: done_def submission_routing_done_def upd_esme_def own_msg_def waiting_def)
    moreover have "get_global ?v i \<noteq> None" using g(2) assms(3) by (simp add: get_global_def)
    moreover have "get_pdu ?v r \<noteq> None" by (simp add: put_esme_def put_pdu_def get_pdu_def)
    ultimately obtain x where "answered i r (resp (rs_status rs) None) ?v s'"
      using rejects [of ?v r i mid ?q "rs_status rs"] w by auto
    then show ?thesis by (auto simp: answered_def u_def put_esme_def put_pdu_def get_pdu_def get_esme_def)
  qed
  with run s'(2) show ?thesis by (intro exI [of _ s']) simp
qed

end

lemma awaited_submission:
  fixes s :: "'d server"
  assumes "get_pdu s r = Some q" and "q_pdu q = Some (Submit_sm_resp seq SMPP_ESME_ROK mid)" and "q_esme q = Some i" and "q_callback q = None"
    and "get_esme s i = Some e" and "0 < e_pending_routing e" and "get_global s i \<noteq> None"
  defines "u \<equiv> put_esme i (e\<lparr>e_pending_routing := e_pending_routing e - 1\<rparr>) s"
  shows "\<exists>s'. route_answer E (RCb_submit_sm r i) m rs s = Some s'
    \<and> ((\<exists>st mid'. answered i r (Submit_sm_resp seq st mid') u s') \<or> (\<exists>mid'. forwarded i r (BCb_submit_sm r) (Submit_sm_resp seq SMPP_ESME_ROK mid') u s'))
    \<and> (rs_status rs \<noteq> SMPP_ESME_ROK \<and> octstr_len (smsc_id m) = 0 \<longrightarrow> answered i r (Submit_sm_resp seq (rs_status rs) None) u s')"
  using submit.awaited [OF assms(1) _ assms(5-7), of seq mid E m rs] assms(2-4) by (simp add: submit.waiting_def submit.owed_def u_def)

section \<open>The properties\<close>

lemma http_router_refines_parts:
  assumes "s_routing_method s = Route_http" and "s_pending_routes s = http_pending h"
  shows "\<exists>s'. smpp_route_message E d smsc sid m cb s = Some s'
      \<and> s_pending_routes s' = http_pending (smpp_http_client_route_message (ev_gw E) d smsc sid m cb h)"
    and "http_pending (snd (smpp_http_client_request_thread (ev_gw E) enc h)) = s_pending_routes s"
    and "smpp_http_client_receive_thread E n hs h s = Some (h', s') \<Longrightarrow> server_step s s' \<and> s_pending_routes s' = http_pending h'"
proof -
  show "\<exists>s'. smpp_route_message E d smsc sid m cb s = Some s'
      \<and> s_pending_routes s' = http_pending (smpp_http_client_route_message (ev_gw E) d smsc sid m cb h)"
    using assms by (simp add: smpp_route_message_def pending_route_message)
  show "http_pending (snd (smpp_http_client_request_thread (ev_gw E) enc h)) = s_pending_routes s"
    using assms by (simp add: pending_request_round)
next
  assume "smpp_http_client_receive_thread E n hs h s = Some (h', s')"
  then obtain cb rs m where r: "receive_result (ev_gw E) n hs h = Some ((cb, rs, m), h')"
    "route_answer E cb m rs (s\<lparr>s_pending_routes := http_pending h'\<rparr>) = Some s'"
    by (auto simp: smpp_http_client_receive_thread_def bind_eq_Some_conv)
  obtain xs m0 ys where p: "http_pending h = xs @ (cb, m0) # ys" "http_pending h' = xs @ ys" using pending_receive [OF r(1)] by blast
  have "server_step s s'" using server_step.router [of s xs cb m0 ys E m rs s'] assms(2) r(2) p by simp
  moreover have "s_pending_routes s' = http_pending h'" using pending_route_answer [OF r(2)] by simp
  ultimately show "server_step s s' \<and> s_pending_routes s' = http_pending h'" by blast
qed

text \<open>
  The HTTP router implements the asynchronous router the server steps are stated with, for
  which s_pending_routes is the list of requests that wait for an answer. While the server is
  configured for HTTP routing and that list is the one of the router, routing a message appends
  the same entry to both, a round of the request thread changes neither, and receiving a result
  is one step of the server that ends with both equal again.
\<close>

theorem http_router_refines:
  assumes "s_routing_method s = Route_http" and "s_pending_routes s = http_pending h"
  shows "(\<exists>t. smpp_route_message E d smsc sid m cb s = Some t
      \<and> s_pending_routes t = http_pending (smpp_http_client_route_message (ev_gw E) d smsc sid m cb h))
    \<and> http_pending (snd (smpp_http_client_request_thread (ev_gw E) enc h)) = s_pending_routes s
    \<and> (\<forall>h' s'. smpp_http_client_receive_thread E n hs h s = Some (h', s') \<longrightarrow> server_step s s' \<and> s_pending_routes s' = http_pending h')"
  using http_router_refines_parts [OF assms] by blast

text \<open>A bound ESME whose submission waits for the only request of the router.\<close>

definition waiting_server :: "unit server" where
  "waiting_server = (put_pdu 0 (smpp_queued_pdu_create\<lparr>q_pdu := Some (Submit_sm_resp 7 SMPP_ESME_ROK None), q_esme := Some 0\<rparr>)
     (bound_server ''abc'' [(example_esme 0 0)\<lparr>e_pending_routing := 1\<rparr>]))
     \<lparr>s_routing_method := Route_http, s_pending_routes := [(RCb_submit_sm 0 0, sms_create 3)]\<rparr>"

definition waiting_routing :: http_routing where
  "waiting_routing = \<lparr>hr_max_outstanding = 1, hr_outstanding = 1, hr_queued = [],
     hr_sent = [\<lparr>hq_direction = SMPP_ROUTE_DIRECTION_OUTBOUND, hq_smsc_id = None, hq_system_id = Some ''abc'', hq_msg = sms_create 3,
                 hq_callback = RCb_submit_sm 0 0, hq_status = \<lparr>rs_parts = 1, rs_cost = 0, rs_status = SMPP_ESME_ROK\<rparr>\<rparr>]\<rparr>"

lemma waiting_facts:
  "get_pdu waiting_server 0 = Some (smpp_queued_pdu_create\<lparr>q_pdu := Some (Submit_sm_resp 7 SMPP_ESME_ROK None), q_esme := Some 0\<rparr>)"
  "get_esme waiting_server 0 = Some ((example_esme 0 0)\<lparr>e_pending_routing := 1, e_system_id := Some ''abc'', e_global := Some ''abc''\<rparr>)"
  "get_global waiting_server 0 \<noteq> None" "s_outbound_queue waiting_server = []" "s_routing_method waiting_server = Route_http"
  "s_pending_routes waiting_server = http_pending waiting_routing"
  by (simp_all add: waiting_server_def waiting_routing_def http_pending_def bound_server_def example_server_def initial_server_def get_pdu_def put_pdu_def
      get_global_def get_esme_def dict_get_Cons example_esme_def smpp_esme_create_def)

theorem http_router_refines_witness:
  "\<exists>s'. smpp_route_message example_env 0 None None (sms_create 4) (RCb_submit_sm 1 0) waiting_server = Some s' \<and> length (s_pending_routes s') = 2"
  using http_router_refines [OF waiting_facts(5,6), of example_env 0 None None "sms_create 4" "RCb_submit_sm 1 0" id 0 "[]"]
  by (auto simp: pending_route_message) (simp add: waiting_routing_def http_pending_def)

lemma http_router_drains_parts:
  assumes "0 < hr_max_outstanding h" and "hr_outstanding h = length (hr_sent h)" and "length (http_pending h) \<le> k"
  shows "map fst (fst (serve G enc reply k h)) = map fst (http_pending h)"
    and "map snd (fst (serve G enc reply k h))
       = map (\<lambda>q. http_route_result G (reply q) (hq_direction q) (hq_status q) (hq_msg q)) (hr_sent h @ hr_queued h)"
    and "http_pending (snd (serve G enc reply k h)) = []"
  using serve_spec [of h k G enc reply] assms by (simp_all add: http_pending_def result_of_def comp_def)

text \<open>
  C21: The HTTP router answers every request exactly once. When it may have a positive number of
  requests outstanding and its counter of them is right, then as many rounds as requests wait,
  with a service that answers, run the callback of every request once, in the order the
  requests were made and with the status and message the headers of its own response determine,
  and leave nothing waiting.
\<close>

theorem http_router_drains:
  assumes "0 < hr_max_outstanding h" and "hr_outstanding h = length (hr_sent h)" and "length (http_pending h) \<le> k"
  shows "map fst (fst (serve G enc reply k h)) = map fst (http_pending h)
    \<and> map snd (fst (serve G enc reply k h))
       = map (\<lambda>q. http_route_result G (reply q) (hq_direction q) (hq_status q) (hq_msg q)) (hr_sent h @ hr_queued h)
    \<and> http_pending (snd (serve G enc reply k h)) = []"
  using http_router_drains_parts [OF assms] by blast

theorem http_router_drains_witness:
  "http_pending (snd (serve example_gwlib id (\<lambda>_. []) 2
     (smpp_http_client_route_message example_gwlib 2 None None (sms_create 4) (RCb_submit_sm 1 0) waiting_routing))) = []"
  using http_router_drains [of "smpp_http_client_route_message example_gwlib 2 None None (sms_create 4) (RCb_submit_sm 1 0) waiting_routing" 2]
  by (simp add: smpp_http_client_route_message_def waiting_routing_def http_pending_def)

text \<open>
  C20: A submission stays with the account that made it, whatever the routing service answers:
  every message its routing adds to the bearerbox queue has the account (service) of the message
  that was routed. This holds for the HTTP router, whose answer may change any field, and for
  the database router.
\<close>

theorem routers_keep_account:
  assumes "cb = RCb_submit_sm p i \<or> cb = RCb_data_sm p i" and "route_answer E cb m' rs s = Some t"
    and "http_route_result (ev_gw E) hs SMPP_ROUTE_DIRECTION_OUTBOUND (smpp_route_status_create (ev_gw E) m) m = (rs, m')
       \<or> route_database E SMPP_ROUTE_DIRECTION_OUTBOUND smsc sid m s0 = (rs, m', s1)"
  shows "\<exists>new. s_bb_queue t = s_bb_queue s @ new \<and> (\<forall>bm. bm \<in> set new \<longrightarrow> service (bm_msg bm) = service m)"
proof -
  have "adds_for (service m) s t"
    using assms(3)
  proof
    assume "http_route_result (ev_gw E) hs SMPP_ROUTE_DIRECTION_OUTBOUND (smpp_route_status_create (ev_gw E) m) m = (rs, m')"
    then show ?thesis using http_router.submission_account assms(1,2) by blast
  next
    assume "route_database E SMPP_ROUTE_DIRECTION_OUTBOUND smsc sid m s0 = (rs, m', s1)"
    then show ?thesis using db_router.submission_account assms(1,2) by blast
  qed
  then show ?thesis by (auto simp: adds_for_def)
qed

theorem routers_keep_account_witness:
  "\<exists>t new. route_answer example_env (RCb_submit_sm 0 0) (sms_create 3) \<lparr>rs_parts = 1, rs_cost = 0, rs_status = SMPP_ESME_RSUBMITFAIL\<rparr> waiting_server = Some t
     \<and> s_bb_queue t = s_bb_queue waiting_server @ new \<and> (service \<circ> bm_msg) ` set new \<subseteq> {None}"
proof -
  let ?rs = "\<lparr>rs_parts = 1, rs_cost = 0, rs_status = SMPP_ESME_RSUBMITFAIL\<rparr>"
  obtain t where t: "route_answer example_env (RCb_submit_sm 0 0) (sms_create 3) ?rs waiting_server = Some t"
    using awaited_submission [OF waiting_facts(1) _ _ _ waiting_facts(2) _ waiting_facts(3), of 7 None example_env "sms_create 3" ?rs]
    by (auto simp: smpp_queued_pdu_create_def)
  have r: "http_route_result (ev_gw example_env) [] SMPP_ROUTE_DIRECTION_OUTBOUND (smpp_route_status_create (ev_gw example_env) (sms_create 3)) (sms_create 3)
      = (?rs, sms_create 3)"
    by (simp add: http_route_result_def http_header_value_def smpp_route_status_create_def example_env_def example_gwlib_def sms_create_def)
  have "service (sms_create 3) = None" by (simp add: sms_create_def)
  with routers_keep_account [OF disjI1 [OF refl] t disjI1 [OF r]] t show ?thesis by (auto simp: image_iff)
qed

text \<open>
  Every answer of the routing service settles its submission. When the result of a request
  made for a submission arrives, the callback runs without a fault and the submission is either
  answered, its response being the only entry added to the outbound queue, or handed to the
  bearerbox queue once; the request is no longer waited for and the other requests stay. When
  the headers refuse the message, or there are none at all, and it has no SMSC of its own, the
  response carries the status of the refusal.
\<close>

theorem http_answer_settles:
  assumes "get_pdu s r = Some q" and "q_pdu q = Some (Submit_sm_resp seq SMPP_ESME_ROK mid)" and "q_esme q = Some i" and "q_callback q = None"
    and "get_esme s i = Some e" and "0 < e_pending_routing e" and "get_global s i \<noteq> None"
    and "n < length (hr_sent h)" and "hq_callback (hr_sent h ! n) = RCb_submit_sm r i"
    and "http_route_result (ev_gw E) hs (hq_direction (hr_sent h ! n)) (hq_status (hr_sent h ! n)) (hq_msg (hr_sent h ! n)) = (rs, m)"
  shows "\<exists>h' s' u. smpp_http_client_receive_thread E n hs h s = Some (h', s')
    \<and> s_pending_routes s' = http_pending h' \<and> length (http_pending h) = Suc (length (http_pending h'))
    \<and> u = put_esme i (e\<lparr>e_pending_routing := e_pending_routing e - 1\<rparr>) (s\<lparr>s_pending_routes := http_pending h'\<rparr>)
    \<and> ((\<exists>st mid'. answered i r (Submit_sm_resp seq st mid') u s') \<or> (\<exists>mid'. forwarded i r (BCb_submit_sm r) (Submit_sm_resp seq SMPP_ESME_ROK mid') u s'))
    \<and> (rs_status rs \<noteq> SMPP_ESME_ROK \<and> octstr_len (smsc_id m) = 0 \<longrightarrow> answered i r (Submit_sm_resp seq (rs_status rs) None) u s')
    \<and> (http_header_value hs ''X-KSMPPD-Route-Status'' = None \<longrightarrow> rs_status rs = SMPP_ESME_RSUBMITFAIL)"
proof -
  obtain h' where h': "length (http_pending h) = Suc (length (http_pending h'))"
    "receive_result (ev_gw E) n hs h = Some ((RCb_submit_sm r i, rs, m), h')"
    using receive_answers [OF assms(8), of E hs] assms(9,10) by auto
  let ?s = "s\<lparr>s_pending_routes := http_pending h'\<rparr>"
  have heap: "get_pdu ?s r = Some q" "get_esme ?s i = Some e" "get_global ?s i \<noteq> None"
    using assms(1,5,7) by (simp_all add: get_pdu_def get_esme_def get_global_def)
  obtain s' where s': "route_answer E (RCb_submit_sm r i) m rs ?s = Some s'"
    "(\<exists>st mid'. answered i r (Submit_sm_resp seq st mid') (put_esme i (e\<lparr>e_pending_routing := e_pending_routing e - 1\<rparr>) ?s) s')
     \<or> (\<exists>mid'. forwarded i r (BCb_submit_sm r) (Submit_sm_resp seq SMPP_ESME_ROK mid') (put_esme i (e\<lparr>e_pending_routing := e_pending_routing e - 1\<rparr>) ?s) s')"
    "rs_status rs \<noteq> SMPP_ESME_ROK \<and> octstr_len (smsc_id m) = 0 \<longrightarrow>
      answered i r (Submit_sm_resp seq (rs_status rs) None) (put_esme i (e\<lparr>e_pending_routing := e_pending_routing e - 1\<rparr>) ?s) s'"
    using awaited_submission [OF heap(1) assms(2-4) heap(2) assms(6) heap(3), of E m rs] by blast
  have "smpp_http_client_receive_thread E n hs h s = Some (h', s')" using h'(2) s'(1) by (simp add: smpp_http_client_receive_thread_def)
  moreover have "s_pending_routes s' = http_pending h'" using pending_route_answer [OF s'(1)] by simp
  moreover have "http_header_value hs ''X-KSMPPD-Route-Status'' = None \<longrightarrow> rs_status rs = SMPP_ESME_RSUBMITFAIL"
    using assms(10) by (auto simp: http_route_result_def Let_def)
  ultimately show ?thesis using h'(1) s'(2,3)
    by - (rule exI [of _ h'], rule exI [of _ s'], rule exI [of _ "put_esme i (e\<lparr>e_pending_routing := e_pending_routing e - 1\<rparr>) ?s"],
        intro conjI; (assumption | rule refl))
qed

theorem http_answer_settles_witness:
  "\<exists>h' s'. smpp_http_client_receive_thread example_env 0 [] waiting_routing waiting_server = Some (h', s')
     \<and> http_pending h' = [] \<and> s_outbound_queue s' = [(0, 0)]"
proof -
  let ?rs = "\<lparr>rs_parts = 1, rs_cost = 0, rs_status = SMPP_ESME_RSUBMITFAIL\<rparr>"
  have h: "0 < length (hr_sent waiting_routing)" "hq_callback (hr_sent waiting_routing ! 0) = RCb_submit_sm 0 0"
    "http_route_result (ev_gw example_env) [] (hq_direction (hr_sent waiting_routing ! 0)) (hq_status (hr_sent waiting_routing ! 0))
       (hq_msg (hr_sent waiting_routing ! 0)) = (?rs, sms_create 3)" "length (http_pending waiting_routing) = 1"
    by (simp_all add: waiting_routing_def http_pending_def http_route_result_def http_header_value_def)
  have q: "octstr_len (smsc_id (sms_create 3)) = 0" "rs_status ?rs \<noteq> SMPP_ESME_ROK" by (simp_all add: sms_create_def)
  obtain h' s' u where "smpp_http_client_receive_thread example_env 0 [] waiting_routing waiting_server = Some (h', s')"
    and p: "length (http_pending waiting_routing) = Suc (length (http_pending h'))"
    and u: "u = put_esme 0 ((example_esme 0 0)\<lparr>e_system_id := Some ''abc'', e_global := Some ''abc'', e_pending_routing := 0\<rparr>)
        (waiting_server\<lparr>s_pending_routes := http_pending h'\<rparr>)"
    and a: "answered 0 0 (Submit_sm_resp 7 SMPP_ESME_RSUBMITFAIL None) u s'"
    using http_answer_settles [OF waiting_facts(1) _ _ _ waiting_facts(2) _ waiting_facts(3) h(1-3), of 7 None] q
    by (auto simp: smpp_queued_pdu_create_def)
  moreover have "s_outbound_queue u = []" using waiting_facts(4) by (simp add: u put_esme_def)
  then have "s_outbound_queue s' = [(0, 0)]" using a by (simp add: answered_def)
  moreover have "http_pending h' = []" using p h(4) by simp
  ultimately show ?thesis by blast
qed

end
