(* ===== verification/HttpServer.thy ===== *)
theory HttpServer
  imports System Store "HOL-Library.Signed_Division"
begin

text \<open>
  The administration server of smpp_http_server.c with every command the parts of the program
  register: uptime and log-level (smpp_http_server.c), rebuild-routes (smpp_route.c), esme-status
  and esme-unbind (smpp_esme.c). The function pointers of the table of commands are constructors;
  a request is a path with its arguments, and the log level of the process is part of the state.
\<close>

section \<open>Results\<close>

definition nl :: octstr where "nl = [CHR 0x0A]"

definition tab :: octstr where "tab = [CHR 0x09]"

text \<open>\<open>%ldd %ldh %ldm %lds\<close> of a difference of two times; the division of C cuts towards zero.\<close>

definition days_text :: "int \<Rightarrow> octstr" where
  "days_text d = show_int (d sdiv 3600 sdiv 24) @ ''d '' @ show_int (d sdiv 3600 smod 24) @ ''h ''
     @ show_int (d sdiv 60 smod 60) @ ''m '' @ show_int (d smod 60) @ ''s''"

record command_result =
  cr_result :: "octstr option"
  cr_status :: int

definition smpp_http_command_result_create :: command_result where
  "smpp_http_command_result_create = \<lparr>cr_result = None, cr_status = HTTP_OK\<rparr>"

datatype http_command = Cmd_uptime | Cmd_log_level | Cmd_rebuild_routes | Cmd_esme_status | Cmd_esme_unbind

record http_server =
  hs_port :: int
  hs_password :: "octstr option"
  hs_commands :: "(octstr, http_command) dict"
  hs_start_time :: timestamp
  hs_ssl :: bool
  hs_interface :: "octstr option"

definition smpp_http_server_create :: http_server where
  "smpp_http_server_create = \<lparr>hs_port = 0, hs_password = None, hs_commands = [], hs_start_time = 0, hs_ssl = False,
     hs_interface = None\<rparr>"

definition smpp_http_server_add_command :: "octstr \<Rightarrow> http_command \<Rightarrow> http_server \<Rightarrow> http_server" where
  "smpp_http_server_add_command key c h = h\<lparr>hs_commands := dict_put (hs_commands h) (''/'' @ key) c\<rparr>"

section \<open>Uptime and log level\<close>

definition smpp_http_command_uptime :: "timestamp \<Rightarrow> http_content \<Rightarrow> http_server \<Rightarrow> command_result" where
  "smpp_http_command_uptime now ct h =
     (let diff = now - hs_start_time h in
      smpp_http_command_result_create\<lparr>cr_result := Some
        (if ct = HTTP_CONTENT_TYPE_PLAIN then ''Uptime '' @ days_text diff @ nl
         else ''<uptime>'' @ show_int diff @ ''</uptime>'')\<rparr>)"

definition smpp_http_command_log_level :: "(octstr, octstr) dict \<Rightarrow> http_content \<Rightarrow> int \<Rightarrow> command_result \<times> int" where
  "smpp_http_command_log_level args ct current =
     (let level = dict_get args ''level'';
          new = (if 0 < octstr_len level then atol (the level) else -1);
          msg = (if 0 \<le> new then ''Log level set to '' @ show_int new else ''Invalid level specified'')
      in (smpp_http_command_result_create\<lparr>cr_result := Some
            (if ct = HTTP_CONTENT_TYPE_PLAIN then msg @ nl else ''<message>'' @ msg @ ''</message>'' @ nl)\<rparr>,
          if 0 \<le> new then new else current))"

definition smpp_route_rebuild_command :: "'d env \<Rightarrow> http_content \<Rightarrow> 'd server \<Rightarrow> command_result \<times> 'd server" where
  "smpp_route_rebuild_command E ct s =
     (smpp_http_command_result_create\<lparr>cr_result := Some
        (if ct = HTTP_CONTENT_TYPE_PLAIN then ''Routes updated'' else ''<status>Routes updated</status>'')\<rparr>,
      smpp_route_rebuild E s)"

section \<open>The status of the ESMEs\<close>

text \<open>
  \<open>%0.2f\<close> of a number, and of load_get with the intervals the load was created with: those of
  an ESME have one interval, those of an account and of the server four.
\<close>

record printing =
  pr_double :: "real \<Rightarrow> octstr"
  pr_load :: "int list \<Rightarrow> load \<Rightarrow> nat \<Rightarrow> octstr"

definition ESME_LOAD :: "int list" where "ESME_LOAD = [1]"

definition TOTAL_LOAD :: "int list" where "TOTAL_LOAD = [-1, 1, 60, 300]"

definition loads :: "printing \<Rightarrow> load \<Rightarrow> octstr" where
  "loads P l = pr_load P TOTAL_LOAD l 0 @ ''/'' @ pr_load P TOTAL_LOAD l 1 @ ''/'' @ pr_load P TOTAL_LOAD l 2"

definition traffic_text :: "traffic \<Rightarrow> octstr" where
  "traffic_text t = show_nat (mt_counter t) @ ''/'' @ show_nat (mo_counter t) @ ''/'' @ show_nat (dlr_counter t) @ ''/''
     @ show_nat (error_counter t)"

definition yes_no :: "bool \<Rightarrow> octstr" where
  "yes_no b = (if b then ''yes'' else ''no'')"

definition plain_summary :: "printing \<Rightarrow> 'd server \<Rightarrow> octstr" where
  "plain_summary P s = ''Summary: '' @ nl @ nl @ ''Unique known ESME'' @ [CHR 0x27] @ ''s: '' @ show_nat (dict_key_count (s_esmes s)) @ nl
     @ ''Total inbound processed:'' @ show_nat (s_inbound_processed s) @ '' load: '' @ loads P (s_inbound_load s) @ ''/sec'' @ nl
     @ ''Total outbound processed:'' @ show_nat (s_outbound_processed s) @ '' load: '' @ loads P (s_outbound_load s) @ ''/sec'' @ nl"

definition plain_global :: "printing \<Rightarrow> octstr \<Rightarrow> esme_global \<Rightarrow> octstr" where
  "plain_global P key g = nl @ key @ '' - binds:'' @ show_nat (length (g_binds g)) @ ''/'' @ show_int (g_max_binds g)
     @ '', total inbound load:('' @ loads P (g_inbound_load g) @ '')/'' @ pr_double P (g_throughput g)
     @ ''/sec, outbound load:('' @ loads P (g_outbound_load g) @ '')/sec, mt/mo/dlr/errors:('' @ traffic_text (g_traffic g) @ '')'' @ nl"

definition plain_bind :: "printing \<Rightarrow> timestamp \<Rightarrow> nat \<Rightarrow> esme \<Rightarrow> octstr" where
  "plain_bind P now i e = ''-- id:'' @ show_nat i @ '' ip:'' @ fmt_S (e_ip e) @ '' uptime:'' @ days_text (now - e_time_connected e)
     @ '', type:'' @ show_nat (e_bind_type e) @ '', open-acks:'' @ show_nat (dict_key_count (e_open_acks e))
     @ '', simulate: '' @ yes_no (sim_on (e_simulation e))
     @ '', inbound (load/queued/processed/routing):'' @ pr_load P ESME_LOAD (e_inbound_load e) 0 @ ''/'' @ show_nat (e_inbound_queued e)
     @ ''/'' @ show_nat (e_inbound_processed e) @ ''/'' @ show_nat (e_pending_routing e)
     @ '', outbound (load/queued/processed):'' @ pr_load P ESME_LOAD (e_outbound_load e) 0 @ ''/'' @ show_nat (e_outbound_queued e)
     @ ''/'' @ show_nat (e_outbound_processed e) @ '', mt/mo/dlr/errors:'' @ traffic_text (e_traffic e) @ nl"

definition xml_field :: "octstr \<Rightarrow> octstr \<Rightarrow> octstr" where
  "xml_field name v = ''<'' @ name @ ''>'' @ v @ ''</'' @ name @ ''>'' @ nl"

definition xml_traffic :: "octstr \<Rightarrow> traffic \<Rightarrow> octstr" where
  "xml_traffic ind t = ind @ xml_field ''mt'' (show_nat (mt_counter t)) @ ind @ xml_field ''mo'' (show_nat (mo_counter t))
     @ ind @ xml_field ''dlr'' (show_nat (dlr_counter t)) @ ind @ xml_field ''errors'' (show_nat (error_counter t))"

definition xml_summary :: "printing \<Rightarrow> 'd server \<Rightarrow> octstr" where
  "xml_summary P s = ''<summary>'' @ nl @ tab @ xml_field ''unique'' (show_nat (dict_key_count (s_esmes s)))
     @ tab @ xml_field ''inbound-processed'' (show_nat (s_inbound_processed s)) @ tab @ xml_field ''inbound-load'' (loads P (s_inbound_load s))
     @ tab @ xml_field ''outbound-processed'' (show_nat (s_outbound_processed s)) @ tab @ xml_field ''outbound-load'' (loads P (s_outbound_load s))
     @ ''</summary>''"

definition xml_global :: "printing \<Rightarrow> octstr \<Rightarrow> esme_global \<Rightarrow> octstr" where
  "xml_global P key g = nl @ ''<esme>'' @ nl @ tab @ xml_field ''system-id'' key @ tab @ xml_field ''bind-count'' (show_nat (length (g_binds g)))
     @ tab @ xml_field ''max-binds'' (show_int (g_max_binds g)) @ tab @ xml_field ''inbound-load'' (loads P (g_inbound_load g))
     @ tab @ xml_field ''max-inbound-load'' (pr_double P (g_throughput g)) @ tab @ xml_field ''outbound-load'' (loads P (g_outbound_load g))
     @ xml_traffic tab (g_traffic g)"

definition xml_bind :: "printing \<Rightarrow> timestamp \<Rightarrow> nat \<Rightarrow> esme \<Rightarrow> octstr" where
  "xml_bind P now i e = (let t = tab @ tab in
     tab @ ''<bind>'' @ nl @ t @ xml_field ''bind-id'' (show_nat i) @ t @ xml_field ''ip'' (fmt_S (e_ip e))
     @ t @ xml_field ''uptime'' (show_int (now - e_time_connected e)) @ t @ xml_field ''bind-type'' (show_nat (e_bind_type e))
     @ t @ xml_field ''open-acks'' (show_nat (dict_key_count (e_open_acks e))) @ t @ xml_field ''simulate'' (yes_no (sim_on (e_simulation e)))
     @ t @ xml_field ''inbound-load'' (pr_load P ESME_LOAD (e_inbound_load e) 0) @ t @ xml_field ''inbound-queued'' (show_nat (e_inbound_queued e))
     @ t @ xml_field ''inbound-processed'' (show_nat (e_inbound_processed e)) @ t @ xml_field ''inbound-routing'' (show_nat (e_pending_routing e))
     @ t @ xml_field ''outbound-load'' (pr_load P ESME_LOAD (e_outbound_load e) 0) @ t @ xml_field ''outbound-queued'' (show_nat (e_outbound_queued e))
     @ t @ xml_field ''outbound-processed'' (show_nat (e_outbound_processed e)) @ xml_traffic t (e_traffic e)
     @ tab @ ''</bind>'' @ nl)"

fun status_binds :: "(nat \<Rightarrow> esme \<Rightarrow> octstr) \<Rightarrow> 'd server \<Rightarrow> nat list \<Rightarrow> octstr option" where
  "status_binds line s [] = Some ''''"
| "status_binds line s (i # is) = do { e \<leftarrow> get_esme s i; rest \<leftarrow> status_binds line s is; Some (line i e @ rest) }"

fun status_globals :: "(octstr \<Rightarrow> esme_global \<Rightarrow> octstr) \<Rightarrow> (nat \<Rightarrow> esme \<Rightarrow> octstr) \<Rightarrow> octstr \<Rightarrow> 'd server \<Rightarrow> octstr list \<Rightarrow> octstr option" where
  "status_globals head line foot s [] = Some ''''"
| "status_globals head line foot s (k # ks) = do {
     g \<leftarrow> dict_get (s_esmes s) k;
     b \<leftarrow> status_binds line s (g_binds g);
     rest \<leftarrow> status_globals head line foot s ks;
     Some (head k g @ b @ foot @ rest) }"

definition smpp_esme_status_command :: "printing \<Rightarrow> timestamp \<Rightarrow> http_content \<Rightarrow> 'd server \<Rightarrow> command_result option" where
  "smpp_esme_status_command P now ct s = do {
     text \<leftarrow> (if ct = HTTP_CONTENT_TYPE_PLAIN
       then map_option (\<lambda>t. plain_summary P s @ t)
              (status_globals (plain_global P) (plain_bind P now) '''' s (dict_keys (s_esmes s)))
       else map_option (\<lambda>t. ''<esmes>'' @ xml_summary P s @ t @ ''</esmes>'')
              (status_globals (xml_global P) (xml_bind P now) ''</esme>'' s (dict_keys (s_esmes s))));
     Some (smpp_http_command_result_create\<lparr>cr_result := Some text\<rparr>) }"

section \<open>Requests\<close>

record 'd admin =
  ad_http :: http_server
  ad_log_level :: int
  ad_server :: "'d server"

definition run_command ::
  "'d env \<Rightarrow> printing \<Rightarrow> http_command \<Rightarrow> (octstr, octstr) dict \<Rightarrow> http_content \<Rightarrow> 'd admin \<Rightarrow> (command_result \<times> 'd admin) option" where
  "run_command E P c args ct a =
     (case c of
        Cmd_uptime \<Rightarrow> Some (smpp_http_command_uptime (ev_now E) ct (ad_http a), a)
      | Cmd_log_level \<Rightarrow>
          (let (r, l) = smpp_http_command_log_level args ct (ad_log_level a) in Some (r, a\<lparr>ad_log_level := l\<rparr>))
      | Cmd_rebuild_routes \<Rightarrow>
          (let (r, s) = smpp_route_rebuild_command E ct (ad_server a) in Some (r, a\<lparr>ad_server := s\<rparr>))
      | Cmd_esme_status \<Rightarrow> map_option (\<lambda>r. (r, a)) (smpp_esme_status_command P (ev_now E) ct (ad_server a))
      | Cmd_esme_unbind \<Rightarrow>
          map_option (\<lambda>((st, t), s). (\<lparr>cr_result = Some t, cr_status = st\<rparr>, a\<lparr>ad_server := s\<rparr>))
            (smpp_esme_unbind_command (dict_get args ''system-id'') (dict_get args ''bind-id'') ct (ad_server a)))"

text \<open>The path without its extension, and the content type the extension asks for.\<close>

definition split_extension :: "octstr \<Rightarrow> octstr \<times> http_content" where
  "split_extension url =
     (if CHR ''.'' \<in> set url
      then let pos = length url - 1 - length (takeWhile (\<lambda>c. c \<noteq> CHR ''.'') (rev url)) in
           (take pos url, if drop pos url = ''.xml'' then HTTP_CONTENT_TYPE_XML else HTTP_CONTENT_TYPE_PLAIN)
      else (url, HTTP_CONTENT_TYPE_PLAIN))"

definition authorized :: "http_server \<Rightarrow> (octstr, octstr) dict \<Rightarrow> bool" where
  "authorized h args \<longleftrightarrow> 0 < octstr_len (dict_get args ''password'') \<and> dict_get args ''password'' = hs_password h"

definition smpp_http_server_request_handler ::
  "'d env \<Rightarrow> printing \<Rightarrow> octstr \<Rightarrow> (octstr, octstr) dict \<Rightarrow> 'd admin \<Rightarrow> ((int \<times> octstr option) \<times> 'd admin) option" where
  "smpp_http_server_request_handler E P url args a =
     (if \<not> authorized (ad_http a) args then Some ((403, Some ''Denied''), a)
      else
        let (path, ct) = split_extension url in
        case dict_get (hs_commands (ad_http a)) path of
          Some c \<Rightarrow> do {
            (r, a) \<leftarrow> run_command E P c args ct a;
            Some ((cr_status r, cr_result r), a) }
        | None \<Rightarrow>
            Some ((HTTP_NOT_FOUND, Some (''Command '' @ [CHR 0x27] @ path @ [CHR 0x27] @ '' not found, available commands are: '' @ nl @ nl
                     @ concat (map (\<lambda>k. k @ nl) (dict_keys (hs_commands (ad_http a)))))), a))"

section \<open>Start\<close>

text \<open>\<open>opens\<close> says whether the port can be opened; the other commands are added by their parts.\<close>

definition smpp_http_server_init :: "(int \<Rightarrow> bool \<Rightarrow> bool) \<Rightarrow> timestamp \<Rightarrow> cfg_group option \<Rightarrow> init_error + http_server" where
  "smpp_http_server_init opens now grp =
     (case grp of
        None \<Rightarrow> Inl No_group
      | Some g \<Rightarrow>
          (case cg_integer g ''port'' of
             None \<Rightarrow> Inl (Missing ''port'')
           | Some port \<Rightarrow>
               (if octstr_len (cg_get g ''password'') = 0 then Inl (Missing ''password'')
                else if \<not> opens port (cg_bool g ''ssl'') then Inl No_listener
                else Inr (smpp_http_server_add_command ''log-level'' Cmd_log_level
                       (smpp_http_server_add_command ''uptime'' Cmd_uptime
                          (smpp_http_server_create\<lparr>hs_port := port, hs_password := cg_get g ''password'', hs_ssl := cg_bool g ''ssl'',
                             hs_start_time := now\<rparr>))))))"

end
