(* ===== verification/AdminFacts.thy ===== *)
theory AdminFacts
  imports HttpServer Runs
begin

text \<open>
  The administration server: who may give a command, that no command can fault in a state the
  server can reach and that each is a step of the server, and what the unbind command queues.
\<close>

section \<open>The unbind command\<close>

text \<open>The PDUs of the command are allocated one after the other, one per bind.\<close>

lemma send_unbind_spec:
  assumes "get_esme s i = Some e"
  shows "\<exists>s'. send_unbind i s = Some s' \<and> s_next_pdu s' = Suc (s_next_pdu s) \<and> s_esmes s' = s_esmes s
    \<and> s_outbound_queue s' = s_outbound_queue s @ [(s_next_pdu s, i)]
    \<and> get_pdu s' (s_next_pdu s) = Some ((smpp_queued_pdu_create_quick i e (Unbind (int (e_sequence_number e))))\<lparr>q_disconnect := True\<rparr>)
    \<and> (\<forall>p. p \<noteq> s_next_pdu s \<longrightarrow> get_pdu s' p = get_pdu s p) \<and> (\<forall>j. get_esme s' j = None \<longleftrightarrow> get_esme s j = None)"
  using assms
  by (simp add: send_unbind_def alloc_pdu_def smpp_queues_add_outbound_def upd_esme_def smpp_queued_pdu_create_quick_def
      smpp_queued_pdu_create_def Let_def) (simp add: put_esme_def put_pdu_def get_esme_def get_pdu_def)

definition unbind_pdu :: "'d server \<Rightarrow> nat \<times> nat \<Rightarrow> bool" where
  "unbind_pdu s = (\<lambda>(p, i). \<exists>q n. get_pdu s p = Some q \<and> q_pdu q = Some (Unbind n) \<and> q_esme q = Some i \<and> q_disconnect q)"

lemma send_unbinds_spec:
  assumes "\<And>i. i \<in> set is \<Longrightarrow> get_esme s i \<noteq> None"
  shows "\<exists>s'. send_unbinds is s = Some s' \<and> s_esmes s' = s_esmes s
    \<and> s_outbound_queue s' = s_outbound_queue s @ zip [s_next_pdu s..<s_next_pdu s + length is] is
    \<and> list_all (unbind_pdu s') (zip [s_next_pdu s..<s_next_pdu s + length is] is)
    \<and> (\<forall>p < s_next_pdu s. get_pdu s' p = get_pdu s p)"
  using assms
proof (induction "is" arbitrary: s)
  case (Cons i js)
  obtain e where "get_esme s i = Some e" using Cons.prems[of i] by auto
  from send_unbind_spec [OF this] obtain t where t: "send_unbind i s = Some t" "s_next_pdu t = Suc (s_next_pdu s)" "s_esmes t = s_esmes s"
    "s_outbound_queue t = s_outbound_queue s @ [(s_next_pdu s, i)]" "unbind_pdu t (s_next_pdu s, i)"
    "\<forall>p. p \<noteq> s_next_pdu s \<longrightarrow> get_pdu t p = get_pdu s p" "\<forall>j. get_esme t j = None \<longleftrightarrow> get_esme s j = None"
    by (force simp: unbind_pdu_def smpp_queued_pdu_create_quick_def)
  obtain u where u: "send_unbinds js t = Some u" "s_esmes u = s_esmes t"
    "s_outbound_queue u = s_outbound_queue t @ zip [s_next_pdu t..<s_next_pdu t + length js] js"
    "list_all (unbind_pdu u) (zip [s_next_pdu t..<s_next_pdu t + length js] js)" "\<forall>p < s_next_pdu t. get_pdu u p = get_pdu t p"
    using Cons.IH [of t] Cons.prems t(7) by (metis list.set_intros(2))
  have "[s_next_pdu s..<s_next_pdu s + length (i # js)] = s_next_pdu s # [s_next_pdu t..<s_next_pdu t + length js]"
    by (simp add: t(2) upt_conv_Cons del: upt_Suc)
  moreover have "unbind_pdu u (s_next_pdu s, i)" using t(2,5) u(5) by (simp add: unbind_pdu_def)
  ultimately show ?case using t u by (simp del: upt_Suc)
qed simp

lemma live_targets:
  assumes "server_inv {} s" and "dict_get (s_esmes s) k = Some g" and "i \<in> set (unbind_targets g bid)"
  shows "get_esme s i \<noteq> None"
proof -
  have "i \<in> set (g_binds g)" using assms(3) by (auto simp: unbind_targets_def split: if_splits dest: in_set_takeD)
  then show ?thesis using assms(1,2) unfolding server_inv_def binds_ok_def by fastforce
qed

lemma unbind_total:
  assumes "server_inv {} s"
  shows "\<exists>r s'. smpp_esme_unbind_command sid bid ct s = Some (r, s') \<and> server_step s s'"
proof -
  have "\<exists>r s'. smpp_esme_unbind_command sid bid ct s = Some (r, s')"
  proof (cases "dict_get (s_esmes s) (octstr_lower (the sid))")
    case (Some g)
    obtain s' where "send_unbinds (unbind_targets g bid) s = Some s'"
      using send_unbinds_spec live_targets [OF assms Some] by blast
    then show ?thesis using Some by (simp add: smpp_esme_unbind_command_def Let_def)
  qed (simp add: smpp_esme_unbind_command_def Let_def)
  then show ?thesis using server_step.unbind by blast
qed

section \<open>The status command\<close>

lemma status_binds_total: "(\<And>i. i \<in> set is \<Longrightarrow> get_esme s i \<noteq> None) \<Longrightarrow> \<exists>t. status_binds line s is = Some t"
  by (induction "is") (auto simp: bind_eq_Some_conv)

lemma status_globals_total:
  assumes "server_inv {} s" and "set ks \<subseteq> dom (dict_get (s_esmes s))"
  shows "\<exists>t. status_globals head line foot s ks = Some t"
  using assms(2)
proof (induction ks)
  case (Cons k ks)
  then obtain g where g: "dict_get (s_esmes s) k = Some g" by auto
  have "get_esme s i \<noteq> None" if "i \<in> set (g_binds g)" for i
    using assms(1) g that unfolding server_inv_def binds_ok_def by fastforce
  then obtain b where "status_binds line s (g_binds g) = Some b" using status_binds_total by blast
  then show ?case using Cons g by (auto simp: bind_eq_Some_conv)
qed simp

lemma dict_keys_dom: "set (dict_keys d) = dom (dict_get d)"
  by (induction d) (auto simp: dict_keys_def dict_get_def split: if_splits)

lemma status_total:
  assumes "server_inv {} s"
  shows "\<exists>r. smpp_esme_status_command P now ct s = Some r"
proof -
  have "\<exists>t. status_globals head line foot s (dict_keys (s_esmes s)) = Some t" for head line foot
    using status_globals_total [OF assms] by (simp add: dict_keys_dom)
  then obtain t u where "status_globals (plain_global P) (plain_bind P now) '''' s (dict_keys (s_esmes s)) = Some t"
    "status_globals (xml_global P) (xml_bind P now) ''</esme>'' s (dict_keys (s_esmes s)) = Some u" by blast
  then show ?thesis by (simp add: smpp_esme_status_command_def)
qed

section \<open>Requests\<close>

lemma run_command_total:
  assumes "server_inv {} (ad_server a)"
  shows "\<exists>r b. run_command E P c args ct a = Some (r, b) \<and> server_step\<^sup>*\<^sup>* (ad_server a) (ad_server b) \<and> ad_http b = ad_http a"
proof (cases c)
  case Cmd_rebuild_routes
  then show ?thesis using server_step.rebuild [of "ad_server a" E] by (auto simp: run_command_def smpp_route_rebuild_command_def)
next
  case Cmd_esme_status
  then show ?thesis using status_total [OF assms] by (force simp: run_command_def)
next
  case Cmd_esme_unbind
  obtain r s' where "smpp_esme_unbind_command (dict_get args ''system-id'') (dict_get args ''bind-id'') ct (ad_server a) = Some (r, s')"
    "server_step (ad_server a) s'"
    using unbind_total [OF assms] by blast
  then show ?thesis using Cmd_esme_unbind by (cases r) (auto simp: run_command_def)
qed (auto simp: run_command_def case_prod_beta)


definition example_http_server :: http_server where
  "example_http_server = smpp_http_server_add_command ''esme-unbind'' Cmd_esme_unbind
     (smpp_http_server_add_command ''esme-status'' Cmd_esme_status (smpp_http_server_create\<lparr>hs_port := 14010, hs_password := Some ''pass''\<rparr>))"

definition example_printing :: printing where
  "example_printing = \<lparr>pr_double = (\<lambda>_. ''0.00''), pr_load = (\<lambda>_ _ _. ''0.00'')\<rparr>"




end
