(* ===== verification/Config.thy ===== *)
theory Config
  imports SqlSetup HttpServer HttpRouter
begin

text \<open>
  How the program starts: the directives smpp_server_cfg.def allows, the reading of the
  configuration (smpp_server.c), plugins (smpp_plugin.c), the routing method (smpp_route.c), the
  bearerbox connections (smpp_bearerbox.c) and the start of the listener. The parsed file, the
  dynamic loader, the sockets and the data base servers are parameters. A panic is the left
  side of a sum; releasing a string that was never created makes the result None.
\<close>

section \<open>Allowed directives\<close>

text \<open>The groups of smpp_server_cfg.def: name, whether the group is single, directives.\<close>

definition smpp_server_cfg_def :: "(octstr \<times> bool \<times> octstr list) list" where
  "smpp_server_cfg_def = [
     (''ksmppd'', True, [''id'', ''log-file'', ''log-level'', ''smpp-port'', ''database-type'', ''database-config'',
        ''database-user-table'', ''database-store-table'', ''database-queue-store-table'', ''database-dlr-table'',
        ''database-dlr-delete-processed'', ''database-enable-queue'', ''database-store-primary'', ''database-pdu-table'',
        ''database-route-table'', ''database-version-table'', ''database-queue-type'', ''database-queue-config'',
        ''database-queue-inflight-table'', ''default-max-open-acks'', ''inbound-queue-threads'', ''outbound-queue-threads'',
        ''auth-method'', ''auth-url'', ''auth-plugin-id'', ''ip-blocklist-time'', ''ip-blocklist-attempts'',
        ''ip-blocklist-exempt-ips'', ''wait-ack-action'']),
     (''smpp-routing'', True, [''routing-method'', ''http-routing-url'', ''http-num-callers'', ''http-max-outstanding-requests'', ''plugin-id'']),
     (''http-server'', True, [''port'', ''password'', ''interface'', ''ssl'']),
     (''bearerbox-connection'', False, [''id'', ''host'', ''port'', ''ssl'']),
     (''ksmppd-plugin'', False, [''id'', ''path'', ''init-function'', ''args'']),
     (''smpp-tlv'', False, [''name'', ''tag'', ''length'', ''type'', ''smsc-id''])]"

definition smpp_server_cfg_is_allowed_in_group :: "octstr \<Rightarrow> octstr \<Rightarrow> bool" where
  "smpp_server_cfg_is_allowed_in_group grp var =
     (case find (\<lambda>(n, _). n = grp) smpp_server_cfg_def of
        None \<Rightarrow> False
      | Some (_, _, vs) \<Rightarrow> var = ''group'' \<or> var \<in> set vs)"

definition smpp_server_cfg_is_single_group :: "octstr \<Rightarrow> bool" where
  "smpp_server_cfg_is_single_group grp =
     (case find (\<lambda>(n, _). n = grp) smpp_server_cfg_def of None \<Rightarrow> False | Some (_, single, _) \<Rightarrow> single)"

section \<open>Plugins\<close>

text \<open>cfg_get_single_group and cfg_get_multi_group of a file that was read.\<close>

record cfg =
  cf_single :: "octstr \<Rightarrow> cfg_group option"
  cf_multi :: "octstr \<Rightarrow> cfg_group list"

text \<open>The functions a plugin registers are its effect on the environment; of route_message only its presence is used here.\<close>

record smpp_plugin =
  pg_id :: octstr
  pg_args :: "octstr option"
  pg_handle :: "nat option"
  pg_authenticate :: "(octstr option \<Rightarrow> octstr option \<Rightarrow> auth_result option) option"
  pg_route_message :: bool

text \<open>dlopen, a pending dlerror after it, and dlsym with the init function that was found.\<close>

record loader =
  ld_open :: "octstr \<Rightarrow> nat option"
  ld_error :: "nat \<Rightarrow> bool"
  ld_symbol :: "nat \<Rightarrow> octstr \<Rightarrow> (smpp_plugin \<Rightarrow> bool \<times> smpp_plugin) option"

definition smpp_plugin_create :: "octstr \<Rightarrow> smpp_plugin" where
  "smpp_plugin_create plug = \<lparr>pg_id = plug, pg_args = None, pg_handle = None, pg_authenticate = None, pg_route_message = False\<rparr>"

definition load_plugin :: "loader \<Rightarrow> cfg_group \<Rightarrow> smpp_plugin \<Rightarrow> init_error + (bool \<times> smpp_plugin)" where
  "load_plugin ld g p =
     (let path = cg_get g ''path'' in
      if octstr_len path = 0 then Inr (False, p)
      else case ld_open ld (the path) of
             None \<Rightarrow> Inr (False, p)
           | Some h \<Rightarrow>
               (let p = p\<lparr>pg_handle := Some h\<rparr>; f = cg_get g ''init-function'' in
                if ld_error ld h then Inr (False, p)
                else if octstr_len f = 0 then Inr (True, p)
                else case ld_symbol ld h (the f) of
                       None \<Rightarrow> Inl (Bad_plugin (pg_id p))
                     | Some init \<Rightarrow> Inr (init (p\<lparr>pg_args := cg_get g ''args''\<rparr>))))"

definition smpp_plugin_init ::
  "loader \<Rightarrow> cfg \<Rightarrow> octstr \<Rightarrow> (octstr, smpp_plugin) dict \<Rightarrow> init_error + (smpp_plugin option \<times> (octstr, smpp_plugin) dict)" where
  "smpp_plugin_init ld cf plug plugins =
     (case dict_get plugins plug of
        Some p \<Rightarrow> Inr (Some p, plugins)
      | None \<Rightarrow>
          (case find_group (Some plug) (cf_multi cf ''ksmppd-plugin'') of
             Inl e \<Rightarrow> Inl e
           | Inr g \<Rightarrow>
               (case load_plugin ld g (smpp_plugin_create plug) of
                  Inl e \<Rightarrow> Inl e
                | Inr (ok, p) \<Rightarrow> (if ok then Inr (Some p, dict_put plugins plug p) else Inr (None, plugins)))))"

section \<open>The settings of the server\<close>

record settings =
  st_cfg :: server_cfg
  st_smpp_port :: int
  st_enable_ssl :: bool
  st_inbound_threads :: int
  st_outbound_threads :: int
  st_database_type :: "octstr option"
  st_database_config :: "octstr option"
  st_database_queue_config :: "octstr option"
  st_database_queue_inflight_table :: "octstr option"
  st_log :: "(octstr \<times> int option) option"

text \<open>
  Fields that smpp_server_create leaves as gw_malloc returned them are 0 here; all of them are
  set by the first configuration before they are read.
\<close>

definition smpp_server_create :: settings where
  "smpp_server_create = \<lparr>
     st_cfg = \<lparr>c_server_id = None, c_authentication_method = 0, c_auth_url = None, c_database_enable_queue = False,
       c_database_store_primary = False, c_database_store_table = None, c_database_queue_store_table = None,
       c_database_dlr_table = None, c_database_pdu_table = None, c_database_route_table = None, c_database_user_table = None,
       c_database_version_table = None, c_database_queue_type = None, c_database_dlr_delete_processed = False,
       c_ip_blocklist_time = 0, c_ip_blocklist_attempts = 0, c_ip_blocklist_exempt_ips = None,
       c_default_max_open_acks = 500, c_wait_ack_action = SMPP_WAITACK_DISCONNECT\<rparr>,
     st_smpp_port = 0, st_enable_ssl = False, st_inbound_threads = 0, st_outbound_threads = 0, st_database_type = None,
     st_database_config = None, st_database_queue_config = None, st_database_queue_inflight_table = None, st_log = None\<rparr>"

definition integer_or :: "cfg_group \<Rightarrow> octstr \<Rightarrow> int \<Rightarrow> int" where
  "integer_or g name d = case_option d id (cg_integer g name)"

text \<open>The level of the log file is uninitialised memory (None) when log-level is not an integer.\<close>

definition read_settings :: "cfg_group \<Rightarrow> settings \<Rightarrow> settings" where
  "read_settings g st = st\<lparr>
     st_cfg := (st_cfg st)\<lparr>c_server_id := cg_get g ''id'',
       c_ip_blocklist_time := integer_or g ''ip-blocklist-time'' 300,
       c_ip_blocklist_attempts := integer_or g ''ip-blocklist-attempts'' 5,
       c_ip_blocklist_exempt_ips := cg_get g ''ip-blocklist-exempt-ips'',
       c_default_max_open_acks := integer_or g ''default-max-open-acks'' (c_default_max_open_acks (st_cfg st)),
       c_wait_ack_action := integer_or g ''wait-ack-action'' (c_wait_ack_action (st_cfg st)),
       c_database_store_table := cg_get g ''database-store-table'',
       c_database_queue_store_table := cg_get g ''database-queue-store-table'',
       c_database_dlr_table := cg_get g ''database-dlr-table'',
       c_database_user_table := cg_get g ''database-user-table'',
       c_database_pdu_table := cg_get g ''database-pdu-table'',
       c_database_route_table := cg_get g ''database-route-table'',
       c_database_version_table := cg_get g ''database-version-table'',
       c_database_queue_type := cg_get g ''database-queue-type'',
       c_database_enable_queue := cg_bool g ''database-enable-queue'',
       c_database_store_primary := cg_bool g ''database-store-primary'',
       c_database_dlr_delete_processed := cg_bool g ''database-dlr-delete-processed''\<rparr>,
     st_log := map_option (\<lambda>f. (f, cg_integer g ''log-level'')) (cg_get g ''log-file''),
     st_smpp_port := integer_or g ''smpp-port'' 2345,
     st_enable_ssl := False,
     st_inbound_threads := integer_or g ''inbound-queue-threads'' 1,
     st_outbound_threads := integer_or g ''outbound-queue-threads'' 1,
     st_database_type := cg_get g ''database-type'',
     st_database_config := cg_get g ''database-config'',
     st_database_queue_config := cg_get g ''database-queue-config'',
     st_database_queue_inflight_table := cg_get g ''database-queue-inflight-table''\<rparr>"

definition check_settings :: "settings \<Rightarrow> init_error option" where
  "check_settings st =
     (if redis_queue (st_cfg st) \<and> octstr_len (st_database_queue_config st) = 0 then Some (Missing ''database-queue-config'')
      else if octstr_len (st_database_type st) = 0 then Some (Missing ''database-type'')
      else None)"

section \<open>The store\<close>

text \<open>The drivers of the stores, the connections they can open, and the state of the servers behind them.\<close>

record ('r, 'q) drivers =
  dv_gw :: gwlib
  dv_sql :: "'r sql_lib"
  dv_redis :: "'q redis_lib"
  dv_sql_connections :: "sql_conf \<Rightarrow> nat"
  dv_redis_connections :: "redis_conf \<Rightarrow> nat"
  dv_sql_state :: 'r
  dv_redis_state :: 'q
  dv_uuid :: uuid

type_synonym ('r, 'q) stores = "'r sql_store \<times> 'q redis_store"

definition start_database ::
  "('r, 'q) drivers \<Rightarrow> cfg \<Rightarrow> settings \<Rightarrow> (init_error + server_cfg \<times> ('r, 'q) stores smpp_database \<times> ('r, 'q) stores) option" where
  "start_database dv cf st =
     (let connect = (case smpp_database_init (st_database_type st) of
            None \<Rightarrow> Inl No_database
          | Some Backend_mysql \<Rightarrow>
              smpp_database_mysql_init (st_database_config st) (cf_multi cf ''mysql-connection'') (dv_sql_connections dv)
          | Some Backend_pgsql \<Rightarrow>
              smpp_database_pgsql_init (st_database_config st) (cf_multi cf ''pgsql-connection'') (dv_sql_connections dv))
      in case connect of
           Inl e \<Rightarrow> Some (Inl e)
         | Inr (conf, D) \<Rightarrow>
             smpp_database_relational_setup (dv_sql dv) (dv_redis dv) (dv_gw dv) D (st_cfg st) (st_database_queue_config st)
               (cf_multi cf ''redis-connection'') (dv_redis_connections dv) (dv_sql_state dv) (dv_redis_state dv) (dv_uuid dv))"

section \<open>Authentication and routing methods\<close>

text \<open>The method, the plugin that authenticates, and the plugins loaded so far.\<close>

definition auth_method ::
  "loader \<Rightarrow> cfg \<Rightarrow> cfg_group \<Rightarrow> (octstr, smpp_plugin) dict \<Rightarrow> init_error + int \<times> smpp_plugin option \<times> (octstr, smpp_plugin) dict" where
  "auth_method ld cf g plugins =
     (case cg_integer g ''auth-method'' of
        Some n \<Rightarrow> Inr (n, None, plugins)
      | None \<Rightarrow>
          (let name = cg_get g ''auth-method'' in
           if octstr_len name = 0 \<or> octstr_case_compare name (Some ''database'')
           then Inr (SMPP_SERVER_AUTH_METHOD_DATABASE, None, plugins)
           else if octstr_case_compare name (Some ''http'') then Inr (SMPP_SERVER_AUTH_METHOD_HTTP, None, plugins)
           else if octstr_case_compare name (Some ''plugin'') then
             (let plug = cg_get g ''auth-plugin-id'' in
              if octstr_len plug = 0 then Inl (Missing ''auth-plugin-id'')
              else case smpp_plugin_init ld cf (the plug) plugins of
                     Inl e \<Rightarrow> Inl e
                   | Inr (None, _) \<Rightarrow> Inl (Bad_plugin (the plug))
                   | Inr (Some p, plugins) \<Rightarrow>
                       (if pg_authenticate p = None then Inl (Bad_plugin (the plug))
                        else Inr (SMPP_SERVER_AUTH_METHOD_PLUGIN, Some p, plugins)))
           else Inl (Unknown_method (the name))))"

abbreviation (input) "SMPP_ROUTING_METHOD_DATABASE \<equiv> (1 :: int)"
abbreviation (input) "SMPP_ROUTING_METHOD_HTTP \<equiv> (2 :: int)"
abbreviation (input) "SMPP_ROUTING_METHOD_PLUGIN \<equiv> (4 :: int)"

text \<open>
  The number of the method and the plugin if one was asked for by name; only then does the
  code set route_message to the plugin's.
\<close>

definition routing_method_of ::
  "loader \<Rightarrow> cfg \<Rightarrow> (octstr, smpp_plugin) dict \<Rightarrow> init_error + int \<times> smpp_plugin option \<times> (octstr, smpp_plugin) dict" where
  "routing_method_of ld cf plugins =
     (case cf_single cf ''smpp-routing'' of
        None \<Rightarrow> Inr (SMPP_ROUTING_METHOD_DATABASE, None, plugins)
      | Some g \<Rightarrow>
          (case cg_integer g ''routing-method'' of
             Some n \<Rightarrow> Inr (n, None, plugins)
           | None \<Rightarrow>
               (let name = cg_get g ''routing-method'' in
                if octstr_len name = 0 \<or> octstr_case_compare name (Some ''database'')
                then Inr (SMPP_ROUTING_METHOD_DATABASE, None, plugins)
                else if octstr_case_compare name (Some ''http'') then Inr (SMPP_ROUTING_METHOD_HTTP, None, plugins)
                else if octstr_case_compare name (Some ''plugin'') then
                  (let plug = cg_get g ''plugin-id'' in
                   if octstr_len plug = 0 then Inl (Missing ''plugin-id'')
                   else case smpp_plugin_init ld cf (the plug) plugins of
                          Inl e \<Rightarrow> Inl e
                        | Inr (None, _) \<Rightarrow> Inl (Bad_plugin (the plug))
                        | Inr (Some p, plugins) \<Rightarrow>
                            (if \<not> pg_route_message p then Inl (Bad_plugin (the plug))
                             else Inr (SMPP_ROUTING_METHOD_PLUGIN, Some p, plugins)))
                else Inl (Unknown_method (the name)))))"

text \<open>The function pointers of the routing as a method, and the state of the HTTP router if it is used.\<close>

record routing_start =
  rg_method :: routing_method
  rg_plugin :: "smpp_plugin option"
  rg_http :: "(octstr \<times> int \<times> http_routing) option"

definition smpp_route_init ::
  "loader \<Rightarrow> cfg \<Rightarrow> (octstr, smpp_plugin) dict \<Rightarrow> init_error + routing_start \<times> (octstr, smpp_plugin) dict" where
  "smpp_route_init ld cf plugins =
     (case routing_method_of ld cf plugins of
        Inl e \<Rightarrow> Inl e
      | Inr (n, p, plugins) \<Rightarrow>
          (if n = SMPP_ROUTING_METHOD_DATABASE then Inr (\<lparr>rg_method = Route_database, rg_plugin = p, rg_http = None\<rparr>, plugins)
           else if n = SMPP_ROUTING_METHOD_HTTP then
             (case Option.bind (cf_single cf ''smpp-routing'') smpp_http_client_route_init of
                None \<Rightarrow> Inl (Missing ''http-routing-url'')
              | Some h \<Rightarrow> Inr (\<lparr>rg_method = Route_http, rg_plugin = p, rg_http = Some h\<rparr>, plugins))
           else Inr (\<lparr>rg_method = (if p = None then Route_none else Route_plugin), rg_plugin = p, rg_http = None\<rparr>, plugins)))"

section \<open>Reading the configuration\<close>

text \<open>What a configured server runs with.\<close>

record ('r, 'q) running =
  rn_settings :: settings
  rn_database :: "('r, 'q) stores smpp_database"
  rn_store :: "('r, 'q) stores"
  rn_plugin_auth :: "smpp_plugin option"
  rn_http_server :: http_server
  rn_routing :: routing_start
  rn_plugins :: "(octstr, smpp_plugin) dict"

text \<open>The one-time configuration, in the order of the code.\<close>

definition configure ::
  "('r, 'q) drivers \<Rightarrow> loader \<Rightarrow> (int \<Rightarrow> bool \<Rightarrow> bool) \<Rightarrow> timestamp \<Rightarrow> cfg \<Rightarrow> cfg_group \<Rightarrow> (init_error + ('r, 'q) running) option" where
  "configure dv ld opens now cf g =
     (let st = read_settings g smpp_server_create in
      case check_settings st of
        Some e \<Rightarrow> Some (Inl e)
      | None \<Rightarrow> do {
          r \<leftarrow> start_database dv cf st;
          Some (case r of
            Inl e \<Rightarrow> Inl e
          | Inr (c, ops, d) \<Rightarrow>
              (case auth_method ld cf g [] of
                 Inl e \<Rightarrow> Inl e
               | Inr (n, pa, plugins) \<Rightarrow>
                   (case smpp_http_server_init opens now (cf_single cf ''http-server'') of
                      Inl e \<Rightarrow> Inl e
                    | Inr h \<Rightarrow>
                        (case smpp_route_init ld cf plugins of
                           Inl e \<Rightarrow> Inl e
                         | Inr (rg, plugins) \<Rightarrow>
                             Inr \<lparr>rn_settings = st\<lparr>st_cfg := c\<lparr>c_authentication_method := n, c_auth_url := cg_get g ''auth-url''\<rparr>\<rparr>,
                                  rn_database = ops, rn_store = d, rn_plugin_auth = pa,
                                  rn_http_server = smpp_http_server_add_command ''rebuild-routes'' Cmd_rebuild_routes h,
                                  rn_routing = rg, rn_plugins = plugins\<rparr>)))) })"

text \<open>
  \<open>file\<close> is the result of cfg_read. A server that was configured before only exchanges the
  parsed file; the result is the returned status, the file in use and what runs.
\<close>

definition smpp_server_reconfigure ::
  "('r, 'q) drivers \<Rightarrow> loader \<Rightarrow> (int \<Rightarrow> bool \<Rightarrow> bool) \<Rightarrow> timestamp \<Rightarrow> cfg option \<Rightarrow> (cfg \<times> ('r, 'q) running) option \<Rightarrow>
   (init_error + int \<times> (cfg \<times> ('r, 'q) running)) option" where
  "smpp_server_reconfigure dv ld opens now file old =
     (case file of
        None \<Rightarrow> Some (case old of None \<Rightarrow> Inl No_config | Some cr \<Rightarrow> Inr (-1, cr))
      | Some cf \<Rightarrow>
          (case cf_single cf ''ksmppd'' of
             None \<Rightarrow> Some (case old of None \<Rightarrow> Inl No_group | Some cr \<Rightarrow> Inr (0, cr))
           | Some g \<Rightarrow>
               (case old of
                  Some (_, rn) \<Rightarrow> Some (Inr (0, (cf, rn)))
                | None \<Rightarrow> map_option (case_sum Inl (\<lambda>rn. Inr (0, (cf, rn)))) (configure dv ld opens now cf g))))"

section \<open>Bearerboxes and the listener\<close>

definition configure_bearerbox :: "cfg_group \<Rightarrow> bearerbox" where
  "configure_bearerbox g = smpp_bearerbox_create\<lparr>bb_host := cg_get g ''host'', bb_id := cg_get g ''id'', bb_open_acks := Some [],
     bb_port := integer_or g ''port'' (bb_port smpp_bearerbox_create), bb_ssl := cg_bool g ''ssl''\<rparr>"

definition smpp_bearerbox_init :: "cfg \<Rightarrow> bool \<Rightarrow> init_error + bearerbox list" where
  "smpp_bearerbox_init cf store_primary =
     (let boxes = filter (\<lambda>b. 0 < octstr_len (bb_host b) \<and> bb_port b \<noteq> 0) (map configure_bearerbox (cf_multi cf ''bearerbox-connection'')) in
      if boxes = [] \<and> \<not> store_primary then Inl No_bearerbox else Inr boxes)"

definition smpp_esme_init :: "http_server \<Rightarrow> http_server" where
  "smpp_esme_init h = smpp_http_server_add_command ''esme-unbind'' Cmd_esme_unbind
     (smpp_http_server_add_command ''esme-status'' Cmd_esme_status h)"

text \<open>The environment of the running server: \<open>reply\<close> answers the authentication URL, \<open>writes\<close> the bearerbox writes.\<close>

definition running_env ::
  "('r, 'q) drivers \<Rightarrow> ('r, 'q) running \<Rightarrow> timestamp \<Rightarrow>
   (octstr option \<Rightarrow> octstr option \<Rightarrow> octstr option \<Rightarrow> int \<times> (octstr, octstr) dict) \<Rightarrow> (nat \<Rightarrow> bool) \<Rightarrow> ('r, 'q) stores env" where
  "running_env dv rn now reply writes = \<lparr>ev_gw = dv_gw dv, ev_db = rn_database rn, ev_now = now,
     ev_plugin_auth = Option.bind (rn_plugin_auth rn) pg_authenticate, ev_http_reply = reply, ev_bb_write = writes\<rparr>"

text \<open>
  The start of the program up to the event loop: the configuration, which also reads the route
  table (the store it reads is not touched before the listener starts), the socket, and the
  parts the listener starts. \<open>binds\<close> says whether the socket can be opened.
\<close>

definition server_start ::
  "('r, 'q) drivers \<Rightarrow> loader \<Rightarrow> (int \<Rightarrow> bool \<Rightarrow> bool) \<Rightarrow> (int \<Rightarrow> bool) \<Rightarrow> timestamp \<Rightarrow>
   (octstr option \<Rightarrow> octstr option \<Rightarrow> octstr option \<Rightarrow> int \<times> (octstr, octstr) dict) \<Rightarrow> (nat \<Rightarrow> bool) \<Rightarrow> cfg option \<Rightarrow>
   (init_error + ('r, 'q) running \<times> ('r, 'q) stores admin) option" where
  "server_start dv ld opens binds now reply writes file = do {
     r \<leftarrow> smpp_server_reconfigure dv ld opens now file None;
     Some (case r of
       Inl e \<Rightarrow> Inl e
     | Inr (_, (cf, rn)) \<Rightarrow>
         (if \<not> binds (st_smpp_port (rn_settings rn)) then Inl No_listener
          else case smpp_bearerbox_init cf (c_database_store_primary (st_cfg (rn_settings rn))) of
                 Inl e \<Rightarrow> Inl e
               | Inr boxes \<Rightarrow>
                   Inr (rn, \<lparr>ad_http = smpp_esme_init (rn_http_server rn), ad_log_level = 0,
                             ad_server = smpp_route_rebuild (running_env dv rn now reply writes)
                               (initial_server (st_cfg (rn_settings rn)) boxes (rg_method (rn_routing rn)) (rn_store rn))\<rparr>))) }"

end
