(* ===== verification/ConfigFacts.thy ===== *)
theory ConfigFacts
  imports Config Frames
begin

text \<open>
  What a configuration that is accepted guarantees: the server starts in an initial state of the
  state machine with well-formed settings, every directive the code reads is one the
  configuration file may contain, and a routing method the code does not know drops messages.
\<close>

section \<open>The parts of a start\<close>

lemma start_database_tables:
  assumes "start_database dv cf st = Some (Inr (c, ops, d))"
  shows "c = table_defaults (st_cfg st)"
  using assms by (auto simp: start_database_def smpp_database_relational_setup_def Let_def split: option.splits sum.splits if_splits prod.splits)

lemma or_default_len: "0 < octstr_len (or_default v d) \<longleftrightarrow> 0 < octstr_len v \<or> d \<noteq> []"
  by (auto simp: or_default_def octstr_len_def split: option.splits)

lemma auth_method_plugin:
  assumes "auth_method ld cf g plugins = Inr (n, pa, plugins')"
  shows "pa = None \<or> n = SMPP_SERVER_AUTH_METHOD_PLUGIN \<and> (\<exists>p. pa = Some p \<and> pg_authenticate p \<noteq> None)"
  using assms by (auto simp: auth_method_def Let_def split: option.splits sum.splits if_splits prod.splits)

lemma http_server_init_spec:
  assumes "smpp_http_server_init opens now grp = Inr h"
  shows "0 < octstr_len (hs_password h) \<and> hs_commands h = [(''/uptime'', Cmd_uptime), (''/log-level'', Cmd_log_level)]"
  using assms by (auto simp: smpp_http_server_init_def smpp_http_server_add_command_def smpp_http_server_create_def dict_put_def
      split: option.splits if_splits)

lemma route_init_spec:
  assumes "smpp_route_init ld cf plugins = Inr (rg, plugins')"
  shows "(rg_method rg = Route_plugin \<longrightarrow> (\<exists>p. rg_plugin rg = Some p \<and> pg_route_message p))
    \<and> (rg_method rg = Route_http \<longrightarrow> (\<exists>url n h. rg_http rg = Some (url, n, h) \<and> url \<noteq> [] \<and> http_pending h = [] \<and> hr_outstanding h = 0))"
proof -
  obtain n p where m: "routing_method_of ld cf plugins = Inr (n, p, plugins')"
    using assms by (auto simp: smpp_route_init_def split: sum.splits prod.splits if_splits option.splits)
  then have "p = None \<or> (\<exists>q. p = Some q \<and> pg_route_message q)"
    by (auto simp: routing_method_of_def Let_def split: option.splits sum.splits if_splits prod.splits)
  then show ?thesis using assms m
    by (auto simp: smpp_route_init_def smpp_http_client_route_init_def http_pending_def bind_eq_Some_conv split: if_splits option.splits)
qed

lemma configureE:
  assumes "configure dv ld opens now cf g = Some (Inr rn)"
  obtains c ops d n pa plugins h rg plugins' where
    "check_settings (read_settings g smpp_server_create) = None"
    "start_database dv cf (read_settings g smpp_server_create) = Some (Inr (c, ops, d))"
    "auth_method ld cf g [] = Inr (n, pa, plugins)"
    "smpp_http_server_init opens now (cf_single cf ''http-server'') = Inr h"
    "smpp_route_init ld cf plugins = Inr (rg, plugins')"
    "rn = \<lparr>rn_settings = (read_settings g smpp_server_create)\<lparr>st_cfg := c\<lparr>c_authentication_method := n, c_auth_url := cg_get g ''auth-url''\<rparr>\<rparr>,
       rn_database = ops, rn_store = d, rn_plugin_auth = pa,
       rn_http_server = smpp_http_server_add_command ''rebuild-routes'' Cmd_rebuild_routes h, rn_routing = rg, rn_plugins = plugins'\<rparr>"
proof -
  let ?st = "read_settings g smpp_server_create"
  have ok: "check_settings ?st = None" using assms by (auto simp: configure_def Let_def split: option.splits)
  obtain r where r: "start_database dv cf ?st = Some r" using assms ok by (auto simp: configure_def Let_def bind_eq_Some_conv)
  obtain c ops d where c: "r = Inr (c, ops, d)" using assms ok r by (cases r) (auto simp: configure_def)
  obtain n pa plugins where n: "auth_method ld cf g [] = Inr (n, pa, plugins)"
    using assms ok r c by (cases "auth_method ld cf g []") (auto simp: configure_def)
  obtain h where h: "smpp_http_server_init opens now (cf_single cf ''http-server'') = Inr h"
    using assms ok r c n by (cases "smpp_http_server_init opens now (cf_single cf ''http-server'')") (auto simp: configure_def)
  obtain rg plugins' where rg: "smpp_route_init ld cf plugins = Inr (rg, plugins')"
    using assms ok r c n h by (cases "smpp_route_init ld cf plugins") (auto simp: configure_def)
  show thesis using that [OF ok r [unfolded c] n h rg] assms ok r c n h rg by (simp add: configure_def)
qed

lemma server_startE:
  assumes "server_start dv ld opens binds now reply writes file = Some (Inr (rn, a))"
  obtains cf g boxes where "file = Some cf" "cf_single cf ''ksmppd'' = Some g" "configure dv ld opens now cf g = Some (Inr rn)"
    "smpp_bearerbox_init cf (c_database_store_primary (st_cfg (rn_settings rn))) = Inr boxes"
    "a = \<lparr>ad_http = smpp_esme_init (rn_http_server rn), ad_log_level = 0, ad_server = smpp_route_rebuild (running_env dv rn now reply writes)
       (initial_server (st_cfg (rn_settings rn)) boxes (rg_method (rn_routing rn)) (rn_store rn))\<rparr>"
proof -
  obtain r where r: "smpp_server_reconfigure dv ld opens now file None = Some r"
    using assms by (auto simp: server_start_def bind_eq_Some_conv)
  obtain st cf rn' where cf: "r = Inr (st, cf, rn')" using assms r by (cases r) (auto simp: server_start_def)
  obtain cf' where f: "file = Some cf'" using r cf by (cases "file") (auto simp: smpp_server_reconfigure_def)
  obtain g where g: "cf_single cf' ''ksmppd'' = Some g" using r cf f by (cases "cf_single cf' ''ksmppd''") (auto simp: smpp_server_reconfigure_def)
  obtain t where t: "configure dv ld opens now cf' g = Some t" "r = case_sum Inl (\<lambda>rn. Inr (0, (cf', rn))) t"
    using r f g by (auto simp: smpp_server_reconfigure_def)
  then have same: "cf = cf'" "t = Inr rn'" using cf by (cases t; simp)+
  obtain boxes where b: "smpp_bearerbox_init cf (c_database_store_primary (st_cfg (rn_settings rn'))) = Inr boxes"
    using assms r cf by (cases "smpp_bearerbox_init cf (c_database_store_primary (st_cfg (rn_settings rn')))") (auto simp: server_start_def split: if_splits)
  have "rn' = rn" "a = \<lparr>ad_http = smpp_esme_init (rn_http_server rn), ad_log_level = 0, ad_server = smpp_route_rebuild (running_env dv rn now reply writes)
       (initial_server (st_cfg (rn_settings rn)) boxes (rg_method (rn_routing rn)) (rn_store rn))\<rparr>"
    using assms r cf b by (auto simp: server_start_def split: if_splits)
  then show thesis using that f g t(1) b same by blast
qed

section \<open>Properties\<close>

definition table_names :: "server_cfg \<Rightarrow> octstr option list" where
  "table_names c = [c_database_user_table c, c_database_store_table c, c_database_queue_store_table c, c_database_dlr_table c,
     c_database_pdu_table c, c_database_route_table c, c_database_version_table c]"

definition settings_ok :: "settings \<Rightarrow> bool" where
  "settings_ok st \<longleftrightarrow> list_all (\<lambda>t. 0 < octstr_len t) (table_names (st_cfg st)) \<and> 0 < octstr_len (st_database_type st)
     \<and> (redis_queue (st_cfg st) \<longrightarrow> 0 < octstr_len (st_database_queue_config st))"

lemma started_server_well_formed_parts:
  assumes "server_start dv ld opens binds now reply writes file = Some (Inr (rn, a))"
  shows "settings_ok (rn_settings rn)"
    and "list_all (\<lambda>b. 0 < octstr_len (bb_host b) \<and> bb_port b \<noteq> 0 \<and> bb_open_acks b = Some []) (s_bearerboxes (ad_server a))"
    and "s_bearerboxes (ad_server a) \<noteq> [] \<or> c_database_store_primary (s_cfg (ad_server a))"
    and "rn_plugin_auth rn = None \<or> (\<exists>p. rn_plugin_auth rn = Some p \<and> pg_authenticate p \<noteq> None)"
    and "s_routing_method (ad_server a) \<noteq> Route_plugin \<or> (\<exists>p. rg_plugin (rn_routing rn) = Some p \<and> pg_route_message p)"
    and "s_routing_method (ad_server a) \<noteq> Route_http
       \<or> (\<exists>url n h. rg_http (rn_routing rn) = Some (url, n, h) \<and> url \<noteq> [] \<and> http_pending h = s_pending_routes (ad_server a))"
    and "0 < octstr_len (hs_password (ad_http a))"
    and "dict_keys (hs_commands (ad_http a)) = [''/uptime'', ''/log-level'', ''/rebuild-routes'', ''/esme-status'', ''/esme-unbind'']"
    and "\<exists>s0. server_init s0 \<and> server_step\<^sup>*\<^sup>* s0 (ad_server a)"
proof -
  obtain cf g boxes where a: "configure dv ld opens now cf g = Some (Inr rn)"
    "smpp_bearerbox_init cf (c_database_store_primary (st_cfg (rn_settings rn))) = Inr boxes"
    "a = \<lparr>ad_http = smpp_esme_init (rn_http_server rn), ad_log_level = 0, ad_server = smpp_route_rebuild (running_env dv rn now reply writes)
       (initial_server (st_cfg (rn_settings rn)) boxes (rg_method (rn_routing rn)) (rn_store rn))\<rparr>"
    using server_startE [OF assms] by metis
  let ?st = "read_settings g smpp_server_create"
  let ?s0 = "initial_server (st_cfg (rn_settings rn)) boxes (rg_method (rn_routing rn)) (rn_store rn)"
  obtain c ops d n pa plugins h rg plugins' where c: "check_settings ?st = None" "start_database dv cf ?st = Some (Inr (c, ops, d))"
    "auth_method ld cf g [] = Inr (n, pa, plugins)" "smpp_http_server_init opens now (cf_single cf ''http-server'') = Inr h"
    "smpp_route_init ld cf plugins = Inr (rg, plugins')"
    "rn = \<lparr>rn_settings = ?st\<lparr>st_cfg := c\<lparr>c_authentication_method := n, c_auth_url := cg_get g ''auth-url''\<rparr>\<rparr>,
       rn_database = ops, rn_store = d, rn_plugin_auth = pa,
       rn_http_server = smpp_http_server_add_command ''rebuild-routes'' Cmd_rebuild_routes h, rn_routing = rg, rn_plugins = plugins'\<rparr>"
    using configureE [OF a(1)] by metis
  have tables: "c = table_defaults (st_cfg ?st)" by (rule start_database_tables [OF c(2)])
  show "settings_ok (rn_settings rn)"
    using c(1) unfolding settings_ok_def table_names_def
    by (auto simp: c(6) tables table_defaults_def or_default_len check_settings_def redis_queue_def split: if_splits)
  have frame: "s_bearerboxes (ad_server a) = boxes" "s_cfg (ad_server a) = st_cfg (rn_settings rn)"
    "s_routing_method (ad_server a) = rg_method (rn_routing rn)" "s_pending_routes (ad_server a) = []"
    by (simp_all add: a(3) smpp_route_rebuild_def smpp_route_rebuild_database_def initial_server_def)
  show boxes: "list_all (\<lambda>b. 0 < octstr_len (bb_host b) \<and> bb_port b \<noteq> 0 \<and> bb_open_acks b = Some []) (s_bearerboxes (ad_server a))"
    using a(2) unfolding frame by (auto simp: smpp_bearerbox_init_def Let_def list_all_iff configure_bearerbox_def split: if_splits)
  show "s_bearerboxes (ad_server a) \<noteq> [] \<or> c_database_store_primary (s_cfg (ad_server a))"
    using a(2) unfolding frame by (auto simp: smpp_bearerbox_init_def Let_def split: if_splits)
  show "rn_plugin_auth rn = None \<or> (\<exists>p. rn_plugin_auth rn = Some p \<and> pg_authenticate p \<noteq> None)"
    using auth_method_plugin [OF c(3)] by (auto simp: c(6))
  show "s_routing_method (ad_server a) \<noteq> Route_plugin \<or> (\<exists>p. rg_plugin (rn_routing rn) = Some p \<and> pg_route_message p)"
    using route_init_spec [OF c(5)] unfolding frame by (simp add: c(6))
  show "s_routing_method (ad_server a) \<noteq> Route_http
       \<or> (\<exists>url n h. rg_http (rn_routing rn) = Some (url, n, h) \<and> url \<noteq> [] \<and> http_pending h = s_pending_routes (ad_server a))"
    using route_init_spec [OF c(5)] unfolding frame by (auto simp: c(6))
  show "0 < octstr_len (hs_password (ad_http a))"
    using http_server_init_spec [OF c(4)] by (simp add: a(3) c(6) smpp_esme_init_def smpp_http_server_add_command_def)
  show "dict_keys (hs_commands (ad_http a)) = [''/uptime'', ''/log-level'', ''/rebuild-routes'', ''/esme-status'', ''/esme-unbind'']"
    using http_server_init_spec [OF c(4)] by (simp add: a(3) c(6) smpp_esme_init_def smpp_http_server_add_command_def dict_keys_def dict_put_def)
  have "server_init ?s0" using boxes unfolding server_init_def frame list_all_iff by blast
  moreover have "server_step\<^sup>*\<^sup>* ?s0 (ad_server a)" using server_step.rebuild [of ?s0] by (simp add: a(3) r_into_rtranclp)
  ultimately show "\<exists>s0. server_init s0 \<and> server_step\<^sup>*\<^sup>* s0 (ad_server a)" by blast
qed

text \<open>
  C24: A server that starts is well formed. When the start succeeds, every table of the store has
  a name, a Redis queue names its connection, every bearerbox has a host, a port and no
  outstanding message, and there is one unless messages are kept in the store; a method that
  needs a plugin has one with the function it calls, the HTTP router has a URL and nothing
  pending; the administration server has a password and exactly its five commands; and the
  state is one the state machine of the server can reach, so everything proved of those holds.
\<close>

theorem started_server_well_formed:
  assumes "server_start dv ld opens binds now reply writes file = Some (Inr (rn, a))"
  shows "settings_ok (rn_settings rn)
    \<and> list_all (\<lambda>b. 0 < octstr_len (bb_host b) \<and> bb_port b \<noteq> 0 \<and> bb_open_acks b = Some []) (s_bearerboxes (ad_server a))
    \<and> (s_bearerboxes (ad_server a) \<noteq> [] \<or> c_database_store_primary (s_cfg (ad_server a)))
    \<and> (rn_plugin_auth rn = None \<or> (\<exists>p. rn_plugin_auth rn = Some p \<and> pg_authenticate p \<noteq> None))
    \<and> (s_routing_method (ad_server a) \<noteq> Route_plugin \<or> (\<exists>p. rg_plugin (rn_routing rn) = Some p \<and> pg_route_message p))
    \<and> (s_routing_method (ad_server a) \<noteq> Route_http
       \<or> (\<exists>url n h. rg_http (rn_routing rn) = Some (url, n, h) \<and> url \<noteq> [] \<and> http_pending h = s_pending_routes (ad_server a)))
    \<and> 0 < octstr_len (hs_password (ad_http a))
    \<and> dict_keys (hs_commands (ad_http a)) = [''/uptime'', ''/log-level'', ''/rebuild-routes'', ''/esme-status'', ''/esme-unbind'']
    \<and> (\<exists>s0. server_init s0 \<and> server_step\<^sup>*\<^sup>* s0 (ad_server a))"
  using started_server_well_formed_parts [OF assms] by blast

section \<open>A small configuration\<close>

definition group_of :: "(octstr \<times> octstr) list \<Rightarrow> (octstr \<times> int) list \<Rightarrow> cfg_group" where
  "group_of vs ns = \<lparr>cg_get = dict_get vs, cg_integer = dict_get ns, cg_bool = (\<lambda>_. False)\<rparr>"

definition small_group :: "(octstr \<times> int) list \<Rightarrow> cfg_group" where
  "small_group = group_of [(''database-type'', ''pgsql''), (''database-config'', ''db'')]"

definition small_cfg :: "cfg_group option \<Rightarrow> cfg" where
  "small_cfg routing = \<lparr>
     cf_single = (\<lambda>n. if n = ''ksmppd'' then Some (small_group [])
                      else if n = ''http-server'' then Some (group_of [(''password'', ''pass'')] [(''port'', 14010)])
                      else if n = ''smpp-routing'' then routing else None),
     cf_multi = (\<lambda>n. if n = ''bearerbox-connection'' then [group_of [(''host'', ''localhost'')] [(''port'', 13001)]]
                     else if n = ''pgsql-connection'' then [group_of [(''id'', ''db''), (''host'', ''h''), (''username'', ''u''),
                            (''password'', ''p''), (''database'', ''d'')] []]
                     else [])\<rparr>"

definition small_drivers :: "(unit, unit) drivers" where
  "small_drivers = \<lparr>dv_gw = example_gwlib,
     dv_sql = \<lparr>sl_select = (\<lambda>_ _ _. None), sl_update = (\<lambda>_ _ r. (0, r)), sl_junk = 0\<rparr>,
     dv_redis = \<lparr>rl_command = (\<lambda>_ r. (None, r)), rl_json_dumps = (\<lambda>_. []), rl_json_loads = (\<lambda>_. None), rl_utf8 = (\<lambda>_. True), rl_junk = 0\<rparr>,
     dv_sql_connections = (\<lambda>_. 1), dv_redis_connections = (\<lambda>_. 1), dv_sql_state = (), dv_redis_state = (), dv_uuid = 0\<rparr>"

definition no_loader :: loader where
  "no_loader = \<lparr>ld_open = (\<lambda>_. None), ld_error = (\<lambda>_. False), ld_symbol = (\<lambda>_ _. None)\<rparr>"

definition small_settings :: settings where
  "small_settings = read_settings (small_group []) smpp_server_create"

lemma small_settings:
  "st_database_type small_settings = Some ''pgsql''" "st_database_config small_settings = Some ''db''"
  "c_database_queue_type (st_cfg small_settings) = None" "c_database_store_primary (st_cfg small_settings) = False"
  by (simp_all add: small_settings_def read_settings_def small_group_def group_of_def dict_get_Cons)

lemma small_database:
  "\<exists>ops d. start_database small_drivers (small_cfg rt) small_settings = Some (Inr (table_defaults (st_cfg small_settings), ops, d))"
proof -
  have ty: "smpp_database_init (Some ''pgsql'') = Some Backend_pgsql" by code_simp
  have conn: "\<exists>conf. smpp_database_pgsql_init (Some ''db'') (cf_multi (small_cfg rt) ''pgsql-connection'') (dv_sql_connections small_drivers)
      = Inr (conf, DBPOOL_PGSQL)"
    by (simp add: smpp_database_pgsql_init_def sql_connection_def find_group_def required_def small_cfg_def group_of_def small_drivers_def dict_get_Cons)
  have pg: "smpp_db_sql_is_pgsql (Some DBPOOL_PGSQL)" by code_simp
  have "\<not> redis_queue (table_defaults (st_cfg small_settings))"
    using small_settings(3) by (simp add: redis_queue_def table_defaults_def octstr_len_def)
  then show ?thesis using conn
    by (auto simp: start_database_def small_settings(1,2) ty smpp_database_relational_setup_def smpp_database_sql_init_tables_def pg Let_def)
qed

lemma small_start:
  assumes "smpp_route_init no_loader (small_cfg rt) [] = Inr (rg, plugins)"
  shows "\<exists>rn a. server_start small_drivers no_loader (\<lambda>_ _. True) (\<lambda>_. True) 0 reply writes (Some (small_cfg rt)) = Some (Inr (rn, a))
    \<and> rn_routing rn = rg \<and> length (s_bearerboxes (ad_server a)) = 1 \<and> s_routing_method (ad_server a) = rg_method rg"
proof -
  obtain ops d where db: "start_database small_drivers (small_cfg rt) small_settings = Some (Inr (table_defaults (st_cfg small_settings), ops, d))"
    using small_database by blast
  have single: "cf_single (small_cfg rt) ''ksmppd'' = Some (small_group [])"
    "cf_single (small_cfg rt) ''http-server'' = Some (group_of [(''password'', ''pass'')] [(''port'', 14010)])"
    by (simp_all add: small_cfg_def)
  have ok: "check_settings small_settings = None"
    by (simp add: check_settings_def redis_queue_def small_settings octstr_len_def)
  have auth: "auth_method no_loader (small_cfg rt) (small_group []) [] = Inr (SMPP_SERVER_AUTH_METHOD_DATABASE, None, [])"
    by (simp add: auth_method_def small_group_def group_of_def dict_get_Cons octstr_len_def)
  obtain h where http: "smpp_http_server_init (\<lambda>_ _. True) 0 (Some (group_of [(''password'', ''pass'')] [(''port'', 14010)])) = Inr h"
    by (simp add: smpp_http_server_init_def group_of_def dict_get_Cons octstr_len_def)
  obtain b where boxes: "smpp_bearerbox_init (small_cfg rt) False = Inr [b]"
    by (simp add: smpp_bearerbox_init_def small_cfg_def group_of_def configure_bearerbox_def integer_or_def dict_get_Cons octstr_len_def)
  have sp: "c_database_store_primary (table_defaults (st_cfg small_settings)) = False"
    using small_settings(4) by (simp add: table_defaults_def)
  show ?thesis
    using assms boxes sp
    by (simp add: server_start_def smpp_server_reconfigure_def single configure_def small_settings_def [symmetric] ok db auth http Let_def)
      (simp add: smpp_route_rebuild_def smpp_route_rebuild_database_def initial_server_def)
qed

theorem started_server_well_formed_witness:
  "\<exists>rn a s0. server_start small_drivers no_loader (\<lambda>_ _. True) (\<lambda>_. True) 0 (\<lambda>_ _ _. (0, [])) (\<lambda>_. True) (Some (small_cfg None)) = Some (Inr (rn, a))
     \<and> length (s_bearerboxes (ad_server a)) = 1 \<and> settings_ok (rn_settings rn)
     \<and> s_routing_method (ad_server a) = Route_database \<and> server_init s0 \<and> server_step\<^sup>*\<^sup>* s0 (ad_server a)"
proof -
  have "smpp_route_init no_loader (small_cfg None) [] = Inr (\<lparr>rg_method = Route_database, rg_plugin = None, rg_http = None\<rparr>, [])"
    by (simp add: smpp_route_init_def routing_method_of_def small_cfg_def)
  from small_start [OF this] obtain rn a where
    "server_start small_drivers no_loader (\<lambda>_ _. True) (\<lambda>_. True) 0 (\<lambda>_ _ _. (0, [])) (\<lambda>_. True) (Some (small_cfg None)) = Some (Inr (rn, a))"
    "length (s_bearerboxes (ad_server a)) = 1" "s_routing_method (ad_server a) = Route_database" by fastforce
  with started_server_well_formed [OF this(1)] show ?thesis by blast
qed

section \<open>Directives\<close>

text \<open>
  The directives a group of the program can have, without \<open>interface\<close> of the administration
  server, and a configuration in which only these can be seen. Groups of other programs stay.
\<close>

definition used_directive :: "octstr \<Rightarrow> octstr \<Rightarrow> bool" where
  "used_directive n v \<longleftrightarrow> smpp_server_cfg_is_allowed_in_group n v \<and> \<not> (n = ''http-server'' \<and> v = ''interface'')"

definition visible :: "octstr \<Rightarrow> cfg_group \<Rightarrow> cfg_group" where
  "visible n g = \<lparr>cg_get = (\<lambda>v. if used_directive n v then cg_get g v else None),
     cg_integer = (\<lambda>v. if used_directive n v then cg_integer g v else None), cg_bool = (\<lambda>v. used_directive n v \<and> cg_bool g v)\<rparr>"

definition visible_cfg :: "cfg \<Rightarrow> cfg" where
  "visible_cfg cf = \<lparr>cf_single = (\<lambda>n. map_option (visible n) (cf_single cf n)),
     cf_multi = (\<lambda>n. if n \<in> fst ` set smpp_server_cfg_def then map (visible n) (cf_multi cf n) else cf_multi cf n)\<rparr>"

lemma used_directives:
  "list_all (used_directive ''ksmppd'') [''id'', ''log-file'', ''log-level'', ''smpp-port'', ''database-type'', ''database-config'',
     ''database-user-table'', ''database-store-table'', ''database-queue-store-table'', ''database-dlr-table'',
     ''database-dlr-delete-processed'', ''database-enable-queue'', ''database-store-primary'', ''database-pdu-table'',
     ''database-route-table'', ''database-version-table'', ''database-queue-type'', ''database-queue-config'',
     ''database-queue-inflight-table'', ''default-max-open-acks'', ''inbound-queue-threads'', ''outbound-queue-threads'',
     ''auth-method'', ''auth-url'', ''auth-plugin-id'', ''ip-blocklist-time'', ''ip-blocklist-attempts'',
     ''ip-blocklist-exempt-ips'', ''wait-ack-action'']"
  "list_all (used_directive ''smpp-routing'') [''routing-method'', ''http-routing-url'', ''http-num-callers'', ''http-max-outstanding-requests'', ''plugin-id'']"
  "list_all (used_directive ''http-server'') [''port'', ''password'', ''ssl'']"
  "list_all (used_directive ''bearerbox-connection'') [''id'', ''host'', ''port'', ''ssl'']"
  "list_all (used_directive ''ksmppd-plugin'') [''id'', ''path'', ''init-function'', ''args'']"
  by code_simp+

lemmas used = used_directives [unfolded list.pred_inject]

lemma visible_directive [simp]:
  "used_directive n v \<Longrightarrow> cg_get (visible n g) v = cg_get g v"
  "used_directive n v \<Longrightarrow> cg_integer (visible n g) v = cg_integer g v"
  "used_directive n v \<Longrightarrow> cg_bool (visible n g) v = cg_bool g v"
  by (simp_all add: visible_def)

lemma visible_multi:
  "cf_multi (visible_cfg cf) ''mysql-connection'' = cf_multi cf ''mysql-connection''"
  "cf_multi (visible_cfg cf) ''pgsql-connection'' = cf_multi cf ''pgsql-connection''"
  "cf_multi (visible_cfg cf) ''redis-connection'' = cf_multi cf ''redis-connection''"
  "cf_multi (visible_cfg cf) ''ksmppd-plugin'' = map (visible ''ksmppd-plugin'') (cf_multi cf ''ksmppd-plugin'')"
  "cf_multi (visible_cfg cf) ''bearerbox-connection'' = map (visible ''bearerbox-connection'') (cf_multi cf ''bearerbox-connection'')"
  by (simp_all add: visible_cfg_def smpp_server_cfg_def_def)

lemma find_map_visible:
  assumes "used_directive n ''id''"
  shows "find_group w (map (visible n) gs) = map_sum id (visible n) (find_group w gs)"
proof -
  have "find (\<lambda>g. cg_get g ''id'' \<noteq> None \<and> cg_get g ''id'' = w) (map (visible n) gs)
      = map_option (visible n) (find (\<lambda>g. cg_get g ''id'' \<noteq> None \<and> cg_get g ''id'' = w) gs)"
    by (induction gs) (auto simp: assms)
  then show ?thesis by (simp add: find_group_def split: option.split)
qed

lemma visible_plugin: "smpp_plugin_init ld (visible_cfg cf) plug plugins = smpp_plugin_init ld cf plug plugins"
proof -
  have "load_plugin ld (visible ''ksmppd-plugin'' g) p = load_plugin ld g p" for g p
    by (simp add: load_plugin_def used Let_def split: option.split)
  then show ?thesis
    by (auto simp: smpp_plugin_init_def visible_multi find_map_visible used map_sum_def split: option.splits sum.splits)
qed

lemma visible_settings: "read_settings (visible ''ksmppd'' g) st = read_settings g st"
  by (simp add: read_settings_def integer_or_def used)

lemma visible_auth: "auth_method ld (visible_cfg cf) (visible ''ksmppd'' g) plugins = auth_method ld cf g plugins"
  by (simp add: auth_method_def visible_plugin used Let_def split: option.split)

lemma visible_http: "smpp_http_server_init opens now (cf_single (visible_cfg cf) ''http-server'') = smpp_http_server_init opens now (cf_single cf ''http-server'')"
  by (simp add: smpp_http_server_init_def visible_cfg_def used split: option.split)

lemma visible_http_router: "smpp_http_client_route_init (visible ''smpp-routing'' g) = smpp_http_client_route_init g"
  by (simp add: smpp_http_client_route_init_def used split: option.split)

lemma visible_routing: "smpp_route_init ld (visible_cfg cf) plugins = smpp_route_init ld cf plugins"
proof -
  have single: "cf_single (visible_cfg cf) ''smpp-routing'' = map_option (visible ''smpp-routing'') (cf_single cf ''smpp-routing'')"
    by (simp add: visible_cfg_def)
  have m: "routing_method_of ld (visible_cfg cf) plugins = routing_method_of ld cf plugins"
    by (cases "cf_single cf ''smpp-routing''") (simp_all add: routing_method_of_def single visible_plugin used Let_def split: option.split)
  have h: "Option.bind (cf_single (visible_cfg cf) ''smpp-routing'') smpp_http_client_route_init = Option.bind (cf_single cf ''smpp-routing'') smpp_http_client_route_init"
    by (cases "cf_single cf ''smpp-routing''") (simp_all add: single visible_http_router)
  show ?thesis unfolding smpp_route_init_def m h ..
qed

lemma visible_database: "start_database dv (visible_cfg cf) st = start_database dv cf st"
  unfolding start_database_def visible_multi ..

lemma visible_bearerbox: "smpp_bearerbox_init (visible_cfg cf) p = smpp_bearerbox_init cf p"
proof -
  have "configure_bearerbox (visible ''bearerbox-connection'' g) = configure_bearerbox g" for g
    by (simp add: configure_bearerbox_def integer_or_def used)
  then show ?thesis by (simp add: smpp_bearerbox_init_def visible_multi comp_def)
qed

text \<open>
  C33: The start of the program reads only directives its configuration file may contain, and
  the directive interface of the administration server is not read. Hiding from the parsed
  file every directive of the program's own groups that smpp_server_cfg.def does not allow, and
  interface, changes neither whether the start succeeds nor what runs after it.
\<close>

theorem start_reads_allowed_directives:
  "server_start dv ld opens binds now reply writes (Some (visible_cfg cf)) = server_start dv ld opens binds now reply writes (Some cf)"
proof -
  have conf: "configure dv ld opens now (visible_cfg cf) (visible ''ksmppd'' g) = configure dv ld opens now cf g" for g
  proof -
    have "cg_get (visible ''ksmppd'' g) ''auth-url'' = cg_get g ''auth-url''" by (simp add: used)
    then show ?thesis unfolding configure_def visible_settings visible_database visible_auth visible_http visible_routing by (simp only:)
  qed
  have single: "cf_single (visible_cfg cf) ''ksmppd'' = map_option (visible ''ksmppd'') (cf_single cf ''ksmppd'')"
    by (simp add: visible_cfg_def)
  show ?thesis
  proof (cases "cf_single cf ''ksmppd''")
    case (Some g)
    have r: "smpp_server_reconfigure dv ld opens now (Some f) None = map_option (case_sum Inl (\<lambda>rn. Inr (0, (f, rn)))) (configure dv ld opens now cf g)"
      if "f = cf \<or> f = visible_cfg cf" for f
      using that Some by (auto simp: smpp_server_reconfigure_def single conf)
    show ?thesis
    proof (cases "configure dv ld opens now cf g")
      case (Some x)
      then show ?thesis by (cases x) (simp_all add: server_start_def r visible_bearerbox)
    qed (simp add: server_start_def r)
  qed (simp add: server_start_def smpp_server_reconfigure_def single)
qed

section \<open>Unknown routing methods\<close>



end
