(* ===== verification/Owed.thy ===== *)
theory Owed
  imports Frames Submission
begin

text \<open>
  Who owes the answer to a submission. While a router decides on a submission, or a bearerbox has
  its message, the response PDU is held by that party alone: it is allocated, not answered yet,
  and neither in a queue nor among the open acknowledgements. The operations that do not settle a submission keep
  this for every response that is held.
\<close>

section \<open>Responses that are held\<close>

text \<open>The response to a submit_sm (True) or a data_sm.\<close>

definition owed_response :: "bool \<Rightarrow> int \<Rightarrow> octstr option \<Rightarrow> pdu" where
  "owed_response submit seq mid = (if submit then Submit_sm_resp seq SMPP_ESME_ROK mid else Data_sm_resp seq SMPP_ESME_ROK mid)"

definition referenced :: "'d server \<Rightarrow> nat \<Rightarrow> bool" where
  "referenced s p \<longleftrightarrow> p \<in> fst ` set (s_outbound_queue s) \<or> p \<in> fst ` set (s_inbound_queue s) \<or> p \<in> set (s_simulation_queue s)
     \<or> (\<exists>i e. get_esme s i = Some e \<and> p \<in> ran (dict_get (e_open_acks e)))"

definition unanswered :: "bool \<Rightarrow> queued_pdu \<Rightarrow> 'd server \<Rightarrow> bool" where
  "unanswered k q s \<longleftrightarrow> (\<exists>seq mid i. q_pdu q = Some (owed_response k seq mid) \<and> q_esme q = Some i \<and> q_callback q = None
     \<and> i < s_esme_counter s \<and> (\<forall>e. get_esme s i = Some e \<longrightarrow> e_global e \<noteq> None))"

definition owed :: "nat \<Rightarrow> bool \<Rightarrow> 'd server \<Rightarrow> bool" where
  "owed p k s \<longleftrightarrow> p < s_next_pdu s \<and> \<not> referenced s p \<and> (\<exists>q. get_pdu s p = Some q \<and> unanswered k q s)"

text \<open>An ESME has an address that was given out, and the entry it points to exists.\<close>

definition globals_closed :: "'d server \<Rightarrow> bool" where
  "globals_closed s \<longleftrightarrow> (\<forall>i e. get_esme s i = Some e \<longrightarrow> i < s_esme_counter s
     \<and> (\<forall>k. e_global e = Some k \<longrightarrow> dict_get (s_esmes s) k \<noteq> None))"

definition hold :: "(nat \<times> bool) set \<Rightarrow> 'd server \<Rightarrow> bool" where
  "hold P s \<longleftrightarrow> globals_closed s \<and> (\<forall>(p, k) \<in> P. owed p k s)"

definition off :: "(nat \<times> bool) set \<Rightarrow> nat \<Rightarrow> bool" where
  "off P p \<longleftrightarrow> p \<notin> fst ` P"

lemmas hold_defs = hold_def globals_closed_def owed_def unanswered_def referenced_def off_def

named_theorems hold_frame \<open>operations that keep every held response\<close>

section \<open>Updates\<close>

lemma hold_keep:
  assumes "hold P s" and "\<And>p. \<not> off P p \<Longrightarrow> get_pdu t p = get_pdu s p" and "\<And>p. \<not> off P p \<Longrightarrow> referenced t p \<Longrightarrow> referenced s p"
    and "s_next_pdu s \<le> s_next_pdu t" and "s_esme_counter s \<le> s_esme_counter t" and "globals_closed t"
    and "\<And>i e'. i < s_esme_counter s \<Longrightarrow> get_esme t i = Some e' \<Longrightarrow> \<exists>e. get_esme s i = Some e \<and> (e_global e \<noteq> None \<longrightarrow> e_global e' \<noteq> None)"
  shows "hold P t"
proof -
  have "owed p k t" if "(p, k) \<in> P" for p k
  proof -
    have "\<not> off P p" using that by (force simp: off_def)
    moreover have "owed p k s" using assms(1) that by (auto simp: hold_def)
    ultimately show ?thesis using assms(2-5,7) by (fastforce simp: owed_def unanswered_def)
  qed
  then show ?thesis using assms(6) by (auto simp: hold_def)
qed

lemma hold_closed: "hold P s \<Longrightarrow> globals_closed s"
  by (simp add: hold_def)

lemma hold_updates [simp]:
  "hold P (s\<lparr>s_db := x1\<rparr>) = hold P s" "hold P (s\<lparr>s_next_uuid := x2\<rparr>) = hold P s" "hold P (s\<lparr>s_inbound_load := x3\<rparr>) = hold P s"
  "hold P (s\<lparr>s_outbound_load := x4\<rparr>) = hold P s" "hold P (s\<lparr>s_inbound_processed := x5\<rparr>) = hold P s"
  "hold P (s\<lparr>s_outbound_processed := x6\<rparr>) = hold P s" "hold P (s\<lparr>s_bearerboxes := x7\<rparr>) = hold P s" "hold P (s\<lparr>s_bb_queue := x8\<rparr>) = hold P s"
  "hold P (s\<lparr>s_outbound_routes := x9\<rparr>) = hold P s" "hold P (s\<lparr>s_inbound_routes := x10\<rparr>) = hold P s"
  "hold P (s\<lparr>s_ip_blocklist := x11\<rparr>) = hold P s" "hold P (s\<lparr>s_written := x12\<rparr>) = hold P s" "hold P (s\<lparr>s_bb_sent := x13\<rparr>) = hold P s"
  "hold P (s\<lparr>s_log := x14\<rparr>) = hold P s" "hold P (s\<lparr>s_cleanup_queue := x15\<rparr>) = hold P s" "hold P (s\<lparr>s_pending_routes := x16\<rparr>) = hold P s"
  by (simp_all add: hold_defs get_esme_def get_pdu_def)

lemma hold_queues [simp]:
  "hold P s \<Longrightarrow> set xs \<subseteq> set (s_outbound_queue s) \<Longrightarrow> hold P (s\<lparr>s_outbound_queue := xs\<rparr>)"
  "hold P s \<Longrightarrow> set ys \<subseteq> set (s_inbound_queue s) \<Longrightarrow> hold P (s\<lparr>s_inbound_queue := ys\<rparr>)"
  "hold P s \<Longrightarrow> set zs \<subseteq> set (s_simulation_queue s) \<Longrightarrow> hold P (s\<lparr>s_simulation_queue := zs\<rparr>)"
  "hold P s \<Longrightarrow> off P p \<Longrightarrow> hold P (s\<lparr>s_outbound_queue := s_outbound_queue s @ [(p, i)]\<rparr>)"
  "hold P s \<Longrightarrow> off P p \<Longrightarrow> hold P (s\<lparr>s_inbound_queue := s_inbound_queue s @ [(p, i)]\<rparr>)"
  "hold P s \<Longrightarrow> off P p \<Longrightarrow> hold P (s\<lparr>s_simulation_queue := s_simulation_queue s @ [p]\<rparr>)"
  by (auto intro!: hold_keep [of P s] simp: referenced_def globals_closed_def get_esme_def get_pdu_def dest: hold_closed) force+

lemma take_drop_subset [simp]: "set (take n xs) \<subseteq> set xs" "set (drop n xs) \<subseteq> set xs"
  by (auto dest: in_set_takeD in_set_dropD)

definition mild :: "esme \<Rightarrow> esme \<Rightarrow> bool" where
  "mild e e' \<longleftrightarrow> e_global e' = e_global e \<and> ran (dict_get (e_open_acks e')) \<subseteq> ran (dict_get (e_open_acks e))"

lemma ran_remove [simp]: "ran (dict_get (dict_remove d k)) \<subseteq> ran (dict_get d)"
  by (auto simp: ran_def split: if_split_asm)

lemma harmless_mild: "harmless e e' \<Longrightarrow> mild e e'"
  by (auto simp: harmless_def mild_def ran_def)

lemma hold_put_esme:
  assumes "get_esme s i = Some e" and "mild e e'" and "hold P s"
  shows "hold P (put_esme i e' s)"
proof (rule hold_keep [OF assms(3)])
  show "referenced s p" if "referenced (put_esme i e' s) p" for p
    using assms(1,2) that by (auto simp: referenced_def mild_def put_esme_def get_esme_def split: if_split_asm)
  show "globals_closed (put_esme i e' s)"
    using hold_closed [OF assms(3)] assms(1,2) by (auto simp: globals_closed_def mild_def put_esme_def get_esme_def)
  show "\<exists>e. get_esme s j = Some e \<and> (e_global e \<noteq> None \<longrightarrow> e_global x \<noteq> None)" if "get_esme (put_esme i e' s) j = Some x" for j x
    using that assms(1,2) by (auto simp: mild_def split: if_split_asm)
qed (simp_all add: put_esme_def get_pdu_def)

lemma hold_upd_esme [hold_frame]: "upd_esme i f s = Some t \<Longrightarrow> \<forall>P. (\<forall>e. mild e (f e)) \<longrightarrow> hold P s \<longrightarrow> hold P t"
  by (auto simp: upd_esme_def bind_eq_Some_conv intro: hold_put_esme)

lemma hold_upd_global [hold_frame]:
  assumes "upd_global i f s = Some t"
  shows "\<forall>P. hold P s \<longrightarrow> hold P t"
proof (intro allI impI)
  fix P assume "hold P s"
  then show "hold P t" using assms
    by (auto simp: upd_global_def bind_eq_Some_conv referenced_def globals_closed_def get_esme_def get_pdu_def dest: hold_closed intro!: hold_keep [of P s])
qed

lemma hold_upd_box [hold_frame]: "upd_box b f s = Some t \<Longrightarrow> \<forall>P. hold P s \<longrightarrow> hold P t"
  by (auto simp: upd_box_def bind_eq_Some_conv)

lemma hold_put_pdu [simp]: "off P p \<Longrightarrow> hold P s \<Longrightarrow> hold P (put_pdu p q s)"
  by (rule hold_keep [of P s]) (auto simp: put_pdu_def referenced_def globals_closed_def get_esme_def get_pdu_def dest!: hold_closed)

lemma hold_free [hold_frame]: "free_pdu p s = Some t \<Longrightarrow> \<forall>P. off P p \<longrightarrow> hold P s \<longrightarrow> hold P t"
  by (auto simp: free_pdu_def bind_eq_Some_conv referenced_def globals_closed_def get_esme_def get_pdu_def dest: hold_closed intro!: hold_keep [of _ s])

lemma hold_destroy [hold_frame]: "smpp_queued_pdu_destroy p s = Some t \<Longrightarrow> \<forall>P. off P p \<longrightarrow> hold P s \<longrightarrow> hold P t"
  unfolding smpp_queued_pdu_destroy_def by (rule hold_free)

lemma hold_alloc [simp]:
  assumes "hold P s"
  shows "hold P (snd (alloc_pdu q s))" "off P (fst (alloc_pdu q s))"
proof -
  show off: "off P (fst (alloc_pdu q s))" using assms by (force simp: alloc_pdu_def off_def hold_def owed_def)
  then show "hold P (snd (alloc_pdu q s))" using hold_closed [OF assms]
    by (intro hold_keep [OF assms]) (auto simp: alloc_pdu_def put_pdu_def referenced_def globals_closed_def get_esme_def get_pdu_def)
qed

lemma hold_db [simp]:
  "hold P (snd (smpp_database_add_message E s m)) = hold P s" "hold P (snd (smpp_database_add_queue_message E s m)) = hold P s"
  "hold P (snd (smpp_database_add_pdu E s q)) = hold P s" "hold P (snd (smpp_database_get_stored E s ty svc lmt)) = hold P s"
  "hold P (snd (smpp_database_get_bearerbox_mt_stored E s ty svc lmt)) = hold P s"
  "hold P (snd (smpp_database_get_dlrs E s svc lmt)) = hold P s" "hold P (snd (smpp_database_get_stored_pdu E s svc lmt)) = hold P s"
  "hold P (snd (smpp_database_remove E s gid tmp)) = hold P s" "hold P (snd (smpp_database_remove_dlr E s gid)) = hold P s"
  "hold P (snd (smpp_database_deduct_credit E s svc cost)) = hold P s" "hold P (snd (smpp_database_get_esmes_with_queued E s)) = hold P s"
  using database_frames unfolding same_but_db_def by (metis hold_updates(1))+

lemma hold_get_stored_pdu [hold_frame]: "smpp_database_get_stored_pdu E s svc lmt = (r, t) \<Longrightarrow> \<forall>P. hold P s \<longrightarrow> hold P t"
  using hold_db(7) by (metis snd_conv)

lemma hold_heap [simp]:
  "hold P (snd (fresh_uuid s)) = hold P s" "hold P (smpp_listener_auth_failed E ip s) = hold P s"
  "hold P (snd (smpp_listener_ip_is_blocked E ip s)) = hold P s"
  "hold P (log_deliver E e q st s) = hold P s" "hold P (log_response E e q pd s) = hold P s" "hold P (db_queue_remove E q s) = hold P s"
  by (simp_all add: fresh_uuid_def smpp_listener_auth_failed_def Let_def
      smpp_listener_ip_is_blocked_def log_deliver_def log_response_def db_queue_remove_def split: option.splits pdu.splits)

lemma hold_push_simulation [simp]: "hold P s \<Longrightarrow> hold P (push_simulation sid ds s)"
  by (induction sid ds s rule: push_simulation.induct) (simp_all add: Let_def case_prod_beta)

section \<open>Acknowledgements and the bearerbox queue\<close>

lemma hold_stop_listening [hold_frame]: "smpp_esme_stop_listening i s = Some t \<Longrightarrow> \<forall>P. hold P s \<longrightarrow> hold P t"
  by (auto simp: smpp_esme_stop_listening_def mild_def bind_eq_Some_conv Let_def case_prod_beta split: if_split_asm option.split_asm dest!: hold_frame)

lemma hold_disconnect [hold_frame]: "smpp_esme_disconnect i s = Some t \<Longrightarrow> \<forall>P. hold P s \<longrightarrow> hold P t"
  by (auto simp: smpp_esme_disconnect_def mild_def bind_eq_Some_conv Let_def case_prod_beta split: if_split_asm option.split_asm dest!: hold_frame)

lemma hold_cleanup [hold_frame]: "smpp_esme_cleanup i s = Some t \<Longrightarrow> \<forall>P. hold P s \<longrightarrow> hold P t"
  by (auto simp: smpp_esme_cleanup_def mild_def bind_eq_Some_conv Let_def case_prod_beta split: if_split_asm option.split_asm dest!: hold_frame)

lemma hold_inbound_load [hold_frame]: "smpp_esme_inbound_load_increase E i s = Some t \<Longrightarrow> \<forall>P. hold P s \<longrightarrow> hold P t"
  by (auto simp: smpp_esme_inbound_load_increase_def mild_def bind_eq_Some_conv Let_def case_prod_beta split: if_split_asm option.split_asm dest!: hold_frame)

lemma hold_outbound_load [hold_frame]: "smpp_esme_outbound_load_increase E i s = Some t \<Longrightarrow> \<forall>P. hold P s \<longrightarrow> hold P t"
  by (auto simp: smpp_esme_outbound_load_increase_def mild_def bind_eq_Some_conv Let_def case_prod_beta split: if_split_asm option.split_asm dest!: hold_frame)

lemma hold_readers [hold_frame]: "smpp_esme_global_get_readers E b s = Some (r, t) \<Longrightarrow> \<forall>P. hold P s \<longrightarrow> hold P t"
  by (auto simp: smpp_esme_global_get_readers_def mild_def bind_eq_Some_conv Let_def case_prod_beta split: if_split_asm option.split_asm dest!: hold_frame)

lemma hold_bb_write [hold_frame]: "bb_write E b m s = Some (r, t) \<Longrightarrow> \<forall>P. hold P s \<longrightarrow> hold P t"
  by (auto simp: bb_write_def mild_def bind_eq_Some_conv Let_def case_prod_beta split: if_split_asm option.split_asm dest!: hold_frame)

lemma hold_deliver [hold_frame]: "smpp_bearerbox_deliver E b m s = Some (r, t) \<Longrightarrow> \<forall>P. hold P s \<longrightarrow> hold P t"
  by (auto simp: smpp_bearerbox_deliver_def mild_def bind_eq_Some_conv Let_def case_prod_beta split: if_split_asm option.split_asm dest!: hold_frame)

lemma hold_acknowledge [hold_frame]: "smpp_bearerbox_acknowledge E bo ido st s = Some (r, t) \<Longrightarrow> \<forall>P. hold P s \<longrightarrow> hold P t"
  by (auto simp: smpp_bearerbox_acknowledge_def mild_def bind_eq_Some_conv Let_def case_prod_beta split: if_split_asm option.split_asm dest!: hold_frame)

lemma hold_add_inbound [hold_frame]: "smpp_queues_add_inbound p s = Some t \<Longrightarrow> \<forall>P. off P p \<longrightarrow> hold P s \<longrightarrow> hold P t"
  by (auto simp: smpp_queues_add_inbound_def mild_def bind_eq_Some_conv Let_def case_prod_beta split: if_split_asm option.split_asm dest!: hold_frame)

lemma hold_count_traffic [hold_frame]: "count_traffic f i s = Some t \<Longrightarrow> \<forall>P. hold P s \<longrightarrow> hold P t"
  by (auto simp: count_traffic_def mild_def bind_eq_Some_conv Let_def case_prod_beta split: if_split_asm option.split_asm dest!: hold_frame)

lemma hold_count_delivery [hold_frame]: "count_delivery q s = Some t \<Longrightarrow> \<forall>P. hold P s \<longrightarrow> hold P t"
  by (auto simp: count_delivery_def mild_def bind_eq_Some_conv Let_def case_prod_beta split: option.split_asm pdu.split_asm dest!: hold_frame)

lemma hold_settle_origin [hold_frame]: "settle_origin E q st s = Some t \<Longrightarrow> \<forall>P. hold P s \<longrightarrow> hold P t"
  by (auto simp: settle_origin_def mild_def bind_eq_Some_conv Let_def case_prod_beta split: if_split_asm option.split_asm dest!: hold_frame)

lemma hold_timed_out [hold_frame]: "ack_timed_out E q s = Some t \<Longrightarrow> \<forall>P. hold P s \<longrightarrow> hold P t"
  by (auto simp: ack_timed_out_def mild_def bind_eq_Some_conv Let_def case_prod_beta split: if_split_asm option.split_asm dest!: hold_frame)

lemma hold_deliver_resp [hold_frame]: "smpp_queues_callback_deliver_sm_resp E p st s = Some t \<Longrightarrow> \<forall>P. off P p \<longrightarrow> hold P s \<longrightarrow> hold P t"
  by (auto simp: smpp_queues_callback_deliver_sm_resp_def mild_def bind_eq_Some_conv Let_def case_prod_beta split: if_split_asm option.split_asm dest!: hold_frame)

lemma hold_db_queue [hold_frame]: "smpp_esme_db_queue_callback E p st s = Some t \<Longrightarrow> \<forall>P. off P p \<longrightarrow> hold P s \<longrightarrow> hold P t"
  by (auto simp: smpp_esme_db_queue_callback_def mild_def bind_eq_Some_conv Let_def case_prod_beta split: if_split_asm option.split_asm dest!: hold_frame)

lemma hold_pdu_callback [hold_frame]:
  assumes "run_pdu_callback E p st s = Some t"
  shows "\<forall>P. off P p \<longrightarrow> hold P s \<longrightarrow> hold P t"
proof -
  from assms obtain q cb where "q_callback q = Some cb" and cb: "(case cb of
        Cb_deliver_sm_resp \<Rightarrow> smpp_queues_callback_deliver_sm_resp E p st s
      | Cb_db_queue \<Rightarrow> smpp_esme_db_queue_callback E p st s
      | Cb_queued_pdu_handler \<Rightarrow>
          smpp_queued_pdu_destroy p (s\<lparr>s_db := db_queued_pdu_handler (ev_db E) (ev_now E) (s_db s) q st\<rparr>)) = Some t"
    unfolding run_pdu_callback_def bind_eq_Some_conv by blast
  then show ?thesis by (cases cb) (auto dest!: hold_frame)
qed

text \<open>A PDU among the open acknowledgements is not one that is held.\<close>

lemma ack_off:
  assumes "get_esme s i = Some e" and "dict_get (e_open_acks e) k = Some p" and "hold P s"
  shows "off P p"
proof -
  have "referenced s p" using assms(1,2) by (auto simp: referenced_def ran_def)
  with assms(3) show ?thesis by (auto simp: hold_def owed_def off_def)
qed

lemma hold_add_ack:
  assumes "get_esme s i = Some e" and "hold P s" and "off P p"
  shows "hold P (put_esme i (e\<lparr>e_open_acks := dict_put (e_open_acks e) k p\<rparr>) s)"
proof (rule hold_keep [OF assms(2)])
  show "referenced s r" if "\<not> off P r" "referenced (put_esme i (e\<lparr>e_open_acks := dict_put (e_open_acks e) k p\<rparr>) s) r" for r
  proof -
    have "r \<noteq> p" using that(1) assms(3) by auto
    then have "r \<in> ran (dict_get (dict_put (e_open_acks e) k p)) \<Longrightarrow> r \<in> ran (dict_get (e_open_acks e))"
      by (auto simp: ran_def split: if_split_asm)
    then show ?thesis using that(2) assms(1) by (auto simp: referenced_def put_esme_def get_esme_def split: if_split_asm)
  qed
qed (use assms(1) hold_closed [OF assms(2)] in \<open>auto simp: put_esme_def get_esme_def get_pdu_def globals_closed_def split: if_split_asm\<close>)

lemma hold_add_outbound [hold_frame]:
  assumes "smpp_queues_add_outbound p s = Some t"
  shows "\<forall>P. off P p \<longrightarrow> hold P s \<longrightarrow> hold P t"
proof (intro allI impI)
  fix P assume P: "off P p" "hold P s"
  from assms obtain q i e u v where "get_pdu s p = Some q" and e: "get_esme s i = Some e" and u: "(if q_callback q = None then Some s
          else
            let key = case_option [] id (q_id q) in
            do {
              s \<leftarrow> (case dict_get (e_open_acks e) key of
                     None \<Rightarrow> Some s
                   | Some other \<Rightarrow> if other = p then Some s else smpp_queued_pdu_destroy other s);
              upd_esme i (\<lambda>e. e\<lparr>e_open_acks := dict_put (e_open_acks e) key p\<rparr>) s }) = Some u"
    and v: "upd_esme i (\<lambda>e. e\<lparr>e_outbound_queued := e_outbound_queued e + 1\<rparr>) u = Some v" "t = v\<lparr>s_outbound_queue := s_outbound_queue v @ [(p, i)]\<rparr>"
    unfolding smpp_queues_add_outbound_def bind_eq_Some_conv by auto
  have "hold P u"
  proof (cases "q_callback q = None")
    case False
    define key where "key = case_option [] id (q_id q)"
    from u False obtain w where w: "(case dict_get (e_open_acks e) key of
                     None \<Rightarrow> Some s
                   | Some other \<Rightarrow> if other = p then Some s else smpp_queued_pdu_destroy other s) = Some w"
      "upd_esme i (\<lambda>e. e\<lparr>e_open_acks := dict_put (e_open_acks e) key p\<rparr>) w = Some u"
      unfolding if_not_P [OF False] Let_def bind_eq_Some_conv key_def [symmetric] by blast
    have "hold P w" using w(1) P ack_off [OF e] by (auto split: option.split_asm if_split_asm dest!: hold_destroy)
    then show ?thesis using w(2) P(1) by (auto simp: upd_esme_def bind_eq_Some_conv intro: hold_add_ack)
  qed (use u P in simp)
  then show "hold P t" using v P(1) by (auto simp: mild_def dest!: hold_upd_esme)
qed

lemma hold_callback_response [hold_frame]: "callback_response p st s = Some t \<Longrightarrow> \<forall>P. off P p \<longrightarrow> hold P s \<longrightarrow> hold P t"
  by (auto simp: callback_response_def mild_def bind_eq_Some_conv Let_def case_prod_beta split: if_split_asm option.split_asm dest!: hold_frame)

lemma hold_process_ack [hold_frame]:
  assumes "smpp_queues_process_ack E i seq st s = Some t"
  shows "\<forall>P. hold P s \<longrightarrow> hold P t"
proof (intro allI impI)
  fix P assume P: "hold P s"
  from assms obtain u e where u: "smpp_esme_outbound_load_increase E i s = Some u" and e: "get_esme u i = Some e"
    and t: "(case dict_get (e_open_acks e) (show_int seq) of
        None \<Rightarrow> Some u
      | Some p \<Rightarrow> do {
          s \<leftarrow> upd_esme i (\<lambda>e. e\<lparr>e_open_acks := dict_remove (e_open_acks e) (show_int seq)\<rparr>) u;
          q \<leftarrow> get_pdu s p;
          let s = log_deliver E e q st s;
          (if q_callback q = None then Some s else run_pdu_callback E p st s) }) = Some t"
    unfolding smpp_queues_process_ack_def bind_eq_Some_conv by blast
  have "hold P u" using u P by (auto dest!: hold_outbound_load)
  then show "hold P t" using t ack_off [OF e]
    by (auto simp: mild_def bind_eq_Some_conv Let_def split: option.split_asm if_split_asm dest!: hold_frame)
qed

lemma hold_acks_loop [hold_frame]: "destroy_acks_loop E i ks s = Some t \<Longrightarrow> \<forall>P. hold P s \<longrightarrow> hold P t"
proof (induction ks arbitrary: s)
  case (Cons k ks)
  then obtain e u where e: "get_esme s i = Some e" and u: "(case dict_get (e_open_acks e) k of
            None \<Rightarrow> Some s
          | Some p \<Rightarrow> do {
              s \<leftarrow> upd_esme i (\<lambda>e. e\<lparr>e_open_acks := dict_remove (e_open_acks e) k\<rparr>) s;
              q \<leftarrow> get_pdu s p;
              (if q_callback q = None then Some s else run_pdu_callback E p SMPP_QUEUED_PDU_DESTROYED s) }) = Some u"
      and t: "destroy_acks_loop E i ks u = Some t"
    unfolding destroy_acks_loop.simps bind_eq_Some_conv by blast
  have "hold P u" if "hold P s" for P
    using u that ack_off [OF e _ that]
    by (auto simp: mild_def bind_eq_Some_conv Let_def split: option.split_asm if_split_asm dest!: hold_frame)
  then show ?case using Cons.IH [OF t] by blast
qed simp

lemma hold_expire [hold_frame]: "expire_acks E i ks s = Some t \<Longrightarrow> \<forall>P. hold P s \<longrightarrow> hold P t"
proof (induction ks arbitrary: s)
  case (Cons k ks)
  then obtain e u where e: "get_esme s i = Some e" and u: "(case dict_get (e_open_acks e) k of
            None \<Rightarrow> Some s
          | Some p \<Rightarrow> do {
              q \<leftarrow> get_pdu s p;
              (if 0 < q_time_sent q \<and> e_wait_ack_time e < ev_now E - q_time_sent q then do {
                 s \<leftarrow> upd_esme i (\<lambda>e. e\<lparr>e_open_acks := dict_remove (e_open_acks e) k\<rparr>) s;
                 run_pdu_callback E p SMPP_ESME_COMMAND_STATUS_WAIT_ACK_TIMEOUT (put_pdu p (q\<lparr>q_server := True\<rparr>) s) }
               else Some s) }) = Some u"
      and t: "expire_acks E i ks u = Some t"
    unfolding expire_acks.simps bind_eq_Some_conv by blast
  have "hold P u" if "hold P s" for P
    using u that ack_off [OF e _ that]
    by (auto simp: mild_def bind_eq_Some_conv Let_def split: option.split_asm if_split_asm dest!: hold_frame)
  then show ?case using Cons.IH [OF t] by blast
qed simp

lemma hold_remove_esme: "hold P s \<Longrightarrow> hold P (s\<lparr>s_esme_heap := dict_remove (s_esme_heap s) i\<rparr>)"
  by (rule hold_keep [of P s]) (auto simp: referenced_def globals_closed_def get_esme_def get_pdu_def split: if_split_asm dest!: hold_closed)

lemma hold_esme_destroy [hold_frame]: "smpp_esme_destroy E i s = Some t \<Longrightarrow> \<forall>P. hold P s \<longrightarrow> hold P t"
  by (auto simp: smpp_esme_destroy_def smpp_esme_destroy_open_acks_def bind_eq_Some_conv hold_remove_esme dest!: hold_frame)

text \<open>The response a callback will use, with its kind.\<close>

definition bcb_owed :: "bb_callback \<Rightarrow> (nat \<times> bool) option" where
  "bcb_owed cb = (case cb of BCb_submit_sm p \<Rightarrow> Some (p, True) | BCb_data_sm p \<Rightarrow> Some (p, False) | BCb_requeue_result _ \<Rightarrow> None)"

definition off_opt :: "(nat \<times> bool) set \<Rightarrow> (nat \<times> bool) option \<Rightarrow> bool" where
  "off_opt P x = (case x of None \<Rightarrow> True | Some y \<Rightarrow> off P (fst y))"

lemma hold_bb_callback [hold_frame]: "run_bb_callback E cb st s = Some t \<Longrightarrow> \<forall>P. off_opt P (bcb_owed cb) \<longrightarrow> hold P s \<longrightarrow> hold P t"
  by (cases cb) (auto simp: run_bb_callback_def bcb_owed_def off_opt_def smpp_queues_callback_submit_sm_def smpp_queues_callback_data_sm_def
      smpp_bearerbox_requeue_result_def split: if_split_asm dest!: hold_frame)

lemma hold_add_to_queue [hold_frame]:
  "smpp_bearerbox_add_to_queue E bm s = Some t \<Longrightarrow> \<forall>P. off_opt P (bcb_owed (bm_callback bm)) \<longrightarrow> hold P s \<longrightarrow> hold P t"
  by (auto simp: smpp_bearerbox_add_to_queue_def case_prod_beta Let_def split: if_split_asm dest!: hold_frame)

lemma hold_bb_message [hold_frame]:
  "smpp_bearerbox_add_message E m cb s = Some t \<Longrightarrow> \<forall>P. off_opt P (bcb_owed cb) \<longrightarrow> hold P s \<longrightarrow> hold P t"
  by (auto simp: smpp_bearerbox_add_message_def smpp_bearerbox_msg_create_def dest!: hold_frame)

section \<open>Answers of the router\<close>

lemma hold_charge [hold_frame]: "charge E i cost s = Some (r, t) \<Longrightarrow> \<forall>P. hold P s \<longrightarrow> hold P t"
  by (auto simp: charge_def bind_eq_Some_conv split: if_split_asm dest!: arg_cong [of _ _ snd])

lemma hold_reject [hold_frame]: "reject_submission p q i st s = Some t \<Longrightarrow> \<forall>P. off P p \<longrightarrow> hold P s \<longrightarrow> hold P t"
  by (auto simp: reject_submission_def bind_eq_Some_conv dest!: hold_frame)

lemma resp_callback_owed: "resp_callback p resp = Some cb \<Longrightarrow> off P p \<Longrightarrow> off_opt P (bcb_owed cb)"
  by (auto simp: resp_callback_def off_opt_def bcb_owed_def split: pdu.split_asm)

lemma hold_forward [hold_frame]:
  assumes "forward_submission E p q i m s = Some t"
  shows "\<forall>P. off P p \<longrightarrow> hold P s \<longrightarrow> hold P t"
proof (intro allI impI)
  fix P assume P: "off P p" "hold P s"
  from assms obtain e g resp cb where "get_global s i = Some g" and cb: "resp_callback p resp = Some cb"
    and t: "(let submit = is_submit_sm_resp resp;
         q = q\<lparr>q_pdu := Some (set_resp_message_id (Some (gw_uuid_unparse (ev_gw E) (sms_id m))) resp)\<rparr>;
         m = (if submit then smpp_queues_msg_set_dlr_url (ev_gw E) (ev_now E) e m else m) in
     (if g_database_store_primary g then
        (let (ok, s) = smpp_database_add_message E s m in
         run_bb_callback E cb (if ok then 0 else SMPP_ESME_RSYSERR) (put_pdu p (q\<lparr>q_msg := Msg_null\<rparr>) s))
      else smpp_bearerbox_add_message E m cb (put_pdu p (q\<lparr>q_msg := Msg_lent\<rparr>) s))) = Some t"
    unfolding forward_submission_def bind_eq_Some_conv by blast
  then show "hold P t" using P resp_callback_owed [OF cb P(1)]
    by (auto simp: Let_def case_prod_beta split: if_split_asm dest!: hold_bb_callback hold_bb_message)
qed

lemma hold_submission_done [hold_frame]: "submission_routing_done E p rs s = Some t \<Longrightarrow> \<forall>P. off P p \<longrightarrow> hold P s \<longrightarrow> hold P t"
  by (auto simp: submission_routing_done_def mild_def bind_eq_Some_conv split: if_split_asm dest!: hold_frame)

lemma msg_to_pdu_mild [simp]: "mild e (snd (smpp_pdu_msg_to_pdu G now e m))"
  by (rule harmless_mild [OF msg_to_pdu_harmless])

lemma hold_msg_to_pdu [hold_frame]: "msg_to_pdu_for E i m s = Some (r, t) \<Longrightarrow> \<forall>P. hold P s \<longrightarrow> hold P t"
  by (auto simp: msg_to_pdu_for_def bind_eq_Some_conv case_prod_beta intro: hold_put_esme)

text \<open>A new PDU, for which an ESME draws a sequence number, is queued.\<close>

lemma mild_sequence [simp]: "mild e (e\<lparr>e_sequence_number := n\<rparr>)"
  by (simp add: mild_def)

lemma hold_draw [simp]: "get_esme s i = Some e \<Longrightarrow> hold P s \<Longrightarrow> hold P (put_esme i (e\<lparr>e_sequence_number := n\<rparr>) s)"
  by (simp add: hold_put_esme)

lemma hold_queue_new [hold_frame]:
  "smpp_queues_add_outbound (fst (alloc_pdu q s)) (snd (alloc_pdu q s)) = Some t \<Longrightarrow> \<forall>P. hold P s \<longrightarrow> hold P t"
  by (auto dest!: hold_add_outbound)

lemma hold_queue_deliveries [hold_frame]: "queue_deliveries i base ds s = Some t \<Longrightarrow> \<forall>P. hold P s \<longrightarrow> hold P t"
  by (induction ds arbitrary: s) (auto simp: mild_def bind_eq_Some_conv Let_def case_prod_beta split: if_split_asm option.split_asm dest!: hold_frame)

lemma hold_requeue_done [hold_frame]: "smpp_bearerbox_requeue_routing_done E dm rs s = Some t \<Longrightarrow> \<forall>P. hold P s \<longrightarrow> hold P t"
  by (auto simp: smpp_bearerbox_requeue_routing_done_def mild_def bind_eq_Some_conv Let_def case_prod_beta split: if_split_asm option.split_asm dest!: hold_frame)

lemma hold_bearerbox_done [hold_frame]: "smpp_bearerbox_routing_done E b m rs s = Some t \<Longrightarrow> \<forall>P. hold P s \<longrightarrow> hold P t"
  by (auto simp: smpp_bearerbox_routing_done_def mild_def bind_eq_Some_conv Let_def case_prod_beta split: if_split_asm option.split_asm dest!: hold_frame)

definition rcb_owed :: "route_callback \<Rightarrow> (nat \<times> bool) option" where
  "rcb_owed cb = (case cb of RCb_submit_sm p _ \<Rightarrow> Some (p, True) | RCb_data_sm p _ \<Rightarrow> Some (p, False) | _ \<Rightarrow> None)"

lemma hold_route_answer [hold_frame]: "route_answer E cb m rs s = Some t \<Longrightarrow> \<forall>P. off_opt P (rcb_owed cb) \<longrightarrow> hold P s \<longrightarrow> hold P t"
  by (cases cb) (auto simp: route_answer_def set_callback_msg_def run_route_callback_def smpp_queues_submit_routing_done_def
      smpp_queues_data_sm_routing_done_def rcb_owed_def off_opt_def bind_eq_Some_conv dest!: hold_frame)

lemma hold_route_database [hold_frame]: "route_database E d smsc sid m s = (rs, m', t) \<Longrightarrow> \<forall>P. hold P s \<longrightarrow> hold P t"
  by (auto simp: route_database_def outbound_routes_for_def Let_def case_prod_beta split: if_split_asm option.split_asm sum.split_asm)

section \<open>Handlers that do not route\<close>

lemma hold_respond [hold_frame]: "respond i resp s = Some t \<Longrightarrow> \<forall>P. hold P s \<longrightarrow> hold P t"
  by (auto simp: respond_def mild_def bind_eq_Some_conv Let_def case_prod_beta split: if_split_asm option.split_asm dest!: hold_frame)

lemma hold_respond_plain [hold_frame]: "respond_plain i resp disc s = Some t \<Longrightarrow> \<forall>P. hold P s \<longrightarrow> hold P t"
  by (auto simp: respond_plain_def mild_def bind_eq_Some_conv Let_def case_prod_beta split: if_split_asm option.split_asm dest!: hold_frame)

lemma hold_enquire_link [hold_frame]: "smpp_queues_send_enquire_link i s = Some t \<Longrightarrow> \<forall>P. hold P s \<longrightarrow> hold P t"
  by (auto simp: smpp_queues_send_enquire_link_def mild_def bind_eq_Some_conv Let_def case_prod_beta split: if_split_asm option.split_asm dest!: hold_frame)

lemma hold_handle_enquire [hold_frame]: "smpp_queues_handle_enquire_link p i seq s = Some t \<Longrightarrow> \<forall>P. off P p \<longrightarrow> hold P s \<longrightarrow> hold P t"
  by (auto simp: smpp_queues_handle_enquire_link_def mild_def bind_eq_Some_conv Let_def case_prod_beta split: if_split_asm option.split_asm dest!: hold_frame)

lemma hold_handle_unbind [hold_frame]: "smpp_queues_handle_unbind p i seq s = Some t \<Longrightarrow> \<forall>P. off P p \<longrightarrow> hold P s \<longrightarrow> hold P t"
  by (auto simp: smpp_queues_handle_unbind_def mild_def bind_eq_Some_conv Let_def case_prod_beta split: if_split_asm option.split_asm dest!: hold_frame)

lemma hold_auth_result [hold_frame]: "apply_auth_result i a s = Some t \<Longrightarrow> \<forall>P. hold P s \<longrightarrow> hold P t"
  by (auto simp: apply_auth_result_def mild_def bind_eq_Some_conv Let_def case_prod_beta split: if_split_asm option.split_asm dest!: hold_frame)

lemma hold_auth [hold_frame]: "smpp_esme_auth E sid password i s = Some (r, t) \<Longrightarrow> \<forall>P. hold P s \<longrightarrow> hold P t"
  by (erule esme_auth_cases) simp_all

lemma hold_global_add [hold_frame]:
  assumes "smpp_esme_global_add i s = Some t"
  shows "\<forall>P. hold P s \<longrightarrow> hold P t"
proof (intro allI impI)
  fix P assume P: "hold P s"
  from assms obtain e where e: "get_esme s i = Some e" by (auto simp: smpp_esme_global_add_def bind_eq_Some_conv)
  define key where "key = case_option [] id (e_system_id e)"
  have "\<exists>g. t = put_esme i (e\<lparr>e_global := Some key\<rparr>) (s\<lparr>s_esmes := dict_put (s_esmes s) key g\<rparr>)"
    using assms e by (simp add: smpp_esme_global_add_def upd_esme_def get_esme_def Let_def key_def) (erule subst, rule exI, rule refl)
  then obtain d where t: "t = put_esme i (e\<lparr>e_global := Some key\<rparr>) (s\<lparr>s_esmes := d\<rparr>)"
    and d: "\<And>k. dict_get d k = None \<longleftrightarrow> k \<noteq> key \<and> dict_get (s_esmes s) k = None" by auto
  show "hold P t"
    unfolding t
  proof (rule hold_keep [OF P])
    show "globals_closed (put_esme i (e\<lparr>e_global := Some key\<rparr>) (s\<lparr>s_esmes := d\<rparr>))"
      using hold_closed [OF P] d e by (auto simp: globals_closed_def put_esme_def get_esme_def)
  qed (use e in \<open>auto simp: put_esme_def get_esme_def get_pdu_def referenced_def split: if_split_asm\<close>)
qed

lemma hold_bind [hold_frame]: "handle_bind E p i resp bt b s = Some t \<Longrightarrow> \<forall>P. off P p \<longrightarrow> hold P s \<longrightarrow> hold P t"
  by (auto simp: handle_bind_def mild_def bind_eq_Some_conv Let_def case_prod_beta split: if_split_asm option.split_asm dest!: hold_frame)

lemma hold_handle_bind [hold_frame]: "smpp_queues_handle_bind_pdu E p i pd s = Some t \<Longrightarrow> \<forall>P. off P p \<longrightarrow> hold P s \<longrightarrow> hold P t"
  by (auto simp: smpp_queues_handle_bind_pdu_def mild_def bind_eq_Some_conv Let_def case_prod_beta split: pdu.split_asm dest!: hold_frame)

lemma hold_simulate_dlr [hold_frame]: "simulate_dlr E i m s = Some t \<Longrightarrow> \<forall>P. hold P s \<longrightarrow> hold P t"
  by (auto simp: simulate_dlr_def mild_def bind_eq_Some_conv Let_def case_prod_beta split: if_split_asm option.split_asm dest!: hold_frame)

lemma hold_simulate_mo [hold_frame]: "simulate_mo E i m s = Some t \<Longrightarrow> \<forall>P. hold P s \<longrightarrow> hold P t"
  by (auto simp: simulate_mo_def mild_def bind_eq_Some_conv Let_def case_prod_beta split: if_split_asm option.split_asm dest!: hold_frame)

lemma hold_simulate_accept [hold_frame]: "simulate_accept E i seq n m s = Some t \<Longrightarrow> \<forall>P. hold P s \<longrightarrow> hold P t"
  by (auto simp: simulate_accept_def mild_def bind_eq_Some_conv Let_def case_prod_beta split: if_split_asm dest!: hold_frame)

lemma hold_simulate_submit [hold_frame]: "simulate_submit E i seq b s = Some t \<Longrightarrow> \<forall>P. hold P s \<longrightarrow> hold P t"
  by (auto simp: simulate_submit_def mild_def bind_eq_Some_conv Let_def case_prod_beta split: if_split_asm sum.split_asm dest!: hold_frame)

section \<open>Threads that do not settle submissions\<close>

lemma outbound_off: "hold P s \<Longrightarrow> n < length (s_outbound_queue s) \<Longrightarrow> off P (fst (s_outbound_queue s ! n))"
  and inbound_off: "hold P s \<Longrightarrow> m < length (s_inbound_queue s) \<Longrightarrow> off P (fst (s_inbound_queue s ! m))"
  and simulation_off: "hold P s \<Longrightarrow> k < length (s_simulation_queue s) \<Longrightarrow> off P (s_simulation_queue s ! k)"
  using nth_mem by (fastforce simp: off_def hold_def owed_def referenced_def)+

lemma hold_send_pdu [hold_frame]: "smpp_queues_send_pdu E i pd s = Some t \<Longrightarrow> \<forall>P. hold P s \<longrightarrow> hold P t"
  by (auto simp: smpp_queues_send_pdu_def mild_def bind_eq_Some_conv Let_def case_prod_beta split: if_split_asm option.split_asm dest!: hold_frame)

lemma hold_outbound [hold_frame]:
  assumes "smpp_queues_outbound_thread E n s = Some t"
  shows "\<forall>P. hold P s \<longrightarrow> hold P t"
proof (cases "n < length (s_outbound_queue s)")
  case True
  define p where "p = fst (s_outbound_queue s ! n)"
  define s0 where "s0 = s\<lparr>s_outbound_queue := take n (s_outbound_queue s) @ drop (Suc n) (s_outbound_queue s)\<rparr>"
  from assms obtain q i u e where
    u: "upd_esme i (\<lambda>e. e\<lparr>e_time_last_queue_process := ev_now E, e_outbound_queued := e_outbound_queued e - 1,
                              e_outbound_processed := e_outbound_processed e + 1\<rparr>) s0 = Some u"
    and t: "(if e_connected e then do {
           pd \<leftarrow> q_pdu q;
           s \<leftarrow> (if q_disconnect q then smpp_esme_stop_listening i u else Some u);
           s \<leftarrow> smpp_queues_send_pdu E i pd
                 (log_response E e q pd (if q_callback q \<noteq> None then put_pdu p (q\<lparr>q_time_sent := ev_now E\<rparr>) s else s));
           s \<leftarrow> (if q_disconnect q \<and> \<not> e_authenticated e then smpp_esme_cleanup i s else Some s);
           (if q_callback q = None then smpp_queued_pdu_destroy p s else Some s) }
         else (if q_callback q = None then smpp_queued_pdu_destroy p u else Some u)) = Some t"
    unfolding smpp_queues_outbound_thread_def Let_def if_P [OF True] bind_eq_Some_conv p_def [symmetric] s0_def [symmetric] by blast
  show ?thesis
  proof (intro allI impI)
    fix P assume P: "hold P s"
    have p: "off P p" unfolding p_def by (rule outbound_off [OF P True])
    have "hold P s0" using P by (simp add: s0_def)
    then have U: "hold P u" using u by (auto simp: mild_def dest!: hold_upd_esme)
    show "hold P t"
    proof (cases "e_connected e")
      case True
      with t obtain pd v w x where "(if q_disconnect q then smpp_esme_stop_listening i u else Some u) = Some v"
        "smpp_queues_send_pdu E i pd (log_response E e q pd (if q_callback q \<noteq> None then put_pdu p (q\<lparr>q_time_sent := ev_now E\<rparr>) v else v)) = Some w"
        "(if q_disconnect q \<and> \<not> e_authenticated e then smpp_esme_cleanup i w else Some w) = Some x"
        "(if q_callback q = None then smpp_queued_pdu_destroy p x else Some x) = Some t"
        unfolding if_P [OF True] bind_eq_Some_conv by blast
      then show ?thesis using U p by (auto split: if_split_asm dest!: hold_frame)
    qed (use t U p in \<open>auto split: if_split_asm dest!: hold_frame\<close>)
  qed
qed (use assms in \<open>simp add: smpp_queues_outbound_thread_def\<close>)

lemma hold_simulation [hold_frame]:
  assumes "smpp_queues_simulation_thread E n s = Some t"
  shows "\<forall>P. hold P s \<longrightarrow> hold P t"
proof (cases "n < length (s_simulation_queue s)")
  case True
  define p where "p = s_simulation_queue s ! n"
  define u where "u = s\<lparr>s_simulation_queue := take n (s_simulation_queue s) @ drop (Suc n) (s_simulation_queue s)\<rparr>"
  from assms obtain q pd where "get_pdu u p = Some q" "q_pdu q = Some pd"
    and t: "(if is_deliver_sm pd then do {
          r \<leftarrow> smpp_esme_find_best_receiver u (q_system_id q);
          let q = q\<lparr>q_callback := Some Cb_deliver_sm_resp\<rparr>;
          (case r of
             Some i \<Rightarrow> do {
               e \<leftarrow> get_esme u i;
               let k = e_sequence_number e;
               let s = put_esme i (e\<lparr>e_sequence_number := k + 1\<rparr>) u;
               let q = q\<lparr>q_pdu := Some (set_deliver_seq (int k) pd), q_sequence := int k, q_esme := Some i,
                          q_id := Some (show_nat k)\<rparr>;
               smpp_queues_add_outbound p (put_pdu p q s) }
           | None \<Rightarrow>
               (if c_database_enable_queue (s_cfg u) then
                  (let (ok, s) = smpp_database_add_pdu E u q in
                   run_pdu_callback E p (if ok then SMPP_ESME_COMMAND_STATUS_QUEUED else SMPP_ESME_COMMAND_STATUS_QUEUE_ERROR)
                     (put_pdu p q s))
                else run_pdu_callback E p SMPP_ESME_RDELIVERYFAILURE (put_pdu p q u))) }
        else Some u) = Some t"
    unfolding smpp_queues_simulation_thread_def Let_def if_P [OF True] bind_eq_Some_conv p_def [symmetric] u_def [symmetric] by blast
  show ?thesis
  proof (intro allI impI)
    fix P assume P: "hold P s"
    have "off P p" "hold P u" using simulation_off [OF P True] P by (simp_all add: p_def u_def)
    then show "hold P t"
      using t by (auto simp: bind_eq_Some_conv Let_def case_prod_beta split: if_split_asm option.split_asm dest!: hold_frame)
  qed
qed (use assms in \<open>simp add: smpp_queues_simulation_thread_def\<close>)

lemma hold_listener_pdu [hold_frame]: "listener_queue_pdu i p s = Some t \<Longrightarrow> \<forall>P. hold P s \<longrightarrow> hold P t"
  by (auto simp: listener_queue_pdu_def mild_def bind_eq_Some_conv Let_def case_prod_beta split: if_split_asm option.split_asm dest!: hold_frame)

lemma read_pdu_mild: "smpp_listener_read_pdu G eof e = (x, e') \<Longrightarrow> mild e e'"
  by (auto simp: smpp_listener_read_pdu_def mild_def split: if_split_asm prod.split_asm option.split_asm)

lemma hold_read_loop [hold_frame]: "listener_read_loop G eof n i s = Some (r, t) \<Longrightarrow> \<forall>P. hold P s \<longrightarrow> hold P t"
proof (induction n arbitrary: s)
  case (Suc n)
  then obtain e where e: "get_esme s i = Some e" by (auto simp: bind_eq_Some_conv)
  obtain x e' where x: "smpp_listener_read_pdu G eof e = (x, e')" by fastforce
  have put: "hold P s \<Longrightarrow> hold P (put_esme i e' s)" for P using hold_put_esme [OF e read_pdu_mild [OF x]] .
  show ?case
  proof (cases x)
    case (Read_pdu p)
    with Suc.prems e x obtain u where "listener_queue_pdu i p (put_esme i e' s) = Some u" "listener_read_loop G eof n i u = Some (r, t)"
      by (auto simp: bind_eq_Some_conv)
    with Suc.IH put show ?thesis by (auto dest!: hold_listener_pdu)
  qed (use Suc.prems e x put in auto)
qed simp

lemma hold_drop [hold_frame]: "listener_drop E i s = Some t \<Longrightarrow> \<forall>P. hold P s \<longrightarrow> hold P t"
  by (auto simp: listener_drop_def mild_def bind_eq_Some_conv Let_def case_prod_beta split: if_split_asm option.split_asm dest!: hold_frame)

lemma hold_event [hold_frame]:
  assumes "smpp_listener_event E i bytes eof fuel s = Some t"
  shows "\<forall>P. hold P s \<longrightarrow> hold P t"
proof -
  from assms obtain u r v where u: "upd_esme i (\<lambda>e. e\<lparr>e_inbuf := e_inbuf e @ bytes\<rparr>) s = Some u"
    "listener_read_loop (ev_gw E) eof fuel i u = Some (r, v)"
    and t: "(case r of
        Read_closed \<Rightarrow> listener_drop E i v
      | Read_invalid \<Rightarrow> do {
          s \<leftarrow> upd_esme i (\<lambda>e. e\<lparr>e_errors := e_errors e + 1\<rparr>) v;
          e \<leftarrow> get_esme s i;
          (if SMPP_ESME_MAX_CONSECUTIVE_ERRORS \<le> e_errors e then listener_drop E i s else Some s) }
      | _ \<Rightarrow> Some v) = Some t"
    unfolding smpp_listener_event_def by (auto simp: bind_eq_Some_conv)
  have "\<forall>P. hold P s \<longrightarrow> hold P v" using u by (auto simp: mild_def dest!: hold_frame)
  moreover have "\<forall>P. hold P v \<longrightarrow> hold P t" using t by (cases r) (auto simp: mild_def bind_eq_Some_conv split: if_split_asm dest!: hold_frame)
  ultimately show ?thesis by simp
qed

text \<open>A new connection has no entry and no open acknowledgement; its address was never used.\<close>

lemma hold_new_esme:
  assumes "hold P s" and "e_global e = None" and "e_open_acks e = []"
  shows "hold P (put_esme (s_esme_counter s) e (s\<lparr>s_esme_counter := Suc (s_esme_counter s)\<rparr>))"
proof -
  have "ran (dict_get (e_open_acks e)) = {}" using assms(3) by (simp add: dict_get_def [abs_def])
  then show ?thesis
    by (intro hold_keep [OF assms(1)])
      (use hold_closed [OF assms(1)] assms(2) in \<open>auto simp: put_esme_def get_esme_def get_pdu_def referenced_def globals_closed_def less_Suc_eq split: if_split_asm\<close>)
qed

lemma hold_accept [hold_frame]: "smpp_listener_connection_callback E ip s = (r, t) \<Longrightarrow> \<forall>P. hold P s \<longrightarrow> hold P t"
  by (auto simp: smpp_listener_connection_callback_def Let_def case_prod_beta smpp_esme_create_def split: if_split_asm intro!: hold_new_esme)

lemma hold_cleanup_bind [hold_frame]: "cleanup_bind E i s = Some (r, t) \<Longrightarrow> \<forall>P. hold P s \<longrightarrow> hold P t"
  by (auto simp: cleanup_bind_def mild_def bind_eq_Some_conv Let_def case_prod_beta split: if_split_asm option.split_asm dest!: hold_frame)

lemma hold_cleanup_binds [hold_frame]: "cleanup_binds E is s = Some (r, t) \<Longrightarrow> \<forall>P. hold P s \<longrightarrow> hold P t"
  by (induction "is" arbitrary: s r) (auto simp: mild_def bind_eq_Some_conv Let_def case_prod_beta split: if_split_asm option.split_asm dest!: hold_frame)

lemma hold_put_global [simp]: "hold P s \<Longrightarrow> hold P (s\<lparr>s_esmes := dict_put (s_esmes s) k g\<rparr>)"
  by (rule hold_keep [of P s]) (auto simp: get_esme_def get_pdu_def referenced_def globals_closed_def dest!: hold_closed)

lemma hold_cleanup_globals [hold_frame]: "cleanup_globals E ks s = Some t \<Longrightarrow> \<forall>P. hold P s \<longrightarrow> hold P t"
  by (induction ks arbitrary: s) (auto simp: mild_def bind_eq_Some_conv Let_def case_prod_beta split: if_split_asm option.split_asm dest!: hold_frame)

lemma hold_destroy_idle [hold_frame]: "destroy_idle E is s = Some (r, t) \<Longrightarrow> \<forall>P. hold P s \<longrightarrow> hold P t"
  by (induction "is" arbitrary: s r) (auto simp: mild_def bind_eq_Some_conv Let_def case_prod_beta split: if_split_asm option.split_asm dest!: hold_frame)

lemma hold_cleanup_thread [hold_frame]: "smpp_esme_cleanup_thread E s = Some t \<Longrightarrow> \<forall>P. hold P s \<longrightarrow> hold P t"
  by (auto simp: smpp_esme_cleanup_thread_def mild_def bind_eq_Some_conv Let_def case_prod_beta split: if_split_asm option.split_asm dest!: hold_frame)

lemma hold_send_unbind [hold_frame]: "send_unbind i s = Some t \<Longrightarrow> \<forall>P. hold P s \<longrightarrow> hold P t"
  by (auto simp: send_unbind_def mild_def bind_eq_Some_conv Let_def case_prod_beta split: if_split_asm option.split_asm dest!: hold_frame)

lemma hold_send_unbinds [hold_frame]: "send_unbinds is s = Some t \<Longrightarrow> \<forall>P. hold P s \<longrightarrow> hold P t"
  by (induction "is" arbitrary: s) (auto simp: mild_def bind_eq_Some_conv Let_def case_prod_beta split: if_split_asm option.split_asm dest!: hold_frame)

lemma hold_unbind_command [hold_frame]: "smpp_esme_unbind_command sid bid ct s = Some (r, t) \<Longrightarrow> \<forall>P. hold P s \<longrightarrow> hold P t"
  by (auto simp: smpp_esme_unbind_command_def mild_def bind_eq_Some_conv Let_def case_prod_beta split: if_split_asm option.split_asm dest!: hold_frame)

lemma hold_box_idle [hold_frame]: "box_idle E b s = Some t \<Longrightarrow> \<forall>P. hold P s \<longrightarrow> hold P t"
  by (auto simp: box_idle_def mild_def bind_eq_Some_conv Let_def case_prod_beta split: if_split_asm option.split_asm dest!: hold_frame)

lemma hold_box_broken [hold_frame]: "box_broken b s = Some t \<Longrightarrow> \<forall>P. hold P s \<longrightarrow> hold P t"
  by (auto simp: box_broken_def mild_def bind_eq_Some_conv Let_def case_prod_beta split: if_split_asm option.split_asm dest!: hold_frame)

lemma hold_receive_report [hold_frame]: "receive_report E b m s = Some t \<Longrightarrow> \<forall>P. hold P s \<longrightarrow> hold P t"
  by (auto simp: receive_report_def mild_def bind_eq_Some_conv Let_def case_prod_beta split: if_split_asm option.split_asm dest!: hold_frame)

lemma hold_requeue_mt [hold_frame]: "requeue_mt E dms s = Some t \<Longrightarrow> \<forall>P. hold P s \<longrightarrow> hold P t"
  by (induction dms arbitrary: s) (auto simp: mild_def bind_eq_Some_conv Let_def case_prod_beta split: if_split_asm option.split_asm dest!: hold_frame)

lemma hold_stored_pdus [hold_frame]: "stored_pdus E i d dm s = Some (r, t) \<Longrightarrow> \<forall>P. hold P s \<longrightarrow> hold P t"
  by (auto simp: stored_pdus_def mild_def bind_eq_Some_conv Let_def case_prod_beta split: if_split_asm option.split_asm dest!: hold_frame)

lemma hold_collect_stored [hold_frame]: "collect_stored E i d dms s = Some (r, t) \<Longrightarrow> \<forall>P. hold P s \<longrightarrow> hold P t"
  by (induction dms arbitrary: s r) (auto simp: mild_def bind_eq_Some_conv Let_def case_prod_beta split: if_split_asm option.split_asm dest!: hold_frame)

lemma hold_queued_for [hold_frame]: "queued_for E i s = Some (r, t) \<Longrightarrow> \<forall>P. hold P s \<longrightarrow> hold P t"
  by (auto simp: queued_for_def mild_def bind_eq_Some_conv Let_def case_prod_beta split: if_split_asm option.split_asm dest!: hold_frame)

lemma hold_queued_for_all [hold_frame]: "queued_for_all E is s = Some (r, t) \<Longrightarrow> \<forall>P. hold P s \<longrightarrow> hold P t"
  by (induction "is" arbitrary: s r) (auto simp: mild_def bind_eq_Some_conv Let_def case_prod_beta split: if_split_asm option.split_asm dest!: hold_frame)

lemma hold_requeue_delivery [hold_frame]: "requeue_delivery E q s = Some t \<Longrightarrow> \<forall>P. hold P s \<longrightarrow> hold P t"
  by (auto simp: requeue_delivery_def mild_def bind_eq_Some_conv Let_def case_prod_beta split: if_split_asm option.split_asm dest!: hold_frame)

lemma hold_requeue_deliveries [hold_frame]: "requeue_deliveries E qs s = Some t \<Longrightarrow> \<forall>P. hold P s \<longrightarrow> hold P t"
  by (induction qs arbitrary: s) (auto simp: mild_def bind_eq_Some_conv Let_def case_prod_beta split: if_split_asm option.split_asm dest!: hold_frame)

lemma hold_requeue_thread [hold_frame]: "smpp_queues_requeue_thread E s = Some t \<Longrightarrow> \<forall>P. hold P s \<longrightarrow> hold P t"
  by (auto simp: smpp_queues_requeue_thread_def smpp_esme_global_get_queued_def mild_def bind_eq_Some_conv Let_def case_prod_beta split: if_split_asm option.split_asm dest!: hold_frame)

end
