(* ===== verification/Ownership.thy ===== *)
theory Ownership
  imports Owed
begin

text \<open>
  The responses that are held: each response PDU of a submission that a router decides on, or that a
  bearerbox has the message of, is held once. The obligations of an operation under way are
  counted beside those in the state, so that handing a response from one party to the next, or
  answering with it, keeps the account balanced. Every step of the server keeps it.
\<close>

section \<open>Who holds what\<close>

definition msgs_held :: "bearerbox_msg list \<Rightarrow> (nat \<times> bool) multiset" where
  "msgs_held bms = mset (List.map_filter (bcb_owed \<circ> bm_callback) bms)"

definition box_held :: "(octstr, bearerbox_msg) dict option \<Rightarrow> (nat \<times> bool) multiset" where
  "box_held d = (case d of None \<Rightarrow> {#} | Some d \<Rightarrow> msgs_held (map snd d))"

definition routes_held :: "(route_callback \<times> sms) list \<Rightarrow> (nat \<times> bool) multiset" where
  "routes_held rs = mset (List.map_filter (rcb_owed \<circ> fst) rs)"

definition held :: "'d server \<Rightarrow> (nat \<times> bool) multiset" where
  "held s = routes_held (s_pending_routes s) + msgs_held (s_bb_queue s) + sum_list (map (box_held \<circ> bb_open_acks) (s_bearerboxes s))"

definition opt_held :: "(nat \<times> bool) option \<Rightarrow> (nat \<times> bool) multiset" where
  "opt_held x = (case x of None \<Rightarrow> {#} | Some y \<Rightarrow> {#y#})"

text \<open>No response is held twice.\<close>

definition once :: "(nat \<times> bool) multiset \<Rightarrow> bool" where
  "once M \<longleftrightarrow> (\<forall>p. count (image_mset fst M) p \<le> 1)"

text \<open>The obligations M of the operation under way and those in the state are among N, and none of N is there twice.\<close>

definition balanced :: "(nat \<times> bool) multiset \<Rightarrow> (nat \<times> bool) multiset \<Rightarrow> 'd server \<Rightarrow> bool" where
  "balanced N M s \<longleftrightarrow> once N \<and> M + held s \<subseteq># N \<and> hold (set_mset (M + held s)) s"

lemma held_simps [simp]:
  "msgs_held [] = {#}" "msgs_held (bm # bms) = opt_held (bcb_owed (bm_callback bm)) + msgs_held bms"
  "msgs_held (bms @ bms') = msgs_held bms + msgs_held bms'"
  "routes_held [] = {#}" "routes_held (r # rs) = opt_held (rcb_owed (fst r)) + routes_held rs"
  "routes_held (rs @ rs') = routes_held rs + routes_held rs'"
  "box_held None = {#}" "box_held (Some d) = msgs_held (map snd d)"
  "opt_held None = {#}" "opt_held (Some y) = {#y#}"
  by (auto simp: msgs_held_def routes_held_def box_held_def opt_held_def map_filter_append List.map_filter_simps split: option.splits)

lemma held_core: "core t = core s \<Longrightarrow> held t = held s"
  by (simp add: core_def trunk_def held_def flip: map_map)

lemma once_sub:
  assumes "once N" and "M \<subseteq># N"
  shows "once M"
  unfolding once_def
proof
  fix p
  have "count (image_mset fst M) p \<le> count (image_mset fst N) p"
    using image_mset_subseteq_mono [OF assms(2), of fst] by (rule mset_subset_eq_count)
  also have "\<dots> \<le> 1" using assms(1) by (simp add: once_def)
  finally show "count (image_mset fst M) p \<le> 1" .
qed

lemma once_off: "once (add_mset x M) \<Longrightarrow> off (set_mset M) (fst x)"
  unfolding once_def off_def by (drule spec [of _ "fst x"]) (auto simp: count_eq_zero_iff)

lemma hold_sub: "hold Q s \<Longrightarrow> P \<subseteq> Q \<Longrightarrow> hold P s"
  by (auto simp: hold_def)

lemma balanced_once: "balanced N M s \<Longrightarrow> once (M + held s)"
  using once_sub by (auto simp: balanced_def)

lemma balanced_hold: "balanced N M s \<Longrightarrow> hold (set_mset (M + held s)) s"
  by (simp add: balanced_def)

lemma balanced_sub:
  assumes "balanced N M' s" and "M \<subseteq># M'"
  shows "balanced N M s"
proof -
  have "M + held s \<subseteq># M' + held s" using assms(2) by simp
  then show ?thesis using assms(1) hold_sub set_mset_mono subset_mset.order_trans unfolding balanced_def by metis
qed

text \<open>An operation that leaves the core alone and keeps what is held.\<close>

lemma balanced_core:
  assumes "core t = core s" and "\<forall>P. hold P s \<longrightarrow> hold P t" and "balanced N M s"
  shows "balanced N M t"
  using assms(2,3) by (simp add: balanced_def held_core [OF assms(1)])

text \<open>An operation that settles one obligation by queueing its answer.\<close>

lemma balanced_settle:
  assumes "core t = core s" and "\<forall>P. off_opt P x \<longrightarrow> hold P s \<longrightarrow> hold P t" and "balanced N (M + opt_held x) s"
  shows "balanced N M t"
proof -
  have b: "balanced N M s" using balanced_sub [OF assms(3), of M] by simp
  have "off_opt (set_mset (M + held s)) x"
    using balanced_once [OF assms(3)] once_off [of _ "M + held s"] by (auto simp: off_opt_def split: option.splits)
  with b show ?thesis using assms(2) by (simp add: balanced_def held_core [OF assms(1)])
qed

section \<open>The queue to the bearerboxes\<close>

lemma balanced_bb_callback:
  "run_bb_callback E cb st s = Some t \<Longrightarrow> balanced N (M + opt_held (bcb_owed cb)) s \<Longrightarrow> balanced N M t"
  by (rule balanced_settle [OF core_bb_callback hold_bb_callback])

text \<open>An answer ends with an entry for the response in the outbound queue.\<close>

definition queued :: "nat \<Rightarrow> 'd server \<Rightarrow> bool" where
  "queued p s \<longleftrightarrow> p \<in> fst ` set (s_outbound_queue s)"

lemma add_outbound_queued: "smpp_queues_add_outbound p s = Some t \<Longrightarrow> queued p t"
  by (auto simp: smpp_queues_add_outbound_def bind_eq_Some_conv queued_def)

lemma bb_callback_queued: "run_bb_callback E cb st s = Some t \<Longrightarrow> bcb_owed cb = Some x \<Longrightarrow> queued (fst x) t"
  by (cases cb) (auto simp: run_bb_callback_def bcb_owed_def smpp_queues_callback_submit_sm_def smpp_queues_callback_data_sm_def
      callback_response_def bind_eq_Some_conv dest: add_outbound_queued)

lemma add_to_queue_cases:
  assumes "smpp_bearerbox_add_to_queue E bm s = Some t"
  shows "t = s\<lparr>s_bb_queue := s_bb_queue s @ [bm]\<rparr> \<or> core t = core s \<and> (\<forall>x. bcb_owed (bm_callback bm) = Some x \<longrightarrow> queued (fst x) t)"
  using assms by (auto simp: smpp_bearerbox_add_to_queue_def Let_def case_prod_beta split: if_split_asm dest: core_bb_callback bb_callback_queued)

lemma balanced_queued: "balanced N (M + opt_held (bcb_owed (bm_callback bm))) s \<Longrightarrow> balanced N M (s\<lparr>s_bb_queue := s_bb_queue s @ [bm]\<rparr>)"
  by (simp add: balanced_def held_def ac_simps)

lemma balanced_add_to_queue:
  assumes "smpp_bearerbox_add_to_queue E bm s = Some t" and "balanced N (M + opt_held (bcb_owed (bm_callback bm))) s"
  shows "balanced N M t"
  using add_to_queue_cases [OF assms(1)]
proof
  assume "core t = core s \<and> (\<forall>x. bcb_owed (bm_callback bm) = Some x \<longrightarrow> queued (fst x) t)"
  then show ?thesis using balanced_settle [OF _ hold_add_to_queue [OF assms(1)] assms(2)] by blast
qed (use balanced_queued [OF assms(2)] in simp)

section \<open>Submissions after routing\<close>

lemma once_kind: "once (add_mset (p, k) M) \<Longrightarrow> (p, k') \<notin># M"
  using once_off [of "(p, k)" M] by (force simp: off_def)

lemma hold_insert: "hold (insert (p, k) P) s \<longleftrightarrow> owed p k s \<and> hold P s"
  by (auto simp: hold_def)

lemma balanced_put:
  assumes "balanced N (add_mset (p, k) M) s" and "unanswered k q s"
  shows "balanced N (add_mset (p, k) M) (put_pdu p q s)"
proof -
  let ?t = "put_pdu p q s"
  have b: "once (add_mset (p, k) (M + held s))" "owed p k s" "hold (set_mset (M + held s)) s"
    using balanced_once [OF assms(1)] balanced_hold [OF assms(1)] by (auto simp: hold_insert)
  have "off (set_mset (M + held s)) p" using once_off [OF b(1)] by simp
  then have "hold (set_mset (M + held s)) ?t" using b(3) by (rule hold_put_pdu)
  moreover have "unanswered k q ?t" "referenced ?t p = referenced s p" "s_next_pdu ?t = s_next_pdu s"
    using assms(2) by (simp_all add: unanswered_def referenced_def put_pdu_def get_esme_def)
  then have "owed p k ?t" using b(2) by (simp add: owed_def)
  moreover have "held ?t = held s" by (rule held_core) simp
  ultimately show ?thesis using assms(1) by (simp add: balanced_def hold_insert)
qed

lemma resp_callback_kind: "resp_callback p (owed_response k seq mid) = Some cb \<Longrightarrow> bcb_owed cb = Some (p, k)"
  by (auto simp: resp_callback_def owed_response_def bcb_owed_def split: if_split_asm)

lemma set_id_owed: "set_resp_message_id mid (owed_response k seq mid0) = owed_response k seq (if k then mid else mid0)"
  by (simp add: owed_response_def set_resp_message_id_def)

lemma unanswered_with_id: "unanswered k q s \<Longrightarrow> q_pdu q = Some resp \<Longrightarrow> unanswered k (q\<lparr>q_pdu := Some (set_resp_message_id mid resp), q_msg := mp\<rparr>) s"
  by (auto simp: unanswered_def set_id_owed) blast+

lemma forward_cases:
  assumes "forward_submission E p q i m s = Some t"
  obtains (answered) "core t = core s" "queued p t"
  | (forwarded) resp mid bm where "q_pdu q = Some resp" "resp_callback p resp = Some (bm_callback bm)"
      "t = (put_pdu p (q\<lparr>q_pdu := Some (set_resp_message_id mid resp), q_msg := Msg_lent\<rparr>) s)\<lparr>s_bb_queue := s_bb_queue s @ [bm]\<rparr>"
proof -
  from assms obtain e g resp cb where g: "get_global s i = Some g" and q: "q_pdu q = Some resp" and cb: "resp_callback p resp = Some cb"
    and t: "(let submit = is_submit_sm_resp resp;
         q = q\<lparr>q_pdu := Some (set_resp_message_id (Some (gw_uuid_unparse (ev_gw E) (sms_id m))) resp)\<rparr>;
         m = (if submit then smpp_queues_msg_set_dlr_url (ev_gw E) (ev_now E) e m else m) in
     (if g_database_store_primary g then
        (let (ok, s) = smpp_database_add_message E s m in
         run_bb_callback E cb (if ok then 0 else SMPP_ESME_RSYSERR) (put_pdu p (q\<lparr>q_msg := Msg_null\<rparr>) s))
      else smpp_bearerbox_add_message E m cb (put_pdu p (q\<lparr>q_msg := Msg_lent\<rparr>) s))) = Some t"
    unfolding forward_submission_def bind_eq_Some_conv by blast
  have owed: "\<exists>k. bcb_owed cb = Some (p, k)"
    using cb by (auto simp: resp_callback_def bcb_owed_def split: pdu.split_asm)
  show thesis
  proof (cases "g_database_store_primary g")
    case True
    then obtain v st where v: "run_bb_callback E cb st v = Some t" "core v = core s"
      using t by (auto simp: Let_def case_prod_beta)
    then show thesis using owed core_bb_callback [OF v(1)] bb_callback_queued [OF v(1)] by (intro answered) auto
  next
    case False
    let ?u = "put_pdu p (q\<lparr>q_pdu := Some (set_resp_message_id (Some (gw_uuid_unparse (ev_gw E) (sms_id m))) resp), q_msg := Msg_lent\<rparr>) s"
    from False t obtain m' where "smpp_bearerbox_add_to_queue E (smpp_bearerbox_msg_create (ev_gw E) m' cb) ?u = Some t"
      by (auto simp: Let_def smpp_bearerbox_add_message_def)
    from add_to_queue_cases [OF this] show thesis
    proof
      assume "t = ?u\<lparr>s_bb_queue := s_bb_queue ?u @ [smpp_bearerbox_msg_create (ev_gw E) m' cb]\<rparr>"
      then show thesis using q cb by (intro forwarded [of resp "smpp_bearerbox_msg_create (ev_gw E) m' cb"]) (auto simp: smpp_bearerbox_msg_create_def)
    qed (use owed in \<open>auto simp: smpp_bearerbox_msg_create_def intro: answered\<close>)
  qed
qed

lemma balanced_forward:
  assumes "forward_submission E p q i m s = Some t" and "unanswered k q s" and "balanced N (add_mset (p, k) M) s"
  shows "balanced N M t"
  using assms(1)
proof (cases rule: forward_cases)
  case answered
  then show ?thesis using balanced_settle [of t s "Some (p, k)" N M] hold_forward [OF assms(1)] assms(3) by (simp add: off_opt_def)
next
  case (forwarded resp mid bm)
  have "bcb_owed (bm_callback bm) = Some (p, k)"
    using assms(2) forwarded(1,2) by (auto simp: unanswered_def intro: resp_callback_kind)
  then show ?thesis
    using balanced_queued [of N M bm, OF _] balanced_put [OF assms(3) unanswered_with_id [OF assms(2) forwarded(1)], of Msg_lent mid] unfolding forwarded(3)
    by (metis add_mset_add_single held_simps(10) put_pdu_frame(2))
qed

lemma balanced_reject:
  assumes "reject_submission p q i st s = Some t" and "balanced N (add_mset (p, k) M) s"
  shows "balanced N M t"
  using balanced_settle [OF core_reject [OF assms(1)], of "Some (p, k)" N M] hold_reject [OF assms(1)] assms(2) by (simp add: off_opt_def)

lemma charge_pdus: "charge E i c s = Some (paid, t) \<Longrightarrow> get_pdu t = get_pdu s"
  using undisturbed_pdu [OF undisturbed_db [OF database_frames(11)]]
  by (fastforce simp: charge_def bind_eq_Some_conv split: if_split_asm dest: arg_cong [of _ _ snd])

lemma upd_esme_pdus: "upd_esme i f s = Some t \<Longrightarrow> get_pdu t = get_pdu s"
  by (auto simp: upd_esme_def bind_eq_Some_conv put_esme_def get_pdu_def)

lemma submission_done_cases:
  assumes "submission_routing_done E p rs s = Some t"
  obtains q i m st v where "get_pdu s p = Some q" "get_pdu v = get_pdu s" "core v = core s" "\<forall>P. hold P s \<longrightarrow> hold P v"
    "reject_submission p q i st v = Some t \<or> forward_submission E p q i m v = Some t"
proof -
  from assms obtain q i u m and e :: esme where q: "get_pdu s p = Some q"
    and u: "upd_esme i (\<lambda>e. e\<lparr>e_pending_routing := e_pending_routing e - 1\<rparr>) s = Some u"
    and t: "(if rs_status rs = SMPP_ESME_ROK then do {
        (paid, s) \<leftarrow> charge E i (real (rs_parts rs) * rs_cost rs) u;
        (if paid then forward_submission E p q i m s else reject_submission p q i SMPP_ESME_RSUBMITFAIL s) }
      else if 0 < octstr_len (smsc_id m) then do {
        (paid, s) \<leftarrow> charge E i (real (rs_parts rs) * e_default_cost e) u;
        (if paid then forward_submission E p q i m s else reject_submission p q i SMPP_ESME_RSUBMITFAIL s) }
      else reject_submission p q i (rs_status rs) u) = Some t"
    unfolding submission_routing_done_def bind_eq_Some_conv by blast
  have U: "get_pdu u = get_pdu s" "core u = core s" "\<forall>P. hold P s \<longrightarrow> hold P u"
    using u by (auto simp: mild_def upd_esme_pdus dest: core_upd_esme hold_upd_esme)
  have "\<exists>v st. (v = u \<or> (\<exists>c paid. charge E i c u = Some (paid, v)))
      \<and> (reject_submission p q i st v = Some t \<or> forward_submission E p q i m v = Some t)"
    using t by (auto simp: bind_eq_Some_conv split: if_split_asm)
  then show thesis
    using U that [OF q] charge_pdus core_charge hold_charge by metis
qed

lemma balanced_submission_done:
  assumes "submission_routing_done E p rs s = Some t" and "balanced N (add_mset (p, k) M) s"
  shows "balanced N M t"
  using assms(1)
proof (cases rule: submission_done_cases)
  case (1 q i m st v)
  have b: "balanced N (add_mset (p, k) M) v" using balanced_core [OF 1(3,4) assms(2)] .
  then have "owed p k v" by (auto simp: balanced_def hold_insert)
  then have "unanswered k q v" using 1(1,2) by (auto simp: owed_def)
  then show ?thesis using 1(5) b balanced_reject balanced_forward by blast
qed

section \<open>Routing\<close>

lemma balanced_route_answer:
  assumes "route_answer E cb m rs s = Some t" and "balanced N (M + opt_held (rcb_owed cb)) s"
  shows "balanced N M t"
proof (cases "rcb_owed cb")
  case None
  then have "(\<exists>b m. smpp_bearerbox_routing_done E b m rs s = Some t) \<or> (\<exists>dm. smpp_bearerbox_requeue_routing_done E dm rs s = Some t)"
    using assms(1) by (cases cb) (auto simp: rcb_owed_def route_answer_def set_callback_msg_def run_route_callback_def)
  then show ?thesis
  proof (elim disjE exE)
    fix b m' assume a: "smpp_bearerbox_routing_done E b m' rs s = Some t"
    show ?thesis using assms(2) None by (intro balanced_core [OF core_bearerbox_done [OF a] hold_bearerbox_done [OF a]]) simp
  next
    fix dm assume a: "smpp_bearerbox_requeue_routing_done E dm rs s = Some t"
    show ?thesis using assms(2) None by (intro balanced_core [OF core_requeue_done [OF a] hold_requeue_done [OF a]]) simp
  qed
next
  case (Some x)
  obtain p k where x: "x = (p, k)" by fastforce
  with Some assms(1) obtain q where q: "get_pdu s p = Some q" "submission_routing_done E p rs (put_pdu p (q\<lparr>q_msg := Msg_own m\<rparr>) s) = Some t"
    by (cases cb) (auto simp: rcb_owed_def route_answer_def set_callback_msg_def run_route_callback_def smpp_queues_submit_routing_done_def
        smpp_queues_data_sm_routing_done_def bind_eq_Some_conv)
  have b: "balanced N (add_mset (p, k) M) s" using assms(2) Some x by simp
  then have "owed p k s" by (simp add: balanced_def hold_insert)
  then have "unanswered k (q\<lparr>q_msg := Msg_own m\<rparr>) s" using q(1) by (auto simp: owed_def unanswered_def)
  then show ?thesis using balanced_submission_done [OF q(2) balanced_put [OF b]] by blast
qed

text \<open>A message that is handed to the router: it answers at once, or holds the response; without a router the response is lost.\<close>

lemma balanced_route_message:
  assumes "smpp_route_message E d smsc sid m cb s = Some t" and "balanced N (M + opt_held (rcb_owed cb)) s"
  shows "balanced N M t"
proof (cases "s_routing_method s = Route_database")
  case True
  obtain rs m' u where u: "route_database E d smsc sid m s = (rs, m', u)" by (metis prod_cases3)
  with True assms(1) have a: "route_answer E cb m' rs u = Some t" by (simp add: smpp_route_message_def smpp_route_message_database_def)
  have "balanced N (M + opt_held (rcb_owed cb)) u" by (rule balanced_core [OF core_route_database [OF u] hold_route_database [OF u] assms(2)])
  with a show ?thesis by (rule balanced_route_answer)
next
  case False
  have "balanced N M s" using balanced_sub [OF assms(2)] by simp
  moreover have "balanced N M (s\<lparr>s_pending_routes := s_pending_routes s @ [(cb, m)]\<rparr>)"
    using assms(2) by (simp add: balanced_def held_def ac_simps)
  ultimately show ?thesis using False assms(1) by (auto simp: smpp_route_message_def split: routing_method.split_asm)
qed

text \<open>A PDU something refers to has an address that was given out.\<close>

lemma referenced_allocated:
  assumes "server_inv D s" and "referenced s p"
  shows "p < s_next_pdu s"
proof -
  have ok: "pdus_ok s" "simulation_ok s" using assms(1) by (simp_all add: server_inv_def)
  have "p \<in> set (s_simulation_queue s) \<or> (\<exists>i. claim s p i)"
    using assms(2) by (force simp: referenced_def claim_def queue_claims_def ack_claim_def ran_def)
  then show ?thesis using ok by (auto simp: pdus_ok_def simulation_ok_def)
qed

lemma global_entry: "get_global s i \<noteq> None \<Longrightarrow> \<exists>e. get_esme s i = Some e \<and> e_global e \<noteq> None"
  by (auto simp: get_global_def bind_eq_Some_conv)

lemma upd_esme_other: "upd_esme i f s = Some t \<Longrightarrow> get_esme t j = (if j = i then map_option f (get_esme s i) else get_esme s j)"
  by (auto simp: upd_esme_def bind_eq_Some_conv)

lemma fresh_off: "hold P s \<Longrightarrow> off P (s_next_pdu s)"
  by (force simp: off_def hold_def owed_def)

lemma once_fresh: "hold (set_mset N) s \<Longrightarrow> once N \<Longrightarrow> once (add_mset (s_next_pdu s, k) N)"
  using fresh_off [of "set_mset N" s] by (auto simp: once_def off_def count_eq_zero_iff)

lemma balanced_route_submission:
  assumes "route_submission E i resp cb m s = Some t" and "balanced (held s) {#} s" and "get_global s i \<noteq> None" and "server_inv D s"
    and resp: "\<And>mid. resp mid = owed_response k seq (Some mid)" and cb: "\<And>r. rcb_owed (cb r i) = Some (r, k)"
  shows "balanced (add_mset (s_next_pdu s, k) (held s)) {#} t"
proof -
  let ?r = "s_next_pdu s" and ?N = "add_mset (s_next_pdu s, k) (held s)"
  obtain e where e: "get_esme s i = Some e" "e_global e \<noteq> None" using global_entry [OF assms(3)] by blast
  have b: "once (held s)" "hold (set_mset (held s)) s" using assms(2) by (simp_all add: balanced_def)
  define q where "q m' = (smpp_queued_pdu_create_quick i e (resp (gw_uuid_unparse (ev_gw E) (sms_id m'))))\<lparr>q_msg := Msg_own m'\<rparr>" for m'
  from assms(1) e(1) obtain u m' where u: "upd_esme i (\<lambda>e. e\<lparr>e_pending_routing := e_pending_routing e + 1\<rparr>) (snd (alloc_pdu (q m') s)) = Some u"
    and t: "smpp_route_message E SMPP_ROUTE_DIRECTION_OUTBOUND None (e_system_id e) m' (cb (fst (alloc_pdu (q m') s)) i) u = Some t"
    unfolding route_submission_def q_def Let_def case_prod_beta by (auto simp: bind_eq_Some_conv)
  let ?a = "snd (alloc_pdu (q m') s)"
  have r: "fst (alloc_pdu (q m') s) = ?r" by (simp add: alloc_pdu_def)
  have un: "unanswered k (q m') s"
    using e hold_closed [OF b(2)] by (auto simp: unanswered_def q_def resp smpp_queued_pdu_create_quick_def smpp_queued_pdu_create_def globals_closed_def)
  have "\<not> referenced s ?r" using referenced_allocated [OF assms(4)] by fastforce
  then have "owed ?r k ?a" using un
    by (auto simp: owed_def r get_pdu_alloc) (auto simp: alloc_pdu_def put_pdu_def unanswered_def referenced_def get_esme_def)
  moreover have "held ?a = held s" by (rule held_core) simp
  ultimately have "balanced ?N {#(?r, k)#} ?a"
    using once_fresh [OF b(2,1)] hold_alloc(1) [OF b(2)] by (simp add: balanced_def hold_insert)
  then have "balanced ?N {#(?r, k)#} u"
    using u by (intro balanced_core [of u ?a]) (auto simp: mild_def dest: core_upd_esme hold_upd_esme)
  then show ?thesis using balanced_route_message [OF t, of ?N "{#}"] by (simp add: cb r)
qed

section \<open>The handlers of submissions\<close>

text \<open>Between operations no response is held by anyone but the router and the bearerboxes.\<close>

definition owned :: "'d server \<Rightarrow> bool" where
  "owned s \<longleftrightarrow> balanced (held s) {#} s"

lemma owned_iff: "owned s \<longleftrightarrow> once (held s) \<and> hold (set_mset (held s)) s"
  by (simp add: owned_def balanced_def)

lemma balanced_owned: "balanced N {#} s \<Longrightarrow> owned s"
  using once_sub by (auto simp: balanced_def owned_iff)

lemma owned_core: "core t = core s \<Longrightarrow> \<forall>P. hold P s \<longrightarrow> hold P t \<Longrightarrow> owned s \<Longrightarrow> owned t"
  unfolding owned_def [of s] by (rule balanced_owned [OF balanced_core])

lemma inbound_load_global: "smpp_esme_inbound_load_increase E i s = Some t \<Longrightarrow> get_global t i \<noteq> None"
  by (auto simp: smpp_esme_inbound_load_increase_def upd_global_def get_global_def get_esme_def bind_eq_Some_conv)

lemma inv_fresh: "server_inv D s \<Longrightarrow> server_inv D (snd (fresh_uuid s))"
  using calm_inv calm_frame(2) by (fastforce simp: fresh_uuid_def)

text \<open>A PDU that is freed is not held.\<close>

lemma owned_destroy:
  assumes "smpp_queued_pdu_destroy p u = Some t" and "balanced N {#} u" and "off (set_mset N) p"
  shows "owned t"
proof (rule balanced_owned)
  have "set_mset (held u) \<subseteq> set_mset N" using assms(2) by (simp add: balanced_def set_mset_mono)
  then have "off (set_mset (held u)) p" using assms(3) by (auto simp: off_def)
  then show "balanced N {#} t"
    using assms(2) hold_destroy [OF assms(1)] held_core [OF core_destroy_pdu [OF assms(1)]] by (simp add: balanced_def)
qed

text \<open>What a handler does once it has accepted the load; the PDU of the submission is freed at the end.\<close>

lemma owned_converted:
  assumes "smpp_esme_inbound_load_increase E i s = Some v" and "owned s" and "server_inv D s" and p: "off (set_mset (held s)) p" "get_pdu s p \<noteq> None"
    and u: "(case c of Inl reason \<Rightarrow> respond i (f reason) (snd (fresh_uuid v))
        | Inr m \<Rightarrow> route_submission E i resp cb m (snd (fresh_uuid v))) = Some u"
    and d: "smpp_queued_pdu_destroy p u = Some t"
    and kind: "\<And>mid. resp mid = owed_response k seq (Some mid)" "\<And>r. rcb_owed (cb r i) = Some (r, k)"
  shows "owned t"
proof -
  let ?v = "snd (fresh_uuid v)"
  have core: "core ?v = core s" using core_inbound_load [OF assms(1)] by simp
  have "\<forall>P. hold P s \<longrightarrow> hold P ?v" using hold_inbound_load [OF assms(1)] by simp
  then have b: "balanced (held ?v) {#} ?v" using owned_core [OF core _ assms(2)] by (simp add: owned_def)
  have inv: "server_inv D ?v" using calm_inv [OF calm_inbound_load [OF assms(1)] assms(3)] by (rule inv_fresh)
  have next_pdu: "s_next_pdu ?v = s_next_pdu s" using calm_inbound_load [OF assms(1)] by (simp add: calm_def fresh_uuid_def)
  have held: "held ?v = held s" by (rule held_core [OF core])
  show ?thesis
  proof (cases c)
    case (Inl reason)
    with u have "respond i (f reason) ?v = Some u" by simp
    then have "balanced (held s) {#} u" using balanced_core [OF core_respond hold_respond] b held by metis
    then show ?thesis by (rule owned_destroy [OF d _ p(1)])
  next
    case (Inr m)
    have g: "get_global ?v i \<noteq> None" using inbound_load_global [OF assms(1)] by (simp add: fresh_uuid_def get_global_def get_esme_def)
    from Inr u have "route_submission E i resp cb m ?v = Some u" by simp
    from balanced_route_submission [OF this b g inv kind]
    have "balanced (add_mset (s_next_pdu s, k) (held s)) {#} u" by (simp add: held next_pdu)
    moreover have "p \<noteq> s_next_pdu s" using p(2) assms(3) by (auto simp: server_inv_def pdus_ok_def)
    then have "off (set_mset (add_mset (s_next_pdu s, k) (held s))) p" using p(1) by (auto simp: off_def)
    ultimately show ?thesis by (rule owned_destroy [OF d])
  qed
qed

lemma owned_answered:
  assumes "core u = core s" and "\<forall>P. hold P s \<longrightarrow> hold P u" and "owned s" and "off (set_mset (held s)) p" and "smpp_queued_pdu_destroy p u = Some t"
  shows "owned t"
  using owned_destroy [OF assms(5) balanced_core [OF assms(1,2)]] assms(3,4) by (simp add: owned_def)

lemma owned_submit:
  assumes "smpp_queues_handle_submit_sm E p i seq b s = Some t" and "owned s" and "server_inv D s" and "off (set_mset (held s)) p" and "get_pdu s p \<noteq> None"
  shows "owned t"
  using assms(1)
proof (cases rule: submit_cases)
  case (1 u)
  then show ?thesis using owned_answered [OF core_respond hold_respond assms(2,4)] by blast
next
  case (2 u v c)
  show ?thesis
  proof (cases "simulate_submit E i seq b v = Some u")
    case True
    have "core u = core s" using core_simulate_submit [OF True] core_inbound_load [OF 2(2)] by simp
    moreover have "\<forall>P. hold P s \<longrightarrow> hold P u" using hold_simulate_submit [OF True] hold_inbound_load [OF 2(2)] by simp
    ultimately show ?thesis using owned_answered assms(2,4) 2(1) by blast
  next
    case False
    with 2(3) have c: "(case c of Inl reason \<Rightarrow> respond i (Submit_sm_resp seq reason None) (snd (fresh_uuid v))
        | Inr m \<Rightarrow> route_submission E i (\<lambda>mid. Submit_sm_resp seq SMPP_ESME_ROK (Some mid)) RCb_submit_sm m (snd (fresh_uuid v))) = Some u" by simp
    show ?thesis by (rule owned_converted [OF 2(2) assms(2-5) c 2(1), of True seq]) (simp_all add: owed_response_def rcb_owed_def)
  qed
qed

lemma owned_data:
  assumes "smpp_queues_handle_data_sm E p i seq b s = Some t" and "owned s" and "server_inv D s" and "off (set_mset (held s)) p" and "get_pdu s p \<noteq> None"
  shows "owned t"
  using assms(1)
proof (cases rule: data_cases)
  case (1 u)
  then show ?thesis using owned_answered [OF core_respond hold_respond assms(2,4)] by blast
next
  case (2 u v c)
  show ?thesis by (rule owned_converted [OF 2(2) assms(2-5) 2(3) 2(1), of False seq]) (simp_all add: owed_response_def rcb_owed_def)
qed

text \<open>An operation that frees or queues a PDU nobody holds.\<close>

lemma owned_off:
  assumes "core t = core s" and "\<forall>P. off P p \<longrightarrow> hold P s \<longrightarrow> hold P t" and "owned s" and "off (set_mset (held s)) p"
  shows "owned t"
  using assms(2-4) by (simp add: owned_iff held_core [OF assms(1)])

lemma owned_dispatch:
  assumes "dispatch_inbound E p i pd s = Some t" and "owned s" and "server_inv D s" and "off (set_mset (held s)) p" and "get_pdu s p \<noteq> None"
  shows "owned t"
proof -
  consider (submit) n b where "smpp_queues_handle_submit_sm E p i n b s = Some t" | (data) n b where "smpp_queues_handle_data_sm E p i n b s = Some t"
    | (other) "core t = core s" "\<forall>P. off P p \<longrightarrow> hold P s \<longrightarrow> hold P t"
  proof (cases "(\<exists>n b. smpp_queues_handle_submit_sm E p i n b s = Some t) \<or> (\<exists>n b. smpp_queues_handle_data_sm E p i n b s = Some t)")
    case False
    have "core t = core s"
      using assms(1) False by (cases pd) (auto simp: dispatch_inbound_def bind_eq_Some_conv dest!: core_frame)
    moreover have "\<forall>P. off P p \<longrightarrow> hold P s \<longrightarrow> hold P t"
      using assms(1) False by (cases pd) (auto simp: dispatch_inbound_def bind_eq_Some_conv dest!: hold_frame)
    ultimately show thesis by (rule other)
  qed (use submit data in blast)
  then show ?thesis using owned_submit owned_data owned_off assms(2-5) by cases blast+
qed

lemma owned_inbound:
  assumes "smpp_queues_inbound_thread E n s = Some t" and "owned s" and "server_inv D s"
  shows "owned t"
proof (cases "n < length (s_inbound_queue s)")
  case True
  show ?thesis
    using assms(1,3) True
  proof (cases rule: inbound_entry)
    case (1 p i q pd e u)
    have "hold P u" if "hold P s" for P
      using that unfolding 1(6) by (intro hold_put_esme [where e = e]) (use 1(5) in \<open>auto simp: mild_def get_esme_def\<close>)
    moreover have core: "core u = core s" by (simp add: 1(6))
    ultimately have u: "owned u" using owned_core [of u s] assms(2) by simp
    have "off (set_mset (held s)) p" using inbound_off [OF _ True] assms(2) 1(1) by (auto simp: owned_iff)
    then have "off (set_mset (held u)) p" by (simp add: held_core [OF core])
    moreover have "get_pdu u p \<noteq> None" using 1(2) by (simp add: 1(6)) (simp add: get_pdu_def)
    ultimately show ?thesis using owned_dispatch [OF 1(8) u 1(7)] by simp
  qed
qed (use assms in \<open>simp add: smpp_queues_inbound_thread_def\<close>)

section \<open>Connections to the bearerboxes\<close>

lemma owned_held:
  assumes "held t = held s" and "\<forall>P. hold P s \<longrightarrow> hold P t" and "owned s"
  shows "owned t"
  using assms(2,3) by (simp add: owned_iff assms(1))

lemma mset_update_sub: "mset (map g (AList.update k v d)) \<subseteq># add_mset (g (k, v)) (mset (map g d))"
  by (induction d) (auto simp: add_mset_commute intro: subset_mset.order_trans)

lemma msgs_held_mset: "msgs_held bms = \<Sum>\<^sub># (image_mset (opt_held \<circ> bcb_owed \<circ> bm_callback) (mset bms))"
  by (induction bms) auto

lemma sum_mset_mono_sub: "A \<subseteq># B \<Longrightarrow> \<Sum>\<^sub># A \<subseteq># \<Sum>\<^sub># B"
  by (metis mset_subset_eq_add_left subset_mset.add_diff_inverse sum_mset.union)

lemma msgs_held_put: "msgs_held (map snd (dict_put d k bm)) \<subseteq># opt_held (bcb_owed (bm_callback bm)) + msgs_held (map snd d)"
proof (induction d)
  case (Cons x d)
  then show ?case by (cases x) (auto simp: dict_put_def ac_simps intro: subset_mset.add_left_mono mset_subset_eq_add_left)
qed (simp add: dict_put_def)

lemma msgs_held_remove: "dict_get d (k :: octstr) = Some bm \<Longrightarrow> opt_held (bcb_owed (bm_callback bm)) + msgs_held (map snd (dict_remove d k)) \<subseteq># msgs_held (map snd d)"
  and msgs_held_untrack: "msgs_held (map snd (dict_remove d k)) \<subseteq># msgs_held (map snd d)"
proof -
  show *: "msgs_held (map snd (dict_remove d k)) \<subseteq># msgs_held (map snd d)" for d :: "(octstr, bearerbox_msg) dict"
  proof (induction d)
    case (Cons x d)
    then show ?case by (cases x) (auto simp: dict_remove_def intro: subset_mset.order_trans)
  qed (simp add: dict_remove_def)
  show "dict_get d k = Some bm \<Longrightarrow> opt_held (bcb_owed (bm_callback bm)) + msgs_held (map snd (dict_remove d k)) \<subseteq># msgs_held (map snd d)"
  proof (induction d)
    case (Cons x d)
    then show ?case using * [of d] by (cases x) (auto simp: dict_remove_def dict_get_def ac_simps split: if_split_asm intro: subset_mset.add_left_mono)
  qed (simp add: dict_get_def)
qed

lemma sum_list_update: "b < length xs \<Longrightarrow> sum_list (map f (xs[b := x])) + f (xs ! b) = sum_list (map f xs) + (f x :: 'a multiset)"
  by (induction xs arbitrary: b) (auto simp: nth_Cons' ac_simps split: nat.split)

text \<open>What is held when a bearerbox changes: the obligations taken from it and given to it.\<close>

lemma held_upd_box:
  assumes "upd_box b f s = Some t" and "get_box s b = Some x" and "box_held (bb_open_acks (f x)) + M' \<subseteq># box_held (bb_open_acks x) + M"
    and "balanced N M s"
  shows "balanced N M' t"
proof -
  have b: "b < length (s_bearerboxes s)" "s_bearerboxes s ! b = x" and t: "t = s\<lparr>s_bearerboxes := (s_bearerboxes s)[b := f x]\<rparr>"
    using assms(1,2) by (auto simp: upd_box_def get_box_def bind_eq_Some_conv split: if_split_asm)
  let ?R = "routes_held (s_pending_routes s) + msgs_held (s_bb_queue s)"
  have "held t + box_held (bb_open_acks x) = held s + box_held (bb_open_acks (f x))"
    using sum_list_update [OF b(1), of "box_held \<circ> bb_open_acks" "f x"] b(2) by (simp add: held_def t ac_simps)
  then have "M' + (held t + box_held (bb_open_acks x)) = M' + (held s + box_held (bb_open_acks (f x)))" by simp
  then have "(M' + held t) + box_held (bb_open_acks x) = (box_held (bb_open_acks (f x)) + M') + held s" by (simp add: ac_simps)
  also have "\<dots> \<subseteq># (box_held (bb_open_acks x) + M) + held s" using assms(3) by (rule subset_mset.add_right_mono)
  also have "\<dots> = (M + held s) + box_held (bb_open_acks x)" by (simp add: ac_simps)
  finally have sub: "M' + held t \<subseteq># M + held s" by simp
  have "hold (set_mset (M + held s)) t" using balanced_hold [OF assms(4)] by (simp add: t)
  then have "hold (set_mset (M' + held t)) t" using hold_sub set_mset_mono [OF sub] by blast
  moreover have "once N" "M + held s \<subseteq># N" using assms(4) by (simp_all add: balanced_def)
  ultimately show ?thesis using subset_mset.order_trans [OF sub] by (simp add: balanced_def)
qed

section \<open>Threads of the bearerboxes\<close>

lemma balanced_any: "balanced N M s \<Longrightarrow> get_box s b = Some x \<Longrightarrow> upd_box b f s = Some t \<Longrightarrow> bb_open_acks (f x) = bb_open_acks x \<Longrightarrow> balanced N M t"
  by (rule held_upd_box [of b f s t x]) simp_all

lemma msgs_held_take: "n < length bms \<Longrightarrow> msgs_held (take n bms @ drop (Suc n) bms) + opt_held (bcb_owed (bm_callback (bms ! n))) = msgs_held bms"
  by (subst (3) id_take_nth_drop [of n bms]) (simp_all add: ac_simps)

text \<open>What a round of the sending thread does with the message it takes.\<close>

lemma box_send_cases:
  assumes "smpp_bearerbox_outbound_thread E b n s = Some t"
  obtains (idle) "t = s"
  | (sent) x u bm bm' l where "get_box s b = Some x" "get_box (u\<lparr>s_bb_sent := l\<rparr>) b = Some x" "bm \<in> set (s_bb_queue s)"
      "held s = opt_held (bcb_owed (bm_callback bm)) + held u" "u = s\<lparr>s_bb_queue := s_bb_queue u\<rparr>"
      "bm_callback bm' = bm_callback bm" "bm_id bm' = bm_id bm" "upd_box b (box_track bm') (u\<lparr>s_bb_sent := l\<rparr>) = Some t"
  | (failed) x u bm bm' v where "get_box s b = Some x" "get_box u b = Some x" "bm \<in> set (s_bb_queue s)"
      "held s = opt_held (bcb_owed (bm_callback bm)) + held u" "u = s\<lparr>s_bb_queue := s_bb_queue u\<rparr>"
      "bm_callback bm' = bm_callback bm" "bm_id bm' = bm_id bm"
      "upd_box b (\<lambda>x. (box_untrack (bm_id bm') x)\<lparr>bb_alive := False\<rparr>) u = Some v" "smpp_bearerbox_add_to_queue E bm' v = Some t"
  | (offline) u bm where "held s = opt_held (bcb_owed (bm_callback bm)) + held u" "u = s\<lparr>s_bb_queue := s_bb_queue u\<rparr>"
      "smpp_bearerbox_add_to_queue E bm u = Some t"
proof -
  obtain x where x: "get_box s b = Some x" using assms by (auto simp: smpp_bearerbox_outbound_thread_def bind_eq_Some_conv)
  show thesis
  proof (cases "smpp_bearerbox_online x \<and> n < length (s_bb_queue s)")
    case True
    define bm where "bm = s_bb_queue s ! n"
    define bm' where "bm' = bm\<lparr>bm_msg := (bm_msg bm)\<lparr>boxc_id := bb_id x\<rparr>\<rparr>"
    define u where "u = s\<lparr>s_bb_queue := take n (s_bb_queue s) @ drop (Suc n) (s_bb_queue s)\<rparr>"
    have u: "held s = opt_held (bcb_owed (bm_callback bm)) + held u" "u = s\<lparr>s_bb_queue := s_bb_queue u\<rparr>" "bm \<in> set (s_bb_queue s)"
      using msgs_held_take [of n "s_bb_queue s"] True by (simp_all add: held_def u_def bm_def ac_simps)
    have ux: "get_box (u\<lparr>s_bb_sent := l\<rparr>) b = Some x" "get_box u b = Some x" for l using x by (simp_all add: u_def get_box_def split: if_split_asm)
    have cb: "bm_callback bm' = bm_callback bm" "bm_id bm' = bm_id bm" by (simp_all add: bm'_def)
    have "(if bb_connection x then
            (if ev_bb_write E b then
              upd_box b (box_track bm') (u\<lparr>s_bb_sent := s_bb_sent u @ [(b, Msg_sms (bm_msg bm'))]\<rparr>)
            else do {
              s \<leftarrow> upd_box b (\<lambda>x. (box_untrack (bm_id bm') x)\<lparr>bb_alive := False\<rparr>) u;
              smpp_bearerbox_add_to_queue E bm' s })
         else smpp_bearerbox_add_to_queue E bm u) = Some t"
      using assms x True unfolding smpp_bearerbox_outbound_thread_def Let_def u_def bm_def bm'_def by simp
    then consider "upd_box b (box_track bm') (u\<lparr>s_bb_sent := s_bb_sent u @ [(b, Msg_sms (bm_msg bm'))]\<rparr>) = Some t"
      | v where "upd_box b (\<lambda>x. (box_untrack (bm_id bm') x)\<lparr>bb_alive := False\<rparr>) u = Some v" "smpp_bearerbox_add_to_queue E bm' v = Some t"
      | "smpp_bearerbox_add_to_queue E bm u = Some t"
      by (auto simp: bind_eq_Some_conv split: if_split_asm)
    then show thesis using sent [OF x ux(1) u(3,1,2) cb] failed [OF x ux(2) u(3,1,2) cb] offline [OF u(1,2)] by cases blast+
  qed (use assms x idle in \<open>auto simp: smpp_bearerbox_outbound_thread_def\<close>)
qed

lemma owned_taken:
  assumes "owned s" and "held s = opt_held y + held u" and "u = s\<lparr>s_bb_queue := s_bb_queue u\<rparr>"
  shows "balanced (held s) (opt_held y) u"
proof -
  have "hold P u = hold P s" for P by (subst assms(3)) simp
  then show ?thesis using assms(1,2) by (simp add: owned_iff balanced_def)
qed

lemma owned_box_send:
  assumes "smpp_bearerbox_outbound_thread E b n s = Some t" and "owned s"
  shows "owned t"
  using assms(1)
proof (cases rule: box_send_cases)
  case (sent x u bm bm' l)
  have "box_held (bb_open_acks (box_track bm' x)) + {#} \<subseteq># box_held (bb_open_acks x) + opt_held (bcb_owed (bm_callback bm))"
    using msgs_held_put [of _ "bm_id bm'" bm'] by (cases "bb_open_acks x") (simp_all add: box_track_def sent(6,7) ac_simps)
  from sent(8,2) this have "balanced (held s) {#} t"
    by (rule held_upd_box) (rule balanced_core [OF _ _ owned_taken [OF assms(2) sent(4,5)]]; simp)
  then show ?thesis by (rule balanced_owned)
next
  case (failed x u bm bm' v)
  let ?h = "opt_held (bcb_owed (bm_callback bm))"
  have "box_held (bb_open_acks ((box_untrack (bm_id bm') x)\<lparr>bb_alive := False\<rparr>)) + ?h \<subseteq># box_held (bb_open_acks x) + ?h"
    by (cases "bb_open_acks x") (simp_all add: box_untrack_def msgs_held_untrack)
  from held_upd_box [OF failed(8,2) this owned_taken [OF assms(2) failed(4,5)]] have "balanced (held s) {#} t"
    using balanced_add_to_queue [OF failed(9)] by (simp add: failed(6))
  then show ?thesis by (rule balanced_owned)
next
  case (offline u bm)
  have "balanced (held s) {#} t" using balanced_add_to_queue [OF offline(3)] owned_taken [OF assms(2) offline(1,2)] by fastforce
  then show ?thesis by (rule balanced_owned)
qed (use assms(2) in simp)

lemma owned_receive_ack:
  assumes "receive_ack E b u nack s = Some t" and "owned s"
  shows "owned t"
proof -
  let ?k = "gw_uuid_unparse (ev_gw E) u"
  from assms(1) obtain x d where x: "get_box s b = Some x" "bb_open_acks x = Some d"
    and t: "(case dict_get d ?k of None \<Rightarrow> Some s
      | Some bm \<Rightarrow> do { s \<leftarrow> upd_box b (box_untrack ?k) s; run_bb_callback E (bm_callback bm) (nack_status nack) s }) = Some t"
    by (auto simp: receive_ack_def bind_eq_Some_conv Let_def)
  show ?thesis
  proof (cases "dict_get d ?k")
    case (Some bm)
    with t obtain v where v: "upd_box b (box_untrack ?k) s = Some v" "run_bb_callback E (bm_callback bm) (nack_status nack) v = Some t"
      by (auto simp: bind_eq_Some_conv)
    have "balanced (held s) (opt_held (bcb_owed (bm_callback bm))) v"
      using held_upd_box [OF v(1) x(1), of "opt_held (bcb_owed (bm_callback bm))" "{#}" "held s"] msgs_held_remove [OF Some] assms(2) x(2)
      by (simp add: owned_def box_untrack_def ac_simps)
    then show ?thesis using balanced_owned [OF balanced_bb_callback [OF v(2)]] by simp
  qed (use t assms(2) in simp)
qed

lemma balanced_fail_acks: "fail_open_acks E bms s = Some t \<Longrightarrow> balanced N (M + msgs_held bms) s \<Longrightarrow> balanced N M t"
proof (induction bms arbitrary: s)
  case (Cons bm bms)
  then obtain u where u: "run_bb_callback E (bm_callback bm) SMPP_ESME_RSYSERR s = Some u" "fail_open_acks E bms u = Some t"
    by (auto simp: bind_eq_Some_conv)
  have "balanced N (M + msgs_held bms) u" using balanced_bb_callback [OF u(1)] Cons.prems(2) by (simp add: ac_simps)
  then show ?case using Cons.IH [OF u(2)] by simp
qed simp

lemma owned_reconnect:
  assumes "box_reconnect E b ok s = Some t" and "owned s"
  shows "owned t"
proof -
  from assms(1) obtain x where x: "get_box s b = Some x" and c: "(if smpp_bearerbox_online x then Some s
      else do {
        s \<leftarrow> upd_box b (\<lambda>x. x\<lparr>bb_open_acks := Some []\<rparr>) s;
        s \<leftarrow> fail_open_acks E (case bb_open_acks x of None \<Rightarrow> [] | Some d \<Rightarrow> map snd d) s;
        s \<leftarrow> upd_box b (\<lambda>x. x\<lparr>bb_connection := ok\<rparr>) s;
        (if ok then do {
           (ok, s) \<leftarrow> smpp_bearerbox_identify E b s;
           (if ok then upd_box b (smpp_bearerbox_set_state True) s else Some s) }
         else Some s) }) = Some t"
    unfolding box_reconnect_def bind_eq_Some_conv by blast
  show ?thesis
  proof (cases "smpp_bearerbox_online x")
    case False
    let ?bms = "case bb_open_acks x of None \<Rightarrow> [] | Some d \<Rightarrow> map snd d"
    from False c obtain u v w where u: "upd_box b (\<lambda>x. x\<lparr>bb_open_acks := Some []\<rparr>) s = Some u"
      and v: "fail_open_acks E ?bms u = Some v"
      and w: "upd_box b (\<lambda>x. x\<lparr>bb_connection := ok\<rparr>) v = Some w"
      and t: "(if ok then do {
           (ok, s) \<leftarrow> smpp_bearerbox_identify E b w;
           (if ok then upd_box b (smpp_bearerbox_set_state True) s else Some s) }
         else Some w) = Some t"
      unfolding if_not_P [OF False] bind_eq_Some_conv by blast
    have "balanced (held s) (msgs_held ?bms) u"
      using held_upd_box [OF u x, of "msgs_held ?bms" "{#}" "held s"] assms(2) by (simp add: owned_def split: option.splits)
    then have "owned v" using balanced_owned [OF balanced_fail_acks [OF v]] by simp
    moreover have "core w = core v" "core t = core w"
      using w t by (auto simp: bind_eq_Some_conv split: if_split_asm dest!: core_upd_box core_identify)
    moreover have "\<forall>P. hold P v \<longrightarrow> hold P w" using hold_upd_box [OF w] .
    moreover have "\<forall>P. hold P w \<longrightarrow> hold P t"
      using t by (auto simp: smpp_bearerbox_identify_def bind_eq_Some_conv split: if_split_asm dest!: hold_upd_box)
    ultimately show ?thesis using owned_core by blast
  qed (use c assms(2) in simp)
qed

section \<open>Messages that come back\<close>

lemma owned_route_message:
  assumes "smpp_route_message E d smsc sid m cb s = Some t" and "rcb_owed cb = None" and "owned s"
  shows "owned t"
  using balanced_owned [OF balanced_route_message [OF assms(1)]] assms(2,3) by (fastforce simp: owned_def)

lemma owned_box_inbound:
  assumes "smpp_bearerbox_inbound_thread E b msg s = Some t" and "owned s"
  shows "owned t"
proof -
  consider (ack) u nack where "receive_ack E b u nack s = Some t"
    | (routed) m where "smpp_route_message E SMPP_ROUTE_DIRECTION_INBOUND (smsc_id m) None m (RCb_bearerbox b m) s = Some t"
    | (other) "core t = core s" "\<forall>P. hold P s \<longrightarrow> hold P t"
  proof (cases "(\<exists>u nack. receive_ack E b u nack s = Some t)
      \<or> (\<exists>m. smpp_route_message E SMPP_ROUTE_DIRECTION_INBOUND (smsc_id m) None m (RCb_bearerbox b m) s = Some t)")
    case False
    have "core t = core s"
      using assms(1) False by (cases msg) (auto simp: smpp_bearerbox_inbound_thread_def split: if_split_asm dest!: core_frame core_upd_box)
    moreover have "\<forall>P. hold P s \<longrightarrow> hold P t"
      using assms(1) False by (cases msg) (auto simp: smpp_bearerbox_inbound_thread_def split: if_split_asm dest!: hold_frame)
    ultimately show thesis by (rule other)
  qed (use ack routed in blast)
  then show ?thesis
  proof cases
    case ack
    then show ?thesis using assms(2) by (rule owned_receive_ack)
  next
    case routed
    then show ?thesis by (rule owned_route_message) (simp_all add: rcb_owed_def assms(2))
  next
    case other
    then show ?thesis using assms(2) by (rule owned_core)
  qed
qed

lemma owned_requeue_mo: "requeue_mo E dms s = Some t \<Longrightarrow> owned s \<Longrightarrow> owned t"
proof (induction dms arbitrary: s)
  case (Cons dm dms)
  then obtain m u where u: "(if sms_type m = mo
          then smpp_route_message E SMPP_ROUTE_DIRECTION_INBOUND (smsc_id m) None m (RCb_requeue dm) s
          else Some (snd (smpp_database_remove E s (dm_global_id dm) False))) = Some u" "requeue_mo E dms u = Some t"
    unfolding requeue_mo.simps bind_eq_Some_conv by blast
  have "owned u"
  proof (cases "sms_type m = mo")
    case True
    with u(1) have "smpp_route_message E SMPP_ROUTE_DIRECTION_INBOUND (smsc_id m) None m (RCb_requeue dm) s = Some u" by simp
    then show ?thesis by (rule owned_route_message) (simp_all add: rcb_owed_def Cons.prems(2))
  next
    case False
    with u(1) have "u = snd (smpp_database_remove E s (dm_global_id dm) False)" by simp
    then show ?thesis using owned_core [of u s] Cons.prems(2) by simp
  qed
  then show ?case using Cons.IH u(2) by blast
qed simp

lemma owned_requeue_mt: "requeue_mt E dms s = Some t \<Longrightarrow> owned s \<Longrightarrow> owned t"
proof (induction dms arbitrary: s)
  case (Cons dm dms)
  then obtain m u where t: "requeue_mt E dms u = Some t"
    and u: "u = (if sms_type m = mt_push
        then s\<lparr>s_bb_queue := s_bb_queue s @ [smpp_bearerbox_msg_create (ev_gw E) m (BCb_requeue_result dm)]\<rparr>
        else snd (smpp_database_remove E s (dm_global_id dm) False))"
    by (auto simp: bind_eq_Some_conv)
  have "held u = held s"
  proof (cases "sms_type m = mt_push")
    case False
    show ?thesis by (rule held_core) (simp add: u False)
  qed (simp add: u held_def smpp_bearerbox_msg_create_def bcb_owed_def)
  then have "owned u" using owned_held [of u s] Cons.prems(2) by (simp add: u)
  then show ?case using Cons.IH t by blast
qed simp

lemma owned_bb_requeue:
  assumes "smpp_bearerbox_requeue_thread E s = Some t" and "owned s"
  shows "owned t"
proof -
  from assms(1) obtain u where u: "(if some_bearerbox_online s \<and> (\<not> c_database_store_primary (s_cfg s) \<or> c_database_enable_queue (s_cfg s))
          then (let (stored, s) = smpp_database_get_bearerbox_mt_stored E s mt_push None 0 in requeue_mt E stored s)
          else Some s) = Some u"
    and t: "(if some_bearerbox_online s \<or> c_database_store_primary (s_cfg u)
      then (let (stored, s) = smpp_database_get_stored E u mo None 0 in requeue_mo E stored s)
      else Some u) = Some t"
    unfolding smpp_bearerbox_requeue_thread_def Let_def bind_eq_Some_conv by blast
  have db: "owned (snd (smpp_database_get_bearerbox_mt_stored E v ty svc lmt))" "owned (snd (smpp_database_get_stored E v ty svc lmt))"
    if "owned v" for v :: "'a server" and ty svc lmt
    by (rule owned_core [OF _ _ that]; simp)+
  have "owned u" using u assms(2) owned_requeue_mt [OF _ db(1)] by (auto simp: case_prod_beta split: if_split_asm)
  then show ?thesis using t owned_requeue_mo [OF _ db(2)] by (auto simp: case_prod_beta split: if_split_asm)
qed

section \<open>Steps\<close>

lemma hold_rebuild: "hold P (smpp_route_rebuild E s) = hold P s"
  by (simp add: smpp_route_rebuild_def smpp_route_rebuild_database_def)

lemma owned_step:
  assumes "server_step s t" and "owned s" and "server_inv {} s"
  shows "owned t"
  using assms(1)
proof cases
  case (inbound n E)
  then show ?thesis using owned_inbound assms(2,3) by blast
next
  case (router xs cb m ys E m' rs)
  have "balanced (held s) (opt_held (rcb_owed cb)) (s\<lparr>s_pending_routes := xs @ ys\<rparr>)"
    using assms(2) router(1) by (simp add: owned_iff balanced_def held_def ac_simps)
  then show ?thesis using balanced_owned [OF balanced_route_answer [OF router(2)]] by simp
next
  case (rebuild E)
  then show ?thesis using owned_core [OF core_rebuild] hold_rebuild assms(2) by blast
next
  case accept
  then show ?thesis using owned_core [OF core_accept hold_accept assms(2)] by blast
next
  case read
  then show ?thesis using owned_core [OF core_event hold_event assms(2)] by blast
next
  case outbound
  then show ?thesis using owned_core [OF core_outbound hold_outbound assms(2)] by blast
next
  case simulation
  then show ?thesis using owned_core [OF core_simulation hold_simulation assms(2)] by blast
next
  case requeue
  then show ?thesis using owned_core [OF core_requeue_thread hold_requeue_thread assms(2)] by blast
next
  case cleanup
  then show ?thesis using owned_core [OF core_cleanup_thread hold_cleanup_thread assms(2)] by blast
next
  case box_timeout
  then show ?thesis using owned_core [OF core_box_idle hold_box_idle assms(2)] by blast
next
  case box_lost
  then show ?thesis using owned_core [OF core_box_broken hold_box_broken assms(2)] by blast
next
  case unbind
  then show ?thesis using owned_core [OF core_unbind_command hold_unbind_command assms(2)] by blast
next
  case box_send
  then show ?thesis using owned_box_send [OF _ assms(2)] by blast
next
  case box_connect
  then show ?thesis using owned_reconnect [OF _ assms(2)] by blast
next
  case box_receive
  then show ?thesis using owned_box_inbound [OF _ assms(2)] by blast
next
  case box_requeue
  then show ?thesis using owned_bb_requeue [OF _ assms(2)] by blast
qed

lemma owned_init:
  assumes "server_init s"
  shows "owned s"
proof -
  obtain c boxes m d where s: "s = initial_server c boxes m d" and b: "\<forall>x \<in> set boxes. bb_open_acks x \<in> {None, Some []}"
    using assms by (auto simp: server_init_def)
  have "sum_list (map (box_held \<circ> bb_open_acks) boxes) = {#}" using b by (induction boxes) auto
  then show ?thesis by (simp add: owned_iff s held_def initial_server_def once_def hold_def globals_closed_def get_esme_def)
qed

interpretation owner: state_machine server_init server_step "\<lambda>s. server_inv {} s \<and> owned s"
  by unfold_locales (auto intro: initial_inv server_step_inv owned_init owned_step)

lemmas reachable_owned = owner.reachable_inv [THEN conjunct2]

end
