(* ===== verification/Settlement.thy ===== *)
theory Settlement
  imports Ownership Delivery Faults
begin

text \<open>
  What the account of the responses gives in every reachable state: who holds the response of a
  submission, what an acknowledgement of a bearerbox does, and what the loss of a connection does,
  with no assumption about the message or its response.
\<close>

section \<open>The response of a submission that is held\<close>

text \<open>The response to a submit_sm (True) or a data_sm.\<close>

definition response :: "bool \<Rightarrow> int \<Rightarrow> command_status \<Rightarrow> octstr option \<Rightarrow> pdu" where
  "response submit seq st mid = (if submit then Submit_sm_resp seq st mid else Data_sm_resp seq st mid)"

text \<open>The PDU at r is the response to a submission of the ESME i that has not been answered.\<close>

definition expected :: "'d server \<Rightarrow> nat \<Rightarrow> bool \<Rightarrow> nat \<Rightarrow> int \<Rightarrow> octstr option \<Rightarrow> bool" where
  "expected s r k i seq mid \<longleftrightarrow> (\<exists>q. get_pdu s r = Some q \<and> q_pdu q = Some (response k seq SMPP_ESME_ROK mid) \<and> q_esme q = Some i \<and> q_callback q = None)"

lemma owed_response_alt: "owed_response k seq mid = response k seq SMPP_ESME_ROK mid"
  by (simp add: owed_response_def response_def)

lemma reachable_owed:
  assumes "server_init s0" and "server_step\<^sup>*\<^sup>* s0 s" and "(r, k) \<in># held s"
  shows "owed r k s" and "globals_closed s"
  using reachable_owned [OF assms(1,2)] assms(3) by (auto simp: owned_iff hold_def)

lemma reachable_expected:
  assumes "server_init s0" and "server_step\<^sup>*\<^sup>* s0 s" and "(r, k) \<in># held s"
  obtains i seq mid where "expected s r k i seq mid" "get_global s i = None \<longleftrightarrow> get_esme s i = None"
proof -
  obtain q seq mid i where q: "get_pdu s r = Some q" "q_pdu q = Some (response k seq SMPP_ESME_ROK mid)" "q_esme q = Some i" "q_callback q = None"
    "\<forall>e. get_esme s i = Some e \<longrightarrow> e_global e \<noteq> None"
    using reachable_owed(1) [OF assms] by (auto simp: owed_def unanswered_def owed_response_alt)
  have "get_global s i = None \<longleftrightarrow> get_esme s i = None"
    using q(5) reachable_owed(2) [OF assms] by (cases "get_esme s i") (auto simp: get_global_def globals_closed_def)
  with q show thesis using that by (auto simp: expected_def)
qed

lemma expected_unique: "expected s r k i seq mid \<Longrightarrow> expected s r k' i' seq' mid' \<Longrightarrow> k' = k \<and> i' = i \<and> seq' = seq \<and> mid' = mid"
  by (auto simp: expected_def response_def split: if_split_asm)

lemma in_sum_list: "x \<in># sum_list (map f ys) \<longleftrightarrow> (\<exists>y \<in> set ys. x \<in># f y)"
  by (induction ys) auto

lemma open_ack_held:
  assumes "b < length (s_bearerboxes s)" and "bb_open_acks (s_bearerboxes s ! b) = Some d" and "bm \<in> snd ` set d" and "bcb_owed (bm_callback bm) = Some x"
  shows "x \<in># held s"
proof -
  obtain ys zs where "map snd d = ys @ bm # zs" using assms(3) by (metis image_set in_set_conv_decomp)
  then have "x \<in># box_held (bb_open_acks (s_bearerboxes s ! b))" using assms(2,4) by simp
  then show ?thesis using assms(1) by (auto simp: held_def in_sum_list)
qed

section \<open>The callback of a bearerbox\<close>

lemma owed_callback:
  assumes "bcb_owed cb = Some (r, k)"
  shows "run_bb_callback E cb st s = callback_response r st s"
  using assms by (auto simp: bcb_owed_def run_bb_callback_def smpp_queues_callback_submit_sm_def smpp_queues_callback_data_sm_def split: bb_callback.splits)

lemma expected_answers:
  assumes "expected s r k i seq mid" and "get_global s i \<noteq> None"
  shows "\<exists>s'. callback_response r st s = Some s' \<and> answered i r (response k seq st (if st = SMPP_ESME_ROK then mid else None)) s s'"
proof -
  obtain q where q: "get_pdu s r = Some q" "q_pdu q = Some (response k seq SMPP_ESME_ROK mid)" "q_esme q = Some i" "q_callback q = None"
    using assms(1) by (auto simp: expected_def)
  show ?thesis
    using submit.answers [OF q(1) _ assms(2), of seq mid st] data.answers [OF q(1) _ assms(2), of seq mid st] q(2-4)
    by (cases k) (simp_all add: submit.waiting_def data.waiting_def response_def submit.answer_def data.answer_def)
qed

lemma freed_faults:
  assumes "expected s r k i seq mid" and "get_esme s i = None"
  shows "callback_response r st s = None"
  using assms by (auto simp: expected_def callback_response_def count_traffic_def upd_esme_def)

section \<open>The loss of a connection\<close>

text \<open>The responses due for the messages, each with its kind.\<close>

definition due :: "bearerbox_msg list \<Rightarrow> (nat \<times> bool) list" where
  "due bms = List.map_filter (bcb_owed \<circ> bm_callback) bms"

definition addressee :: "'d server \<Rightarrow> nat \<Rightarrow> nat" where
  "addressee s r = the (q_esme (the (get_pdu s r)))"

text \<open>The responses in the list are queued, in its order, for the ESMEs that expect them, with the code for a system error; no other PDU changes.\<close>

definition all_failed :: "(nat \<times> bool) list \<Rightarrow> 'd server \<Rightarrow> 'd server \<Rightarrow> bool" where
  "all_failed rs s t \<longleftrightarrow> s_outbound_queue t = s_outbound_queue s @ map (\<lambda>(r, k). (r, addressee s r)) rs
     \<and> (\<forall>(r, k) \<in> set rs. \<exists>i seq mid q. expected s r k i seq mid \<and> get_pdu t r = Some q \<and> q_pdu q = Some (response k seq SMPP_ESME_RSYSERR None) \<and> q_esme q = Some i)
     \<and> (\<forall>p. p \<notin> fst ` set rs \<longrightarrow> get_pdu t p = get_pdu s p)"

definition awaited :: "'d server \<Rightarrow> nat \<times> bool \<Rightarrow> bool" where
  "awaited s x \<longleftrightarrow> (\<exists>i seq mid. expected s (fst x) (snd x) i seq mid \<and> get_global s i \<noteq> None)"

lemma sum_list_member: "b < length xs \<Longrightarrow> f (xs ! b) \<subseteq># sum_list (map f xs)"
  by (induction xs arbitrary: b) (auto simp: nth_Cons' intro: subset_mset.add_increasing)

lemma once_distinct: "once (mset xs) \<Longrightarrow> distinct (map fst xs)"
proof (induction xs)
  case (Cons x xs)
  then have "once (mset xs)" using once_sub [of "mset (x # xs)" "mset xs"] by simp
  then show ?case using Cons once_off [of x "mset xs"] by (auto simp: off_def)
qed simp

lemma due_Cons: "due (bm # bms) = (case bcb_owed (bm_callback bm) of None \<Rightarrow> due bms | Some x \<Rightarrow> x # due bms)"
  by (simp add: due_def List.map_filter_simps split: option.split)

lemma all_failed_before:
  assumes "get_pdu t = get_pdu s" and "s_outbound_queue t = s_outbound_queue s" and "all_failed rs t u"
  shows "all_failed rs s u"
  using assms by (simp add: all_failed_def addressee_def expected_def)

lemma all_failed_after:
  assumes "all_failed rs s t" and "get_pdu u = get_pdu t" and "s_outbound_queue u = s_outbound_queue t"
  shows "all_failed rs s u"
  using assms by (simp add: all_failed_def)

lemma all_failed_step:
  assumes "answered i r (response k seq SMPP_ESME_RSYSERR None) s u" and "expected s r k i seq mid" and "all_failed rs u t" and "r \<notin> fst ` set rs"
  shows "all_failed ((r, k) # rs) s t"
proof -
  have other: "get_pdu u p = get_pdu s p" if "p \<noteq> r" for p using assms(1) that by (simp add: answered_def)
  have "addressee s r = i" using assms(2) by (auto simp: addressee_def expected_def)
  moreover have "map (\<lambda>(p, k). (p, addressee u p)) rs = map (\<lambda>(p, k). (p, addressee s p)) rs"
    using assms(4) other by (auto simp: addressee_def image_iff)
  ultimately have "s_outbound_queue t = s_outbound_queue s @ map (\<lambda>(p, k). (p, addressee s p)) ((r, k) # rs)"
    using assms(1,3) by (simp add: all_failed_def answered_def)
  moreover have "expected u p l j n mid' = expected s p l j n mid'" if "p \<noteq> r" for p l j n mid'
    using other [OF that] by (simp add: expected_def)
  then have "\<exists>i seq mid q. expected s p l i seq mid \<and> get_pdu t p = Some q \<and> q_pdu q = Some (response l seq SMPP_ESME_RSYSERR None) \<and> q_esme q = Some i"
    if "(p, l) \<in> set rs" for p l
    using that assms(3,4) by (fastforce simp: all_failed_def)
  moreover have "\<exists>i seq mid q. expected s r k i seq mid \<and> get_pdu t r = Some q \<and> q_pdu q = Some (response k seq SMPP_ESME_RSYSERR None) \<and> q_esme q = Some i"
    using assms by (auto simp: all_failed_def answered_def)
  ultimately show ?thesis using assms(3) other by (auto simp: all_failed_def)
qed

lemma fail_open_acks_all:
  assumes "\<forall>x \<in> set (due bms). awaited s x" and "distinct (map fst (due bms))"
  shows "\<exists>t. fail_open_acks E bms s = Some t \<and> all_failed (due bms) s t \<and> s_bearerboxes t = s_bearerboxes s"
  using assms
proof (induction bms arbitrary: s)
  case Nil
  then show ?case by (simp add: due_def all_failed_def List.map_filter_simps)
next
  case (Cons bm bms)
  show ?case
  proof (cases "bcb_owed (bm_callback bm)")
    case None
    then obtain dm where dm: "bm_callback bm = BCb_requeue_result dm" by (auto simp: bcb_owed_def split: bb_callback.splits)
    define u where "u = smpp_bearerbox_requeue_result E dm SMPP_ESME_RSYSERR s"
    have u: "u = s" by (simp add: u_def smpp_bearerbox_requeue_result_def)
    have "run_bb_callback E (bm_callback bm) SMPP_ESME_RSYSERR s = Some s" using u by (simp add: dm run_bb_callback_def u_def)
    then show ?thesis using Cons.IH [of s] Cons.prems None by (simp add: due_Cons)
  next
    case (Some x)
    obtain r k where x: "x = (r, k)" by fastforce
    have d: "due (bm # bms) = (r, k) # due bms" using Some x by (simp add: due_Cons)
    from Cons.prems(1) d obtain i seq mid where e: "expected s r k i seq mid" "get_global s i \<noteq> None" by (auto simp: awaited_def)
    obtain u where u: "callback_response r SMPP_ESME_RSYSERR s = Some u" "answered i r (response k seq SMPP_ESME_RSYSERR None) s u"
      using expected_answers [OF e, of SMPP_ESME_RSYSERR] by auto
    obtain q where q: "get_pdu s r = Some q" "q_callback q = None" using e(1) by (auto simp: expected_def)
    note keep = answer_keeps_globals [OF u(1) q]
    have "awaited u y" if "y \<in> set (due bms)" for y
    proof -
      obtain p l where y: "y = (p, l)" by fastforce
      have "p \<noteq> r" using Cons.prems(2) that y d by (auto simp: image_iff)
      then have "get_pdu u p = get_pdu s p" using u(2) by (simp add: answered_def)
      then show ?thesis using Cons.prems(1) that d y keep by (fastforce simp: awaited_def expected_def)
    qed
    moreover have r: "r \<notin> fst ` set (due bms)" and "distinct (map fst (due bms))" using Cons.prems(2) d by auto
    ultimately obtain t where t: "fail_open_acks E bms u = Some t" "all_failed (due bms) u t" "s_bearerboxes t = s_bearerboxes u"
      using Cons.IH by blast
    have "run_bb_callback E (bm_callback bm) SMPP_ESME_RSYSERR s = Some u"
      using owed_callback [of "bm_callback bm" r k E SMPP_ESME_RSYSERR s] Some x u(1) by simp
    moreover have "all_failed (due (bm # bms)) s t" unfolding d using u(2) e(1) t(2) r by (rule all_failed_step)
    moreover have "s_bearerboxes t = s_bearerboxes s" using t(3) keep e(2) by simp
    ultimately show ?thesis using t(1) by simp
  qed
qed

text \<open>The connection attempt after the outstanding messages were failed.\<close>

lemma reconnect_rest:
  assumes "b < length (s_bearerboxes s)" and "\<not> bb_alive (s_bearerboxes s ! b)" and "bb_open_acks (s_bearerboxes s ! b) = Some d"
    and "\<And>s1. boxes_only s s1 \<Longrightarrow> \<exists>s2. fail_open_acks E (map snd d) s1 = Some s2 \<and> all_failed rs s1 s2 \<and> s_bearerboxes s2 = s_bearerboxes s1"
  shows "\<exists>s'. box_reconnect E b conn_ok s = Some s' \<and> all_failed rs s s' \<and> bb_open_acks (s_bearerboxes s' ! b) = Some []"
proof -
  obtain s1 where s1: "upd_box b (\<lambda>x. x\<lparr>bb_open_acks := Some []\<rparr>) s = Some s1" "boxes_only s s1" "length (s_bearerboxes s1) = length (s_bearerboxes s)"
      "bb_open_acks (s_bearerboxes s1 ! b) = Some []"
    using boxes_only_upd_box [OF assms(1), of "\<lambda>x. x\<lparr>bb_open_acks := Some []\<rparr>"] by auto
  obtain s2 where s2: "fail_open_acks E (map snd d) s1 = Some s2" "all_failed rs s1 s2" "s_bearerboxes s2 = s_bearerboxes s1"
    using assms(4) [OF s1(2)] by blast
  have b2: "b < length (s_bearerboxes s2)" using s1(3) s2(3) assms(1) by simp
  obtain s3 where s3: "upd_box b (\<lambda>x. x\<lparr>bb_connection := conn_ok\<rparr>) s2 = Some s3" "boxes_only s2 s3" "b < length (s_bearerboxes s3)"
      "bb_open_acks (s_bearerboxes s3 ! b) = Some []"
    using boxes_only_upd_box [OF b2, of "\<lambda>x. x\<lparr>bb_connection := conn_ok\<rparr>"] b2 s1(4) s2(3) by auto
  obtain ok s4 where s4: "smpp_bearerbox_identify E b s3 = Some (ok, s4)" "boxes_only s3 s4" "b < length (s_bearerboxes s4)"
      "bb_open_acks (s_bearerboxes s4 ! b) = Some []"
    using boxes_only_identify [OF s3(3)] s3(3,4) by fastforce
  obtain s5 where s5: "upd_box b (smpp_bearerbox_set_state True) s4 = Some s5" "boxes_only s4 s5" "bb_open_acks (s_bearerboxes s5 ! b) = Some []"
    using boxes_only_upd_box [OF s4(3), of "smpp_bearerbox_set_state True"] s4(4) by (auto simp: smpp_bearerbox_set_state_def)
  define s' where "s' = (if conn_ok then if ok then s5 else s4 else s3)"
  have "box_reconnect E b conn_ok s = Some s'"
    using assms(1-3) s1(1) s2(1) s3(1) s4(1) s5(1) by (simp add: box_reconnect_def get_box_def smpp_bearerbox_online_def s'_def)
  moreover have "boxes_only s2 s'" "bb_open_acks (s_bearerboxes s' ! b) = Some []"
    using s3(2,4) s4(2,4) s5(2,3) boxes_only_trans unfolding s'_def by (auto intro: boxes_only_trans)
  moreover have "all_failed rs s s'"
    using all_failed_before [OF _ _ all_failed_after [OF s2(2)]] calculation(2) s1(2) by (simp add: boxes_only_def)
  ultimately show ?thesis by blast
qed

section \<open>The inbound thread takes a submission\<close>

lemma dequeued_undisturbed:
  assumes "get_esme s i = Some e" and "e_pending_routing e' = e_pending_routing e" and "e_open_acks e' = e_open_acks e" and "e_global e' = e_global e"
  shows "undisturbed i s (put_esme i e' (s\<lparr>s_inbound_queue := xs\<rparr>))"
  using assms by (auto simp: undisturbed_def put_esme_def get_esme_def get_global_def)

text \<open>In a reachable state the thread gets to the handler, with what the handler needs.\<close>

lemma inbound_handler:
  assumes "server_init s0" and "server_step\<^sup>*\<^sup>* s0 s" and "n < length (s_inbound_queue s)" and "fst (s_inbound_queue s ! n) = p"
    and "get_pdu s p = Some q" and "q_pdu q = Some pd" and "q_esme q = Some i" and "get_esme s i = Some e" and "e_global e \<noteq> None"
  obtains u e' g where "smpp_queues_inbound_thread E n s = dispatch_inbound E p i pd u" "undisturbed i s u" "get_esme u i = Some e'" "get_global u i = Some g"
    "e_simulation e' = e_simulation e" "get_pdu u p \<noteq> None" "get_pdu u (s_next_pdu u) = None"
proof -
  let ?e = "e\<lparr>e_time_last_pdu := ev_now E, e_time_last_queue_process := ev_now E,
     e_inbound_queued := e_inbound_queued e - 1, e_inbound_processed := e_inbound_processed e + 1\<rparr>"
  let ?u = "put_esme i ?e (s\<lparr>s_inbound_queue := take n (s_inbound_queue s) @ drop (Suc n) (s_inbound_queue s)\<rparr>)"
  have run: "smpp_queues_inbound_thread E n s = dispatch_inbound E p i pd ?u"
    using assms(3-8) by (simp add: smpp_queues_inbound_thread_def upd_esme_def get_esme_def get_pdu_def)
  have un: "undisturbed i s ?u" by (rule dequeued_undisturbed [OF assms(8)]) simp_all
  have "globals_closed s" using reachable_owned [OF assms(1,2)] by (simp add: owned_iff hold_def)
  then have "get_global s i \<noteq> None" using assms(8,9) by (auto simp: globals_closed_def get_global_def)
  then obtain g where g: "get_global ?u i = Some g" using un by (auto simp: undisturbed_def)
  have "get_pdu s (s_next_pdu s) = None"
    using srv.reachable_inv [OF assms(1,2)] by (cases "get_pdu s (s_next_pdu s)") (auto simp: server_inv_def pdus_ok_def)
  moreover have "get_pdu ?u = get_pdu s" "s_next_pdu ?u = s_next_pdu s" using undisturbed_pdu [OF un] un by (simp_all add: undisturbed_def)
  ultimately have "get_pdu ?u p \<noteq> None" "get_pdu ?u (s_next_pdu ?u) = None" using assms(5) by simp_all
  then show thesis using that [OF run un _ g] by simp
qed

section \<open>A run with an outstanding submission\<close>

text \<open>The run of the last theory up to the transmission of the submission, and the same with the connection lost after it.\<close>

definition sent_events :: "unit event list" where
  "sent_events = take 8 late_events"

lemma sent_facts:
  "map_option (map (map_option (map (\<lambda>(k, bm). (k, bm_callback bm))) \<circ> bb_open_acks) \<circ> s_bearerboxes) (run sent_events late_server)
     = Some [Some [(gw_uuid_unparse example_gwlib 0, BCb_submit_sm 3)]]"
  "map_option (\<lambda>s. get_esme s 0 = None) (run sent_events late_server) = Some False"
  "map_option (\<lambda>s. map_option (\<lambda>q. (q_pdu q, q_esme q)) (get_pdu s 3)) (run sent_events late_server)
     = Some (Some (Some (Submit_sm_resp 9 SMPP_ESME_ROK (Some (gw_uuid_unparse example_gwlib 0))), Some 0))"
  "map_option (\<lambda>s. List.null (s_bb_queue s)) (run sent_events late_server) = Some True"
  by code_simp+

lemma sent_state:
  obtains s d bm where "run sent_events late_server = Some s" "server_step\<^sup>*\<^sup>* late_server s" "length (s_bearerboxes s) = 1"
    "bb_open_acks (s_bearerboxes s ! 0) = Some d" "d = [(gw_uuid_unparse example_gwlib 0, bm)]" "bcb_owed (bm_callback bm) = Some (3, True)"
    "get_esme s 0 \<noteq> None" "addressee s 3 = 0" "s_bb_queue s = []"
proof -
  obtain s where s: "run sent_events late_server = Some s" using sent_facts(2) by (cases "run sent_events late_server") auto
  have a: "map (map_option (map (\<lambda>(k, bm). (k, bm_callback bm))) \<circ> bb_open_acks) (s_bearerboxes s) = [Some [(gw_uuid_unparse example_gwlib 0, BCb_submit_sm 3)]]"
    using sent_facts(1) by (simp add: s)
  then obtain x d where x: "s_bearerboxes s = [x]" "bb_open_acks x = Some d" "map (\<lambda>(k, bm). (k, bm_callback bm)) d = [(gw_uuid_unparse example_gwlib 0, BCb_submit_sm 3)]"
    by auto
  then obtain bm where "d = [(gw_uuid_unparse example_gwlib 0, bm)]" "bm_callback bm = BCb_submit_sm 3" by auto
  moreover have "get_esme s 0 \<noteq> None" using sent_facts(2) by (simp add: s)
  moreover have "addressee s 3 = 0" using sent_facts(3) by (auto simp: s addressee_def)
  moreover have "server_step\<^sup>*\<^sup>* late_server s" using s run_iff_reachable by blast
  moreover have "s_bb_queue s = []" using sent_facts(4) by (simp add: s)
  ultimately show thesis using that [of s d bm] s x(1,2) by (simp add: bcb_owed_def)
qed

section \<open>Properties\<close>


lemma submitted_facts:
  "map_option s_inbound_queue (run (take 6 late_events) late_server) = Some [(2, 0)]"
  "map_option (\<lambda>s. map_option (\<lambda>q. (q_pdu q, q_esme q)) (get_pdu s 2)) (run (take 6 late_events) late_server) = Some (Some (Some (Submit_sm 9 example_submit), Some 0))"
  "map_option (\<lambda>s. map_option (\<lambda>e. (e_global e = None, sim_on (e_simulation e))) (get_esme s 0)) (run (take 6 late_events) late_server) = Some (Some (False, False))"
  "s_routing_method late_server = Route_database"
  by code_simp+


text \<open>
  C3: Every response of a submission that is not yet due has one owner. In every reachable
  state, the responses that the routers and the bearerboxes (the queue to them and what is
  outstanding on their connections) will use are pairwise different; each is the response PDU, still
  allocated and not answered, of a submission of an ESME that was bound, and no queue and no open
  acknowledgement refers to it.
\<close>

theorem reachable_responses_owned:
  assumes "server_init s0" and "server_step\<^sup>*\<^sup>* s0 s"
  shows "(\<forall>r. count (image_mset fst (held s)) r \<le> 1)
    \<and> (\<forall>r k. (r, k) \<in># held s \<longrightarrow> \<not> referenced s r
        \<and> (\<exists>i seq mid. expected s r k i seq mid \<and> (\<forall>e. get_esme s i = Some e \<longrightarrow> get_global s i \<noteq> None)))"
proof (intro conjI allI impI)
  show "count (image_mset fst (held s)) r \<le> 1" for r
    using reachable_owned [OF assms] by (simp add: owned_iff once_def)
  fix r k assume h: "(r, k) \<in># held s"
  show "\<not> referenced s r" using reachable_owed(1) [OF assms h] by (simp add: owed_def)
  show "\<exists>i seq mid. expected s r k i seq mid \<and> (\<forall>e. get_esme s i = Some e \<longrightarrow> get_global s i \<noteq> None)"
    using reachable_expected [OF assms h] by (metis option.distinct(1))
qed

theorem reachable_responses_owned_witness:
  "\<exists>s. server_step\<^sup>*\<^sup>* late_server s \<and> (3, True) \<in># held s \<and> \<not> referenced s 3 \<and> (\<exists>i seq mid. expected s 3 True i seq mid)"
proof (rule sent_state)
  fix s d bm
  assume run: "server_step\<^sup>*\<^sup>* late_server s" and s: "length (s_bearerboxes s) = 1" "bb_open_acks (s_bearerboxes s ! 0) = Some d"
    "d = [(gw_uuid_unparse example_gwlib 0, bm)]" "bcb_owed (bm_callback bm) = Some (3, True)"
  have "(3, True) \<in># held s" using open_ack_held [of 0 s d bm] s by simp
  then show ?thesis using reachable_responses_owned [OF late_server_init run] run by blast
qed

text \<open>The state with the message of an identifier no longer outstanding on a connection, and the status an acknowledgement means.\<close>

definition without_ack :: "nat \<Rightarrow> octstr \<Rightarrow> 'd server \<Rightarrow> 'd server" where
  "without_ack b key s = s\<lparr>s_bearerboxes := (s_bearerboxes s)[b := (s_bearerboxes s ! b)\<lparr>bb_open_acks :=
      map_option (\<lambda>d. dict_remove d key) (bb_open_acks (s_bearerboxes s ! b))\<rparr>]\<rparr>"

definition taken :: "int \<Rightarrow> bool" where
  "taken nack \<longleftrightarrow> nack = ack_success \<or> nack = ack_buffered"

text \<open>
  C10: In every reachable state the acknowledgement of a bearerbox settles one submission. For a
  message that is outstanding on the connection, with the callback of a submission, the message is no
  longer outstanding and the response is queued once for the ESME that submitted: accepted, with the message
  id, if the bearerbox has sent or buffered the message, failed submission if it refused it, and system
  error for anything else. It goes wrong exactly when that ESME has been freed in the meantime. An
  acknowledgement of anything that is not outstanding changes nothing.
\<close>

theorem reachable_ack_answers:
  assumes "server_init s0" and "server_step\<^sup>*\<^sup>* s0 s" and "b < length (s_bearerboxes s)" and "bb_open_acks (s_bearerboxes s ! b) = Some d"
  shows "(dict_get d (gw_uuid_unparse (ev_gw E) u) = None \<longrightarrow> receive_ack E b u nack s = Some s)
    \<and> (\<forall>bm r k. dict_get d (gw_uuid_unparse (ev_gw E) u) = Some bm \<and> bcb_owed (bm_callback bm) = Some (r, k) \<longrightarrow>
        (\<exists>i seq mid. expected s r k i seq mid
           \<and> (if get_esme s i = None then receive_ack E b u nack s = None
              else \<exists>s'. receive_ack E b u nack s = Some s' \<and> answered i r (response k seq
                (if taken nack then SMPP_ESME_ROK else if nack = ack_failed then SMPP_ESME_RSUBMITFAIL else SMPP_ESME_RSYSERR)
                (if taken nack then mid else None)) (without_ack b (gw_uuid_unparse (ev_gw E) u) s) s')))"
proof (intro conjI allI impI)
  assume "dict_get d (gw_uuid_unparse (ev_gw E) u) = None"
  then show "receive_ack E b u nack s = Some s" using assms(3,4) by (simp add: receive_ack_def get_box_def)
next
  fix bm r k
  let ?key = "gw_uuid_unparse (ev_gw E) u"
  let ?t = "without_ack b ?key s"
  assume a: "dict_get d ?key = Some bm \<and> bcb_owed (bm_callback bm) = Some (r, k)"
  have "bm \<in> snd ` set d" using a by (auto simp: dict_get_def dest!: map_of_SomeD intro: rev_image_eqI)
  with a have "(r, k) \<in># held s" using open_ack_held [OF assms(3,4)] by blast
  from reachable_expected [OF assms(1,2) this] obtain i seq mid
    where x: "expected s r k i seq mid" "get_global s i = None \<longleftrightarrow> get_esme s i = None" .
  have "upd_box b (box_untrack ?key) s = Some ?t" using assms(3,4) by (simp add: upd_box_def get_box_def box_untrack_def without_ack_def)
  then have run: "receive_ack E b u nack s = callback_response r (nack_status nack) ?t"
    using a assms(3,4) by (simp add: receive_ack_def get_box_def owed_callback)
  have xt: "expected ?t r k i seq mid" "get_global ?t i = get_global s i" "get_esme ?t i = get_esme s i"
    using x(1) by (simp_all add: expected_def without_ack_def get_pdu_def get_global_def get_esme_def)
  have st: "nack_status nack = (if taken nack then SMPP_ESME_ROK else if nack = ack_failed then SMPP_ESME_RSUBMITFAIL else SMPP_ESME_RSYSERR)"
    by (auto simp: nack_status_def taken_def)
  then have "(if nack_status nack = SMPP_ESME_ROK then mid else None) = (if taken nack then mid else None)" by (auto simp: taken_def)
  then show "\<exists>i seq mid. expected s r k i seq mid
           \<and> (if get_esme s i = None then receive_ack E b u nack s = None
              else \<exists>s'. receive_ack E b u nack s = Some s' \<and> answered i r (response k seq
                (if taken nack then SMPP_ESME_ROK else if nack = ack_failed then SMPP_ESME_RSUBMITFAIL else SMPP_ESME_RSYSERR)
                (if taken nack then mid else None)) ?t s')"
    using expected_answers [OF xt(1), of "nack_status nack"] freed_faults [OF xt(1)] x xt(2,3) unfolding run st [symmetric]
    by (intro exI [of _ i] exI [of _ seq] exI [of _ mid]) auto
qed

theorem reachable_ack_answers_witness:
  "\<exists>s s'. server_step\<^sup>*\<^sup>* late_server s \<and> receive_ack example_env 0 0 ack_failed s = Some s'
     \<and> s_outbound_queue s' = s_outbound_queue s @ [(3, 0)]"
proof (rule sent_state)
  fix s d bm
  assume run: "server_step\<^sup>*\<^sup>* late_server s" and s: "length (s_bearerboxes s) = 1" "bb_open_acks (s_bearerboxes s ! 0) = Some d"
    "d = [(gw_uuid_unparse example_gwlib 0, bm)]" "bcb_owed (bm_callback bm) = Some (3, True)" "get_esme s 0 \<noteq> None" "addressee s 3 = 0"
  have "0 < length (s_bearerboxes s)" using s(1) by simp
  moreover have "dict_get d (gw_uuid_unparse (ev_gw example_env) 0) = Some bm" by (simp add: s(3) example_env_def dict_get_Cons)
  ultimately obtain i seq mid where e: "expected s 3 True i seq mid"
    "if get_esme s i = None then receive_ack example_env 0 0 ack_failed s = None
     else \<exists>s' resp. receive_ack example_env 0 0 ack_failed s = Some s' \<and> answered i 3 resp (without_ack 0 (gw_uuid_unparse (ev_gw example_env) 0) s) s'"
    using reachable_ack_answers [OF late_server_init run _ s(2), of example_env 0 ack_failed] s(4) by metis
  moreover have "i = 0" using e(1) s(6) by (auto simp: expected_def addressee_def)
  ultimately show ?thesis using s(5) run by (auto simp: answered_def without_ack_def)
qed

text \<open>
  C11: When the connection to a bearerbox is lost, in any reachable state, every submission of
  a client that is still there and has a message outstanding on it is answered, exactly
  once and in turn, with the code for a system error, before the server tries to connect again; nothing else
  is queued, and nothing is outstanding on the connection afterwards, whether the attempt succeeds or not.
\<close>

theorem reachable_connection_lost:
  assumes "server_init s0" and "server_step\<^sup>*\<^sup>* s0 s" and "b < length (s_bearerboxes s)" and "\<not> bb_alive (s_bearerboxes s ! b)"
    and "bb_open_acks (s_bearerboxes s ! b) = Some d" and "\<forall>(r, k) \<in> set (due (map snd d)). get_esme s (addressee s r) \<noteq> None"
  shows "\<exists>s'. box_reconnect E b conn_ok s = Some s' \<and> all_failed (due (map snd d)) s s' \<and> bb_open_acks (s_bearerboxes s' ! b) = Some []"
proof (rule reconnect_rest [OF assms(3-5)])
  fix s1 assume only: "boxes_only s s1"
  let ?h = "box_held (bb_open_acks (s_bearerboxes s ! b))"
  have h: "?h = mset (due (map snd d))" using assms(5) by (simp add: msgs_held_def due_def)
  have "?h \<subseteq># sum_list (map (box_held \<circ> bb_open_acks) (s_bearerboxes s))"
    using sum_list_member [OF assms(3), of "box_held \<circ> bb_open_acks"] by simp
  then have "?h \<subseteq># held s" unfolding held_def by (rule subset_mset.order_trans) simp
  then have "once (mset (due (map snd d)))" using reachable_owned [OF assms(1,2)] once_sub unfolding owned_iff h by blast
  then have "distinct (map fst (due (map snd d)))" by (rule once_distinct)
  moreover have "awaited s1 x" if "x \<in> set (due (map snd d))" for x
  proof -
    obtain r k where x: "x = (r, k)" by fastforce
    have "(r, k) \<in># held s" using that x h \<open>?h \<subseteq># held s\<close> by (metis mset_subset_eqD set_mset_mset)
    from reachable_expected [OF assms(1,2) this] obtain i seq mid
      where e: "expected s r k i seq mid" "get_global s i = None \<longleftrightarrow> get_esme s i = None" .
    have "addressee s r = i" using e(1) by (auto simp: addressee_def expected_def)
    then have "get_global s i \<noteq> None" using assms(6) that x e(2) by auto
    then show ?thesis using e(1) only x by (auto simp: awaited_def expected_def boxes_only_def)
  qed
  ultimately show "\<exists>s2. fail_open_acks E (map snd d) s1 = Some s2 \<and> all_failed (due (map snd d)) s1 s2 \<and> s_bearerboxes s2 = s_bearerboxes s1"
    by (intro fail_open_acks_all) auto
qed

theorem reachable_connection_lost_witness:
  "\<exists>s s'. server_step\<^sup>*\<^sup>* late_server s \<and> box_reconnect example_env 0 False s = Some s' \<and> s_outbound_queue s' = s_outbound_queue s @ [(3, 0)]"
proof (rule sent_state)
  fix s d bm
  assume run: "server_step\<^sup>*\<^sup>* late_server s" and s: "length (s_bearerboxes s) = 1" "bb_open_acks (s_bearerboxes s ! 0) = Some d"
    "d = [(gw_uuid_unparse example_gwlib 0, bm)]" "bcb_owed (bm_callback bm) = Some (3, True)" "get_esme s 0 \<noteq> None" "addressee s 3 = 0"
  obtain t where t: "box_broken 0 s = Some t" "length (s_bearerboxes t) = 1" "\<not> bb_alive (s_bearerboxes t ! 0)" "bb_open_acks (s_bearerboxes t ! 0) = Some d"
      "get_esme t = get_esme s" "get_pdu t = get_pdu s"
    using s(1,2) by (auto simp: box_broken_def upd_box_def get_box_def smpp_bearerbox_set_state_def fun_eq_iff get_esme_def get_pdu_def)
  have "server_step\<^sup>*\<^sup>* late_server t" using run server_step.box_lost [OF t(1)] by (rule rtranclp.rtrancl_into_rtrancl)
  moreover have due: "due (map snd d) = [(3, True)]" by (simp add: s(3,4) due_def List.map_filter_simps)
  moreover have "addressee t 3 = 0" using s(6) t(6) by (simp add: addressee_def)
  ultimately have "\<exists>s'. box_reconnect example_env 0 False t = Some s' \<and> all_failed [(3, True)] t s'"
    using reachable_connection_lost [OF late_server_init, of t 0 d example_env False] t s(5) by auto
  then show ?thesis using \<open>addressee t 3 = 0\<close> \<open>server_step\<^sup>*\<^sup>* late_server t\<close> by (auto simp: all_failed_def)
qed

end
