(* ===== verification/Conservation.thy ===== *)
theory Conservation
  imports Settlement
begin

text \<open>
  No response is lost: a step of the server never takes a response from the router or from a
  bearerbox without queueing it for its ESME or handing it on. The messages of a bearerbox are kept
  by identifier, so this needs that a message that is sent does not have the identifier of one
  that is outstanding.
\<close>

section \<open>What operations keep\<close>

definition acks :: "'d server \<Rightarrow> (octstr, bearerbox_msg) dict option list" where
  "acks s = map bb_open_acks (s_bearerboxes s)"

definition keeps :: "'d server \<Rightarrow> 'd server \<Rightarrow> bool" where
  "keeps s t \<longleftrightarrow> held s \<subseteq># held t \<and> acks t = acks s"

lemma acks_core: "core t = core s \<Longrightarrow> acks t = acks s"
  by (simp add: core_def acks_def)

lemma keeps_refl [simp]: "keeps s s"
  by (simp add: keeps_def)

lemma keeps_core: "core t = core s \<Longrightarrow> keeps s t"
  using held_core [of t s] acks_core [of t s] by (simp add: keeps_def)

lemma keeps_trans [trans]: "keeps s t \<Longrightarrow> keeps t u \<Longrightarrow> keeps s u"
  unfolding keeps_def by (auto intro: subset_mset.order_trans)

lemma keeps_member: "keeps s t \<Longrightarrow> x \<in># held s \<Longrightarrow> x \<in># held t"
  unfolding keeps_def by (auto dest: mset_subset_eqD)

lemma keeps_bb_queue [simp]: "keeps s (s\<lparr>s_bb_queue := s_bb_queue s @ bms\<rparr>)"
  by (simp add: keeps_def held_def acks_def ac_simps)

lemma keeps_pending [simp]: "keeps s (s\<lparr>s_pending_routes := s_pending_routes s @ rs\<rparr>)"
  by (simp add: keeps_def held_def acks_def ac_simps)

text \<open>The outcome for a response an operation is given: held by someone else, or queued.\<close>

definition passed :: "(nat \<times> bool) option \<Rightarrow> 'd server \<Rightarrow> bool" where
  "passed x t \<longleftrightarrow> (\<forall>y. x = Some y \<longrightarrow> y \<in># held t \<or> queued (fst y) t)"

lemma passed_None [simp]: "passed None t"
  by (simp add: passed_def)

lemma queue_tail_held: "bcb_owed (bm_callback bm) = Some y \<Longrightarrow> y \<in># held (s\<lparr>s_bb_queue := bms @ [bm]\<rparr>)"
  by (simp add: held_def)

lemma add_to_queue_passes:
  assumes "smpp_bearerbox_add_to_queue E bm s = Some t"
  shows "keeps s t" and "passed (bcb_owed (bm_callback bm)) t"
  using add_to_queue_cases [OF assms] by (auto simp: passed_def intro: keeps_core queue_tail_held)

lemma forward_passes:
  assumes "forward_submission E p q i m s = Some t" and "q_pdu q = Some (owed_response k seq mid)"
  shows "keeps s t \<and> passed (Some (p, k)) t"
  using assms(1)
proof (cases rule: forward_cases)
  case answered
  then show ?thesis by (auto simp: passed_def intro: keeps_core)
next
  case (forwarded resp mid' bm)
  let ?u = "put_pdu p (q\<lparr>q_pdu := Some (set_resp_message_id mid' resp), q_msg := Msg_lent\<rparr>) s"
  have "bcb_owed (bm_callback bm) = Some (p, k)" using assms(2) forwarded(1,2) by (auto intro: resp_callback_kind)
  then have "(p, k) \<in># held t" unfolding forwarded(3) by (rule queue_tail_held)
  moreover have "keeps s ?u" by (rule keeps_core) simp
  moreover have "keeps ?u t" using keeps_bb_queue [of ?u "[bm]"] by (simp add: forwarded(3) put_pdu_def)
  ultimately show ?thesis using keeps_trans unfolding passed_def by blast
qed

lemma reject_passes:
  assumes "reject_submission p q i st s = Some t"
  shows "keeps s t \<and> queued p t"
proof
  show "keeps s t" using core_reject [OF assms] by (rule keeps_core)
  show "queued p t" using assms by (auto simp: reject_submission_def bind_eq_Some_conv intro: add_outbound_queued)
qed

text \<open>The PDU at p is a response of the kind k.\<close>

definition responds :: "'d server \<Rightarrow> nat \<times> bool \<Rightarrow> bool" where
  "responds s x \<longleftrightarrow> (\<exists>q seq mid. get_pdu s (fst x) = Some q \<and> q_pdu q = Some (owed_response (snd x) seq mid))"

lemma submission_done_passes:
  assumes "submission_routing_done E p rs s = Some t" and "responds s (p, k)"
  shows "keeps s t \<and> passed (Some (p, k)) t"
  using assms(1)
proof (cases rule: submission_done_cases)
  case (1 q i m st v)
  have "keeps s v" using 1(3) by (rule keeps_core)
  moreover obtain seq mid where "q_pdu q = Some (owed_response k seq mid)" using assms(2) 1(1) by (auto simp: responds_def)
  then have "keeps v t \<and> passed (Some (p, k)) t"
    using 1(5) reject_passes [of p q i st v t] forward_passes [of E p q i m v t] by (auto simp: passed_def)
  ultimately show ?thesis using keeps_trans by blast
qed

section \<open>Routing\<close>

lemma route_answer_passes:
  assumes "route_answer E cb m rs s = Some t" and "\<And>x. rcb_owed cb = Some x \<Longrightarrow> responds s x"
  shows "keeps s t \<and> passed (rcb_owed cb) t"
proof (cases "rcb_owed cb")
  case None
  then have "(\<exists>b m. smpp_bearerbox_routing_done E b m rs s = Some t) \<or> (\<exists>dm. smpp_bearerbox_requeue_routing_done E dm rs s = Some t)"
    using assms(1) by (cases cb) (auto simp: rcb_owed_def route_answer_def set_callback_msg_def run_route_callback_def)
  then have "core t = core s" using core_bearerbox_done core_requeue_done by blast
  then show ?thesis using None keeps_core by simp
next
  case (Some x)
  obtain p k where x: "x = (p, k)" by fastforce
  with Some assms(1) obtain q where q: "get_pdu s p = Some q" "submission_routing_done E p rs (put_pdu p (q\<lparr>q_msg := Msg_own m\<rparr>) s) = Some t"
    by (cases cb) (auto simp: rcb_owed_def route_answer_def set_callback_msg_def run_route_callback_def smpp_queues_submit_routing_done_def
        smpp_queues_data_sm_routing_done_def bind_eq_Some_conv)
  have "responds (put_pdu p (q\<lparr>q_msg := Msg_own m\<rparr>) s) (p, k)" using assms(2) [OF Some] q(1) by (auto simp: responds_def x)
  from submission_done_passes [OF q(2) this] have "keeps (put_pdu p (q\<lparr>q_msg := Msg_own m\<rparr>) s) t" "passed (rcb_owed cb) t"
    by (simp_all add: Some x)
  moreover have "keeps s (put_pdu p (q\<lparr>q_msg := Msg_own m\<rparr>) s)" by (rule keeps_core) simp
  ultimately show ?thesis using keeps_trans by blast
qed

lemma responds_pdus: "get_pdu t = get_pdu s \<Longrightarrow> responds t = responds s"
  by (simp add: responds_def fun_eq_iff)

lemma route_message_keeps:
  assumes "smpp_route_message E d smsc sid m cb s = Some t" and "\<And>x. rcb_owed cb = Some x \<Longrightarrow> responds s x"
  shows "keeps s t"
proof (cases "s_routing_method s = Route_database")
  case True
  obtain rs m' u where u: "route_database E d smsc sid m s = (rs, m', u)" by (metis prod_cases3)
  with True assms(1) have a: "route_answer E cb m' rs u = Some t" by (simp add: smpp_route_message_def smpp_route_message_database_def)
  have "responds u = responds s" using undisturbed_pdu [OF undisturbed_route_database [OF u]] by (rule responds_pdus)
  then show ?thesis using keeps_trans [OF keeps_core [OF core_route_database [OF u]]] route_answer_passes [OF a] assms(2) by metis
next
  case False
  then show ?thesis using assms(1) by (auto simp: smpp_route_message_def intro: keeps_core split: routing_method.split_asm)
qed

lemma route_submission_keeps:
  assumes "route_submission E i resp cb m s = Some t"
    and resp: "\<And>mid. resp mid = owed_response k seq (Some mid)" and cb: "\<And>r. rcb_owed (cb r i) = Some (r, k)"
  shows "keeps s t"
proof -
  from assms(1) obtain e u m' where u: "upd_esme i (\<lambda>e. e\<lparr>e_pending_routing := e_pending_routing e + 1\<rparr>)
      (snd (alloc_pdu ((smpp_queued_pdu_create_quick i e (resp (gw_uuid_unparse (ev_gw E) (sms_id m'))))\<lparr>q_msg := Msg_own m'\<rparr>) s)) = Some u"
    and t: "smpp_route_message E SMPP_ROUTE_DIRECTION_OUTBOUND None (e_system_id e) m' (cb (s_next_pdu s) i) u = Some t"
    unfolding route_submission_def Let_def case_prod_beta alloc_split by (auto simp: bind_eq_Some_conv alloc_pdu_def)
  have "get_pdu u (s_next_pdu s) = Some ((smpp_queued_pdu_create_quick i e (resp (gw_uuid_unparse (ev_gw E) (sms_id m'))))\<lparr>q_msg := Msg_own m'\<rparr>)"
    using upd_esme_pdus [OF u] by (simp add: get_pdu_alloc)
  then have "responds u (s_next_pdu s, k)"
    by (auto simp: responds_def resp smpp_queued_pdu_create_quick_def smpp_queued_pdu_create_def)
  then have "keeps u t" using route_message_keeps [OF t] by (auto simp: cb)
  moreover have "core u = core s" using core_upd_esme [OF u] by simp
  ultimately show ?thesis using keeps_trans [OF keeps_core] by blast
qed

lemma converted_keeps:
  assumes "(case c of Inl reason \<Rightarrow> respond i (f reason) s | Inr m \<Rightarrow> route_submission E i resp cb m s) = Some t"
    and "\<And>mid. resp mid = owed_response k seq (Some mid)" and "\<And>r. rcb_owed (cb r i) = Some (r, k)"
  shows "keeps s t"
proof (cases c)
  case (Inl reason)
  with assms(1) have "respond i (f reason) s = Some t" by simp
  then show ?thesis by (rule keeps_core [OF core_respond])
next
  case (Inr m)
  with assms(1) have "route_submission E i resp cb m s = Some t" by simp
  then show ?thesis by (rule route_submission_keeps [where resp = resp and cb = cb and k = k and seq = seq]) (rule assms(2), rule assms(3))
qed

lemma keeps_around:
  fixes s t u v :: "'d server"
  assumes "core v = core s" and "keeps v u" and "core t = core u"
  shows "keeps s t"
proof -
  have "keeps s v" using assms(1) by (rule keeps_core)
  also note assms(2)
  also have "keeps u t" using assms(3) by (rule keeps_core)
  finally show ?thesis .
qed

lemma dispatch_keeps:
  assumes "dispatch_inbound E p i pd s = Some t"
  shows "keeps s t"
proof -
  have submit: "keeps s t" if "smpp_queues_handle_submit_sm E p i n b s = Some t" for n b
    using that
  proof (cases rule: submit_cases)
    case (1 u)
    then show ?thesis using core_respond core_destroy_pdu keeps_core by metis
  next
    case (2 u v c)
    have "keeps (snd (fresh_uuid v)) u" if "simulate_submit E i n b v \<noteq> Some u"
      using 2(3) that by (intro converted_keeps [where k = True and seq = n]) (auto simp: owed_response_def rcb_owed_def)
    moreover have "core (snd (fresh_uuid v)) = core s" using core_inbound_load [OF 2(2)] by simp
    ultimately have "keeps s u" using core_simulate_submit core_inbound_load [OF 2(2)] keeps_around [of "snd (fresh_uuid v)" s u u] keeps_core by metis
    then show ?thesis using keeps_around [OF refl _ core_destroy_pdu [OF 2(1)]] by blast
  qed
  have data: "keeps s t" if "smpp_queues_handle_data_sm E p i n b s = Some t" for n b
    using that
  proof (cases rule: data_cases)
    case (1 u)
    then show ?thesis using core_respond core_destroy_pdu keeps_core by metis
  next
    case (2 u v c)
    have "keeps (snd (fresh_uuid v)) u"
      using 2(3) by (intro converted_keeps [where k = False and seq = n]) (auto simp: owed_response_def rcb_owed_def)
    moreover have "core (snd (fresh_uuid v)) = core s" using core_inbound_load [OF 2(2)] by simp
    ultimately show ?thesis using keeps_around core_destroy_pdu [OF 2(1)] by blast
  qed
  show ?thesis
    using assms submit data by (cases pd) (auto simp: dispatch_inbound_def bind_eq_Some_conv intro: keeps_core dest!: core_frame)
qed

lemma inbound_keeps:
  assumes "smpp_queues_inbound_thread E n s = Some t"
  shows "keeps s t"
proof (cases "n < length (s_inbound_queue s)")
  case True
  with assms obtain p i pd f u where
    "upd_esme i f (s\<lparr>s_inbound_queue := take n (s_inbound_queue s) @ drop (Suc n) (s_inbound_queue s)\<rparr>) = Some u"
    "dispatch_inbound E p i pd u = Some t"
    unfolding smpp_queues_inbound_thread_def Let_def if_P [OF True] bind_eq_Some_conv by blast
  then show ?thesis by (auto dest!: core_upd_esme dispatch_keeps intro: keeps_around)
qed (use assms in \<open>simp add: smpp_queues_inbound_thread_def\<close>)

section \<open>The bearerboxes\<close>

text \<open>The identifiers of the messages outstanding on a connection are different.\<close>

definition acks_wf :: "'d server \<Rightarrow> bool" where
  "acks_wf s \<longleftrightarrow> (\<forall>d. Some d \<in> set (acks s) \<longrightarrow> dict_wf d)"

lemma acks_wf_core: "core t = core s \<Longrightarrow> acks_wf t = acks_wf s"
  unfolding acks_wf_def by (drule acks_core) simp

lemma acks_wf_keeps: "keeps s t \<Longrightarrow> acks_wf t = acks_wf s"
  by (simp add: keeps_def acks_wf_def)

lemma acks_wf_box:
  assumes "acks_wf s" and "get_box s b = Some x" and "bb_open_acks x = Some d"
  shows "dict_wf d"
proof -
  have "x \<in> set (s_bearerboxes s)" using assms(2) by (auto simp: get_box_def split: if_split_asm)
  then have "Some d \<in> set (acks s)" using assms(3) by (force simp: acks_def)
  then show ?thesis using assms(1) by (simp only: acks_wf_def)
qed

lemma acks_wf_upd_box:
  assumes "upd_box b f s = Some t" and "acks_wf s" and "\<And>x d. get_box s b = Some x \<Longrightarrow> bb_open_acks (f x) = Some d \<Longrightarrow> dict_wf d"
  shows "acks_wf t"
proof -
  obtain x where x: "get_box s b = Some x" and t: "t = s\<lparr>s_bearerboxes := (s_bearerboxes s)[b := f x]\<rparr>"
    using assms(1) by (auto simp: upd_box_def bind_eq_Some_conv)
  have "set (acks t) \<subseteq> insert (bb_open_acks (f x)) (set (acks s))"
    using set_update_subset_insert [of "map bb_open_acks (s_bearerboxes s)" b "bb_open_acks (f x)"] by (simp add: t acks_def map_update)
  then have "bb_open_acks (f x) = Some d \<or> Some d \<in> set (acks s)" if "Some d \<in> set (acks t)" for d
    using that by (simp only: subset_iff insert_iff) metis
  then show ?thesis using assms(2) assms(3) [OF x] unfolding acks_wf_def by blast
qed

lemma msgs_held_remove_eq:
  assumes "dict_wf d" and "dict_get d (k :: octstr) = Some bm"
  shows "opt_held (bcb_owed (bm_callback bm)) + msgs_held (map snd (dict_remove d k)) = msgs_held (map snd d)"
  using assms
proof (induction d)
  case (Cons x d)
  show ?case
  proof (cases "fst x = k")
    case True
    then have "dict_remove d k = d" using Cons.prems(1) by (force simp: dict_wf_def dict_remove_def delete_id)
    then show ?thesis using True Cons.prems(2) by (cases x) (simp add: dict_remove_def dict_get_def)
  next
    case False
    then have "opt_held (bcb_owed (bm_callback bm)) + msgs_held (map snd (dict_remove d k)) = msgs_held (map snd d)"
      using Cons by (cases x) (simp add: dict_wf_def dict_get_def)
    then show ?thesis using False by (cases x) (simp add: dict_remove_def ac_simps)
  qed
qed (simp add: dict_get_def)

lemma msgs_held_put_eq: "dict_get d (k :: octstr) = None \<Longrightarrow> msgs_held (map snd (dict_put d k bm)) = opt_held (bcb_owed (bm_callback bm)) + msgs_held (map snd d)"
  by (induction d) (auto simp: dict_get_def dict_put_def ac_simps split: if_split_asm)

text \<open>What is held when a bearerbox changes.\<close>

lemma held_upd_box_eq:
  assumes "upd_box b f s = Some t" and "get_box s b = Some x"
  shows "held t + box_held (bb_open_acks x) = held s + box_held (bb_open_acks (f x))"
proof -
  have b: "b < length (s_bearerboxes s)" "s_bearerboxes s ! b = x" and t: "t = s\<lparr>s_bearerboxes := (s_bearerboxes s)[b := f x]\<rparr>"
    using assms by (auto simp: upd_box_def get_box_def bind_eq_Some_conv split: if_split_asm)
  show ?thesis using sum_list_update [OF b(1), of "box_held \<circ> bb_open_acks" "f x"] b(2) by (simp add: held_def t ac_simps)
qed

text \<open>After the step each response is still held, or queued for its ESME.\<close>

definition conserved :: "'d server \<Rightarrow> 'd server \<Rightarrow> bool" where
  "conserved s t \<longleftrightarrow> (\<forall>x. x \<in># held s \<longrightarrow> x \<in># held t \<or> queued (fst x) t)"

lemma keeps_conserved: "keeps s t \<Longrightarrow> conserved s t"
  using keeps_member by (auto simp: conserved_def)

lemma core_conserved: "core t = core s \<Longrightarrow> conserved s t"
  by (rule keeps_conserved [OF keeps_core])

lemma passed_conserved:
  assumes "held s \<subseteq># opt_held x + held u" and "keeps u t" and "passed x t"
  shows "conserved s t"
proof -
  have "y \<in># held t \<or> queued (fst y) t" if "y \<in># held s" for y
  proof -
    have "y \<in># opt_held x + held u" using assms(1) that by (rule mset_subset_eqD)
    then have "y \<in># held u \<or> x = Some y" by (cases x) auto
    then show ?thesis using keeps_member [OF assms(2)] assms(3) unfolding passed_def by blast
  qed
  then show ?thesis by (simp add: conserved_def)
qed

lemma receive_ack_conserved:
  assumes "receive_ack E b u nack s = Some t" and "acks_wf s"
  shows "conserved s t"
proof -
  let ?k = "gw_uuid_unparse (ev_gw E) u"
  from assms(1) obtain x d where x: "get_box s b = Some x" "bb_open_acks x = Some d"
    and t: "(case dict_get d ?k of None \<Rightarrow> Some s
      | Some bm \<Rightarrow> do { s \<leftarrow> upd_box b (box_untrack ?k) s; run_bb_callback E (bm_callback bm) (nack_status nack) s }) = Some t"
    by (auto simp: receive_ack_def bind_eq_Some_conv Let_def)
  have wf: "dict_wf d" by (rule acks_wf_box [OF assms(2) x])
  show ?thesis
  proof (cases "dict_get d ?k")
    case (Some bm)
    with t obtain v where v: "upd_box b (box_untrack ?k) s = Some v" "run_bb_callback E (bm_callback bm) (nack_status nack) v = Some t"
      by (auto simp: bind_eq_Some_conv)
    have "held v + msgs_held (map snd d) = held s + msgs_held (map snd (dict_remove d ?k))"
      using held_upd_box_eq [OF v(1) x(1)] x(2) by (simp add: box_untrack_def)
    also have "msgs_held (map snd d) = opt_held (bcb_owed (bm_callback bm)) + msgs_held (map snd (dict_remove d ?k))"
      using msgs_held_remove_eq [OF wf Some] by simp
    finally have "held s = opt_held (bcb_owed (bm_callback bm)) + held v" by (simp add: ac_simps)
    then show ?thesis
      using keeps_core [OF core_bb_callback [OF v(2)]] bb_callback_queued [OF v(2)]
      by (intro passed_conserved [where x = "bcb_owed (bm_callback bm)" and u = v]) (auto simp: passed_def)
  qed (use t in \<open>simp add: conserved_def\<close>)
qed

lemma add_outbound_appends: "smpp_queues_add_outbound r s = Some t \<Longrightarrow> queued p s \<Longrightarrow> queued p t"
  by (auto simp: smpp_queues_add_outbound_def queued_def upd_esme_def put_esme_def smpp_queued_pdu_destroy_def free_pdu_def bind_eq_Some_conv Let_def
      split: if_split_asm option.split_asm)

lemma bb_callback_appends:
  assumes "run_bb_callback E cb st s = Some t" and "queued p s"
  shows "queued p t"
proof (cases "bcb_owed cb")
  case None
  have removed: "s_outbound_queue (snd (smpp_database_remove E s g tmp)) = s_outbound_queue s" for g tmp
    using database_frames(9) [of s E g tmp] by (auto simp: same_but_db_def)
  with None obtain dm where "cb = BCb_requeue_result dm" by (cases cb) (auto simp: bcb_owed_def)
  then have "s_outbound_queue t = s_outbound_queue s"
    using assms(1) by (auto simp: run_bb_callback_def smpp_bearerbox_requeue_result_def removed split: if_split_asm)
  then show ?thesis using assms(2) by (simp add: queued_def)
next
  case (Some x)
  then have "callback_response (fst x) st s = Some t" using assms(1) owed_callback [of cb "fst x" "snd x" E st s] by simp
  then obtain f i u q where "count_traffic f i s = Some u" "smpp_queues_add_outbound (fst x) (put_pdu (fst x) q u) = Some t"
    by (auto simp: callback_response_def bind_eq_Some_conv)
  moreover have "queued p (put_pdu (fst x) q u)"
    using assms(2) calculation(1) by (auto simp: queued_def count_traffic_def upd_esme_def upd_global_def bind_eq_Some_conv put_pdu_def)
  ultimately show ?thesis using add_outbound_appends by blast
qed

lemma fail_acks_queued:
  assumes "fail_open_acks E bms s = Some t"
  shows "(\<forall>p. queued p s \<longrightarrow> queued p t) \<and> (\<forall>x \<in> set (due bms). queued (fst x) t)"
  using assms
proof (induction bms arbitrary: s)
  case (Cons bm bms)
  then obtain u where u: "run_bb_callback E (bm_callback bm) SMPP_ESME_RSYSERR s = Some u" "fail_open_acks E bms u = Some t"
    by (auto simp: bind_eq_Some_conv)
  note ih = Cons.IH [OF u(2)]
  have "queued (fst x) t" if "x \<in> set (due (bm # bms))" for x
    using that ih bb_callback_queued [OF u(1)] by (auto simp: due_Cons split: option.split_asm)
  then show ?case using ih bb_callback_appends [OF u(1)] by blast
qed (simp add: due_def List.map_filter_simps)

lemma box_outbound:
  "upd_box b f s = Some t \<Longrightarrow> s_outbound_queue t = s_outbound_queue s"
  "smpp_bearerbox_identify E b s = Some (ok, t) \<Longrightarrow> s_outbound_queue t = s_outbound_queue s"
  by (auto simp: smpp_bearerbox_identify_def upd_box_def bind_eq_Some_conv split: if_split_asm)

lemma reconnect_conserved:
  assumes "box_reconnect E b ok s = Some t" and "acks_wf s"
  shows "conserved s t \<and> acks_wf t"
proof -
  from assms(1) obtain x where x: "get_box s b = Some x" and c: "(if smpp_bearerbox_online x then Some s
      else do {
        s \<leftarrow> upd_box b (\<lambda>x. x\<lparr>bb_open_acks := Some []\<rparr>) s;
        s \<leftarrow> fail_open_acks E (case bb_open_acks x of None \<Rightarrow> [] | Some d \<Rightarrow> map snd d) s;
        s \<leftarrow> upd_box b (\<lambda>x. x\<lparr>bb_connection := ok\<rparr>) s;
        (if ok then do {
           (ok, s) \<leftarrow> smpp_bearerbox_identify E b s;
           (if ok then upd_box b (smpp_bearerbox_set_state True) s else Some s) }
         else Some s) }) = Some t"
    unfolding box_reconnect_def bind_eq_Some_conv by blast
  show ?thesis
  proof (cases "smpp_bearerbox_online x")
    case False
    let ?bms = "case bb_open_acks x of None \<Rightarrow> [] | Some d \<Rightarrow> map snd d"
    from False c obtain u v w where u: "upd_box b (\<lambda>x. x\<lparr>bb_open_acks := Some []\<rparr>) s = Some u"
      and v: "fail_open_acks E ?bms u = Some v"
      and w: "upd_box b (\<lambda>x. x\<lparr>bb_connection := ok\<rparr>) v = Some w"
      and t: "(if ok then do {
           (ok, s) \<leftarrow> smpp_bearerbox_identify E b w;
           (if ok then upd_box b (smpp_bearerbox_set_state True) s else Some s) }
         else Some w) = Some t"
      unfolding if_not_P [OF False] bind_eq_Some_conv by blast
    have rest: "core t = core u" "s_outbound_queue t = s_outbound_queue v"
    proof -
      have "core v = core u" "core w = core v" "core t = core w"
        using core_fail_acks [OF v] w t by (auto simp: bind_eq_Some_conv split: if_split_asm dest!: core_upd_box core_identify)
      then show "core t = core u" by simp
      show "s_outbound_queue t = s_outbound_queue v"
        using box_outbound(1) [OF w] t by (auto simp: bind_eq_Some_conv split: if_split_asm dest!: box_outbound)
    qed
    have s: "held s = held u + msgs_held ?bms" using held_upd_box_eq [OF u x] by (cases "bb_open_acks x") auto
    have "queued (fst y) t" if "y \<in># msgs_held ?bms" for y
      using fail_acks_queued [OF v] that rest(2) by (simp add: msgs_held_def due_def queued_def)
    then have "conserved s t" by (simp add: conserved_def s held_core [OF rest(1)])
    moreover have "acks_wf u" by (rule acks_wf_upd_box [OF u assms(2)]) (auto simp: dict_wf_def)
    then have "acks_wf t" using acks_wf_core [OF rest(1)] by simp
    ultimately show ?thesis by blast
  qed (use c assms(2) in \<open>simp add: conserved_def\<close>)
qed

text \<open>No message that waits to be sent has the identifier of one that is outstanding, on any connection.\<close>

definition ids_apart :: "'d server \<Rightarrow> bool" where
  "ids_apart s \<longleftrightarrow> (\<forall>x \<in> set (s_bearerboxes s). \<exists>d. bb_open_acks x = Some d \<and> (\<forall>bm \<in> set (s_bb_queue s). dict_get d (bm_id bm) = None))"

lemma dict_remove_absent: "dict_get d k = None \<Longrightarrow> dict_remove d k = d"
  by (simp add: dict_get_def dict_remove_def map_of_eq_None_iff delete_id)

lemma box_send_conserved:
  assumes "smpp_bearerbox_outbound_thread E b n s = Some t" and "ids_apart s"
  shows "conserved s t"
proof -
  have apart: "\<exists>d. bb_open_acks x = Some d \<and> dict_get d (bm_id bm) = None" if "get_box s b = Some x" "bm \<in> set (s_bb_queue s)" for x bm
  proof -
    have "x \<in> set (s_bearerboxes s)" using that(1) by (auto simp: get_box_def split: if_split_asm)
    then show ?thesis using assms(2) that(2) unfolding ids_apart_def by blast
  qed
  show ?thesis
    using assms(1)
  proof (cases rule: box_send_cases)
    case (sent x u bm bm' l)
    obtain d where d: "bb_open_acks x = Some d" "dict_get d (bm_id bm') = None" using apart [OF sent(1,3)] sent(7) by auto
    have "held t + msgs_held (map snd d) = held u + (opt_held (bcb_owed (bm_callback bm)) + msgs_held (map snd d))"
      using held_upd_box_eq [OF sent(8,2)] d msgs_held_put_eq [OF d(2), of bm'] by (simp add: box_track_def sent(6) held_def)
    then have "held t = held s" by (simp add: sent(4) ac_simps)
    then show ?thesis by (simp add: conserved_def)
  next
    case (failed x u bm bm' v)
    obtain d where d: "bb_open_acks x = Some d" "dict_get d (bm_id bm') = None" using apart [OF failed(1,3)] failed(7) by auto
    have "held v = held u" using held_upd_box_eq [OF failed(8,2)] d dict_remove_absent [OF d(2)] by (simp add: box_untrack_def)
    then show ?thesis using add_to_queue_passes [OF failed(9)] failed(4)
      by (intro passed_conserved [where x = "bcb_owed (bm_callback bm)" and u = v]) (simp_all add: failed(6))
  next
    case (offline u bm)
    show ?thesis using add_to_queue_passes [OF offline(3)] offline(1) by (intro passed_conserved [where x = "bcb_owed (bm_callback bm)" and u = u]) simp_all
  qed (simp add: conserved_def)
qed

text \<open>The identifiers outstanding on a connection stay different.\<close>

lemma box_track_wf: "acks_wf s \<Longrightarrow> get_box s b = Some x \<Longrightarrow> bb_open_acks (box_track bm x) = Some d \<Longrightarrow> dict_wf d"
  using acks_wf_box by (fastforce simp: box_track_def)

lemma box_untrack_wf: "acks_wf s \<Longrightarrow> get_box s b = Some x \<Longrightarrow> bb_open_acks (box_untrack k x) = Some d \<Longrightarrow> dict_wf d"
  using acks_wf_box by (fastforce simp: box_untrack_def)

lemma acks_wf_queue:
  assumes "u = s\<lparr>s_bb_queue := s_bb_queue u\<rparr>"
  shows "acks_wf (u\<lparr>s_bb_sent := l\<rparr>) = acks_wf s" and "acks_wf u = acks_wf s"
  by (subst assms, simp add: acks_wf_def acks_def)+

lemma box_send_acks_wf:
  assumes "smpp_bearerbox_outbound_thread E b n s = Some t" and "acks_wf s"
  shows "acks_wf t"
  using assms(1)
proof (cases rule: box_send_cases)
  case (sent x u bm bm' l)
  have wf: "acks_wf (u\<lparr>s_bb_sent := l\<rparr>)" using assms(2) acks_wf_queue(1) [OF sent(5)] by simp
  show ?thesis by (rule acks_wf_upd_box [OF sent(8) wf]) (rule box_track_wf [OF wf])
next
  case (failed x u bm bm' v)
  have wf: "acks_wf u" using assms(2) acks_wf_queue(2) [OF failed(5)] by simp
  have "acks_wf v" by (rule acks_wf_upd_box [OF failed(8) wf]) (rule box_untrack_wf [OF wf], auto)
  then show ?thesis using acks_wf_keeps [OF add_to_queue_passes(1) [OF failed(9)]] by simp
next
  case (offline u bm)
  then show ?thesis using assms(2) acks_wf_queue(2) [OF offline(2)] acks_wf_keeps [OF add_to_queue_passes(1) [OF offline(3)]] by simp
qed (use assms(2) in simp)

lemma receive_ack_acks_wf:
  assumes "receive_ack E b u nack s = Some t" and "acks_wf s"
  shows "acks_wf t"
proof -
  let ?k = "gw_uuid_unparse (ev_gw E) u"
  obtain v where v: "v = s \<or> upd_box b (box_untrack ?k) s = Some v" "core t = core v"
    using assms(1) by (auto simp: receive_ack_def bind_eq_Some_conv Let_def split: option.split_asm dest!: core_bb_callback)
  have "acks_wf v" if "upd_box b (box_untrack ?k) s = Some v"
    by (rule acks_wf_upd_box [OF that assms(2)]) (rule box_untrack_wf [OF assms(2)])
  with v(1) assms(2) have "acks_wf v" by blast
  then show ?thesis using acks_wf_core [OF v(2)] by simp
qed

section \<open>Messages that come back\<close>

lemma box_inbound_conserved:
  assumes "smpp_bearerbox_inbound_thread E b msg s = Some t" and "acks_wf s"
  shows "conserved s t \<and> acks_wf t"
proof -
  consider (ack) u nack where "receive_ack E b u nack s = Some t" | (other) "keeps s t"
  proof (cases "(\<exists>u nack. receive_ack E b u nack s = Some t)
      \<or> (\<exists>m. smpp_route_message E SMPP_ROUTE_DIRECTION_INBOUND (smsc_id m) None m (RCb_bearerbox b m) s = Some t)")
    case True
    then show thesis
    proof (elim disjE exE)
      fix m assume "smpp_route_message E SMPP_ROUTE_DIRECTION_INBOUND (smsc_id m) None m (RCb_bearerbox b m) s = Some t"
      then show thesis by (rule other [OF route_message_keeps]) (simp add: rcb_owed_def)
    qed (rule ack)
  next
    case False
    have "core t = core s"
      using assms(1) False by (cases msg) (auto simp: smpp_bearerbox_inbound_thread_def split: if_split_asm dest!: core_frame core_upd_box)
    then show thesis by (rule other [OF keeps_core])
  qed
  then show ?thesis
  proof cases
    case ack
    then show ?thesis using receive_ack_conserved receive_ack_acks_wf assms(2) by blast
  next
    case other
    then show ?thesis using keeps_conserved acks_wf_keeps assms(2) by blast
  qed
qed

lemma requeue_mo_keeps: "requeue_mo E dms s = Some t \<Longrightarrow> keeps s t"
proof (induction dms arbitrary: s)
  case (Cons dm dms)
  then obtain m u where u: "(if sms_type m = mo
          then smpp_route_message E SMPP_ROUTE_DIRECTION_INBOUND (smsc_id m) None m (RCb_requeue dm) s
          else Some (snd (smpp_database_remove E s (dm_global_id dm) False))) = Some u" "requeue_mo E dms u = Some t"
    unfolding requeue_mo.simps bind_eq_Some_conv by blast
  have "keeps s u"
  proof (cases "sms_type m = mo")
    case True
    with u(1) have "smpp_route_message E SMPP_ROUTE_DIRECTION_INBOUND (smsc_id m) None m (RCb_requeue dm) s = Some u" by simp
    then show ?thesis by (rule route_message_keeps) (simp add: rcb_owed_def)
  qed (use u(1) in \<open>auto intro: keeps_core\<close>)
  also have "keeps u t" using Cons.IH u(2) by blast
  finally show ?case .
qed simp

lemma requeue_mt_keeps: "requeue_mt E dms s = Some t \<Longrightarrow> keeps s t"
proof (induction dms arbitrary: s)
  case (Cons dm dms)
  then obtain m u where t: "requeue_mt E dms u = Some t"
    and u: "u = (if sms_type m = mt_push
        then s\<lparr>s_bb_queue := s_bb_queue s @ [smpp_bearerbox_msg_create (ev_gw E) m (BCb_requeue_result dm)]\<rparr>
        else snd (smpp_database_remove E s (dm_global_id dm) False))"
    by (auto simp: bind_eq_Some_conv)
  have "keeps s u" by (auto simp: u intro: keeps_core)
  also have "keeps u t" using Cons.IH t by blast
  finally show ?case .
qed simp

lemma bb_requeue_keeps:
  assumes "smpp_bearerbox_requeue_thread E s = Some t"
  shows "keeps s t"
proof -
  from assms obtain u where u: "(if some_bearerbox_online s \<and> (\<not> c_database_store_primary (s_cfg s) \<or> c_database_enable_queue (s_cfg s))
          then (let (stored, s) = smpp_database_get_bearerbox_mt_stored E s mt_push None 0 in requeue_mt E stored s)
          else Some s) = Some u"
    and t: "(if some_bearerbox_online s \<or> c_database_store_primary (s_cfg u)
      then (let (stored, s) = smpp_database_get_stored E u mo None 0 in requeue_mo E stored s)
      else Some u) = Some t"
    unfolding smpp_bearerbox_requeue_thread_def Let_def bind_eq_Some_conv by blast
  have db: "keeps v (snd (smpp_database_get_bearerbox_mt_stored E v ty svc lmt))" "keeps v (snd (smpp_database_get_stored E v ty svc lmt))"
    for v :: "'a server" and ty svc lmt
    by (rule keeps_core; simp)+
  have "keeps s u" using u keeps_trans [OF db(1) requeue_mt_keeps] by (auto simp: case_prod_beta split: if_split_asm)
  also have "keeps u t" using t keeps_trans [OF db(2) requeue_mo_keeps] by (auto simp: case_prod_beta split: if_split_asm)
  finally show ?thesis .
qed

lemma router_conserved:
  assumes "s_pending_routes s = xs @ (cb, m) # ys" and "route_answer E cb m' rs (s\<lparr>s_pending_routes := xs @ ys\<rparr>) = Some t"
    and "owned s"
  shows "conserved s t \<and> (acks_wf s \<longrightarrow> acks_wf t)"
proof -
  let ?u = "s\<lparr>s_pending_routes := xs @ ys\<rparr>"
  have held: "held s = opt_held (rcb_owed cb) + held ?u" using assms(1) by (simp add: held_def ac_simps)
  have "responds ?u x" if "rcb_owed cb = Some x" for x
  proof -
    have "x \<in># held s" using that held by simp
    then have "owed (fst x) (snd x) s" using assms(3) by (auto simp: owned_iff hold_def)
    then show ?thesis by (auto simp: owed_def unanswered_def responds_def get_pdu_def)
  qed
  then have r: "keeps ?u t" "passed (rcb_owed cb) t" using route_answer_passes [OF assms(2)] by blast+
  have "conserved s t" using passed_conserved [OF _ r] held by simp
  moreover have "acks_wf t = acks_wf s" using acks_wf_keeps [OF r(1)] by (simp add: acks_wf_def acks_def)
  ultimately show ?thesis by simp
qed

section \<open>Steps\<close>

lemma step_conserved:
  assumes "server_step s t" and "owned s" and "acks_wf s"
  shows "(ids_apart s \<longrightarrow> conserved s t) \<and> acks_wf t"
proof -
  consider (core) "core t = core s" | (keeps) "keeps s t" | (send) E b n where "smpp_bearerbox_outbound_thread E b n s = Some t"
    | (connect) E b ok where "box_reconnect E b ok s = Some t" | (receive) E b msg where "smpp_bearerbox_inbound_thread E b msg s = Some t"
    | (answer) xs cb m ys E m' rs where "s_pending_routes s = xs @ (cb, m) # ys" "route_answer E cb m' rs (s\<lparr>s_pending_routes := xs @ ys\<rparr>) = Some t"
    using assms(1)
  proof cases
    case accept
    then show thesis using core core_accept by blast
  next
    case read
    then show thesis using core core_event by blast
  next
    case outbound
    then show thesis using core core_outbound by blast
  next
    case simulation
    then show thesis using core core_simulation by blast
  next
    case requeue
    then show thesis using core core_requeue_thread by blast
  next
    case cleanup
    then show thesis using core core_cleanup_thread by blast
  next
    case box_timeout
    then show thesis using core core_box_idle by blast
  next
    case box_lost
    then show thesis using core core_box_broken by blast
  next
    case unbind
    then show thesis using core core_unbind_command by blast
  next
    case (rebuild E)
    then show thesis using core core_rebuild by blast
  next
    case inbound
    then show thesis using keeps inbound_keeps by blast
  next
    case box_requeue
    then show thesis using keeps bb_requeue_keeps by blast
  qed (use send connect receive answer in blast)+
  then show ?thesis
  proof cases
    case core
    then show ?thesis using core_conserved acks_wf_core assms(3) by blast
  next
    case keeps
    then show ?thesis using keeps_conserved acks_wf_keeps assms(3) by blast
  next
    case send
    then show ?thesis using box_send_conserved box_send_acks_wf assms(3) by blast
  next
    case connect
    then show ?thesis using reconnect_conserved assms(3) by blast
  next
    case receive
    then show ?thesis using box_inbound_conserved assms(3) by blast
  next
    case answer
    then show ?thesis using router_conserved assms(2,3) by blast
  qed
qed

lemma acks_wf_init: "server_init s \<Longrightarrow> acks_wf s"
  by (auto simp: server_init_def initial_server_def acks_wf_def acks_def) (metis dict_wf_def distinct.simps(1) insertE insert_iff list.simps(8) option.distinct(1) option.inject singletonD)

interpretation conserving: state_machine server_init server_step "\<lambda>s. (server_inv {} s \<and> owned s) \<and> acks_wf s"
  by unfold_locales (auto intro: initial_inv server_step_inv owned_init owned_step acks_wf_init dest: step_conserved)

section \<open>The property\<close>


lemma refused_facts:
  "map_option (\<lambda>s. map_option (map fst \<circ> s_outbound_queue) (do_event (Ev_box_receive (sends (Unbind 1)) 0 (Msg_ack 0 ack_failed)) s)) (run sent_events late_server)
     = Some (Some [3])"
  by code_simp


end
