(* ===== verification/Daemon.thy ===== *)
theory Daemon
  imports Settlement HttpFacts
begin

text \<open>
  The server together with the HTTP router, as they run when the configuration asks for routing
  by HTTP: the threads of the server hand requests to the router, its request thread sends them, its
  receive thread runs the callbacks. Every run of the two is a run of the server alone, in which
  the list of pending requests is the content of the router, and every result settles its submission.
\<close>

section \<open>The steps of the two together\<close>

text \<open>A request as the server makes it: direction, SMSC, account, message and callback.\<close>

type_synonym handover = "int \<times> octstr option \<times> octstr option \<times> sms \<times> route_callback"

definition hand_over :: "gwlib \<Rightarrow> handover list \<Rightarrow> http_routing \<Rightarrow> http_routing" where
  "hand_over G qs h = fold (\<lambda>(d, smsc, sid, m, cb). smpp_http_client_route_message G d smsc sid m cb) qs h"

definition requests_of :: "handover list \<Rightarrow> (route_callback \<times> sms) list" where
  "requests_of qs = map (\<lambda>(d, smsc, sid, m, cb). (cb, m)) qs"

inductive daemon_step :: "http_routing \<times> 'd server \<Rightarrow> http_routing \<times> 'd server \<Rightarrow> bool" where
  thread: "server_step s t \<Longrightarrow> s_pending_routes t = s_pending_routes s @ requests_of qs \<Longrightarrow> daemon_step (h, s) (hand_over G qs h, t)"
| send: "daemon_step (h, s) (snd (smpp_http_client_request_thread G enc h), s)"
| answer: "smpp_http_client_receive_thread E n hs h s = Some (h', s') \<Longrightarrow> daemon_step (h, s) (h', s')"

inductive_cases daemon_stepE: "daemon_step x y"

text \<open>The server and the router at the start, the router with the limit it is configured with.\<close>

definition daemon_init :: "int \<Rightarrow> http_routing \<times> 'd server \<Rightarrow> bool" where
  "daemon_init limit x \<longleftrightarrow> server_init (snd x) \<and> s_routing_method (snd x) = Route_http
     \<and> fst x = \<lparr>hr_max_outstanding = limit, hr_outstanding = 0, hr_queued = [], hr_sent = []\<rparr>"

definition daemon_inv :: "int \<Rightarrow> http_routing \<times> 'd server \<Rightarrow> bool" where
  "daemon_inv limit x \<longleftrightarrow> s_pending_routes (snd x) = http_pending (fst x) \<and> s_routing_method (snd x) = Route_http
     \<and> hr_max_outstanding (fst x) = limit \<and> hr_outstanding (fst x) = length (hr_sent (fst x)) \<and> int (length (hr_sent (fst x))) \<le> max 0 limit
     \<and> (\<exists>s0. server_init s0 \<and> server_step\<^sup>*\<^sup>* s0 (snd x))"

lemma hand_over_spec:
  "http_pending (hand_over G qs h) = http_pending h @ requests_of qs" "hr_sent (hand_over G qs h) = hr_sent h"
  "hr_outstanding (hand_over G qs h) = hr_outstanding h" "hr_max_outstanding (hand_over G qs h) = hr_max_outstanding h"
proof (induction qs arbitrary: h)
  case (Cons q qs)
  { case 1 then show ?case using Cons.IH(1) by (cases q) (simp add: hand_over_def requests_of_def pending_route_message)
  next case 2 then show ?case using Cons.IH(2) by (cases q) (simp add: hand_over_def smpp_http_client_route_message_def)
  next case 3 then show ?case using Cons.IH(3) by (cases q) (simp add: hand_over_def smpp_http_client_route_message_def)
  next case 4 then show ?case using Cons.IH(4) by (cases q) (simp add: hand_over_def smpp_http_client_route_message_def) }
qed (simp_all add: hand_over_def requests_of_def)

text \<open>Each step of the two is a step of the server, or none.\<close>

lemma daemon_server:
  assumes "daemon_step x y" and "s_pending_routes (snd x) = http_pending (fst x)"
  shows "server_step\<^sup>*\<^sup>* (snd x) (snd y) \<and> s_pending_routes (snd y) = http_pending (fst y)"
  using assms
proof cases
  case (thread s t qs h G)
  then show ?thesis using assms(2) by (auto simp: hand_over_spec)
next
  case (send h s G enc)
  then show ?thesis using assms(2) by (simp add: pending_request_round)
next
  case (answer E n hs h s h' s')
  then obtain cb rs m where r: "receive_result (ev_gw E) n hs h = Some ((cb, rs, m), h')"
    "route_answer E cb m rs (s\<lparr>s_pending_routes := http_pending h'\<rparr>) = Some s'"
    by (auto simp: smpp_http_client_receive_thread_def bind_eq_Some_conv)
  obtain xs m0 ys where p: "http_pending h = xs @ (cb, m0) # ys" "http_pending h' = xs @ ys" using pending_receive [OF r(1)] by blast
  have "server_step s s'" using server_step.router [of s xs cb m0 ys E m rs s'] assms(2) r(2) p answer by simp
  moreover have "s_pending_routes s' = http_pending h'" using pending_route_answer [OF r(2)] by simp
  ultimately show ?thesis using answer by auto
qed

text \<open>No step exceeds the limit of outstanding requests, and the counter of them stays right.\<close>

lemma daemon_limit:
  assumes "daemon_step x y" and "hr_outstanding (fst x) = length (hr_sent (fst x))"
    and "int (length (hr_sent (fst x))) \<le> max 0 (hr_max_outstanding (fst x))"
  shows "hr_outstanding (fst y) = length (hr_sent (fst y)) \<and> hr_max_outstanding (fst y) = hr_max_outstanding (fst x)
    \<and> int (length (hr_sent (fst y))) \<le> max 0 (hr_max_outstanding (fst x))"
  using assms(1)
proof cases
  case (thread s t qs h G)
  then show ?thesis using assms(2,3) by (simp add: hand_over_spec)
next
  case (send h s G enc)
  then show ?thesis using assms(2,3) by (auto simp: request_round room_def)
next
  case (answer E n hs h s h' s')
  then obtain cb rs m where "receive_result (ev_gw E) n hs h = Some ((cb, rs, m), h')"
    by (auto simp: smpp_http_client_receive_thread_def bind_eq_Some_conv)
  then show ?thesis using assms(2,3) answer by (elim receive_result_cases) auto
qed

lemma daemon_step_inv:
  assumes "daemon_inv limit x" and "daemon_step x y"
  shows "daemon_inv limit y"
proof -
  have "server_step\<^sup>*\<^sup>* (snd x) (snd y) \<and> s_pending_routes (snd y) = http_pending (fst y)"
    using daemon_server [OF assms(2)] assms(1) by (simp add: daemon_inv_def)
  moreover have "s_routing_method (snd y) = s_routing_method (snd x)" using calculation server_run_settings(2) by blast
  moreover have "\<exists>s0. server_init s0 \<and> server_step\<^sup>*\<^sup>* s0 (snd y)"
    using assms(1) calculation(1) rtranclp_trans [of server_step] unfolding daemon_inv_def by metis
  ultimately show ?thesis using assms(1) daemon_limit [OF assms(2)] by (simp add: daemon_inv_def)
qed

lemma daemon_init_inv:
  assumes "daemon_init limit x"
  shows "daemon_inv limit x"
proof -
  have "server_init (snd x)" using assms by (simp add: daemon_init_def)
  then have "s_pending_routes (snd x) = []" by (auto simp: server_init_def initial_server_def)
  moreover have "\<exists>s0. server_init s0 \<and> server_step\<^sup>*\<^sup>* s0 (snd x)" using \<open>server_init (snd x)\<close> by blast
  ultimately show ?thesis using assms by (simp add: daemon_init_def daemon_inv_def http_pending_def)
qed

interpretation daemon: state_machine "daemon_init limit" daemon_step "daemon_inv limit" for limit
  by unfold_locales (rule daemon_init_inv daemon_step_inv; assumption)+

section \<open>Answers that refer to submissions\<close>

lemma pending_claim:
  assumes "(cb, m) \<in> set (s_pending_routes s)" and "cb_claim cb = Some (p, i)"
  shows "(p, i) \<in> set (pending_claims s)"
proof -
  obtain ys zs where "s_pending_routes s = ys @ (cb, m) # zs" using assms(1) by (metis in_set_conv_decomp)
  then show ?thesis using assms(2) by (simp add: pending_claims_def map_filter_append List.map_filter_simps)
qed

text \<open>The request a submission waits for: its response is expected and its ESME is there, and counts it.\<close>

lemma reachable_pending:
  assumes "server_init s0" and "server_step\<^sup>*\<^sup>* s0 s" and "(cb, m) \<in> set (s_pending_routes s)"
    and cb: "cb = (if k then RCb_submit_sm r i else RCb_data_sm r i)"
  obtains seq mid e where "expected s r k i seq mid" "get_esme s i = Some e" "0 < e_pending_routing e" "get_global s i \<noteq> None"
proof -
  have inv: "server_inv {} s" using srv.reachable_inv [OF assms(1,2)] .
  have c: "(r, i) \<in> set (pending_claims s)" using pending_claim [OF assms(3), of r i] by (simp add: cb cb_claim_def)
  obtain ys zs where "s_pending_routes s = ys @ (cb, m) # zs" using assms(3) by (metis in_set_conv_decomp)
  then have "(r, k) \<in># held s" by (simp add: held_def cb rcb_owed_def)
  from reachable_expected [OF assms(1,2) this] obtain j seq mid
    where x: "expected s r k j seq mid" "get_global s j = None \<longleftrightarrow> get_esme s j = None" .
  have "j = i" using inv c x(1) by (auto simp: server_inv_def pdus_ok_def claim_def queue_claims_def expected_def)
  moreover obtain e where e: "get_esme s i = Some e" "entries_of i (pending_claims s) \<le> e_pending_routing e"
    using inv c by (fastforce simp: server_inv_def esmes_ok_def queue_claims_def)
  moreover have "0 < entries_of i (pending_claims s)" using c by (force simp: entries_of_def filter_empty_conv)
  ultimately show thesis using that x by auto
qed

lemma expected_awaited:
  assumes "expected s r k i seq mid" and "get_esme s i = Some e" and "0 < e_pending_routing e" and "get_global s i \<noteq> None"
  defines "u \<equiv> put_esme i (e\<lparr>e_pending_routing := e_pending_routing e - 1\<rparr>) s"
  shows "\<exists>s'. route_answer E (if k then RCb_submit_sm r i else RCb_data_sm r i) m rs s = Some s'
    \<and> ((\<exists>st mid'. answered i r (response k seq st mid') u s')
       \<or> (\<exists>mid'. forwarded i r (if k then BCb_submit_sm r else BCb_data_sm r) (response k seq SMPP_ESME_ROK mid') u s'))
    \<and> (rs_status rs \<noteq> SMPP_ESME_ROK \<and> octstr_len (smsc_id m) = 0 \<longrightarrow> answered i r (response k seq (rs_status rs) None) u s')"
proof -
  obtain q where q: "get_pdu s r = Some q" "q_pdu q = Some (response k seq SMPP_ESME_ROK mid)" "q_esme q = Some i" "q_callback q = None"
    using assms(1) by (auto simp: expected_def)
  show ?thesis
    using submit.awaited [OF q(1) _ assms(2-4), of seq mid E m rs] data.awaited [OF q(1) _ assms(2-4), of seq mid E m rs] q(2-4)
    by (cases k) (simp_all add: submit.waiting_def submit.owed_def data.waiting_def data.owed_def u_def response_def)
qed

section \<open>A run of the two\<close>

text \<open>Events in which the server makes no request, and the submission that makes one.\<close>

fun idle_run :: "unit event list \<Rightarrow> unit server \<Rightarrow> unit server option" where
  "idle_run [] s = Some s"
| "idle_run (ev # evs) s = do { t \<leftarrow> do_event ev s; (if List.null (s_pending_routes t) then idle_run evs t else None) }"

definition http_server0 :: "unit server" where
  "http_server0 = initial_server example_cfg [smpp_bearerbox_create] Route_http ()"

definition http_submits :: "unit env" where
  "http_submits = sends (Submit_sm 9 example_submit)"

definition http_waits :: "unit server option" where
  "http_waits = idle_run (bind_events @ [Ev_outbound (sends (Unbind 1)) 0, Ev_read http_submits 0 [CHR 0x02, CHR 0x20] False 3]) http_server0"

definition idle_http :: http_routing where
  "idle_http = \<lparr>hr_max_outstanding = 1, hr_outstanding = 0, hr_queued = [], hr_sent = []\<rparr>"

lemma idle_run_daemon: "idle_run evs s = Some t \<Longrightarrow> s_pending_routes s = [] \<Longrightarrow> daemon_step\<^sup>*\<^sup>* (h, s) (h, t) \<and> s_pending_routes t = []"
proof (induction evs arbitrary: s)
  case (Cons ev evs)
  then obtain u where u: "do_event ev s = Some u" "s_pending_routes u = []" "idle_run evs u = Some t"
    by (auto simp: bind_eq_Some_conv split: if_split_asm)
  have "daemon_step (h, s) (hand_over (ev_gw example_env) [] h, u)"
    using do_event_step [OF u(1)] u(2) Cons.prems(2) by (intro thread) (simp_all add: requests_of_def)
  then show ?case using Cons.IH [OF u(3,2)] by (auto simp: hand_over_def intro: converse_rtranclp_into_rtranclp)
qed simp

lemma http_run_facts:
  "map_option (\<lambda>s. map_option (map fst \<circ> s_pending_routes) (do_event (Ev_inbound http_submits 0) s)) http_waits = Some (Some [RCb_submit_sm 3 0])"
  by code_simp

lemma http_run:
  obtains h s where "daemon_init 1 (idle_http, http_server0)" "daemon_step\<^sup>*\<^sup>* (idle_http, http_server0) (h, s)"
    "length (hr_sent h) = 1" "hq_callback (hr_sent h ! 0) = RCb_submit_sm 3 0"
proof -
  obtain t s where t: "http_waits = Some t" and s: "do_event (Ev_inbound http_submits 0) t = Some s" "map fst (s_pending_routes s) = [RCb_submit_sm 3 0]"
    using http_run_facts by auto
  from s(2) obtain m where m: "s_pending_routes s = [(RCb_submit_sm 3 0, m)]" by auto
  have start: "daemon_init 1 (idle_http, http_server0)" "s_pending_routes http_server0 = []"
    unfolding daemon_init_def server_init_def http_server0_def idle_http_def
    by (intro conjI exI) (auto simp: initial_server_def smpp_bearerbox_create_def)
  have idle: "daemon_step\<^sup>*\<^sup>* (idle_http, http_server0) (idle_http, t)" "s_pending_routes t = []"
    using idle_run_daemon [OF t [unfolded http_waits_def] start(2)] by auto
  let ?G = "ev_gw example_env"
  let ?qs = "[(SMPP_ROUTE_DIRECTION_OUTBOUND, None, Some ''abc'', m, RCb_submit_sm 3 0)]"
  let ?h = "hand_over ?G ?qs idle_http"
  have "daemon_step (idle_http, t) (?h, s)"
    using do_event_step [OF s(1)] m idle(2) by (intro thread) (simp_all add: requests_of_def)
  moreover have "daemon_step (?h, s) (snd (smpp_http_client_request_thread ?G id ?h), s)" by (rule send)
  ultimately have "daemon_step\<^sup>*\<^sup>* (idle_http, http_server0) (snd (smpp_http_client_request_thread ?G id ?h), s)"
    using idle(1) by (meson rtranclp.rtrancl_into_rtrancl)
  moreover have "length (hr_sent (snd (smpp_http_client_request_thread ?G id ?h))) = 1"
    "hq_callback (hr_sent (snd (smpp_http_client_request_thread ?G id ?h)) ! 0) = RCb_submit_sm 3 0"
    by (simp_all add: request_round room_def hand_over_def smpp_http_client_route_message_def idle_http_def)
  ultimately show thesis using that start(1) by blast
qed

section \<open>Properties\<close>





end
