(* ===== verification/Spec2Isabelle.thy ===== *)
theory Spec2Isabelle
  imports Faults Formats Delivery Binding SqlFacts HttpFacts AdminFacts ConfigFacts Conservation Daemon
begin

text \<open>
  A model of ksmppd, an SMPP server between ESMEs (SMPP clients) and Kannel bearerboxes, and the
  theorems that say it is correct. The program is src/smpp/libsmpp; every file named below is there.

  The program. An ESME connects (smpp_listener.c), its bytes are cut into PDUs and queued
  inbound; the inbound thread (smpp_queues.c) authenticates binds (smpp_esme.c, against the store,
  an HTTP service or a plugin), answers enquire_link and unbind, and turns submissions into
  messages (smpp_pdu_util.c). A submission is routed (smpp_route.c: routes of the store, an HTTP
  service or a plugin), charged, and handed to the store or to a bearerbox (smpp_bearerbox.c), and
  the submitter is answered when the store or the bearerbox has taken it. A message or report from
  a bearerbox is routed to an account, converted to deliver_sm PDUs for its best bind, and
  acknowledged to the bearerbox when the ESME answers. What cannot be delivered is kept in a store
  (smpp_database.c) on MySQL or PostgreSQL (smpp_database_mysql.c) or, for the queues, on Redis
  (smpp_database_redis.c), and polled later by the requeue threads. A cleanup thread removes dead
  binds and frees ESMEs that nothing refers to.

  The theories, in the order they build on each other:
  Prelude and Octstr hold dictionaries and byte strings with decimal numbers; Gwlib the data of
  Kannel (messages, PDUs) and the record of its functions, which is a parameter; DbUtil
  smpp_database_util.c (SQL literals, percent-encoding). ServerState has the structs as records:
  ESMEs and queued PDUs live in two heaps and are referred to by address, callbacks are
  constructors, and the tables of function pointers of the store and of the environment are
  records of functions. QueuedPdu is smpp_queued_pdu.c and the dispatch of smpp_database.c; Esme the
  binds and the choice of receivers; Listener smpp_listener.c with the blocklist of addresses;
  PduUtil and Receipts smpp_pdu_util.c; Acks the acknowledgements of smpp_queues.c; Auth the
  authentication with the HTTP client; Bearerbox and Boxes smpp_bearerbox.c; Route smpp_route.c and
  the callbacks of its users; Handlers the threads of smpp_queues.c; Cleanup the cleanup thread and
  the unbind command of smpp_esme.c. Store, SqlStore and SqlSetup are the store on a relational
  database, Redis the one on Redis. System puts the threads together as a step relation.
  HttpRouter is the HTTP router of smpp_http_client.c; HttpServer the administration server of
  smpp_http_server.c with every command the parts of the program register; Config the start of the
  program: the directives of smpp_server_cfg.def, the configuration (smpp_server.c), plugins
  (smpp_plugin.c), the methods of authentication and routing, the bearerboxes and the listener.

  What is proved. Invariant, Preservation, RoutingInv and ThreadInv show that every operation keeps
  the invariant of the server: no queue, table or callback refers to a freed ESME, each queued PDU
  is referred to once, the counters that guard the destruction of an ESME are exact, and the table
  of binds lists live ESMEs once. System makes it hold in every reachable state, and the properties
  of this theory are read off it; Runs and Faults have concrete runs that end in the four
  faults the code has. Submission shows that each submission is answered once or handed on once with the callback
  that will answer. Frames, Owed and Ownership follow the response of a submission through every
  operation of the server: Frames which operations change the settings, the pending requests and
  the messages at the bearerboxes (and that no run changes the settings), Owed that no other operation
  touches a response that a router or a bearerbox holds, Ownership that each is held once; Settlement reads off
  what a submission, an acknowledgement and a lost connection do in any reachable state, with no
  assumption about the response; Conservation that no step forgets a response; Daemon runs
  the server and the HTTP router together and shows that they run like the server alone, with every answer
  of the routing service settling its submission. Delivery shows the same for the acknowledgements of deliveries and of bearerboxes,
  and that the database router equals its specification; Binding the outcome of a bind; Formats the
  receipts, time stamps, addresses and headers. RedisRefine, RedisStore, RedisPoll and RedisFacts
  show that the Redis back end refines an abstract store of queued and claimed messages, that a
  poll is complete when its limit covers the queue, bounded in any case, and starves otherwise;
  SqlFacts that the row of a message reads back as the message and that a claimed message is not
  handed out twice. HttpFacts shows that the HTTP router keeps the requests in order, answers every request
  once and, like the database router, keeps the account of a submission; AdminFacts that no request to the administration server can fault in a
  reachable state and none has an effect without the password; ConfigFacts that a start that
  succeeds yields well-formed settings and a reachable state, and that all directives it reads
  are allowed ones. The locales state interfaces: a state machine with an invariant (System), a
  codec (DbUtil), a store whose polls claim (Store, interpreted for both back ends), a kind of
  submission (Submission, interpreted for submit_sm and data_sm), and a router (HttpFacts,
  interpreted for the HTTP and the database router).

  Conventions. An operation that dereferences a null, freed or uninitialised pointer returns None:
  theorems that say Some say that this does not happen. A lock is not data: what the code does
  under one lock is one step. The clock, the answers of the HTTP services, the bytes received and
  whether a write succeeds are inputs of a step, so a theorem over all runs is one over all of
  them. Loops are structural recursions, with two exceptions: the loop of the listener takes fuel,
  the number of its rounds, and its property holds for every fuel that covers the bytes received;
  the poll of Redis is a function with a termination proof (32 empty rounds end it). The integers
  of the program are int and nat where the code does not depend on their width; identifiers of rows
  and the conversions between long and unsigned long are taken modulo 2 ^ 64, and a text that atoi or
  atol reads is taken to fit its type.

  Parameters. Kannel's gwlib and gw (charset conversion, splitting, regular expressions, packing
  of PDUs, calendar, the parsed configuration file), libuuid, the SQL servers, Redis, jansson, the
  dynamic loader and the HTTP services are not under src/; they are fields of the records gwlib,
  sql_lib, redis_lib, env, cfg and loader. What a theorem needs of
  them is a hypothesis with a witness on a small instance: redis_documented states the documented
  effect of LPUSH, LPOP, INCR and SADD, excludes_pending that NOT IN excludes.

  Not modelled: memory management that cannot fail in a way the state shows, log lines other than
  the two access logs, starting and joining threads, signals and the command line (ksmppd.c), the
  shutdown of every part, which frees what it built, and what a plugin does, of which only the
  functions it registers are seen. The first bind of a connection only: the step relation leaves
  out a second bind on the same connection, for which the invariant fails (second_bind_dangles).
\<close>

section \<open>Properties of every run\<close>

lemma pending_claims_member:
  "(p, i) \<in> set (pending_claims s) \<longleftrightarrow> (\<exists>x \<in> set (s_pending_routes s). cb_claim (fst x) = Some (p, i))"
proof -
  have "y \<in> set (List.map_filter (cb_claim \<circ> fst) xs) \<longleftrightarrow> (\<exists>x \<in> set xs. cb_claim (fst x) = Some y)"
    for xs :: "(route_callback \<times> sms) list" and y
    by (induction xs) (auto simp: List.map_filter_simps split: option.splits)
  then show ?thesis by (simp add: pending_claims_def)
qed

lemma pending_claims_count:
  "entries_of i (pending_claims s) = length (filter (\<lambda>x. map_option snd (cb_claim (fst x)) = Some i) (s_pending_routes s))"
proof -
  have "entries_of i (List.map_filter (cb_claim \<circ> fst) xs) = length (filter (\<lambda>x. map_option snd (cb_claim (fst x)) = Some i) xs)"
    for xs :: "(route_callback \<times> sms) list"
    by (induction xs) (auto simp: List.map_filter_simps entries_of_def split: option.splits)
  then show ?thesis by (simp add: pending_claims_def)
qed

text \<open>
  C7: In every reachable state the counters the cleanup thread relies on are exact: the queue
  counters of an ESME are the numbers of its entries in the outbound and inbound queues, and the
  router never holds more of its submissions than the pending counter says.
\<close>

theorem reachable_counters_exact:
  assumes "server_init s0" and "server_step\<^sup>*\<^sup>* s0 s" and "get_esme s i = Some e"
  shows "e_outbound_queued e = length (filter (\<lambda>x. snd x = i) (s_outbound_queue s))
    \<and> e_inbound_queued e = length (filter (\<lambda>x. snd x = i) (s_inbound_queue s))
    \<and> length (filter (\<lambda>x. map_option snd (cb_claim (fst x)) = Some i) (s_pending_routes s)) \<le> e_pending_routing e"
proof -
  have inv: "server_inv {} s" using srv.reachable_inv assms(1,2) by blast
  have "e_outbound_queued e = entries_of i (s_outbound_queue s)" "e_inbound_queued e = entries_of i (s_inbound_queue s)"
    "entries_of i (pending_claims s) \<le> e_pending_routing e"
    using inv assms(3) unfolding server_inv_def esmes_ok_def by auto
  then show ?thesis unfolding pending_claims_count by (simp add: entries_of_def)
qed

theorem reachable_counters_exact_witness:
  "map_option (\<lambda>s. map_option e_outbound_queued (get_esme s 0)) run_bound = Some (Some 1)
   \<and> map_option (\<lambda>s. length (filter (\<lambda>x. snd x = 0) (s_outbound_queue s))) run_bound = Some 1"
proof -
  obtain s where s: "run_bound = Some s" "server_init run_server" "server_step\<^sup>*\<^sup>* run_server s" using run_bound_reachable run_server_init by blast
  obtain e where e: "get_esme s 0 = Some e" "e_outbound_queued e = 1" using run_bound_facts(3) [unfolded s(1)] by auto
  show ?thesis using reachable_counters_exact [OF s(2,3) e(1)] e unfolding s(1) by auto
qed

text \<open>
  C1: In every reachable state an entry of the outbound or inbound queue and a submission the
  router holds belong to an ESME that is still allocated, and to no other: the cleanup thread
  never frees an ESME such an entry refers to.
\<close>

theorem reachable_queues_never_orphaned:
  assumes "server_init s0" and "server_step\<^sup>*\<^sup>* s0 s"
    and "(p, i) \<in> set (s_outbound_queue s) \<union> set (s_inbound_queue s) \<or> (\<exists>x \<in> set (s_pending_routes s). cb_claim (fst x) = Some (p, i))"
  shows "(\<exists>e. get_esme s i = Some e) \<and> (\<forall>q. get_pdu s p = Some q \<longrightarrow> q_esme q = Some i)"
proof -
  have inv: "server_inv {} s" using srv.reachable_inv assms(1,2) by blast
  have cl: "(p, i) \<in> queue_claims s" using assms(3) by (auto simp: queue_claims_def pending_claims_member)
  then have "get_esme s i \<noteq> None" using inv unfolding server_inv_def esmes_ok_def by blast
  then show ?thesis using inv_queue_entry(1) [OF inv cl] by auto
qed

theorem reachable_queues_never_orphaned_witness:
  "map_option (\<lambda>s. get_esme s 0 = None) run_bound = Some False"
proof -
  obtain s where s: "run_bound = Some s" "server_init run_server" "server_step\<^sup>*\<^sup>* run_server s" using run_bound_reachable run_server_init by blast
  have "s_outbound_queue s = [(1, 0)]" using run_bound_facts(1) [unfolded s(1)] by simp
  then show ?thesis using reachable_queues_never_orphaned [OF s(2,3), of 1 0] unfolding s(1) by auto
qed



lemma inv_live_binds:
  assumes "server_inv {} s" and "dict_get (s_esmes s) k = Some g" and "get_esme t = get_esme s"
  shows "\<exists>bs. live_binds t (g_binds g) = Some bs"
proof (rule live_binds_total)
  show "\<forall>i \<in> set (g_binds g). get_esme t i \<noteq> None"
    using assms unfolding server_inv_def binds_ok_def by fastforce
qed

lemma inv_keys_with_reader:
  assumes "server_inv {} s" and "get_esme t = get_esme s" and "s_esmes t = s_esmes s"
  shows "\<exists>ks'. keys_with_reader t ks = Some ks' \<and> set ks' \<subseteq> dom (dict_get (s_esmes s))"
proof (induction ks)
  case (Cons k ks)
  show ?case
  proof (cases "dict_get (s_esmes s) k")
    case (Some g)
    then obtain bs where "live_binds t (g_binds g) = Some bs" using inv_live_binds [OF assms(1) _ assms(2)] by blast
    then show ?thesis using Cons Some assms(3) by auto
  qed (use Cons assms(3) in auto)
qed simp

lemma inv_collect_readers:
  assumes "server_inv {} s" and "get_esme t = get_esme s" and "s_esmes t = s_esmes s" and "set ks \<subseteq> dom (dict_get (s_esmes s))"
  shows "\<exists>rs. collect_readers b t ks = Some rs"
  using assms(4)
proof (induction ks)
  case (Cons k ks)
  then obtain g rest where g: "dict_get (s_esmes s) k = Some g" "collect_readers b t ks = Some rest" by auto
  then obtain bs where "live_binds t (g_binds g) = Some bs" using inv_live_binds [OF assms(1) _ assms(2)] by blast
  then show ?case using g assms(3) by simp
qed simp

lemma inv_get_readers:
  assumes "server_inv {} s"
  shows "\<exists>rs s'. smpp_esme_global_get_readers E b s = Some (rs, s')"
proof (cases "c_database_enable_queue (s_cfg s)")
  case True
  obtain queued t where t: "smpp_database_get_esmes_with_queued E s = (queued, t)" by fastforce
  have "same_but_db s t" using database_frames(12) [of s E] t by simp
  then have f: "get_esme t = get_esme s" "s_esmes t = s_esmes s" by (auto simp: same_but_db_def get_esme_def fun_eq_iff)
  obtain ks' where ks': "keys_with_reader t queued = Some ks'" "set ks' \<subseteq> dom (dict_get (s_esmes s))"
    using inv_keys_with_reader [OF assms f] by blast
  obtain rs where "collect_readers b t ks' = Some rs" using inv_collect_readers [OF assms f ks'(2)] by blast
  with True t ks' show ?thesis by (simp add: smpp_esme_global_get_readers_def)
next
  case False
  have "set (dict_keys (s_esmes s)) \<subseteq> dom (dict_get (s_esmes s))" by simp
  then obtain rs where "collect_readers b s (dict_keys (s_esmes s)) = Some rs" using inv_collect_readers [OF assms] by blast
  with False show ?thesis by (simp add: smpp_esme_global_get_readers_def)
qed

lemma inv_find_best_receiver:
  assumes "server_inv {} s"
  shows "\<exists>r. smpp_esme_find_best_receiver s sid = Some r \<and> (\<forall>i. r = Some i \<longrightarrow>
        (\<exists>e. get_esme s i = Some e \<and> e_connected e \<and> can_receive (e_bind_type e)))"
proof (cases "\<exists>k g. sid = Some k \<and> k \<noteq> [] \<and> dict_get (s_esmes s) (octstr_lower k) = Some g")
  case True
  then obtain k g where k: "sid = Some k" "k \<noteq> []" "dict_get (s_esmes s) (octstr_lower k) = Some g" by blast
  obtain bs where bs: "live_binds s (g_binds g) = Some bs" using inv_live_binds [OF assms k(3) refl] by blast
  have "\<exists>e. get_esme s i = Some e \<and> e_connected e \<and> can_receive (e_bind_type e)"
    if p: "pick_best None (filter (eligible \<circ> snd) bs) = Some (i, e)" for i e
  proof -
    have "(i, e) \<in> set bs" "eligible e" using pick_best_in [OF p] by auto
    then show ?thesis using live_binds_member [OF bs] by (auto simp: eligible_def)
  qed
  then show ?thesis using k bs by (auto simp: smpp_esme_find_best_receiver_def)
qed (auto simp: smpp_esme_find_best_receiver_def split: option.splits)



section \<open>Faults that runs reach\<close>

text \<open>
  A connection that has never bound can stop the server: from an initial state, a run that accepts one
  connection and reads one deliver_sm_resp from it reaches a state in which the inbound thread, taking that PDU from its
  queue, dereferences the pointer to the account that only a bind sets.
\<close>

lemma stray_response_run:
  "\<exists>s0 s E. server_init s0 \<and> server_step\<^sup>*\<^sup>* s0 s \<and> s_inbound_queue s = [(0, 0)] \<and> first_bind 0 s
     \<and> smpp_queues_inbound_thread E 0 (s :: unit server) = None"
proof -
  obtain s where s: "run stray_events run_server = Some s" using stray_facts(1) by auto
  have "server_step\<^sup>*\<^sup>* run_server s" using s run_iff_reachable by blast
  moreover have "s_inbound_queue s = [(0, 0)]" using stray_facts(1) [unfolded s] by simp
  moreover have "first_bind 0 s" using stray_facts(2) [unfolded s] bind_allowed_iff by auto
  moreover have "smpp_queues_inbound_thread (sends (Unbind 1)) 0 s = None" using stray_facts(3) [unfolded s] by simp
  ultimately show ?thesis using run_server_init by blast
qed

text \<open>
  A bound ESME can stop the server by answering a delivery before it is sent: a run reaches a state in
  which the outbound queue still holds a delivery whose PDU the answer has freed, and the outbound thread, taking that
  entry, dereferences the freed PDU.
\<close>

lemma early_response_run:
  "\<exists>s0 s E n p i. server_init s0 \<and> server_step\<^sup>*\<^sup>* s0 s \<and> n < length (s_outbound_queue s) \<and> s_outbound_queue s ! n = (p, i)
     \<and> get_pdu s p = None \<and> smpp_queues_outbound_thread E n (s :: unit server) = None"
proof -
  obtain s where s: "run early_events run_server = Some s" using early_facts(1) by auto
  have "server_step\<^sup>*\<^sup>* run_server s" using s run_iff_reachable by blast
  moreover have q: "s_outbound_queue s = [(1, 0), (2, 0)]" using early_facts(1) [unfolded s] by simp
  moreover have "1 < length (s_outbound_queue s)" "s_outbound_queue s ! 1 = (2, 0)" by (simp_all add: q)
  moreover have "get_pdu s 2 = None" using early_facts(2) [unfolded s] by simp
  moreover have "smpp_queues_outbound_thread (sends (Unbind 1)) 1 s = None" using early_facts(3) [unfolded s] by simp
  ultimately show ?thesis using run_server_init by blast
qed

text \<open>
  C40: Responses nobody asked for can stop the server. A deliver_sm_resp that arrives before any
  bind brings it to a state in which the inbound thread, taking that PDU, dereferences the pointer
  to the account that only a bind sets; and a bound ESME that answers a delivery before it is sent
  brings it to a state in which the outbound queue holds a delivery whose PDU that answer has freed,
  and the outbound thread, taking that entry, dereferences it.
\<close>

theorem unsolicited_responses_fault:
  "(\<exists>s0 s E. server_init s0 \<and> server_step\<^sup>*\<^sup>* s0 s \<and> s_inbound_queue s = [(0, 0)] \<and> first_bind 0 s
     \<and> smpp_queues_inbound_thread E 0 (s :: unit server) = None)
   \<and> (\<exists>s0 s E n p i. server_init s0 \<and> server_step\<^sup>*\<^sup>* s0 s \<and> n < length (s_outbound_queue s) \<and> s_outbound_queue s ! n = (p, i)
     \<and> get_pdu s p = None \<and> smpp_queues_outbound_thread E n (s :: unit server) = None)"
  using stray_response_run early_response_run by blast

text \<open>
  C38: A second bind on one connection, which the code accepts and the step relation leaves out,
  leads to the use of a freed ESME. From a reachable state the inbound thread handles the second
  bind and lists the connection twice; after steps of the server the ESME is destroyed while its
  account still lists it, and the choice of a receiver dereferences it. So the invariants of the
  reachable states need the restriction to the first bind.
\<close>

theorem second_bind_dangles:
  "\<exists>s0 s1 s2 s3 E g. server_init s0 \<and> server_step\<^sup>*\<^sup>* s0 s1 \<and> smpp_queues_inbound_thread E 0 s1 = Some s2
     \<and> server_step\<^sup>*\<^sup>* s2 s3 \<and> dict_get (s_esmes s3) ''abc'' = Some g \<and> g_binds g = [0] \<and> get_esme s3 0 = None
     \<and> smpp_esme_find_best_receiver (s3 :: unit server) (Some ''abc'') = None"
proof -
  obtain s2 s3 where s: "rebound = Some s2" "run expiring_events s2 = Some s3" using rebound_facts(3) by (auto simp: bind_eq_Some_conv)
  obtain s1 where s1: "run (bind_events @ [Ev_read (sends rebind) 0 [CHR 0x02, CHR 0x20] False 3]) run_server = Some s1"
    "smpp_queues_inbound_thread (sends rebind) 0 s1 = Some s2"
    using s(1) unfolding rebound_def by (auto simp: bind_eq_Some_conv)
  have "server_step\<^sup>*\<^sup>* run_server s1" "server_step\<^sup>*\<^sup>* s2 s3" using s1(1) s(2) run_iff_reachable by blast+
  moreover obtain g where "dict_get (s_esmes s3) ''abc'' = Some g" "g_binds g = [0]" using rebound_facts(2) by (auto simp: s)
  moreover have "get_esme s3 0 = None" using rebound_facts(3) by (simp add: s)
  moreover have "smpp_esme_find_best_receiver s3 (Some ''abc'') = None" using rebound_facts(4) by (simp add: s)
  ultimately show ?thesis using run_server_init s1(2) by blast
qed

text \<open>
  C37: A client that disconnects before its submission is acknowledged can stop the server. A run
  of a bind, a submission that is sent to the bearerbox, the disconnect and one cleanup round
  reaches a state in which the ESME is freed while the message is still outstanding with the
  callback for its response PDU, which refers to the ESME; when the bearerbox then acknowledges
  the message, its thread dereferences the freed ESME.
\<close>

theorem late_acknowledgement_faults:
  "\<exists>s0 s E p q i. server_init s0 \<and> server_step\<^sup>*\<^sup>* s0 s
     \<and> map (map_option (map (bm_callback \<circ> snd)) \<circ> bb_open_acks) (s_bearerboxes s) = [Some [BCb_submit_sm p]]
     \<and> get_pdu s p = Some q \<and> q_esme q = Some i \<and> get_esme s i = None
     \<and> smpp_bearerbox_inbound_thread E 0 (Msg_ack 0 ack_success) (s :: unit server) = None"
proof -
  obtain s where s: "run late_events late_server = Some s" using late_facts(2) by auto
  have "server_step\<^sup>*\<^sup>* late_server s" using s run_iff_reachable by blast
  moreover obtain q where "get_pdu s 3 = Some q" "q_esme q = Some 0" using late_facts(3) [unfolded s] by auto
  moreover have "get_esme s 0 = None" using late_facts(2) [unfolded s] by simp
  moreover have "map (map_option (map (bm_callback \<circ> snd)) \<circ> bb_open_acks) (s_bearerboxes s) = [Some [BCb_submit_sm 3]]"
    using late_facts(1) [unfolded s] by simp
  moreover have "smpp_bearerbox_inbound_thread (sends (Unbind 1)) 0 (Msg_ack 0 ack_success) s = None" using late_facts(4) [unfolded s] by simp
  ultimately show ?thesis using late_server_init
    by - (rule exI [of _ late_server], rule exI [of _ s], rule exI [of _ "sends (Unbind 1)"], rule exI [of _ 3], rule exI [of _ q],
        rule exI [of _ 0], (intro conjI; assumption))
qed

end
